(* ===== verification/Prelude.thy ===== *)
theory Prelude
  imports Main
begin

text \<open>
  Shared vocabulary of the development: Go's 64-bit integers and truncating division,
  the sentinel errors of \<open>internal/app/errors.go\<close> and \<open>internal/domain/errors.go\<close>
  with the PostgreSQL errors the stores distinguish, the transaction monad in which
  every store operation is written (a state transformer that may return an error),
  the preservation of invariants by it, and generic lemmas on tables kept as row lists.
\<close>

named_theorems tx_simps \<open>unfolding a transaction step by step\<close>
named_theorems domain_simps \<open>domain state machines\<close>
named_theorems always_intros \<open>introduction rules for invariants kept on every outcome\<close>

section \<open>Go integers\<close>

type_synonym int64 = int
type_synonym int32 = int
type_synonym time = int \<comment> \<open>nanoseconds; Go's zero time is 0\<close>
type_synonym duration = int

definition MinInt64 :: int where "MinInt64 = - (2 ^ 63)"
definition MaxInt64 :: int where "MaxInt64 = 2 ^ 63 - 1"
definition MaxInt32 :: int where "MaxInt32 = 2 ^ 31 - 1"

definition wrap64 :: "int \<Rightarrow> int" where
  "wrap64 x = (x + 2 ^ 63) mod 2 ^ 64 - 2 ^ 63"

definition is_int64 :: "int \<Rightarrow> bool" where
  "is_int64 x \<longleftrightarrow> MinInt64 \<le> x \<and> x \<le> MaxInt64"

definition wrap32 :: "int \<Rightarrow> int" where
  "wrap32 x = (x + 2 ^ 31) mod 2 ^ 32 - 2 ^ 31"

definition is_int32 :: "int \<Rightarrow> bool" where
  "is_int32 x \<longleftrightarrow> - (2 ^ 31) \<le> x \<and> x \<le> MaxInt32"

text \<open>Go's integer division truncates towards zero.\<close>

definition go_div :: "int \<Rightarrow> int \<Rightarrow> int" where
  "go_div a b = sgn a * sgn b * (\<bar>a\<bar> div \<bar>b\<bar>)"

lemma wrap64_id [simp]: "is_int64 x \<Longrightarrow> wrap64 x = x"
  by (simp add: wrap64_def is_int64_def MinInt64_def MaxInt64_def)

lemma wrap64_range: "is_int64 (wrap64 x)"
  using pos_mod_bound [of "2 ^ 64" "x + 2 ^ 63"] pos_mod_sign [of "2 ^ 64" "x + 2 ^ 63"]
  by (simp add: wrap64_def is_int64_def MinInt64_def MaxInt64_def)

lemma go_div_nonneg [simp]: "0 \<le> a \<Longrightarrow> 0 < b \<Longrightarrow> go_div a b = a div b"
  by (cases "a = 0") (simp_all add: go_div_def)


section \<open>Errors\<close>

text \<open>
  The sentinel errors of the application layer that the modelled code returns, the
  sentinels of the domain layer (prefix \<open>Domain\<close>), \<open>pgx.ErrNoRows\<close>, and the classes
  of PostgreSQL errors. Wrapping with \<open>fmt.Errorf\<close> and \<open>%w\<close> keeps the sentinel that
  \<open>errors.Is\<close> finds, so a wrapped error is the sentinel itself.
\<close>

datatype peripheral_error =
    ErrEncryptionFailed | ErrDecryptionFailed | ErrUnknownKeyVersion
  | ErrBankEncryptionFailed | ErrBankDecryptionFailed | ErrUnknownBankKeyVersion
  | ErrInvalidPaymentInstruction | ErrInvalidWebhookSignature | ErrWebhookReplay
  | ErrInventoryNotFound | ErrInventoryAlreadyExists | ErrImportLimitExceeded
  | ErrUpdateInProgress | ErrDuplicatePaymentEvent | ErrInvalidCallback
  | ErrDuplicateProvider | ErrProviderDisabled | ErrUnsupportedCapability
  | ErrCheckpointLeaseUnavailable | ErrMalformedTransactionPage
  | ErrInventoryUnavailable | ErrOrderNotOwned

datatype error =
    ErrInvalidInput | ErrNotFound | ErrUnauthorized | ErrForbidden | ErrUserBlocked
  | ErrSessionExpired | ErrStaleVersion | ErrConflict | ErrDuplicateUpdate
  | ErrInsufficientInventory | ErrInvalidInventoryState | ErrReservationNotOwned
  | ErrReservationExpired | ErrUnsafeReservationRelease
  | ErrOrderNotFound | ErrInvalidOrderState | ErrOrderExpired | ErrInvalidQuantity
  | ErrQuantityLimitExceeded | ErrMoneyOverflow | ErrProductInactive | ErrCategoryInactive
  | ErrBankAccountNotFound | ErrBankAccountInactive | ErrPaymentReferenceCollision
  | ErrUnknownPaymentProvider | ErrPaymentEventConflict | ErrPaymentRequiresReview
  | ErrWalletNotFound | ErrInsufficientWalletBalance | ErrInvalidWalletAmount
  | ErrUnsafePaymentResolution | ErrPaymentTransactionConflict | ErrOrderAlreadyPaid
  | ErrDeliveryNotFound | ErrInvalidDeliveryState | ErrDeliveryLeaseLost
  | ErrDeliveryInventoryMismatch | ErrDeliveryMessageTooLarge | ErrUnsafeDeliveryResolution
  | DomainErrInvalidMoney | DomainErrMoneyOverflow | DomainErrInvalidQuantity
  | DomainErrInvalidStatus | DomainErrInvalidOrderTransition
  | ErrInvalidInventoryPayload
  | Peripheral peripheral_error \<comment> \<open>sentinels of the ciphers, the front end and the providers\<close>
  | ContextCanceled | ContextDeadlineExceeded
  | PgxErrNoRows
  | PgUniqueViolation \<comment> \<open>SQLSTATE 23505\<close>
  | PgCheckViolation \<comment> \<open>SQLSTATE 23514 and other integrity errors\<close>
  | PgNumericOutOfRange \<comment> \<open>SQLSTATE 22003\<close>
  | ErrOther string \<comment> \<open>an error created on the spot, with its text\<close>

section \<open>The transaction monad\<close>

type_synonym ('s, 'a) tx = "'s \<Rightarrow> (error + 'a) \<times> 's"

definition returnE :: "'a \<Rightarrow> ('s, 'a) tx" where
  "returnE x = (\<lambda>s. (Inr x, s))"

definition throwE :: "error \<Rightarrow> ('s, 'a) tx" where
  "throwE e = (\<lambda>s. (Inl e, s))"

definition bindE :: "('s, 'a) tx \<Rightarrow> ('a \<Rightarrow> ('s, 'b) tx) \<Rightarrow> ('s, 'b) tx" where
  "bindE m f = (\<lambda>s. case m s of (Inl e, s') \<Rightarrow> (Inl e, s') | (Inr x, s') \<Rightarrow> f x s')"

text \<open>Go's \<open>x, err := f()\<close> when the caller inspects \<open>err\<close>: the error becomes a value.\<close>

definition attempt :: "('s, 'a) tx \<Rightarrow> ('s, error + 'a) tx" where
  "attempt m = (\<lambda>s. case m s of (r, s') \<Rightarrow> (Inr r, s'))"

definition mapErrE :: "(error \<Rightarrow> error) \<Rightarrow> ('s, 'a) tx \<Rightarrow> ('s, 'a) tx" where
  "mapErrE f m = (\<lambda>s. case m s of (Inl e, s') \<Rightarrow> (Inl (f e), s') | (Inr x, s') \<Rightarrow> (Inr x, s'))"

text \<open>\<open>if errors.Is(err, pgx.ErrNoRows) { return e }\<close>\<close>

definition noRows :: "error \<Rightarrow> ('s, 'a) tx \<Rightarrow> ('s, 'a) tx" where
  "noRows e m = mapErrE (\<lambda>x. if x = PgxErrNoRows then e else x) m"

text \<open>\<open>mapConstraintError\<close>: a unique violation is a conflict.\<close>

definition mapConstraintError :: "error \<Rightarrow> error" where
  "mapConstraintError e = (if e = PgUniqueViolation then ErrConflict else e)"

definition askE :: "('s \<Rightarrow> 'a) \<Rightarrow> ('s, 'a) tx" where
  "askE g = (\<lambda>s. (Inr (g s), s))"

definition modifyE :: "('s \<Rightarrow> 's) \<Rightarrow> ('s, unit) tx" where
  "modifyE g = (\<lambda>s. (Inr (), g s))"

definition ofSum :: "error + 'a \<Rightarrow> ('s, 'a) tx" where
  "ofSum r = (\<lambda>s. (r, s))"

primrec forE :: "'a list \<Rightarrow> ('a \<Rightarrow> ('s, unit) tx) \<Rightarrow> ('s, unit) tx" where
  "forE [] f = returnE ()"
| "forE (x # xs) f = bindE (f x) (\<lambda>_. forE xs f)"

primrec mapE :: "('a \<Rightarrow> ('s, 'b) tx) \<Rightarrow> 'a list \<Rightarrow> ('s, 'b list) tx" where
  "mapE f [] = returnE []"
| "mapE f (x # xs) = bindE (f x) (\<lambda>y. bindE (mapE f xs) (\<lambda>ys. returnE (y # ys)))"

lemma returnE_app [tx_simps, simp]: "returnE x s = (Inr x, s)"
  by (simp add: returnE_def)

lemma throwE_app [tx_simps, simp]: "throwE e s = (Inl e, s)"
  by (simp add: throwE_def)

lemma askE_app [tx_simps, simp]: "askE g s = (Inr (g s), s)"
  by (simp add: askE_def)

lemma modifyE_app [tx_simps, simp]: "modifyE g s = (Inr (), g s)"
  by (simp add: modifyE_def)

lemma ofSum_app [tx_simps, simp]: "ofSum r s = (r, s)"
  by (simp add: ofSum_def)

lemma bindE_app [tx_simps]:
  "bindE m f s = (case m s of (Inl e, s') \<Rightarrow> (Inl e, s') | (Inr x, s') \<Rightarrow> f x s')"
  by (simp add: bindE_def)

lemma attempt_app [tx_simps]: "attempt m s = (Inr (fst (m s)), snd (m s))"
  by (simp add: attempt_def split: prod.splits)

lemma noRows_app [tx_simps]:
  "noRows e m s = (case m s of (Inl x, s') \<Rightarrow> (Inl (if x = PgxErrNoRows then e else x), s')
                             | (Inr x, s') \<Rightarrow> (Inr x, s'))"
  by (simp add: noRows_def mapErrE_def)

lemma mapErrE_app [tx_simps]:
  "mapErrE f m s = (case m s of (Inl e, s') \<Rightarrow> (Inl (f e), s') | (Inr x, s') \<Rightarrow> (Inr x, s'))"
  by (simp add: mapErrE_def)

text \<open>The monad laws.\<close>

lemma bindE_returnE [simp]: "bindE (returnE x) f = f x"
  by (simp add: fun_eq_iff bindE_app)

lemma bindE_throwE [simp]: "bindE (throwE e) f = throwE e"
  by (simp add: fun_eq_iff bindE_app)

lemma bindE_assoc: "bindE (bindE m f) g = bindE m (\<lambda>x. bindE (f x) g)"
  by (simp add: fun_eq_iff bindE_app split: prod.splits sum.splits)

text \<open>
  A run that succeeds, taken apart: the elimination rules read a successful
  transaction as the sequence of its successful steps.
\<close>

lemma bindE_Inr_iff [simp]:
  "bindE m f s = (Inr r, s') \<longleftrightarrow> (\<exists>x t. m s = (Inr x, t) \<and> f x t = (Inr r, s'))"
  by (auto simp: bindE_app split: prod.splits sum.splits)

lemma bindE_InrE:
  assumes "bindE m f s = (Inr r, s')"
  obtains x t where "m s = (Inr x, t)" "f x t = (Inr r, s')"
  using assms by auto

lemma attempt_Inr_iff [simp]: "attempt m s = (Inr r, s') \<longleftrightarrow> m s = (r, s')"
  by (auto simp: attempt_app prod_eq_iff)

lemma mapErrE_Inr_iff [simp]: "mapErrE f m s = (Inr r, s') \<longleftrightarrow> m s = (Inr r, s')"
  by (auto simp: mapErrE_app split: prod.splits sum.splits)

lemma noRows_Inr_iff [simp]: "noRows e m s = (Inr r, s') \<longleftrightarrow> m s = (Inr r, s')"
  by (simp add: noRows_def)

section \<open>Invariants of transactions\<close>

text \<open>
  \<open>always I m\<close>: from a state satisfying \<open>I\<close>, every run of \<open>m\<close>, successful or not, ends in
  a state satisfying \<open>I\<close>. The rules follow the combinators, so that the invariant of a
  handler reduces to the invariant of the statements it issues.
\<close>

definition always :: "('s \<Rightarrow> bool) \<Rightarrow> ('s, 'a) tx \<Rightarrow> bool" where
  "always I m \<longleftrightarrow> (\<forall>s. I s \<longrightarrow> I (snd (m s)))"

text \<open>\<open>pure_tx m\<close>: \<open>m\<close> reads and never writes.\<close>

definition pure_tx :: "('s, 'a) tx \<Rightarrow> bool" where
  "pure_tx m \<longleftrightarrow> (\<forall>s. snd (m s) = s)"

lemma alwaysI: "(\<And>s. I s \<Longrightarrow> I (snd (m s))) \<Longrightarrow> always I m"
  by (simp add: always_def)

lemma alwaysD: "always I m \<Longrightarrow> I s \<Longrightarrow> m s = (r, s') \<Longrightarrow> I s'"
  by (metis always_def snd_conv)

lemma always_returnE [always_intros]: "always I (returnE x)"
  by (rule alwaysI) simp

lemma always_throwE [always_intros]: "always I (throwE e)"
  by (rule alwaysI) simp

lemma always_ofSum [always_intros]: "always I (ofSum r)"
  by (rule alwaysI) simp

lemma always_askE [always_intros]: "always I (askE g)"
  by (rule alwaysI) simp

lemma always_bindE [always_intros]:
  assumes "always I m" "\<And>x. always I (f x)"
  shows "always I (bindE m f)"
proof (rule alwaysI)
  fix s
  assume "I s"
  with assms(1) have "I (snd (m s))" by (simp add: always_def)
  with assms(2) show "I (snd (bindE m f s))"
    by (auto simp: bindE_app always_def split: prod.splits sum.splits)
qed

lemma always_attempt [always_intros]: "always I m \<Longrightarrow> always I (attempt m)"
  by (simp add: always_def attempt_app)

lemma always_mapErrE [always_intros]: "always I m \<Longrightarrow> always I (mapErrE f m)"
  by (auto simp: always_def mapErrE_app split: prod.splits sum.splits)

lemma always_noRows [always_intros]: "always I m \<Longrightarrow> always I (noRows e m)"
  unfolding noRows_def by (rule always_mapErrE)

lemma always_if [always_intros]:
  "(b \<Longrightarrow> always I m) \<Longrightarrow> (\<not> b \<Longrightarrow> always I n) \<Longrightarrow> always I (if b then m else n)"
  by simp

lemma always_case_sum [always_intros]:
  "(\<And>e. x = Inl e \<Longrightarrow> always I (f e)) \<Longrightarrow> (\<And>v. x = Inr v \<Longrightarrow> always I (g v)) \<Longrightarrow>
   always I (case x of Inl e \<Rightarrow> f e | Inr v \<Rightarrow> g v)"
  by (simp split: sum.splits)

lemma always_case_option [always_intros]:
  "(x = None \<Longrightarrow> always I m) \<Longrightarrow> (\<And>v. x = Some v \<Longrightarrow> always I (g v)) \<Longrightarrow>
   always I (case x of None \<Rightarrow> m | Some v \<Rightarrow> g v)"
  by (simp split: option.splits)

lemma always_case_list [always_intros]:
  "(x = [] \<Longrightarrow> always I m) \<Longrightarrow> (\<And>v vs. x = v # vs \<Longrightarrow> always I (g v vs)) \<Longrightarrow>
   always I (case x of [] \<Rightarrow> m | v # vs \<Rightarrow> g v vs)"
  by (simp split: list.splits)

lemma always_case_prod [always_intros]:
  "(\<And>a b. p = (a, b) \<Longrightarrow> always I (f a b)) \<Longrightarrow> always I (case p of (a, b) \<Rightarrow> f a b)"
  by (simp split: prod.splits)

lemma always_forE [always_intros]: "(\<And>x. always I (f x)) \<Longrightarrow> always I (forE xs f)"
  by (induction xs) (auto intro: always_intros)

lemma pure_tx_always: "pure_tx m \<Longrightarrow> always I m"
  by (simp add: pure_tx_def always_def)

lemma pure_txD: "pure_tx m \<Longrightarrow> m s = (r, s') \<Longrightarrow> s' = s"
  by (metis pure_tx_def snd_conv)

lemma pure_attempt [simp, intro]: "pure_tx m \<Longrightarrow> pure_tx (attempt m)"
  by (simp add: pure_tx_def attempt_app)

section \<open>Tables as row lists\<close>

definition updateWhere :: "('r \<Rightarrow> bool) \<Rightarrow> ('r \<Rightarrow> 'r) \<Rightarrow> 'r list \<Rightarrow> 'r list" where
  "updateWhere p f rows = map (\<lambda>r. if p r then f r else r) rows"

text \<open>No two positions of a table hold rows that clash on a unique index.\<close>

fun noClash :: "('r \<Rightarrow> 'r \<Rightarrow> bool) \<Rightarrow> 'r list \<Rightarrow> bool" where
  "noClash q [] \<longleftrightarrow> True"
| "noClash q (r # rs) \<longleftrightarrow> (\<forall>x \<in> set rs. \<not> q r x \<and> \<not> q x r) \<and> noClash q rs"

lemma set_updateWhere:
  "set (updateWhere p f rows) = (\<lambda>r. if p r then f r else r) ` set rows"
  by (simp add: updateWhere_def)

lemma length_updateWhere [simp]: "length (updateWhere p f rows) = length rows"
  by (simp add: updateWhere_def)

lemma updateWhere_Nil [simp]: "updateWhere p f [] = []"
  by (simp add: updateWhere_def)

lemma updateWhere_id: "(\<And>r. r \<in> set rows \<Longrightarrow> \<not> p r) \<Longrightarrow> updateWhere p f rows = rows"
  by (simp add: updateWhere_def map_idI)

lemma map_updateWhere:
  "(\<And>r. r \<in> set rows \<Longrightarrow> p r \<Longrightarrow> k (f r) = k r) \<Longrightarrow> map k (updateWhere p f rows) = map k rows"
  by (simp add: updateWhere_def)

lemma noClash_append:
  "noClash q (xs @ ys) \<longleftrightarrow>
     noClash q xs \<and> noClash q ys \<and> (\<forall>x \<in> set xs. \<forall>y \<in> set ys. \<not> q x y \<and> \<not> q y x)"
  by (induction xs) auto

lemma noClash_key:
  "noClash (\<lambda>a b. k a = k b) rows \<longleftrightarrow> distinct (map k rows)"
  by (induction rows) (auto simp: image_iff eq_commute)

lemma distinct_map_inj: "distinct (map k xs) \<Longrightarrow> x \<in> set xs \<Longrightarrow> y \<in> set xs \<Longrightarrow> k x = k y \<Longrightarrow> x = y"
  by (simp add: distinct_map inj_on_def)

lemma find_Some_iff': "find p xs = Some x \<Longrightarrow> x \<in> set xs \<and> p x"
  by (auto simp: find_Some_iff)

end
