(* ===== verification/Money.thy ===== *)
theory Money
  imports Prelude
begin

text \<open>
  \<open>internal/domain/money.go\<close>: a non-negative amount of VND held in an \<open>int64\<close>. The
  arithmetic is Go's (every result wraps at 64 bits); the lemmas show that the guards
  of \<open>Add\<close> and \<open>Multiply\<close> keep the wrap-around from ever happening.
\<close>

type_synonym Money = int64

definition NewMoney :: "int64 \<Rightarrow> error + Money" where
  "NewMoney value = (if value < 0 then Inl DomainErrInvalidMoney else Inr value)"

definition Money_Int64 :: "Money \<Rightarrow> int64" where
  "Money_Int64 m = m"

definition Money_Add :: "Money \<Rightarrow> Money \<Rightarrow> error + Money" where
  "Money_Add m other =
    (if m < 0 \<or> other < 0 then Inl DomainErrInvalidMoney
     else if m > wrap64 (MaxInt64 - other) then Inl DomainErrMoneyOverflow
     else Inr (wrap64 (m + other)))"

definition Money_Multiply :: "Money \<Rightarrow> int32 \<Rightarrow> error + Money" where
  "Money_Multiply m quantity =
    (if m < 0 then Inl DomainErrInvalidMoney
     else if quantity \<le> 0 then Inl DomainErrInvalidQuantity
     else if m \<noteq> 0 \<and> quantity > go_div MaxInt64 m then Inl DomainErrMoneyOverflow
     else Inr (wrap64 (m * quantity)))"

lemma le_div_iff_mult_le: "0 < (c::int) \<Longrightarrow> a \<le> b div c \<longleftrightarrow> a * c \<le> b"
proof
  assume c: "0 < c" and "a \<le> b div c"
  then have "a * c \<le> b div c * c" by simp
  also have "\<dots> \<le> b"
    using c pos_mod_sign [of c b] by (simp add: minus_mod_eq_div_mult [symmetric])
  finally show "a * c \<le> b" .
next
  assume "0 < c" "a * c \<le> b"
  then show "a \<le> b div c"
    using zdiv_mono1 [of "a * c" b c] by simp
qed

lemma Money_Multiply_guard:
  assumes "0 \<le> m" "0 < q"
  shows "(m \<noteq> 0 \<and> q > go_div MaxInt64 m) \<longleftrightarrow> m * q > MaxInt64"
proof (cases "m = 0")
  case True
  then show ?thesis by (simp add: MaxInt64_def)
next
  case False
  then have "0 < m" using assms by simp
  moreover have "0 \<le> MaxInt64" by (simp add: MaxInt64_def)
  ultimately show ?thesis
    using le_div_iff_mult_le [of m q MaxInt64] by (auto simp: mult.commute)
qed

lemma is_int64_nonneg: "0 \<le> x \<Longrightarrow> x \<le> MaxInt64 \<Longrightarrow> is_int64 x"
  by (simp add: is_int64_def MinInt64_def)

text \<open>
  \<open>Money.Add\<close> is exact: on any two \<open>int64\<close> operands it returns the mathematical sum
  exactly when both are non-negative and the sum fits, the overflow error exactly when
  both are non-negative and it does not, and the invalid-money error otherwise.
\<close>

theorem Money_Add_exact:
  assumes "is_int64 m" "is_int64 other"
  shows "Money_Add m other =
    (if m < 0 \<or> other < 0 then Inl DomainErrInvalidMoney
     else if m + other > MaxInt64 then Inl DomainErrMoneyOverflow
     else Inr (m + other))"
proof (cases "m < 0 \<or> other < 0")
  case False
  then have "is_int64 (MaxInt64 - other)"
    using assms by (auto simp: is_int64_def MinInt64_def MaxInt64_def)
  moreover have "is_int64 (m + other)" if "m + other \<le> MaxInt64"
    using that False by (intro is_int64_nonneg) auto
  ultimately show ?thesis by (auto simp: Money_Add_def)
qed (simp add: Money_Add_def)

theorem Money_Add_exact_witness:
  "is_int64 5 \<and> is_int64 MaxInt64 \<and> Money_Add 5 7 = Inr 12
   \<and> Money_Add 5 MaxInt64 = Inl DomainErrMoneyOverflow"
proof -
  have "is_int64 5" "is_int64 7" "is_int64 MaxInt64"
    by (simp_all add: is_int64_def MinInt64_def MaxInt64_def)
  then show ?thesis
    using Money_Add_exact [of 5 7] Money_Add_exact [of 5 MaxInt64]
    by (simp add: MaxInt64_def)
qed

text \<open>
  C20. \<open>Money.Multiply\<close> is exact: for an \<open>int64\<close> unit price and an \<open>int32\<close> quantity the
  division guard rejects precisely the products above \<open>MaxInt64\<close>, and every accepted
  line total is the mathematical product, never a wrapped value.
\<close>

theorem Money_Multiply_exact:
  assumes "is_int64 m" "is_int32 quantity"
  shows "Money_Multiply m quantity =
    (if m < 0 then Inl DomainErrInvalidMoney
     else if quantity \<le> 0 then Inl DomainErrInvalidQuantity
     else if m * quantity > MaxInt64 then Inl DomainErrMoneyOverflow
     else Inr (m * quantity))"
proof (cases "m < 0 \<or> quantity \<le> 0")
  case False
  then have "is_int64 (m * quantity)" if "m * quantity \<le> MaxInt64"
    using that by (intro is_int64_nonneg) auto
  then show ?thesis
    using False Money_Multiply_guard [of m quantity] by (auto simp: Money_Multiply_def)
qed (auto simp: Money_Multiply_def)

theorem Money_Multiply_exact_witness:
  "is_int64 MaxInt64 \<and> is_int32 2 \<and> Money_Multiply 150000 2 = Inr 300000
   \<and> Money_Multiply MaxInt64 2 = Inl DomainErrMoneyOverflow"
proof -
  have "is_int64 150000" "is_int32 2" "is_int64 MaxInt64"
    by (simp_all add: is_int64_def is_int32_def MinInt64_def MaxInt64_def MaxInt32_def)
  then show ?thesis
    using Money_Multiply_exact [of 150000 2] Money_Multiply_exact [of MaxInt64 2]
    by (simp add: MaxInt64_def)
qed

lemma Money_Multiply_InrD:
  "Money_Multiply m q = Inr t \<Longrightarrow> 0 \<le> m \<and> 0 < q \<and> t = m * q \<and> t \<le> MaxInt64"
proof -
  assume a: "Money_Multiply m q = Inr t"
  then have m: "0 \<le> m" "0 < q" by (auto simp: Money_Multiply_def split: if_splits)
  with a have "m * q \<le> MaxInt64"
    using Money_Multiply_guard [of m q] by (auto simp: Money_Multiply_def split: if_splits)
  moreover from this m have "is_int64 (m * q)" by (intro is_int64_nonneg) auto
  ultimately show ?thesis using a m by (auto simp: Money_Multiply_def split: if_splits)
qed

end
