(* ===== verification/Domain_Status.thy ===== *)
theory Domain_Status
  imports Prelude
begin

text \<open>
  The state machines of \<open>internal/domain\<close>: \<open>status.go\<close>, \<open>order.go\<close>, \<open>inventory.go\<close>
  and \<open>delivery.go\<close>. A Go status is a string type; here it is a datatype with the
  declared constants and one constructor for any other text, so that \<open>IsValid\<close> has its
  meaning. The \<open>of_text\<close>/\<open>text\<close> pairs relate the datatype to the stored strings.
\<close>

section \<open>status.go\<close>

datatype UserStatus =
    UserStatusActive | UserStatusBanned | UserStatusDisabled | UserStatusOther string

definition UserStatus_IsValid :: "UserStatus \<Rightarrow> bool" where
  "UserStatus_IsValid s =
    (case s of UserStatusActive \<Rightarrow> True | UserStatusBanned \<Rightarrow> True
             | UserStatusDisabled \<Rightarrow> True | UserStatusOther _ \<Rightarrow> False)"

datatype InventoryStatus =
    InventoryStatusAvailable | InventoryStatusReserved | InventoryStatusSold
  | InventoryStatusDisabled | InventoryStatusOther string

definition InventoryStatus_IsValid :: "InventoryStatus \<Rightarrow> bool" where
  "InventoryStatus_IsValid s =
    (case s of InventoryStatusAvailable \<Rightarrow> True | InventoryStatusReserved \<Rightarrow> True
             | InventoryStatusSold \<Rightarrow> True | InventoryStatusDisabled \<Rightarrow> True
             | InventoryStatusOther _ \<Rightarrow> False)"

datatype PaymentStatus =
    PaymentStatusCreated | PaymentStatusConfirmed | PaymentStatusFailed
  | PaymentStatusReview | PaymentStatusRefunded | PaymentStatusOther string

definition PaymentStatus_IsValid :: "PaymentStatus \<Rightarrow> bool" where
  "PaymentStatus_IsValid s =
    (case s of PaymentStatusOther _ \<Rightarrow> False | _ \<Rightarrow> True)"

datatype OutboxStatus =
    OutboxStatusPending | OutboxStatusProcessing | OutboxStatusCompleted
  | OutboxStatusFailed | OutboxStatusOther string

definition OutboxStatus_IsValid :: "OutboxStatus \<Rightarrow> bool" where
  "OutboxStatus_IsValid s =
    (case s of OutboxStatusOther _ \<Rightarrow> False | _ \<Rightarrow> True)"

datatype WalletEntryType =
    WalletEntryTypeCredit | WalletEntryTypeDebit | WalletEntryTypeRefund
  | WalletEntryTypeAdjustment | WalletEntryTypeOther string

definition WalletEntryType_IsValid :: "WalletEntryType \<Rightarrow> bool" where
  "WalletEntryType_IsValid t =
    (case t of WalletEntryTypeOther _ \<Rightarrow> False | _ \<Rightarrow> True)"

definition AcceptsAmount :: "WalletEntryType \<Rightarrow> int64 \<Rightarrow> bool" where
  "AcceptsAmount t amount =
    (case t of
       WalletEntryTypeCredit \<Rightarrow> amount > 0
     | WalletEntryTypeRefund \<Rightarrow> amount > 0
     | WalletEntryTypeDebit \<Rightarrow> amount < 0
     | WalletEntryTypeAdjustment \<Rightarrow> amount \<noteq> 0
     | WalletEntryTypeOther _ \<Rightarrow> False)"

section \<open>order.go\<close>

datatype OrderStatus =
    OrderStatusPendingPayment | OrderStatusPaymentReview | OrderStatusPaid
  | OrderStatusReserving | OrderStatusDelivering | OrderStatusDelivered
  | OrderStatusExpired | OrderStatusCancelled | OrderStatusOutOfStock
  | OrderStatusDeliveryFailed | OrderStatusRefunded | OrderStatusOther string

text \<open>The Go map of maps; a status without an entry has no successor.\<close>

fun orderTransitions :: "OrderStatus \<Rightarrow> OrderStatus list" where
  "orderTransitions OrderStatusPendingPayment =
     [OrderStatusPaid, OrderStatusPaymentReview, OrderStatusExpired, OrderStatusCancelled]"
| "orderTransitions OrderStatusPaymentReview =
     [OrderStatusPaid, OrderStatusRefunded, OrderStatusCancelled]"
| "orderTransitions OrderStatusPaid = [OrderStatusReserving, OrderStatusPaymentReview]"
| "orderTransitions OrderStatusReserving = [OrderStatusDelivering, OrderStatusOutOfStock]"
| "orderTransitions OrderStatusDelivering = [OrderStatusDelivered, OrderStatusDeliveryFailed]"
| "orderTransitions OrderStatusDelivered = [OrderStatusRefunded]"
| "orderTransitions OrderStatusExpired = [OrderStatusPaymentReview]"
| "orderTransitions OrderStatusOutOfStock = [OrderStatusReserving, OrderStatusRefunded]"
| "orderTransitions OrderStatusDeliveryFailed = [OrderStatusDelivering, OrderStatusRefunded]"
| "orderTransitions _ = []"

definition OrderStatus_IsValid :: "OrderStatus \<Rightarrow> bool" where
  "OrderStatus_IsValid s = (case s of OrderStatusOther _ \<Rightarrow> False | _ \<Rightarrow> True)"

definition IsTerminal :: "OrderStatus \<Rightarrow> bool" where
  "IsTerminal s \<longleftrightarrow> s = OrderStatusCancelled \<or> s = OrderStatusRefunded"

definition IsCustomerTerminal :: "OrderStatus \<Rightarrow> bool" where
  "IsCustomerTerminal s \<longleftrightarrow> s = OrderStatusExpired \<or> s = OrderStatusCancelled"

definition ValidateCustomerOrderTransition :: "OrderStatus \<Rightarrow> OrderStatus \<Rightarrow> error option" where
  "ValidateCustomerOrderTransition f t =
    (if \<not> OrderStatus_IsValid f \<or> \<not> OrderStatus_IsValid t then Some DomainErrInvalidStatus
     else if f \<noteq> OrderStatusPendingPayment \<or> t \<noteq> OrderStatusCancelled
       then Some DomainErrInvalidOrderTransition
     else None)"

definition CanTransitionOrder :: "OrderStatus \<Rightarrow> OrderStatus \<Rightarrow> bool" where
  "CanTransitionOrder f t =
    (if \<not> OrderStatus_IsValid f \<or> \<not> OrderStatus_IsValid t \<or> f = t then False
     else t \<in> set (orderTransitions f))"

definition ValidateOrderTransition :: "OrderStatus \<Rightarrow> OrderStatus \<Rightarrow> error option" where
  "ValidateOrderTransition f t =
    (if \<not> OrderStatus_IsValid f \<or> \<not> OrderStatus_IsValid t then Some DomainErrInvalidStatus
     else if \<not> CanTransitionOrder f t then Some DomainErrInvalidOrderTransition
     else None)"

section \<open>inventory.go\<close>

datatype InventoryReleaseReason =
    InventoryReleaseOrderCancelled | InventoryReleaseOrderExpired
  | InventoryReleaseOrderRefunded | InventoryReleaseOutOfStock
  | InventoryReleaseOther string

definition InventoryReleaseReason_IsValid :: "InventoryReleaseReason \<Rightarrow> bool" where
  "InventoryReleaseReason_IsValid r = (case r of InventoryReleaseOther _ \<Rightarrow> False | _ \<Rightarrow> True)"

definition InventoryReleaseReasonForOrder :: "OrderStatus \<Rightarrow> InventoryReleaseReason \<times> bool" where
  "InventoryReleaseReasonForOrder status =
    (case status of
       OrderStatusCancelled \<Rightarrow> (InventoryReleaseOrderCancelled, True)
     | OrderStatusExpired \<Rightarrow> (InventoryReleaseOrderExpired, True)
     | OrderStatusRefunded \<Rightarrow> (InventoryReleaseOrderRefunded, True)
     | OrderStatusOutOfStock \<Rightarrow> (InventoryReleaseOutOfStock, True)
     | _ \<Rightarrow> (InventoryReleaseOther [], False))"

definition CanTransitionInventory :: "InventoryStatus \<Rightarrow> InventoryStatus \<Rightarrow> bool" where
  "CanTransitionInventory f t =
    (if f = InventoryStatusAvailable \<and> (t = InventoryStatusReserved \<or> t = InventoryStatusDisabled)
       then True
     else if f = InventoryStatusDisabled \<and> t = InventoryStatusAvailable then True
     else if f = InventoryStatusReserved \<and> t = InventoryStatusAvailable then True
     else False)"

section \<open>delivery.go\<close>

datatype DeliveryJobStatus =
    DeliveryJobPending | DeliveryJobProcessing | DeliveryJobRetryableFailed
  | DeliveryJobAmbiguous | DeliveryJobManualReview | DeliveryJobPermanentFailed
  | DeliveryJobCompleted | DeliveryJobCancelled | DeliveryJobOther string

datatype DeliveryResultClass =
    DeliveryResultSuccess | DeliveryResultRetryable | DeliveryResultPermanent
  | DeliveryResultAmbiguous | DeliveryResultOther string

definition DeliveryJobStatus_IsValid :: "DeliveryJobStatus \<Rightarrow> bool" where
  "DeliveryJobStatus_IsValid s = (case s of DeliveryJobOther _ \<Rightarrow> False | _ \<Rightarrow> True)"

definition AutomaticallyClaimable :: "DeliveryJobStatus \<Rightarrow> bool" where
  "AutomaticallyClaimable s \<longleftrightarrow> s = DeliveryJobPending \<or> s = DeliveryJobRetryableFailed"

definition Delivery_Terminal :: "DeliveryJobStatus \<Rightarrow> bool" where
  "Delivery_Terminal s \<longleftrightarrow> s = DeliveryJobCompleted \<or> s = DeliveryJobCancelled"

definition CanTransitionDelivery :: "DeliveryJobStatus \<Rightarrow> DeliveryJobStatus \<Rightarrow> bool \<Rightarrow> bool" where
  "CanTransitionDelivery f t manual =
    (if \<not> DeliveryJobStatus_IsValid f \<or> \<not> DeliveryJobStatus_IsValid t \<or> f = t then False
     else case f of
       DeliveryJobPending \<Rightarrow> t = DeliveryJobProcessing
     | DeliveryJobRetryableFailed \<Rightarrow> t = DeliveryJobProcessing
     | DeliveryJobProcessing \<Rightarrow>
         t = DeliveryJobCompleted \<or> t = DeliveryJobRetryableFailed \<or>
         t = DeliveryJobAmbiguous \<or> t = DeliveryJobPermanentFailed \<or>
         t = DeliveryJobManualReview
     | DeliveryJobAmbiguous \<Rightarrow>
         manual \<and> (t = DeliveryJobPending \<or> t = DeliveryJobCompleted \<or> t = DeliveryJobCancelled)
     | DeliveryJobManualReview \<Rightarrow>
         manual \<and> (t = DeliveryJobPending \<or> t = DeliveryJobCompleted \<or> t = DeliveryJobCancelled)
     | DeliveryJobPermanentFailed \<Rightarrow>
         manual \<and> (t = DeliveryJobPending \<or> t = DeliveryJobCancelled)
     | _ \<Rightarrow> False)"

section \<open>The order lifecycle as a step relation\<close>

text \<open>A legal lifecycle: a non-empty list of statuses, each a permitted successor of the last.\<close>

inductive order_path :: "OrderStatus \<Rightarrow> OrderStatus list \<Rightarrow> OrderStatus \<Rightarrow> bool" where
  path_here: "order_path s [] s"
| path_step: "CanTransitionOrder s t \<Longrightarrow> order_path t p u \<Longrightarrow> order_path s (t # p) u"

inductive_cases order_path_NilE: "order_path s [] u"
inductive_cases order_path_ConsE: "order_path s (t # p) u"

lemma CanTransitionOrder_iff [domain_simps]:
  "CanTransitionOrder f t \<longleftrightarrow> t \<in> set (orderTransitions f)"
  by (cases f) (auto simp: CanTransitionOrder_def OrderStatus_IsValid_def)

lemma CanTransitionOrder_simps [simp]:
  "CanTransitionOrder OrderStatusPendingPayment t \<longleftrightarrow>
     t \<in> {OrderStatusPaid, OrderStatusPaymentReview, OrderStatusExpired, OrderStatusCancelled}"
  "CanTransitionOrder OrderStatusPaymentReview t \<longleftrightarrow>
     t \<in> {OrderStatusPaid, OrderStatusRefunded, OrderStatusCancelled}"
  "CanTransitionOrder OrderStatusPaid t \<longleftrightarrow> t \<in> {OrderStatusReserving, OrderStatusPaymentReview}"
  "CanTransitionOrder OrderStatusReserving t \<longleftrightarrow> t \<in> {OrderStatusDelivering, OrderStatusOutOfStock}"
  "CanTransitionOrder OrderStatusDelivering t \<longleftrightarrow>
     t \<in> {OrderStatusDelivered, OrderStatusDeliveryFailed}"
  "CanTransitionOrder OrderStatusDelivered t \<longleftrightarrow> t = OrderStatusRefunded"
  "CanTransitionOrder OrderStatusExpired t \<longleftrightarrow> t = OrderStatusPaymentReview"
  "CanTransitionOrder OrderStatusOutOfStock t \<longleftrightarrow> t \<in> {OrderStatusReserving, OrderStatusRefunded}"
  "CanTransitionOrder OrderStatusDeliveryFailed t \<longleftrightarrow>
     t \<in> {OrderStatusDelivering, OrderStatusRefunded}"
  "\<not> CanTransitionOrder OrderStatusCancelled t"
  "\<not> CanTransitionOrder OrderStatusRefunded t"
  "\<not> CanTransitionOrder (OrderStatusOther x) t"
  by (simp_all add: CanTransitionOrder_iff)

lemma CanTransitionOrder_valid:
  "CanTransitionOrder f t \<Longrightarrow> OrderStatus_IsValid f \<and> OrderStatus_IsValid t \<and> f \<noteq> t"
  by (auto simp: CanTransitionOrder_def split: if_splits)

text \<open>Predecessors: what a status must have been reached from.\<close>

lemma CanTransitionOrder_into:
  "CanTransitionOrder s OrderStatusDelivered \<longleftrightarrow> s = OrderStatusDelivering"
  "CanTransitionOrder s OrderStatusDelivering \<longleftrightarrow>
     s = OrderStatusReserving \<or> s = OrderStatusDeliveryFailed"
  "CanTransitionOrder s OrderStatusReserving \<longleftrightarrow> s = OrderStatusPaid \<or> s = OrderStatusOutOfStock"
  "CanTransitionOrder s OrderStatusPaid \<longleftrightarrow>
     s = OrderStatusPendingPayment \<or> s = OrderStatusPaymentReview"
  "\<not> CanTransitionOrder s OrderStatusPendingPayment"
  by (cases s; simp)+

definition fulfilled :: "OrderStatus \<Rightarrow> bool" where
  "fulfilled s \<longleftrightarrow> s \<in> {OrderStatusReserving, OrderStatusDelivering, OrderStatusDelivered,
     OrderStatusOutOfStock, OrderStatusDeliveryFailed}"

text \<open>A state from which nothing was paid yet can only enter fulfilment through \<open>Paid\<close>.\<close>

lemma order_path_through_paid:
  "order_path s p u \<Longrightarrow> fulfilled u \<Longrightarrow> \<not> fulfilled s \<Longrightarrow> s \<noteq> OrderStatusPaid \<Longrightarrow>
     OrderStatusPaid \<in> set p"
proof (induction rule: order_path.induct)
  case (path_step s t p u)
  then show ?case by (cases s) (auto simp: fulfilled_def)
qed simp

lemma order_path_through_reserving:
  "order_path s p u \<Longrightarrow> u = OrderStatusDelivered \<Longrightarrow>
     s \<notin> {OrderStatusReserving, OrderStatusDelivering, OrderStatusDelivered, OrderStatusDeliveryFailed}
     \<Longrightarrow> OrderStatusReserving \<in> set p"
proof (induction rule: order_path.induct)
  case (path_step s t p u)
  then show ?case by (cases s) auto
qed simp

lemma order_path_through_delivering:
  "order_path s p u \<Longrightarrow> u = OrderStatusDelivered \<Longrightarrow>
     s \<notin> {OrderStatusDelivering, OrderStatusDelivered} \<Longrightarrow> OrderStatusDelivering \<in> set p"
proof (induction rule: order_path.induct)
  case (path_step s t p u)
  then show ?case by (cases s) auto
qed simp

lemma order_path_review:
  "order_path s p u \<Longrightarrow> s = OrderStatusExpired \<Longrightarrow> u \<noteq> OrderStatusExpired \<Longrightarrow>
     p \<noteq> [] \<and> hd p = OrderStatusPaymentReview"
  by (induction rule: order_path.induct) auto

text \<open>
  No goods without payment: every legal lifecycle that takes an unpaid order to
  \<open>delivered\<close> passes through \<open>paid\<close>, \<open>reserving\<close> and \<open>delivering\<close>, and one that
  starts from an expired order passes through \<open>payment_review\<close> first.
\<close>

theorem delivered_only_after_payment:
  assumes "order_path s p OrderStatusDelivered"
    and "s \<in> {OrderStatusPendingPayment, OrderStatusPaymentReview, OrderStatusExpired}"
  shows "{OrderStatusPaid, OrderStatusReserving, OrderStatusDelivering} \<subseteq> set p \<and>
    (s = OrderStatusExpired \<longrightarrow> p \<noteq> [] \<and> hd p = OrderStatusPaymentReview)"
  using assms order_path_through_paid [OF assms(1)] order_path_through_reserving [OF assms(1)]
    order_path_through_delivering [OF assms(1)] order_path_review [OF assms(1)]
  by (auto simp: fulfilled_def)

lemma sample_order_path:
  "order_path OrderStatusExpired
     [OrderStatusPaymentReview, OrderStatusPaid, OrderStatusReserving, OrderStatusDelivering,
      OrderStatusDelivered] OrderStatusDelivered"
  by (intro order_path.intros) simp_all

theorem delivered_only_after_payment_witness:
  "{OrderStatusPaid, OrderStatusReserving, OrderStatusDelivering}
     \<subseteq> set [OrderStatusPaymentReview, OrderStatusPaid, OrderStatusReserving,
              OrderStatusDelivering, OrderStatusDelivered]"
  using delivered_only_after_payment [OF sample_order_path] by simp

text \<open>
  \<open>IsTerminal\<close> is exact: a valid status is terminal exactly when the transition map
  lets no order leave it, and \<open>ValidateOrderTransition\<close> accepts exactly the edges of
  that map between valid statuses.
\<close>

theorem IsTerminal_exact:
  "OrderStatus_IsValid s \<Longrightarrow> IsTerminal s \<longleftrightarrow> (\<forall>t. \<not> CanTransitionOrder s t)"
  by (cases s) (auto simp: IsTerminal_def OrderStatus_IsValid_def)

theorem IsTerminal_exact_witness:
  "OrderStatus_IsValid OrderStatusCancelled \<and> (\<forall>t. \<not> CanTransitionOrder OrderStatusCancelled t)"
  using IsTerminal_exact [of OrderStatusCancelled]
  by (simp add: IsTerminal_def OrderStatus_IsValid_def)

lemma ValidateOrderTransition_None:
  "ValidateOrderTransition f t = None \<longleftrightarrow> CanTransitionOrder f t"
  by (auto simp: ValidateOrderTransition_def dest: CanTransitionOrder_valid)

lemma ValidateCustomerOrderTransition_None [simp]:
  "ValidateCustomerOrderTransition f t = None \<longleftrightarrow>
     f = OrderStatusPendingPayment \<and> t = OrderStatusCancelled"
  by (auto simp: ValidateCustomerOrderTransition_def OrderStatus_IsValid_def)

lemma ValidateCustomerOrderTransition_sound:
  "ValidateCustomerOrderTransition f t = None \<Longrightarrow> ValidateOrderTransition f t = None"
  by (simp add: ValidateOrderTransition_None)

text \<open>A release reason exists exactly in the four statuses in which no goods are owed.\<close>

lemma InventoryReleaseReasonForOrder_iff:
  "snd (InventoryReleaseReasonForOrder s) \<longleftrightarrow>
     s \<in> {OrderStatusCancelled, OrderStatusExpired, OrderStatusRefunded, OrderStatusOutOfStock}"
  by (cases s) (simp_all add: InventoryReleaseReasonForOrder_def)

lemma InventoryReleaseReasonForOrder_inj:
  "snd (InventoryReleaseReasonForOrder s) \<Longrightarrow>
   InventoryReleaseReasonForOrder s = InventoryReleaseReasonForOrder t \<Longrightarrow> s = t"
  by (cases s; cases t) (simp_all add: InventoryReleaseReasonForOrder_def)

section \<open>The delivery queue\<close>

text \<open>
  The delivery machine has no automatic way out of an uncertain send: without a
  manual decision, every status reachable from \<open>ambiguous\<close>, \<open>manual_review\<close> or
  \<open>permanent_failed\<close> is the status itself, so no credential is sent twice by the queue.
\<close>

theorem no_automatic_exit_from_uncertain_delivery:
  "(\<lambda>f t. CanTransitionDelivery f t False)\<^sup>*\<^sup>* f t \<Longrightarrow>
   f \<in> {DeliveryJobAmbiguous, DeliveryJobManualReview, DeliveryJobPermanentFailed,
        DeliveryJobCompleted, DeliveryJobCancelled} \<Longrightarrow> t = f"
proof (induction rule: converse_rtranclp_induct)
  case (step x y)
  then show ?case by (auto simp: CanTransitionDelivery_def split: if_splits)
qed simp

theorem no_automatic_exit_from_uncertain_delivery_witness:
  "\<forall>t. (\<lambda>f t. CanTransitionDelivery f t False)\<^sup>*\<^sup>* DeliveryJobAmbiguous t \<longleftrightarrow>
     t = DeliveryJobAmbiguous"
  using no_automatic_exit_from_uncertain_delivery [of DeliveryJobAmbiguous] by auto

end
