(* ===== verification/Database.thy ===== *)
theory Database
  imports Money Domain_Status
begin

text \<open>
  The PostgreSQL database the stores work on. One record per table row
  (\<open>internal/postgres/generated/models.go\<close>; columns \<open>created_at\<close> only where a query
  orders by it, \<open>updated_at\<close> and \<open>last_seen_at\<close> nowhere), the CHECK and UNIQUE constraints of
  \<open>migrations/\<close> as executable predicates, the state as a record of tables, and the
  statements \<open>INSERT\<close>, \<open>UPDATE\<close> and \<open>SELECT\<close> as operations of the transaction monad.
  A nullable column is an option. A statement that violates a constraint is an error and
  leaves the tables alone. Identity sequences advance even when the insert is rejected and
  are not rolled back, as in PostgreSQL. Foreign keys are not modelled: every statement
  of the stores refers to rows read before in the same transaction.
\<close>

section \<open>Text\<close>

text \<open>\<open>btrim(x) <> ''\<close>: PostgreSQL's \<open>btrim\<close> strips blanks only.\<close>

definition notBlank :: "string \<Rightarrow> bool" where
  "notBlank s \<longleftrightarrow> (\<exists>c \<in> set s. c \<noteq> CHR '' '')"

definition optNotBlank :: "string option \<Rightarrow> bool" where
  "optNotBlank x = (case x of None \<Rightarrow> True | Some s \<Rightarrow> notBlank s)"

definition isDigitChar :: "char \<Rightarrow> bool" where
  "isDigitChar c \<longleftrightarrow> 48 \<le> (of_char c :: nat) \<and> (of_char c :: nat) \<le> 57"

text \<open>
  \<open>strings.TrimSpace\<close> strips Unicode white space at both ends; the white-space runes as
  their UTF-8 byte sequences.
\<close>

definition whiteSpaceRunes :: "string list" where
  "whiteSpaceRunes =
    [[CHR 0x09], [CHR 0x0A], [CHR 0x0B], [CHR 0x0C], [CHR 0x0D], [CHR 0x20],
     [CHR 0xC2, CHR 0x85], [CHR 0xC2, CHR 0xA0], [CHR 0xE1, CHR 0x9A, CHR 0x80],
     [CHR 0xE2, CHR 0x80, CHR 0x80], [CHR 0xE2, CHR 0x80, CHR 0x81],
     [CHR 0xE2, CHR 0x80, CHR 0x82], [CHR 0xE2, CHR 0x80, CHR 0x83],
     [CHR 0xE2, CHR 0x80, CHR 0x84], [CHR 0xE2, CHR 0x80, CHR 0x85],
     [CHR 0xE2, CHR 0x80, CHR 0x86], [CHR 0xE2, CHR 0x80, CHR 0x87],
     [CHR 0xE2, CHR 0x80, CHR 0x88], [CHR 0xE2, CHR 0x80, CHR 0x89],
     [CHR 0xE2, CHR 0x80, CHR 0x8A], [CHR 0xE2, CHR 0x80, CHR 0xA8],
     [CHR 0xE2, CHR 0x80, CHR 0xA9], [CHR 0xE2, CHR 0x80, CHR 0xAF],
     [CHR 0xE2, CHR 0x81, CHR 0x9F], [CHR 0xE3, CHR 0x80, CHR 0x80]]"

fun stripPrefix :: "string \<Rightarrow> string \<Rightarrow> string option" where
  "stripPrefix [] s = Some s"
| "stripPrefix (p # ps) [] = None"
| "stripPrefix (p # ps) (c # s) = (if p = c then stripPrefix ps s else None)"

fun firstStrip :: "string list \<Rightarrow> string \<Rightarrow> string option" where
  "firstStrip [] s = None"
| "firstStrip (w # ws) s = (case stripPrefix w s of Some r \<Rightarrow> Some r | None \<Rightarrow> firstStrip ws s)"

lemma stripPrefix_length: "stripPrefix w s = Some r \<Longrightarrow> length r + length w = length s"
  by (induction w s rule: stripPrefix.induct) (auto split: if_splits)

lemma firstStrip_length:
  "firstStrip ws s = Some r \<Longrightarrow> [] \<notin> set ws \<Longrightarrow> length r < length s"
proof (induction ws)
  case (Cons w ws)
  then show ?case
    using stripPrefix_length [of w s] by (cases w) (fastforce split: option.splits)+
qed simp

function trimLeftWith :: "string list \<Rightarrow> string \<Rightarrow> string" where
  "trimLeftWith ws s =
    (if [] \<in> set ws then s
     else case firstStrip ws s of None \<Rightarrow> s | Some r \<Rightarrow> trimLeftWith ws r)"
  by auto
termination
  by (relation "measure (\<lambda>(ws, s). length s)") (auto dest: firstStrip_length)

declare trimLeftWith.simps [simp del]

definition TrimSpace :: "string \<Rightarrow> string" where
  "TrimSpace s =
    rev (trimLeftWith (map rev whiteSpaceRunes) (rev (trimLeftWith whiteSpaceRunes s)))"

text \<open>\<open>optionalText\<close>: trimmed text, NULL when nothing is left.\<close>

definition optionalText :: "string \<Rightarrow> string option" where
  "optionalText value = (let v = TrimSpace value in if v \<noteq> [] then Some v else None)"

text \<open>\<open>pgtype.Int8{Int64: x, Valid: x > 0}\<close>\<close>

definition optionalInt8 :: "int64 \<Rightarrow> int64 option" where
  "optionalInt8 x = (if x > 0 then Some x else None)"

text \<open>Decimal text of an integer (\<open>strconv.FormatInt\<close>, SQL's \<open>bigint::text\<close>).\<close>

definition digitChar :: "nat \<Rightarrow> char" where
  "digitChar d = char_of (48 + d)"

fun natText :: "nat \<Rightarrow> string" where
  "natText n = (if n < 10 then [digitChar n] else natText (n div 10) @ [digitChar (n mod 10)])"

declare natText.simps [simp del]

definition intText :: "int \<Rightarrow> string" where
  "intText i = (if i < 0 then CHR ''-'' # natText (nat (- i)) else natText (nat i))"

lemma digitChar_inj: "a < 10 \<Longrightarrow> b < 10 \<Longrightarrow> digitChar a = digitChar b \<Longrightarrow> a = b"
proof -
  assume ab: "a < 10" "b < 10" and "digitChar a = digitChar b"
  then have "(of_char (digitChar a) :: nat) = of_char (digitChar b)" by simp
  with ab show "a = b" by (simp add: digitChar_def)
qed

lemma natText_not_Nil [simp]: "natText n \<noteq> []" "[] \<noteq> natText n"
  by (subst natText.simps, simp)+

lemma natText_inj: "natText m = natText n \<Longrightarrow> m = n"
proof (induction m arbitrary: n rule: natText.induct)
  case (1 m)
  show ?case
  proof (cases "m < 10"; cases "n < 10")
    assume "\<not> m < 10" "\<not> n < 10"
    with 1 have "m div 10 = n div 10" "digitChar (m mod 10) = digitChar (n mod 10)"
      by (simp_all add: natText.simps [of m] natText.simps [of n])
    then show ?thesis
      using digitChar_inj [of "m mod 10" "n mod 10"] by (metis div_mult_mod_eq mod_less_divisor zero_less_numeral)
  qed (use "1.prems" in \<open>auto simp: natText.simps [of m] natText.simps [of n] dest: digitChar_inj\<close>)
qed

lemma natText_no_minus: "CHR ''-'' \<notin> set (natText n)"
proof (induction n rule: natText.induct)
  case (1 n)
  have "digitChar d \<noteq> CHR ''-''" if "d < 10" for d
  proof
    assume "digitChar d = CHR ''-''"
    then have "(of_char (digitChar d) :: nat) = of_char (CHR ''-'')" by simp
    with that show False by (simp add: digitChar_def)
  qed
  then have "CHR ''-'' \<noteq> digitChar n" if "n < 10" and "CHR ''-'' \<noteq> digitChar (n mod 10)"
    using that by (metis mod_less)
  moreover have "CHR ''-'' \<noteq> digitChar (n mod 10)"
    using \<open>\<And>d. d < 10 \<Longrightarrow> digitChar d \<noteq> CHR ''-''\<close> [of "n mod 10"] by auto
  ultimately show ?case using 1 by (subst natText.simps) auto
qed

lemma intText_inj: "intText i = intText j \<longleftrightarrow> i = j"
proof
  assume eq: "intText i = intText j"
  have sign: "(i < 0) = (j < 0)"
    using eq natText_no_minus [of "nat i"] natText_no_minus [of "nat j"]
    by (auto simp: intText_def split: if_splits) (metis list.set_intros(1))+
  then show "i = j"
    using eq by (auto simp: intText_def dest!: natText_inj split: if_splits)
qed simp

text \<open>Reading the payload of a possibly-NULL \<open>pgtype\<close> value gives Go's zero value.\<close>

definition textOr :: "string option \<Rightarrow> string" where
  "textOr x = (case x of None \<Rightarrow> [] | Some s \<Rightarrow> s)"

definition int8Or :: "int option \<Rightarrow> int" where
  "int8Or x = (case x of None \<Rightarrow> 0 | Some i \<Rightarrow> i)"

section \<open>Rows\<close>

datatype jval = JInt int | JText string | JBool bool | JInts "int list"
  | JRaw string \<comment> \<open>any other JSON value, as its text\<close>
type_synonym json = "(string \<times> jval) list"

record user_row =
  usr_id :: int64
  usr_telegram_user_id :: int64
  usr_username :: "string option"
  usr_display_name :: "string option"
  usr_status :: UserStatus

record admin_row =
  adm_id :: int64
  adm_user_id :: int64
  adm_role :: string
  adm_is_active :: bool

record category_row =
  cat_id :: int64
  cat_name :: string
  cat_slug :: string
  cat_emoji :: string
  cat_sort_order :: int32
  cat_is_active :: bool
  cat_version :: int64

record product_row =
  prd_id :: int64
  prd_category_id :: int64
  prd_name :: string
  prd_slug :: string
  prd_description :: "string option"
  prd_price_vnd :: int64
  prd_delivery_type :: string
  prd_contact_url :: "string option"
  prd_is_active :: bool
  prd_version :: int64
  prd_created_at :: time

record bank_row =
  bnk_id :: int64
  bnk_bank_bin :: string
  bnk_bank_name :: string
  bnk_account_name :: string
  bnk_display_name :: string
  bnk_encrypted_account_number :: string
  bnk_account_number_fingerprint :: string
  bnk_encryption_key_id :: string
  bnk_encryption_nonce :: string
  bnk_encryption_format :: string
  bnk_encryption_key_version :: int32
  bnk_display_last4 :: string
  bnk_sort_order :: int32
  bnk_is_active :: bool
  bnk_version :: int64
  bnk_payment_environment :: string
  bnk_created_at :: time

record bank_snapshot =
  snap_bank_account_id :: int64
  snap_bank_bin :: string
  snap_bank_name :: string
  snap_display_name :: string
  snap_account_name :: string
  snap_encrypted_account_number :: string
  snap_account_number_nonce :: string
  snap_encryption_format :: string
  snap_key_version :: int32
  snap_last4 :: string

record receipt_row =
  rcp_update_id :: int64
  rcp_update_type :: string
  rcp_status :: string
  rcp_attempts :: int32
  rcp_processing_started_at :: "time option"
  rcp_processed_at :: "time option"
  rcp_last_error :: "string option"

record order_row =
  ord_id :: int64
  ord_user_id :: int64
  ord_status :: OrderStatus
  ord_currency :: string
  ord_subtotal_vnd :: int64
  ord_total_vnd :: int64
  ord_payment_reference :: string
  ord_idempotency_key :: string
  ord_expires_at :: time
  ord_paid_at :: "time option"
  ord_delivery_started_at :: "time option"
  ord_delivered_at :: "time option"
  ord_cancelled_at :: "time option"
  ord_version :: int64
  ord_bank :: "bank_snapshot option"
  ord_payment_environment :: string
  ord_created_at :: time

record order_item_row =
  oit_id :: int64
  oit_order_id :: int64
  oit_product_id :: int64
  oit_product_name :: string
  oit_unit_price_vnd :: int64
  oit_quantity :: int32
  oit_line_total_vnd :: int64

record history_row =
  his_id :: int64
  his_order_id :: int64
  his_from_status :: "OrderStatus option"
  his_to_status :: OrderStatus
  his_reason_code :: "string option"
  his_actor_type :: string
  his_actor_id :: "int64 option"
  his_request_id :: "string option"

record inventory_row =
  inv_id :: int64
  inv_product_id :: int64
  inv_encrypted_payload :: string
  inv_encryption_key_id :: string
  inv_encryption_nonce :: string
  inv_encryption_format :: string
  inv_encryption_key_version :: int32
  inv_payload_fingerprint :: string
  inv_imported_by_admin_id :: "int64 option"
  inv_status :: InventoryStatus
  inv_reserved_order_id :: "int64 option"
  inv_reserved_until :: "time option"
  inv_sold_order_id :: "int64 option"
  inv_disabled_reason :: "string option"
  inv_version :: int64
  inv_created_at :: time

record mapping_row =
  map_order_id :: int64
  map_order_item_id :: int64
  map_inventory_item_id :: int64
  map_status :: string
  map_released_at :: "time option"
  map_release_reason :: "InventoryReleaseReason option"

record payment_row =
  pay_id :: int64
  pay_order_id :: "int64 option"
  pay_user_id :: int64
  pay_purpose :: string
  pay_provider :: string
  pay_provider_transaction_id :: "string option"
  pay_payment_reference :: string
  pay_amount_vnd :: int64
  pay_currency :: string
  pay_status :: PaymentStatus
  pay_confirmed_at :: "time option"
  pay_occurred_at :: time
  pay_payment_environment :: string

record event_row =
  evt_id :: int64
  evt_provider :: string
  evt_external_event_id :: string
  evt_provider_transaction_id :: "string option"
  evt_event_type :: string
  evt_payload_hash :: string
  evt_sanitized_payload :: json
  evt_signature_verified :: bool
  evt_processing_status :: string
  evt_processing_error :: "string option"
  evt_received_at :: time
  evt_processed_at :: "time option"
  evt_attempts :: int32
  evt_max_attempts :: int32
  evt_next_attempt_at :: time
  evt_processing_started_at :: "time option"
  evt_last_error_code :: "string option"
  evt_related_order_id :: "int64 option"
  evt_related_wallet_topup_id :: "int64 option"
  evt_payment_environment :: string
  evt_event_source :: string
  evt_transfer_direction :: string
  evt_transfer_content :: string
  evt_destination_account_identity :: "string option"
  evt_provider_account_identity :: "string option"
  evt_provider_account_mapping_id :: "int64 option"
  evt_business_fingerprint :: string

record allocation_row =
  alc_id :: int64
  alc_payment_id :: int64
  alc_target_type :: string
  alc_target_id :: int64
  alc_amount_vnd :: int64

record review_row =
  rev_id :: int64
  rev_payment_event_id :: "int64 option"
  rev_payment_id :: "int64 option"
  rev_order_id :: "int64 option"
  rev_wallet_topup_id :: "int64 option"
  rev_provider :: string
  rev_provider_transaction_id :: "string option"
  rev_payment_reference :: string
  rev_amount_vnd :: int64
  rev_currency :: string
  rev_occurred_at :: time
  rev_reason :: string
  rev_status :: string
  rev_resolution_note :: "string option"
  rev_resolved_by_admin_id :: "int64 option"
  rev_resolved_at :: "time option"
  rev_payment_environment :: string
  rev_event_source :: string
  rev_provider_account_mapping_id :: "int64 option"
  rev_destination_account_identity :: "string option"

record wallet_row =
  wal_id :: int64
  wal_user_id :: int64
  wal_status :: string
  wal_balance_vnd :: int64
  wal_version :: int64

record ledger_row =
  led_id :: int64
  led_account_id :: int64
  led_entry_type :: WalletEntryType
  led_amount_vnd :: int64
  led_balance_after_vnd :: int64
  led_reference_type :: string
  led_reference_id :: int64
  led_idempotency_key :: string

record topup_row =
  top_id :: int64
  top_user_id :: int64
  top_wallet_account_id :: int64
  top_amount_vnd :: int64
  top_currency :: string
  top_payment_reference :: string
  top_idempotency_key :: string
  top_status :: string
  top_expires_at :: time
  top_credited_at :: "time option"
  top_bank :: bank_snapshot
  top_version :: int64
  top_payment_environment :: string

record job_row =
  job_id :: int64
  job_event_type :: string
  job_aggregate_type :: string
  job_aggregate_id :: int64
  job_deduplication_key :: string
  job_status :: DeliveryJobStatus
  job_attempts :: int32
  job_max_attempts :: int32
  job_next_attempt_at :: time
  job_locked_at :: "time option"
  job_locked_by :: "string option"
  job_last_error_code :: "string option"
  job_last_error_detail :: "string option"
  job_completed_at :: "time option"
  job_delivery_order_id :: "int64 option"
  job_recipient_chat_id :: "int64 option"
  job_processing_stage :: "string option"
  job_send_attempted_at :: "time option"
  job_telegram_message_id :: "int64 option"
  job_telegram_sent_at :: "time option"
  job_manual_resolution :: "string option"
  job_resolution_reason :: "string option"
  job_resolved_by_admin_id :: "int64 option"
  job_resolved_at :: "time option"
  job_version :: int64
  job_created_at :: time

record attempt_row =
  att_id :: int64
  att_order_id :: int64
  att_delivery_job_id :: "int64 option"
  att_attempt_number :: int32
  att_channel :: string
  att_status :: string
  att_telegram_method :: string
  att_telegram_chat_id :: "int64 option"
  att_telegram_message_id :: "int64 option"
  att_http_status :: "int32 option"
  att_telegram_error_code :: "int32 option"
  att_retry_after_seconds :: "int32 option"
  att_error_class :: "string option"
  att_error_code :: "string option"
  att_error_detail :: "string option"
  att_started_at :: time
  att_finished_at :: "time option"

record audit_row =
  aud_id :: int64
  aud_actor_type :: string
  aud_actor_id :: "int64 option"
  aud_action :: string
  aud_resource_type :: string
  aud_resource_id :: "int64 option"
  aud_before_data :: "json option"
  aud_after_data :: "json option"
  aud_request_id :: "string option"
  aud_telegram_update_id :: "int64 option"

record session_row =
  ses_id :: int64
  ses_admin_id :: int64
  ses_state :: string
  ses_payload :: json
  ses_expires_at :: time
  ses_version :: int64

record provider_account_row =
  pac_id :: int64
  pac_provider :: string
  pac_environment :: string
  pac_external_account_identity :: string
  pac_external_identity_fingerprint :: string
  pac_local_bank_account_id :: int64
  pac_status :: string
  pac_version :: int64

record checkpoint_row =
  chk_id :: int64
  chk_provider_account_id :: int64
  chk_cursor_value :: "string option"
  chk_last_transaction_external_id :: "string option"
  chk_last_occurred_at :: "time option"
  chk_last_attempted_at :: "time option"
  chk_last_successful_at :: "time option"
  chk_last_error_code :: "string option"
  chk_lease_owner :: "string option"
  chk_lease_expires_at :: "time option"
  chk_version :: int64

section \<open>Constraints\<close>

definition snapshot_ck :: "bank_snapshot \<Rightarrow> bool" where
  "snapshot_ck b \<longleftrightarrow>
    length (snap_bank_bin b) = 6 \<and> list_all isDigitChar (snap_bank_bin b) \<and>
    notBlank (snap_bank_name b) \<and> notBlank (snap_display_name b) \<and>
    notBlank (snap_account_name b) \<and>
    length (snap_encrypted_account_number b) \<ge> 16 \<and>
    length (snap_account_number_nonce b) = 12 \<and>
    snap_encryption_format b = ''aes-256-gcm-v1'' \<and>
    snap_key_version b > 0 \<and>
    length (snap_last4 b) = 4 \<and> list_all isDigitChar (snap_last4 b)"

definition environment_ck :: "string \<Rightarrow> bool" where
  "environment_ck e \<longleftrightarrow> e \<in> {''development'', ''test'', ''production''}"

definition receipt_ck :: "receipt_row \<Rightarrow> bool" where
  "receipt_ck r \<longleftrightarrow>
    rcp_update_id r \<ge> 0 \<and> notBlank (rcp_update_type r) \<and> rcp_attempts r \<ge> 0 \<and>
    optNotBlank (rcp_last_error r) \<and>
    ((rcp_status r = ''received'' \<and> rcp_processing_started_at r = None \<and> rcp_processed_at r = None) \<or>
     (rcp_status r = ''processing'' \<and> rcp_processing_started_at r \<noteq> None \<and> rcp_processed_at r = None) \<or>
     (rcp_status r \<in> {''completed'', ''failed''} \<and> rcp_processing_started_at r \<noteq> None \<and>
      rcp_processed_at r \<noteq> None))"

definition order_ck :: "order_row \<Rightarrow> bool" where
  "order_ck o' \<longleftrightarrow>
    OrderStatus_IsValid (ord_status o') \<and> ord_currency o' = ''VND'' \<and>
    ord_subtotal_vnd o' \<ge> 0 \<and> ord_total_vnd o' \<ge> 0 \<and>
    notBlank (ord_payment_reference o') \<and> notBlank (ord_idempotency_key o') \<and>
    ord_version o' > 0 \<and>
    (ord_status o' = OrderStatusDelivered \<longrightarrow> ord_delivered_at o' \<noteq> None) \<and>
    (ord_status o' = OrderStatusCancelled \<longrightarrow> ord_cancelled_at o' \<noteq> None) \<and>
    (case ord_bank o' of None \<Rightarrow> True | Some b \<Rightarrow> snapshot_ck b) \<and>
    environment_ck (ord_payment_environment o')"

definition order_uq :: "order_row \<Rightarrow> order_row \<Rightarrow> bool" where
  "order_uq a b \<longleftrightarrow>
    ord_id a = ord_id b \<or> ord_payment_reference a = ord_payment_reference b \<or>
    (ord_user_id a = ord_user_id b \<and> ord_idempotency_key a = ord_idempotency_key b)"

definition order_item_ck :: "order_item_row \<Rightarrow> bool" where
  "order_item_ck i \<longleftrightarrow>
    notBlank (oit_product_name i) \<and> oit_unit_price_vnd i \<ge> 0 \<and> oit_quantity i > 0 \<and>
    oit_line_total_vnd i \<ge> 0 \<and> oit_line_total_vnd i = oit_unit_price_vnd i * oit_quantity i"

definition actor_type_ck :: "string \<Rightarrow> bool" where
  "actor_type_ck a \<longleftrightarrow> a \<in> {''user'', ''admin'', ''system'', ''provider''}"

definition history_ck :: "history_row \<Rightarrow> bool" where
  "history_ck h \<longleftrightarrow>
    (case his_from_status h of None \<Rightarrow> True | Some f \<Rightarrow> OrderStatus_IsValid f) \<and>
    OrderStatus_IsValid (his_to_status h) \<and> actor_type_ck (his_actor_type h) \<and>
    optNotBlank (his_reason_code h) \<and> optNotBlank (his_request_id h)"

definition inventory_ck :: "inventory_row \<Rightarrow> bool" where
  "inventory_ck i \<longleftrightarrow>
    inv_encrypted_payload i \<noteq> [] \<and> notBlank (inv_encryption_key_id i) \<and> length (inv_payload_fingerprint i) = 32 \<and>
    optNotBlank (inv_disabled_reason i) \<and>
    ((inv_encryption_format i = ''legacy-v0'' \<and> inv_encryption_nonce i = []) \<or>
     (inv_encryption_format i = ''aes-256-gcm-v1'' \<and> length (inv_encryption_nonce i) = 12 \<and>
      length (inv_encrypted_payload i) \<ge> 16)) \<and>
    inv_encryption_key_version i > 0 \<and> inv_version i > 0 \<and>
    (case inv_status i of
       InventoryStatusAvailable \<Rightarrow>
         inv_reserved_order_id i = None \<and> inv_reserved_until i = None \<and>
         inv_sold_order_id i = None \<and> inv_disabled_reason i = None
     | InventoryStatusReserved \<Rightarrow>
         inv_reserved_order_id i \<noteq> None \<and> inv_reserved_until i \<noteq> None \<and>
         inv_sold_order_id i = None \<and> inv_disabled_reason i = None
     | InventoryStatusSold \<Rightarrow>
         inv_reserved_order_id i = None \<and> inv_reserved_until i = None \<and>
         inv_sold_order_id i \<noteq> None \<and> inv_disabled_reason i = None
     | InventoryStatusDisabled \<Rightarrow>
         inv_reserved_order_id i = None \<and> inv_reserved_until i = None \<and>
         inv_sold_order_id i = None
     | InventoryStatusOther _ \<Rightarrow> False)"

definition inventory_uq :: "inventory_row \<Rightarrow> inventory_row \<Rightarrow> bool" where
  "inventory_uq a b \<longleftrightarrow> inv_id a = inv_id b \<or>
    (inv_product_id a = inv_product_id b \<and> inv_payload_fingerprint a = inv_payload_fingerprint b)"

definition mapping_ck :: "mapping_row \<Rightarrow> bool" where
  "mapping_ck m \<longleftrightarrow>
    (map_status m = ''active'' \<and> map_released_at m = None \<and> map_release_reason m = None) \<or>
    (map_status m = ''released'' \<and> map_released_at m \<noteq> None \<and> map_release_reason m \<noteq> None)"

definition mapping_uq :: "mapping_row \<Rightarrow> mapping_row \<Rightarrow> bool" where
  "mapping_uq a b \<longleftrightarrow>
    (map_order_id a = map_order_id b \<and> map_inventory_item_id a = map_inventory_item_id b) \<or>
    (map_status a = ''active'' \<and> map_status b = ''active'' \<and>
     map_inventory_item_id a = map_inventory_item_id b)"

definition payment_ck :: "payment_row \<Rightarrow> bool" where
  "payment_ck p \<longleftrightarrow>
    pay_purpose p \<in> {''order'', ''wallet_topup'', ''refund''} \<and>
    (pay_purpose p = ''order'' \<longrightarrow> pay_order_id p \<noteq> None) \<and>
    notBlank (pay_provider p) \<and> optNotBlank (pay_provider_transaction_id p) \<and>
    notBlank (pay_payment_reference p) \<and> pay_amount_vnd p > 0 \<and> pay_currency p = ''VND'' \<and>
    PaymentStatus_IsValid (pay_status p) \<and>
    (pay_status p = PaymentStatusConfirmed \<longrightarrow> pay_confirmed_at p \<noteq> None) \<and>
    environment_ck (pay_payment_environment p)"

text \<open>The partial unique index on the provider's transaction, the arbiter of \<open>ON CONFLICT\<close>.\<close>

definition payment_tx_uq :: "payment_row \<Rightarrow> payment_row \<Rightarrow> bool" where
  "payment_tx_uq a b \<longleftrightarrow>
    pay_provider_transaction_id a \<noteq> None \<and>
    pay_provider_transaction_id a = pay_provider_transaction_id b \<and>
    pay_provider a = pay_provider b \<and> pay_payment_environment a = pay_payment_environment b"

definition payment_uq :: "payment_row \<Rightarrow> payment_row \<Rightarrow> bool" where
  "payment_uq a b \<longleftrightarrow> pay_id a = pay_id b \<or> payment_tx_uq a b"

definition event_ck :: "event_row \<Rightarrow> bool" where
  "event_ck e \<longleftrightarrow>
    notBlank (evt_provider e) \<and> notBlank (evt_external_event_id e) \<and>
    optNotBlank (evt_provider_transaction_id e) \<and> notBlank (evt_event_type e) \<and>
    length (evt_payload_hash e) = 32 \<and> length (evt_business_fingerprint e) = 32 \<and>
    optNotBlank (evt_processing_error e) \<and> optNotBlank (evt_last_error_code e) \<and>
    evt_attempts e \<ge> 0 \<and> evt_max_attempts e > 0 \<and> evt_attempts e \<le> evt_max_attempts e \<and>
    ((evt_processing_status e = ''received'' \<and> evt_processing_started_at e = None \<and>
      evt_processed_at e = None) \<or>
     (evt_processing_status e = ''processing'' \<and> evt_processing_started_at e \<noteq> None \<and>
      evt_processed_at e = None) \<or>
     (evt_processing_status e \<in> {''completed'', ''review'', ''failed''} \<and> evt_processed_at e \<noteq> None)) \<and>
    environment_ck (evt_payment_environment e) \<and>
    evt_event_source e \<in> {''webhook'', ''reconciliation'', ''legacy''} \<and>
    evt_transfer_direction e \<in> {''inbound'', ''outbound''} \<and>
    notBlank (evt_transfer_content e) \<and> length (evt_transfer_content e) \<le> 2048 \<and>
    optNotBlank (evt_destination_account_identity e) \<and>
    optNotBlank (evt_provider_account_identity e)"

definition event_uq :: "event_row \<Rightarrow> event_row \<Rightarrow> bool" where
  "event_uq a b \<longleftrightarrow> evt_id a = evt_id b \<or>
    (evt_provider a = evt_provider b \<and> evt_external_event_id a = evt_external_event_id b) \<or>
    (evt_provider_transaction_id a \<noteq> None \<and>
     evt_provider_transaction_id a = evt_provider_transaction_id b \<and>
     evt_provider a = evt_provider b \<and> evt_payment_environment a = evt_payment_environment b)"

definition allocation_ck :: "allocation_row \<Rightarrow> bool" where
  "allocation_ck a \<longleftrightarrow>
    alc_target_type a \<in> {''order'', ''wallet_topup''} \<and> alc_target_id a > 0 \<and> alc_amount_vnd a > 0"

definition allocation_uq :: "allocation_row \<Rightarrow> allocation_row \<Rightarrow> bool" where
  "allocation_uq a b \<longleftrightarrow> alc_id a = alc_id b \<or> alc_payment_id a = alc_payment_id b \<or>
    (alc_target_type a = alc_target_type b \<and> alc_target_id a = alc_target_id b)"

definition review_ck :: "review_row \<Rightarrow> bool" where
  "review_ck r \<longleftrightarrow>
    notBlank (rev_provider r) \<and> optNotBlank (rev_provider_transaction_id r) \<and>
    notBlank (rev_payment_reference r) \<and> rev_amount_vnd r > 0 \<and> notBlank (rev_currency r) \<and>
    notBlank (rev_reason r) \<and> rev_status r \<in> {''open'', ''held'', ''resolved''} \<and>
    ((rev_status r = ''resolved'') = (rev_resolved_by_admin_id r \<noteq> None)) \<and>
    ((rev_status r = ''resolved'') = (rev_resolved_at r \<noteq> None)) \<and>
    optNotBlank (rev_resolution_note r) \<and> environment_ck (rev_payment_environment r) \<and>
    rev_event_source r \<in> {''webhook'', ''reconciliation'', ''legacy'', ''manual''} \<and>
    optNotBlank (rev_destination_account_identity r)"

definition wallet_ck :: "wallet_row \<Rightarrow> bool" where
  "wallet_ck w \<longleftrightarrow>
    wal_status w \<in> {''active'', ''frozen'', ''closed''} \<and> wal_balance_vnd w \<ge> 0 \<and> wal_version w > 0"

definition wallet_uq :: "wallet_row \<Rightarrow> wallet_row \<Rightarrow> bool" where
  "wallet_uq a b \<longleftrightarrow> wal_id a = wal_id b \<or> wal_user_id a = wal_user_id b"

definition ledger_ck :: "ledger_row \<Rightarrow> bool" where
  "ledger_ck l \<longleftrightarrow>
    WalletEntryType_IsValid (led_entry_type l) \<and> AcceptsAmount (led_entry_type l) (led_amount_vnd l) \<and>
    led_balance_after_vnd l \<ge> 0 \<and> notBlank (led_reference_type l) \<and> led_reference_id l > 0 \<and>
    notBlank (led_idempotency_key l)"

definition ledger_uq :: "ledger_row \<Rightarrow> ledger_row \<Rightarrow> bool" where
  "ledger_uq a b \<longleftrightarrow> led_id a = led_id b \<or>
    (led_account_id a = led_account_id b \<and> led_idempotency_key a = led_idempotency_key b)"

definition topup_ck :: "topup_row \<Rightarrow> bool" where
  "topup_ck t \<longleftrightarrow>
    top_amount_vnd t > 0 \<and> top_currency t = ''VND'' \<and> notBlank (top_payment_reference t) \<and>
    notBlank (top_idempotency_key t) \<and>
    top_status t \<in> {''pending_payment'', ''credited'', ''expired'', ''cancelled'', ''payment_review''} \<and>
    ((top_status t = ''credited'') = (top_credited_at t \<noteq> None)) \<and>
    snapshot_ck (top_bank t) \<and> top_version t > 0 \<and> environment_ck (top_payment_environment t)"

definition topup_uq :: "topup_row \<Rightarrow> topup_row \<Rightarrow> bool" where
  "topup_uq a b \<longleftrightarrow> top_id a = top_id b \<or> top_payment_reference a = top_payment_reference b \<or>
    (top_user_id a = top_user_id b \<and> top_idempotency_key a = top_idempotency_key b)"

definition deliveryEvent :: string where
  "deliveryEvent = ''order.delivery_requested''"

definition activeJob :: "DeliveryJobStatus \<Rightarrow> bool" where
  "activeJob s \<longleftrightarrow> s \<in> {DeliveryJobPending, DeliveryJobProcessing, DeliveryJobRetryableFailed,
     DeliveryJobAmbiguous, DeliveryJobManualReview}"

definition job_ck :: "job_row \<Rightarrow> bool" where
  "job_ck j \<longleftrightarrow>
    notBlank (job_event_type j) \<and> notBlank (job_aggregate_type j) \<and> job_aggregate_id j > 0 \<and>
    notBlank (job_deduplication_key j) \<and>
    (DeliveryJobStatus_IsValid (job_status j) \<or> job_status j = DeliveryJobOther ''failed'') \<and>
    job_attempts j \<ge> 0 \<and> job_max_attempts j > 0 \<and> job_attempts j \<le> job_max_attempts j \<and>
    optNotBlank (job_last_error_code j) \<and> optNotBlank (job_last_error_detail j) \<and>
    (if job_status j = DeliveryJobProcessing
     then job_locked_at j \<noteq> None \<and> job_locked_by j \<noteq> None \<and> optNotBlank (job_locked_by j) \<and>
          job_processing_stage j \<in> {Some ''claimed'', Some ''sending''}
     else job_locked_at j = None \<and> job_locked_by j = None \<and> job_processing_stage j = None) \<and>
    (job_completed_at j \<noteq> None) = (\<not> activeJob (job_status j)) \<and>
    (if job_event_type j = deliveryEvent
     then job_aggregate_type j = ''order'' \<and> job_delivery_order_id j = Some (job_aggregate_id j) \<and>
          (case job_recipient_chat_id j of None \<Rightarrow> False | Some c \<Rightarrow> c > 0)
     else job_delivery_order_id j = None \<and> job_recipient_chat_id j = None \<and>
          job_send_attempted_at j = None \<and> job_telegram_message_id j = None \<and>
          job_telegram_sent_at j = None \<and> job_manual_resolution j = None \<and>
          job_resolution_reason j = None \<and> job_resolved_by_admin_id j = None \<and>
          job_resolved_at j = None) \<and>
    (job_processing_stage j = Some ''sending'' \<longrightarrow> job_send_attempted_at j \<noteq> None) \<and>
    (case job_telegram_message_id j of None \<Rightarrow> job_telegram_sent_at j = None
       | Some m \<Rightarrow> m > 0 \<and> job_telegram_sent_at j \<noteq> None) \<and>
    (case job_manual_resolution j of
       None \<Rightarrow> job_resolution_reason j = None \<and> job_resolved_by_admin_id j = None \<and>
               job_resolved_at j = None
     | Some m \<Rightarrow> m \<in> {''retry'', ''mark_delivered'', ''cancel''} \<and>
               (case job_resolution_reason j of None \<Rightarrow> False | Some x \<Rightarrow> notBlank x) \<and>
               job_resolved_by_admin_id j \<noteq> None \<and> job_resolved_at j \<noteq> None) \<and>
    job_version j > 0"

definition job_active_uq :: "job_row \<Rightarrow> job_row \<Rightarrow> bool" where
  "job_active_uq a b \<longleftrightarrow>
    job_event_type a = deliveryEvent \<and> job_event_type b = deliveryEvent \<and>
    activeJob (job_status a) \<and> activeJob (job_status b) \<and>
    job_delivery_order_id a \<noteq> None \<and> job_delivery_order_id a = job_delivery_order_id b"

definition job_uq :: "job_row \<Rightarrow> job_row \<Rightarrow> bool" where
  "job_uq a b \<longleftrightarrow> job_id a = job_id b \<or> job_deduplication_key a = job_deduplication_key b \<or>
    job_active_uq a b"

definition attempt_ck :: "attempt_row \<Rightarrow> bool" where
  "attempt_ck a \<longleftrightarrow>
    att_attempt_number a > 0 \<and> notBlank (att_channel a) \<and>
    att_status a \<in> {''started'', ''succeeded'', ''retryable_failed'', ''ambiguous'',
      ''permanent_failed'', ''manual_resolution''} \<and>
    ((att_status a = ''started'') = (att_finished_at a = None)) \<and>
    notBlank (att_telegram_method a) \<and>
    (case att_http_status a of None \<Rightarrow> True | Some h \<Rightarrow> 100 \<le> h \<and> h \<le> 599) \<and>
    (case att_telegram_error_code a of None \<Rightarrow> True | Some h \<Rightarrow> 100 \<le> h \<and> h \<le> 599) \<and>
    (case att_retry_after_seconds a of None \<Rightarrow> True | Some h \<Rightarrow> h > 0) \<and>
    (case att_telegram_chat_id a of None \<Rightarrow> True | Some c \<Rightarrow> c > 0) \<and>
    (case att_telegram_message_id a of None \<Rightarrow> True | Some m \<Rightarrow> m > 0) \<and>
    (att_status a = ''succeeded'' \<longrightarrow> att_telegram_chat_id a \<noteq> None \<and> att_telegram_message_id a \<noteq> None) \<and>
    optNotBlank (att_error_class a) \<and> optNotBlank (att_error_code a) \<and> optNotBlank (att_error_detail a)"

definition attempt_uq :: "attempt_row \<Rightarrow> attempt_row \<Rightarrow> bool" where
  "attempt_uq a b \<longleftrightarrow> att_id a = att_id b \<or>
    (att_delivery_job_id a \<noteq> None \<and> att_delivery_job_id a = att_delivery_job_id b \<and>
     att_attempt_number a = att_attempt_number b \<and> att_status a = att_status b)"

definition audit_ck :: "audit_row \<Rightarrow> bool" where
  "audit_ck a \<longleftrightarrow>
    actor_type_ck (aud_actor_type a) \<and>
    (if aud_actor_type a = ''system'' then aud_actor_id a = None
     else (case aud_actor_id a of None \<Rightarrow> False | Some i \<Rightarrow> i > 0)) \<and>
    notBlank (aud_action a) \<and> notBlank (aud_resource_type a) \<and>
    (case aud_resource_id a of None \<Rightarrow> True | Some i \<Rightarrow> i > 0) \<and>
    optNotBlank (aud_request_id a)"

definition user_ck :: "user_row \<Rightarrow> bool" where
  "user_ck u \<longleftrightarrow> usr_telegram_user_id u > 0 \<and>
    usr_status u \<in> {UserStatusActive, UserStatusBanned, UserStatusDisabled} \<and>
    optNotBlank (usr_username u) \<and> optNotBlank (usr_display_name u)"

definition user_uq :: "user_row \<Rightarrow> user_row \<Rightarrow> bool" where
  "user_uq a b \<longleftrightarrow> usr_id a = usr_id b \<or> usr_telegram_user_id a = usr_telegram_user_id b"

definition admin_ck :: "admin_row \<Rightarrow> bool" where
  "admin_ck a \<longleftrightarrow> adm_role a \<in> {''owner'', ''admin'', ''operator'', ''support''}"

definition admin_uq :: "admin_row \<Rightarrow> admin_row \<Rightarrow> bool" where
  "admin_uq a b \<longleftrightarrow> adm_id a = adm_id b \<or> adm_user_id a = adm_user_id b"

definition category_ck :: "category_row \<Rightarrow> bool" where
  "category_ck c \<longleftrightarrow> notBlank (cat_name c) \<and> notBlank (cat_slug c) \<and> notBlank (cat_emoji c) \<and>
    cat_sort_order c \<ge> 0 \<and> cat_version c > 0"

definition category_uq :: "category_row \<Rightarrow> category_row \<Rightarrow> bool" where
  "category_uq a b \<longleftrightarrow> cat_id a = cat_id b \<or> cat_slug a = cat_slug b"

definition product_ck :: "product_row \<Rightarrow> bool" where
  "product_ck p \<longleftrightarrow> notBlank (prd_name p) \<and> notBlank (prd_slug p) \<and> prd_price_vnd p \<ge> 0 \<and>
    ((prd_delivery_type p = ''inventory'' \<and> prd_contact_url p = None) \<or>
     (prd_delivery_type p = ''contact'' \<and> prd_contact_url p \<noteq> None \<and> optNotBlank (prd_contact_url p))) \<and>
    prd_version p > 0"

definition product_uq :: "product_row \<Rightarrow> product_row \<Rightarrow> bool" where
  "product_uq a b \<longleftrightarrow> prd_id a = prd_id b \<or>
    (prd_category_id a = prd_category_id b \<and> prd_slug a = prd_slug b)"

definition bank_ck :: "bank_row \<Rightarrow> bool" where
  "bank_ck b \<longleftrightarrow>
    length (bnk_bank_bin b) = 6 \<and> list_all isDigitChar (bnk_bank_bin b) \<and>
    notBlank (bnk_bank_name b) \<and> notBlank (bnk_account_name b) \<and> notBlank (bnk_display_name b) \<and>
    bnk_encrypted_account_number b \<noteq> [] \<and> length (bnk_account_number_fingerprint b) = 32 \<and>
    notBlank (bnk_encryption_key_id b) \<and>
    ((bnk_encryption_format b = ''legacy-v0'' \<and> bnk_encryption_nonce b = []) \<or>
     (bnk_encryption_format b = ''aes-256-gcm-v1'' \<and> length (bnk_encryption_nonce b) = 12 \<and>
      length (bnk_encrypted_account_number b) \<ge> 16)) \<and>
    bnk_encryption_key_version b > 0 \<and>
    length (bnk_display_last4 b) = 4 \<and> list_all isDigitChar (bnk_display_last4 b) \<and>
    bnk_sort_order b \<ge> 0 \<and> bnk_version b > 0 \<and> environment_ck (bnk_payment_environment b)"

definition bank_uq :: "bank_row \<Rightarrow> bank_row \<Rightarrow> bool" where
  "bank_uq a b \<longleftrightarrow> bnk_id a = bnk_id b \<or> bnk_account_number_fingerprint a = bnk_account_number_fingerprint b"

definition provider_account_ck :: "provider_account_row \<Rightarrow> bool" where
  "provider_account_ck m \<longleftrightarrow> notBlank (pac_provider m) \<and> environment_ck (pac_environment m) \<and>
    notBlank (pac_external_account_identity m) \<and> length (pac_external_identity_fingerprint m) = 32 \<and>
    pac_status m \<in> {''active'', ''inactive''} \<and> pac_version m > 0"

definition provider_account_uq :: "provider_account_row \<Rightarrow> provider_account_row \<Rightarrow> bool" where
  "provider_account_uq a b \<longleftrightarrow> pac_id a = pac_id b \<or>
    (pac_provider a = pac_provider b \<and> pac_environment a = pac_environment b \<and>
     (pac_external_account_identity a = pac_external_account_identity b \<or>
      pac_external_identity_fingerprint a = pac_external_identity_fingerprint b \<or>
      (pac_local_bank_account_id a = pac_local_bank_account_id b \<and>
       pac_status a = ''active'' \<and> pac_status b = ''active'')))"

definition checkpoint_ck :: "checkpoint_row \<Rightarrow> bool" where
  "checkpoint_ck c \<longleftrightarrow> optNotBlank (chk_cursor_value c) \<and>
    optNotBlank (chk_last_transaction_external_id c) \<and> optNotBlank (chk_last_error_code c) \<and>
    (case chk_lease_owner c of None \<Rightarrow> chk_lease_expires_at c = None
     | Some w \<Rightarrow> notBlank w \<and> chk_lease_expires_at c \<noteq> None) \<and> chk_version c > 0"

definition checkpoint_uq :: "checkpoint_row \<Rightarrow> checkpoint_row \<Rightarrow> bool" where
  "checkpoint_uq a b \<longleftrightarrow> chk_id a = chk_id b \<or> chk_provider_account_id a = chk_provider_account_id b"

section \<open>The database\<close>

datatype table_name =
    Tab_orders | Tab_order_items | Tab_history | Tab_inventory | Tab_payments | Tab_events
  | Tab_allocations | Tab_reviews | Tab_wallets | Tab_ledger | Tab_topups | Tab_outbox
  | Tab_attempts | Tab_audit | Tab_users | Tab_admins | Tab_sessions | Tab_categories | Tab_products
  | Tab_banks | Tab_provider_accounts | Tab_checkpoints

record db =
  users :: "user_row list"
  admins :: "admin_row list"
  admin_sessions :: "session_row list"
  categories :: "category_row list"
  products :: "product_row list"
  bank_accounts :: "bank_row list"
  update_receipts :: "receipt_row list"
  provider_accounts :: "provider_account_row list"
  checkpoints :: "checkpoint_row list"
  orders :: "order_row list"
  order_items :: "order_item_row list"
  order_history :: "history_row list"
  inventory_items :: "inventory_row list"
  order_inventory :: "mapping_row list"
  payments :: "payment_row list"
  payment_events :: "event_row list"
  payment_allocations :: "allocation_row list"
  payment_reviews :: "review_row list"
  wallet_accounts :: "wallet_row list"
  wallet_ledger :: "ledger_row list"
  wallet_topups :: "topup_row list"
  outbox_events :: "job_row list"
  delivery_attempts :: "attempt_row list"
  audit_logs :: "audit_row list"
  seqs :: "table_name \<Rightarrow> int64"
  clock :: time \<comment> \<open>\<open>clock_timestamp()\<close>\<close>

type_synonym 'a dbtx = "(db, 'a) tx"

section \<open>Statements\<close>

text \<open>The next value of an identity column.\<close>

definition nextId :: "table_name \<Rightarrow> int64 dbtx" where
  "nextId t = (\<lambda>s. (Inr (seqs s t + 1), s\<lparr>seqs := (seqs s)(t := seqs s t + 1)\<rparr>))"

text \<open>\<open>INSERT ... RETURNING\<close> with the table's row check and unique indexes.\<close>

definition sqlInsert ::
  "(db \<Rightarrow> 'r list) \<Rightarrow> (('r list \<Rightarrow> 'r list) \<Rightarrow> db \<Rightarrow> db) \<Rightarrow> ('r \<Rightarrow> bool) \<Rightarrow> ('r \<Rightarrow> 'r \<Rightarrow> bool) \<Rightarrow>
   'r \<Rightarrow> 'r dbtx" where
  "sqlInsert get upd ck uq r = (\<lambda>s.
     if \<not> ck r then (Inl PgCheckViolation, s)
     else if \<exists>x \<in> set (get s). uq r x then (Inl PgUniqueViolation, s)
     else (Inr r, upd (\<lambda>rows. rows @ [r]) s))"

text \<open>
  \<open>INSERT ... ON CONFLICT (arbiter) DO NOTHING RETURNING\<close>: no row when the arbiter
  clashes, so the generated \<open>:one\<close> query reports \<open>pgx.ErrNoRows\<close>.
\<close>

definition sqlInsertIgnore ::
  "(db \<Rightarrow> 'r list) \<Rightarrow> (('r list \<Rightarrow> 'r list) \<Rightarrow> db \<Rightarrow> db) \<Rightarrow> ('r \<Rightarrow> bool) \<Rightarrow> ('r \<Rightarrow> 'r \<Rightarrow> bool) \<Rightarrow>
   ('r \<Rightarrow> 'r \<Rightarrow> bool) \<Rightarrow> 'r \<Rightarrow> 'r dbtx" where
  "sqlInsertIgnore get upd ck uq arbiter r = (\<lambda>s.
     if \<not> ck r then (Inl PgCheckViolation, s)
     else if \<exists>x \<in> set (get s). arbiter r x then (Inl PgxErrNoRows, s)
     else sqlInsert get upd ck uq r s)"

text \<open>\<open>UPDATE ... WHERE ... RETURNING\<close>: the updated rows in table order.\<close>

definition sqlUpdate ::
  "(db \<Rightarrow> 'r list) \<Rightarrow> (('r list \<Rightarrow> 'r list) \<Rightarrow> db \<Rightarrow> db) \<Rightarrow> ('r \<Rightarrow> bool) \<Rightarrow> ('r \<Rightarrow> 'r \<Rightarrow> bool) \<Rightarrow>
   ('r \<Rightarrow> bool) \<Rightarrow> ('r \<Rightarrow> 'r) \<Rightarrow> ('r list) dbtx" where
  "sqlUpdate get upd ck uq p f = (\<lambda>s.
     let touched = map f (filter p (get s)) in
     if \<not> list_all ck touched then (Inl PgCheckViolation, s)
     else if touched \<noteq> [] \<and> \<not> noClash uq (updateWhere p f (get s)) then (Inl PgUniqueViolation, s)
     else (Inr touched, upd (updateWhere p f) s))"

text \<open>A generated \<open>:one\<close> query: the first row or \<open>pgx.ErrNoRows\<close>.\<close>

definition one :: "'r list dbtx \<Rightarrow> 'r dbtx" where
  "one m = bindE m (\<lambda>rows. case rows of [] \<Rightarrow> throwE PgxErrNoRows | r # _ \<Rightarrow> returnE r)"

definition sqlSelect :: "(db \<Rightarrow> 'r list) \<Rightarrow> 'r list dbtx" where
  "sqlSelect q = askE q"

definition sqlSelectOne :: "(db \<Rightarrow> 'r list) \<Rightarrow> 'r dbtx" where
  "sqlSelectOne q = one (sqlSelect q)"

section \<open>Transactions\<close>

text \<open>
  \<open>Transactor.WithinTransaction\<close>: commit when the callback succeeds, otherwise roll back
  and return the callback's error. Sequences keep their advance. Failure of \<open>BEGIN\<close> or
  \<open>COMMIT\<close> itself is not modelled.
\<close>

definition WithinTransaction :: "'a dbtx \<Rightarrow> 'a dbtx" where
  "WithinTransaction fn = (\<lambda>s.
     case fn s of
       (Inr x, s') \<Rightarrow> (Inr x, s')
     | (Inl e, s') \<Rightarrow> (Inl e, s\<lparr>seqs := seqs s'\<rparr>))"

lemma WithinTransaction_Inr_iff [simp]:
  "WithinTransaction m s = (Inr r, s') \<longleftrightarrow> m s = (Inr r, s')"
  by (auto simp: WithinTransaction_def split: prod.splits sum.splits)

lemma WithinTransaction_Inl:
  "WithinTransaction m s = (Inl e, s') \<Longrightarrow> \<exists>q. s' = s\<lparr>seqs := q\<rparr>"
  by (auto simp: WithinTransaction_def split: prod.splits sum.splits)

section \<open>Statement lemmas\<close>

text \<open>
  Rolling back restores the tables but not the sequences, so an invariant survives a failed
  transaction when it tolerates the advanced sequences.
\<close>

lemma always_WithinTransaction:
  assumes m: "always I m" and roll: "\<And>s s'. I s \<Longrightarrow> I s' \<Longrightarrow> I (s\<lparr>seqs := seqs s'\<rparr>)"
  shows "always I (WithinTransaction m)"
proof (rule alwaysI)
  fix s
  assume I: "I s"
  then have "I (snd (m s))" using m by (simp add: always_def)
  with I show "I (snd (WithinTransaction m s))"
    by (auto simp: WithinTransaction_def roll split: prod.splits sum.splits)
qed

lemma one_Inr_iff [simp]:
  "one m s = (Inr r, s') \<longleftrightarrow> (\<exists>rs. m s = (Inr (r # rs), s'))"
  by (auto simp: one_def split: list.splits) (metis list.exhaust)

lemma always_one [always_intros]: "always I m \<Longrightarrow> always I (one m)"
  unfolding one_def by (intro always_intros)

lemma sqlSelect_Inr_iff [simp]: "sqlSelect q s = (Inr rs, s') \<longleftrightarrow> rs = q s \<and> s' = s"
  by (auto simp: sqlSelect_def)

lemma sqlSelectOne_Inr_iff [simp]:
  "sqlSelectOne q s = (Inr r, s') \<longleftrightarrow> (\<exists>rs. q s = r # rs) \<and> s' = s"
  by (auto simp: sqlSelectOne_def eq_commute [of "q s"])

lemma sqlSelectOne_Inl_iff:
  "sqlSelectOne q s = (Inl e, s') \<longleftrightarrow> q s = [] \<and> e = PgxErrNoRows \<and> s' = s"
  by (auto simp: sqlSelectOne_def one_def bindE_app sqlSelect_def split: list.splits)

lemma pure_sqlSelect [intro, simp]: "pure_tx (sqlSelect q)"
  by (simp add: pure_tx_def sqlSelect_def)

lemma pure_sqlSelectOne [intro, simp]: "pure_tx (sqlSelectOne q)"
  by (simp add: pure_tx_def sqlSelectOne_def one_def bindE_app sqlSelect_def split: list.splits)

lemma pure_noRows [intro, simp]: "pure_tx m \<Longrightarrow> pure_tx (noRows e m)"
  by (auto simp: pure_tx_def noRows_app split: prod.splits sum.splits) (metis snd_conv)+

lemma always_sqlSelect [always_intros]: "always I (sqlSelect q)"
  by (rule pure_tx_always) simp

lemma always_sqlSelectOne [always_intros]: "always I (sqlSelectOne q)"
  by (rule pure_tx_always) simp

lemma sqlInsert_InrD:
  "sqlInsert get upd ck uq r s = (Inr x, s') \<Longrightarrow>
   x = r \<and> ck r \<and> (\<forall>y \<in> set (get s). \<not> uq r y) \<and> s' = upd (\<lambda>rows. rows @ [r]) s"
  by (auto simp: sqlInsert_def split: if_splits)

lemma sqlInsertIgnore_InrD:
  "sqlInsertIgnore get upd ck uq arb r s = (Inr x, s') \<Longrightarrow>
   x = r \<and> ck r \<and> (\<forall>y \<in> set (get s). \<not> uq r y) \<and> s' = upd (\<lambda>rows. rows @ [r]) s"
  by (auto simp: sqlInsertIgnore_def dest: sqlInsert_InrD split: if_splits)

lemma sqlUpdate_InrD:
  "sqlUpdate get upd ck uq p f s = (Inr rs, s') \<Longrightarrow>
   rs = map f (filter p (get s)) \<and> list_all ck rs \<and>
   (rs = [] \<or> noClash uq (updateWhere p f (get s))) \<and> s' = upd (updateWhere p f) s"
  by (auto simp: sqlUpdate_def Let_def split: if_splits)

lemma nextId_InrD:
  "nextId t s = (Inr i, s') \<Longrightarrow> i = seqs s t + 1 \<and> s' = s\<lparr>seqs := (seqs s)(t := seqs s t + 1)\<rparr>"
  by (auto simp: nextId_def)

lemma filter_hd_mem: "filter p xs = y # ys \<Longrightarrow> y \<in> set xs \<and> p y"
  by (metis filter_eq_ConsD in_set_conv_decomp)

lemmas sql_dests = sqlInsert_InrD sqlInsertIgnore_InrD sqlUpdate_InrD nextId_InrD

end
