(* ===== verification/Sql_Orders.thy ===== *)
theory Sql_Orders
  imports Database
begin

text \<open>
  The queries of \<open>internal/postgres/generated/orders.sql.go\<close>, and those of
  \<open>users.sql.go\<close>, \<open>telegram.sql.go\<close>, \<open>bank_accounts.sql.go\<close> and \<open>admin.sql.go\<close> that
  every component uses. A query with \<open>SKIP LOCKED\<close> takes the predicate \<open>skip\<close> of the rows
  that concurrent transactions hold locked; the rows it returns are in table order
  (\<open>RETURNING\<close> promises none).
\<close>

section \<open>Users, banks, receipts, audit\<close>

definition LockUserForOrderCreation :: "int64 \<Rightarrow> user_row dbtx" where
  "LockUserForOrderCreation telegram_user_id =
     sqlSelectOne (\<lambda>s. filter (\<lambda>u. usr_telegram_user_id u = telegram_user_id) (users s))"

definition LockUserByTelegramID :: "int64 \<Rightarrow> user_row dbtx" where
  "LockUserByTelegramID telegram_user_id =
     sqlSelectOne (\<lambda>s. filter (\<lambda>u. usr_telegram_user_id u = telegram_user_id) (users s))"

definition GetUserByTelegramID :: "int64 \<Rightarrow> user_row dbtx" where
  "GetUserByTelegramID telegram_user_id =
     sqlSelectOne (\<lambda>s. filter (\<lambda>u. usr_telegram_user_id u = telegram_user_id) (users s))"

text \<open>The row of \<open>GetAdminAuthorizationByTelegramID\<close>: the admin joined with its user.\<close>

definition GetAdminAuthorizationByTelegramID :: "int64 \<Rightarrow> (admin_row \<times> user_row) dbtx" where
  "GetAdminAuthorizationByTelegramID telegram_user_id =
     sqlSelectOne (\<lambda>s. [(a, u). a \<leftarrow> admins s, u \<leftarrow> users s,
       usr_id u = adm_user_id a \<and> usr_telegram_user_id u = telegram_user_id])"

definition GetActiveBankAccountForOrder :: "int64 \<Rightarrow> string \<Rightarrow> bank_row dbtx" where
  "GetActiveBankAccountForOrder bid payment_environment =
     sqlSelectOne (\<lambda>s. filter (\<lambda>b. bnk_id b = bid \<and> bnk_is_active b \<and>
        bnk_payment_environment b = payment_environment \<and>
        bnk_encryption_format b = ''aes-256-gcm-v1'') (bank_accounts s))"

definition CompleteTelegramUpdateReceipt :: "int64 \<Rightarrow> receipt_row dbtx" where
  "CompleteTelegramUpdateReceipt update_id =
     bindE (askE clock) (\<lambda>ts.
     one (sqlUpdate update_receipts update_receipts_update receipt_ck
       (\<lambda>a b. rcp_update_id a = rcp_update_id b)
       (\<lambda>r. rcp_update_id r = update_id \<and> rcp_status r = ''processing'')
       (\<lambda>r. r\<lparr>rcp_status := ''completed'', rcp_processed_at := Some ts, rcp_last_error := None\<rparr>)))"

text \<open>\<open>completeReceipt\<close> of \<open>admin_store.go\<close>: a receipt no longer processing is a duplicate.\<close>

definition completeReceipt :: "int64 \<Rightarrow> unit dbtx" where
  "completeReceipt update_id =
     bindE (noRows ErrDuplicateUpdate (CompleteTelegramUpdateReceipt update_id)) (\<lambda>_. returnE ())"

record audit_params =
  ap_actor_type :: string
  ap_actor_id :: "int64 option"
  ap_action :: string
  ap_resource_type :: string
  ap_resource_id :: "int64 option"
  ap_before_data :: "json option"
  ap_after_data :: "json option"
  ap_request_id :: "string option"
  ap_telegram_update_id :: "int64 option"

definition InsertAuditLog :: "audit_params \<Rightarrow> audit_row dbtx" where
  "InsertAuditLog p =
     bindE (nextId Tab_audit) (\<lambda>i.
     sqlInsert audit_logs audit_logs_update audit_ck (\<lambda>a b. aud_id a = aud_id b)
       \<lparr>aud_id = i, aud_actor_type = ap_actor_type p, aud_actor_id = ap_actor_id p,
        aud_action = ap_action p, aud_resource_type = ap_resource_type p,
        aud_resource_id = ap_resource_id p, aud_before_data = ap_before_data p,
        aud_after_data = ap_after_data p, aud_request_id = ap_request_id p,
        aud_telegram_update_id = ap_telegram_update_id p\<rparr>)"

definition LockAdminSessionByID :: "int64 \<Rightarrow> session_row dbtx" where
  "LockAdminSessionByID sid = sqlSelectOne (\<lambda>s. filter (\<lambda>x. ses_id x = sid) (admin_sessions s))"

definition session_ck :: "session_row \<Rightarrow> bool" where
  "session_ck x \<longleftrightarrow> notBlank (ses_state x) \<and> ses_version x > 0"

definition session_uq :: "session_row \<Rightarrow> session_row \<Rightarrow> bool" where
  "session_uq a b \<longleftrightarrow> ses_id a = ses_id b \<or> ses_admin_id a = ses_admin_id b"

definition FinishAdminSessionGuarded :: "string \<Rightarrow> int64 \<Rightarrow> int64 \<Rightarrow> int64 \<Rightarrow> session_row dbtx" where
  "FinishAdminSessionGuarded state sid admin_id expected_version =
     bindE (askE clock) (\<lambda>ts.
     one (sqlUpdate admin_sessions admin_sessions_update session_ck session_uq
       (\<lambda>x. ses_id x = sid \<and> ses_admin_id x = admin_id \<and> ses_version x = expected_version \<and>
            ses_expires_at x > ts \<and> ses_state x \<notin> {''completed'', ''cancelled''})
       (\<lambda>x. x\<lparr>ses_state := state, ses_payload := [], ses_expires_at := ts,
              ses_version := ses_version x + 1\<rparr>)))"

section \<open>Orders\<close>

definition GetProductForOrderCreation :: "int64 \<Rightarrow> (product_row \<times> category_row) dbtx" where
  "GetProductForOrderCreation product_id =
     sqlSelectOne (\<lambda>s. [(p, c). p \<leftarrow> products s, c \<leftarrow> categories s,
       cat_id c = prd_category_id p \<and> prd_id p = product_id])"

definition activeMapping :: "db \<Rightarrow> int64 \<Rightarrow> bool" where
  "activeMapping s iid \<longleftrightarrow>
     (\<exists>m \<in> set (order_inventory s). map_inventory_item_id m = iid \<and> map_status m = ''active'')"

text \<open>The WHERE clause shared by the three queries that look for claimable stock.\<close>

definition claimable :: "db \<Rightarrow> int64 \<Rightarrow> inventory_row \<Rightarrow> bool" where
  "claimable s product_id i \<longleftrightarrow>
     inv_product_id i = product_id \<and> inv_status i = InventoryStatusAvailable \<and>
     inv_encryption_format i = ''aes-256-gcm-v1'' \<and> \<not> activeMapping s (inv_id i)"

definition CountClaimableInventoryForOrder :: "int64 \<Rightarrow> int64 dbtx" where
  "CountClaimableInventoryForOrder product_id =
     askE (\<lambda>s. int (length (filter (claimable s product_id) (inventory_items s))))"

record create_order_params =
  cop_user_id :: int64
  cop_subtotal_vnd :: int64
  cop_total_vnd :: int64
  cop_payment_reference :: string
  cop_idempotency_key :: string
  cop_expires_at :: time
  cop_bank :: bank_snapshot
  cop_payment_environment :: string

definition CreatePendingOrderWithBank :: "create_order_params \<Rightarrow> order_row dbtx" where
  "CreatePendingOrderWithBank p =
     bindE (nextId Tab_orders) (\<lambda>i.
     bindE (askE clock) (\<lambda>ts.
     sqlInsertIgnore orders orders_update order_ck order_uq order_uq
       \<lparr>ord_id = i, ord_user_id = cop_user_id p, ord_status = OrderStatusPendingPayment,
        ord_currency = ''VND'', ord_subtotal_vnd = cop_subtotal_vnd p,
        ord_total_vnd = cop_total_vnd p, ord_payment_reference = cop_payment_reference p,
        ord_idempotency_key = cop_idempotency_key p, ord_expires_at = cop_expires_at p,
        ord_paid_at = None, ord_delivery_started_at = None, ord_delivered_at = None,
        ord_cancelled_at = None, ord_version = 1,
        ord_bank = Some ((cop_bank p)\<lparr>snap_encryption_format := ''aes-256-gcm-v1''\<rparr>),
        ord_payment_environment = cop_payment_environment p, ord_created_at = ts\<rparr>))"

definition FindOrderByUserIdempotency :: "int64 \<Rightarrow> string \<Rightarrow> order_row dbtx" where
  "FindOrderByUserIdempotency user_id key =
     sqlSelectOne (\<lambda>s. filter (\<lambda>x. ord_user_id x = user_id \<and> ord_idempotency_key x = key) (orders s))"

definition FindOrderByPaymentReference :: "string \<Rightarrow> order_row dbtx" where
  "FindOrderByPaymentReference reference =
     sqlSelectOne (\<lambda>s. filter (\<lambda>x. ord_payment_reference x = reference) (orders s))"

text \<open>\<open>JOIN LATERAL (SELECT ... ORDER BY id LIMIT 1)\<close>: the first item of an order.\<close>

definition itemsOf :: "db \<Rightarrow> int64 \<Rightarrow> order_item_row list" where
  "itemsOf s oid = filter (\<lambda>i. oit_order_id i = oid) (order_items s)"

definition firstItem :: "db \<Rightarrow> int64 \<Rightarrow> order_item_row list" where
  "firstItem s oid = take 1 (sort_key oit_id (itemsOf s oid))"

definition LockOrderByPaymentReference :: "string \<Rightarrow> (order_row \<times> order_item_row) dbtx" where
  "LockOrderByPaymentReference reference =
     sqlSelectOne (\<lambda>s. [(x, i). x \<leftarrow> orders s, ord_payment_reference x = reference,
       i \<leftarrow> firstItem s (ord_id x)])"

definition CountOrdersOwnedByTelegramUser :: "int64 \<Rightarrow> int64 dbtx" where
  "CountOrdersOwnedByTelegramUser telegram_user_id =
     askE (\<lambda>s. int (length [x. x \<leftarrow> orders s, u \<leftarrow> users s,
       usr_id u = ord_user_id x \<and> usr_telegram_user_id u = telegram_user_id]))"

text \<open>\<open>LEFT JOIN outbox_events\<close>: the delivery statuses of an order, or one NULL.\<close>

definition deliveryStatuses :: "db \<Rightarrow> int64 \<Rightarrow> DeliveryJobStatus option list" where
  "deliveryStatuses s oid =
     (case filter (\<lambda>j. job_event_type j = deliveryEvent \<and> job_delivery_order_id j = Some oid)
             (outbox_events s)
      of [] \<Rightarrow> [None] | js \<Rightarrow> map (\<lambda>j. Some (job_status j)) js)"

definition sqlPage :: "int32 \<Rightarrow> int32 \<Rightarrow> 'r list \<Rightarrow> 'r list" where
  "sqlPage off lim rows = take (nat lim) (drop (nat off) rows)"

definition ListOrdersOwnedByTelegramUser ::
  "int64 \<Rightarrow> int32 \<Rightarrow> int32 \<Rightarrow> (order_row \<times> order_item_row \<times> DeliveryJobStatus option) list dbtx" where
  "ListOrdersOwnedByTelegramUser telegram_user_id page_offset page_limit =
     (if page_offset < 0 \<or> page_limit < 0 then throwE (ErrOther ''LIMIT/OFFSET must not be negative'')
      else sqlSelect (\<lambda>s. sqlPage page_offset page_limit
        (sort_key (\<lambda>(x, _). - ord_created_at x) (sort_key (\<lambda>(x, _). - ord_id x)
          [(x, i, d). x \<leftarrow> orders s, u \<leftarrow> users s,
             usr_id u = ord_user_id x \<and> usr_telegram_user_id u = telegram_user_id,
             i \<leftarrow> firstItem s (ord_id x), d \<leftarrow> deliveryStatuses s (ord_id x)]))))"

definition GetOrderDetailOwnedByTelegramUser ::
  "int64 \<Rightarrow> int64 \<Rightarrow> (order_row \<times> order_item_row \<times> DeliveryJobStatus option) dbtx" where
  "GetOrderDetailOwnedByTelegramUser order_id telegram_user_id =
     sqlSelectOne (\<lambda>s. [(x, i, d). x \<leftarrow> orders s, u \<leftarrow> users s,
       usr_id u = ord_user_id x \<and> ord_id x = order_id \<and> usr_telegram_user_id u = telegram_user_id,
       i \<leftarrow> firstItem s (ord_id x), d \<leftarrow> deliveryStatuses s (ord_id x)])"

definition LockOrderDetailOwnedByTelegramUser ::
  "int64 \<Rightarrow> int64 \<Rightarrow> (order_row \<times> order_item_row) dbtx" where
  "LockOrderDetailOwnedByTelegramUser order_id telegram_user_id =
     sqlSelectOne (\<lambda>s. [(x, i). x \<leftarrow> orders s, u \<leftarrow> users s,
       usr_id u = ord_user_id x \<and> ord_id x = order_id \<and> usr_telegram_user_id u = telegram_user_id,
       i \<leftarrow> firstItem s (ord_id x)])"

definition updateOrders :: "(order_row \<Rightarrow> bool) \<Rightarrow> (order_row \<Rightarrow> order_row) \<Rightarrow> order_row list dbtx" where
  "updateOrders p f = sqlUpdate orders orders_update order_ck order_uq p f"

definition CancelPendingOrderOwnedGuarded ::
  "int64 \<Rightarrow> int64 \<Rightarrow> time \<Rightarrow> int64 \<Rightarrow> order_row dbtx" where
  "CancelPendingOrderOwnedGuarded oid user_id now expected_version =
     bindE (askE clock) (\<lambda>ts.
     one (updateOrders
       (\<lambda>x. ord_id x = oid \<and> ord_user_id x = user_id \<and> ord_status x = OrderStatusPendingPayment \<and>
            ord_expires_at x > now \<and> ord_version x = expected_version)
       (\<lambda>x. x\<lparr>ord_status := OrderStatusCancelled, ord_cancelled_at := Some ts,
              ord_version := ord_version x + 1\<rparr>)))"

definition overdue :: "time \<Rightarrow> order_row \<Rightarrow> bool" where
  "overdue now x \<longleftrightarrow> ord_status x = OrderStatusPendingPayment \<and> ord_expires_at x \<le> now"

definition overdueIds :: "(int64 \<Rightarrow> bool) \<Rightarrow> time \<Rightarrow> int32 \<Rightarrow> db \<Rightarrow> int64 list" where
  "overdueIds skip now batch_size s =
     map ord_id (take (nat batch_size) (filter (\<lambda>x. \<not> skip (ord_id x))
       (sort_key ord_expires_at (sort_key ord_id (filter (overdue now) (orders s))))))"

definition ClaimOverduePendingOrders ::
  "(int64 \<Rightarrow> bool) \<Rightarrow> time \<Rightarrow> int32 \<Rightarrow> order_row list dbtx" where
  "ClaimOverduePendingOrders skip now batch_size =
     (if batch_size < 0 then throwE (ErrOther ''LIMIT must not be negative'') else
      bindE (askE (overdueIds skip now batch_size)) (\<lambda>selected.
      updateOrders (\<lambda>x. ord_id x \<in> set selected \<and> overdue now x)
        (\<lambda>x. x\<lparr>ord_status := OrderStatusExpired, ord_version := ord_version x + 1\<rparr>)))"

definition InsertOrderItem ::
  "int64 \<Rightarrow> int64 \<Rightarrow> string \<Rightarrow> int64 \<Rightarrow> int32 \<Rightarrow> int64 \<Rightarrow> order_item_row dbtx" where
  "InsertOrderItem order_id product_id product_name unit_price_vnd quantity line_total_vnd =
     bindE (nextId Tab_order_items) (\<lambda>i.
     sqlInsert order_items order_items_update order_item_ck (\<lambda>a b. oit_id a = oit_id b)
       \<lparr>oit_id = i, oit_order_id = order_id, oit_product_id = product_id,
        oit_product_name = product_name, oit_unit_price_vnd = unit_price_vnd,
        oit_quantity = quantity, oit_line_total_vnd = line_total_vnd\<rparr>)"

definition LockOrderForUpdate :: "int64 \<Rightarrow> order_row dbtx" where
  "LockOrderForUpdate oid = sqlSelectOne (\<lambda>s. filter (\<lambda>x. ord_id x = oid) (orders s))"

definition UpdateOrderStatusGuarded ::
  "OrderStatus \<Rightarrow> int64 \<Rightarrow> OrderStatus \<Rightarrow> int64 \<Rightarrow> order_row dbtx" where
  "UpdateOrderStatusGuarded new_status oid expected_status expected_version =
     one (updateOrders
       (\<lambda>x. ord_id x = oid \<and> ord_status x = expected_status \<and> ord_version x = expected_version)
       (\<lambda>x. x\<lparr>ord_status := new_status, ord_version := ord_version x + 1\<rparr>))"

definition MarkOrderPaidGuarded :: "time \<Rightarrow> int64 \<Rightarrow> int64 \<Rightarrow> order_row dbtx" where
  "MarkOrderPaidGuarded paid_at oid expected_version =
     one (updateOrders
       (\<lambda>x. ord_id x = oid \<and> ord_status x = OrderStatusPendingPayment \<and> ord_version x = expected_version)
       (\<lambda>x. x\<lparr>ord_status := OrderStatusPaid, ord_paid_at := Some paid_at,
              ord_version := ord_version x + 1\<rparr>))"

record history_params =
  hp_order_id :: int64
  hp_from_status :: "OrderStatus option"
  hp_to_status :: OrderStatus
  hp_reason_code :: "string option"
  hp_actor_type :: string
  hp_actor_id :: "int64 option"
  hp_request_id :: "string option"

definition InsertOrderStatusHistory :: "history_params \<Rightarrow> history_row dbtx" where
  "InsertOrderStatusHistory p =
     bindE (nextId Tab_history) (\<lambda>i.
     sqlInsert order_history order_history_update history_ck (\<lambda>a b. his_id a = his_id b)
       \<lparr>his_id = i, his_order_id = hp_order_id p, his_from_status = hp_from_status p,
        his_to_status = hp_to_status p, his_reason_code = hp_reason_code p,
        his_actor_type = hp_actor_type p, his_actor_id = hp_actor_id p,
        his_request_id = hp_request_id p\<rparr>)"

end
