(* ===== verification/Sql_Wallet.thy ===== *)
theory Sql_Wallet
  imports Sql_Orders
begin

text \<open>The queries of \<open>internal/postgres/generated/wallet.sql.go\<close>.\<close>

text \<open>
  The insert-or-touch of \<open>EnsureWalletAccount\<close>: the upsert leaves every column of an
  existing row as it is. The identity value is consumed in both cases.
\<close>

definition EnsureWalletAccount :: "int64 \<Rightarrow> wallet_row dbtx" where
  "EnsureWalletAccount user_id =
     bindE (nextId Tab_wallets) (\<lambda>i.
     bindE (askE (\<lambda>s. filter (\<lambda>w. wal_user_id w = user_id) (wallet_accounts s))) (\<lambda>existing.
     case existing of
       w # _ \<Rightarrow> returnE w
     | [] \<Rightarrow> sqlInsert wallet_accounts wallet_accounts_update wallet_ck wallet_uq
         \<lparr>wal_id = i, wal_user_id = user_id, wal_status = ''active'', wal_balance_vnd = 0,
          wal_version = 1\<rparr>))"

definition LockWalletAccount :: "int64 \<Rightarrow> wallet_row dbtx" where
  "LockWalletAccount wid = sqlSelectOne (\<lambda>s. filter (\<lambda>w. wal_id w = wid) (wallet_accounts s))"

text \<open>
  \<open>balance_vnd + amount\<close> is evaluated for the rows that pass the other conjuncts; a sum
  outside \<open>bigint\<close> is the numeric-out-of-range error.
\<close>

definition UpdateWalletBalance :: "int64 \<Rightarrow> int64 \<Rightarrow> wallet_row dbtx" where
  "UpdateWalletBalance amount_vnd wid =
     bindE (askE (\<lambda>s. \<exists>w \<in> set (wallet_accounts s). wal_id w = wid \<and> wal_status w = ''active'' \<and>
        \<not> is_int64 (wal_balance_vnd w + amount_vnd))) (\<lambda>overflow.
     if overflow then throwE PgNumericOutOfRange else
     one (sqlUpdate wallet_accounts wallet_accounts_update wallet_ck wallet_uq
       (\<lambda>w. wal_id w = wid \<and> wal_status w = ''active'' \<and> wal_balance_vnd w + amount_vnd \<ge> 0)
       (\<lambda>w. w\<lparr>wal_balance_vnd := wal_balance_vnd w + amount_vnd,
              wal_version := wal_version w + 1\<rparr>)))"

record ledger_params =
  lp_account_id :: int64
  lp_entry_type :: WalletEntryType
  lp_amount_vnd :: int64
  lp_balance_after_vnd :: int64
  lp_reference_type :: string
  lp_reference_id :: int64
  lp_idempotency_key :: string

definition InsertWalletLedgerEntry :: "ledger_params \<Rightarrow> ledger_row dbtx" where
  "InsertWalletLedgerEntry p =
     bindE (nextId Tab_ledger) (\<lambda>i.
     sqlInsert wallet_ledger wallet_ledger_update ledger_ck ledger_uq
       \<lparr>led_id = i, led_account_id = lp_account_id p, led_entry_type = lp_entry_type p,
        led_amount_vnd = lp_amount_vnd p, led_balance_after_vnd = lp_balance_after_vnd p,
        led_reference_type = lp_reference_type p, led_reference_id = lp_reference_id p,
        led_idempotency_key = lp_idempotency_key p\<rparr>)"

definition GetWalletLedgerByIdempotency :: "int64 \<Rightarrow> string \<Rightarrow> ledger_row dbtx" where
  "GetWalletLedgerByIdempotency account_id key =
     sqlSelectOne (\<lambda>s. filter (\<lambda>l. led_account_id l = account_id \<and> led_idempotency_key l = key)
       (wallet_ledger s))"

definition GetWalletByTelegramUser :: "int64 \<Rightarrow> wallet_row dbtx" where
  "GetWalletByTelegramUser telegram_user_id =
     sqlSelectOne (\<lambda>s. [w. w \<leftarrow> wallet_accounts s, u \<leftarrow> users s,
       usr_id u = wal_user_id w \<and> usr_telegram_user_id u = telegram_user_id])"

definition ListWalletLedger :: "int64 \<Rightarrow> int32 \<Rightarrow> int32 \<Rightarrow> ledger_row list dbtx" where
  "ListWalletLedger account_id page_offset page_limit =
     (if page_offset < 0 \<or> page_limit < 0 then throwE (ErrOther ''LIMIT/OFFSET must not be negative'')
      else sqlSelect (\<lambda>s. sqlPage page_offset page_limit
        (sort_key (\<lambda>l. - led_id l) (filter (\<lambda>l. led_account_id l = account_id) (wallet_ledger s)))))"

definition SumWalletLedger :: "int64 \<Rightarrow> int64 dbtx" where
  "SumWalletLedger account_id =
     bindE (askE (\<lambda>s. sum_list (map led_amount_vnd
       (filter (\<lambda>l. led_account_id l = account_id) (wallet_ledger s))))) (\<lambda>total.
     if is_int64 total then returnE total else throwE PgNumericOutOfRange)"

record create_topup_params =
  ctp_user_id :: int64
  ctp_wallet_account_id :: int64
  ctp_amount_vnd :: int64
  ctp_payment_reference :: string
  ctp_idempotency_key :: string
  ctp_expires_at :: time
  ctp_bank :: bank_snapshot
  ctp_payment_environment :: string

definition CreateWalletTopup_query :: "create_topup_params \<Rightarrow> topup_row dbtx" where
  "CreateWalletTopup_query p =
     bindE (nextId Tab_topups) (\<lambda>i.
     sqlInsertIgnore wallet_topups wallet_topups_update topup_ck topup_uq topup_uq
       \<lparr>top_id = i, top_user_id = ctp_user_id p, top_wallet_account_id = ctp_wallet_account_id p,
        top_amount_vnd = ctp_amount_vnd p, top_currency = ''VND'',
        top_payment_reference = ctp_payment_reference p,
        top_idempotency_key = ctp_idempotency_key p, top_status = ''pending_payment'',
        top_expires_at = ctp_expires_at p, top_credited_at = None,
        top_bank = (ctp_bank p)\<lparr>snap_encryption_format := ''aes-256-gcm-v1''\<rparr>,
        top_version = 1,
        top_payment_environment =
          (if ctp_payment_environment p = [] then ''production'' else ctp_payment_environment p)\<rparr>)"

definition FindWalletTopupByIdempotency :: "int64 \<Rightarrow> string \<Rightarrow> topup_row dbtx" where
  "FindWalletTopupByIdempotency user_id key =
     sqlSelectOne (\<lambda>s. filter (\<lambda>t. top_user_id t = user_id \<and> top_idempotency_key t = key)
       (wallet_topups s))"

definition FindWalletTopupByReference :: "string \<Rightarrow> topup_row dbtx" where
  "FindWalletTopupByReference reference =
     sqlSelectOne (\<lambda>s. filter (\<lambda>t. top_payment_reference t = reference) (wallet_topups s))"

definition LockWalletTopupByReference :: "string \<Rightarrow> topup_row dbtx" where
  "LockWalletTopupByReference reference =
     sqlSelectOne (\<lambda>s. filter (\<lambda>t. top_payment_reference t = reference) (wallet_topups s))"

definition updateTopups :: "(topup_row \<Rightarrow> bool) \<Rightarrow> (topup_row \<Rightarrow> topup_row) \<Rightarrow> topup_row list dbtx" where
  "updateTopups p f = sqlUpdate wallet_topups wallet_topups_update topup_ck topup_uq p f"

definition MarkWalletTopupCredited :: "time \<Rightarrow> int64 \<Rightarrow> int64 \<Rightarrow> topup_row dbtx" where
  "MarkWalletTopupCredited credited_at tid expected_version =
     one (updateTopups
       (\<lambda>t. top_id t = tid \<and> top_status t = ''pending_payment'' \<and> top_version t = expected_version)
       (\<lambda>t. t\<lparr>top_status := ''credited'', top_credited_at := Some credited_at,
              top_version := top_version t + 1\<rparr>))"

definition MarkWalletTopupReview :: "int64 \<Rightarrow> topup_row dbtx" where
  "MarkWalletTopupReview tid =
     one (updateTopups
       (\<lambda>t. top_id t = tid \<and> top_status t \<in> {''pending_payment'', ''expired''})
       (\<lambda>t. t\<lparr>top_status := ''payment_review'', top_version := top_version t + 1\<rparr>))"

end
