(* ===== verification/Sql_Payments.thy ===== *)
theory Sql_Payments
  imports Sql_Orders
begin

text \<open>The queries of \<open>internal/postgres/generated/payments.sql.go\<close>.\<close>

section \<open>Payment events\<close>

record event_params =
  ep_provider :: string
  ep_external_event_id :: string
  ep_provider_transaction_id :: "string option"
  ep_event_type :: string
  ep_payload_hash :: string
  ep_sanitized_payload :: json
  ep_signature_verified :: bool
  ep_payment_environment :: string
  ep_event_source :: string
  ep_transfer_direction :: string
  ep_transfer_content :: string
  ep_destination_account_identity :: "string option"
  ep_provider_account_identity :: "string option"
  ep_business_fingerprint :: string
  ep_max_attempts :: int32

definition InsertPaymentEvent :: "event_params \<Rightarrow> event_row dbtx" where
  "InsertPaymentEvent p =
     bindE (nextId Tab_events) (\<lambda>i.
     bindE (askE clock) (\<lambda>ts.
     sqlInsertIgnore payment_events payment_events_update event_ck event_uq event_uq
       \<lparr>evt_id = i, evt_provider = ep_provider p, evt_external_event_id = ep_external_event_id p,
        evt_provider_transaction_id = ep_provider_transaction_id p,
        evt_event_type = ep_event_type p, evt_payload_hash = ep_payload_hash p,
        evt_sanitized_payload = ep_sanitized_payload p,
        evt_signature_verified = ep_signature_verified p,
        evt_processing_status = ''received'', evt_processing_error = None,
        evt_received_at = ts, evt_processed_at = None, evt_attempts = 0,
        evt_max_attempts = ep_max_attempts p, evt_next_attempt_at = ts,
        evt_processing_started_at = None, evt_last_error_code = None,
        evt_related_order_id = None, evt_related_wallet_topup_id = None,
        evt_payment_environment = ep_payment_environment p,
        evt_event_source = ep_event_source p,
        evt_transfer_direction = ep_transfer_direction p,
        evt_transfer_content = ep_transfer_content p,
        evt_destination_account_identity = ep_destination_account_identity p,
        evt_provider_account_identity = ep_provider_account_identity p,
        evt_provider_account_mapping_id = None,
        evt_business_fingerprint = ep_business_fingerprint p\<rparr>))"

definition GetPaymentEventByProviderEventID :: "string \<Rightarrow> string \<Rightarrow> event_row dbtx" where
  "GetPaymentEventByProviderEventID provider external_event_id =
     sqlSelectOne (\<lambda>s. filter (\<lambda>e. evt_provider e = provider \<and>
       evt_external_event_id e = external_event_id) (payment_events s))"

definition GetPaymentEventByProviderTransactionID ::
  "string \<Rightarrow> string \<Rightarrow> string option \<Rightarrow> event_row dbtx" where
  "GetPaymentEventByProviderTransactionID provider environment txid =
     sqlSelectOne (\<lambda>s. filter (\<lambda>e. evt_provider e = provider \<and>
       evt_payment_environment e = environment \<and> txid \<noteq> None \<and>
       evt_provider_transaction_id e = txid) (payment_events s))"

definition updateEvents :: "(event_row \<Rightarrow> bool) \<Rightarrow> (event_row \<Rightarrow> event_row) \<Rightarrow> event_row list dbtx" where
  "updateEvents p f = sqlUpdate payment_events payment_events_update event_ck event_uq p f"

definition eventClaimable :: "time \<Rightarrow> time \<Rightarrow> event_row \<Rightarrow> bool" where
  "eventClaimable claimed_at stale_before e \<longleftrightarrow>
     ((evt_processing_status e = ''received'' \<and> evt_next_attempt_at e \<le> claimed_at) \<or>
      (evt_processing_status e = ''processing'' \<and>
       (case evt_processing_started_at e of None \<Rightarrow> False | Some t \<Rightarrow> t \<le> stale_before))) \<and>
     evt_attempts e < evt_max_attempts e"

definition ClaimPaymentEvents_query ::
  "(int64 \<Rightarrow> bool) \<Rightarrow> time \<Rightarrow> time \<Rightarrow> int32 \<Rightarrow> event_row list dbtx" where
  "ClaimPaymentEvents_query skip claimed_at stale_before batch_size =
     (if batch_size < 0 then throwE (ErrOther ''LIMIT must not be negative'') else
      bindE (askE (\<lambda>s. map evt_id (take (nat batch_size) (filter (\<lambda>e. \<not> skip (evt_id e))
        (sort_key evt_received_at (sort_key evt_id
          (filter (eventClaimable claimed_at stale_before) (payment_events s)))))))) (\<lambda>selected.
      updateEvents (\<lambda>e. evt_id e \<in> set selected)
        (\<lambda>e. e\<lparr>evt_processing_status := ''processing'', evt_attempts := evt_attempts e + 1,
               evt_processing_started_at := Some claimed_at, evt_processed_at := None,
               evt_processing_error := None, evt_last_error_code := None\<rparr>)))"

definition GetPaymentEventByID :: "int64 \<Rightarrow> event_row dbtx" where
  "GetPaymentEventByID eid = sqlSelectOne (\<lambda>s. filter (\<lambda>e. evt_id e = eid) (payment_events s))"

definition LockPaymentEvent :: "int64 \<Rightarrow> event_row dbtx" where
  "LockPaymentEvent eid = sqlSelectOne (\<lambda>s. filter (\<lambda>e. evt_id e = eid) (payment_events s))"

record complete_event_params =
  cep_processing_status :: string
  cep_related_order_id :: "int64 option"
  cep_related_wallet_topup_id :: "int64 option"
  cep_processed_at :: time
  cep_processing_error :: "string option"
  cep_last_error_code :: "string option"
  cep_id :: int64

definition CompletePaymentEvent :: "complete_event_params \<Rightarrow> event_row dbtx" where
  "CompletePaymentEvent p =
     one (updateEvents
       (\<lambda>e. evt_id e = cep_id p \<and> evt_processing_status e = ''processing'')
       (\<lambda>e. e\<lparr>evt_processing_status := cep_processing_status p,
              evt_related_order_id := cep_related_order_id p,
              evt_related_wallet_topup_id := cep_related_wallet_topup_id p,
              evt_processing_started_at := None, evt_processed_at := Some (cep_processed_at p),
              evt_processing_error := cep_processing_error p,
              evt_last_error_code := cep_last_error_code p\<rparr>))"

definition SchedulePaymentEventRetry_query ::
  "time \<Rightarrow> time \<Rightarrow> string option \<Rightarrow> string option \<Rightarrow> int64 \<Rightarrow> event_row dbtx" where
  "SchedulePaymentEventRetry_query next_attempt_at processed_at processing_error last_error_code eid =
     one (updateEvents
       (\<lambda>e. evt_id e = eid \<and> evt_processing_status e = ''processing'')
       (\<lambda>e. e\<lparr>evt_processing_status :=
                (if evt_attempts e \<ge> evt_max_attempts e then ''failed'' else ''received''),
              evt_next_attempt_at := next_attempt_at, evt_processing_started_at := None,
              evt_processed_at :=
                (if evt_attempts e \<ge> evt_max_attempts e then Some processed_at else None),
              evt_processing_error := processing_error,
              evt_last_error_code := last_error_code\<rparr>))"

definition MarkPaymentEventReviewedBeforeAcceptance ::
  "time \<Rightarrow> string option \<Rightarrow> string option \<Rightarrow> int64 \<Rightarrow> event_row dbtx" where
  "MarkPaymentEventReviewedBeforeAcceptance processed_at processing_error last_error_code eid =
     one (updateEvents
       (\<lambda>e. evt_id e = eid \<and> evt_processing_status e \<in> {''received'', ''processing''})
       (\<lambda>e. e\<lparr>evt_processing_status := ''review'', evt_processing_started_at := None,
              evt_processed_at := Some processed_at, evt_processing_error := processing_error,
              evt_last_error_code := last_error_code\<rparr>))"

definition CompleteIgnoredPaymentEvent_query ::
  "time \<Rightarrow> string option \<Rightarrow> string option \<Rightarrow> int64 \<Rightarrow> event_row dbtx" where
  "CompleteIgnoredPaymentEvent_query processed_at processing_error last_error_code eid =
     one (updateEvents
       (\<lambda>e. evt_id e = eid \<and> evt_processing_status e = ''processing'')
       (\<lambda>e. e\<lparr>evt_processing_status := ''completed'', evt_processing_started_at := None,
              evt_processed_at := Some processed_at, evt_processing_error := processing_error,
              evt_last_error_code := last_error_code\<rparr>))"

section \<open>Payments, allocations, review cases\<close>

record payment_params =
  pp_order_id :: "int64 option"
  pp_user_id :: int64
  pp_purpose :: string
  pp_provider :: string
  pp_provider_transaction_id :: "string option"
  pp_payment_reference :: string
  pp_amount_vnd :: int64
  pp_payment_environment :: string
  pp_status :: PaymentStatus
  pp_confirmed_at :: "time option"
  pp_occurred_at :: time

definition InsertPayment :: "payment_params \<Rightarrow> payment_row dbtx" where
  "InsertPayment p =
     bindE (nextId Tab_payments) (\<lambda>i.
     sqlInsertIgnore payments payments_update payment_ck payment_uq payment_tx_uq
       \<lparr>pay_id = i, pay_order_id = pp_order_id p, pay_user_id = pp_user_id p,
        pay_purpose = pp_purpose p, pay_provider = pp_provider p,
        pay_provider_transaction_id = pp_provider_transaction_id p,
        pay_payment_reference = pp_payment_reference p, pay_amount_vnd = pp_amount_vnd p,
        pay_currency = ''VND'', pay_status = pp_status p, pay_confirmed_at = pp_confirmed_at p,
        pay_occurred_at = pp_occurred_at p,
        pay_payment_environment = pp_payment_environment p\<rparr>)"

definition GetPaymentByProviderTransaction ::
  "string \<Rightarrow> string \<Rightarrow> string option \<Rightarrow> payment_row dbtx" where
  "GetPaymentByProviderTransaction provider environment txid =
     sqlSelectOne (\<lambda>s. filter (\<lambda>p. pay_provider p = provider \<and>
       pay_payment_environment p = environment \<and> txid \<noteq> None \<and>
       pay_provider_transaction_id p = txid) (payments s))"

definition InsertPaymentAllocation :: "int64 \<Rightarrow> string \<Rightarrow> int64 \<Rightarrow> int64 \<Rightarrow> allocation_row dbtx" where
  "InsertPaymentAllocation payment_id target_type target_id amount_vnd =
     bindE (nextId Tab_allocations) (\<lambda>i.
     sqlInsert payment_allocations payment_allocations_update allocation_ck allocation_uq
       \<lparr>alc_id = i, alc_payment_id = payment_id, alc_target_type = target_type,
        alc_target_id = target_id, alc_amount_vnd = amount_vnd\<rparr>)"

definition GetPaymentAllocation :: "int64 \<Rightarrow> allocation_row dbtx" where
  "GetPaymentAllocation payment_id =
     sqlSelectOne (\<lambda>s. filter (\<lambda>a. alc_payment_id a = payment_id) (payment_allocations s))"

record review_params =
  rp_payment_event_id :: "int64 option"
  rp_payment_id :: "int64 option"
  rp_order_id :: "int64 option"
  rp_wallet_topup_id :: "int64 option"
  rp_provider :: string
  rp_provider_transaction_id :: "string option"
  rp_payment_reference :: string
  rp_amount_vnd :: int64
  rp_currency :: string
  rp_occurred_at :: time
  rp_reason :: string
  rp_payment_environment :: string
  rp_event_source :: string
  rp_provider_account_mapping_id :: "int64 option"
  rp_destination_account_identity :: "string option"

definition review_event_uq :: "review_row \<Rightarrow> review_row \<Rightarrow> bool" where
  "review_event_uq a b \<longleftrightarrow> rev_payment_event_id a \<noteq> None \<and>
     rev_payment_event_id a = rev_payment_event_id b"

definition review_uq :: "review_row \<Rightarrow> review_row \<Rightarrow> bool" where
  "review_uq a b \<longleftrightarrow> rev_id a = rev_id b \<or> review_event_uq a b"

definition newReview :: "int64 \<Rightarrow> review_params \<Rightarrow> review_row" where
  "newReview i p =
     \<lparr>rev_id = i, rev_payment_event_id = rp_payment_event_id p, rev_payment_id = rp_payment_id p,
      rev_order_id = rp_order_id p, rev_wallet_topup_id = rp_wallet_topup_id p,
      rev_provider = rp_provider p, rev_provider_transaction_id = rp_provider_transaction_id p,
      rev_payment_reference = rp_payment_reference p, rev_amount_vnd = rp_amount_vnd p,
      rev_currency = rp_currency p, rev_occurred_at = rp_occurred_at p, rev_reason = rp_reason p,
      rev_status = ''open'', rev_resolution_note = None, rev_resolved_by_admin_id = None,
      rev_resolved_at = None, rev_payment_environment = rp_payment_environment p,
      rev_event_source = rp_event_source p,
      rev_provider_account_mapping_id = rp_provider_account_mapping_id p,
      rev_destination_account_identity = rp_destination_account_identity p\<rparr>"

text \<open>
  \<open>ON CONFLICT (payment_event_id) DO UPDATE SET reason\<close>: a second case for the same
  event replaces the reason of the first.
\<close>

definition InsertPaymentReviewCase :: "review_params \<Rightarrow> review_row dbtx" where
  "InsertPaymentReviewCase p =
     bindE (nextId Tab_reviews) (\<lambda>i.
     if \<not> review_ck (newReview i p) then throwE PgCheckViolation else
     bindE (askE (\<lambda>s. \<exists>x \<in> set (payment_reviews s). review_event_uq (newReview i p) x)) (\<lambda>conflict.
     if conflict then
       one (sqlUpdate payment_reviews payment_reviews_update review_ck review_uq
         (\<lambda>x. review_event_uq (newReview i p) x) (\<lambda>x. x\<lparr>rev_reason := rp_reason p\<rparr>))
     else sqlInsert payment_reviews payment_reviews_update review_ck review_uq (newReview i p)))"

definition ResolvePaymentReview_query :: "string \<Rightarrow> string option \<Rightarrow> int64 \<Rightarrow> int64 \<Rightarrow> review_row dbtx" where
  "ResolvePaymentReview_query status resolution_note admin_id rid =
     bindE (askE clock) (\<lambda>ts.
     one (sqlUpdate payment_reviews payment_reviews_update review_ck review_uq
       (\<lambda>x. rev_id x = rid \<and> rev_status x \<in> {''open'', ''held''})
       (\<lambda>x. x\<lparr>rev_status := status, rev_resolution_note := resolution_note,
              rev_resolved_by_admin_id := (if status = ''resolved'' then Some admin_id else None),
              rev_resolved_at := (if status = ''resolved'' then Some ts else None)\<rparr>)))"

end
