(* ===== verification/Sql_Inventory.thy ===== *)
theory Sql_Inventory
  imports Sql_Orders
begin

text \<open>The queries of \<open>internal/postgres/generated/inventory.sql.go\<close> that move stock.\<close>

definition updateInventory ::
  "(inventory_row \<Rightarrow> bool) \<Rightarrow> (inventory_row \<Rightarrow> inventory_row) \<Rightarrow> inventory_row list dbtx" where
  "updateInventory p f =
     sqlUpdate inventory_items inventory_items_update inventory_ck inventory_uq p f"

definition reserveItem :: "int64 \<Rightarrow> time \<Rightarrow> inventory_row \<Rightarrow> inventory_row" where
  "reserveItem order_id reserved_until i = i\<lparr>inv_status := InventoryStatusReserved,
     inv_reserved_order_id := Some order_id, inv_reserved_until := Some reserved_until,
     inv_version := inv_version i + 1\<rparr>"

text \<open>The common table expression \<open>selected_items\<close> of the two claim queries.\<close>

definition selectedItems :: "(int64 \<Rightarrow> bool) \<Rightarrow> int64 \<Rightarrow> int32 \<Rightarrow> db \<Rightarrow> int64 list" where
  "selectedItems skip product_id quantity s =
     map inv_id (take (nat quantity) (filter (\<lambda>i. \<not> skip (inv_id i))
       (sort_key inv_created_at (sort_key inv_id
         (filter (claimable s product_id) (inventory_items s))))))"

definition ClaimAvailableInventory ::
  "(int64 \<Rightarrow> bool) \<Rightarrow> int64 \<Rightarrow> time \<Rightarrow> int64 \<Rightarrow> int32 \<Rightarrow> int64 list dbtx" where
  "ClaimAvailableInventory skip order_id reserved_until product_id quantity =
     (if quantity < 0 then throwE (ErrOther ''LIMIT must not be negative'') else
      bindE (askE (selectedItems skip product_id quantity)) (\<lambda>selected.
      bindE (updateInventory (\<lambda>i. inv_id i \<in> set selected) (reserveItem order_id reserved_until))
        (\<lambda>rows. returnE (map inv_id rows))))"

definition ClaimExactAvailableInventory ::
  "(int64 \<Rightarrow> bool) \<Rightarrow> int64 \<Rightarrow> time \<Rightarrow> int64 \<Rightarrow> int32 \<Rightarrow> int64 list dbtx" where
  "ClaimExactAvailableInventory skip order_id reserved_until product_id quantity =
     (if quantity < 0 then throwE (ErrOther ''LIMIT must not be negative'') else
      bindE (askE (selectedItems skip product_id quantity)) (\<lambda>selected.
      let exact_set = (if int (length selected) = quantity then selected else []) in
      bindE (updateInventory (\<lambda>i. inv_id i \<in> set exact_set) (reserveItem order_id reserved_until))
        (\<lambda>rows. returnE (map inv_id rows))))"

definition LockOrderItemForInventory :: "int64 \<Rightarrow> int64 \<Rightarrow> int64 \<Rightarrow> order_item_row dbtx" where
  "LockOrderItemForInventory order_item_id order_id product_id =
     sqlSelectOne (\<lambda>s. filter (\<lambda>i. oit_id i = order_item_id \<and> oit_order_id i = order_id \<and>
       oit_product_id i = product_id) (order_items s))"

definition InsertOrderInventoryMapping :: "int64 \<Rightarrow> int64 \<Rightarrow> int64 \<Rightarrow> unit dbtx" where
  "InsertOrderInventoryMapping order_id order_item_id inventory_item_id =
     bindE (sqlInsert order_inventory order_inventory_update mapping_ck mapping_uq
       \<lparr>map_order_id = order_id, map_order_item_id = order_item_id,
        map_inventory_item_id = inventory_item_id, map_status = ''active'',
        map_released_at = None, map_release_reason = None\<rparr>) (\<lambda>_. returnE ())"

definition reservedFor :: "int64 \<Rightarrow> inventory_row \<Rightarrow> bool" where
  "reservedFor order_id i \<longleftrightarrow>
     inv_reserved_order_id i = Some order_id \<and> inv_status i = InventoryStatusReserved"

definition ListReservedInventoryIDsByOrder :: "int64 \<Rightarrow> int64 list dbtx" where
  "ListReservedInventoryIDsByOrder order_id =
     sqlSelect (\<lambda>s. sort (map inv_id (filter (reservedFor order_id) (inventory_items s))))"

definition CountExpiredReservationsByOrder :: "int64 \<Rightarrow> time \<Rightarrow> int64 dbtx" where
  "CountExpiredReservationsByOrder order_id expired_at =
     askE (\<lambda>s. int (length (filter (\<lambda>i. reservedFor order_id i \<and>
       (case inv_reserved_until i of None \<Rightarrow> False | Some t \<Rightarrow> t \<le> expired_at)) (inventory_items s))))"

definition ReleaseReservedInventoryByOrder :: "int64 \<Rightarrow> int64 list dbtx" where
  "ReleaseReservedInventoryByOrder order_id =
     bindE (updateInventory (reservedFor order_id)
       (\<lambda>i. i\<lparr>inv_status := InventoryStatusAvailable, inv_reserved_order_id := None,
              inv_reserved_until := None, inv_version := inv_version i + 1\<rparr>))
       (\<lambda>rows. returnE (map inv_id rows))"

definition MarkOrderInventoryMappingsReleased ::
  "InventoryReleaseReason \<Rightarrow> int64 \<Rightarrow> int64 list \<Rightarrow> int64 dbtx" where
  "MarkOrderInventoryMappingsReleased release_reason order_id inventory_item_ids =
     bindE (askE clock) (\<lambda>ts.
     bindE (sqlUpdate order_inventory order_inventory_update mapping_ck mapping_uq
       (\<lambda>m. map_order_id m = order_id \<and> map_inventory_item_id m \<in> set inventory_item_ids \<and>
            map_status m = ''active'')
       (\<lambda>m. m\<lparr>map_status := ''released'', map_released_at := Some ts,
              map_release_reason := Some release_reason\<rparr>))
       (\<lambda>rows. returnE (int (length rows))))"

definition CountActiveInventoryMappingsByOrder :: "int64 \<Rightarrow> int64 dbtx" where
  "CountActiveInventoryMappingsByOrder order_id =
     askE (\<lambda>s. int (length (filter (\<lambda>m. map_order_id m = order_id \<and> map_status m = ''active'')
       (order_inventory s))))"

text \<open>The stored text of an order status.\<close>

fun orderStatusText :: "OrderStatus \<Rightarrow> string" where
  "orderStatusText OrderStatusPendingPayment = ''pending_payment''"
| "orderStatusText OrderStatusPaymentReview = ''payment_review''"
| "orderStatusText OrderStatusPaid = ''paid''"
| "orderStatusText OrderStatusReserving = ''reserving''"
| "orderStatusText OrderStatusDelivering = ''delivering''"
| "orderStatusText OrderStatusDelivered = ''delivered''"
| "orderStatusText OrderStatusExpired = ''expired''"
| "orderStatusText OrderStatusCancelled = ''cancelled''"
| "orderStatusText OrderStatusOutOfStock = ''out_of_stock''"
| "orderStatusText OrderStatusDeliveryFailed = ''delivery_failed''"
| "orderStatusText OrderStatusRefunded = ''refunded''"
| "orderStatusText (OrderStatusOther x) = x"

definition recoveryAction :: string where
  "recoveryAction = ''inventory.reservation_recovery_required''"

definition recoveryAudited :: "int64 \<Rightarrow> OrderStatus \<Rightarrow> db \<Rightarrow> bool" where
  "recoveryAudited order_id order_status s \<longleftrightarrow>
     (\<exists>a \<in> set (audit_logs s). aud_action a = recoveryAction \<and> aud_resource_type a = ''order'' \<and>
        aud_resource_id a = Some order_id \<and>
        (case aud_after_data a of None \<Rightarrow> False
         | Some d \<Rightarrow> map_of d ''order_status'' = Some (JText (orderStatusText order_status))))"

text \<open>\<open>INSERT ... SELECT ... WHERE NOT EXISTS\<close>: at most one audit row per order and status.\<close>

definition InsertInventoryRecoveryAuditOnce ::
  "int64 \<Rightarrow> OrderStatus \<Rightarrow> string option \<Rightarrow> audit_row dbtx" where
  "InsertInventoryRecoveryAuditOnce order_id order_status request_id =
     bindE (askE (recoveryAudited order_id order_status)) (\<lambda>audited.
     if audited then throwE PgxErrNoRows
     else InsertAuditLog \<lparr>ap_actor_type = ''system'', ap_actor_id = None,
       ap_action = recoveryAction, ap_resource_type = ''order'', ap_resource_id = Some order_id,
       ap_before_data = None,
       ap_after_data = Some [(''order_id'', JInt order_id),
         (''order_status'', JText (orderStatusText order_status))],
       ap_request_id = request_id, ap_telegram_update_id = None\<rparr>)"

end
