(* ===== verification/Sql_Delivery.thy ===== *)
theory Sql_Delivery
  imports Sql_Inventory
begin

text \<open>The queries of \<open>internal/postgres/generated/delivery.sql.go\<close>.\<close>

section \<open>Handoff\<close>

record handoff_row =
  hof_id :: int64
  hof_user_id :: int64
  hof_status :: OrderStatus
  hof_version :: int64
  hof_telegram_user_id :: int64
  hof_product_name :: string
  hof_quantity :: int32

definition LockOrderForDeliveryHandoff :: "int64 \<Rightarrow> handoff_row dbtx" where
  "LockOrderForDeliveryHandoff order_id =
     sqlSelectOne (\<lambda>s. [\<lparr>hof_id = ord_id x, hof_user_id = ord_user_id x, hof_status = ord_status x,
         hof_version = ord_version x, hof_telegram_user_id = usr_telegram_user_id u,
         hof_product_name = oit_product_name i, hof_quantity = oit_quantity i\<rparr>.
       x \<leftarrow> orders s, ord_id x = order_id, u \<leftarrow> users s, usr_id u = ord_user_id x,
       i \<leftarrow> itemsOf s (ord_id x)])"

text \<open>The join of the active mappings of an order with the items reserved for it.\<close>

definition exactReserved :: "db \<Rightarrow> int64 \<Rightarrow> (mapping_row \<times> inventory_row) list" where
  "exactReserved s order_id =
     [(m, i). m \<leftarrow> order_inventory s, map_order_id m = order_id \<and> map_status m = ''active'',
        i \<leftarrow> inventory_items s, inv_id i = map_inventory_item_id m \<and>
        inv_status i = InventoryStatusReserved \<and> inv_reserved_order_id i = Some order_id]"

definition CountExactReservedInventoryForOrder :: "int64 \<Rightarrow> int32 dbtx" where
  "CountExactReservedInventoryForOrder order_id =
     askE (\<lambda>s. int (length (exactReserved s order_id)))"

definition updateJobs :: "(job_row \<Rightarrow> bool) \<Rightarrow> (job_row \<Rightarrow> job_row) \<Rightarrow> job_row list dbtx" where
  "updateJobs p f = sqlUpdate outbox_events outbox_events_update job_ck job_uq p f"

definition InsertDeliveryJob :: "int64 \<Rightarrow> int32 \<Rightarrow> time \<Rightarrow> int64 \<Rightarrow> job_row dbtx" where
  "InsertDeliveryJob order_id max_attempts next_attempt_at recipient_chat_id =
     bindE (nextId Tab_outbox) (\<lambda>i.
     bindE (askE clock) (\<lambda>ts.
     sqlInsertIgnore outbox_events outbox_events_update job_ck job_uq
       (\<lambda>a b. job_deduplication_key a = job_deduplication_key b)
       \<lparr>job_id = i, job_event_type = deliveryEvent, job_aggregate_type = ''order'',
        job_aggregate_id = order_id, job_deduplication_key = ''delivery:order:'' @ intText order_id,
        job_status = DeliveryJobPending, job_attempts = 0, job_max_attempts = max_attempts,
        job_next_attempt_at = next_attempt_at, job_locked_at = None, job_locked_by = None,
        job_last_error_code = None, job_last_error_detail = None, job_completed_at = None,
        job_delivery_order_id = Some order_id, job_recipient_chat_id = Some recipient_chat_id,
        job_processing_stage = None, job_send_attempted_at = None,
        job_telegram_message_id = None, job_telegram_sent_at = None,
        job_manual_resolution = None, job_resolution_reason = None,
        job_resolved_by_admin_id = None, job_resolved_at = None, job_version = 1,
        job_created_at = ts\<rparr>))"

definition GetDeliveryJobByOrder :: "int64 \<Rightarrow> job_row dbtx" where
  "GetDeliveryJobByOrder order_id =
     sqlSelectOne (\<lambda>s. filter (\<lambda>j. job_event_type j = deliveryEvent \<and>
       job_delivery_order_id j = Some order_id) (outbox_events s))"

definition MarkOrderDeliveringGuarded :: "time \<Rightarrow> int64 \<Rightarrow> int64 \<Rightarrow> order_row dbtx" where
  "MarkOrderDeliveringGuarded started_at order_id expected_version =
     one (updateOrders
       (\<lambda>x. ord_id x = order_id \<and> ord_status x = OrderStatusReserving \<and> ord_version x = expected_version)
       (\<lambda>x. x\<lparr>ord_status := OrderStatusDelivering, ord_delivery_started_at := Some started_at,
              ord_version := ord_version x + 1\<rparr>))"

definition ListDeliveryBackfillOrderIDs :: "(int64 \<Rightarrow> bool) \<Rightarrow> int32 \<Rightarrow> int64 list dbtx" where
  "ListDeliveryBackfillOrderIDs skip batch_size =
     (if batch_size < 0 then throwE (ErrOther ''LIMIT must not be negative'') else
      sqlSelect (\<lambda>s. map ord_id (take (nat batch_size) (filter (\<lambda>x. \<not> skip (ord_id x))
        (sort_key ord_created_at (sort_key ord_id (filter (\<lambda>x.
           ord_status x = OrderStatusReserving \<and>
           int (length (exactReserved s (ord_id x))) =
             sum_list (map oit_quantity (itemsOf s (ord_id x))) \<and>
           \<not> (\<exists>j \<in> set (outbox_events s). job_event_type j = deliveryEvent \<and>
                job_delivery_order_id j = Some (ord_id x))) (orders s))))))))"

section \<open>The queue\<close>

definition jobClaimable :: "time \<Rightarrow> job_row \<Rightarrow> bool" where
  "jobClaimable claimed_at j \<longleftrightarrow>
     job_event_type j = deliveryEvent \<and>
     job_status j \<in> {DeliveryJobPending, DeliveryJobRetryableFailed} \<and>
     job_next_attempt_at j \<le> claimed_at \<and> job_attempts j < job_max_attempts j"

definition ClaimDeliveryJobs_query ::
  "(int64 \<Rightarrow> bool) \<Rightarrow> time \<Rightarrow> string option \<Rightarrow> int32 \<Rightarrow> job_row list dbtx" where
  "ClaimDeliveryJobs_query skip claimed_at worker_id batch_size =
     (if batch_size < 0 then throwE (ErrOther ''LIMIT must not be negative'') else
      bindE (askE (\<lambda>s. map job_id (take (nat batch_size) (filter (\<lambda>j. \<not> skip (job_id j))
        (sort_key job_next_attempt_at (sort_key job_created_at (sort_key job_id
          (filter (jobClaimable claimed_at) (outbox_events s))))))))) (\<lambda>selected.
      updateJobs (\<lambda>j. job_id j \<in> set selected)
        (\<lambda>j. j\<lparr>job_status := DeliveryJobProcessing, job_processing_stage := Some ''claimed'',
               job_locked_at := Some claimed_at, job_locked_by := worker_id,
               job_last_error_code := None, job_last_error_detail := None,
               job_version := job_version j + 1\<rparr>)))"

definition LockStaleDeliveryJobs :: "(int64 \<Rightarrow> bool) \<Rightarrow> time \<Rightarrow> int32 \<Rightarrow> job_row list dbtx" where
  "LockStaleDeliveryJobs skip stale_before batch_size =
     (if batch_size < 0 then throwE (ErrOther ''LIMIT must not be negative'') else
      sqlSelect (\<lambda>s. take (nat batch_size) (filter (\<lambda>j. \<not> skip (job_id j))
        (sort_key (\<lambda>j. int8Or (job_locked_at j)) (sort_key job_id (filter (\<lambda>j.
           job_event_type j = deliveryEvent \<and> job_status j = DeliveryJobProcessing \<and>
           (case job_locked_at j of None \<Rightarrow> False | Some t \<Rightarrow> t < stale_before))
           (outbox_events s)))))))"

text \<open>The columns every transition out of \<open>processing\<close> clears.\<close>

definition unlockJob :: "job_row \<Rightarrow> job_row" where
  "unlockJob j = j\<lparr>job_processing_stage := None, job_locked_at := None, job_locked_by := None,
     job_version := job_version j + 1\<rparr>"

definition processingStage :: "int64 \<Rightarrow> string \<Rightarrow> job_row \<Rightarrow> bool" where
  "processingStage jid stage j \<longleftrightarrow>
     job_id j = jid \<and> job_status j = DeliveryJobProcessing \<and> job_processing_stage j = Some stage"

text \<open>\<open>locked_by = $worker\<close> holds for no row when the parameter is NULL.\<close>

definition lockedStage :: "int64 \<Rightarrow> string \<Rightarrow> string option \<Rightarrow> job_row \<Rightarrow> bool" where
  "lockedStage jid stage worker_id j \<longleftrightarrow>
     processingStage jid stage j \<and> worker_id \<noteq> None \<and> job_locked_by j = worker_id"

definition MarkStaleDeliveryClaimRetryable :: "time \<Rightarrow> int64 \<Rightarrow> job_row dbtx" where
  "MarkStaleDeliveryClaimRetryable next_attempt_at jid =
     one (updateJobs (processingStage jid ''claimed'')
       (\<lambda>j. (unlockJob j)\<lparr>job_status := DeliveryJobRetryableFailed,
          job_next_attempt_at := next_attempt_at,
          job_last_error_code := Some ''stale_claim_recovered'',
          job_last_error_detail := Some ''worker stopped before send began''\<rparr>))"

definition MarkStaleDeliverySendAmbiguous :: "int64 \<Rightarrow> job_row dbtx" where
  "MarkStaleDeliverySendAmbiguous jid =
     one (updateJobs (processingStage jid ''sending'')
       (\<lambda>j. (unlockJob j)\<lparr>job_status := DeliveryJobAmbiguous,
          job_last_error_code := Some ''stale_after_send_started'',
          job_last_error_detail := Some ''send outcome requires manual verification''\<rparr>))"

definition LockDeliveryJob :: "int64 \<Rightarrow> job_row dbtx" where
  "LockDeliveryJob jid =
     sqlSelectOne (\<lambda>s. filter (\<lambda>j. job_id j = jid \<and> job_event_type j = deliveryEvent) (outbox_events s))"

record envelope_row =
  env_job :: job_row
  env_order_status :: OrderStatus
  env_order_version :: int64
  env_telegram_user_id :: int64
  env_product_name :: string
  env_quantity :: int32

definition LoadDeliveryEnvelope :: "int64 \<Rightarrow> envelope_row dbtx" where
  "LoadDeliveryEnvelope delivery_job_id =
     sqlSelectOne (\<lambda>s. [\<lparr>env_job = j, env_order_status = ord_status x,
         env_order_version = ord_version x, env_telegram_user_id = usr_telegram_user_id u,
         env_product_name = oit_product_name i, env_quantity = oit_quantity i\<rparr>.
       j \<leftarrow> outbox_events s, job_id j = delivery_job_id \<and> job_event_type j = deliveryEvent,
       x \<leftarrow> orders s, job_delivery_order_id j = Some (ord_id x),
       u \<leftarrow> users s, usr_id u = ord_user_id x, i \<leftarrow> itemsOf s (ord_id x)])"

definition ListEncryptedInventoryForDelivery :: "int64 \<Rightarrow> (mapping_row \<times> inventory_row) list dbtx" where
  "ListEncryptedInventoryForDelivery order_id =
     sqlSelect (\<lambda>s. sort_key (\<lambda>(m, i). map_order_item_id m)
       (sort_key (\<lambda>(m, i). inv_id i) (exactReserved s order_id)))"

definition BeginDeliverySend :: "time \<Rightarrow> int64 \<Rightarrow> string option \<Rightarrow> job_row dbtx" where
  "BeginDeliverySend send_attempted_at jid worker_id =
     one (updateJobs
       (\<lambda>j. lockedStage jid ''claimed'' worker_id j \<and>
            job_attempts j < job_max_attempts j)
       (\<lambda>j. j\<lparr>job_processing_stage := Some ''sending'',
              job_send_attempted_at := Some send_attempted_at,
              job_attempts := job_attempts j + 1, job_version := job_version j + 1\<rparr>))"

record attempt_params =
  tp_order_id :: int64
  tp_delivery_job_id :: "int64 option"
  tp_attempt_number :: int32
  tp_status :: string
  tp_http_status :: "int32 option"
  tp_telegram_error_code :: "int32 option"
  tp_retry_after_seconds :: "int32 option"
  tp_telegram_chat_id :: "int64 option"
  tp_telegram_message_id :: "int64 option"
  tp_error_class :: "string option"
  tp_error_code :: "string option"
  tp_error_detail :: "string option"
  tp_started_at :: time
  tp_finished_at :: "time option"

definition InsertDeliveryAttemptEvent :: "attempt_params \<Rightarrow> attempt_row dbtx" where
  "InsertDeliveryAttemptEvent p =
     bindE (nextId Tab_attempts) (\<lambda>i.
     sqlInsert delivery_attempts delivery_attempts_update attempt_ck attempt_uq
       \<lparr>att_id = i, att_order_id = tp_order_id p, att_delivery_job_id = tp_delivery_job_id p,
        att_attempt_number = tp_attempt_number p, att_channel = ''telegram'',
        att_status = tp_status p, att_telegram_method = ''sendMessage'',
        att_telegram_chat_id = tp_telegram_chat_id p,
        att_telegram_message_id = tp_telegram_message_id p,
        att_http_status = tp_http_status p, att_telegram_error_code = tp_telegram_error_code p,
        att_retry_after_seconds = tp_retry_after_seconds p, att_error_class = tp_error_class p,
        att_error_code = tp_error_code p, att_error_detail = tp_error_detail p,
        att_started_at = tp_started_at p, att_finished_at = tp_finished_at p\<rparr>)"

definition MarkDeliveryRetryable ::
  "time \<Rightarrow> string option \<Rightarrow> string option \<Rightarrow> int64 \<Rightarrow> string option \<Rightarrow> job_row dbtx" where
  "MarkDeliveryRetryable next_attempt_at error_code error_detail jid worker_id =
     one (updateJobs (lockedStage jid ''sending'' worker_id)
       (\<lambda>j. (unlockJob j)\<lparr>job_status := DeliveryJobRetryableFailed,
          job_next_attempt_at := next_attempt_at,
          job_last_error_code := error_code, job_last_error_detail := error_detail\<rparr>))"

record claimed_failure_params =
  cfp_new_status :: DeliveryJobStatus
  cfp_next_attempt_at :: time
  cfp_error_code :: "string option"
  cfp_error_detail :: "string option"
  cfp_completed_at :: "time option"
  cfp_id :: int64
  cfp_worker_id :: "string option"

definition MarkClaimedDeliveryFailure :: "claimed_failure_params \<Rightarrow> job_row dbtx" where
  "MarkClaimedDeliveryFailure p =
     one (updateJobs
       (\<lambda>j. lockedStage (cfp_id p) ''claimed'' (cfp_worker_id p) j \<and>
            cfp_new_status p \<in> {DeliveryJobRetryableFailed, DeliveryJobPermanentFailed,
              DeliveryJobManualReview})
       (\<lambda>j. (unlockJob j)\<lparr>job_status := cfp_new_status p, job_attempts := job_attempts j + 1,
          job_next_attempt_at := cfp_next_attempt_at p,
          job_last_error_code := cfp_error_code p,
          job_last_error_detail := cfp_error_detail p,
          job_completed_at := cfp_completed_at p\<rparr>))"

definition MarkDeliveryPermanentFailed ::
  "string option \<Rightarrow> string option \<Rightarrow> time \<Rightarrow> int64 \<Rightarrow> string option \<Rightarrow> job_row dbtx" where
  "MarkDeliveryPermanentFailed error_code error_detail completed_at jid worker_id =
     one (updateJobs (lockedStage jid ''sending'' worker_id)
       (\<lambda>j. (unlockJob j)\<lparr>job_status := DeliveryJobPermanentFailed,
          job_last_error_code := error_code, job_last_error_detail := error_detail,
          job_completed_at := Some completed_at\<rparr>))"

definition MarkDeliveryAmbiguous ::
  "int64 option \<Rightarrow> time option \<Rightarrow> string option \<Rightarrow> string option \<Rightarrow> int64 \<Rightarrow> job_row dbtx" where
  "MarkDeliveryAmbiguous telegram_message_id telegram_sent_at error_code error_detail jid =
     one (updateJobs (processingStage jid ''sending'')
       (\<lambda>j. (unlockJob j)\<lparr>job_status := DeliveryJobAmbiguous,
          job_telegram_message_id := (case telegram_message_id of Some m \<Rightarrow> Some m
             | None \<Rightarrow> job_telegram_message_id j),
          job_telegram_sent_at := (case telegram_sent_at of Some t \<Rightarrow> Some t
             | None \<Rightarrow> job_telegram_sent_at j),
          job_last_error_code := error_code, job_last_error_detail := error_detail\<rparr>))"

definition MarkDeliveryCompleted :: "int64 \<Rightarrow> time \<Rightarrow> time \<Rightarrow> int64 \<Rightarrow> string option \<Rightarrow> job_row dbtx" where
  "MarkDeliveryCompleted telegram_message_id telegram_sent_at completed_at jid worker_id =
     one (updateJobs (lockedStage jid ''sending'' worker_id)
       (\<lambda>j. (unlockJob j)\<lparr>job_status := DeliveryJobCompleted,
          job_telegram_message_id := Some telegram_message_id,
          job_telegram_sent_at := Some telegram_sent_at,
          job_last_error_code := None, job_last_error_detail := None,
          job_completed_at := Some completed_at\<rparr>))"

section \<open>Completion\<close>

definition MarkExactReservedInventorySold :: "int64 \<Rightarrow> int32 \<Rightarrow> int64 list dbtx" where
  "MarkExactReservedInventorySold order_id expected_count =
     bindE (askE (\<lambda>s. map (\<lambda>(m, i). inv_id i) (exactReserved s order_id))) (\<lambda>eligible.
     let exact_set = (if int (length eligible) = expected_count then eligible else []) in
     bindE (updateInventory (\<lambda>i. inv_id i \<in> set exact_set)
       (\<lambda>i. i\<lparr>inv_status := InventoryStatusSold, inv_reserved_order_id := None,
              inv_reserved_until := None, inv_sold_order_id := Some order_id,
              inv_version := inv_version i + 1\<rparr>))
       (\<lambda>rows. returnE (map inv_id rows)))"

definition MarkOrderDeliveredGuarded :: "time \<Rightarrow> int64 \<Rightarrow> int64 \<Rightarrow> order_row dbtx" where
  "MarkOrderDeliveredGuarded delivered_at order_id expected_version =
     one (updateOrders
       (\<lambda>x. ord_id x = order_id \<and> ord_status x = OrderStatusDelivering \<and> ord_version x = expected_version)
       (\<lambda>x. x\<lparr>ord_status := OrderStatusDelivered, ord_delivered_at := Some delivered_at,
              ord_version := ord_version x + 1\<rparr>))"

definition MarkOrderDeliveryFailedGuarded :: "int64 \<Rightarrow> order_row dbtx" where
  "MarkOrderDeliveryFailedGuarded order_id =
     one (updateOrders
       (\<lambda>x. ord_id x = order_id \<and> ord_status x = OrderStatusDelivering)
       (\<lambda>x. x\<lparr>ord_status := OrderStatusDeliveryFailed, ord_version := ord_version x + 1\<rparr>))"

section \<open>Manual resolution\<close>

definition ManualRetryDeliveryJob ::
  "time \<Rightarrow> string option \<Rightarrow> int64 \<Rightarrow> time \<Rightarrow> int64 \<Rightarrow> int64 \<Rightarrow> job_row dbtx" where
  "ManualRetryDeliveryJob next_attempt_at reason admin_id resolved_at jid expected_version =
     one (updateJobs
       (\<lambda>j. job_id j = jid \<and> job_event_type j = deliveryEvent \<and>
            job_status j \<in> {DeliveryJobAmbiguous, DeliveryJobManualReview,
              DeliveryJobPermanentFailed, DeliveryJobRetryableFailed} \<and>
            job_version j = expected_version)
       (\<lambda>j. j\<lparr>job_status := DeliveryJobPending, job_next_attempt_at := next_attempt_at,
              job_max_attempts := max (job_max_attempts j) (job_attempts j + 1),
              job_completed_at := None, job_manual_resolution := Some ''retry'',
              job_resolution_reason := reason, job_resolved_by_admin_id := Some admin_id,
              job_resolved_at := Some resolved_at, job_last_error_code := None,
              job_last_error_detail := None, job_version := job_version j + 1\<rparr>))"

definition ManualCompleteDeliveryJob ::
  "int64 \<Rightarrow> time \<Rightarrow> string option \<Rightarrow> int64 \<Rightarrow> int64 \<Rightarrow> int64 \<Rightarrow> job_row dbtx" where
  "ManualCompleteDeliveryJob telegram_message_id resolved_at reason admin_id jid expected_version =
     one (updateJobs
       (\<lambda>j. job_id j = jid \<and> job_event_type j = deliveryEvent \<and>
            job_status j \<in> {DeliveryJobAmbiguous, DeliveryJobManualReview} \<and>
            job_version j = expected_version)
       (\<lambda>j. j\<lparr>job_status := DeliveryJobCompleted,
              job_telegram_message_id := Some telegram_message_id,
              job_telegram_sent_at := Some resolved_at, job_completed_at := Some resolved_at,
              job_manual_resolution := Some ''mark_delivered'',
              job_resolution_reason := reason, job_resolved_by_admin_id := Some admin_id,
              job_resolved_at := Some resolved_at, job_last_error_code := None,
              job_last_error_detail := None, job_version := job_version j + 1\<rparr>))"

end
