(* ===== verification/Admin_Access.thy ===== *)
theory Admin_Access
  imports Sql_Orders
begin

text \<open>
  Who may act and in which conversation: \<open>Admin\<close> and \<open>CanManageCatalog\<close> of
  \<open>internal/app/models.go\<close>, and the session guards of \<open>internal/postgres/admin_store.go\<close>
  that every administrative transaction of the stores runs first and last.
\<close>

record RequestMeta =
  RequestID :: string
  UpdateID :: int64

record Admin =
  Admin_ID :: int64
  Admin_UserID :: int64
  Admin_TelegramUserID :: int64
  Admin_Role :: string
  Admin_Active :: bool
  Admin_UserStatus :: UserStatus

definition CanOpenAdmin :: "Admin \<Rightarrow> bool" where
  "CanOpenAdmin a \<longleftrightarrow> Admin_Active a \<and> Admin_UserStatus a = UserStatusActive"

definition CanManageCatalog :: "Admin \<Rightarrow> bool" where
  "CanManageCatalog a =
     (if \<not> CanOpenAdmin a then False
      else Admin_Role a \<in> {''owner'', ''admin'', ''operator''})"

definition mapAdmin :: "admin_row \<times> user_row \<Rightarrow> Admin" where
  "mapAdmin r = \<lparr>Admin_ID = adm_id (fst r), Admin_UserID = adm_user_id (fst r),
     Admin_TelegramUserID = usr_telegram_user_id (snd r), Admin_Role = adm_role (fst r),
     Admin_Active = adm_is_active (fst r), Admin_UserStatus = usr_status (snd r)\<rparr>"

definition authorizeAdmin :: "int64 \<Rightarrow> Admin dbtx" where
  "authorizeAdmin telegramID =
     bindE (noRows ErrNotFound (GetAdminAuthorizationByTelegramID telegramID))
       (\<lambda>row. returnE (mapAdmin row))"

definition authorizePaymentAdmin :: "int64 \<Rightarrow> Admin dbtx" where
  "authorizePaymentAdmin telegramID =
     bindE (noRows ErrUnauthorized (GetAdminAuthorizationByTelegramID telegramID)) (\<lambda>row.
     let admin = mapAdmin row in
     if \<not> CanManageCatalog admin then throwE ErrForbidden else returnE admin)"

definition requireCatalogAdmin :: "Admin \<Rightarrow> unit dbtx" where
  "requireCatalogAdmin expected =
     bindE (mapErrE (\<lambda>_. ErrForbidden) (authorizeAdmin (Admin_TelegramUserID expected))) (\<lambda>current.
     if Admin_ID current \<noteq> Admin_ID expected \<or> \<not> CanManageCatalog current then throwE ErrForbidden
     else returnE ())"

text \<open>\<open>now\<close> is the service's \<open>time.Now()\<close>; \<open>expected\<close> the session the client carries.\<close>

definition lockAndVerifySession :: "time \<Rightarrow> int64 \<Rightarrow> session_row \<Rightarrow> string \<Rightarrow> session_row dbtx" where
  "lockAndVerifySession now adminID expected requiredState =
     bindE (noRows ErrNotFound (LockAdminSessionByID (ses_id expected))) (\<lambda>row.
     if ses_admin_id row \<noteq> adminID \<or> ses_admin_id expected \<noteq> adminID then throwE ErrForbidden
     else if \<not> (ses_expires_at row > now) then throwE ErrSessionExpired
     else if ses_version row \<noteq> ses_version expected then throwE ErrStaleVersion
     else if requiredState \<noteq> [] \<and> ses_state row \<noteq> requiredState then throwE ErrStaleVersion
     else returnE row)"

definition finishSession :: "int64 \<Rightarrow> session_row \<Rightarrow> unit dbtx" where
  "finishSession adminID session =
     bindE (noRows ErrStaleVersion
       (FinishAdminSessionGuarded ''completed'' (ses_id session) adminID (ses_version session)))
       (\<lambda>_. returnE ())"

end
