(* ===== verification/Delivery_Store.thy ===== *)
theory Delivery_Store
  imports Sql_Delivery Admin_Access
begin

text \<open>
  The delivery queue's transactions: \<open>internal/postgres/delivery_store.go\<close>, and the manual
  resolutions of \<open>internal/postgres/delivery_admin_store.go\<close>.
\<close>

section \<open>Data\<close>

record DeliverySendResult =
  dsr_ChatID :: int64
  dsr_MessageID :: int64
  dsr_SentAt :: time

record DeliveryFailure =
  df_Class :: DeliveryResultClass
  df_Code :: string
  df_Summary :: string
  df_HTTPStatus :: int32
  df_TelegramErrorCode :: int32
  df_RetryAfter :: duration
  df_FailedAt :: time
  df_NextAttemptAt :: time

record DeliverySuccess =
  dsc_Result :: DeliverySendResult
  dsc_CompletedAt :: time

record DeliveryWorkItem =
  dwi_ID :: int64
  dwi_OrderID :: int64
  dwi_RecipientChatID :: int64
  dwi_Attempts :: int32
  dwi_MaxAttempts :: int32

record DeliveryEnvelope =
  de_JobID :: int64
  de_OrderID :: int64
  de_RecipientChatID :: int64
  de_TelegramUserID :: int64
  de_ProductName :: string
  de_Quantity :: int32
  de_Attempts :: int32
  de_MaxAttempts :: int32

record EncryptedDeliveryItem =
  edi_ID :: int64
  edi_ProductID :: int64
  edi_Ciphertext :: string
  edi_Nonce :: string
  edi_Format :: string
  edi_KeyVersion :: int32

record DeliveryAttempt =
  da_Number :: int32
  da_JobID :: int64
  da_OrderID :: int64

record DeliveryRecoveryResult =
  drr_Retryable :: int
  drr_Ambiguous :: int

definition noFailure :: DeliveryFailure where
  "noFailure = \<lparr>df_Class = DeliveryResultOther [], df_Code = [], df_Summary = [], df_HTTPStatus = 0,
     df_TelegramErrorCode = 0, df_RetryAfter = 0, df_FailedAt = 0, df_NextAttemptAt = 0\<rparr>"

definition noSendResult :: DeliverySendResult where
  "noSendResult = \<lparr>dsr_ChatID = 0, dsr_MessageID = 0, dsr_SentAt = 0\<rparr>"

fun deliveryClassText :: "DeliveryResultClass \<Rightarrow> string" where
  "deliveryClassText DeliveryResultSuccess = ''success''"
| "deliveryClassText DeliveryResultRetryable = ''retryable''"
| "deliveryClassText DeliveryResultPermanent = ''permanent''"
| "deliveryClassText DeliveryResultAmbiguous = ''ambiguous''"
| "deliveryClassText (DeliveryResultOther x) = x"

fun deliveryStatusText :: "DeliveryJobStatus \<Rightarrow> string" where
  "deliveryStatusText DeliveryJobPending = ''pending''"
| "deliveryStatusText DeliveryJobProcessing = ''processing''"
| "deliveryStatusText DeliveryJobRetryableFailed = ''retryable_failed''"
| "deliveryStatusText DeliveryJobAmbiguous = ''ambiguous''"
| "deliveryStatusText DeliveryJobManualReview = ''manual_review''"
| "deliveryStatusText DeliveryJobPermanentFailed = ''permanent_failed''"
| "deliveryStatusText DeliveryJobCompleted = ''completed''"
| "deliveryStatusText DeliveryJobCancelled = ''cancelled''"
| "deliveryStatusText (DeliveryJobOther x) = x"

section \<open>Helpers\<close>

definition optionalInt4 :: "int32 \<Rightarrow> int32 option" where
  "optionalInt4 v = (if v > 0 then Some v else None)"

text \<open>
  \<open>math.Ceil(value.Seconds())\<close> clipped to \<open>int32\<close>; the quotient is taken exactly, which
  the float64 computation matches for durations below \<open>2^22\<close> seconds.
\<close>

definition durationSeconds :: "duration \<Rightarrow> int32 option" where
  "durationSeconds v =
     (if v \<le> 0 then None
      else let seconds = (v + 999999999) div 1000000000 in
        Some (if seconds > MaxInt32 then MaxInt32 else seconds))"

definition DefaultDeliveryMaxAttempts :: int32 where
  "DefaultDeliveryMaxAttempts = 5"

definition configuredDeliveryMaxAttempts :: "int32 list \<Rightarrow> int32" where
  "configuredDeliveryMaxAttempts values =
     (case values of v # _ \<Rightarrow> (if v > 0 then v else DefaultDeliveryMaxAttempts)
      | [] \<Rightarrow> DefaultDeliveryMaxAttempts)"

definition failureAttemptStatus :: "DeliveryResultClass \<Rightarrow> string" where
  "failureAttemptStatus c =
     (case c of DeliveryResultRetryable \<Rightarrow> ''retryable_failed''
      | DeliveryResultPermanent \<Rightarrow> ''permanent_failed'' | _ \<Rightarrow> ''ambiguous'')"

definition insertDeliveryAttempt ::
  "job_row \<Rightarrow> string \<Rightarrow> time \<Rightarrow> DeliveryFailure \<Rightarrow> DeliverySendResult \<Rightarrow> attempt_row dbtx" where
  "insertDeliveryAttempt job status finishedAt failure result =
     InsertDeliveryAttemptEvent
       \<lparr>tp_order_id = int8Or (job_delivery_order_id job), tp_delivery_job_id = Some (job_id job),
        tp_attempt_number = job_attempts job, tp_status = status,
        tp_http_status = optionalInt4 (df_HTTPStatus failure),
        tp_telegram_error_code = optionalInt4 (df_TelegramErrorCode failure),
        tp_retry_after_seconds = durationSeconds (df_RetryAfter failure),
        tp_telegram_chat_id = (if dsr_ChatID result > 0 then Some (dsr_ChatID result) else None),
        tp_telegram_message_id =
          (if dsr_MessageID result > 0 then Some (dsr_MessageID result) else None),
        tp_error_class = optionalText (deliveryClassText (df_Class failure)),
        tp_error_code = optionalText (df_Code failure),
        tp_error_detail = optionalText (df_Summary failure),
        tp_started_at = (case job_send_attempted_at job of Some t \<Rightarrow> t | None \<Rightarrow> finishedAt),
        tp_finished_at = Some finishedAt\<rparr>"

definition insertDeliveryAudit ::
  "int64 \<Rightarrow> int64 \<Rightarrow> string \<Rightarrow> string \<Rightarrow> int64 \<Rightarrow> string \<Rightarrow> string \<Rightarrow> unit dbtx" where
  "insertDeliveryAudit jobID orderID action actorType actorID reason requestID =
     bindE (InsertAuditLog \<lparr>ap_actor_type = actorType, ap_actor_id = optionalInt8 actorID,
       ap_action = action, ap_resource_type = ''delivery_job'', ap_resource_id = Some jobID,
       ap_before_data = None,
       ap_after_data = Some [(''delivery_job_id'', JInt jobID), (''order_id'', JInt orderID),
         (''reason'', JText reason)],
       ap_request_id = optionalText requestID, ap_telegram_update_id = None\<rparr>) (\<lambda>_. returnE ())"

definition deliveryRequestID :: "int64 \<Rightarrow> string" where
  "deliveryRequestID jid = ''delivery-job-'' @ intText jid"

definition markOrderDeliveryFailed :: "job_row \<Rightarrow> string \<Rightarrow> unit dbtx" where
  "markOrderDeliveryFailed job reason =
     bindE (noRows ErrInvalidDeliveryState
       (MarkOrderDeliveryFailedGuarded (int8Or (job_delivery_order_id job)))) (\<lambda>order.
     bindE (InsertOrderStatusHistory \<lparr>hp_order_id = ord_id order,
       hp_from_status = Some OrderStatusDelivering, hp_to_status = OrderStatusDeliveryFailed,
       hp_reason_code = optionalText reason, hp_actor_type = ''system'', hp_actor_id = None,
       hp_request_id = optionalText (deliveryRequestID (job_id job))\<rparr>) (\<lambda>_. returnE ()))"

section \<open>Handoff\<close>

definition createDeliveryHandoffWithinTransaction ::
  "int64 \<Rightarrow> time \<Rightarrow> int32 \<Rightarrow> string \<Rightarrow> int64 \<Rightarrow> string \<Rightarrow> bool dbtx" where
  "createDeliveryHandoffWithinTransaction orderID createdAt maxAttempts actorType actorID requestID =
     (if orderID \<le> 0 \<or> maxAttempts \<le> 0 then throwE ErrInvalidInput else
     bindE (LockOrderForDeliveryHandoff orderID) (\<lambda>order.
     if hof_status order = OrderStatusDelivering then
       bindE (GetDeliveryJobByOrder (hof_id order)) (\<lambda>_. returnE False)
     else if hof_status order \<noteq> OrderStatusReserving \<or> hof_telegram_user_id order \<le> 0 \<or>
       hof_quantity order \<le> 0 then throwE ErrInvalidDeliveryState else
     bindE (CountExactReservedInventoryForOrder (hof_id order)) (\<lambda>reserved.
     if reserved \<noteq> hof_quantity order then throwE ErrDeliveryInventoryMismatch else
     bindE (attempt (InsertDeliveryJob (hof_id order) maxAttempts createdAt (hof_telegram_user_id order)))
       (\<lambda>inserted. case inserted of
       Inl e \<Rightarrow>
         if e = PgxErrNoRows then bindE (GetDeliveryJobByOrder (hof_id order)) (\<lambda>_. returnE False)
         else throwE e
     | Inr job \<Rightarrow>
       bindE (MarkOrderDeliveringGuarded createdAt (hof_id order) (hof_version order)) (\<lambda>delivering.
       bindE (InsertOrderStatusHistory \<lparr>hp_order_id = hof_id order,
         hp_from_status = Some OrderStatusReserving, hp_to_status = OrderStatusDelivering,
         hp_reason_code = optionalText ''delivery_job_created'', hp_actor_type = actorType,
         hp_actor_id = optionalInt8 actorID, hp_request_id = optionalText requestID\<rparr>) (\<lambda>_.
       bindE (InsertAuditLog
         \<lparr>ap_actor_type = (if actorType = ''provider'' then ''system'' else actorType),
          ap_actor_id = (if actorType = ''provider'' then None else optionalInt8 actorID),
          ap_action = ''delivery.job_created'', ap_resource_type = ''delivery_job'',
          ap_resource_id = Some (job_id job), ap_before_data = None,
          ap_after_data = Some [(''delivery_job_id'', JInt (job_id job)),
            (''order_id'', JInt (hof_id order)),
            (''status'', JText (orderStatusText (ord_status delivering))),
            (''inventory_count'', JInt reserved)],
          ap_request_id = optionalText requestID, ap_telegram_update_id = None\<rparr>) (\<lambda>_.
       returnE True)))))))"

primrec backfillLoop :: "time \<Rightarrow> int32 \<Rightarrow> int64 list \<Rightarrow> int \<Rightarrow> int dbtx" where
  "backfillLoop now maxAttempts [] created = returnE created"
| "backfillLoop now maxAttempts (orderID # rest) created =
     bindE (createDeliveryHandoffWithinTransaction orderID now maxAttempts ''system'' 0
       (''delivery-backfill-'' @ intText orderID)) (\<lambda>inserted.
     backfillLoop now maxAttempts rest (if inserted then created + 1 else created))"

definition BackfillDeliveryJobs :: "(int64 \<Rightarrow> bool) \<Rightarrow> time \<Rightarrow> int32 \<Rightarrow> int32 \<Rightarrow> int dbtx" where
  "BackfillDeliveryJobs skip now batchSize maxAttempts = WithinTransaction (
     bindE (ListDeliveryBackfillOrderIDs skip batchSize) (\<lambda>orderIDs.
     backfillLoop now maxAttempts orderIDs 0))"

section \<open>Claiming and recovery\<close>

primrec recoverStaleLoop ::
  "time \<Rightarrow> job_row list \<Rightarrow> DeliveryRecoveryResult \<Rightarrow> DeliveryRecoveryResult dbtx" where
  "recoverStaleLoop now [] result = returnE result"
| "recoverStaleLoop now (job # rest) result =
     (if textOr (job_processing_stage job) = ''claimed'' then
       bindE (MarkStaleDeliveryClaimRetryable now (job_id job)) (\<lambda>_.
       recoverStaleLoop now rest (result\<lparr>drr_Retryable := drr_Retryable result + 1\<rparr>))
      else if textOr (job_processing_stage job) = ''sending'' then
       bindE (MarkStaleDeliverySendAmbiguous (job_id job)) (\<lambda>_.
       bindE (insertDeliveryAttempt job ''ambiguous'' now
         (noFailure\<lparr>df_Class := DeliveryResultAmbiguous, df_Code := ''stale_after_send_started'',
           df_Summary := ''send outcome requires manual verification'', df_FailedAt := now\<rparr>)
         noSendResult) (\<lambda>_.
       bindE (insertDeliveryAudit (job_id job) (int8Or (job_delivery_order_id job))
         ''delivery.stale_send_ambiguous'' ''system'' 0 ''stale_after_send_started'' []) (\<lambda>_.
       recoverStaleLoop now rest (result\<lparr>drr_Ambiguous := drr_Ambiguous result + 1\<rparr>))))
      else throwE ErrInvalidDeliveryState)"

definition RecoverStaleDeliveryJobs ::
  "(int64 \<Rightarrow> bool) \<Rightarrow> time \<Rightarrow> time \<Rightarrow> int32 \<Rightarrow> DeliveryRecoveryResult dbtx" where
  "RecoverStaleDeliveryJobs skip now staleBefore batchSize = WithinTransaction (
     bindE (LockStaleDeliveryJobs skip staleBefore batchSize) (\<lambda>jobs.
     recoverStaleLoop now jobs \<lparr>drr_Retryable = 0, drr_Ambiguous = 0\<rparr>))"

definition ClaimDeliveryJobs ::
  "(int64 \<Rightarrow> bool) \<Rightarrow> time \<Rightarrow> string \<Rightarrow> int32 \<Rightarrow> DeliveryWorkItem list dbtx" where
  "ClaimDeliveryJobs skip now workerID batchSize =
     bindE (ClaimDeliveryJobs_query skip now (optionalText workerID) batchSize) (\<lambda>rows.
     returnE (map (\<lambda>row. \<lparr>dwi_ID = job_id row, dwi_OrderID = int8Or (job_delivery_order_id row),
       dwi_RecipientChatID = int8Or (job_recipient_chat_id row), dwi_Attempts = job_attempts row,
       dwi_MaxAttempts = job_max_attempts row\<rparr>) rows))"

definition LoadClaimedDelivery ::
  "int64 \<Rightarrow> string \<Rightarrow> (DeliveryEnvelope \<times> EncryptedDeliveryItem list) dbtx" where
  "LoadClaimedDelivery jobID workerID =
     bindE (noRows ErrDeliveryNotFound (LoadDeliveryEnvelope jobID)) (\<lambda>row.
     let job = env_job row in
     if job_status job \<noteq> DeliveryJobProcessing \<or> textOr (job_processing_stage job) \<noteq> ''claimed'' \<or>
        textOr (job_locked_by job) \<noteq> workerID \<or> env_order_status row \<noteq> OrderStatusDelivering \<or>
        job_delivery_order_id job = None \<or> job_recipient_chat_id job = None \<or>
        int8Or (job_recipient_chat_id job) \<noteq> env_telegram_user_id row \<or> env_quantity row \<le> 0
     then throwE ErrInvalidDeliveryState else
     bindE (ListEncryptedInventoryForDelivery (int8Or (job_delivery_order_id job))) (\<lambda>items.
     if int (length items) \<noteq> env_quantity row then throwE ErrDeliveryInventoryMismatch
     else if \<not> list_all (\<lambda>(m, i). inv_reserved_order_id i = Some (int8Or (job_delivery_order_id job)) \<and>
        inv_status i = InventoryStatusReserved) items then throwE ErrDeliveryInventoryMismatch
     else returnE
       (\<lparr>de_JobID = job_id job, de_OrderID = int8Or (job_delivery_order_id job),
         de_RecipientChatID = int8Or (job_recipient_chat_id job),
         de_TelegramUserID = env_telegram_user_id row, de_ProductName = env_product_name row,
         de_Quantity = env_quantity row, de_Attempts = job_attempts job,
         de_MaxAttempts = job_max_attempts job\<rparr>,
        map (\<lambda>(m, i). \<lparr>edi_ID = inv_id i, edi_ProductID = inv_product_id i,
          edi_Ciphertext = inv_encrypted_payload i, edi_Nonce = inv_encryption_nonce i,
          edi_Format = inv_encryption_format i, edi_KeyVersion = inv_encryption_key_version i\<rparr>) items)))"

definition BeginDeliveryAttempt :: "int64 \<Rightarrow> string \<Rightarrow> time \<Rightarrow> DeliveryAttempt dbtx" where
  "BeginDeliveryAttempt jobID workerID attemptedAt = WithinTransaction (
     bindE (noRows ErrDeliveryLeaseLost (BeginDeliverySend attemptedAt jobID (optionalText workerID))) (\<lambda>job.
     bindE (InsertDeliveryAttemptEvent
       \<lparr>tp_order_id = int8Or (job_delivery_order_id job), tp_delivery_job_id = Some (job_id job),
        tp_attempt_number = job_attempts job, tp_status = ''started'', tp_http_status = None,
        tp_telegram_error_code = None, tp_retry_after_seconds = None, tp_telegram_chat_id = None,
        tp_telegram_message_id = None, tp_error_class = None, tp_error_code = None,
        tp_error_detail = None, tp_started_at = attemptedAt, tp_finished_at = None\<rparr>) (\<lambda>_.
     returnE \<lparr>da_Number = job_attempts job, da_JobID = job_id job,
       da_OrderID = int8Or (job_delivery_order_id job)\<rparr>)))"

section \<open>Finalizing\<close>

definition FinalizeDeliverySuccess :: "int64 \<Rightarrow> string \<Rightarrow> DeliverySuccess \<Rightarrow> unit dbtx" where
  "FinalizeDeliverySuccess jobID workerID success = WithinTransaction (
     bindE (LockDeliveryJob jobID) (\<lambda>job.
     if job_status job = DeliveryJobCompleted then returnE ()
     else if job_status job \<noteq> DeliveryJobProcessing \<or> textOr (job_processing_stage job) \<noteq> ''sending'' \<or>
       textOr (job_locked_by job) \<noteq> workerID then throwE ErrDeliveryLeaseLost else
     bindE (LockOrderForDeliveryHandoff (int8Or (job_delivery_order_id job))) (\<lambda>order.
     if hof_status order \<noteq> OrderStatusDelivering \<or>
        dsr_ChatID (dsc_Result success) \<noteq> int8Or (job_recipient_chat_id job) \<or>
        dsr_MessageID (dsc_Result success) \<le> 0 then throwE ErrInvalidDeliveryState else
     bindE (MarkExactReservedInventorySold (hof_id order) (hof_quantity order)) (\<lambda>sold.
     if int (length sold) \<noteq> hof_quantity order then throwE ErrDeliveryInventoryMismatch else
     bindE (MarkOrderDeliveredGuarded (dsc_CompletedAt success) (hof_id order) (hof_version order)) (\<lambda>_.
     bindE (MarkDeliveryCompleted (dsr_MessageID (dsc_Result success)) (dsr_SentAt (dsc_Result success))
       (dsc_CompletedAt success) (job_id job) (optionalText workerID)) (\<lambda>_.
     bindE (insertDeliveryAttempt job ''succeeded'' (dsc_CompletedAt success) noFailure
       (dsc_Result success)) (\<lambda>_.
     bindE (InsertOrderStatusHistory \<lparr>hp_order_id = hof_id order,
       hp_from_status = Some OrderStatusDelivering, hp_to_status = OrderStatusDelivered,
       hp_reason_code = optionalText ''telegram_delivery_confirmed'', hp_actor_type = ''system'',
       hp_actor_id = None, hp_request_id = optionalText (deliveryRequestID (job_id job))\<rparr>) (\<lambda>_.
     insertDeliveryAudit (job_id job) (hof_id order) ''delivery.completed'' ''system'' 0
       ''telegram_success'' []))))))))"

definition FinalizeDeliveryFailure :: "int64 \<Rightarrow> string \<Rightarrow> DeliveryFailure \<Rightarrow> unit dbtx" where
  "FinalizeDeliveryFailure jobID workerID failure = WithinTransaction (
     bindE (LockDeliveryJob jobID) (\<lambda>job.
     if job_status job \<noteq> DeliveryJobProcessing \<or> textOr (job_processing_stage job) \<noteq> ''sending'' \<or>
       textOr (job_locked_by job) \<noteq> workerID then throwE ErrDeliveryLeaseLost else
     bindE (insertDeliveryAttempt job (failureAttemptStatus (df_Class failure)) (df_FailedAt failure)
       failure noSendResult) (\<lambda>_.
     case df_Class failure of
       DeliveryResultRetryable \<Rightarrow>
         bindE (MarkDeliveryRetryable (df_NextAttemptAt failure) (optionalText (df_Code failure))
           (optionalText (df_Summary failure)) (job_id job) (optionalText workerID)) (\<lambda>_.
         insertDeliveryAudit (job_id job) (int8Or (job_delivery_order_id job))
           ''delivery.retry_scheduled'' ''system'' 0 (df_Code failure) [])
     | DeliveryResultPermanent \<Rightarrow>
         bindE (MarkDeliveryPermanentFailed (optionalText (df_Code failure))
           (optionalText (df_Summary failure)) (df_FailedAt failure) (job_id job)
           (optionalText workerID)) (\<lambda>_.
         bindE (markOrderDeliveryFailed job (df_Code failure)) (\<lambda>_.
         insertDeliveryAudit (job_id job) (int8Or (job_delivery_order_id job))
           ''delivery.permanent_failed'' ''system'' 0 (df_Code failure) []))
     | DeliveryResultAmbiguous \<Rightarrow>
         bindE (MarkDeliveryAmbiguous None None (optionalText (df_Code failure))
           (optionalText (df_Summary failure)) (job_id job)) (\<lambda>_.
         insertDeliveryAudit (job_id job) (int8Or (job_delivery_order_id job))
           ''delivery.ambiguous'' ''system'' 0 (df_Code failure) [])
     | _ \<Rightarrow> throwE ErrInvalidDeliveryState)))"

definition FinalizeClaimedDeliveryFailure :: "int64 \<Rightarrow> string \<Rightarrow> DeliveryFailure \<Rightarrow> unit dbtx" where
  "FinalizeClaimedDeliveryFailure jobID workerID failure = WithinTransaction (
     bindE (LockDeliveryJob jobID) (\<lambda>job.
     if job_status job \<noteq> DeliveryJobProcessing \<or> textOr (job_processing_stage job) \<noteq> ''claimed'' \<or>
       textOr (job_locked_by job) \<noteq> workerID then throwE ErrDeliveryLeaseLost else
     let retryable = (df_Class failure = DeliveryResultRetryable) in
     bindE (MarkClaimedDeliveryFailure
       \<lparr>cfp_new_status = (if retryable then DeliveryJobRetryableFailed else DeliveryJobPermanentFailed),
        cfp_next_attempt_at = df_NextAttemptAt failure,
        cfp_error_code = optionalText (df_Code failure),
        cfp_error_detail = optionalText (df_Summary failure),
        cfp_completed_at = (if retryable then None else Some (df_FailedAt failure)),
        cfp_id = job_id job, cfp_worker_id = optionalText workerID\<rparr>) (\<lambda>updated.
     bindE (insertDeliveryAttempt updated (failureAttemptStatus (df_Class failure))
       (df_FailedAt failure) failure noSendResult) (\<lambda>_.
     bindE (if df_Class failure = DeliveryResultPermanent
            then markOrderDeliveryFailed job (df_Code failure) else returnE ()) (\<lambda>_.
     insertDeliveryAudit (job_id job) (int8Or (job_delivery_order_id job))
       ''delivery.pre_send_failed'' ''system'' 0 (df_Code failure) [])))))"

definition PreserveAmbiguousSuccess :: "int64 \<Rightarrow> DeliverySuccess \<Rightarrow> string \<Rightarrow> unit dbtx" where
  "PreserveAmbiguousSuccess jobID success reason = WithinTransaction (
     bindE (LockDeliveryJob jobID) (\<lambda>job.
     if job_status job = DeliveryJobCompleted then returnE ()
     else if job_status job \<noteq> DeliveryJobProcessing \<or> textOr (job_processing_stage job) \<noteq> ''sending''
       then throwE ErrInvalidDeliveryState else
     bindE (MarkDeliveryAmbiguous (Some (dsr_MessageID (dsc_Result success)))
       (Some (dsr_SentAt (dsc_Result success))) (optionalText reason)
       (optionalText ''Telegram confirmed send but database finalization was not confirmed'')
       (job_id job)) (\<lambda>_.
     bindE (insertDeliveryAttempt job ''ambiguous'' (dsc_CompletedAt success)
       (noFailure\<lparr>df_Class := DeliveryResultAmbiguous, df_Code := reason,
         df_Summary := ''confirmed send requires database reconciliation'',
         df_FailedAt := dsc_CompletedAt success\<rparr>) (dsc_Result success)) (\<lambda>_.
     insertDeliveryAudit (job_id job) (int8Or (job_delivery_order_id job))
       ''delivery.finalize_ambiguous'' ''system'' 0 reason []))))"

section \<open>Manual resolution\<close>

record DeliveryResolutionCommand =
  drc_AdminTelegramID :: int64
  drc_JobID :: int64
  drc_ExpectedVersion :: int64
  drc_TelegramMessageID :: int64
  drc_Reason :: string
  drc_Session :: session_row
  drc_Meta :: RequestMeta

record DeliveryReviewItem =
  dri_Job :: job_row
  dri_ProductName :: string
  dri_Quantity :: int32

definition deliveryReviewFromJob :: "job_row \<Rightarrow> string \<Rightarrow> int32 \<Rightarrow> DeliveryReviewItem" where
  "deliveryReviewFromJob job productName quantity =
     \<lparr>dri_Job = job, dri_ProductName = productName, dri_Quantity = quantity\<rparr>"

definition insertManualDeliveryAudit ::
  "int64 \<Rightarrow> job_row \<Rightarrow> job_row \<Rightarrow> string \<Rightarrow> DeliveryResolutionCommand \<Rightarrow> unit dbtx" where
  "insertManualDeliveryAudit adminID before after action command =
     bindE (InsertAuditLog \<lparr>ap_actor_type = ''admin'', ap_actor_id = Some adminID, ap_action = action,
       ap_resource_type = ''delivery_job'', ap_resource_id = Some (job_id after),
       ap_before_data = Some [(''status'', JText (deliveryStatusText (job_status before))),
         (''version'', JInt (job_version before))],
       ap_after_data = Some [(''status'', JText (deliveryStatusText (job_status after))),
         (''version'', JInt (job_version after)), (''reason'', JText (drc_Reason command)),
         (''telegram_message_id'', JInt (drc_TelegramMessageID command))],
       ap_request_id = optionalText (RequestID (drc_Meta command)),
       ap_telegram_update_id = optionalInt8 (UpdateID (drc_Meta command))\<rparr>) (\<lambda>_. returnE ())"

text \<open>\<open>now\<close> is the \<open>time.Now()\<close> of the session check.\<close>

definition RetryDelivery :: "time \<Rightarrow> DeliveryResolutionCommand \<Rightarrow> time \<Rightarrow> DeliveryReviewItem dbtx" where
  "RetryDelivery now command resolvedAt = mapErrE mapConstraintError (WithinTransaction (
     bindE (authorizePaymentAdmin (drc_AdminTelegramID command)) (\<lambda>admin.
     bindE (lockAndVerifySession now (Admin_ID admin) (drc_Session command) ''delivery.retry'') (\<lambda>_.
     bindE (noRows ErrDeliveryNotFound (LockDeliveryJob (drc_JobID command))) (\<lambda>job.
     if job_version job \<noteq> drc_ExpectedVersion command then throwE ErrStaleVersion
     else if job_status job \<noteq> DeliveryJobAmbiguous \<and> job_status job \<noteq> DeliveryJobManualReview \<and>
       job_status job \<noteq> DeliveryJobPermanentFailed \<and> job_status job \<noteq> DeliveryJobRetryableFailed
       then throwE ErrUnsafeDeliveryResolution else
     bindE (LockOrderForDeliveryHandoff (int8Or (job_delivery_order_id job))) (\<lambda>order.
     bindE (if hof_status order = OrderStatusDeliveryFailed then
         bindE (UpdateOrderStatusGuarded OrderStatusDelivering (hof_id order)
           OrderStatusDeliveryFailed (hof_version order)) (\<lambda>_.
         bindE (InsertOrderStatusHistory \<lparr>hp_order_id = hof_id order,
           hp_from_status = Some OrderStatusDeliveryFailed, hp_to_status = OrderStatusDelivering,
           hp_reason_code = optionalText ''manual_redelivery_verified'', hp_actor_type = ''admin'',
           hp_actor_id = Some (Admin_ID admin),
           hp_request_id = optionalText (RequestID (drc_Meta command))\<rparr>) (\<lambda>_. returnE ()))
       else if hof_status order \<noteq> OrderStatusDelivering then throwE ErrInvalidDeliveryState
       else returnE ()) (\<lambda>_.
     bindE (noRows ErrStaleVersion (ManualRetryDeliveryJob resolvedAt
       (optionalText (drc_Reason command)) (Admin_ID admin) resolvedAt (job_id job) (job_version job)))
       (\<lambda>updated.
     bindE (InsertDeliveryAttemptEvent
       \<lparr>tp_order_id = hof_id order, tp_delivery_job_id = Some (job_id job),
        tp_attempt_number = job_attempts job + 1, tp_status = ''manual_resolution'',
        tp_http_status = None, tp_telegram_error_code = None, tp_retry_after_seconds = None,
        tp_telegram_chat_id = None, tp_telegram_message_id = None,
        tp_error_class = optionalText ''manual'', tp_error_code = optionalText ''verified_not_delivered'',
        tp_error_detail = optionalText (drc_Reason command), tp_started_at = resolvedAt,
        tp_finished_at = Some resolvedAt\<rparr>) (\<lambda>_.
     bindE (insertManualDeliveryAudit (Admin_ID admin) job updated ''delivery.manual_retry'' command) (\<lambda>_.
     bindE (finishSession (Admin_ID admin) (drc_Session command)) (\<lambda>_.
     bindE (completeReceipt (UpdateID (drc_Meta command))) (\<lambda>_.
     returnE (deliveryReviewFromJob updated (hof_product_name order) (hof_quantity order))))))))))))))"

definition CompleteDelivery :: "time \<Rightarrow> DeliveryResolutionCommand \<Rightarrow> time \<Rightarrow> DeliveryReviewItem dbtx" where
  "CompleteDelivery now command resolvedAt = mapErrE mapConstraintError (WithinTransaction (
     bindE (authorizePaymentAdmin (drc_AdminTelegramID command)) (\<lambda>admin.
     bindE (lockAndVerifySession now (Admin_ID admin) (drc_Session command) ''delivery.complete'') (\<lambda>_.
     bindE (noRows ErrDeliveryNotFound (LockDeliveryJob (drc_JobID command))) (\<lambda>job.
     if job_version job \<noteq> drc_ExpectedVersion command then throwE ErrStaleVersion
     else if job_status job \<noteq> DeliveryJobAmbiguous \<and> job_status job \<noteq> DeliveryJobManualReview
       then throwE ErrUnsafeDeliveryResolution else
     bindE (LockOrderForDeliveryHandoff (int8Or (job_delivery_order_id job))) (\<lambda>order.
     if hof_status order \<noteq> OrderStatusDelivering then throwE ErrInvalidDeliveryState else
     bindE (MarkExactReservedInventorySold (hof_id order) (hof_quantity order)) (\<lambda>sold.
     if int (length sold) \<noteq> hof_quantity order then throwE ErrDeliveryInventoryMismatch else
     bindE (MarkOrderDeliveredGuarded resolvedAt (hof_id order) (hof_version order)) (\<lambda>_.
     bindE (noRows ErrStaleVersion (ManualCompleteDeliveryJob (drc_TelegramMessageID command)
       resolvedAt (optionalText (drc_Reason command)) (Admin_ID admin) (job_id job) (job_version job)))
       (\<lambda>updated.
     bindE (InsertDeliveryAttemptEvent
       \<lparr>tp_order_id = hof_id order, tp_delivery_job_id = Some (job_id job),
        tp_attempt_number = job_attempts job + 1, tp_status = ''manual_resolution'',
        tp_http_status = None, tp_telegram_error_code = None, tp_retry_after_seconds = None,
        tp_telegram_chat_id = job_recipient_chat_id job,
        tp_telegram_message_id = Some (drc_TelegramMessageID command),
        tp_error_class = optionalText ''manual'', tp_error_code = optionalText ''verified_delivered'',
        tp_error_detail = optionalText (drc_Reason command), tp_started_at = resolvedAt,
        tp_finished_at = Some resolvedAt\<rparr>) (\<lambda>_.
     bindE (InsertOrderStatusHistory \<lparr>hp_order_id = hof_id order,
       hp_from_status = Some OrderStatusDelivering, hp_to_status = OrderStatusDelivered,
       hp_reason_code = optionalText ''manual_delivery_verified'', hp_actor_type = ''admin'',
       hp_actor_id = Some (Admin_ID admin),
       hp_request_id = optionalText (RequestID (drc_Meta command))\<rparr>) (\<lambda>_.
     bindE (insertManualDeliveryAudit (Admin_ID admin) job updated ''delivery.manual_completed'' command) (\<lambda>_.
     bindE (finishSession (Admin_ID admin) (drc_Session command)) (\<lambda>_.
     bindE (completeReceipt (UpdateID (drc_Meta command))) (\<lambda>_.
     returnE (deliveryReviewFromJob updated (hof_product_name order) (hof_quantity order))))))))))))))))"

end
