(* ===== verification/Payment_Acceptance.thy ===== *)
theory Payment_Acceptance
  imports Sql_Wallet Sql_Payments Delivery_Store
begin

text \<open>
  Deciding a payment: \<open>internal/app/payment_acceptance_service.go\<close> (normalisation and guards)
  over \<open>internal/postgres/payment_acceptance_store.go\<close> (the transaction), and the manual
  confirmation of \<open>internal/postgres/payment_admin_store.go\<close>. The Go code fills a result
  through a pointer; here the result is threaded through the calls.
\<close>

record PaymentActor =
  Actor_Type :: string
  Actor_ID :: int64

record AcceptPaymentCommand =
  apc_PaymentEventID :: int64
  apc_Provider :: string
  apc_ExternalEventID :: string
  apc_ProviderTransactionID :: string
  apc_Reference :: string
  apc_Amount :: Money
  apc_Currency :: string
  apc_OccurredAt :: time
  apc_Actor :: PaymentActor
  apc_RequestID :: string
  apc_Environment :: string
  apc_Source :: string
  apc_ProviderAccountMappingID :: int64
  apc_LocalBankAccountID :: int64
  apc_DestinationAccountID :: string

record PaymentAcceptanceResult =
  par_PaymentID :: int64
  par_OrderID :: int64
  par_TopupID :: int64
  par_Target :: string
  par_Decision :: string
  par_Reason :: string
  par_Claimed :: int

definition noResult :: PaymentAcceptanceResult where
  "noResult = \<lparr>par_PaymentID = 0, par_OrderID = 0, par_TopupID = 0, par_Target = [],
     par_Decision = [], par_Reason = [], par_Claimed = 0\<rparr>"

section \<open>Helpers\<close>

definition CountPaymentReferenceTargets :: "string \<Rightarrow> int64 dbtx" where
  "CountPaymentReferenceTargets reference =
     askE (\<lambda>s. int (length (filter (\<lambda>x. ord_payment_reference x = reference) (orders s))) +
       int (length (filter (\<lambda>t. top_payment_reference t = reference) (wallet_topups s))))"

definition orderReviewReason :: "order_row \<Rightarrow> AcceptPaymentCommand \<Rightarrow> time \<Rightarrow> string" where
  "orderReviewReason order command acceptedAt =
     (if ord_total_vnd order \<noteq> apc_Amount command then ''amount_mismatch''
      else if ord_currency order \<noteq> apc_Currency command then ''currency_mismatch''
      else if ord_status order = OrderStatusExpired \<or> ord_status order = OrderStatusCancelled \<or>
        \<not> (ord_expires_at order > acceptedAt) then ''late_or_cancelled''
      else if ord_status order \<noteq> OrderStatusPendingPayment then ''competing_payment''
      else [])"

definition insertOrderPayment ::
  "AcceptPaymentCommand \<Rightarrow> order_row \<Rightarrow> PaymentStatus \<Rightarrow> time \<Rightarrow> payment_row dbtx" where
  "insertOrderPayment command order status acceptedAt =
     InsertPayment \<lparr>pp_order_id = Some (ord_id order), pp_user_id = ord_user_id order,
       pp_purpose = ''order'', pp_provider = apc_Provider command,
       pp_provider_transaction_id = optionalText (apc_ProviderTransactionID command),
       pp_payment_reference = apc_Reference command, pp_amount_vnd = apc_Amount command,
       pp_payment_environment = apc_Environment command, pp_status = status,
       pp_confirmed_at = (if status = PaymentStatusConfirmed then Some acceptedAt else None),
       pp_occurred_at = apc_OccurredAt command\<rparr>"

definition completePaymentEvent ::
  "int64 \<Rightarrow> string \<Rightarrow> int64 \<Rightarrow> int64 \<Rightarrow> time \<Rightarrow> string \<Rightarrow> string \<Rightarrow> unit dbtx" where
  "completePaymentEvent eventID status orderID topupID processedAt errorCode errorDetail =
     (if eventID \<le> 0 then returnE () else
      bindE (CompletePaymentEvent \<lparr>cep_processing_status = status,
        cep_related_order_id = optionalInt8 orderID, cep_related_wallet_topup_id = optionalInt8 topupID,
        cep_processed_at = processedAt, cep_processing_error = optionalText errorDetail,
        cep_last_error_code = optionalText errorCode, cep_id = eventID\<rparr>) (\<lambda>_. returnE ()))"

definition insertPaymentOrderHistory ::
  "PaymentActor \<Rightarrow> string \<Rightarrow> int64 \<Rightarrow> OrderStatus \<Rightarrow> OrderStatus \<Rightarrow> string \<Rightarrow> unit dbtx" where
  "insertPaymentOrderHistory actor requestID orderID f t reason =
     bindE (InsertOrderStatusHistory \<lparr>hp_order_id = orderID, hp_from_status = Some f,
       hp_to_status = t, hp_reason_code = optionalText reason, hp_actor_type = Actor_Type actor,
       hp_actor_id = optionalInt8 (Actor_ID actor), hp_request_id = optionalText requestID\<rparr>)
       (\<lambda>_. returnE ())"

definition insertPaymentAudit ::
  "AcceptPaymentCommand \<Rightarrow> int64 \<Rightarrow> int64 \<Rightarrow> string \<Rightarrow> string \<Rightarrow> unit dbtx" where
  "insertPaymentAudit command paymentID orderID decision reason =
     (let provider = (Actor_Type (apc_Actor command) = ''provider'') in
      bindE (InsertAuditLog
        \<lparr>ap_actor_type = (if provider then ''system'' else Actor_Type (apc_Actor command)),
         ap_actor_id = (if provider then None else optionalInt8 (Actor_ID (apc_Actor command))),
         ap_action = ''payment.acceptance_decided'', ap_resource_type = ''payment'',
         ap_resource_id = optionalInt8 paymentID, ap_before_data = None,
         ap_after_data = Some [(''payment_id'', JInt paymentID), (''order_id'', JInt orderID),
           (''decision'', JText decision), (''reason'', JText reason)],
         ap_request_id = optionalText (apc_RequestID command), ap_telegram_update_id = None\<rparr>)
        (\<lambda>_. returnE ()))"

definition reviewParams ::
  "AcceptPaymentCommand \<Rightarrow> int64 \<Rightarrow> int64 \<Rightarrow> int64 \<Rightarrow> string \<Rightarrow> review_params" where
  "reviewParams command paymentID orderID topupID reason =
     \<lparr>rp_payment_event_id = optionalInt8 (apc_PaymentEventID command),
      rp_payment_id = optionalInt8 paymentID, rp_order_id = optionalInt8 orderID,
      rp_wallet_topup_id = optionalInt8 topupID, rp_provider = apc_Provider command,
      rp_provider_transaction_id = optionalText (apc_ProviderTransactionID command),
      rp_payment_reference = apc_Reference command, rp_amount_vnd = apc_Amount command,
      rp_currency = apc_Currency command, rp_occurred_at = apc_OccurredAt command,
      rp_reason = reason, rp_payment_environment = apc_Environment command,
      rp_event_source = apc_Source command,
      rp_provider_account_mapping_id = optionalInt8 (apc_ProviderAccountMappingID command),
      rp_destination_account_identity = optionalText (apc_DestinationAccountID command)\<rparr>"

definition recordPaymentReview ::
  "AcceptPaymentCommand \<Rightarrow> payment_row option \<Rightarrow> int64 \<Rightarrow> string \<Rightarrow> time \<Rightarrow> PaymentAcceptanceResult \<Rightarrow>
   PaymentAcceptanceResult dbtx" where
  "recordPaymentReview command payment orderID reason acceptedAt result =
     (let paymentID = (case payment of None \<Rightarrow> 0 | Some p \<Rightarrow> pay_id p);
          result1 = (case payment of None \<Rightarrow> result | Some p \<Rightarrow> result\<lparr>par_PaymentID := pay_id p\<rparr>) in
      bindE (InsertPaymentReviewCase (reviewParams command paymentID orderID 0 reason)) (\<lambda>_.
      bindE (completePaymentEvent (apc_PaymentEventID command) ''review'' orderID 0 acceptedAt
        reason reason) (\<lambda>_.
      bindE (insertPaymentAudit command paymentID orderID ''review'' reason) (\<lambda>_.
      returnE (result1\<lparr>par_Decision := ''review'', par_Reason := reason,
        par_Target := (if par_Target result1 = [] then ''unmatched'' else par_Target result1)\<rparr>)))))"

definition recordTopupReview ::
  "AcceptPaymentCommand \<Rightarrow> int64 \<Rightarrow> int64 \<Rightarrow> string \<Rightarrow> time \<Rightarrow> PaymentAcceptanceResult \<Rightarrow>
   PaymentAcceptanceResult dbtx" where
  "recordTopupReview command paymentID topupID reason acceptedAt result =
     bindE (InsertPaymentReviewCase (reviewParams command paymentID 0 topupID reason)) (\<lambda>_.
     bindE (completePaymentEvent (apc_PaymentEventID command) ''review'' 0 topupID acceptedAt
       reason reason) (\<lambda>_.
     bindE (insertPaymentAudit command paymentID 0 ''review'' reason) (\<lambda>_.
     returnE (result\<lparr>par_Decision := ''review'', par_Reason := reason\<rparr>))))"

definition handleExistingPayment ::
  "AcceptPaymentCommand \<Rightarrow> payment_row \<Rightarrow> time \<Rightarrow> PaymentAcceptanceResult \<Rightarrow> PaymentAcceptanceResult dbtx" where
  "handleExistingPayment command existing acceptedAt result0 =
     (let result = result0\<lparr>par_PaymentID := pay_id existing, par_OrderID := int8Or (pay_order_id existing),
            par_Target := pay_purpose existing\<rparr> in
      if pay_payment_reference existing \<noteq> apc_Reference command \<or>
         pay_amount_vnd existing \<noteq> apc_Amount command \<or>
         pay_currency existing \<noteq> apc_Currency command \<or>
         pay_payment_environment existing \<noteq> apc_Environment command
      then recordPaymentReview command (Some existing) (int8Or (pay_order_id existing))
        ''transaction_conflict'' acceptedAt result
      else
      bindE (attempt (GetPaymentAllocation (pay_id existing))) (\<lambda>r. case r of
        Inr allocation \<Rightarrow>
          let result1 = result\<lparr>par_Decision := ''duplicate'', par_Target := alc_target_type allocation,
                par_OrderID := (if alc_target_type allocation = ''order'' then alc_target_id allocation
                  else par_OrderID result),
                par_TopupID := (if alc_target_type allocation = ''wallet_topup''
                  then alc_target_id allocation else par_TopupID result)\<rparr> in
          bindE (completePaymentEvent (apc_PaymentEventID command) ''completed'' (par_OrderID result1)
            (par_TopupID result1) acceptedAt [] []) (\<lambda>_. returnE result1)
      | Inl e \<Rightarrow>
          if e \<noteq> PgxErrNoRows then throwE e
          else recordPaymentReview command (Some existing) (int8Or (pay_order_id existing))
            ''duplicate_unallocated'' acceptedAt result))"

definition findExisting :: "AcceptPaymentCommand \<Rightarrow> payment_row dbtx" where
  "findExisting command = GetPaymentByProviderTransaction (apc_Provider command)
     (apc_Environment command) (optionalText (apc_ProviderTransactionID command))"

section \<open>Top-ups\<close>

definition topupReviewReason :: "topup_row \<Rightarrow> AcceptPaymentCommand \<Rightarrow> time \<Rightarrow> string" where
  "topupReviewReason topup command acceptedAt =
     (if top_payment_environment topup \<noteq> apc_Environment command \<or>
         (apc_ProviderAccountMappingID command > 0 \<and>
          snap_bank_account_id (top_bank topup) \<noteq> apc_LocalBankAccountID command)
        then ''provider_destination_account_mismatch''
      else if top_amount_vnd topup \<noteq> apc_Amount command then ''amount_mismatch''
      else if top_currency topup \<noteq> apc_Currency command then ''currency_mismatch''
      else if top_status topup \<noteq> ''pending_payment'' \<or> \<not> (top_expires_at topup > acceptedAt)
        then ''topup_expired''
      else [])"

definition acceptWalletTopupPayment ::
  "AcceptPaymentCommand \<Rightarrow> topup_row \<Rightarrow> time \<Rightarrow> PaymentAcceptanceResult \<Rightarrow> PaymentAcceptanceResult dbtx" where
  "acceptWalletTopupPayment command topup acceptedAt result0 =
     (let result = result0\<lparr>par_Target := ''wallet_topup'', par_TopupID := top_id topup\<rparr>;
          reason = topupReviewReason topup command acceptedAt;
          status = (if reason \<noteq> [] then PaymentStatusReview else PaymentStatusConfirmed) in
      bindE (attempt (InsertPayment \<lparr>pp_order_id = None, pp_user_id = top_user_id topup,
        pp_purpose = ''wallet_topup'', pp_provider = apc_Provider command,
        pp_provider_transaction_id = optionalText (apc_ProviderTransactionID command),
        pp_payment_reference = apc_Reference command, pp_amount_vnd = apc_Amount command,
        pp_payment_environment = apc_Environment command, pp_status = status,
        pp_confirmed_at = (if status = PaymentStatusConfirmed then Some acceptedAt else None),
        pp_occurred_at = apc_OccurredAt command\<rparr>)) (\<lambda>inserted. case inserted of
        Inl e \<Rightarrow>
          if e = PgxErrNoRows then
            bindE (findExisting command) (\<lambda>existing.
            handleExistingPayment command existing acceptedAt result)
          else throwE e
      | Inr payment \<Rightarrow>
        let result1 = result\<lparr>par_PaymentID := pay_id payment\<rparr> in
        if reason \<noteq> [] then
          bindE (if top_status topup = ''pending_payment'' \<or> top_status topup = ''expired''
            then bindE (MarkWalletTopupReview (top_id topup)) (\<lambda>_. returnE ()) else returnE ()) (\<lambda>_.
          recordTopupReview command (pay_id payment) (top_id topup) reason acceptedAt result1)
        else
        bindE (LockWalletAccount (top_wallet_account_id topup)) (\<lambda>wallet.
        bindE (UpdateWalletBalance (apc_Amount command) (wal_id wallet)) (\<lambda>updatedWallet.
        bindE (InsertWalletLedgerEntry \<lparr>lp_account_id = wal_id wallet,
          lp_entry_type = WalletEntryTypeCredit, lp_amount_vnd = apc_Amount command,
          lp_balance_after_vnd = wal_balance_vnd updatedWallet, lp_reference_type = ''wallet_topup'',
          lp_reference_id = top_id topup,
          lp_idempotency_key = ''payment:'' @ intText (pay_id payment)\<rparr>) (\<lambda>_.
        bindE (MarkWalletTopupCredited acceptedAt (top_id topup) (top_version topup)) (\<lambda>_.
        bindE (InsertPaymentAllocation (pay_id payment) ''wallet_topup'' (top_id topup)
          (apc_Amount command)) (\<lambda>_.
        bindE (completePaymentEvent (apc_PaymentEventID command) ''completed'' 0 (top_id topup)
          acceptedAt [] []) (\<lambda>_.
        bindE (insertPaymentAudit command (pay_id payment) 0 ''accepted'' ''wallet_topup'') (\<lambda>_.
        returnE (result1\<lparr>par_Decision := ''accepted''\<rparr>))))))))))"

section \<open>Orders\<close>

text \<open>
  The part of \<open>acceptPaymentWithinTransaction\<close> after the confirmed payment row exists:
  \<open>paid\<close>, \<open>reserving\<close>, the all-or-nothing claim, then either \<open>out_of_stock\<close> with a review
  case or mappings, allocation and delivery handoff.
\<close>

definition fulfilConfirmedOrder ::
  "(int64 \<Rightarrow> bool) \<Rightarrow> AcceptPaymentCommand \<Rightarrow> order_row \<Rightarrow> order_item_row \<Rightarrow> payment_row \<Rightarrow> time \<Rightarrow>
   duration \<Rightarrow> int32 \<Rightarrow> PaymentAcceptanceResult \<Rightarrow> PaymentAcceptanceResult dbtx" where
  "fulfilConfirmedOrder skip command order item payment acceptedAt reservationTTL deliveryMaxAttempts result =
     bindE (MarkOrderPaidGuarded acceptedAt (ord_id order) (ord_version order)) (\<lambda>paidOrder.
     bindE (insertPaymentOrderHistory (apc_Actor command) (apc_RequestID command) (ord_id order)
       OrderStatusPendingPayment OrderStatusPaid ''payment_accepted'') (\<lambda>_.
     bindE (UpdateOrderStatusGuarded OrderStatusReserving (ord_id order) OrderStatusPaid
       (ord_version paidOrder)) (\<lambda>reservingOrder.
     bindE (insertPaymentOrderHistory (apc_Actor command) (apc_RequestID command) (ord_id order)
       OrderStatusPaid OrderStatusReserving ''inventory_claim_started'') (\<lambda>_.
     bindE (ClaimExactAvailableInventory skip (ord_id order) (acceptedAt + reservationTTL)
       (oit_product_id item) (oit_quantity item)) (\<lambda>inventoryIDs.
     if int (length inventoryIDs) \<noteq> oit_quantity item then
       bindE (UpdateOrderStatusGuarded OrderStatusOutOfStock (ord_id order) OrderStatusReserving
         (ord_version reservingOrder)) (\<lambda>_.
       bindE (insertPaymentOrderHistory (apc_Actor command) (apc_RequestID command) (ord_id order)
         OrderStatusReserving OrderStatusOutOfStock ''post_payment_inventory_insufficient'') (\<lambda>_.
       recordPaymentReview command (Some payment) (ord_id order) ''out_of_stock'' acceptedAt result))
     else
     bindE (forE inventoryIDs (InsertOrderInventoryMapping (ord_id order) (oit_id item))) (\<lambda>_.
     bindE (InsertPaymentAllocation (pay_id payment) ''order'' (ord_id order) (apc_Amount command)) (\<lambda>_.
     bindE (createDeliveryHandoffWithinTransaction (ord_id order) acceptedAt deliveryMaxAttempts
       (Actor_Type (apc_Actor command)) (Actor_ID (apc_Actor command)) (apc_RequestID command)) (\<lambda>_.
     bindE (completePaymentEvent (apc_PaymentEventID command) ''completed'' (ord_id order) 0
       acceptedAt [] []) (\<lambda>_.
     bindE (insertPaymentAudit command (pay_id payment) (ord_id order) ''accepted'' []) (\<lambda>_.
     returnE (result\<lparr>par_Decision := ''accepted'', par_Claimed := int (length inventoryIDs)\<rparr>)))))))))))"

definition orderDestinationMismatch :: "order_row \<Rightarrow> AcceptPaymentCommand \<Rightarrow> bool" where
  "orderDestinationMismatch order command \<longleftrightarrow>
     ord_payment_environment order \<noteq> apc_Environment command \<or>
     (apc_ProviderAccountMappingID command > 0 \<and>
      (case ord_bank order of None \<Rightarrow> True
       | Some b \<Rightarrow> snap_bank_account_id b \<noteq> apc_LocalBankAccountID command))"

definition acceptOrderPayment ::
  "(int64 \<Rightarrow> bool) \<Rightarrow> AcceptPaymentCommand \<Rightarrow> order_row \<Rightarrow> order_item_row \<Rightarrow> time \<Rightarrow>
   duration \<Rightarrow> int32 \<Rightarrow> PaymentAcceptanceResult \<Rightarrow> PaymentAcceptanceResult dbtx" where
  "acceptOrderPayment skip command order item acceptedAt reservationTTL deliveryMaxAttempts result0 =
     (let result = result0\<lparr>par_Target := ''order'', par_OrderID := ord_id order\<rparr>;
          reason0 = orderReviewReason order command acceptedAt;
          reviewReason = (if reason0 = [] \<and> orderDestinationMismatch order command
            then ''provider_destination_account_mismatch'' else reason0) in
      if reviewReason \<noteq> [] then
        bindE (insertOrderPayment command order PaymentStatusReview acceptedAt) (\<lambda>payment.
        recordPaymentReview command (Some payment) (ord_id order) reviewReason acceptedAt result)
      else
      bindE (attempt (insertOrderPayment command order PaymentStatusConfirmed acceptedAt)) (\<lambda>inserted.
      case inserted of
        Inl e \<Rightarrow>
          if e = PgxErrNoRows then
            bindE (findExisting command) (\<lambda>existing.
            handleExistingPayment command existing acceptedAt result)
          else throwE e
      | Inr payment \<Rightarrow>
          fulfilConfirmedOrder skip command order item payment acceptedAt reservationTTL
            deliveryMaxAttempts (result\<lparr>par_PaymentID := pay_id payment\<rparr>)))"

text \<open>
  \<open>acceptPaymentWithinTransaction\<close>: the event gate, the lookup of the provider's
  transaction, and the dispatch to order, top-up or review.
\<close>

definition resolvePaymentTarget ::
  "(int64 \<Rightarrow> bool) \<Rightarrow> AcceptPaymentCommand \<Rightarrow> time \<Rightarrow> duration \<Rightarrow> int32 \<Rightarrow> PaymentAcceptanceResult \<Rightarrow>
   PaymentAcceptanceResult dbtx" where
  "resolvePaymentTarget skip command acceptedAt reservationTTL deliveryMaxAttempts result =
     bindE (attempt (findExisting command)) (\<lambda>found. case found of
       Inr existing \<Rightarrow> handleExistingPayment command existing acceptedAt result
     | Inl e \<Rightarrow> if e \<noteq> PgxErrNoRows then throwE e else
       bindE (CountPaymentReferenceTargets (apc_Reference command)) (\<lambda>targetCount.
       if targetCount > 1 then
         recordPaymentReview command None 0 ''provider_ambiguous_reference'' acceptedAt result
       else
       bindE (attempt (LockOrderByPaymentReference (apc_Reference command))) (\<lambda>locked. case locked of
         Inr (order, item) \<Rightarrow>
           acceptOrderPayment skip command order item acceptedAt reservationTTL deliveryMaxAttempts result
       | Inl e \<Rightarrow> if e \<noteq> PgxErrNoRows then throwE e else
         bindE (attempt (LockWalletTopupByReference (apc_Reference command))) (\<lambda>lockedTopup.
         case lockedTopup of
           Inr topup \<Rightarrow> acceptWalletTopupPayment command topup acceptedAt result
         | Inl e \<Rightarrow> if e \<noteq> PgxErrNoRows then throwE e else
             recordPaymentReview command None 0 ''unknown_reference'' acceptedAt result))))"

definition acceptPaymentWithinTransaction ::
  "(int64 \<Rightarrow> bool) \<Rightarrow> AcceptPaymentCommand \<Rightarrow> time \<Rightarrow> duration \<Rightarrow> int32 \<Rightarrow> PaymentAcceptanceResult dbtx" where
  "acceptPaymentWithinTransaction skip command acceptedAt reservationTTL deliveryMaxAttempts =
     (if apc_PaymentEventID command > 0 then
        bindE (LockPaymentEvent (apc_PaymentEventID command)) (\<lambda>event.
        if evt_processing_status event = ''completed'' \<or> evt_processing_status event = ''review'' then
          returnE (noResult\<lparr>par_Decision := ''duplicate''\<rparr>)
        else if evt_processing_status event \<noteq> ''processing'' then throwE ErrConflict
        else resolvePaymentTarget skip command acceptedAt reservationTTL deliveryMaxAttempts noResult)
      else resolvePaymentTarget skip command acceptedAt reservationTTL deliveryMaxAttempts noResult)"

definition AcceptPayment ::
  "(int64 \<Rightarrow> bool) \<Rightarrow> AcceptPaymentCommand \<Rightarrow> time \<Rightarrow> duration \<Rightarrow> int32 list \<Rightarrow>
   PaymentAcceptanceResult dbtx" where
  "AcceptPayment skip command acceptedAt reservationTTL deliveryMaxAttempts = WithinTransaction (
     acceptPaymentWithinTransaction skip command acceptedAt reservationTTL
       (configuredDeliveryMaxAttempts deliveryMaxAttempts))"

section \<open>PaymentAcceptanceService\<close>

text \<open>
  \<open>strings.ToLower\<close>: ASCII letters, and the two non-ASCII letters whose lower case is ASCII
  (U+0130 to \<open>i\<close>, the Kelvin sign U+212A to \<open>k\<close>). Other non-ASCII letters stay non-ASCII and are
  left as they are: the result is only compared with ASCII names.
\<close>

definition lowerChar :: "char \<Rightarrow> char" where
  "lowerChar c = (let n = (of_char c :: nat) in if 65 \<le> n \<and> n \<le> 90 then char_of (n + 32) else c)"

fun ToLower :: "string \<Rightarrow> string" where
  "ToLower [] = []"
| "ToLower [a] = [lowerChar a]"
| "ToLower [a, b] = (if a = CHR 0xC4 \<and> b = CHR 0xB0 then ''i'' else lowerChar a # ToLower [b])"
| "ToLower (a # b # c # s) =
     (if a = CHR 0xC4 \<and> b = CHR 0xB0 then CHR ''i'' # ToLower (c # s)
      else if a = CHR 0xE2 \<and> b = CHR 0x84 \<and> c = CHR 0xAA then CHR ''k'' # ToLower s
      else lowerChar a # ToLower (b # c # s))"

definition validPaymentEnvironment :: "string \<Rightarrow> bool" where
  "validPaymentEnvironment e \<longleftrightarrow> e \<in> {''development'', ''test'', ''production''}"

definition normalizeCommand :: "AcceptPaymentCommand \<Rightarrow> AcceptPaymentCommand" where
  "normalizeCommand c =
     (let env = TrimSpace (ToLower (apc_Environment c));
          src = TrimSpace (ToLower (apc_Source c)) in
      c\<lparr>apc_Provider := TrimSpace (apc_Provider c),
        apc_ProviderTransactionID := TrimSpace (apc_ProviderTransactionID c),
        apc_Reference := TrimSpace (apc_Reference c),
        apc_Currency := TrimSpace (apc_Currency c),
        apc_Environment := (if env = [] then ''production'' else env),
        apc_Source := (if src = [] then
          (if Actor_Type (apc_Actor c) = ''provider'' then ''webhook'' else ''manual'') else src),
        apc_DestinationAccountID := TrimSpace (apc_DestinationAccountID c)\<rparr>)"

definition PaymentAcceptanceService_Accept ::
  "(int64 \<Rightarrow> bool) \<Rightarrow> duration \<Rightarrow> int32 \<Rightarrow> time \<Rightarrow> AcceptPaymentCommand \<Rightarrow> PaymentAcceptanceResult dbtx" where
  "PaymentAcceptanceService_Accept skip reservationTTL deliveryMaxAttempts now command0 =
     (let command = normalizeCommand command0 in
      if apc_Provider command = [] \<or> apc_ProviderTransactionID command = [] \<or>
         apc_Reference command = [] \<or> apc_Amount command \<le> 0 \<or> apc_Currency command = [] \<or>
         apc_OccurredAt command = 0 \<or>
         Actor_Type (apc_Actor command) \<notin> {''provider'', ''admin'', ''user''} \<or>
         \<not> validPaymentEnvironment (apc_Environment command) \<or>
         apc_Source command \<notin> {''webhook'', ''reconciliation'', ''manual'', ''legacy''} \<or>
         reservationTTL \<le> 0
      then throwE ErrInvalidInput
      else AcceptPayment skip command now reservationTTL [deliveryMaxAttempts])"

section \<open>Manual confirmation\<close>

record ManualPaymentCommand =
  mpc_AdminTelegramID :: int64
  mpc_ProviderTransactionID :: string
  mpc_Reference :: string
  mpc_Amount :: Money
  mpc_Currency :: string
  mpc_OccurredAt :: time
  mpc_Note :: string
  mpc_Session :: session_row
  mpc_Meta :: RequestMeta

definition ManualAcceptPayment ::
  "(int64 \<Rightarrow> bool) \<Rightarrow> time \<Rightarrow> ManualPaymentCommand \<Rightarrow> time \<Rightarrow> duration \<Rightarrow> int32 list \<Rightarrow>
   PaymentAcceptanceResult dbtx" where
  "ManualAcceptPayment skip now manual acceptedAt reservationTTL deliveryMaxAttempts =
     mapErrE mapConstraintError (WithinTransaction (
     bindE (authorizePaymentAdmin (mpc_AdminTelegramID manual)) (\<lambda>admin.
     bindE (lockAndVerifySession now (Admin_ID admin) (mpc_Session manual) ''payment.manual'') (\<lambda>_.
     bindE (acceptPaymentWithinTransaction skip
       \<lparr>apc_PaymentEventID = 0, apc_Provider = ''manual'', apc_ExternalEventID = [],
        apc_ProviderTransactionID = mpc_ProviderTransactionID manual,
        apc_Reference = mpc_Reference manual, apc_Amount = mpc_Amount manual,
        apc_Currency = mpc_Currency manual, apc_OccurredAt = mpc_OccurredAt manual,
        apc_Actor = \<lparr>Actor_Type = ''admin'', Actor_ID = Admin_ID admin\<rparr>,
        apc_RequestID = RequestID (mpc_Meta manual), apc_Environment = ''production'',
        apc_Source = ''manual'', apc_ProviderAccountMappingID = 0, apc_LocalBankAccountID = 0,
        apc_DestinationAccountID = []\<rparr> acceptedAt reservationTTL
       (configuredDeliveryMaxAttempts deliveryMaxAttempts)) (\<lambda>result.
     bindE (InsertAuditLog \<lparr>ap_actor_type = ''admin'', ap_actor_id = Some (Admin_ID admin),
       ap_action = ''payment.manual_confirmed'', ap_resource_type = ''payment'',
       ap_resource_id = optionalInt8 (par_PaymentID result), ap_before_data = None,
       ap_after_data = Some [(''note'', JText (mpc_Note manual)),
         (''decision'', JText (par_Decision result)), (''reason'', JText (par_Reason result))],
       ap_request_id = optionalText (RequestID (mpc_Meta manual)),
       ap_telegram_update_id = optionalInt8 (UpdateID (mpc_Meta manual))\<rparr>) (\<lambda>_.
     bindE (finishSession (Admin_ID admin) (mpc_Session manual)) (\<lambda>_.
     bindE (completeReceipt (UpdateID (mpc_Meta manual))) (\<lambda>_.
     returnE result))))))))"

record ResolvePaymentReviewCommand =
  rpc_AdminTelegramID :: int64
  rpc_ReviewID :: int64
  rpc_Status :: string
  rpc_Note :: string
  rpc_Session :: session_row
  rpc_Meta :: RequestMeta

definition ResolvePaymentReview :: "time \<Rightarrow> ResolvePaymentReviewCommand \<Rightarrow> review_row dbtx" where
  "ResolvePaymentReview now command = WithinTransaction (
     bindE (authorizePaymentAdmin (rpc_AdminTelegramID command)) (\<lambda>admin.
     bindE (lockAndVerifySession now (Admin_ID admin) (rpc_Session command) ''payment.review'') (\<lambda>_.
     bindE (noRows ErrNotFound (ResolvePaymentReview_query (rpc_Status command)
       (optionalText (rpc_Note command)) (Admin_ID admin) (rpc_ReviewID command))) (\<lambda>row.
     bindE (InsertAuditLog \<lparr>ap_actor_type = ''admin'', ap_actor_id = Some (Admin_ID admin),
       ap_action = ''payment.review_resolved'', ap_resource_type = ''payment_review'',
       ap_resource_id = Some (rev_id row), ap_before_data = None,
       ap_after_data = Some [(''status'', JText (rpc_Status command)),
         (''note'', JText (rpc_Note command)), (''reason'', JText (rev_reason row))],
       ap_request_id = optionalText (RequestID (rpc_Meta command)),
       ap_telegram_update_id = optionalInt8 (UpdateID (rpc_Meta command))\<rparr>) (\<lambda>_.
     bindE (finishSession (Admin_ID admin) (rpc_Session command)) (\<lambda>_.
     bindE (completeReceipt (UpdateID (rpc_Meta command))) (\<lambda>_.
     returnE row)))))))"

end
