(* ===== verification/Wallet_Store.thy ===== *)
theory Wallet_Store
  imports Payment_Acceptance
begin

text \<open>
  The wallet: \<open>internal/app/wallet_service.go\<close> (guards) over
  \<open>internal/postgres/wallet_store.go\<close> (transactions). The reference generator, the bank
  account cipher and the instruction generator are arguments.
\<close>

record WalletAccount =
  wa_ID :: int64
  wa_UserID :: int64
  wa_Balance :: Money
  wa_Status :: string
  wa_Version :: int64

record CreateWalletTopupCommand =
  cwt_TelegramUserID :: int64
  cwt_Amount :: Money
  cwt_BankAccountID :: int64
  cwt_IdempotencyKey :: string
  cwt_Meta :: RequestMeta
  cwt_PaymentEnvironment :: string

record WalletOrderPaymentCommand =
  wop_TelegramUserID :: int64
  wop_OrderID :: int64
  wop_IdempotencyKey :: string
  wop_Meta :: RequestMeta

record WalletOrderPaymentResult =
  wor_OrderID :: int64
  wor_Balance :: Money
  wor_Duplicate :: bool
  wor_Claimed :: int

record WalletAdjustmentCommand =
  wac_AdminTelegramID :: int64
  wac_TargetTelegramID :: int64
  wac_Amount :: Money
  wac_Debit :: bool
  wac_Reason :: string
  wac_IdempotencyKey :: string
  wac_Session :: session_row
  wac_Meta :: RequestMeta

definition mapWallet :: "wallet_row \<Rightarrow> WalletAccount" where
  "mapWallet row = \<lparr>wa_ID = wal_id row, wa_UserID = wal_user_id row, wa_Balance = wal_balance_vnd row,
     wa_Status = wal_status row, wa_Version = wal_version row\<rparr>"

definition mapWalletError :: "error \<Rightarrow> error" where
  "mapWalletError e =
     (if e = ErrInsufficientInventory \<or> e = ErrInsufficientWalletBalance then e
      else mapConstraintError e)"

text \<open>The opening of every customer wallet transaction: an active user, locked.\<close>

definition lockActiveUser :: "int64 \<Rightarrow> user_row dbtx" where
  "lockActiveUser telegramUserID =
     bindE (noRows ErrUnauthorized (LockUserByTelegramID telegramUserID)) (\<lambda>user.
     if usr_status user \<noteq> UserStatusActive then throwE ErrUserBlocked else returnE user)"

definition EnsureWallet :: "int64 \<Rightarrow> WalletAccount dbtx" where
  "EnsureWallet telegramUserID = WithinTransaction (
     bindE (lockActiveUser telegramUserID) (\<lambda>user.
     bindE (EnsureWalletAccount (usr_id user)) (\<lambda>wallet.
     returnE (mapWallet wallet))))"

definition bankSnapshot :: "bank_row \<Rightarrow> bank_snapshot" where
  "bankSnapshot bank = \<lparr>snap_bank_account_id = bnk_id bank, snap_bank_bin = bnk_bank_bin bank,
     snap_bank_name = bnk_bank_name bank, snap_display_name = bnk_display_name bank,
     snap_account_name = bnk_account_name bank,
     snap_encrypted_account_number = bnk_encrypted_account_number bank,
     snap_account_number_nonce = bnk_encryption_nonce bank,
     snap_encryption_format = bnk_encryption_format bank,
     snap_key_version = bnk_encryption_key_version bank, snap_last4 = bnk_display_last4 bank\<rparr>"

definition CreateWalletTopup ::
  "CreateWalletTopupCommand \<Rightarrow> string \<Rightarrow> time \<Rightarrow> (topup_row \<times> bool) dbtx" where
  "CreateWalletTopup command0 reference expiresAt =
     (let command = (if cwt_PaymentEnvironment command0 = []
            then command0\<lparr>cwt_PaymentEnvironment := ''production''\<rparr> else command0) in
      WithinTransaction (
      bindE (lockActiveUser (cwt_TelegramUserID command)) (\<lambda>user.
      bindE (attempt (FindWalletTopupByIdempotency (usr_id user) (cwt_IdempotencyKey command))) (\<lambda>found.
      case found of
        Inr existing \<Rightarrow>
          bindE (completeReceipt (UpdateID (cwt_Meta command))) (\<lambda>_. returnE (existing, True))
      | Inl e \<Rightarrow> if e \<noteq> PgxErrNoRows then throwE e else
        bindE (EnsureWalletAccount (usr_id user)) (\<lambda>wallet.
        bindE (noRows ErrBankAccountInactive (GetActiveBankAccountForOrder (cwt_BankAccountID command)
          (cwt_PaymentEnvironment command))) (\<lambda>bank.
        bindE (attempt (CreateWalletTopup_query \<lparr>ctp_user_id = usr_id user,
          ctp_wallet_account_id = wal_id wallet, ctp_amount_vnd = cwt_Amount command,
          ctp_payment_reference = reference, ctp_idempotency_key = cwt_IdempotencyKey command,
          ctp_expires_at = expiresAt, ctp_bank = bankSnapshot bank,
          ctp_payment_environment = cwt_PaymentEnvironment command\<rparr>)) (\<lambda>created.
        case created of
          Inl e \<Rightarrow> if e \<noteq> PgxErrNoRows then throwE e else
            bindE (FindWalletTopupByIdempotency (usr_id user) (cwt_IdempotencyKey command)) (\<lambda>existing.
            bindE (completeReceipt (UpdateID (cwt_Meta command))) (\<lambda>_. returnE (existing, True)))
        | Inr topup \<Rightarrow>
            bindE (completeReceipt (UpdateID (cwt_Meta command))) (\<lambda>_. returnE (topup, False)))))))))"

text \<open>The fulfilment half of \<open>PayOrderWithWallet\<close>, from the claim to the receipt.\<close>

definition walletSettleOrder ::
  "WalletOrderPaymentCommand \<Rightarrow> user_row \<Rightarrow> order_row \<Rightarrow> order_item_row \<Rightarrow> wallet_row \<Rightarrow>
   int64 list \<Rightarrow> time \<Rightarrow> int32 \<Rightarrow> string \<Rightarrow> WalletOrderPaymentResult dbtx" where
  "walletSettleOrder command user order item wallet inventoryIDs paidAt maxAttempts transactionID =
     bindE (InsertPayment \<lparr>pp_order_id = Some (ord_id order), pp_user_id = usr_id user,
       pp_purpose = ''order'', pp_provider = ''wallet'',
       pp_provider_transaction_id = optionalText transactionID,
       pp_payment_reference = ord_payment_reference order, pp_amount_vnd = ord_total_vnd order,
       pp_payment_environment = ord_payment_environment order, pp_status = PaymentStatusConfirmed,
       pp_confirmed_at = Some paidAt, pp_occurred_at = paidAt\<rparr>) (\<lambda>payment.
     bindE (noRows ErrInsufficientWalletBalance
       (UpdateWalletBalance (wrap64 (- ord_total_vnd order)) (wal_id wallet))) (\<lambda>updatedWallet.
     bindE (InsertWalletLedgerEntry \<lparr>lp_account_id = wal_id wallet,
       lp_entry_type = WalletEntryTypeDebit, lp_amount_vnd = wrap64 (- ord_total_vnd order),
       lp_balance_after_vnd = wal_balance_vnd updatedWallet, lp_reference_type = ''order'',
       lp_reference_id = ord_id order, lp_idempotency_key = wop_IdempotencyKey command\<rparr>) (\<lambda>_.
     bindE (MarkOrderPaidGuarded paidAt (ord_id order) (ord_version order)) (\<lambda>paidOrder.
     bindE (insertPaymentOrderHistory \<lparr>Actor_Type = ''user'', Actor_ID = usr_id user\<rparr>
       (RequestID (wop_Meta command)) (ord_id order) OrderStatusPendingPayment OrderStatusPaid
       ''wallet_payment_accepted'') (\<lambda>_.
     bindE (UpdateOrderStatusGuarded OrderStatusReserving (ord_id order) OrderStatusPaid
       (ord_version paidOrder)) (\<lambda>_.
     bindE (insertPaymentOrderHistory \<lparr>Actor_Type = ''user'', Actor_ID = usr_id user\<rparr>
       (RequestID (wop_Meta command)) (ord_id order) OrderStatusPaid OrderStatusReserving
       ''wallet_inventory_claimed'') (\<lambda>_.
     bindE (forE inventoryIDs (InsertOrderInventoryMapping (ord_id order) (oit_id item))) (\<lambda>_.
     bindE (InsertPaymentAllocation (pay_id payment) ''order'' (ord_id order) (ord_total_vnd order)) (\<lambda>_.
     bindE (createDeliveryHandoffWithinTransaction (ord_id order) paidAt maxAttempts ''user''
       (usr_id user) (RequestID (wop_Meta command))) (\<lambda>_.
     bindE (completeReceipt (UpdateID (wop_Meta command))) (\<lambda>_.
     returnE \<lparr>wor_OrderID = ord_id order, wor_Balance = wal_balance_vnd updatedWallet,
       wor_Duplicate = False, wor_Claimed = int (length inventoryIDs)\<rparr>)))))))))))"

definition PayOrderWithWallet ::
  "(int64 \<Rightarrow> bool) \<Rightarrow> WalletOrderPaymentCommand \<Rightarrow> time \<Rightarrow> duration \<Rightarrow> int32 list \<Rightarrow>
   WalletOrderPaymentResult dbtx" where
  "PayOrderWithWallet skip command paidAt reservationTTL deliveryMaxAttempts =
     mapErrE mapWalletError (WithinTransaction (
     bindE (lockActiveUser (wop_TelegramUserID command)) (\<lambda>user.
     bindE (noRows ErrOrderNotFound (LockOrderDetailOwnedByTelegramUser (wop_OrderID command)
       (wop_TelegramUserID command))) (\<lambda>(order, item).
     let transactionID = ''wallet-order-'' @ intText (ord_id order) in
     bindE (attempt (GetPaymentByProviderTransaction ''wallet'' (ord_payment_environment order)
       (optionalText transactionID))) (\<lambda>existing. case existing of
       Inr existingPayment \<Rightarrow>
         bindE (attempt (GetPaymentAllocation (pay_id existingPayment))) (\<lambda>allocation.
         if (case allocation of Inl _ \<Rightarrow> False
             | Inr a \<Rightarrow> alc_target_type a = ''order'' \<and> alc_target_id a = ord_id order) then
           bindE (EnsureWalletAccount (usr_id user)) (\<lambda>wallet.
           bindE (completeReceipt (UpdateID (wop_Meta command))) (\<lambda>_.
           returnE \<lparr>wor_OrderID = ord_id order, wor_Balance = wal_balance_vnd wallet,
             wor_Duplicate = True, wor_Claimed = 0\<rparr>))
         else throwE ErrPaymentTransactionConflict)
     | Inl e \<Rightarrow> if e \<noteq> PgxErrNoRows then throwE e
       else if ord_status order \<noteq> OrderStatusPendingPayment then throwE ErrOrderAlreadyPaid
       else if \<not> (ord_expires_at order > paidAt) then throwE ErrOrderExpired else
       bindE (EnsureWalletAccount (usr_id user)) (\<lambda>wallet0.
       bindE (LockWalletAccount (wal_id wallet0)) (\<lambda>wallet.
       if wal_balance_vnd wallet < ord_total_vnd order then throwE ErrInsufficientWalletBalance else
       bindE (ClaimExactAvailableInventory skip (ord_id order) (paidAt + reservationTTL)
         (oit_product_id item) (oit_quantity item)) (\<lambda>inventoryIDs.
       if int (length inventoryIDs) \<noteq> oit_quantity item then throwE ErrInsufficientInventory else
       walletSettleOrder command user order item wallet inventoryIDs paidAt
         (configuredDeliveryMaxAttempts deliveryMaxAttempts) transactionID))))))))"

definition AdjustWallet :: "time \<Rightarrow> WalletAdjustmentCommand \<Rightarrow> time \<Rightarrow> WalletAccount dbtx" where
  "AdjustWallet now command adjustedAt = mapErrE mapWalletError (WithinTransaction (
     bindE (noRows ErrUnauthorized (GetAdminAuthorizationByTelegramID (wac_AdminTelegramID command))) (\<lambda>row.
     let admin = mapAdmin row in
     bindE (requireCatalogAdmin admin) (\<lambda>_.
     bindE (lockAndVerifySession now (Admin_ID admin) (wac_Session command) ''wallet.adjustment'') (\<lambda>_.
     bindE (noRows ErrNotFound (LockUserByTelegramID (wac_TargetTelegramID command))) (\<lambda>user.
     bindE (EnsureWalletAccount (usr_id user)) (\<lambda>wallet0.
     bindE (LockWalletAccount (wal_id wallet0)) (\<lambda>wallet.
     let amount = (if wac_Debit command then wrap64 (- wac_Amount command) else wac_Amount command) in
     bindE (noRows ErrInsufficientWalletBalance (UpdateWalletBalance amount (wal_id wallet))) (\<lambda>updated.
     bindE (InsertWalletLedgerEntry \<lparr>lp_account_id = wal_id wallet,
       lp_entry_type = WalletEntryTypeAdjustment, lp_amount_vnd = amount,
       lp_balance_after_vnd = wal_balance_vnd updated, lp_reference_type = ''admin_adjustment'',
       lp_reference_id = Admin_ID admin, lp_idempotency_key = wac_IdempotencyKey command\<rparr>) (\<lambda>ledger.
     bindE (InsertAuditLog \<lparr>ap_actor_type = ''admin'', ap_actor_id = Some (Admin_ID admin),
       ap_action = ''wallet.adjusted'', ap_resource_type = ''wallet_account'',
       ap_resource_id = Some (wal_id wallet),
       ap_before_data = Some [(''balance_vnd'', JInt (wal_balance_vnd wallet))],
       ap_after_data = Some [(''balance_vnd'', JInt (wal_balance_vnd updated)),
         (''ledger_id'', JInt (led_id ledger)), (''reason'', JText (wac_Reason command)),
         (''adjusted_at'', JInt adjustedAt)],
       ap_request_id = optionalText (RequestID (wac_Meta command)),
       ap_telegram_update_id = optionalInt8 (UpdateID (wac_Meta command))\<rparr>) (\<lambda>_.
     bindE (finishSession (Admin_ID admin) (wac_Session command)) (\<lambda>_.
     bindE (completeReceipt (UpdateID (wac_Meta command))) (\<lambda>_.
     returnE (mapWallet updated))))))))))))))"

section \<open>WalletService\<close>

definition WalletService_Balance :: "int64 \<Rightarrow> WalletAccount dbtx" where
  "WalletService_Balance telegramUserID =
     (if telegramUserID \<le> 0 then throwE ErrInvalidInput else EnsureWallet telegramUserID)"

definition WalletService_PayOrder ::
  "(int64 \<Rightarrow> bool) \<Rightarrow> duration \<Rightarrow> int32 \<Rightarrow> time \<Rightarrow> WalletOrderPaymentCommand \<Rightarrow>
   WalletOrderPaymentResult dbtx" where
  "WalletService_PayOrder skip reservationTTL deliveryMaxAttempts now command =
     (if wop_TelegramUserID command \<le> 0 \<or> wop_OrderID command \<le> 0 \<or>
         wop_IdempotencyKey command = [] \<or> UpdateID (wop_Meta command) \<le> 0 \<or> reservationTTL \<le> 0
      then throwE ErrInvalidInput
      else PayOrderWithWallet skip command now reservationTTL [deliveryMaxAttempts])"

definition WalletService_Adjust :: "time \<Rightarrow> WalletAdjustmentCommand \<Rightarrow> WalletAccount dbtx" where
  "WalletService_Adjust now command0 =
     (let command = command0\<lparr>wac_Reason := TrimSpace (wac_Reason command0)\<rparr> in
      if wac_AdminTelegramID command \<le> 0 \<or> wac_TargetTelegramID command \<le> 0 \<or>
         wac_Amount command \<le> 0 \<or> wac_Reason command = [] \<or> wac_IdempotencyKey command = [] \<or>
         UpdateID (wac_Meta command) \<le> 0
      then throwE ErrInvalidInput else AdjustWallet now command now)"

text \<open>
  \<open>CreateTopup\<close> up to the payment instruction; \<open>reference\<close> is the outcome of the reference
  generator. \<open>instruction\<close> stands for the cipher and the instruction generator.
\<close>

definition WalletService_CreateTopup ::
  "Money \<Rightarrow> Money \<Rightarrow> duration \<Rightarrow> string \<Rightarrow> (error + string) \<Rightarrow> (topup_row \<Rightarrow> error + 'i) \<Rightarrow> time \<Rightarrow>
   CreateWalletTopupCommand \<Rightarrow> (topup_row \<times> 'i \<times> bool) dbtx" where
  "WalletService_CreateTopup topupMin topupMax topupExpiry paymentEnvironment reference instruction
     now command =
     (if cwt_TelegramUserID command \<le> 0 \<or> cwt_BankAccountID command \<le> 0 \<or>
         cwt_IdempotencyKey command = [] \<or> UpdateID (cwt_Meta command) \<le> 0 \<or>
         cwt_Amount command < topupMin \<or> cwt_Amount command > topupMax \<or> topupExpiry \<le> 0
      then throwE ErrInvalidWalletAmount else
      bindE (ofSum reference) (\<lambda>ref.
      bindE (CreateWalletTopup (command\<lparr>cwt_PaymentEnvironment := paymentEnvironment\<rparr>) ref
        (now + topupExpiry)) (\<lambda>(topup, duplicate).
      bindE (ofSum (instruction topup)) (\<lambda>ins. returnE (topup, ins, duplicate)))))"

end
