(* ===== verification/Order_Service.thy ===== *)
theory Order_Service
  imports Wallet_Store
begin

text \<open>
  Orders: \<open>internal/app/order_service.go\<close> and \<open>order_expiry_service.go\<close> over
  \<open>internal/postgres/order_store.go\<close>. The payment reference generator is a stream of
  outcomes (its \<open>n\<close>-th call returns \<open>references n\<close>); \<open>instruction\<close> stands for the bank
  cipher followed by the payment instruction generator, and may fail.
\<close>

section \<open>Order details\<close>

record ProtectedBankAccountNumber =
  pb_Ciphertext :: string
  pb_Nonce :: string
  pb_KeyVersion :: int32
  pb_Format :: string

record OrderItemSnapshot =
  ois_ID :: int64
  ois_ProductID :: int64
  ois_Name :: string
  ois_UnitPrice :: Money
  ois_Quantity :: int32
  ois_LineTotal :: Money

record OrderDetail =
  od_ID :: int64
  od_UserID :: int64
  od_Status :: OrderStatus
  od_Currency :: string
  od_Subtotal :: Money
  od_Total :: Money
  od_PaymentReference :: string
  od_ExpiresAt :: time
  od_CancelledAt :: time
  od_Version :: int64
  od_CreatedAt :: time
  od_BankAccountID :: int64
  od_BankBIN :: string
  od_BankName :: string
  od_BankDisplayName :: string
  od_BankAccountName :: string
  od_BankAccountLast4 :: string
  od_BankProtected :: ProtectedBankAccountNumber
  od_Item :: OrderItemSnapshot
  od_DeliveryStatus :: "DeliveryJobStatus option"

definition noItem :: OrderItemSnapshot where
  "noItem = \<lparr>ois_ID = 0, ois_ProductID = 0, ois_Name = [], ois_UnitPrice = 0, ois_Quantity = 0,
     ois_LineTotal = 0\<rparr>"

definition noSnapshot :: bank_snapshot where
  "noSnapshot = \<lparr>snap_bank_account_id = 0, snap_bank_bin = [], snap_bank_name = [],
     snap_display_name = [], snap_account_name = [], snap_encrypted_account_number = [],
     snap_account_number_nonce = [], snap_encryption_format = [], snap_key_version = 0,
     snap_last4 = []\<rparr>"

definition mapOrder :: "order_row \<Rightarrow> OrderDetail" where
  "mapOrder row =
     (let b = (case ord_bank row of None \<Rightarrow> noSnapshot | Some b \<Rightarrow> b) in
      \<lparr>od_ID = ord_id row, od_UserID = ord_user_id row, od_Status = ord_status row,
       od_Currency = ord_currency row, od_Subtotal = ord_subtotal_vnd row,
       od_Total = ord_total_vnd row, od_PaymentReference = ord_payment_reference row,
       od_ExpiresAt = ord_expires_at row, od_CancelledAt = int8Or (ord_cancelled_at row),
       od_Version = ord_version row, od_CreatedAt = ord_created_at row,
       od_BankAccountID = snap_bank_account_id b, od_BankBIN = snap_bank_bin b,
       od_BankName = snap_bank_name b, od_BankDisplayName = snap_display_name b,
       od_BankAccountName = snap_account_name b, od_BankAccountLast4 = snap_last4 b,
       od_BankProtected = \<lparr>pb_Ciphertext = snap_encrypted_account_number b,
         pb_Nonce = snap_account_number_nonce b, pb_KeyVersion = snap_key_version b,
         pb_Format = snap_encryption_format b\<rparr>,
       od_Item = noItem, od_DeliveryStatus = None\<rparr>)"

definition mapOrderItem :: "order_item_row \<Rightarrow> OrderItemSnapshot" where
  "mapOrderItem row = \<lparr>ois_ID = oit_id row, ois_ProductID = oit_product_id row,
     ois_Name = oit_product_name row, ois_UnitPrice = oit_unit_price_vnd row,
     ois_Quantity = oit_quantity row, ois_LineTotal = oit_line_total_vnd row\<rparr>"

definition mapLockedOrderDetail :: "order_row \<times> order_item_row \<Rightarrow> OrderDetail" where
  "mapLockedOrderDetail row = (mapOrder (fst row))\<lparr>od_Item := mapOrderItem (snd row)\<rparr>"

definition mapOwnedOrderDetail ::
  "order_row \<times> order_item_row \<times> DeliveryJobStatus option \<Rightarrow> OrderDetail" where
  "mapOwnedOrderDetail row = (case row of (ord, item, delivery) \<Rightarrow>
     (mapOrder ord)\<lparr>od_Item := mapOrderItem item, od_DeliveryStatus := delivery\<rparr>)"

section \<open>Creating an order\<close>

record CreateOrderCommand =
  coc_TelegramUserID :: int64
  coc_ProductID :: int64
  coc_BankAccountID :: int64
  coc_Quantity :: int32
  coc_IdempotencyKey :: string
  coc_Meta :: RequestMeta

record order_config =
  oc_expiry :: duration
  oc_maxQuantity :: int32
  oc_pageSize :: int
  oc_paymentEnvironment :: string

definition InsertOrderHistory ::
  "int64 \<Rightarrow> OrderStatus option \<Rightarrow> OrderStatus \<Rightarrow> string \<Rightarrow> string \<Rightarrow> int64 \<Rightarrow> string \<Rightarrow> unit dbtx" where
  "InsertOrderHistory orderID f t reason actorType actorID requestID =
     bindE (InsertOrderStatusHistory \<lparr>hp_order_id = orderID, hp_from_status = f, hp_to_status = t,
       hp_reason_code = optionalText reason, hp_actor_type = actorType,
       hp_actor_id = optionalInt8 actorID, hp_request_id = optionalText requestID\<rparr>) (\<lambda>_. returnE ())"

text \<open>\<open>InsertPendingOrder\<close>: \<open>None\<close> when the insert met a conflict.\<close>

definition InsertPendingOrder ::
  "int64 \<Rightarrow> Money \<Rightarrow> string \<Rightarrow> string \<Rightarrow> time \<Rightarrow> bank_row \<Rightarrow> string \<Rightarrow> order_row option dbtx" where
  "InsertPendingOrder userID lineTotal reference idempotencyKey expiresAt bank environment =
     bindE (attempt (CreatePendingOrderWithBank \<lparr>cop_user_id = userID, cop_subtotal_vnd = lineTotal,
       cop_total_vnd = lineTotal, cop_payment_reference = reference,
       cop_idempotency_key = idempotencyKey, cop_expires_at = expiresAt,
       cop_bank = bankSnapshot bank,
       cop_payment_environment = (if environment = [] then ''production'' else environment)\<rparr>)) (\<lambda>r.
     case r of
       Inr row \<Rightarrow> returnE (Some row)
     | Inl e \<Rightarrow> if e = PgxErrNoRows then returnE None else throwE e)"

definition paymentReferenceAttempts :: nat where
  "paymentReferenceAttempts = 8"

text \<open>
  The loop over candidate references; \<open>n\<close> attempts remain. The result carries the order, its
  item when it was created here, and whether it is a duplicate.
\<close>

primrec createLoop ::
  "nat \<Rightarrow> (nat \<Rightarrow> error + string) \<Rightarrow> CreateOrderCommand \<Rightarrow> user_row \<Rightarrow> product_row \<Rightarrow> Money \<Rightarrow> bank_row \<Rightarrow>
   time \<Rightarrow> string \<Rightarrow> (OrderDetail \<times> bool) dbtx" where
  "createLoop 0 references command user product lineTotal bank expiresAt environment =
     throwE ErrPaymentReferenceCollision"
| "createLoop (Suc n) references command user product lineTotal bank expiresAt environment =
     bindE (ofSum (references (paymentReferenceAttempts - Suc n))) (\<lambda>reference.
     bindE (InsertPendingOrder (usr_id user) lineTotal reference (coc_IdempotencyKey command)
       expiresAt bank environment) (\<lambda>inserted. case inserted of
       None \<Rightarrow>
         bindE (attempt (FindOrderByUserIdempotency (usr_id user) (coc_IdempotencyKey command))) (\<lambda>found.
         case found of
           Inr existing \<Rightarrow>
             bindE (completeReceipt (UpdateID (coc_Meta command))) (\<lambda>_.
             returnE (mapOrder existing, True))
         | Inl e \<Rightarrow> if e \<noteq> PgxErrNoRows then throwE e
             else createLoop n references command user product lineTotal bank expiresAt environment)
     | Some order \<Rightarrow>
         bindE (InsertOrderItem (ord_id order) (prd_id product) (prd_name product)
           (prd_price_vnd product) (coc_Quantity command) lineTotal) (\<lambda>item.
         bindE (InsertOrderHistory (ord_id order) None OrderStatusPendingPayment ''order_created''
           ''user'' (usr_id user) (RequestID (coc_Meta command))) (\<lambda>_.
         bindE (completeReceipt (UpdateID (coc_Meta command))) (\<lambda>_.
         returnE ((mapOrder order)\<lparr>od_Item := mapOrderItem item\<rparr>, False))))))"

definition mapMoneyError :: "error \<Rightarrow> error" where
  "mapMoneyError e =
     (if e = DomainErrMoneyOverflow then ErrMoneyOverflow
      else if e = DomainErrInvalidQuantity then ErrInvalidQuantity else e)"

definition createOrderTx ::
  "(nat \<Rightarrow> error + string) \<Rightarrow> order_config \<Rightarrow> time \<Rightarrow> CreateOrderCommand \<Rightarrow> (OrderDetail \<times> bool) dbtx" where
  "createOrderTx references cfg now command =
     bindE (noRows ErrUnauthorized (LockUserForOrderCreation (coc_TelegramUserID command))) (\<lambda>user.
     if usr_status user \<noteq> UserStatusActive then throwE ErrUserBlocked else
     bindE (attempt (FindOrderByUserIdempotency (usr_id user) (coc_IdempotencyKey command))) (\<lambda>found.
     case found of
       Inr existing \<Rightarrow>
         bindE (completeReceipt (UpdateID (coc_Meta command))) (\<lambda>_. returnE (mapOrder existing, True))
     | Inl e \<Rightarrow> if e \<noteq> PgxErrNoRows then throwE e else
       bindE (noRows ErrOrderNotFound (GetProductForOrderCreation (coc_ProductID command))) (\<lambda>(product, category).
       if \<not> cat_is_active category then throwE ErrCategoryInactive
       else if \<not> prd_is_active product \<or> prd_delivery_type product \<noteq> ''inventory''
         then throwE ErrProductInactive else
       bindE (mapErrE mapMoneyError (ofSum (Money_Multiply (prd_price_vnd product) (coc_Quantity command))))
         (\<lambda>lineTotal.
       bindE (CountClaimableInventoryForOrder (prd_id product)) (\<lambda>available.
       if available < coc_Quantity command then throwE ErrInsufficientInventory else
       bindE (noRows ErrBankAccountInactive (GetActiveBankAccountForOrder (coc_BankAccountID command)
         (oc_paymentEnvironment cfg))) (\<lambda>bank.
       createLoop paymentReferenceAttempts references command user product lineTotal bank
         (now + oc_expiry cfg) (oc_paymentEnvironment cfg)))))))"

definition OrderService_Create ::
  "(nat \<Rightarrow> error + string) \<Rightarrow> (OrderDetail \<Rightarrow> error + 'i) \<Rightarrow> order_config \<Rightarrow> time \<Rightarrow> CreateOrderCommand \<Rightarrow>
   (OrderDetail \<times> bool \<times> 'i) dbtx" where
  "OrderService_Create references instruction cfg now command =
     (if coc_TelegramUserID command \<le> 0 \<or> coc_ProductID command \<le> 0 \<or>
         coc_BankAccountID command \<le> 0 \<or> coc_IdempotencyKey command = [] \<or>
         UpdateID (coc_Meta command) \<le> 0 then throwE ErrInvalidInput
      else if coc_Quantity command \<le> 0 then throwE ErrInvalidQuantity
      else if oc_maxQuantity cfg \<le> 0 \<or> coc_Quantity command > oc_maxQuantity cfg
        then throwE ErrQuantityLimitExceeded
      else if oc_expiry cfg \<le> 0 then throwE ErrInvalidInput else
      bindE (WithinTransaction (createOrderTx references cfg now command)) (\<lambda>(order, duplicate).
      bindE (ofSum (instruction order)) (\<lambda>ins. returnE (order, duplicate, ins))))"

section \<open>Cancelling\<close>

record CancelOrderCommand =
  cac_TelegramUserID :: int64
  cac_OrderID :: int64
  cac_ExpectedVersion :: int64
  cac_Meta :: RequestMeta

definition cancelOrderTx :: "time \<Rightarrow> CancelOrderCommand \<Rightarrow> (OrderDetail \<times> bool) dbtx" where
  "cancelOrderTx now command =
     bindE (mapErrE (\<lambda>_. ErrOrderNotFound) (LockOrderDetailOwnedByTelegramUser (cac_OrderID command)
       (cac_TelegramUserID command))) (\<lambda>row.
     let order = mapLockedOrderDetail row in
     if od_Status order = OrderStatusCancelled then
       bindE (completeReceipt (UpdateID (cac_Meta command))) (\<lambda>_. returnE (order, True))
     else if od_Status order = OrderStatusExpired \<or> \<not> (od_ExpiresAt order > now) then throwE ErrOrderExpired
     else if od_Version order \<noteq> cac_ExpectedVersion command then throwE ErrStaleVersion
     else if ValidateCustomerOrderTransition (od_Status order) OrderStatusCancelled \<noteq> None
       then throwE ErrInvalidOrderState else
     bindE (noRows ErrInvalidOrderState (CancelPendingOrderOwnedGuarded (od_ID order) (od_UserID order)
       now (od_Version order))) (\<lambda>updated.
     bindE (InsertOrderHistory (od_ID order) (Some (od_Status order)) OrderStatusCancelled
       ''customer_cancelled'' ''user'' (od_UserID order) (RequestID (cac_Meta command))) (\<lambda>_.
     bindE (completeReceipt (UpdateID (cac_Meta command))) (\<lambda>_.
     returnE ((mapOrder updated)\<lparr>od_Item := od_Item order\<rparr>, False)))))"

definition OrderService_Cancel :: "time \<Rightarrow> CancelOrderCommand \<Rightarrow> (OrderDetail \<times> bool) dbtx" where
  "OrderService_Cancel now command =
     (if cac_TelegramUserID command \<le> 0 \<or> cac_OrderID command \<le> 0 \<or> cac_ExpectedVersion command \<le> 0 \<or>
         UpdateID (cac_Meta command) \<le> 0 then throwE ErrInvalidInput
      else WithinTransaction (cancelOrderTx now command))"

section \<open>Reading\<close>

record PageInfo =
  pg_Page :: int
  pg_PageSize :: int
  pg_TotalItems :: int64
  pg_TotalPages :: int

definition pageInfo :: "int \<Rightarrow> int \<Rightarrow> int64 \<Rightarrow> PageInfo" where
  "pageInfo page pageSize totalItems =
     \<lparr>pg_Page = page, pg_PageSize = pageSize, pg_TotalItems = totalItems,
      pg_TotalPages = (if totalItems > 0 then go_div (wrap64 (wrap64 (totalItems + pageSize) - 1)) pageSize else 0)\<rparr>"

definition OrderService_List ::
  "order_config \<Rightarrow> int64 \<Rightarrow> int \<Rightarrow>
   ((order_row \<times> order_item_row \<times> DeliveryJobStatus option) list \<times> PageInfo) dbtx" where
  "OrderService_List cfg telegramUserID page =
     (if telegramUserID \<le> 0 \<or> page < 0 then throwE ErrInvalidInput else
      bindE (CountOrdersOwnedByTelegramUser telegramUserID) (\<lambda>total.
      bindE (ListOrdersOwnedByTelegramUser telegramUserID (wrap32 (wrap64 (page * oc_pageSize cfg)))
        (wrap32 (oc_pageSize cfg))) (\<lambda>items.
      returnE (items, pageInfo page (oc_pageSize cfg) total))))"

definition OrderService_Get ::
  "(OrderDetail \<Rightarrow> error + 'i) \<Rightarrow> int64 \<Rightarrow> int64 \<Rightarrow> (OrderDetail \<times> 'i option) dbtx" where
  "OrderService_Get instruction telegramUserID orderID =
     (if telegramUserID \<le> 0 \<or> orderID \<le> 0 then throwE ErrInvalidInput else
      bindE (noRows ErrOrderNotFound (GetOrderDetailOwnedByTelegramUser orderID telegramUserID)) (\<lambda>row.
      let order = mapOwnedOrderDetail row in
      if od_BankAccountID order = 0 then returnE (order, None)
      else bindE (ofSum (instruction order)) (\<lambda>ins. returnE (order, Some ins))))"

section \<open>Expiry\<close>

definition expiryHistory :: "order_row \<Rightarrow> unit dbtx" where
  "expiryHistory row = bindE (InsertOrderStatusHistory \<lparr>hp_order_id = ord_id row,
     hp_from_status = Some OrderStatusPendingPayment, hp_to_status = OrderStatusExpired,
     hp_reason_code = optionalText ''payment_window_elapsed'', hp_actor_type = ''system'',
     hp_actor_id = None, hp_request_id = None\<rparr>) (\<lambda>_. returnE ())"

definition ExpireOverdueOrders :: "(int64 \<Rightarrow> bool) \<Rightarrow> time \<Rightarrow> int32 \<Rightarrow> int64 list dbtx" where
  "ExpireOverdueOrders skip now batchSize = WithinTransaction (
     bindE (ClaimOverduePendingOrders skip now batchSize) (\<lambda>rows.
     bindE (forE rows expiryHistory) (\<lambda>_.
     returnE (sort (map ord_id rows)))))"

definition OrderExpiryService_RunOnce :: "(int64 \<Rightarrow> bool) \<Rightarrow> int32 \<Rightarrow> time \<Rightarrow> int dbtx" where
  "OrderExpiryService_RunOnce skip batchSize now =
     (if batchSize \<le> 0 then throwE ErrInvalidInput else
      bindE (ExpireOverdueOrders skip now batchSize) (\<lambda>ids. returnE (int (length ids))))"

end
