(* ===== verification/Inventory_Store.thy ===== *)
theory Inventory_Store
  imports Sql_Inventory
begin

text \<open>
  Reservations: \<open>internal/app/inventory_reservation_service.go\<close> (the argument guards) over
  \<open>internal/postgres/inventory_reservation_store.go\<close> (the transactions). \<open>skip\<close> is the set
  of inventory rows other transactions hold locked.
\<close>

record InventoryClaimRequest =
  icr_OrderID :: int64
  icr_OrderItemID :: int64
  icr_ProductID :: int64
  icr_Quantity :: int32
  icr_ReservedUntil :: time
  icr_RequestID :: string

record InventoryClaimResult =
  icl_OrderID :: int64
  icl_InventoryItemIDs :: "int64 list"
  icl_Count :: int

record InventoryReleaseRequest =
  irr_OrderID :: int64
  irr_Reason :: InventoryReleaseReason
  irr_RequestID :: string

record InventoryReleaseResult =
  irl_OrderID :: int64
  irl_Released :: int
  irl_Reason :: InventoryReleaseReason

record InventoryRecoveryResult =
  ivr_OrderID :: int64
  ivr_Released :: int
  ivr_RecoveryRequired :: bool
  ivr_OrderStatus :: OrderStatus

fun releaseReasonText :: "InventoryReleaseReason \<Rightarrow> string" where
  "releaseReasonText InventoryReleaseOrderCancelled = ''order_cancelled''"
| "releaseReasonText InventoryReleaseOrderExpired = ''order_expired''"
| "releaseReasonText InventoryReleaseOrderRefunded = ''order_refunded''"
| "releaseReasonText InventoryReleaseOutOfStock = ''order_out_of_stock''"
| "releaseReasonText (InventoryReleaseOther x) = x"

definition insertSystemInventoryAudit :: "string \<Rightarrow> string \<Rightarrow> int64 \<Rightarrow> json \<Rightarrow> string \<Rightarrow> unit dbtx" where
  "insertSystemInventoryAudit action resourceType resourceID after requestID =
     bindE (InsertAuditLog \<lparr>ap_actor_type = ''system'', ap_actor_id = None, ap_action = action,
       ap_resource_type = resourceType, ap_resource_id = Some resourceID, ap_before_data = None,
       ap_after_data = Some after, ap_request_id = optionalText requestID,
       ap_telegram_update_id = None\<rparr>) (\<lambda>_. returnE ())"

definition ClaimInventory :: "(int64 \<Rightarrow> bool) \<Rightarrow> InventoryClaimRequest \<Rightarrow> InventoryClaimResult dbtx" where
  "ClaimInventory skip request = WithinTransaction (
     bindE (noRows ErrNotFound (LockOrderForUpdate (icr_OrderID request))) (\<lambda>order.
     if ord_status order \<noteq> OrderStatusReserving then throwE ErrInvalidInventoryState else
     bindE (noRows ErrNotFound (LockOrderItemForInventory (icr_OrderItemID request)
       (icr_OrderID request) (icr_ProductID request))) (\<lambda>orderItem.
     if oit_quantity orderItem \<noteq> icr_Quantity request then throwE ErrInvalidInput else
     bindE (ClaimAvailableInventory skip (icr_OrderID request) (icr_ReservedUntil request)
       (icr_ProductID request) (icr_Quantity request)) (\<lambda>ids.
     if int (length ids) \<noteq> icr_Quantity request then throwE ErrInsufficientInventory else
     bindE (forE ids (InsertOrderInventoryMapping (icr_OrderID request) (icr_OrderItemID request))) (\<lambda>_.
     bindE (insertSystemInventoryAudit ''inventory.reserved'' ''order'' (icr_OrderID request)
       [(''order_id'', JInt (icr_OrderID request)), (''order_item_id'', JInt (icr_OrderItemID request)),
        (''product_id'', JInt (icr_ProductID request)), (''claimed_count'', JInt (int (length ids))),
        (''inventory_item_ids'', JInts ids)] (icr_RequestID request)) (\<lambda>_.
     returnE \<lparr>icl_OrderID = icr_OrderID request, icl_InventoryItemIDs = ids,
       icl_Count = int (length ids)\<rparr>))))))"

definition releaseInventoryForOrder :: "int64 \<Rightarrow> InventoryReleaseReason \<Rightarrow> string \<Rightarrow> int dbtx" where
  "releaseInventoryForOrder orderID reason requestID =
     bindE (ListReservedInventoryIDsByOrder orderID) (\<lambda>ids.
     if length ids = 0 then returnE 0 else
     bindE (ReleaseReservedInventoryByOrder orderID) (\<lambda>released.
     if length released \<noteq> length ids then throwE ErrReservationNotOwned else
     bindE (MarkOrderInventoryMappingsReleased reason orderID released) (\<lambda>mappings.
     if mappings \<noteq> int (length released) then throwE ErrReservationNotOwned else
     bindE (insertSystemInventoryAudit ''inventory.released'' ''order'' orderID
       [(''order_id'', JInt orderID), (''released_count'', JInt (int (length released))),
        (''inventory_item_ids'', JInts released), (''reason'', JText (releaseReasonText reason))]
       requestID) (\<lambda>_.
     returnE (int (length released))))))"

definition ReleaseInventory :: "InventoryReleaseRequest \<Rightarrow> InventoryReleaseResult dbtx" where
  "ReleaseInventory request = WithinTransaction (
     bindE (noRows ErrNotFound (LockOrderForUpdate (irr_OrderID request))) (\<lambda>order.
     let (expectedReason, safe) = InventoryReleaseReasonForOrder (ord_status order) in
     if \<not> safe then throwE ErrUnsafeReservationRelease
     else if irr_Reason request \<noteq> expectedReason then throwE ErrInvalidInput else
     bindE (releaseInventoryForOrder (irr_OrderID request) (irr_Reason request)
       (irr_RequestID request)) (\<lambda>released.
     returnE \<lparr>irl_OrderID = irr_OrderID request, irl_Released = released,
       irl_Reason = irr_Reason request\<rparr>)))"

definition RecoverExpiredReservation :: "int64 \<Rightarrow> time \<Rightarrow> string \<Rightarrow> InventoryRecoveryResult dbtx" where
  "RecoverExpiredReservation orderID expiredAt requestID = WithinTransaction (
     bindE (noRows ErrNotFound (LockOrderForUpdate orderID)) (\<lambda>order.
     let status = ord_status order;
         result = \<lparr>ivr_OrderID = orderID, ivr_Released = 0, ivr_RecoveryRequired = False,
                   ivr_OrderStatus = status\<rparr> in
     bindE (CountExpiredReservationsByOrder orderID expiredAt) (\<lambda>expiredCount.
     if expiredCount = 0 then returnE result else
     let (reason, safe) = InventoryReleaseReasonForOrder status in
     if safe then
       bindE (releaseInventoryForOrder orderID reason requestID) (\<lambda>released.
       returnE (result\<lparr>ivr_Released := released\<rparr>))
     else
       bindE (attempt (InsertInventoryRecoveryAuditOnce orderID status (optionalText requestID))) (\<lambda>r.
       case r of
         Inl e \<Rightarrow> if e = PgxErrNoRows then returnE (result\<lparr>ivr_RecoveryRequired := True\<rparr>) else throwE e
       | Inr _ \<Rightarrow> returnE (result\<lparr>ivr_RecoveryRequired := True\<rparr>)))))"

section \<open>InventoryReservationService\<close>

definition InventoryReservationService_Claim ::
  "(int64 \<Rightarrow> bool) \<Rightarrow> duration \<Rightarrow> time \<Rightarrow> InventoryClaimRequest \<Rightarrow> InventoryClaimResult dbtx" where
  "InventoryReservationService_Claim skip maxTTL now request =
     (if icr_OrderID request \<le> 0 \<or> icr_OrderItemID request \<le> 0 \<or> icr_ProductID request \<le> 0 \<or>
         icr_Quantity request \<le> 0 \<or> maxTTL \<le> 0 \<or> \<not> (icr_ReservedUntil request > now) \<or>
         icr_ReservedUntil request > now + maxTTL
      then throwE ErrInvalidInput else ClaimInventory skip request)"

definition InventoryReservationService_Release ::
  "InventoryReleaseRequest \<Rightarrow> InventoryReleaseResult dbtx" where
  "InventoryReservationService_Release request =
     (if irr_OrderID request \<le> 0 \<or> \<not> InventoryReleaseReason_IsValid (irr_Reason request)
      then throwE ErrInvalidInput else ReleaseInventory request)"

definition InventoryReservationService_RecoverExpired ::
  "int64 \<Rightarrow> time \<Rightarrow> string \<Rightarrow> InventoryRecoveryResult dbtx" where
  "InventoryReservationService_RecoverExpired orderID now requestID =
     (if orderID \<le> 0 \<or> now = 0 then throwE ErrInvalidInput
      else RecoverExpiredReservation orderID now requestID)"

end
