(* ===== verification/Go_Text.thy ===== *)
theory Go_Text
  imports Database
begin

text \<open>
  The functions of Go's \<open>strings\<close>, \<open>strconv\<close>, \<open>unicode/utf8\<close> and \<open>html\<close> that the program
  uses on text, as functions on byte lists, with their round trips: splitting what was joined and reading
  the number that was printed.
\<close>

section \<open>UTF-8 and HTML\<close>

definition byteIn :: "nat \<Rightarrow> nat \<Rightarrow> char \<Rightarrow> bool" where
  "byteIn lo hi c \<longleftrightarrow> lo \<le> (of_char c :: nat) \<and> (of_char c :: nat) \<le> hi"

text \<open>
  The length of the well-formed UTF-8 sequence at the head of a string, by the ranges of
  Go's \<open>unicode/utf8\<close>; 0 when the head is not well formed.
\<close>

definition nextIn :: "nat \<Rightarrow> nat \<Rightarrow> nat \<Rightarrow> string \<Rightarrow> bool" where
  "nextIn k lo hi s \<longleftrightarrow> k < length s \<and> byteIn lo hi (s ! k)"

definition runeLen :: "string \<Rightarrow> nat" where
  "runeLen s =
     (if nextIn 0 0x00 0x7F s then 1
      else if nextIn 0 0xC2 0xDF s \<and> nextIn 1 0x80 0xBF s then 2
      else if ((nextIn 0 0xE0 0xE0 s \<and> nextIn 1 0xA0 0xBF s) \<or> (nextIn 0 0xE1 0xEC s \<and> nextIn 1 0x80 0xBF s) \<or>
               (nextIn 0 0xED 0xED s \<and> nextIn 1 0x80 0x9F s) \<or> (nextIn 0 0xEE 0xEF s \<and> nextIn 1 0x80 0xBF s)) \<and>
              nextIn 2 0x80 0xBF s then 3
      else if ((nextIn 0 0xF0 0xF0 s \<and> nextIn 1 0x90 0xBF s) \<or> (nextIn 0 0xF1 0xF3 s \<and> nextIn 1 0x80 0xBF s) \<or>
               (nextIn 0 0xF4 0xF4 s \<and> nextIn 1 0x80 0x8F s)) \<and>
              nextIn 2 0x80 0xBF s \<and> nextIn 3 0x80 0xBF s then 4
      else 0)"

text \<open>\<open>len([]rune(s))\<close>: an ill-formed byte counts as one rune.\<close>

function runeCount :: "string \<Rightarrow> nat" where
  "runeCount [] = 0"
| "runeCount (c # s) = Suc (runeCount (drop (runeLen (c # s) - 1) s))"
  by pat_completeness auto
termination
  by (relation "measure length") auto

function utf8_Valid :: "string \<Rightarrow> bool" where
  "utf8_Valid [] = True"
| "utf8_Valid (c # s) = (runeLen (c # s) \<noteq> 0 \<and> utf8_Valid (drop (runeLen (c # s) - 1) s))"
  by pat_completeness auto
termination
  by (relation "measure length") auto

fun escapeChar :: "char \<Rightarrow> string" where
  "escapeChar c =
     (if c = CHR ''&'' then ''&amp;'' else if c = CHR 0x27 then ''&#39;''
      else if c = CHR ''<'' then ''&lt;'' else if c = CHR ''>'' then ''&gt;''
      else if c = CHR 0x22 then ''&#34;'' else [c])"

definition html_EscapeString :: "string \<Rightarrow> string" where
  "html_EscapeString s = concat (map escapeChar s)"

lemma escape_safe: "set (html_EscapeString s) \<inter> {CHR ''<'', CHR ''>'', CHR 0x22, CHR 0x27} = {}"
  by (induction s) (auto simp: html_EscapeString_def)

section \<open>Splitting\<close>

text \<open>\<open>strings.Split\<close> with a separator of one byte.\<close>

fun Split :: "char \<Rightarrow> string \<Rightarrow> string list" where
  "Split sep [] = [[]]"
| "Split sep (c # s) =
     (if c = sep then [] # Split sep s
      else case Split sep s of [] \<Rightarrow> [[c]] | part # rest \<Rightarrow> (c # part) # rest)"

fun joinWith :: "char \<Rightarrow> string list \<Rightarrow> string" where
  "joinWith sep [] = []"
| "joinWith sep [p] = p"
| "joinWith sep (p # q # rest) = p @ sep # joinWith sep (q # rest)"

lemma Split_not_Nil [simp]: "Split sep s \<noteq> []"
  by (cases s) (auto split: list.splits)

lemma Split_append: "sep \<notin> set p \<Longrightarrow> Split sep (p @ sep # s) = p # Split sep s"
  by (induction p) auto

lemma Split_single: "sep \<notin> set p \<Longrightarrow> Split sep p = [p]"
  by (induction p) auto

lemma Split_joinWith:
  "ps \<noteq> [] \<Longrightarrow> (\<And>p. p \<in> set ps \<Longrightarrow> sep \<notin> set p) \<Longrightarrow> Split sep (joinWith sep ps) = ps"
  by (induction sep ps rule: joinWith.induct) (auto simp: Split_append Split_single)

section \<open>Numbers\<close>

fun digitsFrom :: "nat \<Rightarrow> string \<Rightarrow> nat option" where
  "digitsFrom acc [] = Some acc"
| "digitsFrom acc (c # s) =
     (if isDigitChar c then digitsFrom (10 * acc + (of_char c - 48)) s else None)"

definition parseDigits :: "string \<Rightarrow> nat option" where
  "parseDigits s = (if s = [] then None else digitsFrom 0 s)"

text \<open>
  \<open>strconv.ParseInt(s, 10, bits)\<close>: an optional sign, at least one digit, and the value within the
  signed range; \<open>None\<close> is the error.
\<close>

definition parseSigned :: "string \<Rightarrow> int option" where
  "parseSigned s =
     (case s of [] \<Rightarrow> None
      | c # r \<Rightarrow>
          if c = CHR ''-'' then map_option (\<lambda>n. - int n) (parseDigits r)
          else if c = CHR ''+'' then map_option int (parseDigits r)
          else map_option int (parseDigits s))"

definition ParseInt :: "nat \<Rightarrow> string \<Rightarrow> int option" where
  "ParseInt bits s =
     (case parseSigned s of None \<Rightarrow> None
      | Some v \<Rightarrow> if - (2 ^ (bits - 1)) \<le> v \<and> v < 2 ^ (bits - 1) then Some v else None)"

lemma digitsFrom_append:
  "digitsFrom acc (s @ t) = (case digitsFrom acc s of None \<Rightarrow> None | Some v \<Rightarrow> digitsFrom v t)"
  by (induction acc s rule: digitsFrom.induct) auto

lemma digitChar_digit [simp]: "d < 10 \<Longrightarrow> isDigitChar (digitChar d)" "d < 10 \<Longrightarrow> of_char (digitChar d) = (48 + d :: nat)"
  by (simp_all add: isDigitChar_def digitChar_def)

lemma natText_digits: "c \<in> set (natText n) \<Longrightarrow> isDigitChar c"
proof (induction n rule: natText.induct)
  case (1 n)
  then show ?case by (subst (asm) natText.simps) (auto split: if_splits)
qed

lemma digitsFrom_natText: "digitsFrom 0 (natText n) = Some n"
proof (induction n rule: natText.induct)
  case (1 n)
  then show ?case by (subst natText.simps) (simp add: digitsFrom_append)
qed

lemma natText_first: "natText n = c # s \<Longrightarrow> isDigitChar c"
  using natText_digits [of c n] by simp

lemma parseDigits_natText: "parseDigits (natText n) = Some n"
  by (simp add: parseDigits_def digitsFrom_natText)

lemma digit_not_sign: "isDigitChar c \<Longrightarrow> c \<noteq> CHR ''-'' \<and> c \<noteq> CHR ''+'' \<and> c \<noteq> CHR '':''"
  by (auto simp: isDigitChar_def)

lemma natText_no_colon: "CHR '':'' \<notin> set (natText n)"
  using natText_digits [of "CHR '':''" n] digit_not_sign by blast

lemma intText_no_colon: "CHR '':'' \<notin> set (intText i)"
  by (simp add: intText_def natText_no_colon)

lemma parseSigned_intText: "parseSigned (intText i) = Some i"
proof (cases "i < 0")
  case True
  then show ?thesis by (simp add: parseSigned_def intText_def parseDigits_natText)
next
  case False
  obtain c s where cs: "natText (nat i) = c # s" by (cases "natText (nat i)") auto
  then have "c \<noteq> CHR ''-''" "c \<noteq> CHR ''+''" using natText_first digit_not_sign by blast+
  then show ?thesis
    using cs False parseDigits_natText [of "nat i"] by (simp add: parseSigned_def intText_def)
qed

lemma ParseInt_intText:
  "- (2 ^ (bits - 1)) \<le> i \<Longrightarrow> i < 2 ^ (bits - 1) \<Longrightarrow> ParseInt bits (intText i) = Some i"
  by (simp add: ParseInt_def parseSigned_intText)

lemma ParseInt_range: "ParseInt bits s = Some v \<Longrightarrow> - (2 ^ (bits - 1)) \<le> v \<and> v < 2 ^ (bits - 1)"
  by (auto simp: ParseInt_def split: option.splits if_splits)

end
