(* ===== verification/Delivery_Service.thy ===== *)
theory Delivery_Service
  imports Complex_Main Delivery_Store Go_Text
begin

text \<open>
  The delivery worker of \<open>internal/app/delivery_service.go\<close> (one pass of the queue, the
  processing of one job, the classification of failures and the Telegram message) and the
  guards of the manual resolutions in \<open>internal/app/delivery_admin_service.go\<close>. The sender,
  the inventory cipher, the clock readings and the jittered floating-point delay of
  \<open>DeliveryRetryDelay\<close> are arguments; timeouts and metrics are left out.
\<close>

section \<open>The message\<close>

definition messageHeader :: "DeliveryEnvelope \<Rightarrow> string" where
  "messageHeader envelope =
     ''<b>Giao h'' @ [CHR 0xC3, CHR 0xA0] @ ''ng '' @ [CHR 0xC2, CHR 0xB7] @ '' '' @
       [CHR 0xC4, CHR 0x91, CHR 0xC6, CHR 0xA1] @ ''n #'' @ intText (de_OrderID envelope) @
     ''</b>'' @ [CHR 0x0A] @ ''S'' @ [CHR 0xE1, CHR 0xBA, CHR 0xA3] @ ''n ph'' @
       [CHR 0xE1, CHR 0xBA, CHR 0xA9] @ ''m: <b>'' @ html_EscapeString (de_ProductName envelope) @
     ''</b>'' @ [CHR 0x0A] @ ''S'' @ [CHR 0xE1, CHR 0xBB, CHR 0x91] @ '' l'' @
       [CHR 0xC6, CHR 0xB0, CHR 0xE1, CHR 0xBB, CHR 0xA3] @ ''ng: '' @ intText (de_Quantity envelope) @
     [CHR 0x0A, CHR 0x0A]"

definition messageFooter :: "string \<Rightarrow> string" where
  "messageFooter support =
     [CHR 0x0A] @ ''H'' @ [CHR 0xC3, CHR 0xA3] @ ''y l'' @ [CHR 0xC6, CHR 0xB0] @ ''u th'' @
     [CHR 0xC3, CHR 0xB4] @ ''ng tin '' @ [CHR 0xE1, CHR 0xBB, CHR 0x9F] @ '' n'' @
     [CHR 0xC6, CHR 0xA1] @ ''i an to'' @ [CHR 0xC3, CHR 0xA0] @ ''n v'' @ [CHR 0xC3, CHR 0xA0] @
     '' kh'' @ [CHR 0xC3, CHR 0xB4] @ ''ng chia s'' @ [CHR 0xE1, CHR 0xBA, CHR 0xBB] @ '' cho ng'' @
     [CHR 0xC6, CHR 0xB0, CHR 0xE1, CHR 0xBB, CHR 0x9D] @ ''i kh'' @ [CHR 0xC3, CHR 0xA1] @ ''c.'' @
     (if TrimSpace support \<noteq> [] then
        [CHR 0x0A] @ ''H'' @ [CHR 0xE1, CHR 0xBB, CHR 0x97] @ '' tr'' @ [CHR 0xE1, CHR 0xBB, CHR 0xA3] @
        '': '' @ html_EscapeString (TrimSpace support) else [])"

fun messageLines :: "nat \<Rightarrow> string list \<Rightarrow> error + string" where
  "messageLines n [] = Inr []"
| "messageLines n (payload # rest) =
     (if payload = [] \<or> \<not> utf8_Valid payload then Inl ErrInvalidInventoryPayload
      else case messageLines (n + 1) rest of
        Inl e \<Rightarrow> Inl e
      | Inr text \<Rightarrow> Inr (natText n @ ''. <code>'' @ html_EscapeString payload @ ''</code>'' @
          [CHR 0x0A] @ text))"

definition BuildDeliveryMessage ::
  "DeliveryEnvelope \<Rightarrow> string list \<Rightarrow> string \<Rightarrow> int \<Rightarrow> error + string" where
  "BuildDeliveryMessage envelope payloads support maxBytes =
     (if de_OrderID envelope \<le> 0 \<or> de_Quantity envelope \<le> 0 \<or>
         int (length payloads) \<noteq> de_Quantity envelope \<or> maxBytes \<le> 0
      then Inl ErrDeliveryInventoryMismatch
      else case messageLines 1 payloads of
        Inl e \<Rightarrow> Inl e
      | Inr lines \<Rightarrow>
          let message = messageHeader envelope @ lines @ messageFooter support in
          if int (length message) > maxBytes then Inl ErrDeliveryMessageTooLarge else Inr message)"

section \<open>Failures\<close>

record DeliverySendError =
  dse_Class :: DeliveryResultClass
  dse_Code :: string
  dse_Summary :: string
  dse_HTTPStatus :: int32
  dse_TelegramErrorCode :: int32
  dse_RetryAfter :: duration

text \<open>What \<open>SendDelivery\<close> returns: a result, a \<open>*DeliverySendError\<close>, or any other error.\<close>

datatype SendOutcome =
  SendResult DeliverySendResult | SendFailed DeliverySendError | SendUnclassified

text \<open>A \<open>float64\<close>: finite values are rationals; every comparison with NaN is false.\<close>

datatype float64 = FNum rat | FNaN | FPosInf | FNegInf

fun float_less :: "float64 \<Rightarrow> float64 \<Rightarrow> bool" where
  "float_less (FNum a) (FNum b) \<longleftrightarrow> a < b"
| "float_less FNegInf (FNum b) \<longleftrightarrow> True"
| "float_less FNegInf FPosInf \<longleftrightarrow> True"
| "float_less (FNum a) FPosInf \<longleftrightarrow> True"
| "float_less _ _ \<longleftrightarrow> False"

record DeliveryRetryPolicy =
  drp_Base :: duration
  drp_Max :: duration
  drp_JitterRatio :: float64
  drp_MaxAttempts :: int32

text \<open>\<open>retryDelay attempt retryAfter\<close> is the delay \<open>DeliveryRetryDelay\<close> computes.\<close>

definition classifyDeliveryFailure ::
  "(int32 \<Rightarrow> duration \<Rightarrow> duration) \<Rightarrow> DeliverySendError option \<Rightarrow> int32 \<Rightarrow> int32 \<Rightarrow> time \<Rightarrow> DeliveryFailure" where
  "classifyDeliveryFailure retryDelay err number maxAttempts now =
     (let f0 = noFailure\<lparr>df_Class := DeliveryResultAmbiguous, df_Code := ''unclassified_transport_error'',
            df_Summary := ''Telegram send outcome is unknown'', df_FailedAt := now\<rparr>;
          f1 = (case err of None \<Rightarrow> f0
            | Some e \<Rightarrow> f0\<lparr>df_Class := dse_Class e, df_Code := TrimSpace (dse_Code e),
                df_Summary := TrimSpace (dse_Summary e), df_HTTPStatus := dse_HTTPStatus e,
                df_TelegramErrorCode := dse_TelegramErrorCode e, df_RetryAfter := dse_RetryAfter e\<rparr>);
          f2 = (if df_Code f1 = [] then f1\<lparr>df_Code := ''delivery_send_failed''\<rparr> else f1);
          f3 = (if df_Summary f2 = [] then f2\<lparr>df_Summary := ''Telegram delivery failed''\<rparr> else f2) in
      if df_Class f3 = DeliveryResultRetryable then
        (if number \<ge> maxAttempts then
           f3\<lparr>df_Class := DeliveryResultPermanent, df_Code := ''attempts_exhausted'',
              df_Summary := ''delivery attempts exhausted''\<rparr>
         else f3\<lparr>df_NextAttemptAt := now + retryDelay number (df_RetryAfter f3)\<rparr>)
      else f3)"

text \<open>\<open>reading n\<close> is the n-th reading of the clock since the job's processing began.\<close>

definition preSendFailure ::
  "(int32 \<Rightarrow> duration \<Rightarrow> duration) \<Rightarrow> DeliveryWorkItem \<Rightarrow> string \<Rightarrow> error \<Rightarrow> (nat \<Rightarrow> time) \<Rightarrow> DeliveryFailure" where
  "preSendFailure retryDelay job code cause reading =
     (if cause = ContextCanceled \<or> cause = ContextDeadlineExceeded then
        noFailure\<lparr>df_Class := DeliveryResultRetryable, df_Code := ''cancelled_before_send'',
          df_Summary := ''delivery stopped before Telegram send'', df_FailedAt := reading 0,
          df_NextAttemptAt := reading 1 + retryDelay (wrap32 (dwi_Attempts job + 1)) 0\<rparr>
      else noFailure\<lparr>df_Class := DeliveryResultPermanent, df_Code := code,
          df_Summary := ''delivery validation failed before Telegram send'', df_FailedAt := reading 0\<rparr>)"

definition failBeforeSend ::
  "(int32 \<Rightarrow> duration \<Rightarrow> duration) \<Rightarrow> string \<Rightarrow> DeliveryWorkItem \<Rightarrow> string \<Rightarrow> error \<Rightarrow> (nat \<Rightarrow> time) \<Rightarrow> unit dbtx" where
  "failBeforeSend retryDelay workerID job code cause reading =
     FinalizeClaimedDeliveryFailure (dwi_ID job) workerID (preSendFailure retryDelay job code cause reading)"

section \<open>The worker\<close>

record delivery_worker =
  dw_workerID :: string
  dw_support :: string
  dw_messageLimit :: int
  dw_batchSize :: int32
  dw_lease :: duration
  dw_staleScanInterval :: duration
  dw_jobTimeout :: duration
  dw_policy :: DeliveryRetryPolicy

text \<open>The outside world during one pass: cipher, sender, delay, the clock when the pass starts, and its
  readings while a job is processed.\<close>

record delivery_world =
  dx_decrypt :: "EncryptedDeliveryItem \<Rightarrow> error + string"
  dx_send :: "int64 \<Rightarrow> string \<Rightarrow> SendOutcome"
  dx_retryDelay :: "int32 \<Rightarrow> duration \<Rightarrow> duration"
  dx_now :: time
  dx_clock :: "int64 \<Rightarrow> nat \<Rightarrow> time"

fun decryptAll :: "(EncryptedDeliveryItem \<Rightarrow> error + string) \<Rightarrow> EncryptedDeliveryItem list \<Rightarrow> error + string list" where
  "decryptAll dec [] = Inr []"
| "decryptAll dec (x # xs) =
     (case dec x of Inl e \<Rightarrow> Inl e
      | Inr v \<Rightarrow> (case decryptAll dec xs of Inl e \<Rightarrow> Inl e | Inr vs \<Rightarrow> Inr (v # vs)))"

definition invalidEvidence :: DeliverySendError where
  "invalidEvidence = \<lparr>dse_Class = DeliveryResultAmbiguous, dse_Code = ''invalid_success_evidence'',
     dse_Summary = ''Telegram success response lacked trusted evidence'', dse_HTTPStatus = 0,
     dse_TelegramErrorCode = 0, dse_RetryAfter = 0\<rparr>"

definition finishSend ::
  "delivery_worker \<Rightarrow> delivery_world \<Rightarrow> int64 \<Rightarrow> int64 \<Rightarrow> DeliveryAttempt \<Rightarrow> SendOutcome \<Rightarrow> unit dbtx" where
  "finishSend w x jobID chatID att outcome =
     (let fail = (\<lambda>err. FinalizeDeliveryFailure jobID (dw_workerID w)
            (classifyDeliveryFailure (dx_retryDelay x) err (da_Number att)
              (drp_MaxAttempts (dw_policy w)) (dx_clock x jobID 2))) in
      case outcome of
        SendResult result \<Rightarrow>
          if dsr_ChatID result \<noteq> chatID \<or> dsr_MessageID result \<le> 0 then fail (Some invalidEvidence)
          else let success = \<lparr>dsc_Result = result, dsc_CompletedAt = dx_clock x jobID 2\<rparr> in
            bindE (attempt (FinalizeDeliverySuccess jobID (dw_workerID w) success)) (\<lambda>r. case r of
              Inr _ \<Rightarrow> returnE ()
            | Inl e \<Rightarrow>
                bindE (attempt (PreserveAmbiguousSuccess jobID success ''database_finalize_failed''))
                  (\<lambda>_. throwE e))
      | SendFailed err \<Rightarrow> fail (Some err)
      | SendUnclassified \<Rightarrow> fail None)"

definition DeliveryJob_process :: "delivery_worker \<Rightarrow> delivery_world \<Rightarrow> DeliveryWorkItem \<Rightarrow> unit dbtx" where
  "DeliveryJob_process w x job =
     bindE (attempt (LoadClaimedDelivery (dwi_ID job) (dw_workerID w))) (\<lambda>loaded. case loaded of
       Inl e \<Rightarrow> failBeforeSend (dx_retryDelay x) (dw_workerID w) job ''delivery_invariant_failed'' e (dx_clock x (dwi_ID job))
     | Inr (envelope, encrypted) \<Rightarrow>
       (case decryptAll (dx_decrypt x) encrypted of
          Inl e \<Rightarrow> failBeforeSend (dx_retryDelay x) (dw_workerID w) job ''inventory_decryption_failed'' e (dx_clock x (dwi_ID job))
        | Inr plaintext \<Rightarrow>
          (case BuildDeliveryMessage envelope plaintext (dw_support w) (dw_messageLimit w) of
             Inl e \<Rightarrow> failBeforeSend (dx_retryDelay x) (dw_workerID w) job ''delivery_message_invalid'' e (dx_clock x (dwi_ID job))
           | Inr message \<Rightarrow>
             bindE (BeginDeliveryAttempt (dwi_ID job) (dw_workerID w) (dx_clock x (dwi_ID job) 0)) (\<lambda>att.
             finishSend w x (dwi_ID job) (de_RecipientChatID envelope) att
               (dx_send x (de_RecipientChatID envelope) message)))))"

definition DeliveryJob_validate :: "delivery_worker \<Rightarrow> bool" where
  "DeliveryJob_validate w \<longleftrightarrow>
     \<not> (dw_batchSize w \<le> 0 \<or> dw_lease w \<le> 0 \<or> dw_staleScanInterval w \<le> 0 \<or> dw_jobTimeout w \<le> 0 \<or>
        dw_messageLimit w \<le> 0 \<or> dw_workerID w = [] \<or> drp_Base (dw_policy w) \<le> 0 \<or>
        drp_Max (dw_policy w) < drp_Base (dw_policy w) \<or> drp_MaxAttempts (dw_policy w) \<le> 0 \<or>
        float_less (drp_JitterRatio (dw_policy w)) (FNum 0) \<or> float_less (FNum 1) (drp_JitterRatio (dw_policy w)))"

text \<open>
  One pass. The worker's field \<open>lastStaleScan\<close> is an argument and part of the result, which
  is the number of claimed jobs, the error if any, and the new \<open>lastStaleScan\<close>.
\<close>

definition DeliveryJob_RunOnce ::
  "(int64 \<Rightarrow> bool) \<Rightarrow> delivery_worker \<Rightarrow> delivery_world \<Rightarrow> time \<Rightarrow> (int \<times> error option \<times> time) dbtx" where
  "DeliveryJob_RunOnce skip w x lastStaleScan =
     (if \<not> DeliveryJob_validate w then returnE (0, Some ErrInvalidInput, lastStaleScan) else
      bindE (attempt (BackfillDeliveryJobs skip (dx_now x) (dw_batchSize w) (drp_MaxAttempts (dw_policy w))))
      (\<lambda>created. case created of
        Inl e \<Rightarrow> returnE (0, Some e, lastStaleScan)
      | Inr _ \<Rightarrow>
        let due = (lastStaleScan = 0 \<or> dx_now x - lastStaleScan \<ge> dw_staleScanInterval w) in
        bindE (if due then attempt (bindE (RecoverStaleDeliveryJobs skip (dx_now x) (dx_now x - dw_lease w)
                 (dw_batchSize w)) (\<lambda>_. returnE ())) else returnE (Inr ())) (\<lambda>recovered. case recovered of
          Inl e \<Rightarrow> returnE (0, Some e, lastStaleScan)
        | Inr _ \<Rightarrow>
          let scan = (if due then dx_now x else lastStaleScan) in
          bindE (attempt (ClaimDeliveryJobs skip (dx_now x) (dw_workerID w) (dw_batchSize w))) (\<lambda>claimed.
          case claimed of
            Inl e \<Rightarrow> returnE (0, Some e, scan)
          | Inr jobs \<Rightarrow>
            bindE (attempt (forE jobs (DeliveryJob_process w x))) (\<lambda>r. case r of
              Inl e \<Rightarrow> returnE (int (length jobs), Some e, scan)
            | Inr _ \<Rightarrow> returnE (int (length jobs), None, scan))))))"

section \<open>Manual resolution\<close>

definition DeliveryAdminService_Retry :: "time \<Rightarrow> DeliveryResolutionCommand \<Rightarrow> DeliveryReviewItem dbtx" where
  "DeliveryAdminService_Retry now command0 =
     (let command = command0\<lparr>drc_Reason := TrimSpace (drc_Reason command0)\<rparr> in
      if drc_AdminTelegramID command \<le> 0 \<or> drc_JobID command \<le> 0 \<or> drc_ExpectedVersion command \<le> 0 \<or>
         drc_Reason command = [] \<or> runeCount (drc_Reason command) > 1000 \<or>
         UpdateID (drc_Meta command) \<le> 0
      then throwE ErrInvalidInput else RetryDelivery now command now)"

definition DeliveryAdminService_Complete :: "time \<Rightarrow> DeliveryResolutionCommand \<Rightarrow> DeliveryReviewItem dbtx" where
  "DeliveryAdminService_Complete now command0 =
     (let command = command0\<lparr>drc_Reason := TrimSpace (drc_Reason command0)\<rparr> in
      if drc_AdminTelegramID command \<le> 0 \<or> drc_JobID command \<le> 0 \<or> drc_ExpectedVersion command \<le> 0 \<or>
         drc_TelegramMessageID command \<le> 0 \<or> drc_Reason command = [] \<or>
         runeCount (drc_Reason command) > 1000 \<or> UpdateID (drc_Meta command) \<le> 0
      then throwE ErrInvalidInput else CompleteDelivery now command now)"

section \<open>What the customer is sent\<close>

lemma messageLines_Inr:
  "messageLines n payloads = Inr body \<Longrightarrow>
   list_all (\<lambda>p. p \<noteq> [] \<and> utf8_Valid p) payloads \<and>
   (\<forall>p \<in> set payloads. \<exists>a b. body = a @ ''<code>'' @ html_EscapeString p @ ''</code>'' @ b)"
proof (induction payloads arbitrary: n body)
  case (Cons p ps)
  then obtain t where t: "messageLines (n + 1) ps = Inr t" "p \<noteq> []" "utf8_Valid p"
    and whole: "body = natText n @ ''. <code>'' @ html_EscapeString p @ ''</code>'' @ [CHR 0x0A] @ t"
    by (auto split: if_splits sum.splits)
  have head: "\<exists>a b. body = a @ ''<code>'' @ html_EscapeString p @ ''</code>'' @ b"
    unfolding whole by (rule exI [of _ "natText n @ ''. ''"]) auto
  have "\<exists>a b. body = a @ ''<code>'' @ html_EscapeString q @ ''</code>'' @ b" if q: "q \<in> set ps" for q
  proof -
    obtain a b where "t = a @ ''<code>'' @ html_EscapeString q @ ''</code>'' @ b"
      using Cons.IH [OF t(1)] q by blast
    then show ?thesis
      unfolding whole
      by (intro exI [of _ "natText n @ ''. <code>'' @ html_EscapeString p @ ''</code>'' @ [CHR 0x0A] @ a"] exI [of _ b]) simp
  qed
  with head t Cons.IH [OF t(1)] show ?case by auto
qed simp

text \<open>
  C19. A delivery message that is built fits the limit, is made of exactly the ordered number of
  non-empty, well-formed payloads, shows every one of them between code tags, and no payload can open or close a
  tag or a quoted attribute: its escaped form has no angle bracket and no quote.
\<close>

theorem delivery_message_complete:
  assumes "BuildDeliveryMessage envelope payloads support maxBytes = Inr message"
  shows "int (length message) \<le> maxBytes \<and> int (length payloads) = de_Quantity envelope \<and>
    (\<forall>p \<in> set payloads. p \<noteq> [] \<and> utf8_Valid p \<and>
       set (html_EscapeString p) \<inter> {CHR ''<'', CHR ''>'', CHR 0x22, CHR 0x27} = {} \<and>
       (\<exists>a b. message = a @ ''<code>'' @ html_EscapeString p @ ''</code>'' @ b))"
proof -
  obtain lines where lines: "messageLines 1 payloads = Inr lines"
    and message: "message = messageHeader envelope @ lines @ messageFooter support"
    and bounds: "int (length message) \<le> maxBytes" "int (length payloads) = de_Quantity envelope"
    using assms by (auto simp: BuildDeliveryMessage_def Let_def split: if_splits sum.splits)
  have "\<exists>a b. message = a @ ''<code>'' @ html_EscapeString p @ ''</code>'' @ b" if p: "p \<in> set payloads" for p
  proof -
    obtain a b where "lines = a @ ''<code>'' @ html_EscapeString p @ ''</code>'' @ b"
      using messageLines_Inr [OF lines, THEN conjunct2, rule_format, OF p] by (elim exE)
    then have "message = (messageHeader envelope @ a) @ ''<code>'' @ html_EscapeString p @ ''</code>'' @ (b @ messageFooter support)"
      by (simp only: message append_assoc)
    then show ?thesis by blast
  qed
  moreover have "p \<noteq> [] \<and> utf8_Valid p" if "p \<in> set payloads" for p
    using messageLines_Inr [OF lines, THEN conjunct1] that by (auto simp: list_all_iff)
  ultimately show ?thesis using bounds escape_safe by blast
qed

definition sample_envelope :: DeliveryEnvelope where
  "sample_envelope = \<lparr>de_JobID = 1, de_OrderID = 5, de_RecipientChatID = 77, de_TelegramUserID = 77,
     de_ProductName = ''Key'', de_Quantity = 1, de_Attempts = 0, de_MaxAttempts = 5\<rparr>"

theorem delivery_message_complete_witness:
  "\<exists>m a b. BuildDeliveryMessage sample_envelope [''a<b''] [] 400 = Inr m \<and> length m \<le> 400 \<and>
     m = a @ ''<code>'' @ ''a&lt;b'' @ ''</code>'' @ b"
proof -
  have "\<not> isl (BuildDeliveryMessage sample_envelope [''a<b''] [] 400)" by code_simp
  then obtain m where m: "BuildDeliveryMessage sample_envelope [''a<b''] [] 400 = Inr m" by (metis sum.collapse(2))
  have "html_EscapeString ''a<b'' = ''a&lt;b''" by (simp add: html_EscapeString_def)
  with delivery_message_complete [OF m] m show ?thesis by auto
qed

text \<open>
  How a failed send is classified: only a failure that Telegram reported as retryable is retried, and only
  while attempts remain; a failure of unknown nature is ambiguous, never retried automatically; the recorded code and
  summary are never empty.
\<close>

theorem failure_classification:
  "let f = classifyDeliveryFailure delay err number maxAttempts now in
    (df_Class f = DeliveryResultRetryable \<longleftrightarrow>
      (\<exists>e. err = Some e \<and> dse_Class e = DeliveryResultRetryable \<and> number < maxAttempts)) \<and>
    (df_Class f = DeliveryResultRetryable \<longrightarrow> df_NextAttemptAt f = now + delay number (df_RetryAfter f)) \<and>
    (err = None \<longrightarrow> df_Class f = DeliveryResultAmbiguous) \<and>
    df_Code f \<noteq> [] \<and> df_Summary f \<noteq> [] \<and> df_FailedAt f = now"
  unfolding classifyDeliveryFailure_def Let_def
  by (cases err) (simp_all add: noFailure_def)

theorem failure_classification_witness:
  "df_Class (classifyDeliveryFailure (\<lambda>_ _. 60) None 1 5 1000) = DeliveryResultAmbiguous \<and>
   df_NextAttemptAt (classifyDeliveryFailure (\<lambda>_ _. 60) (Some \<lparr>dse_Class = DeliveryResultRetryable, dse_Code = ''429'',
     dse_Summary = [], dse_HTTPStatus = 429, dse_TelegramErrorCode = 429, dse_RetryAfter = 3\<rparr>) 1 5 1000) = 1060"
  using failure_classification [of "\<lambda>_ _. 60" None 1 5 1000]
    failure_classification [of "\<lambda>_ _. 60" "Some \<lparr>dse_Class = DeliveryResultRetryable, dse_Code = ''429'',
     dse_Summary = [], dse_HTTPStatus = 429, dse_TelegramErrorCode = 429, dse_RetryAfter = 3\<rparr>" 1 5 1000]
  by (simp add: Let_def)

end
