(* ===== verification/Progress.thy ===== *)
theory Progress
  imports Statements
begin

text \<open>
  Every query is a sequence of statements. \<open>progress s0 s\<close> says that \<open>s\<close> is reached from the
  well-formed database \<open>s0\<close> by statements; the lemmas \<open>always (progress s0) q\<close> say that the
  query \<open>q\<close> keeps it on every outcome. The generic lemmas handle the three statement
  forms, so a query's lemma only justifies its lifecycle move.
\<close>

section \<open>Progress\<close>

definition progress :: "db \<Rightarrow> db \<Rightarrow> bool" where
  "progress s0 s \<longleftrightarrow> schema s0 \<and> stmt\<^sup>*\<^sup>* s0 s"

lemma progress_refl: "schema s \<Longrightarrow> progress s s"
  by (simp add: progress_def)

lemma progress_step: "progress s0 s \<Longrightarrow> stmt s s' \<Longrightarrow> progress s0 s'"
  by (auto simp: progress_def intro: rtranclp.rtrancl_into_rtrancl)

lemma progress_schema: "progress s0 s \<Longrightarrow> schema s"
proof -
  assume "progress s0 s"
  then have "stmt\<^sup>*\<^sup>* s0 s" "schema s0" by (simp_all add: progress_def)
  then show ?thesis by induction (auto intro: stmt_schema)
qed

lemma stmt_seqs_mono: "stmt s s' \<Longrightarrow> seqs s t \<le> seqs s' t"
  by (induction rule: stmt.induct) (auto dest!: stmt_dests)

lemma progress_seqs_mono: "progress s0 s \<Longrightarrow> seqs s0 t \<le> seqs s t"
proof -
  assume "progress s0 s"
  then have "stmt\<^sup>*\<^sup>* s0 s" by (simp add: progress_def)
  then show ?thesis by induction (auto intro: stmt_seqs_mono order_trans)
qed

text \<open>A rolled-back transaction only advances the sequences.\<close>

lemma progress_WithinTransaction [always_intros]:
  assumes "\<And>s1. always (progress s1) m"
  shows "always (progress s0) (WithinTransaction m)"
proof (rule alwaysI)
  fix s
  assume p: "progress s0 s"
  obtain r s' where run: "m s = (r, s')" by fastforce
  have "progress s s'" "progress s0 s'"
    using assms p run progress_schema [OF p] progress_refl by (blast intro: alwaysD)+
  with p show "progress s0 (snd (WithinTransaction m s))"
    by (cases r) (auto simp: WithinTransaction_def run intro!: progress_step [OF p] st_seq
        dest: progress_seqs_mono)
qed

lemma always_nextId [always_intros]: "always (progress s0) (nextId t)"
  by (rule alwaysI) (auto simp: nextId_def intro!: st_seq elim!: progress_step)

lemma progress_nextId:
  assumes "\<And>s i. progress s0 s \<Longrightarrow> seqs s t = i \<Longrightarrow> progress s0 (snd (f i s))"
  shows "always (progress s0) (bindE (nextId t) f)"
proof (rule alwaysI)
  fix s
  assume "progress s0 s"
  then have "progress s0 (s\<lparr>seqs := (seqs s)(t := seqs s t + 1)\<rparr>)"
    by (auto intro!: st_seq elim!: progress_step)
  then show "progress s0 (snd (bindE (nextId t) f s))"
    by (auto simp: bindE_app nextId_def intro: assms)
qed

lemma always_ask:
  "(\<And>s. I s \<Longrightarrow> I (snd (f (g s) s))) \<Longrightarrow> always I (bindE (askE g) f)"
  by (rule alwaysI) (simp add: bindE_app)

lemma progress_insert_run:
  assumes "progress s0 s"
    and "\<And>x s'. sqlInsert get upd ck uq r s = (Inr x, s') \<Longrightarrow> stmt s s'"
  shows "progress s0 (snd (sqlInsert get upd ck uq r s))"
  using assms progress_step by (cases "sqlInsert get upd ck uq r s")
    (fastforce simp: sqlInsert_def split: if_splits)

lemma progress_insertIgnore_run:
  assumes "progress s0 s"
    and "\<And>x s'. sqlInsert get upd ck uq r s = (Inr x, s') \<Longrightarrow> stmt s s'"
  shows "progress s0 (snd (sqlInsertIgnore get upd ck uq arb r s))"
  using assms by (auto simp: sqlInsertIgnore_def intro: progress_insert_run)

lemma progress_update_run:
  assumes "progress s0 s"
    and "\<And>rs s'. sqlUpdate get upd ck uq p f s = (Inr rs, s') \<Longrightarrow> stmt s s'"
  shows "progress s0 (snd (sqlUpdate get upd ck uq p f s))"
  using assms progress_step by (cases "sqlUpdate get upd ck uq p f s")
    (fastforce simp: sqlUpdate_def Let_def split: if_splits)

lemmas progress_runs = progress_insert_run progress_insertIgnore_run progress_update_run

lemma progress_insert:
  assumes "\<And>s x s'. progress s0 s \<Longrightarrow> sqlInsert get upd ck uq r s = (Inr x, s') \<Longrightarrow> stmt s s'"
  shows "always (progress s0) (sqlInsert get upd ck uq r)"
  by (rule alwaysI) (auto intro: progress_insert_run assms)

lemma progress_insertIgnore:
  assumes "\<And>s x s'. progress s0 s \<Longrightarrow> sqlInsert get upd ck uq r s = (Inr x, s') \<Longrightarrow> stmt s s'"
  shows "always (progress s0) (sqlInsertIgnore get upd ck uq arb r)"
  by (rule alwaysI) (auto intro: progress_insertIgnore_run assms)

lemma progress_update:
  assumes "\<And>s rs s'. progress s0 s \<Longrightarrow> sqlUpdate get upd ck uq p f s = (Inr rs, s') \<Longrightarrow> stmt s s'"
  shows "always (progress s0) (sqlUpdate get upd ck uq p f)"
  by (rule alwaysI) (auto intro: progress_update_run assms)

lemma progress_free:
  assumes "\<And>s. progress s0 s \<Longrightarrow> stmt s (upd (updateWhere p f) s)"
  shows "always (progress s0) (sqlUpdate get upd ck uq p f)"
  by (rule progress_update) (auto dest: sqlUpdate_InrD intro: assms)

section \<open>Tables without a lifecycle\<close>

lemma stmt_receipts: "stmt s (update_receipts_update f s)"
  using st_desk [where s = s and r = "f (update_receipts s)" and a = "admin_sessions s"] by (cases s rule: db.cases) simp

lemma stmt_sessions: "stmt s (admin_sessions_update f s)"
  using st_desk [where s = s and r = "update_receipts s" and a = "f (admin_sessions s)"] by (cases s rule: db.cases) simp

lemma stmt_events: "stmt s (payment_events_update f s)"
  using st_inbox [where s = s and e = "f (payment_events s)" and r = "payment_reviews s"] by (cases s rule: db.cases) simp

lemma stmt_reviews: "stmt s (payment_reviews_update f s)"
  using st_inbox [where s = s and e = "payment_events s" and r = "f (payment_reviews s)"] by (cases s rule: db.cases) simp

lemma progress_updateEvents [always_intros]: "always (progress s0) (updateEvents p f)"
  unfolding updateEvents_def by (rule progress_free) (rule stmt_events)

lemma progress_desk [always_intros]:
  "always (progress s0) (completeReceipt u)"
  "always (progress s0) (finishSession a ses)"
  unfolding completeReceipt_def CompleteTelegramUpdateReceipt_def finishSession_def
    FinishAdminSessionGuarded_def
  by (intro always_intros progress_free stmt_receipts stmt_sessions)+

lemma progress_InsertAuditLog [always_intros]: "always (progress s0) (InsertAuditLog p)"
  unfolding InsertAuditLog_def by (intro always_intros progress_insert) (rule st_audit)

lemma progress_events [always_intros]:
  "always (progress s0) (CompletePaymentEvent cp)"
  "always (progress s0) (completePaymentEvent e st oi ti t ec ed)"
  unfolding CompletePaymentEvent_def completePaymentEvent_def by (intro always_intros)+

lemma progress_reviews [always_intros]:
  "always (progress s0) (InsertPaymentReviewCase rp)"
  "always (progress s0) (ResolvePaymentReview_query st n a rid)"
  unfolding InsertPaymentReviewCase_def ResolvePaymentReview_query_def
  by (intro always_intros progress_free progress_insert stmt_reviews;
      auto dest!: sqlInsert_InrD intro: stmt_reviews)+

lemma progress_payments [always_intros]:
  "always (progress s0) (InsertPayment pp)"
  "always (progress s0) (InsertPaymentAllocation pid tt tid amount)"
  unfolding InsertPayment_def InsertPaymentAllocation_def
  by (intro always_intros progress_insert progress_insertIgnore; auto intro: st_payment st_allocation)+

lemma progress_InsertDeliveryAttemptEvent [always_intros]:
  "always (progress s0) (InsertDeliveryAttemptEvent p)"
  unfolding InsertDeliveryAttemptEvent_def
  by (intro always_intros progress_insert) (rule st_attempt)

lemma progress_InsertWalletLedgerEntry [always_intros]:
  "always (progress s0) (InsertWalletLedgerEntry p)"
  unfolding InsertWalletLedgerEntry_def by (intro always_intros progress_insert) (rule st_ledger)

lemma progress_InsertOrderItem [always_intros]:
  "always (progress s0) (InsertOrderItem oid pid nm up qty lt)"
  unfolding InsertOrderItem_def by (intro always_intros progress_insert) (rule st_item)

lemma progress_InsertOrderInventoryMapping [always_intros]:
  "always (progress s0) (InsertOrderInventoryMapping oid iid k)"
  unfolding InsertOrderInventoryMapping_def
  by (intro always_intros progress_insert) (auto intro: st_mapping_new)

lemma progress_InsertOrderStatusHistory [always_intros]:
  assumes "legal_history (hp_from_status p) (hp_to_status p)"
  shows "always (progress s0) (InsertOrderStatusHistory p)"
  unfolding InsertOrderStatusHistory_def
  using assms by (intro always_intros progress_insert) (auto intro: st_history)

section \<open>Orders\<close>

lemma progress_updateOrders [always_intros]:
  assumes "\<And>x. p x \<Longrightarrow> order_move x (f x)"
  shows "always (progress s0) (updateOrders p f)"
  unfolding updateOrders_def by (rule progress_update) (auto intro: st_order assms)

lemmas order_moves = order_move_def same_order_def overdue_def

lemma progress_order_moves [always_intros]:
  "always (progress s0) (CancelPendingOrderOwnedGuarded oid uid now v)"
  "always (progress s0) (ClaimOverduePendingOrders skip now n)"
  "always (progress s0) (MarkOrderPaidGuarded t oid v)"
  "always (progress s0) (MarkOrderDeliveringGuarded t oid v)"
  "always (progress s0) (MarkOrderDeliveredGuarded t oid v)"
  "always (progress s0) (MarkOrderDeliveryFailedGuarded oid)"
  unfolding CancelPendingOrderOwnedGuarded_def ClaimOverduePendingOrders_def
    MarkOrderPaidGuarded_def MarkOrderDeliveringGuarded_def MarkOrderDeliveredGuarded_def
    MarkOrderDeliveryFailedGuarded_def
  by (intro always_intros; simp add: order_moves)+

lemma progress_UpdateOrderStatusGuarded [always_intros]:
  "CanTransitionOrder f t \<Longrightarrow> always (progress s0) (UpdateOrderStatusGuarded t oid f v)"
  unfolding UpdateOrderStatusGuarded_def by (intro always_intros) (simp add: order_moves)

lemma progress_CreatePendingOrderWithBank [always_intros]:
  "always (progress s0) (CreatePendingOrderWithBank p)"
  unfolding CreatePendingOrderWithBank_def
  by (rule progress_nextId) (auto simp: bindE_app intro!: progress_insertIgnore_run intro: st_order_new)

section \<open>Stock\<close>

lemma noClash_mono: "noClash q rows \<Longrightarrow> (\<And>a b. r a b \<Longrightarrow> q a b) \<Longrightarrow> noClash r rows"
  by (induction rows) auto

lemma noClash_distinct: "noClash q rows \<Longrightarrow> (\<And>a b. k a = k b \<Longrightarrow> q a b) \<Longrightarrow> distinct (map k rows)"
  unfolding noClash_key [symmetric] by (rule noClash_mono)

lemma schema_distinct:
  assumes "schema s"
  shows "distinct (map ord_id (orders s))" "distinct (map inv_id (inventory_items s))"
    "distinct (map job_id (outbox_events s))" "distinct (map wal_id (wallet_accounts s))"
    "distinct (map top_id (wallet_topups s))" "distinct (map pay_id (payments s))"
    "distinct (map alc_payment_id (payment_allocations s))"
    "distinct (map job_deduplication_key (outbox_events s))"
    "distinct (map wal_user_id (wallet_accounts s))"
  using assms unfolding schema_def table_ok_def
  by (auto elim!: noClash_distinct simp: order_uq_def inventory_uq_def job_uq_def wallet_uq_def
      topup_uq_def payment_uq_def allocation_uq_def)

lemma same_inventory_id:
  "schema s \<Longrightarrow> i \<in> set (inventory_items s) \<Longrightarrow> j \<in> set (inventory_items s) \<Longrightarrow>
   inv_id i = inv_id j \<Longrightarrow> i = j"
  using schema_distinct(2) by (blast intro: distinct_map_inj)

lemma same_job_id:
  "schema s \<Longrightarrow> i \<in> set (outbox_events s) \<Longrightarrow> j \<in> set (outbox_events s) \<Longrightarrow>
   job_id i = job_id j \<Longrightarrow> i = j"
  using schema_distinct(3) by (blast intro: distinct_map_inj)

lemma selectedItems_claimable:
  assumes "schema s" "i \<in> set (inventory_items s)" "inv_id i \<in> set (selectedItems skip pid n s)"
  shows "claimable s pid i"
proof -
  from assms(3) obtain j where "j \<in> set (inventory_items s)" "claimable s pid j" "inv_id j = inv_id i"
    by (auto simp: selectedItems_def dest!: in_set_takeD)
  with assms show ?thesis by (metis same_inventory_id)
qed

lemma exactReserved_reserved:
  assumes "schema s" "i \<in> set (inventory_items s)"
    and "inv_id i \<in> (\<lambda>(m, i). inv_id i) ` set (exactReserved s oid)"
  shows "reservedFor oid i"
proof -
  from assms(3) obtain j where "j \<in> set (inventory_items s)" "reservedFor oid j" "inv_id j = inv_id i"
    by (auto simp: exactReserved_def reservedFor_def)
  with assms show ?thesis by (metis same_inventory_id)
qed

lemma progress_updateInventory_run:
  assumes "progress s0 s"
    and "\<And>i. i \<in> set (inventory_items s) \<Longrightarrow> p i \<Longrightarrow> stock_move i (f i)"
  shows "progress s0 (snd (updateInventory p f s))"
  unfolding updateInventory_def using assms by (auto intro!: progress_update_run intro: st_stock)

lemma snd_bind_return: "snd (bindE m (\<lambda>x. returnE (g x)) s) = snd (m s)"
  by (auto simp: bindE_app split: prod.splits sum.splits)

lemmas stock_moves = stock_move_def same_stock_def reserveItem_def claimable_def reservedFor_def

lemma progress_claim_run:
  assumes "progress s0 s" "set ids \<subseteq> set (selectedItems skip pid n s)"
  shows "progress s0 (snd (updateInventory (\<lambda>i. inv_id i \<in> set ids) (reserveItem oid t) s))"
proof (rule progress_updateInventory_run [OF assms(1)])
  fix i
  assume "i \<in> set (inventory_items s)" "inv_id i \<in> set ids"
  with assms have "claimable s pid i" by (meson selectedItems_claimable progress_schema subsetD)
  then show "stock_move i (reserveItem oid t i)" by (simp add: stock_moves)
qed

lemma progress_ClaimAvailableInventory [always_intros]:
  "always (progress s0) (ClaimAvailableInventory skip oid t pid n)"
  unfolding ClaimAvailableInventory_def
  by (intro always_if always_throwE always_ask) (auto simp: snd_bind_return intro!: progress_claim_run)

lemma progress_ClaimExactAvailableInventory [always_intros]:
  "always (progress s0) (ClaimExactAvailableInventory skip oid t pid n)"
  unfolding ClaimExactAvailableInventory_def Let_def
  by (intro always_if always_throwE always_ask)
    (simp only: snd_bind_return, rule progress_claim_run [where skip = skip and pid = pid and n = n], assumption, auto)

lemma progress_ReleaseReservedInventoryByOrder [always_intros]:
  "always (progress s0) (ReleaseReservedInventoryByOrder oid)"
  unfolding ReleaseReservedInventoryByOrder_def
  by (rule alwaysI) (auto simp: snd_bind_return stock_moves intro!: progress_updateInventory_run)

lemma progress_MarkExactReservedInventorySold [always_intros]:
  "always (progress s0) (MarkExactReservedInventorySold oid n)"
  unfolding MarkExactReservedInventorySold_def Let_def
proof (rule always_ask, simp only: snd_bind_return, rule progress_updateInventory_run)
  fix s i
  assume "progress s0 s" "i \<in> set (inventory_items s)"
    and "inv_id i \<in> set (if int (length (map (\<lambda>(m, i). inv_id i) (exactReserved s oid))) = n
      then map (\<lambda>(m, i). inv_id i) (exactReserved s oid) else [])"
  then have "reservedFor oid i"
    by (intro exactReserved_reserved [of s]) (auto dest: progress_schema split: if_splits)
  then show "stock_move i (i\<lparr>inv_status := InventoryStatusSold, inv_reserved_order_id := None,
      inv_reserved_until := None, inv_sold_order_id := Some oid, inv_version := inv_version i + 1\<rparr>)"
    by (simp add: stock_moves)
qed

lemma progress_MarkOrderInventoryMappingsReleased [always_intros]:
  "always (progress s0) (MarkOrderInventoryMappingsReleased r oid ids)"
  unfolding MarkOrderInventoryMappingsReleased_def
  by (intro always_intros progress_update) (auto simp: mapping_release_def intro: st_mapping)

section \<open>Wallets\<close>

lemma progress_EnsureWalletAccount [always_intros]: "always (progress s0) (EnsureWalletAccount uid)"
  unfolding EnsureWalletAccount_def
  by (rule progress_nextId)
    (auto simp: bindE_app intro!: progress_insert_run intro: st_wallet_new split: list.splits)

lemma progress_UpdateWalletBalance [always_intros]: "always (progress s0) (UpdateWalletBalance a wid)"
  unfolding UpdateWalletBalance_def
  by (intro always_intros progress_update) (auto simp: wallet_move_def intro: st_wallet)

lemma progress_CreateWalletTopup_query [always_intros]:
  "always (progress s0) (CreateWalletTopup_query p)"
  unfolding CreateWalletTopup_query_def
  by (intro always_intros progress_insertIgnore) (auto intro: st_topup_new)

lemma progress_topups [always_intros]:
  "always (progress s0) (MarkWalletTopupCredited t tid v)"
  "always (progress s0) (MarkWalletTopupReview tid)"
  unfolding MarkWalletTopupCredited_def MarkWalletTopupReview_def updateTopups_def
  by (intro always_intros progress_update; auto simp: topup_move_def intro: st_topup)+

section \<open>The queue\<close>

lemma progress_updateJobs_run:
  assumes "progress s0 s"
    and "\<And>j. j \<in> set (outbox_events s) \<Longrightarrow> p j \<Longrightarrow> job_move j (f j)"
  shows "progress s0 (snd (updateJobs p f s))"
  unfolding updateJobs_def using assms by (auto intro!: progress_update_run intro: st_job)

lemma progress_updateJobs:
  "(\<And>j. p j \<Longrightarrow> job_move j (f j)) \<Longrightarrow> always (progress s0) (updateJobs p f)"
  by (rule alwaysI) (rule progress_updateJobs_run)

lemmas job_moves = job_move_def same_job_def queue_move_def CanTransitionDelivery_def
  DeliveryJobStatus_IsValid_def unlockJob_def lockedStage_def processingStage_def jobClaimable_def

lemma progress_InsertDeliveryJob [always_intros]:
  "always (progress s0) (InsertDeliveryJob oid n t c)"
  unfolding InsertDeliveryJob_def
  by (intro always_intros progress_insertIgnore) (auto simp: keyed_job_def intro: st_job_new)

lemma progress_job_moves [always_intros]:
  "always (progress s0) (MarkStaleDeliveryClaimRetryable t jid)"
  "always (progress s0) (MarkStaleDeliverySendAmbiguous jid)"
  "always (progress s0) (BeginDeliverySend t jid w)"
  "always (progress s0) (MarkDeliveryRetryable t ec ed jid w)"
  "always (progress s0) (MarkClaimedDeliveryFailure cp)"
  "always (progress s0) (MarkDeliveryPermanentFailed ec ed t jid w)"
  "always (progress s0) (MarkDeliveryAmbiguous mid st ec ed jid)"
  "always (progress s0) (MarkDeliveryCompleted m t ct jid w)"
  "always (progress s0) (ManualRetryDeliveryJob t re aid ra jid v)"
  "always (progress s0) (ManualCompleteDeliveryJob m ra re aid jid v)"
  unfolding MarkStaleDeliveryClaimRetryable_def MarkStaleDeliverySendAmbiguous_def
    BeginDeliverySend_def MarkDeliveryRetryable_def MarkClaimedDeliveryFailure_def
    MarkDeliveryPermanentFailed_def MarkDeliveryAmbiguous_def MarkDeliveryCompleted_def
    ManualRetryDeliveryJob_def ManualCompleteDeliveryJob_def
  by (intro always_intros progress_updateJobs; auto simp: job_moves)+

lemma progress_ClaimDeliveryJobs_query [always_intros]:
  "always (progress s0) (ClaimDeliveryJobs_query skip t w n)"
proof -
  have "jobClaimable t j"
    if "schema s" "j \<in> set (outbox_events s)" "job_id j \<in> set (map job_id (take m (filter p
      (sort_key f (sort_key g (sort_key h (filter (jobClaimable t) (outbox_events s))))))))"
    for s j m p and f :: "job_row \<Rightarrow> int" and g :: "job_row \<Rightarrow> int" and h :: "job_row \<Rightarrow> int"
  proof -
    from that(3) obtain i where "i \<in> set (outbox_events s)" "jobClaimable t i" "job_id i = job_id j"
      by (auto dest!: in_set_takeD)
    with that show ?thesis by (metis same_job_id)
  qed
  note claimable = this
  show ?thesis
    unfolding ClaimDeliveryJobs_query_def
  proof (intro always_if always_throwE always_ask progress_updateJobs_run)
    fix s j
    assume "progress s0 s" "j \<in> set (outbox_events s)"
      and "job_id j \<in> set (map job_id (take (nat n) (filter (\<lambda>j. \<not> skip (job_id j))
        (sort_key job_next_attempt_at (sort_key job_created_at (sort_key job_id
          (filter (jobClaimable t) (outbox_events s))))))))"
    then have "jobClaimable t j" using claimable progress_schema by blast
    then show "job_move j (j\<lparr>job_status := DeliveryJobProcessing, job_processing_stage := Some ''claimed'',
      job_locked_at := Some t, job_locked_by := w, job_last_error_code := None,
      job_last_error_detail := None, job_version := job_version j + 1\<rparr>)"
      by (auto simp: job_moves)
  qed
qed

end
