(* ===== verification/Shop_System.thy ===== *)
theory Shop_System
  imports Progress
begin

text \<open>
  The whole system as a transition relation. \<open>shop_step\<close> has one rule per entry point of the
  services, run to its end with any arguments and whether it succeeds or fails, and the
  environment's steps: time, catalog and account administration, stock imports. Entry
  points that are transactions are atomic; the delivery worker's pass is broken up at its
  transactions, so other entry points interleave with it. The locales state what an invariant or
  a two-state relation has to satisfy to hold in every reachable state, namely being kept by
  single statements.
\<close>

section \<open>Handlers are statement sequences\<close>

lemma legal_history_simps [simp]:
  "legal_history None t \<longleftrightarrow> t = OrderStatusPendingPayment"
  "legal_history (Some f) t \<longleftrightarrow> CanTransitionOrder f t"
  by (simp_all add: legal_history_def)

lemma always_Let [always_intros]: "always I (f x) \<Longrightarrow> always I (Let x f)"
  by simp

lemma always_case_class [always_intros]:
  "always I a \<Longrightarrow> always I b \<Longrightarrow> always I c \<Longrightarrow> always I d \<Longrightarrow> (\<And>x. always I (e x)) \<Longrightarrow>
   always I (case k of DeliveryResultSuccess \<Rightarrow> a | DeliveryResultRetryable \<Rightarrow> b
     | DeliveryResultPermanent \<Rightarrow> c | DeliveryResultAmbiguous \<Rightarrow> d | DeliveryResultOther x \<Rightarrow> e x)"
  by (cases k) simp_all

lemma always_queries [always_intros]:
  "always I (LockUserForOrderCreation u)" "always I (LockUserByTelegramID u)"
  "always I (GetUserByTelegramID u)" "always I (GetAdminAuthorizationByTelegramID u)"
  "always I (GetActiveBankAccountForOrder b env)" "always I (LockAdminSessionByID sid)"
  "always I (GetProductForOrderCreation pid)" "always I (CountClaimableInventoryForOrder pid)"
  "always I (FindOrderByUserIdempotency uid k)" "always I (FindOrderByPaymentReference rf)"
  "always I (LockOrderByPaymentReference rf)" "always I (CountOrdersOwnedByTelegramUser u)"
  "always I (ListOrdersOwnedByTelegramUser u po pl)"
  "always I (GetOrderDetailOwnedByTelegramUser oid u)"
  "always I (LockOrderDetailOwnedByTelegramUser oid u)" "always I (LockOrderForUpdate oid)"
  "always I (LockOrderItemForInventory it oid pid)" "always I (ListReservedInventoryIDsByOrder oid)"
  "always I (CountExpiredReservationsByOrder oid t)" "always I (LockWalletAccount wid)"
  "always I (FindWalletTopupByIdempotency uid k)" "always I (LockWalletTopupByReference rf)"
  "always I (LockPaymentEvent eid)" "always I (GetPaymentByProviderTransaction pr env tx)"
  "always I (GetPaymentAllocation pid)" "always I (CountPaymentReferenceTargets rf)"
  "always I (LockOrderForDeliveryHandoff oid)" "always I (CountExactReservedInventoryForOrder oid)"
  "always I (GetDeliveryJobByOrder oid)" "always I (ListDeliveryBackfillOrderIDs skip n)"
  "always I (LockStaleDeliveryJobs skip t n)" "always I (LockDeliveryJob jid)"
  "always I (LoadDeliveryEnvelope jid)" "always I (ListEncryptedInventoryForDelivery oid)"
  unfolding LockUserForOrderCreation_def LockUserByTelegramID_def GetUserByTelegramID_def
    GetAdminAuthorizationByTelegramID_def GetActiveBankAccountForOrder_def LockAdminSessionByID_def
    GetProductForOrderCreation_def CountClaimableInventoryForOrder_def
    FindOrderByUserIdempotency_def FindOrderByPaymentReference_def LockOrderByPaymentReference_def
    CountOrdersOwnedByTelegramUser_def ListOrdersOwnedByTelegramUser_def
    GetOrderDetailOwnedByTelegramUser_def LockOrderDetailOwnedByTelegramUser_def
    LockOrderForUpdate_def LockOrderItemForInventory_def ListReservedInventoryIDsByOrder_def
    CountExpiredReservationsByOrder_def LockWalletAccount_def FindWalletTopupByIdempotency_def
    LockWalletTopupByReference_def LockPaymentEvent_def GetPaymentByProviderTransaction_def
    GetPaymentAllocation_def CountPaymentReferenceTargets_def LockOrderForDeliveryHandoff_def
    CountExactReservedInventoryForOrder_def GetDeliveryJobByOrder_def
    ListDeliveryBackfillOrderIDs_def LockStaleDeliveryJobs_def LockDeliveryJob_def
    LoadDeliveryEnvelope_def ListEncryptedInventoryForDelivery_def
  by (intro always_intros)+

lemma always_access [always_intros]:
  "always I (authorizeAdmin u)" "always I (authorizePaymentAdmin u)" "always I (requireCatalogAdmin a)"
  "always I (lockAndVerifySession t aid ses st)" "always I (lockActiveUser u)"
  "always I (findExisting cmd)"
  unfolding authorizeAdmin_def authorizePaymentAdmin_def requireCatalogAdmin_def
    lockAndVerifySession_def lockActiveUser_def findExisting_def
  by (intro always_intros)+

lemma progress_audits [always_intros]:
  "always (progress s0) (insertSystemInventoryAudit ac rt rid af rq)"
  "always (progress s0) (InsertInventoryRecoveryAuditOnce oid ost rq')"
  "always (progress s0) (insertPaymentAudit cmd pid oid dec rs)"
  "always (progress s0) (insertDeliveryAudit jid oid ac aty aid rs rq)"
  "always (progress s0) (insertManualDeliveryAudit aid jb ja ac c)"
  "always (progress s0) (insertDeliveryAttempt j st t fl re)"
  unfolding insertSystemInventoryAudit_def InsertInventoryRecoveryAuditOnce_def
    insertPaymentAudit_def insertDeliveryAudit_def insertManualDeliveryAudit_def
    insertDeliveryAttempt_def
  by (intro always_intros)+

lemma progress_histories [always_intros]:
  "legal_history (Some f) t \<Longrightarrow> always (progress s0) (insertPaymentOrderHistory ac rq oid f t re)"
  "legal_history g u \<Longrightarrow> always (progress s0) (InsertOrderHistory oid g u re aty ai rq)"
  "always (progress s0) (expiryHistory row)"
  "always (progress s0) (markOrderDeliveryFailed job re)"
  unfolding insertPaymentOrderHistory_def InsertOrderHistory_def expiryHistory_def
    markOrderDeliveryFailed_def
  by (intro always_intros; simp)+

subsection \<open>Inventory\<close>

lemma progress_inventory [always_intros]:
  "always (progress s0) (releaseInventoryForOrder oid re rq)"
  "always (progress s0) (InventoryReservationService_Claim skip ttl now cr)"
  "always (progress s0) (InventoryReservationService_Release rr)"
  "always (progress s0) (InventoryReservationService_RecoverExpired oid now rq)"
  unfolding releaseInventoryForOrder_def InventoryReservationService_Claim_def ClaimInventory_def
    InventoryReservationService_Release_def ReleaseInventory_def
    InventoryReservationService_RecoverExpired_def RecoverExpiredReservation_def
  by (intro always_intros)+

subsection \<open>Delivery\<close>

lemma progress_handoff [always_intros]:
  "always (progress s0) (createDeliveryHandoffWithinTransaction oid t n aty aid rq)"
  unfolding createDeliveryHandoffWithinTransaction_def by (intro always_intros; simp)

lemma progress_backfillLoop [always_intros]: "always (progress s0) (backfillLoop now n ids k)"
  by (induction ids arbitrary: k) (simp_all only: backfillLoop.simps, (intro always_intros | assumption)+)

lemma progress_recoverStaleLoop [always_intros]:
  "always (progress s0) (recoverStaleLoop now jobs r)"
  by (induction jobs arbitrary: r) (simp_all only: recoverStaleLoop.simps, (intro always_intros | assumption)+)

lemma progress_delivery [always_intros]:
  "always (progress s0) (BackfillDeliveryJobs skip now n m)"
  "always (progress s0) (RecoverStaleDeliveryJobs skip now sb n)"
  "always (progress s0) (ClaimDeliveryJobs skip now w n)"
  "always (progress s0) (LoadClaimedDelivery jid w)"
  "always (progress s0) (BeginDeliveryAttempt jid w t)"
  "always (progress s0) (FinalizeDeliverySuccess jid w su)"
  "always (progress s0) (FinalizeDeliveryFailure jid w fl)"
  "always (progress s0) (FinalizeClaimedDeliveryFailure jid w fl)"
  "always (progress s0) (PreserveAmbiguousSuccess jid su re)"
  unfolding BackfillDeliveryJobs_def RecoverStaleDeliveryJobs_def ClaimDeliveryJobs_def
    LoadClaimedDelivery_def BeginDeliveryAttempt_def FinalizeDeliverySuccess_def
    FinalizeDeliveryFailure_def FinalizeClaimedDeliveryFailure_def PreserveAmbiguousSuccess_def
  by (intro always_intros; simp)+

lemma progress_manual_delivery [always_intros]:
  "always (progress s0) (DeliveryAdminService_Retry now c)"
  "always (progress s0) (DeliveryAdminService_Complete now c)"
  unfolding DeliveryAdminService_Retry_def RetryDelivery_def DeliveryAdminService_Complete_def
    CompleteDelivery_def
  by (intro always_intros; simp)+

subsection \<open>Payments and wallets\<close>

lemma progress_payment_reviews [always_intros]:
  "always (progress s0) (recordPaymentReview cmd p oid re t r)"
  "always (progress s0) (recordTopupReview cmd pid tid re t r)"
  "always (progress s0) (handleExistingPayment cmd ex t r)"
  unfolding recordPaymentReview_def recordTopupReview_def handleExistingPayment_def
  by (intro always_intros)+

lemma progress_acceptance [always_intros]:
  "always (progress s0) (acceptWalletTopupPayment cmd tp t r)"
  "always (progress s0) (fulfilConfirmedOrder skip cmd ord it pay t ttl n r)"
  "always (progress s0) (acceptOrderPayment skip cmd ord it t ttl n r)"
  "always (progress s0) (resolvePaymentTarget skip cmd t ttl n r)"
  "always (progress s0) (acceptPaymentWithinTransaction skip cmd t ttl n)"
  unfolding acceptWalletTopupPayment_def fulfilConfirmedOrder_def acceptOrderPayment_def
    resolvePaymentTarget_def acceptPaymentWithinTransaction_def insertOrderPayment_def
  by (intro always_intros; simp)+

lemma progress_payment_entries [always_intros]:
  "always (progress s0) (PaymentAcceptanceService_Accept skip ttl n now cmd)"
  "always (progress s0) (ManualAcceptPayment skip now mc t ttl ns)"
  "always (progress s0) (ResolvePaymentReview now rc)"
  unfolding PaymentAcceptanceService_Accept_def AcceptPayment_def ManualAcceptPayment_def
    ResolvePaymentReview_def
  by (intro always_intros)+

lemma progress_wallet_entries [always_intros]:
  "always (progress s0) (walletSettleOrder cmd us ord it wl ids t n tx)"
  "always (progress s0) (WalletService_Balance u)"
  "always (progress s0) (WalletService_PayOrder skip ttl n now pc)"
  "always (progress s0) (WalletService_Adjust now ac)"
  "always (progress s0) (WalletService_CreateTopup mn mx ex env rf ins now tc)"
  unfolding walletSettleOrder_def WalletService_Balance_def EnsureWallet_def
    WalletService_PayOrder_def PayOrderWithWallet_def WalletService_Adjust_def AdjustWallet_def
    WalletService_CreateTopup_def CreateWalletTopup_def
  by (intro always_intros; simp)+

subsection \<open>Orders\<close>

lemma progress_createLoop [always_intros]:
  "always (progress s0) (createLoop n refs cmd us pr tot bk ex env)"
  unfolding InsertPendingOrder_def
  by (induction n) (simp_all only: createLoop.simps InsertPendingOrder_def,
      (intro always_intros | assumption | simp)+)

lemma progress_order_entries [always_intros]:
  "always (progress s0) (OrderService_Create refs ins cfg now cc)"
  "always (progress s0) (OrderService_Cancel now cn)"
  "always (progress s0) (OrderExpiryService_RunOnce skip n now)"
  unfolding OrderService_Create_def createOrderTx_def OrderService_Cancel_def cancelOrderTx_def
    OrderExpiryService_RunOnce_def ExpireOverdueOrders_def
  by (intro always_intros; simp add: legal_history_simps)+

section \<open>The transition relation\<close>

inductive env_step :: "db \<Rightarrow> db \<Rightarrow> bool" where
  env_catalog:
    "env_step s (s\<lparr>users := u, admins := a, categories := c, products := pr, bank_accounts := b,
       provider_accounts := pa, checkpoints := ch, clock := t\<rparr>)"
| env_desk: "env_step s (s\<lparr>update_receipts := r, admin_sessions := a\<rparr>)"
| env_inbox: "env_step s (s\<lparr>payment_events := e, payment_reviews := r\<rparr>)"
| env_import:
    "sqlInsert inventory_items inventory_items_update inventory_ck inventory_uq r s = (Inr x, s') \<Longrightarrow>
     inv_status r = InventoryStatusAvailable \<Longrightarrow> env_step s s'"
| env_toggle:
    "updateInventory p f s = (Inr rs, s') \<Longrightarrow>
     (\<And>i. i \<in> set (inventory_items s) \<Longrightarrow> p i \<Longrightarrow> stock_toggle i (f i)) \<Longrightarrow> env_step s s'"
| env_seq: "(\<And>t. seqs s t \<le> q t) \<Longrightarrow> env_step s (s\<lparr>seqs := q\<rparr>)"
| env_audit:
    "sqlInsert audit_logs audit_logs_update audit_ck (\<lambda>a b. aud_id a = aud_id b) r s = (Inr x, s') \<Longrightarrow>
     env_step s s'"

inductive shop_step :: "db \<Rightarrow> db \<Rightarrow> bool" where
  sh_env: "env_step s s' \<Longrightarrow> shop_step s s'"
| sh_claim: "InventoryReservationService_Claim skip ttl now cr s = (r1, s') \<Longrightarrow> shop_step s s'"
| sh_release: "InventoryReservationService_Release rr s = (r2, s') \<Longrightarrow> shop_step s s'"
| sh_recover: "InventoryReservationService_RecoverExpired oid now rq s = (r3, s') \<Longrightarrow> shop_step s s'"
| sh_create: "OrderService_Create refs (ins :: OrderDetail \<Rightarrow> error + unit) cfg now cc s = (r4, s') \<Longrightarrow>
    shop_step s s'"
| sh_cancel: "OrderService_Cancel now cn s = (r5, s') \<Longrightarrow> shop_step s s'"
| sh_expire: "OrderExpiryService_RunOnce skip n now s = (r6, s') \<Longrightarrow> shop_step s s'"
| sh_accept: "PaymentAcceptanceService_Accept skip ttl n now cmd s = (r7, s') \<Longrightarrow> shop_step s s'"
| sh_manual: "ManualAcceptPayment skip now mc t ttl ns s = (r8, s') \<Longrightarrow> shop_step s s'"
| sh_resolve: "ResolvePaymentReview now rc s = (r9, s') \<Longrightarrow> shop_step s s'"
| sh_balance: "WalletService_Balance u s = (r10, s') \<Longrightarrow> shop_step s s'"
| sh_topup: "WalletService_CreateTopup mn mx ex env rf (tin :: topup_row \<Rightarrow> error + unit) now tc s = (r11, s') \<Longrightarrow>
    shop_step s s'"
| sh_pay: "WalletService_PayOrder skip ttl n now pc s = (r12, s') \<Longrightarrow> shop_step s s'"
| sh_adjust: "WalletService_Adjust now ac s = (r13, s') \<Longrightarrow> shop_step s s'"
| sh_backfill: "BackfillDeliveryJobs skip now n m s = (r14, s') \<Longrightarrow> shop_step s s'"
| sh_stale: "RecoverStaleDeliveryJobs skip now sb n s = (r15, s') \<Longrightarrow> shop_step s s'"
| sh_jobs: "ClaimDeliveryJobs skip now w n s = (r16, s') \<Longrightarrow> shop_step s s'"
| sh_begin: "BeginDeliveryAttempt jid w t s = (r17, s') \<Longrightarrow> shop_step s s'"
| sh_success: "FinalizeDeliverySuccess jid w su s = (r18, s') \<Longrightarrow> shop_step s s'"
| sh_failure: "FinalizeDeliveryFailure jid w fl s = (r19, s') \<Longrightarrow> shop_step s s'"
| sh_presend: "failBeforeSend dl w wi code cause now s = (r20, s') \<Longrightarrow> shop_step s s'"
| sh_ambiguous: "PreserveAmbiguousSuccess jid su re s = (r21, s') \<Longrightarrow> shop_step s s'"
| sh_retry: "DeliveryAdminService_Retry now dc s = (r22, s') \<Longrightarrow> shop_step s s'"
| sh_complete: "DeliveryAdminService_Complete now dc s = (r23, s') \<Longrightarrow> shop_step s s'"

definition empty_db :: "time \<Rightarrow> db" where
  "empty_db t = \<lparr>users = [], admins = [], admin_sessions = [], categories = [], products = [],
     bank_accounts = [], update_receipts = [], provider_accounts = [], checkpoints = [],
     orders = [], order_items = [], order_history = [], inventory_items = [], order_inventory = [],
     payments = [], payment_events = [], payment_allocations = [], payment_reviews = [],
     wallet_accounts = [], wallet_ledger = [], wallet_topups = [], outbox_events = [],
     delivery_attempts = [], audit_logs = [], seqs = (\<lambda>_. 0), clock = t\<rparr>"

definition reachable :: "db \<Rightarrow> bool" where
  "reachable s \<longleftrightarrow> (\<exists>t. shop_step\<^sup>*\<^sup>* (empty_db t) s)"

lemma env_step_stmt: "env_step s s' \<Longrightarrow> stmt s s'"
  by (induction rule: env_step.induct) (auto simp: updateInventory_def intro: stmt.intros)

lemma progress_failBeforeSend: "always (progress s0) (failBeforeSend dl w wi code cause now)"
  unfolding failBeforeSend_def by (intro always_intros)

text \<open>The simulation at the level of statements: every system step is a sequence of them.\<close>

lemma shop_step_progress: "shop_step s s' \<Longrightarrow> schema s \<Longrightarrow> progress s s'"
proof (induction rule: shop_step.induct)
  case (sh_env s s')
  then show ?case by (meson env_step_stmt progress_refl progress_step)
qed (blast intro: progress_refl alwaysD always_intros progress_failBeforeSend)+

lemma schema_empty [simp]: "schema (empty_db t)"
  by (simp add: schema_def empty_db_def table_ok_def)

lemma shop_steps_progress: "shop_step\<^sup>*\<^sup>* s s' \<Longrightarrow> schema s \<Longrightarrow> progress s s'"
proof (induction rule: rtranclp_induct)
  case (step t u)
  then have "progress s t" by simp
  moreover from this step have "progress t u" by (blast intro: shop_step_progress progress_schema)
  ultimately show ?case by (auto simp: progress_def)
qed (rule progress_refl)

lemma reachable_schema: "reachable s \<Longrightarrow> schema s"
  unfolding reachable_def using shop_steps_progress progress_schema schema_empty by blast

lemma reachable_step: "reachable s \<Longrightarrow> shop_step s s' \<Longrightarrow> reachable s'"
  unfolding reachable_def by (meson rtranclp.rtrancl_into_rtrancl)

lemma reachable_steps: "reachable s \<Longrightarrow> shop_step\<^sup>*\<^sup>* s s' \<Longrightarrow> reachable s'"
  unfolding reachable_def by (meson rtranclp_trans)

section \<open>Invariants and relations of the store\<close>

text \<open>An invariant that single statements keep holds along every run of the system.\<close>

locale store_invariant =
  fixes I :: "db \<Rightarrow> bool"
  assumes stmt_keeps: "schema s \<Longrightarrow> I s \<Longrightarrow> stmt s s' \<Longrightarrow> I s'"
begin

lemma progress_keeps: "progress s0 s \<Longrightarrow> I s0 \<Longrightarrow> I s"
proof -
  assume "progress s0 s" "I s0"
  then have "stmt\<^sup>*\<^sup>* s0 s" "schema s0" by (simp_all add: progress_def)
  then show "I s" using \<open>I s0\<close>
  proof (induction rule: rtranclp_induct)
    case (step t u)
    then have "progress s0 t" by (simp add: progress_def)
    with step show ?case by (blast intro: stmt_keeps progress_schema)
  qed
qed

lemma steps_keep: "shop_step\<^sup>*\<^sup>* s s' \<Longrightarrow> schema s \<Longrightarrow> I s \<Longrightarrow> I s'"
  by (blast intro: progress_keeps shop_steps_progress)

lemma reachable_keeps: "reachable s \<Longrightarrow> (\<And>t. I (empty_db t)) \<Longrightarrow> I s"
  unfolding reachable_def by (blast intro: steps_keep schema_empty)

end

text \<open>A reflexive and transitive relation that holds across single statements.\<close>

locale store_relation =
  fixes R :: "db \<Rightarrow> db \<Rightarrow> bool"
  assumes R_refl: "R s s"
    and R_trans: "R s t \<Longrightarrow> R t u \<Longrightarrow> R s u"
    and stmt_related: "schema s \<Longrightarrow> stmt s s' \<Longrightarrow> R s s'"

sublocale store_relation \<subseteq> past: store_invariant "R s0" for s0
  by unfold_locales (blast intro: R_trans stmt_related)

context store_relation
begin

lemma steps_related: "shop_step\<^sup>*\<^sup>* s s' \<Longrightarrow> schema s \<Longrightarrow> R s s'"
  by (rule past.steps_keep [OF _ _ R_refl])

end

end
