(* ===== verification/Shop_Spec.thy ===== *)
theory Shop_Spec
  imports Database
begin

text \<open>
  The abstract shop. A case file holds what matters about one order: its status and the trail of
  its changes, price and quantity, the state of its delivery job, the stock reserved, handed
  over and sold to it, and the money allocated to it. A wallet is a balance beside the sum of
  its ledger. \<open>spec_step\<close> is the specification of what the program may do to them; \<open>shop_ok\<close>
  is the invariant that makes the shop correct, proved by rule induction. The refinement
  theories show that the database transactions implement exactly these steps.
\<close>

section \<open>State\<close>

record case_file =
  cf_status :: "OrderStatus option"
  cf_total :: int
  cf_qty :: "int list"
  cf_job :: "(int \<times> DeliveryJobStatus) option" \<comment> \<open>its id and status\<close>
  cf_reserved :: "int set"
  cf_mapped :: "int set"
  cf_sold :: "int set"
  cf_alloc :: "int list"
  cf_trail :: "(OrderStatus option \<times> OrderStatus) list"

record wallet_file =
  wf_balance :: "int option"
  wf_ledger :: int

record topup_file =
  tf_status :: "string option"
  tf_amount :: int
  tf_alloc :: "int list"

record shop =
  sf_file :: "int \<Rightarrow> case_file"
  sf_wallet :: "int \<Rightarrow> wallet_file"
  sf_topup :: "int \<Rightarrow> topup_file"

definition file_upd :: "int \<Rightarrow> (case_file \<Rightarrow> case_file) \<Rightarrow> shop \<Rightarrow> shop" where
  "file_upd k g A = A\<lparr>sf_file := (sf_file A)(k := g (sf_file A k))\<rparr>"

definition wallet_upd :: "int \<Rightarrow> (wallet_file \<Rightarrow> wallet_file) \<Rightarrow> shop \<Rightarrow> shop" where
  "wallet_upd w g A = A\<lparr>sf_wallet := (sf_wallet A)(w := g (sf_wallet A w))\<rparr>"

definition topup_upd :: "int \<Rightarrow> (topup_file \<Rightarrow> topup_file) \<Rightarrow> shop \<Rightarrow> shop" where
  "topup_upd t g A = A\<lparr>sf_topup := (sf_topup A)(t := g (sf_topup A t))\<rparr>"

lemmas upd_defs = file_upd_def wallet_upd_def topup_upd_def

lemma upd_simps [simp]:
  "sf_file (file_upd k g A) l = (if l = k then g (sf_file A k) else sf_file A l)"
  "sf_wallet (file_upd k g A) = sf_wallet A" "sf_topup (file_upd k g A) = sf_topup A"
  "sf_wallet (wallet_upd w h A) v = (if v = w then h (sf_wallet A w) else sf_wallet A v)"
  "sf_file (wallet_upd w h A) = sf_file A" "sf_topup (wallet_upd w h A) = sf_topup A"
  "sf_topup (topup_upd t u A) x = (if x = t then u (sf_topup A t) else sf_topup A x)"
  "sf_file (topup_upd t u A) = sf_file A" "sf_wallet (topup_upd t u A) = sf_wallet A"
  "file_upd k g (file_upd k g' A) = file_upd k (\<lambda>f. g (g' f)) A"
  "wallet_upd w h (wallet_upd w h' A) = wallet_upd w (\<lambda>f. h (h' f)) A"
  "topup_upd t u (topup_upd t u' A) = topup_upd t (\<lambda>f. u (u' f)) A"
  "file_upd k g (wallet_upd w h A) = wallet_upd w h (file_upd k g A)"
  "file_upd k g (topup_upd t u A) = topup_upd t u (file_upd k g A)"
  "wallet_upd w h (topup_upd t u A) = topup_upd t u (wallet_upd w h A)"
  by (simp_all add: upd_defs)

lemma upd_id [simp]:
  "file_upd k (\<lambda>f. f) A = A" "wallet_upd k (\<lambda>f. f) A = A" "topup_upd k (\<lambda>f. f) A = A"
  by (simp_all add: upd_defs)

lemma file_upd_cong: "g (sf_file A k) = h (sf_file A k) \<Longrightarrow> file_upd k g A = file_upd k h A"
  by (simp add: upd_defs)

lemma topup_upd_cong: "g (sf_topup A k) = h (sf_topup A k) \<Longrightarrow> topup_upd k g A = topup_upd k h A"
  by (simp add: upd_defs)

lemma wallet_upd_cong: "g (sf_wallet A k) = h (sf_wallet A k) \<Longrightarrow> wallet_upd k g A = wallet_upd k h A"
  by (simp add: upd_defs)

definition blank_file :: case_file where
  "blank_file = \<lparr>cf_status = None, cf_total = 0, cf_qty = [], cf_job = None, cf_reserved = {},
     cf_mapped = {}, cf_sold = {}, cf_alloc = [], cf_trail = []\<rparr>"

definition new_file :: "int \<Rightarrow> int \<Rightarrow> case_file" where
  "new_file amt q = blank_file\<lparr>cf_status := Some OrderStatusPendingPayment, cf_total := amt,
     cf_qty := [q], cf_trail := [(None, OrderStatusPendingPayment)]\<rparr>"

text \<open>A change of status, always with its line in the trail.\<close>

definition go :: "OrderStatus \<Rightarrow> case_file \<Rightarrow> case_file" where
  "go t f = f\<lparr>cf_status := Some t, cf_trail := cf_trail f @ [(cf_status f, t)]\<rparr>"

text \<open>An order with its stock in place gets its delivery job.\<close>

definition resume :: "int \<Rightarrow> case_file \<Rightarrow> case_file" where
  "resume jid f = (go OrderStatusDelivering f)\<lparr>cf_job := Some (jid, DeliveryJobPending)\<rparr>"

text \<open>Payment settled: through paid and reserving to delivering, with stock, money and a job.\<close>

definition settle :: "int \<Rightarrow> int set \<Rightarrow> case_file \<Rightarrow> case_file" where
  "settle jid ids f = go OrderStatusDelivering (go OrderStatusReserving (go OrderStatusPaid f))
     \<lparr>cf_job := Some (jid, DeliveryJobPending), cf_reserved := ids, cf_mapped := ids,
      cf_alloc := [cf_total f]\<rparr>"

definition run_short :: "case_file \<Rightarrow> case_file" where
  "run_short f = go OrderStatusOutOfStock (go OrderStatusReserving (go OrderStatusPaid f))"

text \<open>A change of status together with the job's.\<close>

definition move_with :: "DeliveryJobStatus \<Rightarrow> OrderStatus \<Rightarrow> case_file \<Rightarrow> case_file" where
  "move_with j t f = (go t f)\<lparr>cf_job := map_option (\<lambda>(jid, _). (jid, j)) (cf_job f)\<rparr>"

definition hand_over :: "case_file \<Rightarrow> case_file" where
  "hand_over f = (move_with DeliveryJobCompleted OrderStatusDelivered f)\<lparr>cf_reserved := {}, cf_sold := cf_reserved f\<rparr>"

text \<open>Stock that no file holds.\<close>

definition file_items :: "case_file \<Rightarrow> int set" where
  "file_items f = cf_reserved f \<union> cf_mapped f \<union> cf_sold f"

definition fresh_items :: "shop \<Rightarrow> int set \<Rightarrow> bool" where
  "fresh_items A ids \<longleftrightarrow> finite ids \<and> (\<forall>k. ids \<inter> file_items (sf_file A k) = {})"

section \<open>Steps\<close>

inductive spec_step :: "shop \<Rightarrow> shop \<Rightarrow> bool" where
  sp_place: "cf_status (sf_file A k) = None \<Longrightarrow> 0 < q \<Longrightarrow> 0 \<le> amt \<Longrightarrow>
     spec_step A (file_upd k (\<lambda>_. new_file amt q) A)"
| sp_close: "cf_status (sf_file A k) = Some OrderStatusPendingPayment \<Longrightarrow>
     t \<in> {OrderStatusCancelled, OrderStatusExpired} \<Longrightarrow> spec_step A (file_upd k (go t) A)"
| sp_settle: "cf_status (sf_file A k) = Some OrderStatusPendingPayment \<Longrightarrow>
     fresh_items A ids \<Longrightarrow> int (card ids) = sum_list (cf_qty (sf_file A k)) \<Longrightarrow>
     spec_step A (file_upd k (settle jid ids) A)"
| sp_short: "cf_status (sf_file A k) = Some OrderStatusPendingPayment \<Longrightarrow>
     spec_step A (file_upd k run_short A)"
| sp_claim: "cf_status (sf_file A k) = Some OrderStatusReserving \<Longrightarrow> fresh_items A ids \<Longrightarrow>
     spec_step A (file_upd k (\<lambda>f. f\<lparr>cf_reserved := cf_reserved f \<union> ids, cf_mapped := cf_mapped f \<union> ids\<rparr>) A)"
| sp_resume: "cf_status (sf_file A k) = Some OrderStatusReserving \<Longrightarrow>
     int (card (cf_reserved (sf_file A k))) = sum_list (cf_qty (sf_file A k)) \<Longrightarrow>
     spec_step A (file_upd k (resume jid) A)"
| sp_queue: "cf_job (sf_file A k) = Some (jid, j) \<Longrightarrow> activeJob j \<Longrightarrow> activeJob j' \<Longrightarrow>
     spec_step A (file_upd k (cf_job_update (\<lambda>_. Some (jid, j'))) A)"
| sp_fail: "cf_status (sf_file A k) = Some OrderStatusDelivering \<Longrightarrow>
     spec_step A (file_upd k (move_with DeliveryJobPermanentFailed OrderStatusDeliveryFailed) A)"
| sp_reopen: "cf_status (sf_file A k) = Some OrderStatusDeliveryFailed \<Longrightarrow>
     spec_step A (file_upd k (move_with DeliveryJobPending OrderStatusDelivering) A)"
| sp_deliver: "cf_status (sf_file A k) = Some OrderStatusDelivering \<Longrightarrow>
     spec_step A (file_upd k hand_over A)"
| sp_open: "wf_balance (sf_wallet A w) = None \<Longrightarrow>
     spec_step A (wallet_upd w (wf_balance_update (\<lambda>_. Some 0)) A)"
| sp_post: "wf_balance (sf_wallet A w) = Some b \<Longrightarrow> 0 \<le> b + a \<Longrightarrow> is_int64 (b + a) \<Longrightarrow>
     spec_step A (wallet_upd w (\<lambda>x. x\<lparr>wf_balance := Some (b + a), wf_ledger := wf_ledger x + a\<rparr>) A)"
| sp_topup: "tf_status (sf_topup A t) = None \<Longrightarrow> 0 < a \<Longrightarrow>
     spec_step A (topup_upd t (\<lambda>x. x\<lparr>tf_status := Some ''pending_payment'', tf_amount := a\<rparr>) A)"
| sp_credit: "tf_status (sf_topup A t) = Some ''pending_payment'' \<Longrightarrow>
     spec_step A (topup_upd t (\<lambda>x. x\<lparr>tf_status := Some ''credited'', tf_alloc := [tf_amount x]\<rparr>) A)"
| sp_topup_review: "tf_status (sf_topup A t) \<in> {Some ''pending_payment'', Some ''expired''} \<Longrightarrow>
     spec_step A (topup_upd t (tf_status_update (\<lambda>_. Some ''payment_review'')) A)"

section \<open>The invariant\<close>

text \<open>A trail replays from one status to another along legal transitions only.\<close>

fun replays :: "OrderStatus option \<Rightarrow> (OrderStatus option \<times> OrderStatus) list \<Rightarrow> OrderStatus option \<Rightarrow> bool" where
  "replays a [] b \<longleftrightarrow> a = b"
| "replays a ((f, t) # rest) b \<longleftrightarrow> f = a \<and>
     (case f of None \<Rightarrow> t = OrderStatusPendingPayment | Some g \<Rightarrow> CanTransitionOrder g t) \<and>
     replays (Some t) rest b"

lemma replays_append: "replays a (xs @ ys) c \<longleftrightarrow> (\<exists>b. replays a xs b \<and> replays b ys c)"
  by (induction a xs c rule: replays.induct) auto

definition unserved :: "case_file \<Rightarrow> bool" where
  "unserved f \<longleftrightarrow> cf_job f = None \<and> cf_reserved f = {} \<and> cf_mapped f = {} \<and> cf_sold f = {} \<and>
     cf_alloc f = []"

definition held :: "case_file \<Rightarrow> bool" where
  "held f \<longleftrightarrow> cf_sold f = {} \<and> cf_mapped f = cf_reserved f \<and> finite (cf_reserved f) \<and>
     cf_alloc f = [cf_total f]"

definition complete_stock :: "case_file \<Rightarrow> bool" where
  "complete_stock f \<longleftrightarrow> int (card (cf_mapped f)) = sum_list (cf_qty f)"

definition status_ok :: "OrderStatus \<Rightarrow> case_file \<Rightarrow> bool" where
  "status_ok st f =
     (case st of
        OrderStatusPendingPayment \<Rightarrow> unserved f
      | OrderStatusCancelled \<Rightarrow> unserved f
      | OrderStatusExpired \<Rightarrow> unserved f
      | OrderStatusOutOfStock \<Rightarrow> unserved f
      | OrderStatusReserving \<Rightarrow> held f \<and> cf_job f = None
      | OrderStatusDelivering \<Rightarrow> held f \<and> complete_stock f \<and> (\<exists>jid j. cf_job f = Some (jid, j) \<and> activeJob j)
      | OrderStatusDeliveryFailed \<Rightarrow>
          held f \<and> complete_stock f \<and> (\<exists>jid. cf_job f = Some (jid, DeliveryJobPermanentFailed))
      | OrderStatusDelivered \<Rightarrow>
          complete_stock f \<and> cf_reserved f = {} \<and> cf_sold f = cf_mapped f \<and>
          cf_alloc f = [cf_total f] \<and> (\<exists>jid. cf_job f = Some (jid, DeliveryJobCompleted))
      | _ \<Rightarrow> False)"

definition file_ok :: "case_file \<Rightarrow> bool" where
  "file_ok f \<longleftrightarrow>
     replays None (cf_trail f) (cf_status f) \<and>
     (case cf_status f of
        None \<Rightarrow> unserved f \<and> cf_qty f = []
      | Some st \<Rightarrow> (\<exists>q > 0. cf_qty f = [q]) \<and> 0 \<le> cf_total f \<and> status_ok st f)"

definition wallet_ok :: "wallet_file \<Rightarrow> bool" where
  "wallet_ok w = (case wf_balance w of None \<Rightarrow> wf_ledger w = 0 | Some b \<Rightarrow> b = wf_ledger w \<and> 0 \<le> b \<and> is_int64 b)"

definition topup_ok :: "topup_file \<Rightarrow> bool" where
  "topup_ok t = (if tf_status t = Some ''credited'' then tf_alloc t = [tf_amount t] else tf_alloc t = [])"

definition exclusive :: "shop \<Rightarrow> bool" where
  "exclusive A \<longleftrightarrow> (\<forall>k l. k \<noteq> l \<longrightarrow> file_items (sf_file A k) \<inter> file_items (sf_file A l) = {})"

definition shop_ok :: "shop \<Rightarrow> bool" where
  "shop_ok A \<longleftrightarrow> (\<forall>k. file_ok (sf_file A k)) \<and> (\<forall>w. wallet_ok (sf_wallet A w)) \<and>
     (\<forall>t. topup_ok (sf_topup A t)) \<and> exclusive A"

lemmas file_defs = file_ok_def status_ok_def unserved_def held_def complete_stock_def
lemmas move_defs = go_def resume_def move_with_def settle_def run_short_def hand_over_def new_file_def blank_file_def

lemma exclusive_file_upd:
  assumes "exclusive A"
    and "file_items (g (sf_file A k)) \<subseteq> file_items (sf_file A k) \<union> ids" "fresh_items A ids"
  shows "exclusive (file_upd k g A)"
  using assms unfolding exclusive_def fresh_items_def by auto blast+

lemma exclusive_file_same:
  assumes "exclusive A" "file_items (g (sf_file A k)) \<subseteq> file_items (sf_file A k)"
  shows "exclusive (file_upd k g A)"
  using exclusive_file_upd [of A g k "{}"] assms by (simp add: fresh_items_def)

lemma shop_ok_file:
  "shop_ok A \<Longrightarrow> file_ok (g (sf_file A k)) \<Longrightarrow> exclusive (file_upd k g A) \<Longrightarrow> shop_ok (file_upd k g A)"
  by (simp add: shop_ok_def)

lemma shop_file: "shop_ok A \<Longrightarrow> file_ok (sf_file A k)"
  by (simp add: shop_ok_def)

lemma shop_exclusive: "shop_ok A \<Longrightarrow> exclusive A"
  by (simp add: shop_ok_def)

lemma shop_wallet: "shop_ok A \<Longrightarrow> wallet_ok (sf_wallet A w)"
  by (simp add: shop_ok_def)

lemma shop_topup: "shop_ok A \<Longrightarrow> topup_ok (sf_topup A t)"
  by (simp add: shop_ok_def)

lemma shop_ok_move:
  assumes "shop_ok A" "file_ok (sf_file A k) \<Longrightarrow> file_ok (g (sf_file A k))"
    and "file_ok (sf_file A k) \<Longrightarrow> file_items (g (sf_file A k)) \<subseteq> file_items (sf_file A k)"
  shows "shop_ok (file_upd k g A)"
  using assms by (intro shop_ok_file exclusive_file_same) (simp_all add: shop_file shop_exclusive)

lemma spec_step_ok: "spec_step A B \<Longrightarrow> shop_ok A \<Longrightarrow> shop_ok B"
proof (induction rule: spec_step.induct)
  case (sp_place A k q amt)
  then show ?case
    using shop_file [of A k] shop_exclusive [of A]
    by (intro shop_ok_file exclusive_file_same)
      (auto simp: file_defs move_defs file_items_def)
next
  case (sp_settle A k ids jid)
  then show ?case
    using shop_file [of A k] shop_exclusive [of A]
    by (intro shop_ok_file exclusive_file_upd [where ids = ids])
      (auto simp: file_defs move_defs file_items_def fresh_items_def replays_append activeJob_def)
next
  case (sp_claim A k ids)
  then show ?case
    using shop_file [of A k] shop_exclusive [of A]
    by (intro shop_ok_file exclusive_file_upd [where ids = ids])
      (auto simp: file_defs move_defs file_items_def fresh_items_def)
next
  case (sp_queue A k jid j j')
  then have "cf_status (sf_file A k) = Some OrderStatusDelivering"
    using shop_file [of A k] shop_exclusive [of A]
    by (auto simp: file_defs activeJob_def split: option.splits OrderStatus.splits)
  with sp_queue show ?case
    using shop_file [of A k] shop_exclusive [of A]
    by (intro shop_ok_file exclusive_file_same) (auto simp: file_defs file_items_def)
next
  case (sp_open A w)
  then show ?case
    using shop_wallet [of A w]
    by (auto simp: shop_ok_def wallet_ok_def exclusive_def is_int64_def MinInt64_def MaxInt64_def)
next
  case (sp_post A w b a)
  then show ?case using shop_wallet [of A w] by (auto simp: shop_ok_def wallet_ok_def exclusive_def)
next
  case (sp_topup A t a)
  then show ?case using shop_topup [of A t] by (auto simp: shop_ok_def topup_ok_def exclusive_def)
next
  case (sp_credit A t)
  then show ?case using shop_topup [of A t] by (auto simp: shop_ok_def topup_ok_def exclusive_def)
next
  case (sp_topup_review A t)
  then show ?case using shop_topup [of A t] by (auto simp: shop_ok_def topup_ok_def exclusive_def)
next
  case (sp_close A k t)
  then show ?case
    by (intro shop_ok_move) (auto simp: file_defs move_defs file_items_def replays_append activeJob_def)
next
  case (sp_short A k)
  then show ?case
    by (intro shop_ok_move) (auto simp: file_defs move_defs file_items_def replays_append activeJob_def)
next
  case (sp_resume A k jid)
  then show ?case
    by (intro shop_ok_move) (auto simp: file_defs move_defs file_items_def replays_append activeJob_def)
next
  case (sp_fail A k)
  then show ?case
    by (intro shop_ok_move) (auto simp: file_defs move_defs file_items_def replays_append activeJob_def)
next
  case (sp_reopen A k)
  then show ?case
    by (intro shop_ok_move) (auto simp: file_defs move_defs file_items_def replays_append activeJob_def)
next
  case (sp_deliver A k)
  then show ?case
    by (intro shop_ok_move) (auto simp: file_defs move_defs file_items_def replays_append activeJob_def)
qed

lemma spec_steps_ok: "spec_step\<^sup>*\<^sup>* A B \<Longrightarrow> shop_ok A \<Longrightarrow> shop_ok B"
  by (induction rule: rtranclp_induct) (auto intro: spec_step_ok)

end
