(* ===== verification/Triples.thy ===== *)
theory Triples
  imports Database
begin

text \<open>
  Triples for the successful runs of a transaction: from a state with \<open>P\<close>, a run that
  returns \<open>r\<close> ends in a state with \<open>Q r\<close>. A failed run is rolled back, so a
  transaction's effect is what its triple says. \<open>triple_step\<close> runs a handler forward one query at
  a time, keeping what the query promises of its result as a fact.
\<close>

named_theorems prims \<open>triples of the queries\<close>

definition triple :: "('s \<Rightarrow> bool) \<Rightarrow> ('s, 'a) tx \<Rightarrow> ('a \<Rightarrow> 's \<Rightarrow> bool) \<Rightarrow> bool" where
  "triple P m Q \<longleftrightarrow> (\<forall>s r s'. P s \<longrightarrow> m s = (Inr r, s') \<longrightarrow> Q r s')"

lemma tripleI: "(\<And>s r s'. P s \<Longrightarrow> m s = (Inr r, s') \<Longrightarrow> Q r s') \<Longrightarrow> triple P m Q"
  by (simp add: triple_def)

lemma tripleD: "triple P m Q \<Longrightarrow> P s \<Longrightarrow> m s = (Inr r, s') \<Longrightarrow> Q r s'"
  by (auto simp: triple_def)

lemma triple_returnE: "(\<And>s. P s \<Longrightarrow> Q x s) \<Longrightarrow> triple P (returnE x) Q"
  by (auto simp: triple_def)

lemma triple_throwE [simp]: "triple P (throwE e) Q"
  by (simp add: triple_def)

lemma triple_ofSum: "(\<And>s v. P s \<Longrightarrow> r = Inr v \<Longrightarrow> Q v s) \<Longrightarrow> triple P (ofSum r) Q"
  by (auto simp: triple_def)

lemma triple_step:
  assumes "triple P m (\<lambda>x s. R x s \<and> F x)" "\<And>x. F x \<Longrightarrow> triple (R x) (f x) Q"
  shows "triple P (bindE m f) Q"
  using assms by (fastforce simp: triple_def)

lemma triple_post: "triple P m R \<Longrightarrow> (\<And>x s. R x s \<Longrightarrow> Q x s) \<Longrightarrow> triple P m Q"
  by (fastforce simp: triple_def)

lemma triple_pre: "triple R m Q \<Longrightarrow> (\<And>s. P s \<Longrightarrow> R s) \<Longrightarrow> triple P m Q"
  by (fastforce simp: triple_def)

lemma triple_ex: "(\<And>j. triple (P j) m Q) \<Longrightarrow> triple (\<lambda>s. \<exists>j. P j s) m Q"
  by (auto simp: triple_def)

lemma triple_noRows [simp]: "triple P (noRows e m) Q \<longleftrightarrow> triple P m Q"
  by (simp add: triple_def)

lemma triple_mapErrE [simp]: "triple P (mapErrE g m) Q \<longleftrightarrow> triple P m Q"
  by (simp add: triple_def)

lemma triple_WithinTransaction [simp]: "triple P (WithinTransaction m) Q \<longleftrightarrow> triple P m Q"
  by (simp add: triple_def)

text \<open>An attempted query that fails must have left what matters alone.\<close>

definition failsafe :: "('s \<Rightarrow> bool) \<Rightarrow> ('s, 'a) tx \<Rightarrow> bool" where
  "failsafe P m \<longleftrightarrow> (\<forall>s e s'. P s \<longrightarrow> m s = (Inl e, s') \<longrightarrow> P s')"

lemma failsafe_always: "always P m \<Longrightarrow> failsafe P m"
  by (auto simp: failsafe_def dest: alwaysD)

lemma triple_attempt:
  assumes "triple P m (\<lambda>x s. R x s \<and> F x)" "failsafe P m"
    and "\<And>e. triple P (f (Inl e)) Q" "\<And>x. F x \<Longrightarrow> triple (R x) (f (Inr x)) Q"
  shows "triple P (bindE (attempt m) f) Q"
proof (rule tripleI)
  fix s r s'
  assume "P s" "bindE (attempt m) f s = (Inr r, s')"
  then obtain o' t where run: "m s = (o', t)" "f o' t = (Inr r, s')" by auto
  show "Q r s'"
    using assms \<open>P s\<close> run by (cases o') (fastforce simp: triple_def failsafe_def)+
qed

lemma triple_if:
  "(b \<Longrightarrow> triple P m Q) \<Longrightarrow> (\<not> b \<Longrightarrow> triple P n Q) \<Longrightarrow> triple P (if b then m else n) Q"
  by simp

lemma triple_bind_if:
  "(b \<Longrightarrow> triple P (bindE m f) Q) \<Longrightarrow> (\<not> b \<Longrightarrow> triple P (bindE n f) Q) \<Longrightarrow>
   triple P (bindE (if b then m else n) f) Q"
  by simp

lemma triple_case_prod:
  "(\<And>a b. p = (a, b) \<Longrightarrow> triple P (f a b) Q) \<Longrightarrow> triple P (case p of (a, b) \<Rightarrow> f a b) Q"
  by (simp split: prod.splits)

text \<open>A query that always keeps \<open>P\<close>.\<close>

lemma triple_always: "always P m \<Longrightarrow> triple P m (\<lambda>_ s. P s \<and> True)"
  by (auto simp: triple_def dest: alwaysD)

text \<open>What a committed transaction means for the caller, on either outcome.\<close>

lemma triple_outcome:
  assumes "triple P m Q" "P s" "m s = (r, s')"
  shows "(\<exists>e. r = Inl e) \<or> (\<exists>x. r = Inr x \<and> Q x s')"
  using assms by (cases r) (auto dest: tripleD)

end
