(* ===== verification/Shop_View.thy ===== *)
theory Shop_View
  imports Progress Shop_Spec Triples
begin

text \<open>
  The abstraction function \<open>view\<close> from the database to the abstract shop, and what every query
  does to the view: the lemmas in \<open>prims\<close> are the functional refinements of the single
  queries, from which the refinements of whole transactions are composed.
\<close>

section \<open>The view\<close>

definition deliveryJob :: "int64 \<Rightarrow> job_row \<Rightarrow> bool" where
  "deliveryJob oid j \<longleftrightarrow> job_event_type j = deliveryEvent \<and> job_delivery_order_id j = Some oid"

definition soldTo :: "int64 \<Rightarrow> inventory_row \<Rightarrow> bool" where
  "soldTo oid i \<longleftrightarrow> inv_status i = InventoryStatusSold \<and> inv_sold_order_id i = Some oid"

definition mappedTo :: "int64 \<Rightarrow> mapping_row \<Rightarrow> bool" where
  "mappedTo oid m \<longleftrightarrow> map_order_id m = oid \<and> map_status m = ''active''"

definition allocationsOf :: "string \<Rightarrow> int64 \<Rightarrow> allocation_row list \<Rightarrow> int list" where
  "allocationsOf kind k rows =
     map alc_amount_vnd (filter (\<lambda>a. alc_target_type a = kind \<and> alc_target_id a = k) rows)"

definition trailOf :: "int64 \<Rightarrow> history_row list \<Rightarrow> (OrderStatus option \<times> OrderStatus) list" where
  "trailOf oid rows = map (\<lambda>h. (his_from_status h, his_to_status h)) (filter (\<lambda>h. his_order_id h = oid) rows)"

definition ledgerOf :: "int64 \<Rightarrow> ledger_row list \<Rightarrow> int" where
  "ledgerOf w rows = sum_list (map led_amount_vnd (filter (\<lambda>l. led_account_id l = w) rows))"

definition fileOf :: "db \<Rightarrow> int64 \<Rightarrow> case_file" where
  "fileOf s oid =
     (let row = find (\<lambda>x. ord_id x = oid) (orders s) in
      \<lparr>cf_status = map_option ord_status row,
       cf_total = (case row of None \<Rightarrow> 0 | Some x \<Rightarrow> ord_total_vnd x),
       cf_qty = map oit_quantity (itemsOf s oid),
       cf_job = map_option (\<lambda>j. (job_id j, job_status j)) (find (deliveryJob oid) (outbox_events s)),
       cf_reserved = inv_id ` {i \<in> set (inventory_items s). reservedFor oid i},
       cf_mapped = map_inventory_item_id ` {m \<in> set (order_inventory s). mappedTo oid m},
       cf_sold = inv_id ` {i \<in> set (inventory_items s). soldTo oid i},
       cf_alloc = allocationsOf ''order'' oid (payment_allocations s),
       cf_trail = trailOf oid (order_history s)\<rparr>)"

definition walletOf :: "db \<Rightarrow> int64 \<Rightarrow> wallet_file" where
  "walletOf s w =
     \<lparr>wf_balance = map_option wal_balance_vnd (find (\<lambda>x. wal_id x = w) (wallet_accounts s)),
      wf_ledger = ledgerOf w (wallet_ledger s)\<rparr>"

definition topupOf :: "db \<Rightarrow> int64 \<Rightarrow> topup_file" where
  "topupOf s t =
     (let row = find (\<lambda>x. top_id x = t) (wallet_topups s) in
      \<lparr>tf_status = map_option top_status row,
       tf_amount = (case row of None \<Rightarrow> 0 | Some x \<Rightarrow> top_amount_vnd x),
       tf_alloc = allocationsOf ''wallet_topup'' t (payment_allocations s)\<rparr>)"

definition view :: "db \<Rightarrow> shop" where
  "view s = \<lparr>sf_file = fileOf s, sf_wallet = walletOf s, sf_topup = topupOf s\<rparr>"

definition seen :: "shop \<Rightarrow> db \<Rightarrow> bool" where
  "seen A s \<longleftrightarrow> schema s \<and> view s = A"

lemmas view_defs = view_def fileOf_def walletOf_def topupOf_def itemsOf_def Let_def upd_defs

section \<open>What leaves the view alone\<close>

lemma view_side [simp]:
  "view (seqs_update f1 s) = view s" "view (update_receipts_update f2 s) = view s"
  "view (admin_sessions_update f3 s) = view s" "view (payment_events_update f4 s) = view s"
  "view (payment_reviews_update f5 s) = view s" "view (payments_update f6 s) = view s"
  "view (delivery_attempts_update f7 s) = view s" "view (audit_logs_update f8 s) = view s"
  "view (users_update f9 s) = view s" "view (admins_update f10 s) = view s"
  "view (categories_update f11 s) = view s" "view (products_update f12 s) = view s"
  "view (bank_accounts_update f13 s) = view s" "view (provider_accounts_update f14 s) = view s"
  "view (checkpoints_update f15 s) = view s" "view (clock_update f16 s) = view s"
  by (simp_all add: view_defs fun_eq_iff)

text \<open>Statement sequences keep the schema; it remains to follow the view.\<close>

lemma seen_progress:
  assumes "\<And>s0. always (progress s0) m" "schema s" "m s = (r, s')"
  shows "schema s'"
  using alwaysD [OF assms(1) progress_refl [OF assms(2)] assms(3)] by (rule progress_schema)

lemma always_seen:
  assumes "\<And>s0. always (progress s0) m" "always (\<lambda>s. view s = A) m"
  shows "always (seen A) m"
proof (rule alwaysI)
  fix s
  assume s: "seen A s"
  then have "progress s (snd (m s))"
    using assms(1) [of s] progress_refl [of s] by (simp add: seen_def always_def)
  moreover have "view (snd (m s)) = A"
    using assms(2) s by (simp add: seen_def always_def)
  ultimately show "seen A (snd (m s))" by (simp add: seen_def progress_schema)
qed

lemma triple_seen:
  assumes "\<And>s0. always (progress s0) m"
    and "\<And>s r s'. schema s \<Longrightarrow> view s = A \<Longrightarrow> m s = (Inr r, s') \<Longrightarrow> view s' = B r \<and> F r"
  shows "triple (seen A) m (\<lambda>r s. seen (B r) s \<and> F r)"
proof (rule tripleI)
  fix s r s'
  assume s: "seen A s" and run: "m s = (Inr r, s')"
  then have "schema s'" using seen_progress [OF assms(1) _ run] by (simp add: seen_def)
  moreover have "view s' = B r \<and> F r" using assms(2) [OF _ _ run] s by (simp add: seen_def)
  ultimately show "seen (B r) s' \<and> F r" by (simp add: seen_def)
qed

lemma always_view_insert:
  "(\<And>s. view (upd (\<lambda>rows. rows @ [r]) s) = view s) \<Longrightarrow>
   always (\<lambda>s. view s = A) (sqlInsert get upd ck uq r)"
  by (rule alwaysI) (auto simp: sqlInsert_def)

lemma always_view_insertIgnore:
  "(\<And>s. view (upd (\<lambda>rows. rows @ [r]) s) = view s) \<Longrightarrow>
   always (\<lambda>s. view s = A) (sqlInsertIgnore get upd ck uq arb r)"
  by (rule alwaysI) (auto simp: sqlInsert_def sqlInsertIgnore_def)

lemma always_view_update:
  "(\<And>s. view (upd (updateWhere p f) s) = view s) \<Longrightarrow>
   always (\<lambda>s. view s = A) (sqlUpdate get upd ck uq p f)"
  by (rule alwaysI) (auto simp: sqlUpdate_def Let_def)

lemma always_view_nextId [always_intros]: "always (\<lambda>s. view s = A) (nextId t)"
  by (rule alwaysI) (simp add: nextId_def)

lemmas view_statements = always_view_insert always_view_insertIgnore always_view_update

lemma view_side_queries [always_intros]:
  "always (\<lambda>s. view s = A) (completeReceipt u)"
  "always (\<lambda>s. view s = A) (finishSession a ses)"
  "always (\<lambda>s. view s = A) (InsertAuditLog p)"
  "always (\<lambda>s. view s = A) (updateEvents pe fe)"
  "always (\<lambda>s. view s = A) (InsertPaymentReviewCase rp)"
  "always (\<lambda>s. view s = A) (ResolvePaymentReview_query st n ad rid)"
  "always (\<lambda>s. view s = A) (InsertPayment pp)"
  "always (\<lambda>s. view s = A) (InsertDeliveryAttemptEvent ap)"
  unfolding completeReceipt_def CompleteTelegramUpdateReceipt_def finishSession_def
    FinishAdminSessionGuarded_def InsertAuditLog_def updateEvents_def InsertPaymentReviewCase_def
    ResolvePaymentReview_query_def InsertPayment_def InsertDeliveryAttemptEvent_def
  by (intro always_intros view_statements; simp)+

lemma seen_side [always_intros]:
  "always (seen A) (completeReceipt u)"
  "always (seen A) (finishSession a ses)"
  "always (seen A) (InsertAuditLog p)"
  "always (seen A) (updateEvents pe fe)"
  "always (seen A) (InsertPaymentReviewCase rp)"
  "always (seen A) (ResolvePaymentReview_query st n ad rid)"
  "always (seen A) (InsertPayment pp)"
  "always (seen A) (InsertDeliveryAttemptEvent ap)"
  by (intro always_seen always_intros)+

end
