(* ===== verification/Shop_Queries.thy ===== *)
theory Shop_Queries
  imports Shop_View
begin

text \<open>
  The functional refinement of the queries that touch the view: each lemma gives the view
  after a successful run as a function of the view before it and of the returned row, and
  what the query's guards say of the view before it.
\<close>

section \<open>Lookups in tables\<close>

lemma find_updateWhere:
  "(\<And>r. r \<in> set rows \<Longrightarrow> p r \<Longrightarrow> q (f r) = q r) \<Longrightarrow>
   find q (updateWhere p f rows) = map_option (\<lambda>r. if p r then f r else r) (find q rows)"
  by (induction rows) (auto simp: updateWhere_def)

lemma find_append: "find q (xs @ ys) = (case find q xs of None \<Rightarrow> find q ys | Some x \<Rightarrow> Some x)"
  by (induction xs) auto

lemma find_unique:
  "x \<in> set rows \<Longrightarrow> q x \<Longrightarrow> (\<And>y. y \<in> set rows \<Longrightarrow> q y \<Longrightarrow> y = x) \<Longrightarrow> find q rows = Some x"
proof -
  assume x: "x \<in> set rows" "q x" and uniq: "\<And>y. y \<in> set rows \<Longrightarrow> q y \<Longrightarrow> y = x"
  from x have "find q rows \<noteq> None" by (auto simp only: find_None_iff)
  then obtain y where y: "find q rows = Some y" by blast
  then have "y = x" using find_Some_iff' [OF y] uniq by blast
  with y show ?thesis by simp
qed

lemma find_key:
  "distinct (map k rows) \<Longrightarrow> x \<in> set rows \<Longrightarrow> find (\<lambda>r. k r = k x) rows = Some x"
  by (rule find_unique) (auto dest: distinct_map_inj)

lemma find_keyD: "find q rows = Some x \<Longrightarrow> x \<in> set rows \<and> q x"
  by (rule find_Some_iff')

lemma filter_updateWhere_same:
  "(\<And>r. r \<in> set rows \<Longrightarrow> p r \<Longrightarrow> q (f r) = q r) \<Longrightarrow> (\<And>r. r \<in> set rows \<Longrightarrow> p r \<Longrightarrow> q r \<Longrightarrow> g (f r) = g r) \<Longrightarrow>
   map g (filter q (updateWhere p f rows)) = map g (filter q rows)"
  by (induction rows) (auto simp: updateWhere_def)

lemma order_found:
  "schema s \<Longrightarrow> x \<in> set (orders s) \<Longrightarrow> find (\<lambda>r. ord_id r = ord_id x) (orders s) = Some x"
  by (rule find_key) (simp add: schema_distinct)

lemma wallet_found:
  "schema s \<Longrightarrow> w \<in> set (wallet_accounts s) \<Longrightarrow> find (\<lambda>r. wal_id r = wal_id w) (wallet_accounts s) = Some w"
  by (rule find_key) (simp add: schema_distinct)

lemma topup_found:
  "schema s \<Longrightarrow> t \<in> set (wallet_topups s) \<Longrightarrow> find (\<lambda>r. top_id r = top_id t) (wallet_topups s) = Some t"
  by (rule find_key) (simp add: schema_distinct)

text \<open>The deduplication key makes the delivery job of an order unique.\<close>

lemma delivery_job_unique:
  assumes "schema s" "i \<in> set (outbox_events s)" "j \<in> set (outbox_events s)"
    and "deliveryJob k i" "deliveryJob k j"
  shows "i = j"
proof -
  have "job_deduplication_key r = ''delivery:order:'' @ intText k"
    if "r \<in> set (outbox_events s)" "deliveryJob k r" for r
    using that assms(1)
    by (auto simp: schema_def table_ok_def list_all_iff keyed_job_def job_ck_def deliveryJob_def
        dest!: bspec [of _ _ r])
  with assms have "job_deduplication_key i = job_deduplication_key j" by simp
  then show ?thesis using assms schema_distinct(8) [of s] by (blast intro: distinct_map_inj)
qed

lemma job_found:
  "schema s \<Longrightarrow> j \<in> set (outbox_events s) \<Longrightarrow> deliveryJob k j \<Longrightarrow>
   find (deliveryJob k) (outbox_events s) = Some j"
  by (rule find_unique) (auto dest: delivery_job_unique)

text \<open>Taking an identity value first makes no difference to the view.\<close>

lemma view_after_seqs:
  "view (orders_update f (s\<lparr>seqs := q\<rparr>)) = view (orders_update f s)"
  "view (outbox_events_update g (s\<lparr>seqs := q\<rparr>)) = view (outbox_events_update g s)"
  "view (wallet_accounts_update h (s\<lparr>seqs := q\<rparr>)) = view (wallet_accounts_update h s)"
  "view (wallet_topups_update k (s\<lparr>seqs := q\<rparr>)) = view (wallet_topups_update k s)"
  by (simp_all add: view_defs fun_eq_iff)

section \<open>Orders\<close>

lemma view_order_update:
  assumes "schema s" "x \<in> set (orders s)" "p x" "ord_id x = k"
    and "\<And>y. y \<in> set (orders s) \<Longrightarrow> p y \<Longrightarrow> ord_id y = k"
    and "\<And>y. same_order y (f y)"
  shows "view (orders_update (updateWhere p f) s) =
    file_upd k (cf_status_update (\<lambda>_. Some (ord_status (f x)))) (view s)"
proof -
  have "find (\<lambda>r. ord_id r = l) (updateWhere p f (orders s)) =
      map_option (\<lambda>r. if p r then f r else r) (find (\<lambda>r. ord_id r = l) (orders s))" for l
    by (rule find_updateWhere) (use assms(6) in \<open>simp add: same_order_def\<close>)
  moreover have "\<not> p r" if "find (\<lambda>r. ord_id r = l) (orders s) = Some r" "l \<noteq> k" for l r
    using that assms(5) by (auto dest: find_keyD)
  moreover have "find (\<lambda>r. ord_id r = k) (orders s) = Some x"
    using order_found [OF assms(1,2)] assms(4) by simp
  ultimately show ?thesis
    using assms(3) assms(6) [of x]
    by (auto simp: view_defs fun_eq_iff same_order_def Let_def split: option.splits)
qed

lemma triple_order_move:
  assumes "\<And>y. p y \<Longrightarrow> ord_id y = k \<and> ord_status y = g" "\<And>y. same_order y (f y) \<and> ord_status (f y) = t"
    and "\<And>s0. always (progress s0) (one (updateOrders p f))"
  shows "triple (seen A) (one (updateOrders p f)) (\<lambda>r s.
    seen (file_upd k (cf_status_update (\<lambda>_. Some t)) A) s \<and>
    (cf_status (sf_file A k) = Some g \<and> ord_id r = k))"
proof (rule triple_seen [OF assms(3)])
  fix s r s'
  assume s: "schema s" "view s = A" and run: "one (updateOrders p f) s = (Inr r, s')"
  then obtain rs where upd: "sqlUpdate orders orders_update order_ck order_uq p f s = (Inr (r # rs), s')"
    by (auto simp: updateOrders_def)
  then obtain x where x: "x \<in> set (orders s)" "p x" "r = f x"
    by (auto dest!: sqlUpdate_InrD simp: map_eq_Cons_conv Cons_eq_map_conv dest!: filter_hd_mem)
  have "s' = orders_update (updateWhere p f) s" using sqlUpdate_InrD [OF upd] by simp
  moreover have "cf_status (sf_file A k) = Some g"
    using order_found [OF s(1) x(1)] assms(1) [OF x(2)] s(2)
    by (auto simp: view_defs)
  ultimately show "view s' = file_upd k (cf_status_update (\<lambda>_. Some t)) A \<and>
      cf_status (sf_file A k) = Some g \<and> ord_id r = k"
    using view_order_update [of s x p k f] assms(1,2) x s by (auto simp: same_order_def)
qed

lemma triple_order_moves [prims]:
  "triple (seen A) (CancelPendingOrderOwnedGuarded k u now v) (\<lambda>r s.
     seen (file_upd k (cf_status_update (\<lambda>_. Some OrderStatusCancelled)) A) s \<and>
     (cf_status (sf_file A k) = Some OrderStatusPendingPayment \<and> ord_id r = k))"
  "triple (seen A) (MarkOrderPaidGuarded t k v) (\<lambda>r s.
     seen (file_upd k (cf_status_update (\<lambda>_. Some OrderStatusPaid)) A) s \<and>
     (cf_status (sf_file A k) = Some OrderStatusPendingPayment \<and> ord_id r = k))"
  "triple (seen A) (MarkOrderDeliveringGuarded t k v) (\<lambda>r s.
     seen (file_upd k (cf_status_update (\<lambda>_. Some OrderStatusDelivering)) A) s \<and>
     (cf_status (sf_file A k) = Some OrderStatusReserving \<and> ord_id r = k))"
  "triple (seen A) (MarkOrderDeliveredGuarded t k v) (\<lambda>r s.
     seen (file_upd k (cf_status_update (\<lambda>_. Some OrderStatusDelivered)) A) s \<and>
     (cf_status (sf_file A k) = Some OrderStatusDelivering \<and> ord_id r = k))"
  "triple (seen A) (MarkOrderDeliveryFailedGuarded k) (\<lambda>r s.
     seen (file_upd k (cf_status_update (\<lambda>_. Some OrderStatusDeliveryFailed)) A) s \<and>
     (cf_status (sf_file A k) = Some OrderStatusDelivering \<and> ord_id r = k))"
proof -
  have "triple (seen A) (one (updateOrders
      (\<lambda>x. ord_id x = k \<and> ord_user_id x = u \<and> ord_status x = OrderStatusPendingPayment \<and>
           ord_expires_at x > now \<and> ord_version x = v)
      (\<lambda>x. x\<lparr>ord_status := OrderStatusCancelled, ord_cancelled_at := Some ts,
             ord_version := ord_version x + 1\<rparr>))) (\<lambda>r s.
     seen (file_upd k (cf_status_update (\<lambda>_. Some OrderStatusCancelled)) A) s \<and>
     (cf_status (sf_file A k) = Some OrderStatusPendingPayment \<and> ord_id r = k))" for ts
    by (rule triple_order_move) (auto simp: order_moves intro!: always_intros)
  then show "triple (seen A) (CancelPendingOrderOwnedGuarded k u now v) (\<lambda>r s.
     seen (file_upd k (cf_status_update (\<lambda>_. Some OrderStatusCancelled)) A) s \<and>
     (cf_status (sf_file A k) = Some OrderStatusPendingPayment \<and> ord_id r = k))"
    unfolding CancelPendingOrderOwnedGuarded_def by (auto simp: triple_def)
qed (unfold MarkOrderPaidGuarded_def MarkOrderDeliveringGuarded_def MarkOrderDeliveredGuarded_def
      MarkOrderDeliveryFailedGuarded_def,
     (rule triple_order_move; auto simp: order_moves intro!: always_intros)+)

lemma triple_UpdateOrderStatusGuarded [prims]:
  "CanTransitionOrder g t \<Longrightarrow> triple (seen A) (UpdateOrderStatusGuarded t k g v) (\<lambda>r s.
     seen (file_upd k (cf_status_update (\<lambda>_. Some t)) A) s \<and>
     (cf_status (sf_file A k) = Some g \<and> ord_id r = k))"
  unfolding UpdateOrderStatusGuarded_def
  by (rule triple_order_move) (auto simp: order_moves intro!: always_intros)

lemma triple_InsertOrderStatusHistory [prims]:
  assumes "legal_history (hp_from_status p) (hp_to_status p)"
  shows "triple (seen A) (InsertOrderStatusHistory p) (\<lambda>r s.
    seen (file_upd (hp_order_id p)
      (\<lambda>f. f\<lparr>cf_trail := cf_trail f @ [(hp_from_status p, hp_to_status p)]\<rparr>) A) s \<and> True)"
proof (rule triple_seen [OF progress_InsertOrderStatusHistory [OF assms]])
  fix s r s'
  assume "view s = A" "InsertOrderStatusHistory p s = (Inr r, s')"
  then show "view s' = file_upd (hp_order_id p)
      (\<lambda>f. f\<lparr>cf_trail := cf_trail f @ [(hp_from_status p, hp_to_status p)]\<rparr>) A \<and> True"
    by (auto simp: InsertOrderStatusHistory_def view_defs trailOf_def fun_eq_iff Let_def
        dest!: sqlInsert_InrD nextId_InrD)
qed

lemma view_order_insert:
  assumes "\<forall>y \<in> set (orders s). \<not> order_uq r y"
  shows "view (orders_update (\<lambda>rows. rows @ [r]) s) =
      file_upd (ord_id r) (\<lambda>f. f\<lparr>cf_status := Some (ord_status r), cf_total := ord_total_vnd r\<rparr>) (view s)"
    and "cf_status (sf_file (view s) (ord_id r)) = None"
proof -
  from assms have "find (\<lambda>x. ord_id x = ord_id r) (orders s) = None"
    by (auto simp: find_None_iff order_uq_def)
  then show "view (orders_update (\<lambda>rows. rows @ [r]) s) =
      file_upd (ord_id r) (\<lambda>f. f\<lparr>cf_status := Some (ord_status r), cf_total := ord_total_vnd r\<rparr>) (view s)"
    and "cf_status (sf_file (view s) (ord_id r)) = None"
    by (simp_all add: view_defs fun_eq_iff find_append split: option.splits)
qed

lemma triple_CreatePendingOrderWithBank [prims]:
  "triple (seen A) (CreatePendingOrderWithBank p) (\<lambda>r s.
    seen (file_upd (ord_id r) (\<lambda>f. f\<lparr>cf_status := Some OrderStatusPendingPayment,
      cf_total := cop_total_vnd p\<rparr>) A) s \<and>
    (cf_status (sf_file A (ord_id r)) = None \<and> 0 \<le> cop_total_vnd p))"
proof (rule triple_seen [OF progress_CreatePendingOrderWithBank])
  fix s r s'
  assume s: "schema s" "view s = A" and run: "CreatePendingOrderWithBank p s = (Inr r, s')"
  from run have r: "ord_status r = OrderStatusPendingPayment" "ord_total_vnd r = cop_total_vnd p" "order_ck r"
    and new: "\<forall>y \<in> set (orders s). \<not> order_uq r y"
    and view: "view s' = view (orders_update (\<lambda>rows. rows @ [r]) s)"
    by (auto simp: CreatePendingOrderWithBank_def view_after_seqs dest!: sql_dests)
  from r have "0 \<le> cop_total_vnd p" by (simp add: order_ck_def)
  then show "view s' = file_upd (ord_id r) (\<lambda>f. f\<lparr>cf_status := Some OrderStatusPendingPayment,
      cf_total := cop_total_vnd p\<rparr>) A \<and> (cf_status (sf_file A (ord_id r)) = None \<and> 0 \<le> cop_total_vnd p)"
    using view_order_insert [OF new] r view s(2) by simp
qed

lemma triple_InsertOrderItem [prims]:
  "triple (seen A) (InsertOrderItem k pid nm up q lt) (\<lambda>r s.
    seen (file_upd k (\<lambda>f. f\<lparr>cf_qty := cf_qty f @ [q]\<rparr>) A) s \<and> 0 < q)"
proof (rule triple_seen [OF progress_InsertOrderItem])
  fix s r s'
  assume "view s = A" "InsertOrderItem k pid nm up q lt s = (Inr r, s')"
  then show "view s' = file_upd k (\<lambda>f. f\<lparr>cf_qty := cf_qty f @ [q]\<rparr>) A \<and> 0 < q"
    by (auto simp: InsertOrderItem_def view_defs fun_eq_iff Let_def order_item_ck_def dest!: sql_dests)
qed

section \<open>Reading orders\<close>

lemma triple_select:
  assumes "\<And>s r rs. schema s \<Longrightarrow> view s = A \<Longrightarrow> q s = r # rs \<Longrightarrow> F r"
  shows "triple (seen A) (sqlSelectOne q) (\<lambda>r s. seen A s \<and> F r)"
  using assms by (auto simp: triple_def seen_def)

lemma comp_hd:
  "concat (map f xs) = y # ys \<Longrightarrow> \<exists>x \<in> set xs. y \<in> set (f x)"
  by (induction xs) (auto simp: append_eq_Cons_conv split: if_splits)

text \<open>What a row of an order says of its file.\<close>

definition describes :: "shop \<Rightarrow> order_row \<Rightarrow> bool" where
  "describes A x \<longleftrightarrow> cf_status (sf_file A (ord_id x)) = Some (ord_status x) \<and>
     cf_total (sf_file A (ord_id x)) = ord_total_vnd x"

definition lists_item :: "shop \<Rightarrow> int64 \<Rightarrow> order_item_row \<Rightarrow> bool" where
  "lists_item A k i \<longleftrightarrow> oit_quantity i \<in> set (cf_qty (sf_file A k))"

lemma view_status:
  "schema s \<Longrightarrow> x \<in> set (orders s) \<Longrightarrow> cf_status (sf_file (view s) (ord_id x)) = Some (ord_status x)"
  by (simp add: view_defs order_found)

lemma view_qty: "cf_qty (sf_file (view s) k) = map oit_quantity (itemsOf s k)"
  by (simp add: view_defs)

lemma view_describes:
  assumes "schema s" "x \<in> set (orders s)"
  shows "describes (view s) x"
  using order_found [OF assms] by (simp add: describes_def view_defs)

lemma view_lists_item: "i \<in> set (itemsOf s k) \<Longrightarrow> lists_item (view s) k i"
  by (auto simp: lists_item_def view_defs)

lemma firstItem_itemsOf: "i \<in> set (firstItem s k) \<Longrightarrow> i \<in> set (itemsOf s k)"
  by (auto simp: firstItem_def dest!: in_set_takeD)

lemma view_lists_first: "i \<in> set (firstItem s k) \<Longrightarrow> lists_item (view s) k i"
  by (simp add: view_lists_item firstItem_itemsOf)

lemma triple_LockOrderForUpdate [prims]:
  "triple (seen A) (LockOrderForUpdate k) (\<lambda>r s. seen A s \<and> (describes A r \<and> ord_id r = k))"
  unfolding LockOrderForUpdate_def
  by (rule triple_select) (auto dest!: filter_hd_mem intro: view_describes)

lemma triple_LockOrderByPaymentReference [prims]:
  "triple (seen A) (LockOrderByPaymentReference rf) (\<lambda>r s. seen A s \<and>
     (describes A (fst r) \<and> lists_item A (ord_id (fst r)) (snd r)))"
  unfolding LockOrderByPaymentReference_def
  by (rule triple_select)
    (auto dest!: comp_hd split: if_splits intro: view_describes view_lists_first)

lemma triple_LockOrderDetailOwnedByTelegramUser [prims]:
  "triple (seen A) (LockOrderDetailOwnedByTelegramUser k u) (\<lambda>r s. seen A s \<and>
     (describes A (fst r) \<and> lists_item A k (snd r) \<and> ord_id (fst r) = k))"
  unfolding LockOrderDetailOwnedByTelegramUser_def
  by (rule triple_select)
    (auto dest!: comp_hd split: if_splits intro: view_describes view_lists_first)

lemma triple_LockOrderForDeliveryHandoff [prims]:
  "triple (seen A) (LockOrderForDeliveryHandoff k) (\<lambda>r s. seen A s \<and>
     (cf_status (sf_file A k) = Some (hof_status r) \<and> hof_quantity r \<in> set (cf_qty (sf_file A k)) \<and>
      hof_id r = k))"
  unfolding LockOrderForDeliveryHandoff_def
  by (rule triple_select)
    (auto dest!: comp_hd split: if_splits simp: view_status view_qty)

end
