(* ===== verification/Stock_Queries.thy ===== *)
theory Stock_Queries
  imports Shop_Queries
begin

text \<open>The queries on stock, mappings and allocations, as functions of the view.\<close>

section \<open>Claiming and selling\<close>

lemma image_updateWhere:
  assumes "\<And>r. key (f r) = key r"
  shows "key ` {x \<in> set (updateWhere p f rows). q x} = key ` {x \<in> set rows. if p x then q (f x) else q x}"
    (is "?L = ?R")
proof
  show "?L \<subseteq> ?R" using assms by (auto simp: set_updateWhere)
  show "?R \<subseteq> ?L"
  proof
    fix y
    assume "y \<in> ?R"
    then obtain x where "x \<in> set rows" "if p x then q (f x) else q x" "y = key x" by blast
    then have "(if p x then f x else x) \<in> {x \<in> set (updateWhere p f rows). q x}"
      "y = key (if p x then f x else x)"
      using assms by (auto simp: set_updateWhere)
    then show "y \<in> ?L" by blast
  qed
qed

lemma distinct_same_length: "distinct xs \<Longrightarrow> distinct ys \<Longrightarrow> set xs = set ys \<Longrightarrow> length xs = length ys"
  by (metis distinct_card)

lemma view_claim:
  assumes "\<And>i. i \<in> set (inventory_items s) \<Longrightarrow> inv_id i \<in> ids \<Longrightarrow> inv_status i = InventoryStatusAvailable"
    and "ids \<subseteq> inv_id ` set (inventory_items s)"
  shows "view (inventory_items_update (updateWhere (\<lambda>i. inv_id i \<in> ids) (reserveItem k t)) s) =
    file_upd k (\<lambda>f. f\<lparr>cf_reserved := cf_reserved f \<union> ids\<rparr>) (view s)"
proof -
  let ?rows = "updateWhere (\<lambda>i. inv_id i \<in> ids) (reserveItem k t) (inventory_items s)"
  have "inv_id ` {i \<in> set ?rows. reservedFor l i} =
      inv_id ` {i \<in> set (inventory_items s). reservedFor l i} \<union> (if l = k then ids else {})" for l
    using assms by (subst image_updateWhere) (auto simp: reserveItem_def reservedFor_def)
  moreover have "inv_id ` {i \<in> set ?rows. soldTo l i} =
      inv_id ` {i \<in> set (inventory_items s). soldTo l i}" for l
    using assms(1) by (subst image_updateWhere) (auto simp: reserveItem_def soldTo_def)
  ultimately show ?thesis by (simp add: view_defs fun_eq_iff)
qed

lemma view_sell:
  assumes "\<And>i. i \<in> set (inventory_items s) \<Longrightarrow> inv_id i \<in> ids \<Longrightarrow> reservedFor k i"
    and "ids \<subseteq> inv_id ` set (inventory_items s)"
  shows "view (inventory_items_update (updateWhere (\<lambda>i. inv_id i \<in> ids)
      (\<lambda>i. i\<lparr>inv_status := InventoryStatusSold, inv_reserved_order_id := None,
         inv_reserved_until := None, inv_sold_order_id := Some k, inv_version := inv_version i + 1\<rparr>)) s) =
    file_upd k (\<lambda>f. f\<lparr>cf_reserved := cf_reserved f - ids, cf_sold := cf_sold f \<union> ids\<rparr>) (view s)"
proof -
  let ?rows = "updateWhere (\<lambda>i. inv_id i \<in> ids)
    (\<lambda>i. i\<lparr>inv_status := InventoryStatusSold, inv_reserved_order_id := None,
       inv_reserved_until := None, inv_sold_order_id := Some k, inv_version := inv_version i + 1\<rparr>)
    (inventory_items s)"
  have "inv_id ` {i \<in> set ?rows. reservedFor l i} =
      inv_id ` {i \<in> set (inventory_items s). reservedFor l i} - (if l = k then ids else {})" for l
    using assms(1) by (subst image_updateWhere) (auto simp: reservedFor_def)
  moreover have "inv_id ` {i \<in> set ?rows. soldTo l i} =
      inv_id ` {i \<in> set (inventory_items s). soldTo l i} \<union> (if l = k then ids else {})" for l
    using assms by (subst image_updateWhere) (auto simp: soldTo_def reservedFor_def)
  ultimately show ?thesis by (simp add: view_defs fun_eq_iff)
qed

text \<open>The identifiers a stock update returns.\<close>

lemma updateInventory_ids:
  assumes "schema s" "updateInventory (\<lambda>i. inv_id i \<in> ids) f s = (Inr rows, s')"
    and "\<And>i. inv_id (f i) = inv_id i" "ids \<subseteq> inv_id ` set (inventory_items s)"
  shows "s' = inventory_items_update (updateWhere (\<lambda>i. inv_id i \<in> ids) f) s"
    and "set (map inv_id rows) = ids" and "distinct (map inv_id rows)"
proof -
  have rows: "rows = map f (filter (\<lambda>i. inv_id i \<in> ids) (inventory_items s))"
    and "s' = inventory_items_update (updateWhere (\<lambda>i. inv_id i \<in> ids) f) s"
    using assms(2) by (auto simp: updateInventory_def dest!: sqlUpdate_InrD)
  then show "s' = inventory_items_update (updateWhere (\<lambda>i. inv_id i \<in> ids) f) s" by simp
  have "map inv_id rows = map inv_id (filter (\<lambda>i. inv_id i \<in> ids) (inventory_items s))"
    using rows assms(3) by (simp add: comp_def)
  then show "set (map inv_id rows) = ids" and "distinct (map inv_id rows)"
    using assms(4) schema_distinct(2) [OF assms(1)] by (auto simp: distinct_map_filter)
qed

lemma selectedItems_distinct: "schema s \<Longrightarrow> distinct (selectedItems skip pid n s)"
proof -
  assume "schema s"
  then have "distinct (map inv_id (filter p (sort_key f (sort_key g (filter q (inventory_items s))))))"
    for p q and f :: "inventory_row \<Rightarrow> int" and g :: "inventory_row \<Rightarrow> int"
    using schema_distinct(2) [of s] by (auto simp: distinct_map inj_on_def)
  then show ?thesis unfolding selectedItems_def take_map [symmetric] by (rule distinct_take)
qed

lemma selectedItems_subset: "set (selectedItems skip pid n s) \<subseteq> inv_id ` set (inventory_items s)"
  by (auto simp: selectedItems_def dest!: in_set_takeD)

lemma selectedItems_length: "int (length (selectedItems skip pid n s)) \<le> max 0 n"
  by (simp add: selectedItems_def)

lemma claimed_fresh:
  assumes "schema s" "ids \<subseteq> set (selectedItems skip pid n s)"
  shows "fresh_items (view s) ids"
proof -
  have avail: "claimable s pid i" if "i \<in> set (inventory_items s)" "inv_id i \<in> ids" for i
    using selectedItems_claimable [OF assms(1) that(1)] that(2) assms(2) by blast
  have items: "\<exists>i \<in> set (inventory_items s). inv_id i = x" if "x \<in> ids" for x
    using that assms(2) selectedItems_subset by blast
  have "finite ids" using assms(2) by (rule finite_subset) simp
  moreover have "x \<notin> file_items (fileOf s k)" if "x \<in> ids" for x k
    using avail items [OF that] that
    by (fastforce simp: file_items_def fileOf_def Let_def claimable_def activeMapping_def reservedFor_def
        soldTo_def mappedTo_def)
  ultimately show ?thesis by (auto simp: fresh_items_def view_def)
qed

lemma claim_run:
  assumes "schema s" "set ids \<subseteq> set (selectedItems skip pid n s)"
    and "updateInventory (\<lambda>i. inv_id i \<in> set ids) (reserveItem k t) s = (Inr rows, s')"
  shows "view s' = file_upd k (\<lambda>f. f\<lparr>cf_reserved := cf_reserved f \<union> set ids\<rparr>) (view s)"
    and "set (map inv_id rows) = set ids" and "distinct (map inv_id rows)"
    and "fresh_items (view s) (set ids)"
proof -
  have sub: "set ids \<subseteq> inv_id ` set (inventory_items s)"
    using assms(2) selectedItems_subset by (rule subset_trans)
  note run = updateInventory_ids [OF assms(1,3) _ sub]
  show "view s' = file_upd k (\<lambda>f. f\<lparr>cf_reserved := cf_reserved f \<union> set ids\<rparr>) (view s)"
  proof -
    have "inv_status i = InventoryStatusAvailable" if "i \<in> set (inventory_items s)" "inv_id i \<in> set ids" for i
      using selectedItems_claimable [OF assms(1) that(1)] that(2) assms(2) by (auto simp: claimable_def)
    moreover have "s' = inventory_items_update (updateWhere (\<lambda>i. inv_id i \<in> set ids) (reserveItem k t)) s"
      by (rule run(1)) (simp add: reserveItem_def)
    ultimately show ?thesis using view_claim [OF _ sub] by blast
  qed
  show "set (map inv_id rows) = set ids" "distinct (map inv_id rows)"
    using run(2,3) by (simp_all add: reserveItem_def)
  show "fresh_items (view s) (set ids)" using assms(1,2) by (rule claimed_fresh)
qed

lemma triple_ClaimExactAvailableInventory [prims]:
  "triple (seen A) (ClaimExactAvailableInventory skip k t pid n) (\<lambda>r s.
    seen (file_upd k (\<lambda>f. f\<lparr>cf_reserved := cf_reserved f \<union> set r\<rparr>) A) s \<and>
    (distinct r \<and> fresh_items A (set r) \<and> (r = [] \<or> int (length r) = n)))"
proof (rule triple_seen [OF progress_ClaimExactAvailableInventory])
  fix s r s'
  assume s: "schema s" "view s = A" and "ClaimExactAvailableInventory skip k t pid n s = (Inr r, s')"
  then obtain ids rows where
    ids: "ids = (if int (length (selectedItems skip pid n s)) = n then selectedItems skip pid n s else [])"
    and run: "updateInventory (\<lambda>i. inv_id i \<in> set ids) (reserveItem k t) s = (Inr rows, s')"
    and r: "r = map inv_id rows"
    by (auto simp: ClaimExactAvailableInventory_def Let_def split: if_splits)
  have sub: "set ids \<subseteq> set (selectedItems skip pid n s)" using ids by auto
  note claim = claim_run [OF s(1) sub run]
  have "length r = length ids"
    using claim(2,3) r selectedItems_distinct [OF s(1)] ids
    by (intro distinct_same_length) (auto split: if_splits)
  then show "view s' = file_upd k (\<lambda>f. f\<lparr>cf_reserved := cf_reserved f \<union> set r\<rparr>) A \<and>
      distinct r \<and> fresh_items A (set r) \<and> (r = [] \<or> int (length r) = n)"
    using claim r s(2) ids by auto
qed

lemma triple_ClaimAvailableInventory [prims]:
  "triple (seen A) (ClaimAvailableInventory skip k t pid n) (\<lambda>r s.
    seen (file_upd k (\<lambda>f. f\<lparr>cf_reserved := cf_reserved f \<union> set r\<rparr>) A) s \<and>
    (distinct r \<and> fresh_items A (set r) \<and> int (length r) \<le> max 0 n))"
proof (rule triple_seen [OF progress_ClaimAvailableInventory])
  fix s r s'
  assume s: "schema s" "view s = A" and "ClaimAvailableInventory skip k t pid n s = (Inr r, s')"
  then obtain rows where
    run: "updateInventory (\<lambda>i. inv_id i \<in> set (selectedItems skip pid n s)) (reserveItem k t) s = (Inr rows, s')"
    and r: "r = map inv_id rows"
    by (auto simp: ClaimAvailableInventory_def split: if_splits)
  note claim = claim_run [OF s(1) subset_refl run]
  have "length r = length (selectedItems skip pid n s)"
    using claim(2,3) r selectedItems_distinct [OF s(1)] by (intro distinct_same_length) auto
  then show "view s' = file_upd k (\<lambda>f. f\<lparr>cf_reserved := cf_reserved f \<union> set r\<rparr>) A \<and>
      distinct r \<and> fresh_items A (set r) \<and> int (length r) \<le> max 0 n"
    using claim r s(2) selectedItems_length [of skip pid n s] by auto
qed

section \<open>Exact reservations\<close>

lemma filter_unique_key:
  assumes "distinct (map key rows)"
  shows "map key (filter (\<lambda>r. key r = x \<and> q r) rows) = (if x \<in> key ` {r \<in> set rows. q r} then [x] else [])"
  using assms by (induction rows) (auto simp: filter_empty_conv)

lemma pick_ids:
  "map (\<lambda>(m, i). inv_id i) (concat (map (\<lambda>i. if q i then [(m, i)] else []) rows)) =
   map inv_id (filter q rows)"
  by (induction rows) auto

lemma exactReserved_ids:
  assumes "schema s"
  shows "map (\<lambda>(m, i). inv_id i) (exactReserved s k) =
    filter (\<lambda>x. x \<in> cf_reserved (sf_file (view s) k))
      (map map_inventory_item_id (filter (mappedTo k) (order_inventory s)))"
proof -
  let ?held = "\<lambda>m i. inv_id i = map_inventory_item_id m \<and> inv_status i = InventoryStatusReserved \<and>
    inv_reserved_order_id i = Some k"
  have inner: "map inv_id (filter (?held m) (inventory_items s)) =
      (if map_inventory_item_id m \<in> cf_reserved (sf_file (view s) k) then [map_inventory_item_id m] else [])" for m
    using filter_unique_key [OF schema_distinct(2) [OF assms], of "map_inventory_item_id m" "reservedFor k"]
    by (simp add: view_defs reservedFor_def conj_commute)
  have "map (\<lambda>(m, i). inv_id i) (concat (map (\<lambda>m. if map_order_id m = k \<and> map_status m = ''active''
      then concat (map (\<lambda>i. if ?held m i then [(m, i)] else []) (inventory_items s)) else []) ms)) =
    filter (\<lambda>x. x \<in> cf_reserved (sf_file (view s) k)) (map map_inventory_item_id (filter (mappedTo k) ms))" for ms
  proof (induction ms)
    case (Cons m ms)
    show ?case
      using Cons.IH by (simp only: list.map concat.simps map_append mappedTo_def filter.simps if_distrib
          pick_ids inner split: if_splits) (auto simp: pick_ids inner)
  qed simp
  then show ?thesis unfolding exactReserved_def .
qed

lemma mapped_distinct_rows:
  "noClash mapping_uq ms \<Longrightarrow> distinct (map map_inventory_item_id (filter (mappedTo k) ms))"
  by (induction ms) (auto simp: mapping_uq_def mappedTo_def)

lemma mapped_distinct:
  "schema s \<Longrightarrow> distinct (map map_inventory_item_id (filter (mappedTo k) (order_inventory s)))"
  by (rule mapped_distinct_rows) (simp add: schema_def table_ok_def)

lemma exactReserved_set:
  assumes "schema s"
  shows "set (map (\<lambda>(m, i). inv_id i) (exactReserved s k)) =
      cf_reserved (sf_file (view s) k) \<inter> cf_mapped (sf_file (view s) k)"
    and "distinct (map (\<lambda>(m, i). inv_id i) (exactReserved s k))"
proof -
  show "set (map (\<lambda>(m, i). inv_id i) (exactReserved s k)) =
      cf_reserved (sf_file (view s) k) \<inter> cf_mapped (sf_file (view s) k)"
    unfolding exactReserved_ids [OF assms] by (auto simp: view_defs)
  show "distinct (map (\<lambda>(m, i). inv_id i) (exactReserved s k))"
    unfolding exactReserved_ids [OF assms] using mapped_distinct [OF assms] by simp
qed

lemma triple_CountExactReservedInventoryForOrder [prims]:
  "triple (seen A) (CountExactReservedInventoryForOrder k) (\<lambda>r s. seen A s \<and>
     r = int (card (cf_reserved (sf_file A k) \<inter> cf_mapped (sf_file A k))))"
proof (rule tripleI)
  fix s r s'
  assume s: "seen A s" and run: "CountExactReservedInventoryForOrder k s = (Inr r, s')"
  then have "int (length (map (\<lambda>(m, i). inv_id i) (exactReserved s k))) =
      int (card (cf_reserved (sf_file A k) \<inter> cf_mapped (sf_file A k)))"
    using exactReserved_set [of s k] distinct_card by (fastforce simp: seen_def)
  with s run show "seen A s' \<and> r = int (card (cf_reserved (sf_file A k) \<inter> cf_mapped (sf_file A k)))"
    by (auto simp: CountExactReservedInventoryForOrder_def)
qed

lemma triple_MarkExactReservedInventorySold [prims]:
  "triple (seen A) (MarkExactReservedInventorySold k n) (\<lambda>r s.
     seen (file_upd k (\<lambda>f. f\<lparr>cf_reserved := cf_reserved f - set r, cf_sold := cf_sold f \<union> set r\<rparr>) A) s \<and>
     (distinct r \<and> (r = [] \<or> set r = cf_reserved (sf_file A k) \<inter> cf_mapped (sf_file A k))))"
proof (rule triple_seen [OF progress_MarkExactReservedInventorySold])
  fix s r s'
  assume s: "schema s" "view s = A" and run0: "MarkExactReservedInventorySold k n s = (Inr r, s')"
  define el where "el = map (\<lambda>(m, i). inv_id i) (exactReserved s k)"
  define ids where "ids = (if int (length el) = n then set el else {})"
  define sell where "sell i = i\<lparr>inv_status := InventoryStatusSold, inv_reserved_order_id := None,
    inv_reserved_until := None, inv_sold_order_id := Some k, inv_version := inv_version i + 1\<rparr>"
    for i :: inventory_row
  from run0 obtain rows where run: "updateInventory (\<lambda>i. inv_id i \<in> ids) sell s = (Inr rows, s')"
    and r: "r = map inv_id rows"
    by (auto simp: MarkExactReservedInventorySold_def Let_def ids_def el_def sell_def [abs_def]
        if_distrib [of set] split: if_splits)
  have res: "ids \<subseteq> (\<lambda>(m, i). inv_id i) ` set (exactReserved s k)" by (auto simp: ids_def el_def)
  then have sub: "ids \<subseteq> inv_id ` set (inventory_items s)" by (fastforce simp: exactReserved_def)
  have own: "reservedFor k i" if "i \<in> set (inventory_items s)" "inv_id i \<in> ids" for i
    using exactReserved_reserved [OF s(1) that(1)] that(2) res by blast
  note upd = updateInventory_ids [OF s(1) run _ sub]
  have "s' = inventory_items_update (updateWhere (\<lambda>i. inv_id i \<in> ids) sell) s"
    "set r = ids" "distinct r"
    using upd r by (simp_all add: sell_def)
  moreover have "view (inventory_items_update (updateWhere (\<lambda>i. inv_id i \<in> ids) sell) s) =
      file_upd k (\<lambda>f. f\<lparr>cf_reserved := cf_reserved f - ids, cf_sold := cf_sold f \<union> ids\<rparr>) (view s)"
    using view_sell [OF own sub] by (simp add: sell_def [abs_def])
  moreover have "r = [] \<or> set r = cf_reserved (sf_file A k) \<inter> cf_mapped (sf_file A k)"
    using calculation(2) exactReserved_set(1) [OF s(1), of k] s(2)
    by (auto simp: ids_def el_def split: if_splits)
  ultimately show "view s' =
      file_upd k (\<lambda>f. f\<lparr>cf_reserved := cf_reserved f - set r, cf_sold := cf_sold f \<union> set r\<rparr>) A \<and>
      distinct r \<and> (r = [] \<or> set r = cf_reserved (sf_file A k) \<inter> cf_mapped (sf_file A k))"
    using s(2) by simp
qed

lemma triple_ListReservedInventoryIDsByOrder [prims]:
  "triple (seen A) (ListReservedInventoryIDsByOrder k) (\<lambda>r s. seen A s \<and> set r = cf_reserved (sf_file A k))"
  by (rule tripleI) (auto simp: ListReservedInventoryIDsByOrder_def seen_def view_defs)

section \<open>Mappings and allocations\<close>

lemma triple_InsertOrderInventoryMapping [prims]:
  "triple (seen A) (InsertOrderInventoryMapping k it x) (\<lambda>r s.
     seen (file_upd k (\<lambda>f. f\<lparr>cf_mapped := insert x (cf_mapped f)\<rparr>) A) s \<and> True)"
proof (rule triple_seen [OF progress_InsertOrderInventoryMapping])
  fix s r s'
  assume "view s = A" "InsertOrderInventoryMapping k it x s = (Inr r, s')"
  moreover have "{m. (m = a \<or> m \<in> set ms) \<and> mappedTo l m} =
      (if mappedTo l a then insert a {m \<in> set ms. mappedTo l m} else {m \<in> set ms. mappedTo l m})" for l a ms
    by auto
  ultimately show "view s' = file_upd k (\<lambda>f. f\<lparr>cf_mapped := insert x (cf_mapped f)\<rparr>) A \<and> True"
    by (auto simp: InsertOrderInventoryMapping_def view_defs fun_eq_iff dest!: sql_dests)
      (simp_all add: mappedTo_def)
qed

lemma triple_mappings [prims]:
  "triple (seen A) (forE ids (InsertOrderInventoryMapping k it)) (\<lambda>r s.
     seen (file_upd k (\<lambda>f. f\<lparr>cf_mapped := cf_mapped f \<union> set ids\<rparr>) A) s \<and> True)"
proof (induction ids arbitrary: A)
  case Nil
  show ?case by (simp add: triple_def)
next
  case (Cons x ids)
  show ?case
    unfolding forE.simps
    by (rule triple_step [OF triple_InsertOrderInventoryMapping], rule triple_post [OF Cons.IH])
      (simp add: insert_commute)
qed

lemma triple_InsertPaymentAllocation_order [prims]:
  "triple (seen A) (InsertPaymentAllocation pid ''order'' k amount) (\<lambda>r s.
     seen (file_upd k (\<lambda>f. f\<lparr>cf_alloc := cf_alloc f @ [amount]\<rparr>) A) s \<and> 0 < amount)"
proof (rule triple_seen)
  fix s r s'
  assume "view s = A" "InsertPaymentAllocation pid ''order'' k amount s = (Inr r, s')"
  then show "view s' = file_upd k (\<lambda>f. f\<lparr>cf_alloc := cf_alloc f @ [amount]\<rparr>) A \<and> 0 < amount"
    by (auto simp: InsertPaymentAllocation_def view_defs allocationsOf_def fun_eq_iff allocation_ck_def
        dest!: sql_dests)
qed (intro always_intros)

lemma triple_InsertPaymentAllocation_topup [prims]:
  "triple (seen A) (InsertPaymentAllocation pid ''wallet_topup'' k amount) (\<lambda>r s.
     seen (topup_upd k (\<lambda>f. f\<lparr>tf_alloc := tf_alloc f @ [amount]\<rparr>) A) s \<and> 0 < amount)"
proof (rule triple_seen)
  fix s r s'
  assume "view s = A" "InsertPaymentAllocation pid ''wallet_topup'' k amount s = (Inr r, s')"
  then show "view s' = topup_upd k (\<lambda>f. f\<lparr>tf_alloc := tf_alloc f @ [amount]\<rparr>) A \<and> 0 < amount"
    by (auto simp: InsertPaymentAllocation_def view_defs allocationsOf_def fun_eq_iff allocation_ck_def
        dest!: sql_dests)
qed (intro always_intros)

end
