(* ===== verification/Queue_Queries.thy ===== *)
theory Queue_Queries
  imports Shop_Queries
begin

text \<open>The queries on the delivery queue, the wallets and the top-ups, as functions of the view.\<close>

section \<open>The queue\<close>

lemma job_order:
  assumes "schema s" "j \<in> set (outbox_events s)"
  shows "job_delivery_order_id j = Some k \<longleftrightarrow> deliveryJob k j"
proof -
  have "job_ck j" using assms by (simp add: schema_def table_ok_def list_all_iff)
  then show ?thesis by (auto simp: deliveryJob_def job_ck_def split: if_splits)
qed

lemma view_job:
  assumes "schema s" "j \<in> set (outbox_events s)" "deliveryJob k j"
  shows "cf_job (sf_file (view s) k) = Some (job_id j, job_status j)"
  using job_found [OF assms] by (simp add: view_defs)

lemma view_jobD:
  assumes "cf_job (sf_file (view s) k) = Some (jid, st)"
  obtains j where "j \<in> set (outbox_events s)" "deliveryJob k j" "job_id j = jid" "job_status j = st"
  using assms by (auto simp: view_defs dest: find_keyD)

lemma view_job_update:
  assumes "schema s" "\<And>j. same_job j (f j)"
  shows "view (outbox_events_update (updateWhere p f) s) =
    (view s)\<lparr>sf_file := (\<lambda>k. (sf_file (view s) k)\<lparr>cf_job :=
       map_option (\<lambda>j. (job_id j, job_status (if p j then f j else j))) (find (deliveryJob k) (outbox_events s))\<rparr>)\<rparr>"
proof -
  have "find (deliveryJob k) (updateWhere p f (outbox_events s)) =
      map_option (\<lambda>j. if p j then f j else j) (find (deliveryJob k) (outbox_events s))" for k
    by (rule find_updateWhere) (use assms(2) in \<open>simp add: same_job_def deliveryJob_def\<close>)
  moreover have "(\<lambda>j. (job_id (if p j then f j else j), job_status (if p j then f j else j))) =
      (\<lambda>j. (job_id j, job_status (if p j then f j else j)))"
    using assms(2) by (auto simp: same_job_def)
  ultimately show ?thesis by (simp add: view_defs option.map_comp comp_def fun_eq_iff)
qed

text \<open>
  The view after one job was updated, and what is known of the row: it belongs to the only
  file, if any, that names the job.
\<close>

definition job_post :: "shop \<Rightarrow> job_row \<Rightarrow> shop" where
  "job_post A r = (case job_delivery_order_id r of None \<Rightarrow> A
     | Some k \<Rightarrow> file_upd k (cf_job_update (\<lambda>_. Some (job_id r, job_status r))) A)"

definition job_fact :: "shop \<Rightarrow> int64 \<Rightarrow> (DeliveryJobStatus \<Rightarrow> bool) \<Rightarrow> job_row \<Rightarrow> bool" where
  "job_fact A jid q r \<longleftrightarrow> job_id r = jid \<and>
     (\<forall>k. job_delivery_order_id r = Some k \<longrightarrow> (\<exists>st. cf_job (sf_file A k) = Some (jid, st) \<and> q st)) \<and>
     (\<forall>k st. cf_job (sf_file A k) = Some (jid, st) \<longrightarrow> job_delivery_order_id r = Some k)"

lemma job_factD:
  assumes "job_fact A jid q r" "cf_job (sf_file A k) = Some (jid, st)"
  shows "job_post A r = file_upd k (cf_job_update (\<lambda>_. Some (jid, job_status r))) A" "q st"
    "job_id r = jid" "job_delivery_order_id r = Some k"
  using assms by (auto simp: job_fact_def job_post_def)

lemma job_fact_view:
  assumes "schema s" "j \<in> set (outbox_events s)" "q (job_status j)" "same_job j r"
  shows "job_fact (view s) (job_id j) q r"
proof -
  have "job_delivery_order_id r = Some k" if "cf_job (sf_file (view s) k) = Some (job_id j, st)" for k st
  proof -
    from that obtain i where "i \<in> set (outbox_events s)" "deliveryJob k i" "job_id i = job_id j"
      by (rule view_jobD)
    then have "deliveryJob k j" using same_job_id [OF assms(1) _ assms(2)] by metis
    then show ?thesis using assms(4) by (simp add: deliveryJob_def same_job_def)
  qed
  moreover have "\<exists>st. cf_job (sf_file (view s) k) = Some (job_id j, st) \<and> q st"
    if "job_delivery_order_id r = Some k" for k
    using that job_order [OF assms(1,2), of k] view_job [OF assms(1,2), of k] assms(3,4)
    by (simp add: same_job_def)
  ultimately show ?thesis using assms(4) by (simp add: job_fact_def same_job_def)
qed

lemma view_job_update_one:
  assumes "schema s" "j \<in> set (outbox_events s)" "p j" "\<And>i. p i \<Longrightarrow> job_id i = job_id j"
    and "\<And>i. same_job i (f i)"
  shows "view (outbox_events_update (updateWhere p f) s) = job_post (view s) (f j)"
proof -
  have only: "i = j" if "i \<in> set (outbox_events s)" "p i" for i
    using same_job_id [OF assms(1) that(1) assms(2)] assms(4) [OF that(2)] by simp
  have files: "map_option (\<lambda>i. (job_id i, job_status (if p i then f i else i)))
      (find (deliveryJob k) (outbox_events s)) =
    (if job_delivery_order_id j = Some k then Some (job_id (f j), job_status (f j))
     else cf_job (sf_file (view s) k))" for k
  proof (cases "find (deliveryJob k) (outbox_events s)")
    case None
    then have "\<not> deliveryJob k j" using assms(2) by (auto simp: find_None_iff)
    then show ?thesis using None job_order [OF assms(1,2)] by (simp add: view_defs)
  next
    case (Some i)
    then have i: "i \<in> set (outbox_events s)" "deliveryJob k i" by (auto dest: find_keyD)
    show ?thesis
    proof (cases "i = j")
      case True
      then show ?thesis
        using Some i assms(3) assms(5) [of j] job_order [OF assms(1,2), of k] by (simp add: same_job_def)
    next
      case False
      then have "\<not> p i" "\<not> deliveryJob k j"
        using only i delivery_job_unique [OF assms(1) i(1) assms(2) i(2)] by blast+
      then show ?thesis using Some job_order [OF assms(1,2)] by (simp add: view_defs)
    qed
  qed
  show ?thesis
    unfolding view_job_update [OF assms(1,5)] files job_post_def
    using assms(5) [of j] by (auto simp: upd_defs fun_eq_iff same_job_def split: option.splits)
qed

lemma triple_job_move:
  assumes "\<And>j. p j \<Longrightarrow> job_id j = jid \<and> q (job_status j)" "\<And>j. same_job j (f j)"
    and "\<And>j. p j \<Longrightarrow> g (f j)"
    and "\<And>s0. always (progress s0) (one (updateJobs p f))"
  shows "triple (seen A) (one (updateJobs p f)) (\<lambda>r s. seen (job_post A r) s \<and> (job_fact A jid q r \<and> g r))"
proof (rule triple_seen [OF assms(4)])
  fix s r s'
  assume s: "schema s" "view s = A" and run: "one (updateJobs p f) s = (Inr r, s')"
  then obtain rs where upd: "sqlUpdate outbox_events outbox_events_update job_ck job_uq p f s = (Inr (r # rs), s')"
    by (auto simp: updateJobs_def)
  then obtain j where j: "j \<in> set (outbox_events s)" "p j" "r = f j"
    by (auto dest!: sqlUpdate_InrD simp: map_eq_Cons_conv Cons_eq_map_conv dest!: filter_hd_mem)
  have "s' = outbox_events_update (updateWhere p f) s" using sqlUpdate_InrD [OF upd] by simp
  then show "view s' = job_post A r \<and> job_fact A jid q r \<and> g r"
    using view_job_update_one [of s j p f] s(1) j(1,2) job_fact_view [OF s(1) j(1), of q r]
      assms(1) [OF j(2)] assms(1) assms(2) assms(3) [OF j(2)] j(3) s(2) by auto
qed

lemmas job_rows = unlockJob_def lockedStage_def processingStage_def same_job_def

lemma triple_job_moves [prims]:
  "triple (seen A) (MarkStaleDeliveryClaimRetryable t jid) (\<lambda>r s. seen (job_post A r) s \<and>
     (job_fact A jid (\<lambda>st. st = DeliveryJobProcessing) r \<and> job_status r = DeliveryJobRetryableFailed))"
  "triple (seen A) (MarkStaleDeliverySendAmbiguous jid) (\<lambda>r s. seen (job_post A r) s \<and>
     (job_fact A jid (\<lambda>st. st = DeliveryJobProcessing) r \<and> job_status r = DeliveryJobAmbiguous))"
  "triple (seen A) (BeginDeliverySend t jid w) (\<lambda>r s. seen (job_post A r) s \<and>
     (job_fact A jid (\<lambda>st. st = DeliveryJobProcessing) r \<and> job_status r = DeliveryJobProcessing))"
  "triple (seen A) (MarkDeliveryRetryable t ec ed jid w) (\<lambda>r s. seen (job_post A r) s \<and>
     (job_fact A jid (\<lambda>st. st = DeliveryJobProcessing) r \<and> job_status r = DeliveryJobRetryableFailed))"
  "triple (seen A) (MarkDeliveryPermanentFailed ec ed t jid w) (\<lambda>r s. seen (job_post A r) s \<and>
     (job_fact A jid (\<lambda>st. st = DeliveryJobProcessing) r \<and> job_status r = DeliveryJobPermanentFailed))"
  "triple (seen A) (MarkDeliveryAmbiguous mid st' ec ed jid) (\<lambda>r s. seen (job_post A r) s \<and>
     (job_fact A jid (\<lambda>st. st = DeliveryJobProcessing) r \<and> job_status r = DeliveryJobAmbiguous))"
  "triple (seen A) (MarkDeliveryCompleted m t ct jid w) (\<lambda>r s. seen (job_post A r) s \<and>
     (job_fact A jid (\<lambda>st. st = DeliveryJobProcessing) r \<and> job_status r = DeliveryJobCompleted))"
  "triple (seen A) (ManualRetryDeliveryJob t re aid ra jid v) (\<lambda>r s. seen (job_post A r) s \<and>
     (job_fact A jid (\<lambda>st. st \<in> {DeliveryJobAmbiguous, DeliveryJobManualReview,
        DeliveryJobPermanentFailed, DeliveryJobRetryableFailed}) r \<and> job_status r = DeliveryJobPending))"
  "triple (seen A) (ManualCompleteDeliveryJob m ra re aid jid v) (\<lambda>r s. seen (job_post A r) s \<and>
     (job_fact A jid (\<lambda>st. st \<in> {DeliveryJobAmbiguous, DeliveryJobManualReview}) r \<and>
      job_status r = DeliveryJobCompleted))"
  "triple (seen A) (MarkClaimedDeliveryFailure cp) (\<lambda>r s. seen (job_post A r) s \<and>
     (job_fact A (cfp_id cp) (\<lambda>st. st = DeliveryJobProcessing) r \<and> job_status r = cfp_new_status cp))"
  using progress_job_moves
  unfolding MarkStaleDeliveryClaimRetryable_def MarkStaleDeliverySendAmbiguous_def
    BeginDeliverySend_def MarkDeliveryRetryable_def MarkDeliveryPermanentFailed_def
    MarkDeliveryAmbiguous_def MarkDeliveryCompleted_def ManualRetryDeliveryJob_def
    ManualCompleteDeliveryJob_def MarkClaimedDeliveryFailure_def
  by - (rule triple_job_move; (assumption | simp add: job_rows))+

lemma triple_LockDeliveryJob [prims]:
  "triple (seen A) (LockDeliveryJob jid) (\<lambda>r s. seen A s \<and> (job_id r = jid \<and>
     (\<exists>k. job_delivery_order_id r = Some k \<and> cf_job (sf_file A k) = Some (jid, job_status r))))"
  unfolding LockDeliveryJob_def
proof (rule triple_select)
  fix s r rs
  assume s: "schema s" "view s = A"
    and "filter (\<lambda>j. job_id j = jid \<and> job_event_type j = deliveryEvent) (outbox_events s) = r # rs"
  then have r: "r \<in> set (outbox_events s)" "job_id r = jid" "job_event_type r = deliveryEvent"
    by (auto dest!: filter_hd_mem)
  then have "job_ck r" using s(1) by (simp add: schema_def table_ok_def list_all_iff)
  then obtain k where "deliveryJob k r" using r(3) by (auto simp: job_ck_def deliveryJob_def)
  then show "job_id r = jid \<and> (\<exists>k. job_delivery_order_id r = Some k \<and>
      cf_job (sf_file A k) = Some (jid, job_status r))"
    using view_job [OF s(1) r(1)] r(2) s(2) by (auto simp: deliveryJob_def)
qed

lemma view_job_insert:
  assumes "schema s" "job_ck r" "keyed_job r" "\<forall>j \<in> set (outbox_events s). \<not> job_uq r j" "deliveryJob k r"
  shows "view (outbox_events_update (\<lambda>rows. rows @ [r]) s) =
      file_upd k (cf_job_update (\<lambda>_. Some (job_id r, job_status r))) (view s)"
    and "cf_job (sf_file (view s) k) = None"
proof -
  have "\<not> deliveryJob k j" if j: "j \<in> set (outbox_events s)" for j
  proof
    assume d: "deliveryJob k j"
    have "job_ck j" "keyed_job j" using assms(1) j by (simp_all add: schema_def table_ok_def list_all_iff)
    then have "job_deduplication_key j = job_deduplication_key r"
      using d assms(2,3,5) by (auto simp: job_ck_def keyed_job_def deliveryJob_def)
    with assms(4) j show False by (auto simp: job_uq_def)
  qed
  then have none: "find (deliveryJob k) (outbox_events s) = None" by (auto simp: find_None_iff)
  then show "cf_job (sf_file (view s) k) = None" by (simp add: view_defs)
  have "find (deliveryJob l) (outbox_events s @ [r]) =
      (if l = k then Some r else find (deliveryJob l) (outbox_events s))" for l
    using none assms(5) by (auto simp: find_append deliveryJob_def split: option.splits)
  then show "view (outbox_events_update (\<lambda>rows. rows @ [r]) s) =
      file_upd k (cf_job_update (\<lambda>_. Some (job_id r, job_status r))) (view s)"
    by (simp add: view_defs fun_eq_iff)
qed

lemma triple_InsertDeliveryJob [prims]:
  "triple (seen A) (InsertDeliveryJob k n t c) (\<lambda>r s.
     seen (file_upd k (cf_job_update (\<lambda>_. Some (job_id r, DeliveryJobPending))) A) s \<and>
     cf_job (sf_file A k) = None)"
proof (rule triple_seen [OF progress_InsertDeliveryJob])
  fix s r s'
  assume s: "schema s" "view s = A" and run: "InsertDeliveryJob k n t c s = (Inr r, s')"
  from run have r: "job_ck r" "keyed_job r" "deliveryJob k r" "job_status r = DeliveryJobPending"
    and new: "\<forall>j \<in> set (outbox_events s). \<not> job_uq r j"
    and view: "view s' = view (outbox_events_update (\<lambda>rows. rows @ [r]) s)"
    by (auto simp: InsertDeliveryJob_def keyed_job_def deliveryJob_def view_after_seqs dest!: sql_dests)
  show "view s' = file_upd k (cf_job_update (\<lambda>_. Some (job_id r, DeliveryJobPending))) A \<and>
      cf_job (sf_file A k) = None"
    using view_job_insert [OF s(1) r(1,2) new r(3)] view r(4) s(2) by simp
qed

lemma failsafe_InsertDeliveryJob: "failsafe (seen A) (InsertDeliveryJob k n t c)"
  unfolding failsafe_def
proof (intro allI impI)
  fix s e s'
  assume s: "seen A s" and run: "InsertDeliveryJob k n t c s = (Inl e, s')"
  have "schema s'" using seen_progress [OF progress_InsertDeliveryJob _ run] s by (simp add: seen_def)
  moreover have "view s' = view s"
    using run by (auto simp: InsertDeliveryJob_def bindE_app nextId_def sqlInsertIgnore_def sqlInsert_def
        split: if_splits)
  ultimately show "seen A s'" using s by (simp add: seen_def)
qed

section \<open>Wallets\<close>

lemma view_wallet_update:
  assumes "schema s" "x \<in> set (wallet_accounts s)" "p x" "wal_id x = w"
    and "\<And>y. p y \<Longrightarrow> wal_id y = w" "\<And>y. wal_id (f y) = wal_id y"
  shows "view (wallet_accounts_update (updateWhere p f) s) =
    wallet_upd w (wf_balance_update (\<lambda>_. Some (wal_balance_vnd (f x)))) (view s)"
proof -
  have "find (\<lambda>r. wal_id r = l) (updateWhere p f (wallet_accounts s)) =
      map_option (\<lambda>r. if p r then f r else r) (find (\<lambda>r. wal_id r = l) (wallet_accounts s))" for l
    by (rule find_updateWhere) (simp add: assms(6))
  moreover have "map_option (\<lambda>r. if p r then f r else r) (find (\<lambda>r. wal_id r = l) (wallet_accounts s)) =
      find (\<lambda>r. wal_id r = l) (wallet_accounts s)" if "l \<noteq> w" for l
    using that assms(5) by (cases "find (\<lambda>r. wal_id r = l) (wallet_accounts s)") (auto dest: find_keyD)
  moreover have "find (\<lambda>r. wal_id r = w) (wallet_accounts s) = Some x"
    using wallet_found [OF assms(1,2)] assms(4) by simp
  ultimately show ?thesis
    using assms(3) by (auto simp: view_defs fun_eq_iff split: option.splits)
qed

lemma triple_EnsureWalletAccount [prims]:
  "triple (seen A) (EnsureWalletAccount uid) (\<lambda>r s.
     seen (wallet_upd (wal_id r) (wf_balance_update (\<lambda>_. Some (wal_balance_vnd r))) A) s \<and>
     (wf_balance (sf_wallet A (wal_id r)) = Some (wal_balance_vnd r) \<or>
      wf_balance (sf_wallet A (wal_id r)) = None \<and> wal_balance_vnd r = 0))"
proof (rule triple_seen [OF progress_EnsureWalletAccount])
  fix s r s'
  assume s: "schema s" "view s = A" and run: "EnsureWalletAccount uid s = (Inr r, s')"
  consider "r \<in> set (wallet_accounts s)" "view s' = view s"
    | "\<forall>w \<in> set (wallet_accounts s). \<not> wallet_uq r w" "wal_balance_vnd r = 0"
      "view s' = view (wallet_accounts_update (\<lambda>rows. rows @ [r]) s)"
  proof (cases "filter (\<lambda>w. wal_user_id w = uid) (wallet_accounts s)")
    case Nil
    then show ?thesis
      using run that(2) by (auto simp: EnsureWalletAccount_def view_after_seqs dest!: sql_dests)
  next
    case (Cons w ws)
    then have "w \<in> set (wallet_accounts s)" by (auto dest!: filter_hd_mem)
    with Cons show ?thesis using run that(1) by (auto simp: EnsureWalletAccount_def dest!: nextId_InrD)
  qed
  then show "view s' = wallet_upd (wal_id r) (wf_balance_update (\<lambda>_. Some (wal_balance_vnd r))) A \<and>
     (wf_balance (sf_wallet A (wal_id r)) = Some (wal_balance_vnd r) \<or>
      wf_balance (sf_wallet A (wal_id r)) = None \<and> wal_balance_vnd r = 0)"
  proof cases
    case 1
    then have "wf_balance (sf_wallet A (wal_id r)) = Some (wal_balance_vnd r)"
      using wallet_found [OF s(1)] s(2) by (auto simp: view_defs)
    then show ?thesis
      using 1(2) s(2) wallet_upd_cong [of "wf_balance_update (\<lambda>_. Some (wal_balance_vnd r))" A "wal_id r" "\<lambda>f. f"]
      by simp
  next
    case 2
    then have none: "find (\<lambda>x. wal_id x = wal_id r) (wallet_accounts s) = None"
      by (auto simp: find_None_iff wallet_uq_def)
    then have "view (wallet_accounts_update (\<lambda>rows. rows @ [r]) s) =
        wallet_upd (wal_id r) (wf_balance_update (\<lambda>_. Some (wal_balance_vnd r))) (view s)"
      by (simp add: view_defs fun_eq_iff find_append split: option.splits)
    then show ?thesis using 2 none s(2) by (auto simp: view_defs)
  qed
qed

lemma triple_LockWalletAccount [prims]:
  "triple (seen A) (LockWalletAccount w) (\<lambda>r s. seen A s \<and>
     (wal_id r = w \<and> wf_balance (sf_wallet A w) = Some (wal_balance_vnd r)))"
  unfolding LockWalletAccount_def
  by (rule triple_select) (auto dest!: filter_hd_mem simp: view_defs wallet_found)

lemma triple_UpdateWalletBalance [prims]:
  "triple (seen A) (UpdateWalletBalance a w) (\<lambda>r s.
     seen (wallet_upd w (wf_balance_update (\<lambda>_. Some (wal_balance_vnd r))) A) s \<and>
     (\<exists>b. wf_balance (sf_wallet A w) = Some b \<and> 0 \<le> b + a \<and> is_int64 (b + a) \<and>
        wal_balance_vnd r = b + a \<and> wal_id r = w))"
proof (rule triple_seen [OF progress_UpdateWalletBalance])
  fix s r s'
  assume s: "schema s" "view s = A" and run: "UpdateWalletBalance a w s = (Inr r, s')"
  let ?p = "\<lambda>x. wal_id x = w \<and> wal_status x = ''active'' \<and> wal_balance_vnd x + a \<ge> 0"
  let ?f = "\<lambda>x. x\<lparr>wal_balance_vnd := wal_balance_vnd x + a, wal_version := wal_version x + 1\<rparr>"
  from run obtain rs where
    upd: "sqlUpdate wallet_accounts wallet_accounts_update wallet_ck wallet_uq ?p ?f s = (Inr (r # rs), s')"
    and fits: "\<forall>x \<in> set (wallet_accounts s). wal_id x = w \<and> wal_status x = ''active'' \<longrightarrow> is_int64 (wal_balance_vnd x + a)"
    by (auto simp: UpdateWalletBalance_def split: if_splits)
  then obtain x where x: "x \<in> set (wallet_accounts s)" "?p x" "r = ?f x"
    by (auto dest!: sqlUpdate_InrD simp: map_eq_Cons_conv Cons_eq_map_conv dest!: filter_hd_mem)
  have found: "find (\<lambda>y. wal_id y = w) (wallet_accounts s) = Some x"
    using wallet_found [OF s(1) x(1)] x(2) by simp
  have "view (wallet_accounts_update (updateWhere ?p ?f) s) =
      wallet_upd w (wf_balance_update (\<lambda>_. Some (wal_balance_vnd r))) (view s)"
    unfolding x(3)
    by (rule view_wallet_update [where p = ?p and f = ?f and x = x]) (use s(1) x(1,2) in auto)
  moreover have "s' = wallet_accounts_update (updateWhere ?p ?f) s" using sqlUpdate_InrD [OF upd] by simp
  moreover have "wf_balance (sf_wallet A w) = Some (wal_balance_vnd x)"
    using found s(2) by (auto simp: view_defs)
  ultimately show "view s' = wallet_upd w (wf_balance_update (\<lambda>_. Some (wal_balance_vnd r))) A \<and>
     (\<exists>b. wf_balance (sf_wallet A w) = Some b \<and> 0 \<le> b + a \<and> is_int64 (b + a) \<and>
        wal_balance_vnd r = b + a \<and> wal_id r = w)"
    using x fits s(2) by auto
qed

lemma triple_InsertWalletLedgerEntry [prims]:
  "triple (seen A) (InsertWalletLedgerEntry p) (\<lambda>r s.
     seen (wallet_upd (lp_account_id p) (\<lambda>f. f\<lparr>wf_ledger := wf_ledger f + lp_amount_vnd p\<rparr>) A) s \<and> True)"
proof (rule triple_seen [OF progress_InsertWalletLedgerEntry])
  fix s r s'
  assume "view s = A" "InsertWalletLedgerEntry p s = (Inr r, s')"
  then show "view s' = wallet_upd (lp_account_id p) (\<lambda>f. f\<lparr>wf_ledger := wf_ledger f + lp_amount_vnd p\<rparr>) A \<and> True"
    by (auto simp: InsertWalletLedgerEntry_def view_defs ledgerOf_def fun_eq_iff dest!: sql_dests)
qed

section \<open>Top-ups\<close>

lemma view_topup_update:
  assumes "schema s" "x \<in> set (wallet_topups s)" "p x" "top_id x = w"
    and "\<And>y. p y \<Longrightarrow> top_id y = w" "\<And>y. top_id (f y) = top_id y \<and> top_amount_vnd (f y) = top_amount_vnd y"
  shows "view (wallet_topups_update (updateWhere p f) s) =
    topup_upd w (tf_status_update (\<lambda>_. Some (top_status (f x)))) (view s)"
proof -
  have "find (\<lambda>r. top_id r = l) (updateWhere p f (wallet_topups s)) =
      map_option (\<lambda>r. if p r then f r else r) (find (\<lambda>r. top_id r = l) (wallet_topups s))" for l
    by (rule find_updateWhere) (simp add: assms(6))
  moreover have "map_option (\<lambda>r. if p r then f r else r) (find (\<lambda>r. top_id r = l) (wallet_topups s)) =
      find (\<lambda>r. top_id r = l) (wallet_topups s)" if "l \<noteq> w" for l
    using that assms(5) by (cases "find (\<lambda>r. top_id r = l) (wallet_topups s)") (auto dest: find_keyD)
  moreover have "find (\<lambda>r. top_id r = w) (wallet_topups s) = Some x"
    using topup_found [OF assms(1,2)] assms(4) by simp
  ultimately show ?thesis
    using assms(3,6) by (auto simp: view_defs fun_eq_iff split: option.splits)
qed

lemma triple_topup_move:
  assumes "\<And>y. p y \<Longrightarrow> top_id y = w \<and> q (top_status y)"
    and "\<And>y. top_id (f y) = top_id y \<and> top_amount_vnd (f y) = top_amount_vnd y \<and> top_status (f y) = t"
    and "\<And>s0. always (progress s0) (one (updateTopups p f))"
  shows "triple (seen A) (one (updateTopups p f)) (\<lambda>r s.
    seen (topup_upd w (tf_status_update (\<lambda>_. Some t)) A) s \<and>
    (\<exists>st. tf_status (sf_topup A w) = Some st \<and> q st))"
proof (rule triple_seen [OF assms(3)])
  fix s r s'
  assume s: "schema s" "view s = A" and run: "one (updateTopups p f) s = (Inr r, s')"
  then obtain rs where upd: "sqlUpdate wallet_topups wallet_topups_update topup_ck topup_uq p f s = (Inr (r # rs), s')"
    by (auto simp: updateTopups_def)
  then obtain x where x: "x \<in> set (wallet_topups s)" "p x"
    by (auto dest!: sqlUpdate_InrD simp: map_eq_Cons_conv Cons_eq_map_conv dest!: filter_hd_mem)
  have "s' = wallet_topups_update (updateWhere p f) s" using sqlUpdate_InrD [OF upd] by simp
  moreover have "tf_status (sf_topup A w) = Some (top_status x)"
    using topup_found [OF s(1) x(1)] assms(1) [OF x(2)] s(2) by (auto simp: view_defs)
  ultimately show "view s' = topup_upd w (tf_status_update (\<lambda>_. Some t)) A \<and>
      (\<exists>st. tf_status (sf_topup A w) = Some st \<and> q st)"
    using view_topup_update [of s x p w f] s x assms(1,2) by auto
qed

lemma triple_topup_moves [prims]:
  "triple (seen A) (MarkWalletTopupCredited t w v) (\<lambda>r s.
    seen (topup_upd w (tf_status_update (\<lambda>_. Some ''credited'')) A) s \<and>
    (\<exists>st. tf_status (sf_topup A w) = Some st \<and> st = ''pending_payment''))"
  "triple (seen A) (MarkWalletTopupReview w) (\<lambda>r s.
    seen (topup_upd w (tf_status_update (\<lambda>_. Some ''payment_review'')) A) s \<and>
    (\<exists>st. tf_status (sf_topup A w) = Some st \<and> st \<in> {''pending_payment'', ''expired''}))"
  using progress_topups unfolding MarkWalletTopupCredited_def MarkWalletTopupReview_def
  by - (rule triple_topup_move; (assumption | simp))+

lemma triple_LockWalletTopupByReference [prims]:
  "triple (seen A) (LockWalletTopupByReference rf) (\<lambda>r s. seen A s \<and>
     (tf_status (sf_topup A (top_id r)) = Some (top_status r) \<and> tf_amount (sf_topup A (top_id r)) = top_amount_vnd r))"
  unfolding LockWalletTopupByReference_def
  by (rule triple_select) (auto dest!: filter_hd_mem simp: view_defs topup_found)

lemma triple_CreateWalletTopup_query [prims]:
  "triple (seen A) (CreateWalletTopup_query p) (\<lambda>r s.
     seen (topup_upd (top_id r) (\<lambda>f. f\<lparr>tf_status := Some ''pending_payment'', tf_amount := ctp_amount_vnd p\<rparr>) A) s \<and>
     (tf_status (sf_topup A (top_id r)) = None \<and> 0 < ctp_amount_vnd p))"
proof (rule triple_seen [OF progress_CreateWalletTopup_query])
  fix s r s'
  assume s: "schema s" "view s = A" and run: "CreateWalletTopup_query p s = (Inr r, s')"
  from run have r: "topup_ck r" "top_amount_vnd r = ctp_amount_vnd p" "top_status r = ''pending_payment''"
    and new: "\<forall>y \<in> set (wallet_topups s). \<not> topup_uq r y"
    and view: "view s' = view (wallet_topups_update (\<lambda>rows. rows @ [r]) s)"
    by (auto simp: CreateWalletTopup_query_def view_after_seqs dest!: sql_dests)
  have none: "find (\<lambda>x. top_id x = top_id r) (wallet_topups s) = None"
    using new by (auto simp: find_None_iff topup_uq_def)
  then have "view (wallet_topups_update (\<lambda>rows. rows @ [r]) s) = topup_upd (top_id r)
      (\<lambda>f. f\<lparr>tf_status := Some (top_status r), tf_amount := top_amount_vnd r\<rparr>) (view s)"
    by (simp add: view_defs fun_eq_iff find_append split: option.splits)
  moreover have "tf_status (sf_topup A (top_id r)) = None" using none s(2) by (auto simp: view_defs)
  ultimately show "view s' = topup_upd (top_id r)
      (\<lambda>f. f\<lparr>tf_status := Some ''pending_payment'', tf_amount := ctp_amount_vnd p\<rparr>) A \<and>
      tf_status (sf_topup A (top_id r)) = None \<and> 0 < ctp_amount_vnd p"
    using view r s(2) by (simp add: topup_ck_def)
qed

section \<open>Batches\<close>

definition files_upd :: "int set \<Rightarrow> (case_file \<Rightarrow> case_file) \<Rightarrow> shop \<Rightarrow> shop" where
  "files_upd K g A = A\<lparr>sf_file := (\<lambda>k. if k \<in> K then g (sf_file A k) else sf_file A k)\<rparr>"

lemma files_upd_simps [simp]:
  "files_upd {} g A = A"
  "sf_file (files_upd K g A) k = (if k \<in> K then g (sf_file A k) else sf_file A k)"
  by (simp_all add: files_upd_def)

lemma files_upd_insert:
  "k \<notin> K \<Longrightarrow> files_upd (insert k K) g A = file_upd k g (files_upd K g A)"
  "k \<notin> K \<Longrightarrow> files_upd K g (file_upd k g A) = files_upd (insert k K) g A"
  by (auto simp: files_upd_def upd_defs fun_eq_iff)

lemma files_upd_twice: "files_upd K g (files_upd K h A) = files_upd K (\<lambda>f. g (h f)) A"
  by (auto simp: files_upd_def fun_eq_iff)

lemma files_upd_cong: "(\<And>k. k \<in> K \<Longrightarrow> g (sf_file A k) = h (sf_file A k)) \<Longrightarrow> files_upd K g A = files_upd K h A"
  by (auto simp: files_upd_def fun_eq_iff)

text \<open>A batch is one specification step per file.\<close>

lemma spec_steps_batch:
  assumes "finite K" "\<And>k B. k \<in> K \<Longrightarrow> sf_file B k = sf_file A k \<Longrightarrow> spec_step B (file_upd k g B)"
  shows "spec_step\<^sup>*\<^sup>* A (files_upd K g A)"
  using assms
proof (induction K)
  case (insert k K)
  then have "spec_step\<^sup>*\<^sup>* A (files_upd K g A)" by blast
  moreover have "spec_step (files_upd K g A) (file_upd k g (files_upd K g A))"
    using insert.hyps by (intro insert.prems) auto
  ultimately show ?case by (simp add: files_upd_insert(1) insert.hyps(2))
qed simp

lemma triple_ClaimDeliveryJobs_query:
  "triple (seen A) (ClaimDeliveryJobs_query skip t w n) (\<lambda>r s. \<exists>K. finite K \<and>
     seen (files_upd K (\<lambda>f. f\<lparr>cf_job := map_option (\<lambda>(jid, _). (jid, DeliveryJobProcessing)) (cf_job f)\<rparr>) A) s \<and>
     (\<forall>k \<in> K. \<exists>jid st. cf_job (sf_file A k) = Some (jid, st) \<and>
        st \<in> {DeliveryJobPending, DeliveryJobRetryableFailed}))"
proof (rule tripleI)
  fix s r s'
  assume seen: "seen A s" and run: "ClaimDeliveryJobs_query skip t w n s = (Inr r, s')"
  then have s: "schema s" "view s = A" by (simp_all add: seen_def)
  have s': "schema s'" using seen_progress [OF progress_ClaimDeliveryJobs_query s(1) run] .
  define ids where "ids = set (map job_id (take (nat n) (filter (\<lambda>j. \<not> skip (job_id j))
        (sort_key job_next_attempt_at (sort_key job_created_at (sort_key job_id
          (filter (jobClaimable t) (outbox_events s))))))))"
  define f where "f j = j\<lparr>job_status := DeliveryJobProcessing, job_processing_stage := Some ''claimed'',
    job_locked_at := Some t, job_locked_by := w, job_last_error_code := None,
    job_last_error_detail := None, job_version := job_version j + 1\<rparr>" for j :: job_row
  from run have upd: "updateJobs (\<lambda>j. job_id j \<in> ids) f s = (Inr r, s')"
    by (auto simp: ClaimDeliveryJobs_query_def ids_def f_def [abs_def] split: if_splits)
  then have "view s' = view (outbox_events_update (updateWhere (\<lambda>j. job_id j \<in> ids) f) s)"
    by (auto simp: updateJobs_def dest!: sqlUpdate_InrD)
  define K where "K = {k. \<exists>j \<in> set (outbox_events s). deliveryJob k j \<and> job_id j \<in> ids}"
  have claimed: "job_status j \<in> {DeliveryJobPending, DeliveryJobRetryableFailed}"
    if "j \<in> set (outbox_events s)" "job_id j \<in> ids" for j
  proof -
    from that(2) obtain i where "i \<in> set (outbox_events s)" "jobClaimable t i" "job_id i = job_id j"
      unfolding ids_def by (auto dest!: in_set_takeD)
    then show ?thesis using same_job_id [OF s(1) _ that(1)] by (auto simp: jobClaimable_def)
  qed
  have "K \<subseteq> (\<lambda>j. int8Or (job_delivery_order_id j)) ` set (outbox_events s)"
    by (force simp: K_def deliveryJob_def int8Or_def)
  then have "finite K" by (rule finite_subset) simp
  moreover have "view s' = files_upd K
      (\<lambda>f. f\<lparr>cf_job := map_option (\<lambda>(jid, _). (jid, DeliveryJobProcessing)) (cf_job f)\<rparr>) A"
  proof -
    have "map_option (\<lambda>j. (job_id j, job_status (if job_id j \<in> ids then f j else j)))
        (find (deliveryJob k) (outbox_events s)) =
      (if k \<in> K then map_option (\<lambda>(jid, _). (jid, DeliveryJobProcessing)) (cf_job (sf_file A k))
       else cf_job (sf_file A k))" for k
    proof (cases "find (deliveryJob k) (outbox_events s)")
      case None
      then show ?thesis using s(2) by (auto simp: view_defs)
    next
      case (Some j)
      then have j: "j \<in> set (outbox_events s)" "deliveryJob k j" by (auto dest: find_keyD)
      then have "k \<in> K \<longleftrightarrow> job_id j \<in> ids"
        unfolding K_def using delivery_job_unique [OF s(1) j(1)] by blast
      then show ?thesis using Some s(2) by (auto simp: view_defs f_def)
    qed
    moreover have "same_job j (f j)" for j by (simp add: f_def same_job_def)
    ultimately show ?thesis
      using \<open>view s' = _\<close> view_job_update [OF s(1)] s(2) by (auto simp: files_upd_def fun_eq_iff)
  qed
  moreover have "\<exists>jid st. cf_job (sf_file A k) = Some (jid, st) \<and>
      st \<in> {DeliveryJobPending, DeliveryJobRetryableFailed}" if "k \<in> K" for k
    using that view_job [OF s(1)] claimed s(2) by (fastforce simp: K_def)
  ultimately show "\<exists>K. finite K \<and>
     seen (files_upd K (\<lambda>f. f\<lparr>cf_job := map_option (\<lambda>(jid, _). (jid, DeliveryJobProcessing)) (cf_job f)\<rparr>) A) s' \<and>
     (\<forall>k \<in> K. \<exists>jid st. cf_job (sf_file A k) = Some (jid, st) \<and>
        st \<in> {DeliveryJobPending, DeliveryJobRetryableFailed})"
    using s' unfolding seen_def by blast
qed

lemma view_orders_batch:
  assumes "schema s" "\<And>y. same_order y (f y)" "\<And>y. ord_status (f y) = t"
  shows "view (orders_update (updateWhere p f) s) =
    files_upd (ord_id ` {x \<in> set (orders s). p x}) (cf_status_update (\<lambda>_. Some t)) (view s)"
proof -
  have "find (\<lambda>r. ord_id r = l) (updateWhere p f (orders s)) =
      map_option (\<lambda>r. if p r then f r else r) (find (\<lambda>r. ord_id r = l) (orders s))" for l
    by (rule find_updateWhere) (use assms(2) in \<open>simp add: same_order_def\<close>)
  moreover have "l \<in> ord_id ` {x \<in> set (orders s). p x} \<longleftrightarrow>
      (\<exists>x. find (\<lambda>r. ord_id r = l) (orders s) = Some x \<and> p x)" for l
    using order_found [OF assms(1)] by (auto dest: find_keyD)
  ultimately show ?thesis
    using assms(2,3) by (auto simp: view_defs files_upd_def fun_eq_iff same_order_def split: option.splits)
qed

lemma triple_ClaimOverduePendingOrders [prims]:
  "triple (seen A) (ClaimOverduePendingOrders skip now n) (\<lambda>r s.
     seen (files_upd (set (map ord_id r)) (cf_status_update (\<lambda>_. Some OrderStatusExpired)) A) s \<and>
     (distinct (map ord_id r) \<and> (\<forall>k \<in> set (map ord_id r). cf_status (sf_file A k) = Some OrderStatusPendingPayment)))"
proof (rule triple_seen [OF progress_order_moves(2)])
  fix s r s'
  assume s: "schema s" "view s = A" and run: "ClaimOverduePendingOrders skip now n s = (Inr r, s')"
  define f where "f x = x\<lparr>ord_status := OrderStatusExpired, ord_version := ord_version x + 1\<rparr>" for x :: order_row
  define p where "p x \<longleftrightarrow> ord_id x \<in> set (overdueIds skip now n s) \<and> overdue now x" for x
  from run have upd: "sqlUpdate orders orders_update order_ck order_uq p f s = (Inr r, s')"
    by (auto simp: ClaimOverduePendingOrders_def updateOrders_def f_def [abs_def] p_def [abs_def] split: if_splits)
  from upd have r: "r = map f (filter p (orders s))" and s': "s' = orders_update (updateWhere p f) s"
    by (auto dest!: sqlUpdate_InrD)
  have ids: "map ord_id r = map ord_id (filter p (orders s))" by (simp add: r f_def comp_def)
  have "view s' = files_upd (ord_id ` {x \<in> set (orders s). p x}) (cf_status_update (\<lambda>_. Some OrderStatusExpired)) A"
    unfolding s' s(2) [symmetric] by (rule view_orders_batch [OF s(1)]) (simp_all add: f_def same_order_def)
  moreover have "ord_id ` {x \<in> set (orders s). p x} = set (map ord_id r)" using ids by auto
  moreover have "distinct (map ord_id r)"
    using schema_distinct(1) [OF s(1)] ids by (simp add: distinct_map_filter)
  moreover have "cf_status (sf_file A k) = Some OrderStatusPendingPayment" if "k \<in> set (map ord_id r)" for k
    using that ids view_status [OF s(1)] s(2) by (auto simp: p_def overdue_def)
  ultimately show "view s' = files_upd (set (map ord_id r)) (cf_status_update (\<lambda>_. Some OrderStatusExpired)) A \<and>
      distinct (map ord_id r) \<and> (\<forall>k \<in> set (map ord_id r). cf_status (sf_file A k) = Some OrderStatusPendingPayment)"
    by simp
qed

lemma triple_expiryHistories [prims]:
  "distinct (map ord_id rows) \<Longrightarrow> triple (seen A) (forE rows expiryHistory) (\<lambda>_ s.
     seen (files_upd (set (map ord_id rows))
       (\<lambda>f. f\<lparr>cf_trail := cf_trail f @ [(Some OrderStatusPendingPayment, OrderStatusExpired)]\<rparr>) A) s \<and> True)"
proof (induction rows arbitrary: A)
  case Nil
  show ?case by (simp add: triple_def)
next
  case (Cons x rows)
  then have "triple (seen A) (expiryHistory x) (\<lambda>_ s. seen (file_upd (ord_id x)
      (\<lambda>f. f\<lparr>cf_trail := cf_trail f @ [(Some OrderStatusPendingPayment, OrderStatusExpired)]\<rparr>) A) s \<and> True)"
    unfolding expiryHistory_def
    by (intro triple_step [OF triple_InsertOrderStatusHistory] triple_returnE) (auto simp: legal_history_def)
  from triple_step [OF this Cons.IH] Cons.prems show ?case
    by (simp add: files_upd_insert(2))
qed

end
