(* ===== verification/Settlement.thy ===== *)
theory Settlement
  imports Shop_System Stock_Queries Queue_Queries
begin

text \<open>
  Settling a payment refines one step of the specification: the delivery handoff, the fulfilment of a
  confirmed bank payment, the crediting of a top-up, and the payment with a wallet balance.
\<close>

section \<open>Shared pieces\<close>

lemma triple_insertPaymentOrderHistory [prims]:
  "CanTransitionOrder f t \<Longrightarrow> triple (seen A) (insertPaymentOrderHistory ac rq k f t re) (\<lambda>_ s.
     seen (file_upd k (\<lambda>x. x\<lparr>cf_trail := cf_trail x @ [(Some f, t)]\<rparr>) A) s \<and> True)"
  unfolding insertPaymentOrderHistory_def
  by (intro triple_step [OF triple_InsertOrderStatusHistory] triple_returnE) auto

lemma triple_GetDeliveryJobByOrder [prims]:
  "triple (seen A) (GetDeliveryJobByOrder k) (\<lambda>r s. seen A s \<and> cf_job (sf_file A k) \<noteq> None)"
  unfolding GetDeliveryJobByOrder_def
proof (rule triple_select)
  fix s r rs
  assume "view s = A" "filter (\<lambda>j. job_event_type j = deliveryEvent \<and> job_delivery_order_id j = Some k)
    (outbox_events s) = r # rs"
  then have "r \<in> set (outbox_events s)" "deliveryJob k r" by (auto simp: deliveryJob_def dest!: filter_hd_mem)
  then have "find (deliveryJob k) (outbox_events s) \<noteq> None" by (auto simp: find_None_iff)
  then show "cf_job (sf_file A k) \<noteq> None" using \<open>view s = A\<close> by (auto simp: view_defs)
qed

lemma seen_file:
  "seen (file_upd k g A) s \<Longrightarrow> g (sf_file A k) = h (sf_file A k) \<Longrightarrow> seen (file_upd k h A) s"
  using file_upd_cong [of g A k h] by simp

lemma triple_side: "always (seen A) m \<Longrightarrow> triple (seen A) m (\<lambda>_ s. seen A s \<and> True)"
  by (rule triple_always)

lemma seen_payment_side [always_intros]:
  "always (seen A) (completePaymentEvent e st oi ti t ec ed)"
  "always (seen A) (insertPaymentAudit cmd pid oid dec rs)"
  "always (seen A) (insertDeliveryAudit jid oid ac aty aid rs rq)"
  "always (seen A) (insertManualDeliveryAudit aid jb ja ac c)"
  "always (seen A) (insertDeliveryAttempt j st' t' fl re)"
  "always (seen A) (insertSystemInventoryAudit ac rt rid af rq)"
  "always (seen A) (InsertInventoryRecoveryAuditOnce oid ost rq')"
  unfolding completePaymentEvent_def CompletePaymentEvent_def insertPaymentAudit_def
    insertDeliveryAudit_def insertManualDeliveryAudit_def insertDeliveryAttempt_def
    insertSystemInventoryAudit_def InsertInventoryRecoveryAuditOnce_def
  by (intro always_intros)+

lemma seen_review_side [always_intros]:
  "always (seen A) (recordPaymentReview cmd p oid re t r)"
  "always (seen A) (recordTopupReview cmd pid tid re t r)"
  "always (seen A) (handleExistingPayment cmd ex t r)"
  unfolding recordPaymentReview_def recordTopupReview_def handleExistingPayment_def
  by (intro always_intros)+

lemma triple_recordPaymentReview [prims]:
  "triple (seen A) (recordPaymentReview cmd p oid re t r) (\<lambda>x s. seen A s \<and>
     (par_Decision x = ''review'' \<and> par_Reason x = re))"
  unfolding recordPaymentReview_def Let_def
  by (intro triple_step [OF triple_side] always_intros triple_returnE) simp

section \<open>The delivery handoff\<close>

lemma triple_handoff:
  assumes "cf_status (sf_file A k) = Some OrderStatusReserving" "cf_job (sf_file A k) = None"
  shows "triple (seen A) (createDeliveryHandoffWithinTransaction k t n aty aid rq) (\<lambda>r s.
    (\<exists>jid. seen (file_upd k (resume jid) A) s) \<and>
      (r \<and> int (card (cf_reserved (sf_file A k) \<inter> cf_mapped (sf_file A k))) \<in> set (cf_qty (sf_file A k))))"
  unfolding createDeliveryHandoffWithinTransaction_def
  apply (rule triple_if, rule triple_throwE)
  apply (rule triple_step [OF triple_LockOrderForDeliveryHandoff], elim conjE)
  apply (rule triple_if, simp add: assms)
  apply (rule triple_if, rule triple_throwE)
  apply (rule triple_step [OF triple_CountExactReservedInventoryForOrder])
  apply (rule triple_if, rule triple_throwE)
  apply (rule triple_attempt [OF triple_InsertDeliveryJob failsafe_InsertDeliveryJob])
   apply (simp only: sum.case)
   apply (rule triple_if)
    apply (rule triple_step [OF triple_GetDeliveryJobByOrder], simp add: assms)
   apply (rule triple_throwE)
  apply (simp only: sum.case)
  apply (rule triple_step [OF triple_order_moves(3)])
  apply (rule triple_step [OF triple_InsertOrderStatusHistory], simp)
  apply (rule triple_step [OF triple_side], intro always_intros)
  apply (rule triple_returnE)
  subgoal for order reserved job
    by (rule conjI, rule exI [of _ "job_id job"]) (auto simp: move_defs elim!: seen_file)
  done

section \<open>Confirmed bank payments\<close>

definition settled :: "shop \<Rightarrow> int64 \<Rightarrow> db \<Rightarrow> bool" where
  "settled A k s \<longleftrightarrow> (\<exists>jid ids. seen (file_upd k (settle jid ids) A) s \<and> fresh_items A ids \<and>
     int (card ids) = sum_list (cf_qty (sf_file A k)) \<and>
     cf_status (sf_file A k) = Some OrderStatusPendingPayment)"

lemma settledI:
  assumes "seen (file_upd k g A) s" "g (sf_file A k) = settle jid ids (sf_file A k)" "fresh_items A ids"
    and "int (card ids) = sum_list (cf_qty (sf_file A k))"
    and "cf_status (sf_file A k) = Some OrderStatusPendingPayment"
  shows "settled A k s"
  unfolding settled_def using assms seen_file [of k g A s "settle jid ids"] by blast

lemma fresh_items_same:
  "file_items (g (sf_file A k)) = file_items (sf_file A k) \<Longrightarrow>
   fresh_items (file_upd k g A) ids \<longleftrightarrow> fresh_items A ids"
  by (auto simp: fresh_items_def)

lemma pending_file:
  assumes "shop_ok A" "cf_status (sf_file A k) = Some OrderStatusPendingPayment"
  shows "unserved (sf_file A k) \<and> (\<exists>q > 0. cf_qty (sf_file A k) = [q])"
  using shop_file [OF assms(1), of k] assms(2) by (auto simp: file_ok_def status_ok_def)

lemma triple_fulfil:
  assumes ok: "shop_ok A" and k: "k = ord_id order" and tot: "cf_total (sf_file A k) = apc_Amount cmd"
    and item: "lists_item A k it"
  shows "triple (seen A) (fulfilConfirmedOrder skip cmd order it pay t ttl n res) (\<lambda>r s.
    (settled A k s \<and> par_Decision r = ''accepted'' \<and> par_Claimed r = oit_quantity it \<and>
     par_OrderID r = par_OrderID res) \<or>
    (seen (file_upd k run_short A) s \<and> cf_status (sf_file A k) = Some OrderStatusPendingPayment \<and>
     par_Decision r = ''review'' \<and> par_Reason r = ''out_of_stock''))"
  unfolding fulfilConfirmedOrder_def k [symmetric]
  apply (rule triple_step [OF triple_order_moves(2)], elim conjE)
  apply (frule pending_file [OF ok], elim exE conjE)
  apply (rule triple_step [OF triple_insertPaymentOrderHistory], simp)
  apply (rule triple_step [OF triple_UpdateOrderStatusGuarded], simp, elim conjE)
  apply (rule triple_step [OF triple_insertPaymentOrderHistory], simp)
  apply (rule triple_step [OF triple_ClaimExactAvailableInventory], elim conjE)
  apply (rule triple_if)
   apply (rule triple_step [OF triple_UpdateOrderStatusGuarded], simp)
   apply (rule triple_step [OF triple_insertPaymentOrderHistory], simp)
   apply (rule triple_post [OF triple_recordPaymentReview])
   subgoal
    by (rule disjI2) (auto simp: move_defs unserved_def elim!: seen_file)
  apply (rule triple_step [OF triple_mappings])
  apply (rule triple_step [OF triple_InsertPaymentAllocation_order])
  apply (rule triple_step [OF triple_handoff])
    apply (simp_all add: unserved_def) [2]
  apply (rule triple_ex)
  apply (rule triple_step [OF triple_side], intro always_intros)
  apply (rule triple_step [OF triple_side], intro always_intros)
  apply (rule triple_returnE)
  subgoal for paid q _ reserving _ ids _ _ _ jid
    by (simp add: fresh_items_same file_items_def, rule settledI [where jid = jid and ids = "set ids"], assumption)
      (auto simp: move_defs unserved_def tot)
  done

section \<open>Top-ups\<close>

definition post_entry :: "int \<Rightarrow> wallet_file \<Rightarrow> wallet_file" where
  "post_entry a w = w\<lparr>wf_balance := map_option (\<lambda>b. b + a) (wf_balance w), wf_ledger := wf_ledger w + a\<rparr>"

definition credit :: "topup_file \<Rightarrow> topup_file" where
  "credit t = t\<lparr>tf_status := Some ''credited'', tf_alloc := [tf_amount t]\<rparr>"

definition credited :: "shop \<Rightarrow> int64 \<Rightarrow> db \<Rightarrow> bool" where
  "credited A t s \<longleftrightarrow> (\<exists>w b. seen (topup_upd t credit (wallet_upd w (post_entry (tf_amount (sf_topup A t))) A)) s \<and>
     tf_status (sf_topup A t) = Some ''pending_payment'' \<and>
     wf_balance (sf_wallet A w) = Some b \<and> 0 \<le> b + tf_amount (sf_topup A t) \<and>
     is_int64 (b + tf_amount (sf_topup A t)))"

lemma seen_topup_wallet:
  assumes "seen (topup_upd t g (wallet_upd w h A)) s"
    and "g (sf_topup A t) = g' (sf_topup A t)" "h (sf_wallet A w) = h' (sf_wallet A w)"
  shows "seen (topup_upd t g' (wallet_upd w h' A)) s"
  using assms topup_upd_cong [of g "wallet_upd w h A" t g'] wallet_upd_cong [of h A w h'] by simp

lemma seen_topup:
  "seen (topup_upd k g A) s \<Longrightarrow> g (sf_topup A k) = h (sf_topup A k) \<Longrightarrow> seen (topup_upd k h A) s"
  using topup_upd_cong [of g A k h] by simp

lemma seen_wallet:
  "seen (wallet_upd k g A) s \<Longrightarrow> g (sf_wallet A k) = h (sf_wallet A k) \<Longrightarrow> seen (wallet_upd k h A) s"
  using wallet_upd_cong [of g A k h] by simp

lemma triple_handleExistingPayment [prims]:
  "triple (seen A) (handleExistingPayment cmd ex t r) (\<lambda>x s. seen A s \<and>
     par_Decision x \<in> {''review'', ''duplicate''})"
  unfolding handleExistingPayment_def Let_def
  apply (rule triple_if)
   apply (rule triple_post [OF triple_recordPaymentReview], simp)
  apply (rule triple_step [OF triple_side], intro always_intros)
  subgoal for r
    apply (cases r)
     apply (simp only: sum.case, rule triple_if, rule triple_throwE)
     apply (rule triple_post [OF triple_recordPaymentReview], simp)
    apply (simp only: sum.case)
    apply (rule triple_step [OF triple_side], intro always_intros, rule triple_returnE, simp)
    done
  done

text \<open>What the acceptance of a payment did.\<close>

definition pay_post :: "shop \<Rightarrow> AcceptPaymentCommand \<Rightarrow> PaymentAcceptanceResult \<Rightarrow> db \<Rightarrow> bool" where
  "pay_post A cmd r s \<longleftrightarrow>
     (seen A s \<and> par_Decision r \<in> {''review'', ''duplicate''}) \<or>
     (\<exists>k. settled A k s \<and> par_Decision r = ''accepted'' \<and> cf_total (sf_file A k) = apc_Amount cmd \<and>
        par_OrderID r = k) \<or>
     (\<exists>k. seen (file_upd k run_short A) s \<and> cf_status (sf_file A k) = Some OrderStatusPendingPayment \<and>
        par_Decision r = ''review'') \<or>
     (\<exists>t. credited A t s \<and> par_Decision r = ''accepted'' \<and> tf_amount (sf_topup A t) = apc_Amount cmd \<and>
        par_TopupID r = t) \<or>
     (\<exists>t. seen (topup_upd t (tf_status_update (\<lambda>_. Some ''payment_review'')) A) s \<and>
        tf_status (sf_topup A t) \<in> {Some ''pending_payment'', Some ''expired''} \<and> par_Decision r = ''review'')"

lemma triple_recordTopupReview [prims]:
  "triple (seen A) (recordTopupReview cmd pid tid re t r) (\<lambda>x s. seen A s \<and> par_Decision x = ''review'')"
  unfolding recordTopupReview_def
  by (intro triple_step [OF triple_side] always_intros triple_returnE) simp

lemma creditedI:
  assumes "seen (topup_upd t g (wallet_upd w h A)) s" "g (sf_topup A t) = credit (sf_topup A t)"
    and "h (sf_wallet A w) = post_entry (tf_amount (sf_topup A t)) (sf_wallet A w)"
    and "tf_status (sf_topup A t) = Some ''pending_payment''"
    and "wf_balance (sf_wallet A w) = Some b" "0 \<le> b + tf_amount (sf_topup A t)"
    and "is_int64 (b + tf_amount (sf_topup A t))"
  shows "credited A t s"
  unfolding credited_def using assms
    seen_topup_wallet [where g = g and h = h and g' = credit and h' = "post_entry (tf_amount (sf_topup A t))"]
  by blast

lemma pay_post_credit:
  "credited A t s \<Longrightarrow> par_Decision r = ''accepted'' \<Longrightarrow> tf_amount (sf_topup A t) = apc_Amount cmd \<Longrightarrow>
   par_TopupID r = t \<Longrightarrow> pay_post A cmd r s"
  by (auto simp: pay_post_def)

lemma topup_amount: "topupReviewReason tp cmd t = [] \<Longrightarrow> top_amount_vnd tp = apc_Amount cmd"
  by (auto simp: topupReviewReason_def split: if_splits)

lemma triple_acceptTopup:
  assumes ok: "shop_ok A"
    and tp: "tf_status (sf_topup A (top_id tp)) = Some (top_status tp)"
      "tf_amount (sf_topup A (top_id tp)) = top_amount_vnd tp"
  shows "triple (seen A) (acceptWalletTopupPayment cmd tp t res) (pay_post A cmd)"
  unfolding acceptWalletTopupPayment_def Let_def
  apply (rule triple_attempt [OF triple_side failsafe_always], (intro always_intros)+)
   apply (simp only: sum.case, rule triple_if)
    apply (rule triple_step [OF triple_side], intro always_intros)
    apply (rule triple_post [OF triple_handleExistingPayment], simp add: pay_post_def)
   apply (rule triple_throwE)
  apply (simp only: sum.case, rule triple_if)
   apply (rule triple_bind_if)
    apply (simp only: bindE_assoc bindE_returnE)
    apply (rule triple_step [OF triple_topup_moves(2)])
    apply (rule triple_post [OF triple_recordTopupReview])
    apply (auto simp: pay_post_def) [1]
   apply (simp only: bindE_returnE)
   apply (rule triple_post [OF triple_recordTopupReview])
   apply (auto simp: pay_post_def) [1]
  apply (rule triple_step [OF triple_LockWalletAccount], elim conjE)
  apply (rule triple_step [OF triple_UpdateWalletBalance], elim exE conjE)
  apply (rule triple_step [OF triple_InsertWalletLedgerEntry])
  apply (rule triple_step [OF triple_topup_moves(1)], elim exE conjE)
  apply (rule triple_step [OF triple_InsertPaymentAllocation_topup])
  apply (rule triple_step [OF triple_side], intro always_intros)
  apply (rule triple_step [OF triple_side], intro always_intros)
  apply (rule triple_returnE)
  apply simp
  subgoal for pay wallet updated
    apply (rule pay_post_credit [of A "top_id tp"])
       apply (rule creditedI [where w = "top_wallet_account_id tp"], assumption)
    using shop_topup [OF ok, of "top_id tp"] topup_amount [of tp cmd t] tp
    by (auto simp: credit_def post_entry_def topup_ok_def)
  done

section \<open>The acceptance as a whole\<close>

lemma order_amount: "orderReviewReason ord cmd t = [] \<Longrightarrow> ord_total_vnd ord = apc_Amount cmd"
  by (auto simp: orderReviewReason_def split: if_splits)

lemma pay_post_review: "par_Decision r \<in> {''review'', ''duplicate''} \<Longrightarrow> seen A s \<Longrightarrow> pay_post A cmd r s"
  by (auto simp: pay_post_def)

lemma triple_review_post: "triple (seen A) (recordPaymentReview cmd p oid re t r) (pay_post A cmd)"
  by (rule triple_post [OF triple_recordPaymentReview]) (auto intro: pay_post_review)

lemma triple_existing_post: "triple (seen A) (handleExistingPayment cmd ex t r) (pay_post A cmd)"
  by (rule triple_post [OF triple_handleExistingPayment]) (auto intro: pay_post_review)

lemma triple_acceptOrder:
  assumes ok: "shop_ok A" and ord: "describes A order" "lists_item A (ord_id order) it"
  shows "triple (seen A) (acceptOrderPayment skip cmd order it t ttl n res) (pay_post A cmd)"
  unfolding acceptOrderPayment_def Let_def insertOrderPayment_def
  apply (rule triple_if)
   apply (rule triple_step [OF triple_side], intro always_intros)
   apply (rule triple_review_post)
  apply (rule triple_attempt [OF triple_side failsafe_always], (intro always_intros)+)
   apply (simp only: sum.case, rule triple_if)
    apply (rule triple_step [OF triple_side], intro always_intros)
    apply (rule triple_existing_post)
   apply (rule triple_throwE)
  apply (simp only: sum.case)
  apply (rule triple_post [OF triple_fulfil [OF ok refl _ ord(2)]])
  subgoal using order_amount ord(1) by (auto simp: describes_def split: if_splits)
  subgoal using order_amount ord(1) by (auto simp: pay_post_def describes_def split: if_splits)
  done

lemma triple_resolvePaymentTarget:
  assumes ok: "shop_ok A"
  shows "triple (seen A) (resolvePaymentTarget skip cmd t ttl n res) (pay_post A cmd)"
  unfolding resolvePaymentTarget_def
  apply (rule triple_attempt [OF triple_side failsafe_always], (intro always_intros)+)
   prefer 2 apply (simp only: sum.case, rule triple_existing_post)
  apply (simp only: sum.case, rule triple_if, rule triple_throwE)
  apply (rule triple_step [OF triple_side], intro always_intros)
  apply (rule triple_if, rule triple_review_post)
  apply (rule triple_attempt [OF triple_LockOrderByPaymentReference failsafe_always], intro always_intros)
   prefer 2
   subgoal for e c x by (cases x) (simp, rule triple_acceptOrder [OF ok], auto)
  apply (simp only: sum.case, rule triple_if, rule triple_throwE)
  apply (rule triple_attempt [OF triple_LockWalletTopupByReference failsafe_always], intro always_intros)
   prefer 2
   subgoal by (simp only: sum.case, rule triple_acceptTopup [OF ok], auto)
  apply (simp only: sum.case, rule triple_if, rule triple_throwE)
  apply (rule triple_review_post)
  done

lemma triple_acceptPayment:
  assumes ok: "shop_ok A"
  shows "triple (seen A) (acceptPaymentWithinTransaction skip cmd t ttl n) (pay_post A cmd)"
  unfolding acceptPaymentWithinTransaction_def
  apply (rule triple_if)
   apply (rule triple_step [OF triple_side], intro always_intros)
   apply (rule triple_if, rule triple_returnE, rule pay_post_review, simp, assumption)
   apply (rule triple_if, rule triple_throwE)
   apply (rule triple_resolvePaymentTarget [OF ok])
  apply (rule triple_resolvePaymentTarget [OF ok])
  done

lemma triple_Accept:
  "shop_ok A \<Longrightarrow>
   triple (seen A) (PaymentAcceptanceService_Accept skip ttl n now cmd) (pay_post A (normalizeCommand cmd))"
  unfolding PaymentAcceptanceService_Accept_def AcceptPayment_def Let_def
  by (auto intro!: triple_acceptPayment)

text \<open>What a payment did is a run of the specification.\<close>

definition advances :: "shop \<Rightarrow> db \<Rightarrow> bool" where
  "advances A s \<longleftrightarrow> schema s \<and> spec_step\<^sup>*\<^sup>* A (view s)"

lemma advancesI: "seen B s \<Longrightarrow> spec_step\<^sup>*\<^sup>* A B \<Longrightarrow> advances A s"
  by (auto simp: advances_def seen_def)

lemma advances_same: "seen A s \<Longrightarrow> advances A s"
  by (rule advancesI) auto

lemma advances_one: "seen B s \<Longrightarrow> spec_step A B \<Longrightarrow> advances A s"
  by (rule advancesI) auto

lemma settled_advances: "settled A k s \<Longrightarrow> advances A s"
  by (auto simp: settled_def intro: advances_one sp_settle)

lemma credited_advances:
  assumes "credited A t s"
  shows "advances A s"
proof -
  from assms obtain w b where
    s: "seen (topup_upd t credit (wallet_upd w (post_entry (tf_amount (sf_topup A t))) A)) s"
    and ok: "tf_status (sf_topup A t) = Some ''pending_payment''" "wf_balance (sf_wallet A w) = Some b"
      "0 \<le> b + tf_amount (sf_topup A t)" "is_int64 (b + tf_amount (sf_topup A t))" unfolding credited_def by blast
  let ?a = "tf_amount (sf_topup A t)"
  have "spec_step A (wallet_upd w (post_entry ?a) A)"
    using sp_post [OF ok(2-4)] wallet_upd_cong [of "post_entry ?a" A w] ok(2) by (simp add: post_entry_def)
  moreover have "spec_step (wallet_upd w (post_entry ?a) A) (topup_upd t credit (wallet_upd w (post_entry ?a) A))"
    unfolding credit_def [abs_def] by (rule sp_credit) (simp add: ok)
  ultimately show ?thesis using s by (intro advancesI [OF s]) (rule rtranclp.rtrancl_into_rtrancl, auto)
qed

lemma pay_post_advances: "pay_post A cmd r s \<Longrightarrow> advances A s"
  unfolding pay_post_def
  by (auto intro: advances_same settled_advances credited_advances advances_one sp_short sp_topup_review)

end
