(* ===== verification/Wallet_Refinement.thy ===== *)
theory Wallet_Refinement
  imports Settlement
begin

text \<open>
  The wallet's entry points and the manual payment refine the specification: a payment from the
  balance settles the order and debits the ledger in one transaction, an adjustment posts one
  entry, a top-up request opens a pending top-up.
\<close>

section \<open>Composing with side effects\<close>

lemma always_advances: "(\<And>B. always (seen B) m) \<Longrightarrow> always (advances A) m"
proof (rule alwaysI)
  fix s
  assume keep: "\<And>B. always (seen B) m" and s: "advances A s"
  then have "seen (view s) (snd (m s))" by (auto simp: advances_def seen_def always_def)
  with s show "advances A (snd (m s))" by (simp add: advances_def seen_def)
qed

lemma triple_advances_side: "(\<And>B. always (seen B) m) \<Longrightarrow> triple (advances A) m (\<lambda>_ s. advances A s \<and> True)"
  by (rule triple_always [OF always_advances])

text \<open>
  A handler implements the specification from \<open>A\<close> when every run of it, failed or not, is a
  run of the specification. A transaction that fails is rolled back, up to its identity values.
\<close>

definition implements :: "shop \<Rightarrow> 'a dbtx \<Rightarrow> bool" where
  "implements A m \<longleftrightarrow> (\<forall>s. seen A s \<longrightarrow> advances A (snd (m s)))"

lemma seen_seqs: "seen A s \<Longrightarrow> progress s s' \<Longrightarrow> s' = s\<lparr>seqs := q\<rparr> \<Longrightarrow> seen A s'"
  using progress_schema [of s s'] by (simp add: seen_def)

definition rolls_back :: "'a dbtx \<Rightarrow> bool" where
  "rolls_back m \<longleftrightarrow> (\<forall>s e s'. m s = (Inl e, s') \<longrightarrow> (\<exists>q. s' = s\<lparr>seqs := q\<rparr>))"

lemma rolls_back_tx: "rolls_back (WithinTransaction m)"
  unfolding rolls_back_def using WithinTransaction_Inl by blast

lemma rolls_back_throwE: "rolls_back (throwE e)"
proof -
  have "s = s\<lparr>seqs := seqs s\<rparr>" for s :: db by simp
  then show ?thesis unfolding rolls_back_def throwE_def by blast
qed

lemma rolls_back_if: "(b \<Longrightarrow> rolls_back m) \<Longrightarrow> (\<not> b \<Longrightarrow> rolls_back n) \<Longrightarrow> rolls_back (if b then m else n)"
  by simp

lemma rolls_back_mapErrE: "rolls_back m \<Longrightarrow> rolls_back (mapErrE f m)"
  unfolding rolls_back_def mapErrE_def by (auto split: prod.splits sum.splits)

lemma rolls_back_return: "rolls_back m \<Longrightarrow> rolls_back (bindE m (\<lambda>x. returnE (g x)))"
  unfolding rolls_back_def by (auto simp: bindE_app split: prod.splits sum.splits)

lemmas rolls_back_intros = rolls_back_if rolls_back_throwE rolls_back_tx rolls_back_mapErrE rolls_back_return

lemma implementsI:
  assumes "triple (seen A) m Q" "rolls_back m" "\<And>s0. always (progress s0) m" "\<And>r s. Q r s \<Longrightarrow> advances A s"
  shows "implements A m"
  unfolding implements_def
proof (intro allI impI)
  fix s
  assume s: "seen A s"
  obtain r s' where run: "m s = (r, s')" by fastforce
  have prog: "progress s s'"
    using alwaysD [OF assms(3) progress_refl run] s by (simp add: seen_def)
  show "advances A (snd (m s))"
  proof (cases r)
    case (Inl e)
    then obtain q where "s' = s\<lparr>seqs := q\<rparr>" using assms(2) run unfolding rolls_back_def by blast
    with s prog have "seen A s'" by (rule seen_seqs)
    then show ?thesis using run by (simp add: advances_same)
  next
    case (Inr x)
    then show ?thesis using run tripleD [OF assms(1) s] assms(4) by simp
  qed
qed

lemma implements_throwE: "implements A (throwE e)"
  by (simp add: implements_def advances_same)

lemma implements_if:
  "(b \<Longrightarrow> implements A m) \<Longrightarrow> (\<not> b \<Longrightarrow> implements A n) \<Longrightarrow> implements A (if b then m else n)"
  by simp

lemma implements_side: "always (seen A) m \<Longrightarrow> implements A m"
  by (simp add: implements_def always_def advances_same)

text \<open>What follows a commit may still fail, but must not touch what matters.\<close>

lemma implements_bind_side:
  assumes "implements A m" "\<And>x B. always (seen B) (f x)"
  shows "implements A (bindE m f)"
  unfolding implements_def
proof (intro allI impI)
  fix s
  assume "seen A s"
  obtain r t where run: "m s = (r, t)" by fastforce
  with assms(1) \<open>seen A s\<close> have t: "advances A t" by (auto simp: implements_def)
  show "advances A (snd (bindE m f s))"
  proof (cases r)
    case (Inr x)
    have "always (advances A) (f x)" by (rule always_advances [OF assms(2)])
    with t Inr run show ?thesis by (simp add: bindE_app always_def)
  qed (use t run in \<open>simp add: bindE_app\<close>)
qed

lemma implementsD: "implements A m \<Longrightarrow> seen A s \<Longrightarrow> m s = (r, s') \<Longrightarrow> advances A s'"
  by (auto simp: implements_def)

lemma triple_acceptPayment_advances:
  "shop_ok A \<Longrightarrow> triple (seen A) (acceptPaymentWithinTransaction skip cmd t ttl n) (\<lambda>_ s. advances A s \<and> True)"
  by (rule triple_post [OF triple_acceptPayment]) (auto intro: pay_post_advances)

lemma seen_access [always_intros]:
  "always (seen A) (authorizePaymentAdmin u)" "always (seen A) (lockAndVerifySession t aid ses st)"
  by (intro always_intros)+

lemma implements_Accept:
  assumes "shop_ok A"
  shows "implements A (PaymentAcceptanceService_Accept skip ttl n now cmd)"
proof (rule implementsI [OF triple_Accept [OF assms] _ _ pay_post_advances])
  show "rolls_back (PaymentAcceptanceService_Accept skip ttl n now cmd)"
    unfolding PaymentAcceptanceService_Accept_def AcceptPayment_def Let_def
    by (intro rolls_back_intros)
qed (intro always_intros)

lemma triple_ManualAccept:
  assumes "shop_ok A"
  shows "triple (seen A) (ManualAcceptPayment skip now mc t ttl ns) (\<lambda>_. advances A)"
  unfolding ManualAcceptPayment_def triple_mapErrE triple_WithinTransaction
  apply (rule triple_step [OF triple_side], intro always_intros)+
  apply (rule triple_step [OF triple_acceptPayment_advances [OF assms]])
  apply (rule triple_step [OF triple_advances_side], intro always_intros)+
  apply (rule triple_returnE, assumption)
  done

lemma implements_ManualAccept:
  assumes "shop_ok A"
  shows "implements A (ManualAcceptPayment skip now mc t ttl ns)"
proof (rule implementsI [OF triple_ManualAccept [OF assms]])
  show "rolls_back (ManualAcceptPayment skip now mc t ttl ns)"
    unfolding ManualAcceptPayment_def by (intro rolls_back_intros)
qed (intro always_intros)

section \<open>Opening a wallet\<close>

definition open_wallet :: "int64 \<Rightarrow> shop \<Rightarrow> shop" where
  "open_wallet w A =
     wallet_upd w (wf_balance_update (\<lambda>b. Some (case b of None \<Rightarrow> 0 | Some x \<Rightarrow> x))) A"

lemma open_wallet_steps: "spec_step\<^sup>*\<^sup>* A (open_wallet w A)"
proof (cases "wf_balance (sf_wallet A w)")
  case None
  have "open_wallet w A = wallet_upd w (wf_balance_update (\<lambda>_. Some 0)) A"
    unfolding open_wallet_def by (rule wallet_upd_cong) (simp add: None)
  then show ?thesis using sp_open [OF None] by simp
next
  case (Some b)
  have "open_wallet w A = wallet_upd w (\<lambda>x. x) A"
    unfolding open_wallet_def by (rule wallet_upd_cong) (simp add: Some)
  then show ?thesis by simp
qed

lemma open_wallet_simps [simp]:
  "sf_file (open_wallet w A) = sf_file A" "sf_topup (open_wallet w A) = sf_topup A"
  "fresh_items (open_wallet w A) ids = fresh_items A ids"
  by (simp_all add: open_wallet_def fresh_items_def)

lemma open_wallet_ok: "shop_ok A \<Longrightarrow> shop_ok (open_wallet w A)"
  by (rule spec_steps_ok [OF open_wallet_steps])

lemma triple_open_wallet:
  "triple (seen A) (EnsureWalletAccount uid) (\<lambda>r s. seen (open_wallet (wal_id r) A) s \<and>
     wf_balance (sf_wallet (open_wallet (wal_id r) A) (wal_id r)) = Some (wal_balance_vnd r))"
proof (rule triple_post [OF triple_EnsureWalletAccount])
  fix r s
  assume post: "seen (wallet_upd (wal_id r) (wf_balance_update (\<lambda>_. Some (wal_balance_vnd r))) A) s \<and>
     (wf_balance (sf_wallet A (wal_id r)) = Some (wal_balance_vnd r) \<or>
      wf_balance (sf_wallet A (wal_id r)) = None \<and> wal_balance_vnd r = 0)"
  then have "open_wallet (wal_id r) A = wallet_upd (wal_id r) (wf_balance_update (\<lambda>_. Some (wal_balance_vnd r))) A"
    unfolding open_wallet_def by (intro wallet_upd_cong) auto
  with post show "seen (open_wallet (wal_id r) A) s \<and>
     wf_balance (sf_wallet (open_wallet (wal_id r) A) (wal_id r)) = Some (wal_balance_vnd r)"
    by auto
qed

lemma triple_Balance: "triple (seen A) (WalletService_Balance u) (\<lambda>_. advances A)"
  unfolding WalletService_Balance_def EnsureWallet_def
  apply (rule triple_if, rule triple_throwE)
  unfolding triple_WithinTransaction
  apply (rule triple_step [OF triple_side], intro always_intros)
  apply (rule triple_step [OF triple_open_wallet])
  apply (rule triple_returnE, erule advancesI, rule open_wallet_steps)
  done

lemma implements_Balance: "implements A (WalletService_Balance u)"
proof (rule implementsI [OF triple_Balance])
  show "rolls_back (WalletService_Balance u)"
    unfolding WalletService_Balance_def EnsureWallet_def by (intro rolls_back_intros)
qed (intro always_intros)

section \<open>Paying an order from the balance\<close>

definition wallet_paid :: "shop \<Rightarrow> int64 \<Rightarrow> db \<Rightarrow> bool" where
  "wallet_paid A k s \<longleftrightarrow> (\<exists>w jid ids b.
     seen (wallet_upd w (post_entry (- cf_total (sf_file A k))) (file_upd k (settle jid ids) A)) s \<and>
     fresh_items A ids \<and> int (card ids) = sum_list (cf_qty (sf_file A k)) \<and>
     cf_status (sf_file A k) = Some OrderStatusPendingPayment \<and>
     wf_balance (sf_wallet A w) = Some b \<and> cf_total (sf_file A k) \<le> b \<and>
     is_int64 (b - cf_total (sf_file A k)))"

lemma wallet_paidI:
  assumes "seen (wallet_upd w h (file_upd k g A)) s" "g (sf_file A k) = settle jid ids (sf_file A k)"
    and "h (sf_wallet A w) = post_entry (- cf_total (sf_file A k)) (sf_wallet A w)"
    and "fresh_items A ids" "int (card ids) = sum_list (cf_qty (sf_file A k))"
    and "cf_status (sf_file A k) = Some OrderStatusPendingPayment"
    and "wf_balance (sf_wallet A w) = Some b" "cf_total (sf_file A k) \<le> b"
    and "is_int64 (b - cf_total (sf_file A k))"
  shows "wallet_paid A k s"
proof -
  have "wallet_upd w h (file_upd k g A) =
      wallet_upd w (post_entry (- cf_total (sf_file A k))) (file_upd k (settle jid ids) A)"
    using file_upd_cong [of g A k "settle jid ids", OF assms(2)]
      wallet_upd_cong [of h "file_upd k g A" w "post_entry (- cf_total (sf_file A k))"] assms(3) by simp
  then show ?thesis using assms unfolding wallet_paid_def by metis
qed

lemma wallet_paid_advances:
  assumes "wallet_paid A k s"
  shows "advances A s"
proof -
  from assms obtain w jid ids b where
    s: "seen (wallet_upd w (post_entry (- cf_total (sf_file A k))) (file_upd k (settle jid ids) A)) s"
    and settle: "cf_status (sf_file A k) = Some OrderStatusPendingPayment" "fresh_items A ids"
      "int (card ids) = sum_list (cf_qty (sf_file A k))"
    and bal: "wf_balance (sf_wallet A w) = Some b" "cf_total (sf_file A k) \<le> b"
      "is_int64 (b - cf_total (sf_file A k))"
    unfolding wallet_paid_def by blast
  let ?B = "file_upd k (settle jid ids) A" and ?a = "- cf_total (sf_file A k)"
  have "spec_step A ?B" using sp_settle [OF settle] .
  moreover have "spec_step ?B (wallet_upd w (post_entry ?a) ?B)"
    using sp_post [of ?B w b ?a] wallet_upd_cong [of "post_entry ?a" ?B w] bal by (simp add: post_entry_def)
  ultimately show ?thesis by (intro advancesI [OF s]) (rule rtranclp.rtrancl_into_rtrancl, auto)
qed

lemma wrap_negation:
  assumes "0 \<le> x" "x \<le> b" "is_int64 b"
  shows "wrap64 (- x) = - x"
  using assms by (intro wrap64_id) (simp add: is_int64_def MinInt64_def MaxInt64_def)

lemma triple_wallet_settle:
  assumes ok: "shop_ok A" and ord: "describes A order" "lists_item A k it" "k = ord_id order"
    and wallet: "wf_balance (sf_wallet A (wal_id wallet)) = Some (wal_balance_vnd wallet)"
      "ord_total_vnd order \<le> wal_balance_vnd wallet"
    and pend: "ord_status order = OrderStatusPendingPayment"
  shows "triple (seen A) (bindE (ClaimExactAvailableInventory skip k t pid (oit_quantity it)) (\<lambda>ids.
     if int (length ids) \<noteq> oit_quantity it then throwE ErrInsufficientInventory else
     walletSettleOrder cmd user order it wallet ids paid n tx))
   (\<lambda>r s. wallet_paid A k s \<and> wor_OrderID r = k \<and> \<not> wor_Duplicate r \<and>
      wor_Balance r = wal_balance_vnd wallet - cf_total (sf_file A k))"
proof -
  have st: "cf_status (sf_file A k) = Some OrderStatusPendingPayment" "cf_total (sf_file A k) = ord_total_vnd order"
    using ord pend by (auto simp: describes_def)
  have unsv: "unserved (sf_file A k)" "\<exists>q > 0. cf_qty (sf_file A k) = [q]"
    using pending_file [OF ok st(1)] by auto
  have wrap: "wrap64 (- ord_total_vnd order) = - ord_total_vnd order"
    using shop_wallet [OF ok, of "wal_id wallet"] shop_file [OF ok, of k] wallet st
    by (intro wrap_negation [of _ "wal_balance_vnd wallet"]) (auto simp: wallet_ok_def file_ok_def)
  show ?thesis
    unfolding walletSettleOrder_def ord(3) [symmetric] wrap
    apply (rule triple_step [OF triple_ClaimExactAvailableInventory], elim conjE)
    apply (rule triple_if, rule triple_throwE)
    apply (rule triple_step [OF triple_side], intro always_intros)
    apply (rule triple_step, subst triple_noRows, rule triple_UpdateWalletBalance, elim exE conjE)
    apply (rule triple_step [OF triple_InsertWalletLedgerEntry])
    apply (rule triple_step [OF triple_order_moves(2)], elim conjE)
    apply (rule triple_step [OF triple_insertPaymentOrderHistory], simp)
    apply (rule triple_step [OF triple_UpdateOrderStatusGuarded], simp, elim conjE)
    apply (rule triple_step [OF triple_insertPaymentOrderHistory], simp)
    apply (rule triple_step [OF triple_mappings])
    apply (rule triple_step [OF triple_InsertPaymentAllocation_order])
    apply (rule triple_step [OF triple_handoff])
      apply simp
     apply (use unsv(1) in \<open>simp add: unserved_def\<close>)
    apply (rule triple_ex)
    apply (rule triple_step [OF triple_side], intro always_intros)
    apply (rule triple_returnE)
    subgoal for ids pay upd b led paid' his res his' maps alc hand jid
      apply (simp add: st(2) [symmetric])
      apply (rule conjI)
       apply (rule wallet_paidI [where w = "wal_id wallet" and jid = jid and ids = "set ids" and b = b], assumption)
      using unsv ord(2) st wallet
      by (auto simp: move_defs unserved_def post_entry_def lists_item_def distinct_card)
    done
qed

text \<open>The payment as a whole: a repeat changes nothing, a first payment settles the order in full.\<close>

definition wallet_pay_post :: "shop \<Rightarrow> WalletOrderPaymentCommand \<Rightarrow> WalletOrderPaymentResult \<Rightarrow> db \<Rightarrow> bool" where
  "wallet_pay_post A cmd r s \<longleftrightarrow>
     (\<exists>w. seen (open_wallet w A) s \<and> wor_Duplicate r) \<or>
     (\<exists>w b. wallet_paid (open_wallet w A) (wop_OrderID cmd) s \<and> \<not> wor_Duplicate r \<and>
        wor_Balance r = b - cf_total (sf_file A (wop_OrderID cmd)) \<and>
        wf_balance (sf_wallet (open_wallet w A) w) = Some b)"

lemma triple_PayOrder:
  assumes ok: "shop_ok A"
  shows "triple (seen A) (WalletService_PayOrder skip ttl n now pc) (wallet_pay_post A pc)"
  unfolding WalletService_PayOrder_def PayOrderWithWallet_def
  apply (rule triple_if, rule triple_throwE)
  unfolding triple_mapErrE triple_WithinTransaction
  apply (rule triple_step [OF triple_side], intro always_intros)
  apply (rule triple_step, subst triple_noRows, rule triple_LockOrderDetailOwnedByTelegramUser, elim conjE)
  apply (rule triple_case_prod, simp only: fst_conv snd_conv Let_def)
  apply (rule triple_attempt [OF triple_side failsafe_always], (intro always_intros)+)
   prefer 2
   apply (simp only: sum.case)
   apply (rule triple_step [OF triple_side], intro always_intros)
   apply (rule triple_if)
    apply (rule triple_step [OF triple_open_wallet])
    apply (rule triple_step [OF triple_side], intro always_intros)
    apply (rule triple_returnE, auto simp: wallet_pay_post_def) [1]
   apply (rule triple_throwE)
  apply (simp only: sum.case, rule triple_if, rule triple_throwE)
  apply (rule triple_if, rule triple_throwE)
  apply (rule triple_if, rule triple_throwE)
  apply (rule triple_step [OF triple_open_wallet])
  apply (rule triple_step [OF triple_LockWalletAccount], elim conjE)
  apply (rule triple_if, rule triple_throwE)
  subgoal for user detail order item e w0 wallet
    apply (rule triple_post [OF triple_wallet_settle [where A = "open_wallet (wal_id w0) A" and k = "wop_OrderID pc"]])
           apply (simp_all add: open_wallet_ok ok describes_def lists_item_def)
    apply (auto simp: wallet_pay_post_def)
    done
  done

lemma wallet_pay_advances: "wallet_pay_post A cmd r s \<Longrightarrow> advances A s"
  unfolding wallet_pay_post_def
proof (elim disjE exE conjE)
  fix w b
  assume "wallet_paid (open_wallet w A) (wop_OrderID cmd) s"
  then have "advances (open_wallet w A) s" by (rule wallet_paid_advances)
  then show "advances A s"
    using rtranclp_trans [OF open_wallet_steps [of A w]] by (simp add: advances_def)
qed (erule advancesI, rule open_wallet_steps)

lemma implements_PayOrder:
  assumes "shop_ok A"
  shows "implements A (WalletService_PayOrder skip ttl n now pc)"
proof (rule implementsI [OF triple_PayOrder [OF assms] _ _ wallet_pay_advances])
  show "rolls_back (WalletService_PayOrder skip ttl n now pc)"
    unfolding WalletService_PayOrder_def PayOrderWithWallet_def by (intro rolls_back_intros)
qed (intro always_intros)

section \<open>Adjustments\<close>

definition wallet_adjusted :: "shop \<Rightarrow> int \<Rightarrow> db \<Rightarrow> bool" where
  "wallet_adjusted A a s \<longleftrightarrow> (\<exists>w b. seen (wallet_upd w (post_entry a) A) s \<and>
     wf_balance (sf_wallet A w) = Some b \<and> 0 \<le> b + a \<and> is_int64 (b + a))"

lemma wallet_adjustedI:
  assumes "seen (wallet_upd w h A) s" "h (sf_wallet A w) = post_entry a (sf_wallet A w)"
    and "wf_balance (sf_wallet A w) = Some b" "0 \<le> b + a" "is_int64 (b + a)"
  shows "wallet_adjusted A a s"
  unfolding wallet_adjusted_def using assms seen_wallet [of w h A s "post_entry a"] by blast

lemma wallet_adjusted_advances:
  assumes "wallet_adjusted A a s"
  shows "advances A s"
proof -
  from assms obtain w b where s: "seen (wallet_upd w (post_entry a) A) s"
    and bal: "wf_balance (sf_wallet A w) = Some b" "0 \<le> b + a" "is_int64 (b + a)"
    unfolding wallet_adjusted_def by blast
  show ?thesis
    using sp_post [OF bal] wallet_upd_cong [of "post_entry a" A w] bal(1)
    by (intro advances_one [OF s]) (simp add: post_entry_def)
qed

lemma triple_Adjust:
  assumes ok: "shop_ok A"
  shows "triple (seen A) (WalletService_Adjust now ac) (\<lambda>r s.
    \<exists>w. wallet_adjusted (open_wallet w A) (if wac_Debit ac then wrap64 (- wac_Amount ac) else wac_Amount ac) s)"
  unfolding WalletService_Adjust_def AdjustWallet_def Let_def
  apply (rule triple_if, rule triple_throwE)
  unfolding triple_mapErrE triple_WithinTransaction
  apply (rule triple_step [OF triple_side], intro always_intros)+
  apply (rule triple_step [OF triple_open_wallet])
  apply (rule triple_step [OF triple_LockWalletAccount], elim conjE)
  apply (rule triple_step, subst triple_noRows, rule triple_UpdateWalletBalance, elim exE conjE)
  apply (rule triple_step [OF triple_InsertWalletLedgerEntry])
  apply (rule triple_step [OF triple_side], intro always_intros)+
  apply (rule triple_returnE)
  subgoal for row adm ses user w0 wallet updated b led aud fin rec s
    apply (rule exI [of _ "wal_id w0"])
    apply (rule wallet_adjustedI [where w = "wal_id w0" and b = b])
        apply (simp only: wallet_row.simps ledger_params.simps upd_simps)
    by (auto simp: post_entry_def)
  done

lemma triple_Adjust_advances: "shop_ok A \<Longrightarrow> triple (seen A) (WalletService_Adjust now ac) (\<lambda>_. advances A)"
  by (rule triple_post [OF triple_Adjust])
    (auto simp: advances_def dest!: wallet_adjusted_advances intro: rtranclp_trans [OF open_wallet_steps])

lemma implements_Adjust:
  assumes "shop_ok A"
  shows "implements A (WalletService_Adjust now ac)"
proof (rule implementsI [OF triple_Adjust_advances [OF assms]])
  show "rolls_back (WalletService_Adjust now ac)"
    unfolding WalletService_Adjust_def AdjustWallet_def Let_def by (intro rolls_back_intros)
qed (intro always_intros)

section \<open>Top-up requests\<close>

lemma failsafe_CreateWalletTopup_query: "failsafe (seen A) (CreateWalletTopup_query p)"
  unfolding failsafe_def
proof (intro allI impI)
  fix s e s'
  assume s: "seen A s" and run: "CreateWalletTopup_query p s = (Inl e, s')"
  have "schema s'" using seen_progress [OF progress_CreateWalletTopup_query _ run] s by (simp add: seen_def)
  moreover have "view s' = view s"
    using run by (auto simp: CreateWalletTopup_query_def bindE_app nextId_def sqlInsertIgnore_def sqlInsert_def
        split: if_splits)
  ultimately show "seen A s'" using s by (simp add: seen_def)
qed

lemma triple_CreateWalletTopup:
  "triple (seen A) (CreateWalletTopup c rf ex) (\<lambda>r s. advances A s \<and> True)"
  unfolding CreateWalletTopup_def Let_def triple_WithinTransaction
  apply (rule triple_step [OF triple_side], intro always_intros)
  apply (rule triple_attempt [OF triple_side failsafe_always], (intro always_intros)+)
   prefer 2
   apply (simp only: sum.case)
   apply (rule triple_step [OF triple_side], intro always_intros)
   apply (rule triple_returnE, simp add: advances_same)
  apply (simp only: sum.case, rule triple_if, rule triple_throwE)
  apply (rule triple_step [OF triple_open_wallet])
  apply (rule triple_step [OF triple_side], intro always_intros)
  apply (rule triple_attempt [OF triple_CreateWalletTopup_query failsafe_CreateWalletTopup_query])
   apply (simp only: sum.case, rule triple_if, rule triple_throwE)
   apply (rule triple_step [OF triple_side], intro always_intros)+
   apply (rule triple_returnE, simp, erule advancesI, rule open_wallet_steps)
  apply (simp only: sum.case, elim conjE)
  apply (rule triple_step [OF triple_side], intro always_intros)
  apply (rule triple_returnE, simp, erule advancesI)
  apply (rule rtranclp.rtrancl_into_rtrancl, rule open_wallet_steps, rule sp_topup)
   apply simp_all
  done

lemma implements_CreateTopup: "implements A (WalletService_CreateTopup mn mx ex env rf ins now tc)"
  unfolding WalletService_CreateTopup_def
proof (intro implements_if implements_throwE)
  have tx: "implements A (CreateWalletTopup c r t)" for c r t
    by (rule implementsI [OF triple_CreateWalletTopup])
      (auto simp: CreateWalletTopup_def Let_def intro!: rolls_back_intros always_intros)
  have rest: "implements A (bindE (CreateWalletTopup c r t) (\<lambda>(topup, dup).
      bindE (ofSum (ins topup)) (\<lambda>i. returnE (topup, i, dup))))" for c r t
    by (rule implements_bind_side [OF tx]) (intro always_intros)
  show "implements A (bindE (ofSum rf) (\<lambda>ref. bindE (CreateWalletTopup
      (tc\<lparr>cwt_PaymentEnvironment := env\<rparr>) ref (now + ex)) (\<lambda>(topup, duplicate).
      bindE (ofSum (ins topup)) (\<lambda>i. returnE (topup, i, duplicate)))))"
    using rest by (cases rf) (simp_all add: implements_def bindE_app ofSum_def advances_same)
qed

end
