(* ===== verification/Order_Refinement.thy ===== *)
theory Order_Refinement
  imports Wallet_Refinement
begin

text \<open>
  The customer's side and the stock desk refine the specification: placing, cancelling and expiring
  orders, claiming stock for an order that is being reserved, and releasing stock, which in a
  correct shop has nothing to release.
\<close>

section \<open>Placing an order\<close>

definition placed :: "shop \<Rightarrow> int64 \<Rightarrow> int \<Rightarrow> int \<Rightarrow> db \<Rightarrow> bool" where
  "placed A k amt q s \<longleftrightarrow> seen (file_upd k (\<lambda>_. new_file amt q) A) s \<and>
     cf_status (sf_file A k) = None \<and> 0 < q \<and> 0 \<le> amt"

lemma placed_advances: "placed A k amt q s \<Longrightarrow> advances A s"
  unfolding placed_def by (auto intro: advances_one sp_place)

lemma replays_None: "replays a xs None \<Longrightarrow> a = None \<and> xs = []"
  by (induction a xs "None :: OrderStatus option" rule: replays.induct) auto

lemma blank_fileD:
  assumes "shop_ok A" "cf_status (sf_file A k) = None"
  shows "unserved (sf_file A k)" "cf_qty (sf_file A k) = []" "cf_trail (sf_file A k) = []"
  using shop_file [OF assms(1), of k] assms(2) replays_None by (auto simp: file_ok_def)

lemma failsafe_CreatePendingOrderWithBank: "failsafe (seen A) (CreatePendingOrderWithBank p)"
  unfolding failsafe_def
proof (intro allI impI)
  fix s e s'
  assume s: "seen A s" and run: "CreatePendingOrderWithBank p s = (Inl e, s')"
  have "schema s'" using seen_progress [OF progress_CreatePendingOrderWithBank _ run] s by (simp add: seen_def)
  moreover have "view s' = view s"
    using run by (auto simp: CreatePendingOrderWithBank_def bindE_app nextId_def sqlInsertIgnore_def sqlInsert_def
        split: if_splits)
  ultimately show "seen A s'" using s by (simp add: seen_def)
qed

lemma triple_InsertOrderHistory [prims]:
  "legal_history f t \<Longrightarrow> triple (seen A) (InsertOrderHistory k f t re aty aid rq) (\<lambda>_ s.
     seen (file_upd k (\<lambda>x. x\<lparr>cf_trail := cf_trail x @ [(f, t)]\<rparr>) A) s \<and> True)"
  unfolding InsertOrderHistory_def
  by (intro triple_step [OF triple_InsertOrderStatusHistory] triple_returnE) auto

lemma mapOrder_simps [simp]:
  "od_ID (mapOrder r) = ord_id r" "od_Status (mapOrder r) = ord_status r"
  "od_UserID (mapOrder r) = ord_user_id r" "od_Total (mapOrder r) = ord_total_vnd r"
  by (simp_all add: mapOrder_def Let_def)

lemma triple_throw_bind: "triple P (bindE (throwE e) f) Q"
  by (auto simp: triple_def)

definition create_post :: "shop \<Rightarrow> int \<Rightarrow> int \<Rightarrow> (OrderDetail \<times> bool) \<Rightarrow> db \<Rightarrow> bool" where
  "create_post A amt q r s \<longleftrightarrow>
     (if snd r then seen A s else placed A (od_ID (fst r)) amt q s)"

lemma triple_createLoop:
  assumes ok: "shop_ok A"
  shows "triple (seen A) (createLoop n refs cmd us pr amt bk ex env) (create_post A amt (coc_Quantity cmd))"
proof (induction n)
  case 0
  show ?case unfolding createLoop.simps by (rule triple_throwE)
next
  case (Suc n)
  show ?case
    unfolding createLoop.simps InsertPendingOrder_def bindE_assoc
    apply (rule triple_step [OF triple_side], intro always_intros)
    apply (rule triple_attempt [OF triple_CreatePendingOrderWithBank failsafe_CreatePendingOrderWithBank])
     apply (simp only: sum.case)
     apply (rule triple_bind_if)
      apply (simp only: bindE_returnE option.case)
      apply (rule triple_attempt [OF triple_side failsafe_always], (intro always_intros)+)
       apply (simp only: sum.case, rule triple_if, rule triple_throwE, rule Suc.IH)
      apply (simp only: sum.case)
      apply (rule triple_step [OF triple_side], intro always_intros)
      apply (rule triple_returnE, simp add: create_post_def)
     apply (rule triple_throw_bind)
    apply (simp only: sum.case bindE_returnE option.case, elim conjE)
    apply (rule triple_step [OF triple_InsertOrderItem])
    apply (rule triple_step [OF triple_InsertOrderHistory], simp)
    apply (rule triple_step [OF triple_side], intro always_intros)
    apply (rule triple_returnE)
    subgoal for rf order
      using blank_fileD [OF ok, of "ord_id order"]
      by (auto simp: create_post_def placed_def move_defs unserved_def elim!: seen_file)
    done
qed

lemma triple_createOrderTx:
  assumes ok: "shop_ok A"
  shows "triple (seen A) (createOrderTx refs cfg now cmd) (\<lambda>r s.
    (\<exists>amt. create_post A amt (coc_Quantity cmd) r s) \<and> True)"
  unfolding createOrderTx_def
  apply (rule triple_step [OF triple_side], intro always_intros)
  apply (rule triple_if, rule triple_throwE)
  apply (rule triple_attempt [OF triple_side failsafe_always], (intro always_intros)+)
   prefer 2
   apply (simp only: sum.case)
   apply (rule triple_step [OF triple_side], intro always_intros)
   apply (rule triple_returnE, simp add: create_post_def)
  apply (simp only: sum.case, rule triple_if, rule triple_throwE)
  apply (rule triple_step [OF triple_side], intro always_intros)
  apply (rule triple_case_prod)
  apply (rule triple_if, rule triple_throwE)
  apply (rule triple_if, rule triple_throwE)
  apply (rule triple_step [OF triple_side], intro always_intros)+
  apply (rule triple_if, rule triple_throwE)
  apply (rule triple_step [OF triple_side], intro always_intros)
  apply (rule triple_post [OF triple_createLoop [OF ok]], blast)
  done

lemma create_advances: "create_post A amt q r s \<Longrightarrow> advances A s"
  by (auto simp: create_post_def advances_same placed_advances split: if_splits)

lemma implements_Create:
  fixes ins :: "OrderDetail \<Rightarrow> error + 'i"
  assumes "shop_ok A"
  shows "implements A (OrderService_Create refs ins cfg now cmd)"
  unfolding OrderService_Create_def
proof (intro implements_if implements_throwE implements_bind_side)
  show "implements A (WithinTransaction (createOrderTx refs cfg now cmd))"
  proof (rule implementsI)
    show "triple (seen A) (WithinTransaction (createOrderTx refs cfg now cmd)) (\<lambda>r s.
        (\<exists>amt. create_post A amt (coc_Quantity cmd) r s) \<and> True)"
      using triple_createOrderTx [OF assms] by simp
    show "always (progress s0) (WithinTransaction (createOrderTx refs cfg now cmd))" for s0
      unfolding createOrderTx_def by (intro always_intros)
  qed (auto intro: rolls_back_tx create_advances)
qed (intro always_intros)

section \<open>Cancelling\<close>

definition closed :: "shop \<Rightarrow> int64 \<Rightarrow> OrderStatus \<Rightarrow> db \<Rightarrow> bool" where
  "closed A k t s \<longleftrightarrow> seen (file_upd k (go t) A) s \<and>
     cf_status (sf_file A k) = Some OrderStatusPendingPayment"

lemma triple_Cancel:
  "triple (seen A) (OrderService_Cancel now cmd) (\<lambda>r s.
     if snd r then seen A s else closed A (cac_OrderID cmd) OrderStatusCancelled s)"
  unfolding OrderService_Cancel_def cancelOrderTx_def Let_def
  apply (rule triple_if, rule triple_throwE)
  unfolding triple_WithinTransaction
  apply (rule triple_step, subst triple_mapErrE, rule triple_LockOrderDetailOwnedByTelegramUser, elim conjE)
  apply (rule triple_if)
   apply (rule triple_step [OF triple_side], intro always_intros)
   apply (rule triple_returnE, simp)
  apply (rule triple_if, rule triple_throwE)+
  apply (rule triple_step, subst triple_noRows, rule triple_order_moves(1), elim conjE)
  apply (rule triple_step [OF triple_InsertOrderHistory], simp add: ValidateCustomerOrderTransition_def split: if_splits)
  apply (rule triple_step [OF triple_side], intro always_intros)
  apply (rule triple_returnE)
  apply (auto simp: closed_def move_defs describes_def mapLockedOrderDetail_def elim!: seen_file)
  done

lemma implements_Cancel: "implements A (OrderService_Cancel now cmd)"
proof (rule implementsI [OF triple_Cancel])
  show "rolls_back (OrderService_Cancel now cmd)"
    unfolding OrderService_Cancel_def by (intro rolls_back_intros)
qed (auto simp: closed_def split: if_splits intro: always_intros advances_same advances_one sp_close)

section \<open>Expiry\<close>

lemma triple_Expire:
  "triple (seen A) (ExpireOverdueOrders skip now n) (\<lambda>r s. distinct r \<and>
     seen (files_upd (set r) (go OrderStatusExpired) A) s \<and>
     (\<forall>k \<in> set r. cf_status (sf_file A k) = Some OrderStatusPendingPayment))"
  unfolding ExpireOverdueOrders_def triple_WithinTransaction
  apply (rule triple_step [OF triple_ClaimOverduePendingOrders], elim conjE)
  apply (rule triple_step [OF triple_expiryHistories], assumption)
  apply (rule triple_returnE)
  subgoal for rows u s
    apply (simp add: files_upd_twice)
    apply (subst files_upd_cong [where h = "\<lambda>f. f\<lparr>cf_status := Some OrderStatusExpired,
        cf_trail := cf_trail f @ [(Some OrderStatusPendingPayment, OrderStatusExpired)]\<rparr>"])
     apply (auto simp: move_defs)
    done
  done

lemma implements_Expire: "implements A (OrderExpiryService_RunOnce skip n now)"
proof -
  have steps: "spec_step\<^sup>*\<^sup>* A (files_upd (set r) (go OrderStatusExpired) A)"
    if "\<forall>k \<in> set r. cf_status (sf_file A k) = Some OrderStatusPendingPayment" for r
    using that by (intro spec_steps_batch sp_close) auto
  have "implements A (ExpireOverdueOrders skip now n)"
  proof (rule implementsI [OF triple_Expire])
    show "rolls_back (ExpireOverdueOrders skip now n)"
      unfolding ExpireOverdueOrders_def by (intro rolls_back_intros)
    show "always (progress s0) (ExpireOverdueOrders skip now n)" for s0
      unfolding ExpireOverdueOrders_def by (intro always_intros)
  qed (auto intro: advancesI steps)
  then show ?thesis
    unfolding OrderExpiryService_RunOnce_def
    by (intro implements_if implements_throwE implements_bind_side) (auto intro: always_intros)
qed

section \<open>Stock for an order being reserved\<close>

lemma triple_ClaimInventory:
  "triple (seen A) (ClaimInventory skip rq) (\<lambda>r s. \<exists>ids.
     seen (file_upd (icr_OrderID rq) (\<lambda>f. f\<lparr>cf_reserved := cf_reserved f \<union> ids, cf_mapped := cf_mapped f \<union> ids\<rparr>) A) s \<and>
     fresh_items A ids \<and> cf_status (sf_file A (icr_OrderID rq)) = Some OrderStatusReserving)"
  unfolding ClaimInventory_def triple_WithinTransaction
  apply (rule triple_step, subst triple_noRows, rule triple_LockOrderForUpdate, elim conjE)
  apply (rule triple_if, rule triple_throwE)
  apply (rule triple_step [OF triple_side], intro always_intros)
  apply (rule triple_if, rule triple_throwE)
  apply (rule triple_step [OF triple_ClaimAvailableInventory], elim conjE)
  apply (rule triple_if, rule triple_throwE)
  apply (rule triple_step [OF triple_mappings])
  apply (rule triple_step [OF triple_side], intro always_intros)
  apply (rule triple_returnE)
  subgoal for order item ids by (rule exI [of _ "set ids"]) (auto simp: describes_def)
  done

lemma implements_Claim: "implements A (InventoryReservationService_Claim skip ttl now rq)"
proof -
  have "implements A (ClaimInventory skip rq)"
  proof (rule implementsI [OF triple_ClaimInventory])
    show "rolls_back (ClaimInventory skip rq)"
      unfolding ClaimInventory_def by (intro rolls_back_intros)
    show "always (progress s0) (ClaimInventory skip rq)" for s0
      unfolding ClaimInventory_def by (intro always_intros)
  qed (auto intro: advances_one sp_claim)
  then show ?thesis
    unfolding InventoryReservationService_Claim_def by (intro implements_if implements_throwE)
qed

text \<open>
  Stock is released only for orders that are over without delivery, and those hold none: the release
  finds nothing to do.
\<close>

lemma release_idle:
  assumes "shop_ok A" "describes A order" "InventoryReleaseReasonForOrder (ord_status order) = (re, safe)"
    and "safe" "ord_id order = k"
  shows "cf_reserved (sf_file A k) = {}"
  using shop_file [OF assms(1), of k] assms(2-5)
  by (auto simp: describes_def InventoryReleaseReasonForOrder_def file_defs split: OrderStatus.splits)

lemma triple_let_prod:
  "(\<And>a b. p = (a, b) \<Longrightarrow> triple P (f a b) Q) \<Longrightarrow> triple P (let (a, b) = p in f a b) Q"
  by (simp add: Let_def split: prod.splits)

lemma triple_release:
  assumes "cf_reserved (sf_file A k) = {}"
  shows "triple (seen A) (releaseInventoryForOrder k re rq) (\<lambda>r s. seen A s \<and> r = 0)"
  unfolding releaseInventoryForOrder_def
  apply (rule triple_step [OF triple_ListReservedInventoryIDsByOrder])
  apply (simp add: assms)
  apply (rule triple_returnE, simp)
  done

lemma implements_Release:
  assumes ok: "shop_ok A"
  shows "implements A (InventoryReservationService_Release rr)"
proof -
  have "triple (seen A) (ReleaseInventory rr) (\<lambda>_. seen A)"
    unfolding ReleaseInventory_def triple_WithinTransaction
    apply (rule triple_step, subst triple_noRows, rule triple_LockOrderForUpdate, elim conjE)
    apply (rule triple_let_prod)
    apply (rule triple_if, rule triple_throwE)+
    apply (rule triple_step [OF triple_release])
     apply (rule release_idle [OF ok], assumption, assumption, simp, assumption)
    apply (rule triple_returnE, assumption)
    done
  then have "implements A (ReleaseInventory rr)"
    by (rule implementsI) (auto simp: ReleaseInventory_def intro!: rolls_back_tx always_intros advances_same)
  then show ?thesis
    unfolding InventoryReservationService_Release_def by (intro implements_if implements_throwE)
qed

lemma implements_Recover:
  assumes ok: "shop_ok A"
  shows "implements A (InventoryReservationService_RecoverExpired oid now rq)"
proof -
  have "triple (seen A) (RecoverExpiredReservation oid now rq) (\<lambda>_. seen A)"
    unfolding RecoverExpiredReservation_def triple_WithinTransaction Let_def
    apply (rule triple_step, subst triple_noRows, rule triple_LockOrderForUpdate, elim conjE)
    apply (rule triple_step [OF triple_side], intro always_intros)
    apply (rule triple_if, rule triple_returnE, assumption)
    apply (rule triple_case_prod)
    apply (rule triple_if)
     apply (rule triple_step [OF triple_release])
      apply (rule release_idle [OF ok], assumption, assumption, simp, assumption)
     apply (rule triple_returnE, assumption)
    apply (rule triple_attempt [OF triple_side failsafe_always], (intro always_intros)+)
     apply (simp only: sum.case, rule triple_if, rule triple_returnE, assumption, rule triple_throwE)
    apply (simp only: sum.case, rule triple_returnE, assumption)
    done
  then have "implements A (RecoverExpiredReservation oid now rq)"
    by (rule implementsI) (auto simp: RecoverExpiredReservation_def intro!: rolls_back_tx always_intros advances_same)
  then show ?thesis
    unfolding InventoryReservationService_RecoverExpired_def by (intro implements_if implements_throwE)
qed

end
