(* ===== verification/Delivery_Refinement.thy ===== *)
theory Delivery_Refinement
  imports Order_Refinement
begin

text \<open>
  The delivery queue refines the specification: handing orders over, moving jobs, finalizing a
  delivery, and the manual resolutions.
\<close>

section \<open>Queue moves\<close>

lemma queue_advances:
  assumes "seen (job_post A r) s" "job_fact A jid q r" "\<And>st. q st \<Longrightarrow> activeJob st" "activeJob (job_status r)"
  shows "advances A s"
proof (cases "job_delivery_order_id r")
  case None
  then show ?thesis using assms(1) by (simp add: job_post_def advances_same)
next
  case (Some k)
  then obtain st where st: "cf_job (sf_file A k) = Some (jid, st)" "q st"
    using assms(2) by (auto simp: job_fact_def)
  have "seen (file_upd k (cf_job_update (\<lambda>_. Some (jid, job_status r))) A) s"
    using assms(1) job_factD(1) [OF assms(2) st(1)] by simp
  then show ?thesis
    using sp_queue [OF st(1) assms(3) [OF st(2)] assms(4)] by (rule advances_one)
qed

lemma queue_advances_known:
  assumes "seen (job_post A r) s" "job_fact A jid q r" "cf_job (sf_file A k) = Some (jid, st)"
    and "activeJob st" "activeJob (job_status r)"
  shows "advances A s"
proof (rule advances_one [OF _ sp_queue [OF assms(3-5)]])
  show "seen (file_upd k (cf_job_update (\<lambda>_. Some (jid, job_status r))) A) s"
    using assms(1) job_factD(1) [OF assms(2,3)] by simp
qed

lemma active_jobs [simp]:
  "activeJob DeliveryJobPending" "activeJob DeliveryJobProcessing" "activeJob DeliveryJobRetryableFailed"
  "activeJob DeliveryJobAmbiguous" "activeJob DeliveryJobManualReview"
  "\<not> activeJob DeliveryJobPermanentFailed" "\<not> activeJob DeliveryJobCompleted"
  by (simp_all add: activeJob_def)

text \<open>Chaining: what refines from every correct shop refines from what has been reached.\<close>

lemma triple_chain:
  assumes "shop_ok A" "\<And>B. shop_ok B \<Longrightarrow> triple (seen B) m (\<lambda>_. advances B)"
  shows "triple (advances A) m (\<lambda>_. advances A)"
proof (rule tripleI)
  fix s r s'
  assume s: "advances A s" and run: "m s = (Inr r, s')"
  then have "seen (view s) s" "shop_ok (view s)"
    using spec_steps_ok assms(1) by (auto simp: advances_def seen_def)
  from tripleD [OF assms(2) [OF this(2)] this(1) run] s show "advances A s'"
    by (auto simp: advances_def)
qed

lemma triple_chain_step:
  assumes "shop_ok A" "\<And>B. shop_ok B \<Longrightarrow> triple (seen B) m (\<lambda>_. advances B)"
  shows "triple (advances A) m (\<lambda>_ s. advances A s \<and> True)"
  using triple_chain [OF assms] by simp

section \<open>Handoffs\<close>

lemma reserving_file:
  assumes "shop_ok A" "cf_status (sf_file A k) = Some OrderStatusReserving"
  shows "held (sf_file A k)" "cf_job (sf_file A k) = None" "\<exists>q > 0. cf_qty (sf_file A k) = [q]"
  using shop_file [OF assms(1), of k] assms(2) by (auto simp: file_ok_def status_ok_def)

lemma triple_handoff_any:
  assumes ok: "shop_ok A"
  shows "triple (seen A) (createDeliveryHandoffWithinTransaction k t n aty aid rq) (\<lambda>_. advances A)"
proof (cases "cf_status (sf_file A k) = Some OrderStatusReserving")
  case True
  note f = reserving_file [OF ok True]
  show ?thesis
    by (rule triple_post [OF triple_handoff [OF True f(2)]])
      (use f True in \<open>auto simp: held_def intro!: advances_one sp_resume\<close>)
next
  case False
  show ?thesis
    unfolding createDeliveryHandoffWithinTransaction_def
    apply (rule triple_if, rule triple_throwE)
    apply (rule triple_step [OF triple_LockOrderForDeliveryHandoff], elim conjE)
    apply (rule triple_if)
     apply (rule triple_step [OF triple_side], intro always_intros)
     apply (rule triple_returnE, erule advances_same)
    apply (rule triple_if, rule triple_throwE)
    apply (simp add: False)
    done
qed

lemma triple_backfillLoop:
  assumes ok: "shop_ok A"
  shows "triple (advances A) (backfillLoop now n ids c) (\<lambda>_. advances A)"
proof (induction ids arbitrary: c)
  case Nil
  show ?case unfolding backfillLoop.simps by (rule triple_returnE)
next
  case (Cons k ids)
  show ?case
    unfolding backfillLoop.simps
    by (rule triple_step [OF triple_chain_step [OF ok triple_handoff_any] Cons.IH])
qed

lemma implements_Backfill:
  assumes ok: "shop_ok A"
  shows "implements A (BackfillDeliveryJobs skip now n m)"
proof (rule implementsI)
  show "triple (seen A) (BackfillDeliveryJobs skip now n m) (\<lambda>_. advances A)"
    unfolding BackfillDeliveryJobs_def triple_WithinTransaction
    apply (rule triple_step [OF triple_side], intro always_intros)
    apply (rule triple_pre [OF triple_backfillLoop [OF ok]], erule advances_same)
    done
  show "rolls_back (BackfillDeliveryJobs skip now n m)"
    unfolding BackfillDeliveryJobs_def by (rule rolls_back_tx)
qed (intro always_intros)

section \<open>Claims and recovery\<close>

lemma triple_stale:
  "triple (seen A) (MarkStaleDeliveryClaimRetryable t jid) (\<lambda>_ s. advances A s \<and> True)"
  "triple (seen A) (MarkStaleDeliverySendAmbiguous jid) (\<lambda>_ s. advances A s \<and> True)"
  by (rule triple_post [OF triple_job_moves(1)], auto elim: queue_advances)
    (rule triple_post [OF triple_job_moves(2)], auto elim: queue_advances)

lemma triple_recoverStaleLoop:
  assumes ok: "shop_ok A"
  shows "triple (advances A) (recoverStaleLoop now jobs r) (\<lambda>_. advances A)"
proof (induction jobs arbitrary: r)
  case Nil
  show ?case unfolding recoverStaleLoop.simps by (rule triple_returnE)
next
  case (Cons j jobs)
  have stale: "triple (seen B) (MarkStaleDeliveryClaimRetryable t jid) (\<lambda>_. advances B)"
    "triple (seen B) (MarkStaleDeliverySendAmbiguous jid) (\<lambda>_. advances B)" for B t jid
    using triple_stale by simp_all
  show ?case
    unfolding recoverStaleLoop.simps
    apply (rule triple_if)
     apply (rule triple_step [OF triple_chain_step [OF ok stale(1)] Cons.IH])
    apply (rule triple_if)
     apply (rule triple_step [OF triple_chain_step [OF ok stale(2)]])
     apply (rule triple_step [OF triple_advances_side], intro always_intros)+
     apply (rule Cons.IH)
    apply (rule triple_throwE)
    done
qed

lemma implements_Stale:
  assumes ok: "shop_ok A"
  shows "implements A (RecoverStaleDeliveryJobs skip now sb n)"
proof (rule implementsI)
  show "triple (seen A) (RecoverStaleDeliveryJobs skip now sb n) (\<lambda>_. advances A)"
    unfolding RecoverStaleDeliveryJobs_def triple_WithinTransaction
    apply (rule triple_step [OF triple_side], intro always_intros)
    apply (rule triple_pre [OF triple_recoverStaleLoop [OF ok]], erule advances_same)
    done
  show "rolls_back (RecoverStaleDeliveryJobs skip now sb n)"
    unfolding RecoverStaleDeliveryJobs_def by (rule rolls_back_tx)
qed (intro always_intros)

lemma rolls_back_claim: "rolls_back (ClaimDeliveryJobs_query skip t w n)"
proof -
  have "s = s\<lparr>seqs := seqs s\<rparr>" for s :: db by simp
  moreover have "ClaimDeliveryJobs_query skip t w n s = (Inl e, s') \<Longrightarrow> s' = s" for s e s'
    by (auto simp: ClaimDeliveryJobs_query_def updateJobs_def sqlUpdate_def bindE_app askE_def Let_def
        split: if_splits)
  ultimately show ?thesis unfolding rolls_back_def by metis
qed

lemma claim_advances:
  assumes s: "seen (files_upd K (\<lambda>f. f\<lparr>cf_job := map_option (\<lambda>(jid, _). (jid, DeliveryJobProcessing)) (cf_job f)\<rparr>) A) s"
    and K: "finite K" "\<forall>k \<in> K. \<exists>jid st. cf_job (sf_file A k) = Some (jid, st) \<and>
      st \<in> {DeliveryJobPending, DeliveryJobRetryableFailed}"
  shows "advances A s"
proof (rule advancesI [OF s], rule spec_steps_batch [OF K(1)])
  fix k and B :: shop
  let ?g = "\<lambda>f. f\<lparr>cf_job := map_option (\<lambda>(jid, _). (jid, DeliveryJobProcessing)) (cf_job f)\<rparr>"
  assume "k \<in> K" and B: "sf_file B k = sf_file A k"
  with K(2) obtain jid st where job: "cf_job (sf_file B k) = Some (jid, st)"
    and st: "st \<in> {DeliveryJobPending, DeliveryJobRetryableFailed}" by auto
  have "activeJob st" using st by auto
  then have "spec_step B (file_upd k (cf_job_update (\<lambda>_. Some (jid, DeliveryJobProcessing))) B)"
    using sp_queue [OF job, of DeliveryJobProcessing] by simp
  moreover have "file_upd k ?g B = file_upd k (cf_job_update (\<lambda>_. Some (jid, DeliveryJobProcessing))) B"
    by (rule file_upd_cong) (simp add: job)
  ultimately show "spec_step B (file_upd k ?g B)" by simp
qed

lemma implements_ClaimJobs: "implements A (ClaimDeliveryJobs skip now w n)"
proof -
  have "implements A (ClaimDeliveryJobs_query skip now (optionalText w) n)"
    by (rule implementsI [OF triple_ClaimDeliveryJobs_query rolls_back_claim progress_ClaimDeliveryJobs_query])
      (auto intro: claim_advances)
  then show ?thesis
    unfolding ClaimDeliveryJobs_def by (rule implements_bind_side) (intro always_intros)
qed

lemma implements_Begin: "implements A (BeginDeliveryAttempt jid w t)"
proof (rule implementsI)
  show "triple (seen A) (BeginDeliveryAttempt jid w t) (\<lambda>_. advances A)"
    unfolding BeginDeliveryAttempt_def triple_WithinTransaction
    apply (rule triple_step, subst triple_noRows, rule triple_job_moves(3), elim conjE)
    apply (rule triple_step [OF triple_side], intro always_intros)
    apply (rule triple_returnE, erule queue_advances, assumption, simp_all)
    done
  show "rolls_back (BeginDeliveryAttempt jid w t)"
    unfolding BeginDeliveryAttempt_def by (rule rolls_back_tx)
qed (intro always_intros)

section \<open>Finalizing\<close>

lemma delivering_file:
  assumes "shop_ok A" "cf_status (sf_file A k) = Some OrderStatusDelivering"
  shows "held (sf_file A k)" "complete_stock (sf_file A k)" "\<exists>q > 0. cf_qty (sf_file A k) = [q]"
    "\<exists>jid j. cf_job (sf_file A k) = Some (jid, j) \<and> activeJob j"
  using shop_file [OF assms(1), of k] assms(2) by (auto simp: file_ok_def status_ok_def)

definition handed_over :: "shop \<Rightarrow> int64 \<Rightarrow> db \<Rightarrow> bool" where
  "handed_over A k s \<longleftrightarrow> seen (file_upd k hand_over A) s \<and>
     cf_status (sf_file A k) = Some OrderStatusDelivering"

lemma handed_over_advances: "handed_over A k s \<Longrightarrow> advances A s"
  unfolding handed_over_def by (auto intro: advances_one sp_deliver)

lemma handed_overI:
  assumes "shop_ok A" "seen (file_upd k g A) s" "cf_status (sf_file A k) = Some OrderStatusDelivering"
    and "g (sf_file A k) = hand_over (sf_file A k)"
  shows "handed_over A k s"
  unfolding handed_over_def using assms seen_file [of k g A s hand_over] by blast

text \<open>The rows around a move of the order's own job, as one change of its file.\<close>

lemma seen_job_rows:
  assumes "seen (file_upd k h (job_post (file_upd k g A) r)) s" "job_fact (file_upd k g A) jid q r"
    and "cf_job (g (sf_file A k)) = Some (jid, st)"
    and "h ((g (sf_file A k))\<lparr>cf_job := Some (jid, job_status r)\<rparr>) = f (sf_file A k)"
  shows "seen (file_upd k f A) s"
proof -
  have "job_post (file_upd k g A) r =
      file_upd k (cf_job_update (\<lambda>_. Some (jid, job_status r))) (file_upd k g A)"
    using job_factD(1) [OF assms(2), of k st] assms(3) by simp
  with assms(1) have "seen (file_upd k (\<lambda>x. h (cf_job_update (\<lambda>_. Some (jid, job_status r)) (g x))) A) s"
    by simp
  then show ?thesis by (rule seen_file) (use assms(4) in simp)
qed

lemma seen_same_job_rows:
  assumes "seen (job_post (file_upd k g A) r) s" "job_fact (file_upd k g A) jid q r"
    and "cf_job (g (sf_file A k)) = Some (jid, st)"
    and "(g (sf_file A k))\<lparr>cf_job := Some (jid, job_status r)\<rparr> = f (sf_file A k)"
  shows "seen (file_upd k f A) s"
  using seen_job_rows [of k "\<lambda>x. x" g A r s jid q st f] assms by simp

text \<open>The rows that both ways of completing a delivery write.\<close>

lemma sold_all:
  assumes ok: "shop_ok A" and st: "cf_status (sf_file A k) = Some OrderStatusDelivering"
    and q: "q \<in> set (cf_qty (sf_file A k))" "int (length sold) = q"
    and sold: "sold = [] \<or> set sold = cf_reserved (sf_file A k) \<inter> cf_mapped (sf_file A k)"
  shows "set sold = cf_reserved (sf_file A k)" "cf_sold (sf_file A k) = {}"
  using delivering_file [OF ok st] q sold by (auto simp: held_def)

lemma triple_FinalizeSuccess:
  assumes ok: "shop_ok A"
  shows "triple (seen A) (FinalizeDeliverySuccess jid w su) (\<lambda>_ s.
    (seen A s \<and> (\<exists>k. cf_job (sf_file A k) = Some (jid, DeliveryJobCompleted))) \<or>
    (\<exists>k. handed_over A k s \<and> cf_job (sf_file A k) = Some (jid, DeliveryJobProcessing)))"
  unfolding FinalizeDeliverySuccess_def triple_WithinTransaction
  apply (rule triple_step [OF triple_LockDeliveryJob], elim exE conjE)
  apply (rule triple_if, rule triple_returnE, rule disjI1, simp, blast)
  apply (rule triple_if, rule triple_throwE)
  apply (simp only: int8Or_def option.case)
  apply (rule triple_step [OF triple_LockOrderForDeliveryHandoff], elim conjE)
  apply (rule triple_if, rule triple_throwE)
  apply (rule triple_step [OF triple_MarkExactReservedInventorySold], elim conjE)
  apply (rule triple_if, rule triple_throwE)
  apply (rule triple_step [OF triple_order_moves(4)], elim conjE)
  apply (rule triple_step [OF triple_job_moves(7)], elim conjE)
  apply (rule triple_step [OF triple_side], intro always_intros)
  apply (rule triple_step [OF triple_InsertOrderStatusHistory], simp)
  apply (rule triple_post [OF triple_side], intro always_intros)
  subgoal for job k order sold delivered fin
    using sold_all [OF ok, of k "hof_quantity order" sold]
    apply (intro disjI2 exI [of _ k] conjI)
     apply (simp add: handed_over_def)
     apply (rule seen_job_rows [where st = DeliveryJobProcessing], assumption, assumption)
      apply (simp_all add: move_defs)
    done
  done

lemma implements_Success:
  assumes ok: "shop_ok A"
  shows "implements A (FinalizeDeliverySuccess jid w su)"
proof (rule implementsI [OF triple_FinalizeSuccess [OF ok]])
  show "rolls_back (FinalizeDeliverySuccess jid w su)"
    unfolding FinalizeDeliverySuccess_def by (rule rolls_back_tx)
  show "always (progress s0) (FinalizeDeliverySuccess jid w su)" for s0
    by (intro always_intros)
qed (auto intro: advances_same handed_over_advances)

definition failed_delivery :: "shop \<Rightarrow> int64 \<Rightarrow> db \<Rightarrow> bool" where
  "failed_delivery A k s \<longleftrightarrow>
     seen (file_upd k (move_with DeliveryJobPermanentFailed OrderStatusDeliveryFailed) A) s \<and>
     cf_status (sf_file A k) = Some OrderStatusDelivering"

lemma failed_delivery_advances: "failed_delivery A k s \<Longrightarrow> advances A s"
  unfolding failed_delivery_def by (auto intro: advances_one sp_fail)

lemma triple_markOrderDeliveryFailed:
  assumes "job_fact A jid (\<lambda>st. st = DeliveryJobProcessing) r" "job_status r = DeliveryJobPermanentFailed"
    and "cf_job (sf_file A k) = Some (jid, st)" "job_delivery_order_id job = Some k"
  shows "triple (seen (job_post A r)) (markOrderDeliveryFailed job re) (\<lambda>_ s. failed_delivery A k s \<and> True)"
proof -
  have post: "job_post A r = file_upd k (cf_job_update (\<lambda>_. Some (jid, DeliveryJobPermanentFailed))) A"
    using job_factD(1) [OF assms(1,3)] assms(2) by simp
  show ?thesis
    unfolding markOrderDeliveryFailed_def assms(4) int8Or_def option.case post
    apply (rule triple_step, subst triple_noRows, rule triple_order_moves(5), elim conjE)
    apply (rule triple_step [OF triple_InsertOrderStatusHistory], simp)
    apply (rule triple_returnE)
    apply (simp add: failed_delivery_def)
    apply (erule seen_file)
    apply (simp add: move_defs assms(3))
    done
qed

lemma always_failed [always_intros]:
  "always (failed_delivery A k) (insertDeliveryAudit jid oid ac aty aid rs rq)"
  "always (failed_delivery A k) (insertDeliveryAttempt j st t fl re)"
proof -
  have keep: "(\<And>B. always (seen B) m) \<Longrightarrow> always (failed_delivery A k) m" for m :: "'a dbtx"
    unfolding failed_delivery_def always_def by blast
  show "always (failed_delivery A k) (insertDeliveryAudit jid oid ac aty aid rs rq)"
    by (rule keep) (intro always_intros)
  have keep': "(\<And>B. always (seen B) m) \<Longrightarrow> always (failed_delivery A k) m" for m :: "attempt_row dbtx"
    unfolding failed_delivery_def always_def by blast
  show "always (failed_delivery A k) (insertDeliveryAttempt j st t fl re)"
    by (rule keep') (intro always_intros)
qed

lemma triple_FinalizeFailure:
  "triple (seen A) (FinalizeDeliveryFailure jid w fl) (\<lambda>_. advances A)"
  unfolding FinalizeDeliveryFailure_def triple_WithinTransaction
  apply (rule triple_step [OF triple_LockDeliveryJob], elim exE conjE)
  apply (rule triple_if, rule triple_throwE)
  apply (rule triple_step [OF triple_side], intro always_intros)
  subgoal for job k att
    apply (cases "df_Class fl"; simp only: DeliveryResultClass.case)
        apply (rule triple_throwE)
       apply (rule triple_step [OF triple_job_moves(4)], elim conjE)
       apply (rule triple_post [OF triple_side], intro always_intros)
       apply (auto elim: queue_advances) [1]
      apply (rule triple_step [OF triple_job_moves(5)], elim conjE)
      apply (rule triple_step [OF triple_markOrderDeliveryFailed], assumption, assumption, assumption, assumption)
      apply (rule triple_post [OF triple_always], intro always_intros)
      apply (auto intro: failed_delivery_advances) [1]
     apply (rule triple_step [OF triple_job_moves(6)], elim conjE)
     apply (rule triple_post [OF triple_side], intro always_intros)
     apply (auto elim: queue_advances) [1]
    apply (rule triple_throwE)
    done
  done

lemma implements_Failure: "implements A (FinalizeDeliveryFailure jid w fl)"
proof (rule implementsI [OF triple_FinalizeFailure])
  show "rolls_back (FinalizeDeliveryFailure jid w fl)"
    unfolding FinalizeDeliveryFailure_def by (rule rolls_back_tx)
qed (intro always_intros)

lemma triple_FinalizeClaimedFailure:
  assumes "df_Class fl \<in> {DeliveryResultRetryable, DeliveryResultPermanent}"
  shows "triple (seen A) (FinalizeClaimedDeliveryFailure jid w fl) (\<lambda>_. advances A)"
proof (cases "df_Class fl = DeliveryResultRetryable")
  case True
  then show ?thesis
    unfolding FinalizeClaimedDeliveryFailure_def triple_WithinTransaction Let_def
    apply simp
    apply (rule triple_step [OF triple_LockDeliveryJob], elim exE conjE)
    apply (rule triple_if, rule triple_throwE)
    apply (rule triple_step [OF triple_job_moves(10)], elim conjE)
    apply (rule triple_step [OF triple_side], intro always_intros)
    apply (rule triple_post [OF triple_side], intro always_intros)
    apply (auto elim: queue_advances)
    done
next
  case False
  then have "df_Class fl = DeliveryResultPermanent" using assms by simp
  then show ?thesis
    unfolding FinalizeClaimedDeliveryFailure_def triple_WithinTransaction Let_def
    apply simp
    apply (rule triple_step [OF triple_LockDeliveryJob], elim exE conjE)
    apply (rule triple_if, rule triple_throwE)
    apply (rule triple_step [OF triple_job_moves(10)], elim conjE)
    apply (rule triple_step [OF triple_side], intro always_intros)
    apply (rule triple_bind_if)
     apply (rule triple_step [OF triple_markOrderDeliveryFailed [where jid = jid]], simp, simp, assumption, assumption)
     apply (rule triple_post [OF triple_always], intro always_intros)
     apply (auto intro: failed_delivery_advances)
    done
qed

lemma implements_FailBeforeSend: "implements A (failBeforeSend dl w wi code cause now)"
proof (rule implementsI)
  show "triple (seen A) (failBeforeSend dl w wi code cause now) (\<lambda>_. advances A)"
    unfolding failBeforeSend_def by (rule triple_FinalizeClaimedFailure) (simp add: preSendFailure_def)
  show "rolls_back (failBeforeSend dl w wi code cause now)"
    unfolding failBeforeSend_def FinalizeClaimedDeliveryFailure_def by (rule rolls_back_tx)
qed (rule progress_failBeforeSend)

lemma implements_Preserve: "implements A (PreserveAmbiguousSuccess jid su re)"
proof (rule implementsI)
  show "triple (seen A) (PreserveAmbiguousSuccess jid su re) (\<lambda>_. advances A)"
    unfolding PreserveAmbiguousSuccess_def triple_WithinTransaction
    apply (rule triple_step [OF triple_LockDeliveryJob], elim exE conjE)
    apply (rule triple_if, rule triple_returnE, erule advances_same)
    apply (rule triple_if, rule triple_throwE)
    apply (rule triple_step [OF triple_job_moves(6)], elim conjE)
    apply (rule triple_step [OF triple_side], intro always_intros)
    apply (rule triple_post [OF triple_side], intro always_intros)
    apply (auto elim: queue_advances)
    done
  show "rolls_back (PreserveAmbiguousSuccess jid su re)"
    unfolding PreserveAmbiguousSuccess_def by (rule rolls_back_tx)
qed (intro always_intros)

section \<open>Manual resolution\<close>

lemma triple_CompleteDelivery:
  assumes ok: "shop_ok A"
  shows "triple (seen A) (CompleteDelivery now c t) (\<lambda>_ s. \<exists>k. handed_over A k s \<and>
    (\<exists>st \<in> {DeliveryJobAmbiguous, DeliveryJobManualReview}. cf_job (sf_file A k) = Some (drc_JobID c, st)))"
  unfolding CompleteDelivery_def triple_mapErrE triple_WithinTransaction
  apply (rule triple_step [OF triple_side], intro always_intros)
  apply (rule triple_step [OF triple_side], intro always_intros)
  apply (rule triple_step, subst triple_noRows, rule triple_LockDeliveryJob, elim exE conjE)
  apply (rule triple_if, rule triple_throwE)
  apply (rule triple_if, rule triple_throwE)
  apply (simp only: int8Or_def option.case)
  apply (rule triple_step [OF triple_LockOrderForDeliveryHandoff], elim conjE)
  apply (rule triple_if, rule triple_throwE)
  apply (rule triple_step [OF triple_MarkExactReservedInventorySold], elim conjE)
  apply (rule triple_if, rule triple_throwE)
  apply (rule triple_step [OF triple_order_moves(4)], elim conjE)
  apply (rule triple_step, subst triple_noRows, rule triple_job_moves(9), elim conjE)
  apply (rule triple_step [OF triple_side], intro always_intros)
  apply (rule triple_step [OF triple_InsertOrderStatusHistory], simp)
  apply (rule triple_step [OF triple_side], intro always_intros)+
  apply (rule triple_returnE)
  subgoal for adm ses job k order sold delivered fin
    using sold_all [OF ok, of k "hof_quantity order" sold]
    apply (intro exI [of _ k] conjI)
     apply (simp add: handed_over_def)
     apply (rule seen_job_rows [where st = "job_status job"], assumption, assumption)
      apply (simp_all add: move_defs)
    done
  done

lemma implements_Complete:
  assumes ok: "shop_ok A"
  shows "implements A (DeliveryAdminService_Complete now c)"
proof -
  have "implements A (CompleteDelivery now d t)" for d t
  proof (rule implementsI [OF triple_CompleteDelivery [OF ok]])
    show "rolls_back (CompleteDelivery now d t)"
      unfolding CompleteDelivery_def by (intro rolls_back_intros)
    show "always (progress s0) (CompleteDelivery now d t)" for s0
      unfolding CompleteDelivery_def by (intro always_intros; simp)
  qed (auto intro: handed_over_advances)
  then show ?thesis
    unfolding DeliveryAdminService_Complete_def Let_def by (intro implements_if implements_throwE)
qed

lemma triple_RetryDelivery:
  assumes ok: "shop_ok A"
  shows "triple (seen A) (RetryDelivery now c t) (\<lambda>_. advances A)"
  unfolding RetryDelivery_def triple_mapErrE triple_WithinTransaction
  apply (rule triple_step [OF triple_side], intro always_intros)
  apply (rule triple_step [OF triple_side], intro always_intros)
  apply (rule triple_step, subst triple_noRows, rule triple_LockDeliveryJob, elim exE conjE)
  apply (rule triple_if, rule triple_throwE)
  apply (rule triple_if, rule triple_throwE)
  apply (simp only: int8Or_def option.case)
  apply (rule triple_step [OF triple_LockOrderForDeliveryHandoff], elim conjE)
  apply (rule triple_bind_if)
   apply (simp only: bindE_assoc bindE_returnE)
   apply (rule triple_step [OF triple_UpdateOrderStatusGuarded], simp, elim conjE)
   apply (rule triple_step [OF triple_InsertOrderStatusHistory], simp)
   apply (rule triple_step, subst triple_noRows, rule triple_job_moves(8), elim conjE)
   apply (rule triple_step [OF triple_side], intro always_intros)+
   apply (rule triple_returnE)
   subgoal for adm ses job k order upd his fin
     apply simp
     apply (rule advances_one, rule seen_same_job_rows [where st = "job_status job" and
           f = "move_with DeliveryJobPending OrderStatusDelivering"], assumption, assumption)
       apply (simp_all add: move_defs sp_reopen)
     done
  apply (rule triple_bind_if)
   apply (rule triple_throw_bind)
  apply (simp only: bindE_returnE)
  apply (rule triple_step, subst triple_noRows, rule triple_job_moves(8), elim conjE)
  apply (rule triple_step [OF triple_side], intro always_intros)+
  apply (rule triple_returnE)
  subgoal for adm ses job k order fin
    using delivering_file(4) [OF ok, of k]
    by (auto elim!: queue_advances_known [where k = k])
  done

lemma implements_Retry:
  assumes ok: "shop_ok A"
  shows "implements A (DeliveryAdminService_Retry now c)"
proof -
  have "implements A (RetryDelivery now d t)" for d t
  proof (rule implementsI [OF triple_RetryDelivery [OF ok]])
    show "rolls_back (RetryDelivery now d t)"
      unfolding RetryDelivery_def by (intro rolls_back_intros)
    show "always (progress s0) (RetryDelivery now d t)" for s0
      unfolding RetryDelivery_def by (intro always_intros; simp)
  qed
  then show ?thesis
    unfolding DeliveryAdminService_Retry_def Let_def by (intro implements_if implements_throwE)
qed

end
