(* ===== verification/Shop_Refinement.thy ===== *)
theory Shop_Refinement
  imports Delivery_Refinement
begin

text \<open>
  The refinement of the whole system: every step of the database system is a run of the abstract
  shop, so the abstract invariant holds of the view of every reachable database.
\<close>

section \<open>Simulations\<close>

text \<open>
  A concrete step relation implements an abstract one through an abstraction function, under a
  concrete invariant; what every abstract step keeps then holds of every concrete run.
\<close>

locale simulation =
  fixes cstep :: "'c \<Rightarrow> 'c \<Rightarrow> bool" and astep :: "'a \<Rightarrow> 'a \<Rightarrow> bool"
    and abs_of :: "'c \<Rightarrow> 'a" and cinv :: "'c \<Rightarrow> bool" and ainv :: "'a \<Rightarrow> bool"
  assumes cinv_step: "cstep s s' \<Longrightarrow> cinv s \<Longrightarrow> cinv s'"
    and ainv_step: "astep a a' \<Longrightarrow> ainv a \<Longrightarrow> ainv a'"
    and simulates: "cstep s s' \<Longrightarrow> cinv s \<Longrightarrow> ainv (abs_of s) \<Longrightarrow> astep\<^sup>*\<^sup>* (abs_of s) (abs_of s')"
begin

lemma ainv_run: "astep\<^sup>*\<^sup>* a a' \<Longrightarrow> ainv a \<Longrightarrow> ainv a'"
  by (induction rule: rtranclp_induct) (auto intro: ainv_step)

lemma run_refines:
  assumes "cstep\<^sup>*\<^sup>* s s'" "cinv s" "ainv (abs_of s)"
  shows "cinv s' \<and> ainv (abs_of s') \<and> astep\<^sup>*\<^sup>* (abs_of s) (abs_of s')"
  using assms
proof (induction rule: rtranclp_induct)
  case (step t u)
  then have t: "cinv t" "ainv (abs_of t)" "astep\<^sup>*\<^sup>* (abs_of s) (abs_of t)" by auto
  then have "astep\<^sup>*\<^sup>* (abs_of t) (abs_of u)" using simulates [OF step.hyps(2)] by blast
  with t show ?case using cinv_step [OF step.hyps(2)] ainv_run by (meson rtranclp_trans)
qed simp

lemma kept_by_runs: "cstep\<^sup>*\<^sup>* s s' \<Longrightarrow> cinv s \<Longrightarrow> ainv (abs_of s) \<Longrightarrow> ainv (abs_of s')"
  using run_refines by blast

end

section \<open>The environment\<close>

lemma view_import:
  assumes "inv_status r = InventoryStatusAvailable"
  shows "view (inventory_items_update (\<lambda>rows. rows @ [r]) s) = view s"
proof -
  have "{i. (i \<in> set rows \<or> i = r) \<and> reservedFor k i} = {i \<in> set rows. reservedFor k i}"
    "{i. (i \<in> set rows \<or> i = r) \<and> soldTo k i} = {i \<in> set rows. soldTo k i}" for rows k
    using assms by (auto simp: reservedFor_def soldTo_def)
  then show ?thesis by (simp add: view_defs fun_eq_iff disj_commute)
qed

lemma updateWhere_cong: "(\<And>x. x \<in> set rows \<Longrightarrow> p x \<Longrightarrow> f x = g x) \<Longrightarrow> updateWhere p f rows = updateWhere p g rows"
  by (simp add: updateWhere_def)

lemma view_toggle:
  assumes "\<And>i. i \<in> set (inventory_items s) \<Longrightarrow> p i \<Longrightarrow> stock_toggle i (f i)"
  shows "view (inventory_items_update (updateWhere p f) s) = view s"
proof -
  let ?rows = "inventory_items s"
  have "{inv_id i | i. i \<in> set (updateWhere p f ?rows) \<and> q i} = {inv_id i | i. i \<in> set ?rows \<and> q i}"
    if q: "\<And>i. q i \<Longrightarrow> inv_status i \<notin> {InventoryStatusAvailable, InventoryStatusDisabled}" for q
  proof -
    have "\<not> q (f i)" "\<not> q i" if "i \<in> set ?rows" "p i" for i
      using assms [OF that] q by (auto simp: stock_toggle_def)
    then show ?thesis by (fastforce simp: set_updateWhere)
  qed
  from this [of "reservedFor k" for k] this [of "soldTo k" for k]
  have "inv_id ` {i \<in> set (updateWhere p f ?rows). reservedFor k i} = inv_id ` {i \<in> set ?rows. reservedFor k i}"
    "inv_id ` {i \<in> set (updateWhere p f ?rows). soldTo k i} = inv_id ` {i \<in> set ?rows. soldTo k i}" for k
    by (auto simp: reservedFor_def soldTo_def setcompr_eq_image)
  then show ?thesis by (simp add: view_defs fun_eq_iff)
qed

lemma env_view: "env_step s s' \<Longrightarrow> view s' = view s"
proof (induction rule: env_step.induct)
  case (env_import r s x s')
  then show ?case by (auto dest!: sqlInsert_InrD simp: view_import)
next
  case (env_toggle p f s rs s')
  then have "s' = inventory_items_update (updateWhere p f) s"
    by (auto simp: updateInventory_def dest!: sqlUpdate_InrD)
  with env_toggle.hyps(2) show ?case by (simp add: view_toggle)
next
  case (env_audit r s x s')
  then show ?case by (auto dest!: sqlInsert_InrD)
qed simp_all

section \<open>Every step\<close>

lemma seen_ResolvePaymentReview: "always (seen A) (ResolvePaymentReview now rc)"
proof (rule always_seen)
  show "always (progress s0) (ResolvePaymentReview now rc)" for s0 by (intro always_intros)
  show "always (\<lambda>s. view s = A) (ResolvePaymentReview now rc)"
    unfolding ResolvePaymentReview_def
    by (rule always_WithinTransaction) (intro always_intros | simp)+
qed

lemma shop_step_refines:
  assumes "shop_step s s'" "schema s" "shop_ok (view s)"
  shows "spec_step\<^sup>*\<^sup>* (view s) (view s')"
proof -
  have s: "seen (view s) s" using assms(2) by (simp add: seen_def)
  have "advances (view s) s'"
    using assms(1)
  proof cases
    case sh_env
    then have "schema s'" "view s' = view s"
      using env_view shop_step_progress [OF assms(1,2)] by (auto simp: progress_schema)
    then show ?thesis by (simp add: advances_def)
  next
    case (sh_resolve now rc r9)
    then show ?thesis using alwaysD [OF seen_ResolvePaymentReview s] by (simp add: advances_same)
  qed (use assms(3) s in \<open>blast intro: implementsD implements_Claim implements_Release implements_Recover
      implements_Create implements_Cancel implements_Expire implements_Accept implements_ManualAccept
      implements_Balance implements_CreateTopup implements_PayOrder implements_Adjust implements_Backfill
      implements_Stale implements_ClaimJobs implements_Begin implements_Success implements_Failure
      implements_FailBeforeSend implements_Preserve implements_Retry implements_Complete\<close>)+
  then show ?thesis by (simp add: advances_def)
qed

interpretation shop_sim: simulation shop_step spec_step view schema shop_ok
proof
  show "shop_step s s' \<Longrightarrow> schema s \<Longrightarrow> schema s'" for s s'
    by (blast intro: shop_step_progress progress_schema)
qed (auto intro: spec_step_ok shop_step_refines)

lemma view_empty: "view (empty_db t) =
  \<lparr>sf_file = \<lambda>_. blank_file, sf_wallet = \<lambda>_. \<lparr>wf_balance = None, wf_ledger = 0\<rparr>,
   sf_topup = \<lambda>_. \<lparr>tf_status = None, tf_amount = 0, tf_alloc = []\<rparr>\<rparr>"
  by (simp add: view_defs empty_db_def blank_file_def allocationsOf_def trailOf_def ledgerOf_def fun_eq_iff)

lemma shop_ok_empty: "shop_ok (view (empty_db t))"
  unfolding view_empty
  by (simp add: shop_ok_def blank_file_def file_ok_def unserved_def wallet_ok_def topup_ok_def
      exclusive_def file_items_def)

lemma reachable_ok: "reachable s \<Longrightarrow> shop_ok (view s)"
  unfolding reachable_def
  using shop_sim.kept_by_runs [OF _ schema_empty shop_ok_empty] by blast

end
