(* ===== verification/Sample_Run.thy ===== *)
theory Sample_Run
  imports Shop_Refinement
begin

text \<open>
  A concrete day of the shop, run by the model inside the logic: a customer orders a key and pays by
  bank transfer, the worker delivers; in another run the customer tops the wallet up and pays from the
  balance. The states of these runs are the concrete inputs of the witnesses. Evaluation is lazy: the
  congruence rules keep the simplifier out of a continuation until its argument is known, and
  each state is evaluated once, from the value of the one before.
\<close>

section \<open>The cast\<close>

definition demo_item :: "int64 \<Rightarrow> inventory_row" where
  "demo_item k = \<lparr>inv_id = k, inv_product_id = 1, inv_encrypted_payload = replicate 16 (CHR ''x''),
     inv_encryption_key_id = ''inventory-v1'',
     inv_encryption_nonce = replicate 12 (CHR ''n''), inv_encryption_format = ''aes-256-gcm-v1'',
     inv_encryption_key_version = 1, inv_payload_fingerprint = replicate 31 (CHR ''f'') @ intText k,
     inv_imported_by_admin_id = Some 1,
     inv_status = InventoryStatusAvailable, inv_reserved_order_id = None, inv_reserved_until = None,
     inv_sold_order_id = None, inv_disabled_reason = None, inv_version = 1, inv_created_at = k\<rparr>"

definition demo_receipt :: "int64 \<Rightarrow> receipt_row" where
  "demo_receipt u = \<lparr>rcp_update_id = u, rcp_update_type = ''message'', rcp_status = ''processing'',
     rcp_attempts = 1, rcp_processing_started_at = Some 1, rcp_processed_at = None, rcp_last_error = None\<rparr>"

definition demo_meta :: "int64 \<Rightarrow> RequestMeta" where
  "demo_meta u = \<lparr>RequestID = ''req'', UpdateID = u\<rparr>"

definition demo_catalog :: "db \<Rightarrow> db" where
  "demo_catalog s = s\<lparr>
     users := [\<lparr>usr_id = 1, usr_telegram_user_id = 77, usr_username = None, usr_display_name = None,
       usr_status = UserStatusActive\<rparr>],
     admins := [\<lparr>adm_id = 1, adm_user_id = 1, adm_role = ''owner'', adm_is_active = True\<rparr>],
     categories := [\<lparr>cat_id = 1, cat_name = ''Games'', cat_slug = ''games'', cat_emoji = ''*'', cat_sort_order = 0,
       cat_is_active = True, cat_version = 1\<rparr>],
     products := [\<lparr>prd_id = 1, prd_category_id = 1, prd_name = ''Key'', prd_slug = ''key'',
       prd_description = None, prd_price_vnd = 50000, prd_delivery_type = ''inventory'', prd_contact_url = None,
       prd_is_active = True, prd_version = 1, prd_created_at = 0\<rparr>],
     bank_accounts := [\<lparr>bnk_id = 1, bnk_bank_bin = ''970436'', bnk_bank_name = ''VCB'',
       bnk_account_name = ''SHOP'', bnk_display_name = ''Main'', bnk_encrypted_account_number = replicate 20 (CHR ''x''),
       bnk_account_number_fingerprint = replicate 32 (CHR ''f''), bnk_encryption_key_id = ''bank-v1'',
       bnk_encryption_nonce = replicate 12 (CHR ''n''), bnk_encryption_format = ''aes-256-gcm-v1'',
       bnk_encryption_key_version = 1, bnk_display_last4 = ''1234'', bnk_sort_order = 0, bnk_is_active = True,
       bnk_version = 1, bnk_payment_environment = ''production'', bnk_created_at = 0\<rparr>],
     provider_accounts := [], checkpoints := [], clock := 1000\<rparr>"

definition demo_import :: "int64 \<Rightarrow> db \<Rightarrow> db" where
  "demo_import k s = snd (sqlInsert inventory_items inventory_items_update inventory_ck inventory_uq
     (demo_item k) s)"

definition demo_order :: "int64 \<Rightarrow> string \<Rightarrow> CreateOrderCommand" where
  "demo_order u key = \<lparr>coc_TelegramUserID = 77, coc_ProductID = 1, coc_BankAccountID = 1, coc_Quantity = 1,
     coc_IdempotencyKey = key, coc_Meta = demo_meta u\<rparr>"

definition demo_config :: order_config where
  "demo_config = \<lparr>oc_expiry = 900, oc_maxQuantity = 10, oc_pageSize = 5, oc_paymentEnvironment = ''production''\<rparr>"

definition demo_transfer :: "string \<Rightarrow> string \<Rightarrow> Money \<Rightarrow> AcceptPaymentCommand" where
  "demo_transfer tx ref amt = \<lparr>apc_PaymentEventID = 0, apc_Provider = ''sepay'', apc_ExternalEventID = tx,
     apc_ProviderTransactionID = tx, apc_Reference = ref, apc_Amount = amt, apc_Currency = ''VND'',
     apc_OccurredAt = 1200, apc_Actor = \<lparr>Actor_Type = ''provider'', Actor_ID = 0\<rparr>, apc_RequestID = ''r'',
     apc_Environment = ''production'', apc_Source = ''webhook'', apc_ProviderAccountMappingID = 0,
     apc_LocalBankAccountID = 0, apc_DestinationAccountID = []\<rparr>"

definition create_at :: "int64 \<Rightarrow> string \<Rightarrow> string \<Rightarrow> db \<Rightarrow> db" where
  "create_at u key ref s = snd (OrderService_Create (\<lambda>_. Inr ref) (\<lambda>_. Inr () :: error + unit) demo_config
     1000 (demo_order u key) s)"

definition accept_at :: "string \<Rightarrow> string \<Rightarrow> Money \<Rightarrow> db \<Rightarrow> db" where
  "accept_at tx ref amt s = snd (PaymentAcceptanceService_Accept (\<lambda>_. False) 600 5 1300 (demo_transfer tx ref amt) s)"

definition demo_success :: DeliverySuccess where
  "demo_success = \<lparr>dsc_Result = \<lparr>dsr_ChatID = 77, dsr_MessageID = 9, dsr_SentAt = 1500\<rparr>, dsc_CompletedAt = 1501\<rparr>"

section \<open>Delivered\<close>

definition d_stocked :: db where
  "d_stocked = (demo_import 1 (demo_catalog (empty_db 1000)))\<lparr>update_receipts := [demo_receipt 1],
     admin_sessions := []\<rparr>"

definition d_ordered :: db where
  "d_ordered = create_at 1 ''k1'' ''REF1'' d_stocked"

definition d_paid :: db where
  "d_paid = accept_at ''tx1'' ''REF1'' 50000 d_ordered"

definition d_claimed :: db where
  "d_claimed = snd (ClaimDeliveryJobs (\<lambda>_. False) 1400 ''w'' 10 d_paid)"

definition d_sending :: db where
  "d_sending = snd (BeginDeliveryAttempt 1 ''w'' 1450 d_claimed)"

definition d_delivered :: db where
  "d_delivered = snd (FinalizeDeliverySuccess 1 ''w'' demo_success d_sending)"

section \<open>Paid from the wallet\<close>

definition demo_topup :: CreateWalletTopupCommand where
  "demo_topup = \<lparr>cwt_TelegramUserID = 77, cwt_Amount = 80000, cwt_BankAccountID = 1,
     cwt_IdempotencyKey = ''t1'', cwt_Meta = demo_meta 2, cwt_PaymentEnvironment = []\<rparr>"

definition demo_wallet_payment :: WalletOrderPaymentCommand where
  "demo_wallet_payment = \<lparr>wop_TelegramUserID = 77, wop_OrderID = 1, wop_IdempotencyKey = ''w1'',
     wop_Meta = demo_meta 3\<rparr>"

definition w_desk :: db where
  "w_desk = d_ordered\<lparr>update_receipts := [demo_receipt 2, demo_receipt 3], admin_sessions := []\<rparr>"

definition w_requested :: db where
  "w_requested = snd (WalletService_CreateTopup 10000 1000000 900 ''production'' (Inr ''TOP1'')
     (\<lambda>_. Inr () :: error + unit) 1100 demo_topup w_desk)"

definition w_credited :: db where
  "w_credited = accept_at ''tx2'' ''TOP1'' 80000 w_requested"

definition w_settled :: db where
  "w_settled = snd (WalletService_PayOrder (\<lambda>_. False) 600 5 1400 demo_wallet_payment w_credited)"

section \<open>Reachability\<close>

lemma step_reachable: "reachable s \<Longrightarrow> (\<And>r s'. h s = (r, s') \<Longrightarrow> shop_step s s') \<Longrightarrow> reachable (snd (h s))"
  by (metis reachable_step prod.collapse)

lemma d_stocked_reachable: "reachable d_stocked"
proof -
  have "reachable (empty_db 1000)" unfolding reachable_def by blast
  then have "reachable (demo_catalog (empty_db 1000))"
    unfolding demo_catalog_def by (rule reachable_step) (rule sh_env, rule env_catalog)
  moreover have "sqlInsert inventory_items inventory_items_update inventory_ck inventory_uq (demo_item 1)
      (demo_catalog (empty_db 1000)) = (Inr (demo_item 1), demo_import 1 (demo_catalog (empty_db 1000)))"
    by (simp add: demo_import_def sqlInsert_def demo_catalog_def empty_db_def)
      (code_simp)
  then have "shop_step (demo_catalog (empty_db 1000)) (demo_import 1 (demo_catalog (empty_db 1000)))"
    by (rule sh_env [OF env_import]) (simp add: demo_item_def)
  ultimately have "reachable (demo_import 1 (demo_catalog (empty_db 1000)))" by (rule reachable_step)
  then show ?thesis unfolding d_stocked_def by (rule reachable_step) (rule sh_env, rule env_desk)
qed

lemma create_at_reachable: "reachable s \<Longrightarrow> reachable (create_at u key ref s)"
  unfolding create_at_def by (rule step_reachable) (auto intro: sh_create)

lemma accept_at_reachable: "reachable s \<Longrightarrow> reachable (accept_at tx ref amt s)"
  unfolding accept_at_def by (rule step_reachable) (auto intro: sh_accept)

lemma d_ordered_reachable: "reachable d_ordered"
  unfolding d_ordered_def by (rule create_at_reachable [OF d_stocked_reachable])

lemma d_paid_reachable: "reachable d_paid"
  unfolding d_paid_def by (rule accept_at_reachable [OF d_ordered_reachable])

lemma d_claimed_reachable: "reachable d_claimed"
  unfolding d_claimed_def by (rule step_reachable [OF d_paid_reachable]) (rule sh_jobs)

lemma d_sending_reachable: "reachable d_sending"
  unfolding d_sending_def by (rule step_reachable [OF d_claimed_reachable]) (rule sh_begin)

lemma d_delivered_reachable: "reachable d_delivered"
  unfolding d_delivered_def by (rule step_reachable [OF d_sending_reachable]) (rule sh_success)

lemma w_desk_reachable: "reachable w_desk"
  unfolding w_desk_def by (rule reachable_step [OF d_ordered_reachable]) (rule sh_env, rule env_desk)

lemma w_requested_reachable: "reachable w_requested"
  unfolding w_requested_def by (rule step_reachable [OF w_desk_reachable]) (rule sh_topup)

lemma w_credited_reachable: "reachable w_credited"
  unfolding w_credited_def by (rule accept_at_reachable [OF w_requested_reachable])

lemma w_settled_reachable: "reachable w_settled"
  unfolding w_settled_def by (rule step_reachable [OF w_credited_reachable]) (rule sh_pay)

section \<open>Evaluation\<close>

lemma lazy_congs:
  "bindE m f = bindE m f" "attempt m = attempt m" "mapErrE g m = mapErrE g m" "noRows e m = noRows e m"
  "WithinTransaction n = WithinTransaction n" "one k = one k"
  by (rule refl)+

lemma attempt_run: "attempt m s = (case m s of (r, s') \<Rightarrow> (Inr r, s'))"
  by (simp add: attempt_def)

lemma tx_run: "WithinTransaction fn s =
  (case fn s of (Inr x, s') \<Rightarrow> (Inr x, s') | (Inl e, s') \<Rightarrow> (Inl e, s\<lparr>seqs := seqs s'\<rparr>))"
  by (simp add: WithinTransaction_def)

lemma digitChar_eval:
  "digitChar 0 = CHR ''0''" "digitChar (Suc 0) = CHR ''1''" "digitChar 2 = CHR ''2''"
  "digitChar 3 = CHR ''3''" "digitChar 4 = CHR ''4''" "digitChar 5 = CHR ''5''"
  "digitChar 6 = CHR ''6''" "digitChar 7 = CHR ''7''" "digitChar 8 = CHR ''8''"
  "digitChar 9 = CHR ''9''"
  by code_simp+

lemma eight: "(8 :: nat) = Suc 7"
  by simp

lemmas createLoop_8 = createLoop.simps(2) [of 7, folded eight]

lemmas run_defs = Let_def bindE_app attempt_run tx_run mapErrE_app noRows_app digitChar_eval createLoop_8
  natText.simps trimLeftWith.simps empty_db_def demo_import_def demo_catalog_def demo_item_def
  demo_receipt_def demo_meta_def demo_order_def demo_config_def demo_transfer_def create_at_def
  accept_at_def demo_success_def demo_topup_def demo_wallet_payment_def
  AcceptPayment_def AcceptsAmount_def BeginDeliveryAttempt_def BeginDeliverySend_def
  ClaimDeliveryJobs_def ClaimDeliveryJobs_query_def ClaimExactAvailableInventory_def
  CompletePaymentEvent_def CompleteTelegramUpdateReceipt_def CountClaimableInventoryForOrder_def
  CountExactReservedInventoryForOrder_def CountPaymentReferenceTargets_def
  CreatePendingOrderWithBank_def CreateWalletTopup_def CreateWalletTopup_query_def
  DefaultDeliveryMaxAttempts_def DeliveryJobStatus_IsValid_def EnsureWalletAccount_def
  FinalizeDeliverySuccess_def FindOrderByUserIdempotency_def FindWalletTopupByIdempotency_def
  GetActiveBankAccountForOrder_def GetDeliveryJobByOrder_def GetPaymentAllocation_def
  GetPaymentByProviderTransaction_def GetProductForOrderCreation_def InsertAuditLog_def
  InsertDeliveryAttemptEvent_def InsertDeliveryJob_def InsertOrderHistory_def
  InsertOrderInventoryMapping_def InsertOrderItem_def InsertOrderStatusHistory_def
  InsertPayment_def InsertPaymentAllocation_def InsertPaymentReviewCase_def
  InsertPendingOrder_def InsertWalletLedgerEntry_def LockDeliveryJob_def
  LockOrderByPaymentReference_def LockOrderDetailOwnedByTelegramUser_def
  LockOrderForDeliveryHandoff_def LockPaymentEvent_def LockUserByTelegramID_def
  LockUserForOrderCreation_def LockWalletAccount_def LockWalletTopupByReference_def
  MarkDeliveryCompleted_def MarkExactReservedInventorySold_def MarkOrderDeliveredGuarded_def
  MarkOrderDeliveringGuarded_def MarkOrderPaidGuarded_def MarkWalletTopupCredited_def
  MarkWalletTopupReview_def MaxInt32_def MaxInt64_def MinInt64_def Money_Multiply_def
  OrderService_Create_def OrderStatus_IsValid_def PayOrderWithWallet_def
  PaymentAcceptanceService_Accept_def PaymentStatus_IsValid_def TrimSpace_def
  UpdateOrderStatusGuarded_def UpdateWalletBalance_def WalletEntryType_IsValid_def
  WalletService_CreateTopup_def WalletService_PayOrder_def acceptOrderPayment_def
  acceptPaymentWithinTransaction_def acceptWalletTopupPayment_def activeJob_def
  activeMapping_def actor_type_ck_def allocation_ck_def allocation_uq_def attempt_ck_def
  attempt_uq_def audit_ck_def bankSnapshot_def claimable_def completePaymentEvent_def
  completeReceipt_def configuredDeliveryMaxAttempts_def
  createDeliveryHandoffWithinTransaction_def createOrderTx_def
  deliveryEvent_def deliveryRequestID_def durationSeconds_def environment_ck_def event_ck_def
  event_uq_def exactReserved_def findExisting_def firstItem_def fulfilConfirmedOrder_def
  go_div_def handleExistingPayment_def history_ck_def insertDeliveryAttempt_def
  insertDeliveryAudit_def insertOrderPayment_def insertPaymentAudit_def
  insertPaymentOrderHistory_def int8Or_def intText_def inventory_ck_def inventory_uq_def
  isDigitChar_def is_int64_def itemsOf_def jobClaimable_def job_active_uq_def job_ck_def
  job_uq_def ledger_ck_def ledger_uq_def lockActiveUser_def lockedStage_def lowerChar_def
  mapConstraintError_def mapMoneyError_def mapOrder_def mapOrderItem_def mapWalletError_def
  mapping_ck_def mapping_uq_def newReview_def nextId_def noFailure_def noItem_def noResult_def
  noSnapshot_def normalizeCommand_def notBlank_def one_def optNotBlank_def optionalInt4_def
  optionalInt8_def optionalText_def orderDestinationMismatch_def orderReviewReason_def
  order_ck_def order_item_ck_def order_uq_def payment_ck_def payment_tx_uq_def payment_uq_def
  processingStage_def receipt_ck_def recordPaymentReview_def
  recordTopupReview_def reserveItem_def resolvePaymentTarget_def reviewParams_def review_ck_def
  review_event_uq_def review_uq_def selectedItems_def snapshot_ck_def sqlInsert_def
  sqlInsertIgnore_def sqlSelect_def sqlSelectOne_def sqlUpdate_def textOr_def
  topupReviewReason_def topup_ck_def topup_uq_def unlockJob_def updateEvents_def
  updateInventory_def updateJobs_def updateOrders_def updateTopups_def updateWhere_def
  validPaymentEnvironment_def walletSettleOrder_def wallet_ck_def wallet_uq_def
  whiteSpaceRunes_def wrap64_def paymentReferenceAttempts_def

declare run_defs [simp]
declare lazy_congs [cong]

lemmas d_stocked_eval [simp] = d_stocked_def [simplified]

lemmas d_ordered_eval [simp] = d_ordered_def [simplified]

lemmas d_paid_eval [simp] = d_paid_def [simplified]

lemmas d_claimed_eval [simp] = d_claimed_def [simplified]

lemmas d_sending_eval [simp] = d_sending_def [simplified]

lemmas d_delivered_eval [simp] = d_delivered_def [simplified]

lemmas w_desk_eval [simp] = w_desk_def [simplified]

lemmas w_requested_eval [simp] = w_requested_def [simplified]

lemmas w_credited_eval [simp] = w_credited_def [simplified]

lemmas w_settled_eval [simp] = w_settled_def [simplified]

declare run_defs [simp del]
declare lazy_congs [cong del]

lemma d_delivered_rows:
  "map ord_status (orders d_delivered) = [OrderStatusDelivered]"
  "map job_status (outbox_events d_delivered) = [DeliveryJobCompleted]"
  "map inv_status (inventory_items d_delivered) = [InventoryStatusSold]"
  by simp_all

lemma w_settled_rows:
  "map ord_status (orders w_settled) = [OrderStatusDelivering]"
  "map wal_balance_vnd (wallet_accounts w_settled) = [30000]"
  "map led_amount_vnd (wallet_ledger w_settled) = [80000, -50000]"
  by simp_all

declare d_stocked_eval [simp del] d_ordered_eval [simp del] d_paid_eval [simp del]
declare d_claimed_eval [simp del] d_sending_eval [simp del] d_delivered_eval [simp del]
declare w_desk_eval [simp del] w_requested_eval [simp del] w_credited_eval [simp del] w_settled_eval [simp del]

end
