(* ===== verification/Sample_Outcomes.thy ===== *)
theory Sample_Outcomes
  imports Sample_Run
begin

text \<open>
  More of the concrete day: what the entry points answered in the sample runs, and runs that end
  otherwise: a cancelled and an expired order, a payment that is reported twice, a delivery whose outcome is
  unknown and that an administrator completes.
\<close>

definition demo_cancel :: CancelOrderCommand where
  "demo_cancel = \<lparr>cac_TelegramUserID = 77, cac_OrderID = 1, cac_ExpectedVersion = 1, cac_Meta = demo_meta 2\<rparr>"

definition demo_unknown :: DeliveryFailure where
  "demo_unknown = noFailure\<lparr>df_Class := DeliveryResultAmbiguous, df_Code := ''timeout'',
     df_Summary := ''timeout'', df_FailedAt := 1500\<rparr>"

definition demo_session :: session_row where
  "demo_session = \<lparr>ses_id = 1, ses_admin_id = 1, ses_state = ''delivery.complete'', ses_payload = [],
     ses_expires_at = 9000, ses_version = 1\<rparr>"

definition demo_resolution :: DeliveryResolutionCommand where
  "demo_resolution = \<lparr>drc_AdminTelegramID = 77, drc_JobID = 1, drc_ExpectedVersion = 4, drc_TelegramMessageID = 9,
     drc_Reason = ''seen'', drc_Session = demo_session, drc_Meta = demo_meta 4\<rparr>"

text \<open>A customer who asks for ten keys when one is in stock.\<close>

definition greedy_order :: CreateOrderCommand where
  "greedy_order = (demo_order 1 ''k1'')\<lparr>coc_Quantity := 10\<rparr>"

definition c_cancelled :: db where
  "c_cancelled = snd (OrderService_Cancel 1100 demo_cancel w_desk)"

definition c_expired :: db where
  "c_expired = snd (OrderExpiryService_RunOnce (\<lambda>_. False) 10 5000 d_ordered)"

definition d_twice :: db where
  "d_twice = accept_at ''tx1'' ''REF1'' 50000 d_paid"

definition m_unknown :: db where
  "m_unknown = snd (FinalizeDeliveryFailure 1 ''w'' demo_unknown d_sending)"

definition m_desk :: db where
  "m_desk = m_unknown\<lparr>update_receipts := [demo_receipt 4], admin_sessions := [demo_session]\<rparr>"

definition m_completed :: db where
  "m_completed = snd (DeliveryAdminService_Complete 2000 demo_resolution m_desk)"

section \<open>Reachability\<close>

lemma c_cancelled_reachable: "reachable c_cancelled"
  unfolding c_cancelled_def by (rule step_reachable [OF w_desk_reachable]) (rule sh_cancel)

lemma c_expired_reachable: "reachable c_expired"
  unfolding c_expired_def by (rule step_reachable [OF d_ordered_reachable]) (rule sh_expire)

lemma d_twice_reachable: "reachable d_twice"
  unfolding d_twice_def by (rule accept_at_reachable [OF d_paid_reachable])

lemma m_unknown_reachable: "reachable m_unknown"
  unfolding m_unknown_def by (rule step_reachable [OF d_sending_reachable]) (rule sh_failure)

lemma m_desk_reachable: "reachable m_desk"
  unfolding m_desk_def by (rule reachable_step [OF m_unknown_reachable]) (rule sh_env, rule env_desk)

lemma m_completed_reachable: "reachable m_completed"
  unfolding m_completed_def by (rule step_reachable [OF m_desk_reachable]) (rule sh_complete)

section \<open>Evaluation\<close>

lemmas outcome_defs = runeLen_def nextIn_def runeCount.simps demo_cancel_def demo_unknown_def demo_session_def demo_resolution_def
  CanManageCatalog_def CanOpenAdmin_def CancelPendingOrderOwnedGuarded_def
  ClaimOverduePendingOrders_def CompleteDelivery_def DeliveryAdminService_Complete_def
  ExpireOverdueOrders_def FinalizeDeliveryFailure_def FinishAdminSessionGuarded_def
  GetAdminAuthorizationByTelegramID_def LockAdminSessionByID_def ManualCompleteDeliveryJob_def
  MarkDeliveryAmbiguous_def MarkDeliveryPermanentFailed_def MarkDeliveryRetryable_def
  MarkOrderDeliveryFailedGuarded_def OrderExpiryService_RunOnce_def OrderService_Cancel_def
  ValidateCustomerOrderTransition_def authorizePaymentAdmin_def byteIn_def cancelOrderTx_def
  deliveryReviewFromJob_def expiryHistory_def failureAttemptStatus_def finishSession_def
  insertManualDeliveryAudit_def lockAndVerifySession_def mapAdmin_def mapLockedOrderDetail_def
  markOrderDeliveryFailed_def noSendResult_def overdue_def overdueIds_def session_ck_def
  session_uq_def

declare run_defs [simp] outcome_defs [simp]
declare lazy_congs [cong]
declare d_stocked_eval [simp] d_ordered_eval [simp] d_paid_eval [simp]
declare d_claimed_eval [simp] d_sending_eval [simp]
declare w_desk_eval [simp] w_requested_eval [simp] w_credited_eval [simp]

lemmas c_cancelled_eval [simp] = c_cancelled_def [simplified]

lemmas c_expired_eval [simp] = c_expired_def [simplified]

lemmas d_twice_eval [simp] = d_twice_def [simplified]

lemmas m_unknown_eval [simp] = m_unknown_def [simplified]

lemmas m_desk_eval [simp] = m_desk_def [simplified]

lemmas m_completed_eval [simp] = m_completed_def [simplified]

lemma sample_rows:
  "map ord_status (orders c_cancelled) = [OrderStatusCancelled]"
  "map ord_status (orders c_expired) = [OrderStatusExpired]"
  "map pay_amount_vnd (payments d_twice) = [50000]"
  "map job_status (outbox_events m_unknown) = [DeliveryJobAmbiguous]"
  "map job_status (outbox_events m_completed) = [DeliveryJobCompleted]"
  "map ord_status (orders m_completed) = [OrderStatusDelivered]"
  by simp_all

section \<open>Answers\<close>

lemma order_answer:
  "\<exists>od. fst (OrderService_Create (\<lambda>_. Inr ''REF1'') (\<lambda>_. Inr () :: error + unit) demo_config 1000
     (demo_order 1 ''k1'') d_stocked) = Inr (od, False, ()) \<and> od_ID od = 1 \<and> od_Total od = 50000"
  by simp

lemma greedy_answer:
  "fst (OrderService_Create (\<lambda>_. Inr ''REF1'') (\<lambda>_. Inr () :: error + unit) demo_config 1000
     greedy_order d_stocked) = Inl ErrInsufficientInventory"
  by (simp add: greedy_order_def)

lemma paid_answer:
  "\<exists>r. fst (PaymentAcceptanceService_Accept (\<lambda>_. False) 600 5 1300 (demo_transfer ''tx1'' ''REF1'' 50000) d_ordered) = Inr r \<and>
     par_Decision r = ''accepted'' \<and> par_OrderID r = 1"
  by simp

lemma twice_answer:
  "\<exists>r. fst (PaymentAcceptanceService_Accept (\<lambda>_. False) 600 5 1300 (demo_transfer ''tx1'' ''REF1'' 50000) d_paid) = Inr r \<and>
     par_Decision r = ''duplicate''"
  by simp

lemma wallet_answer:
  "\<exists>r. fst (WalletService_PayOrder (\<lambda>_. False) 600 5 1400 demo_wallet_payment w_credited) = Inr r \<and>
     \<not> wor_Duplicate r \<and> wor_Balance r = 30000"
  by simp

lemma cancel_answer: "\<exists>od. fst (OrderService_Cancel 1100 demo_cancel w_desk) = Inr (od, False)"
  by simp

lemma expire_answer: "fst (OrderExpiryService_RunOnce (\<lambda>_. False) 10 5000 d_ordered) = Inr 1"
  by simp

lemma late_cancel_answer: "fst (OrderService_Cancel 5000 demo_cancel w_desk) = Inl ErrOrderExpired"
  by simp

lemma claim_answer: "\<exists>j. fst (ClaimDeliveryJobs (\<lambda>_. False) 1400 ''w'' 10 d_paid) = Inr [j]"
  by simp

lemma success_answer: "fst (FinalizeDeliverySuccess 1 ''w'' demo_success d_sending) = Inr ()"
  by simp

lemma complete_answer: "\<exists>r. fst (DeliveryAdminService_Complete 2000 demo_resolution m_desk) = Inr r"
  by simp

declare run_defs [simp del] outcome_defs [simp del]
declare lazy_congs [cong del]
declare d_stocked_eval [simp del] d_ordered_eval [simp del] d_paid_eval [simp del]
declare d_claimed_eval [simp del] d_sending_eval [simp del]
declare w_desk_eval [simp del] w_requested_eval [simp del] w_credited_eval [simp del]
declare c_cancelled_eval [simp del] c_expired_eval [simp del] d_twice_eval [simp del]
declare m_unknown_eval [simp del] m_desk_eval [simp del] m_completed_eval [simp del]

end
