(* ===== verification/Reconciliation.thy ===== *)
theory Reconciliation
  imports Shop_Refinement
begin

text \<open>
  The reconciliation reports: \<open>internal/app/reconciliation_service.go\<close> over
  \<open>internal/postgres/reconciliation_store.go\<close> and the two generated queries that count
  anomalies. The program runs them to find out whether its own state is consistent; here the
  counts are proved to be zero in every state the program can reach.
\<close>

section \<open>Queries\<close>

record DeliveryReconciliation =
  DeliveringWithoutJob :: int64
  ActiveJobWrongOrderState :: int64
  CompletedJobOrderNotDelivered :: int64
  DeliveredInventoryMismatch :: int64
  SoldWithoutCompletedJob :: int64
  DeliveredOrderReservedInventory :: int64
  MultipleActiveJobs :: int64
  StaleProcessing :: int64
  AmbiguousWithoutReview :: int64
  SuccessEvidenceNotCompleted :: int64

definition countRows :: "('r \<Rightarrow> bool) \<Rightarrow> 'r list \<Rightarrow> int" where
  "countRows p rows = int (length (filter p rows))"

definition deliveryJobs :: "db \<Rightarrow> job_row list" where
  "deliveryJobs s = filter (\<lambda>j. job_event_type j = deliveryEvent) (outbox_events s)"

definition CountDeliveryReconciliationAnomalies :: "time \<Rightarrow> DeliveryReconciliation dbtx" where
  "CountDeliveryReconciliationAnomalies stale_before = askE (\<lambda>s.
     \<lparr>DeliveringWithoutJob = countRows (\<lambda>o'. ord_status o' = OrderStatusDelivering \<and>
        \<not> (\<exists>j \<in> set (deliveryJobs s). job_delivery_order_id j = Some (ord_id o'))) (orders s),
      ActiveJobWrongOrderState = countRows (\<lambda>(j, o').
        job_status j \<in> {DeliveryJobPending, DeliveryJobProcessing, DeliveryJobRetryableFailed} \<and>
        ord_status o' \<noteq> OrderStatusDelivering)
        [(j, o'). j \<leftarrow> deliveryJobs s, o' \<leftarrow> orders s, job_delivery_order_id j = Some (ord_id o')],
      CompletedJobOrderNotDelivered = countRows (\<lambda>(j, o').
        job_status j = DeliveryJobCompleted \<and> ord_status o' \<noteq> OrderStatusDelivered)
        [(j, o'). j \<leftarrow> deliveryJobs s, o' \<leftarrow> orders s, job_delivery_order_id j = Some (ord_id o')],
      DeliveredInventoryMismatch = countRows (\<lambda>o'. ord_status o' = OrderStatusDelivered \<and>
        countRows (\<lambda>i. inv_sold_order_id i = Some (ord_id o') \<and> inv_status i = InventoryStatusSold)
          (inventory_items s) \<noteq>
        sum_list (map oit_quantity (filter (\<lambda>it. oit_order_id it = ord_id o') (order_items s)))) (orders s),
      SoldWithoutCompletedJob = countRows (\<lambda>i. inv_status i = InventoryStatusSold \<and>
        \<not> (\<exists>j \<in> set (deliveryJobs s). job_delivery_order_id j \<noteq> None \<and>
             job_delivery_order_id j = inv_sold_order_id i \<and> job_status j = DeliveryJobCompleted))
        (inventory_items s),
      DeliveredOrderReservedInventory = countRows (\<lambda>(i, o').
        inv_status i = InventoryStatusReserved \<and> ord_status o' = OrderStatusDelivered)
        [(i, o'). i \<leftarrow> inventory_items s, o' \<leftarrow> orders s, inv_reserved_order_id i = Some (ord_id o')],
      MultipleActiveJobs = (let active = filter (\<lambda>j. activeJob (job_status j)) (deliveryJobs s) in
        countRows (\<lambda>k. countRows (\<lambda>j. job_delivery_order_id j = k) active > 1)
          (remdups (map job_delivery_order_id active))),
      StaleProcessing = countRows (\<lambda>j. job_status j = DeliveryJobProcessing \<and>
        (case job_locked_at j of None \<Rightarrow> False | Some t \<Rightarrow> t < stale_before)) (deliveryJobs s),
      AmbiguousWithoutReview = countRows (\<lambda>j. job_status j = DeliveryJobAmbiguous \<and>
        job_manual_resolution j = None) (deliveryJobs s),
      SuccessEvidenceNotCompleted = countRows (\<lambda>(a, j).
        att_status a = ''succeeded'' \<and> att_telegram_message_id a \<noteq> None \<and>
        job_status j \<noteq> DeliveryJobCompleted)
        [(a, j). a \<leftarrow> delivery_attempts s, j \<leftarrow> outbox_events s, att_delivery_job_id a = Some (job_id j)]\<rparr>)"

definition DeliveryReconciliation_Clean :: "DeliveryReconciliation \<Rightarrow> bool" where
  "DeliveryReconciliation_Clean r \<longleftrightarrow>
     DeliveringWithoutJob r = 0 \<and> ActiveJobWrongOrderState r = 0 \<and>
     CompletedJobOrderNotDelivered r = 0 \<and> DeliveredInventoryMismatch r = 0 \<and>
     SoldWithoutCompletedJob r = 0 \<and> DeliveredOrderReservedInventory r = 0 \<and>
     MultipleActiveJobs r = 0 \<and> StaleProcessing r = 0 \<and>
     AmbiguousWithoutReview r = 0 \<and> SuccessEvidenceNotCompleted r = 0"

record FinancialReconciliation =
  CompletedEventsWithoutPayment :: int64
  ConfirmedPaymentsWithoutOutcome :: int64
  WalletBalanceMismatches :: int64
  ReservationCountMismatches :: int64
  ReviewCasesWithoutReason :: int64

definition GetFinancialReconciliation :: "FinancialReconciliation dbtx" where
  "GetFinancialReconciliation = askE (\<lambda>s.
     \<lparr>CompletedEventsWithoutPayment = countRows (\<lambda>e. evt_processing_status e = ''completed'' \<and>
        evt_provider_transaction_id e \<noteq> None \<and>
        \<not> (\<exists>p \<in> set (payments s). pay_provider p = evt_provider e \<and>
             pay_provider_transaction_id p = evt_provider_transaction_id e)) (payment_events s),
      ConfirmedPaymentsWithoutOutcome = countRows (\<lambda>p. pay_status p = PaymentStatusConfirmed \<and>
        \<not> (\<exists>a \<in> set (payment_allocations s). alc_payment_id a = pay_id p) \<and>
        \<not> (\<exists>r \<in> set (payment_reviews s). rev_payment_id r = Some (pay_id p) \<and>
             rev_status r \<in> {''open'', ''held''})) (payments s),
      WalletBalanceMismatches = countRows (\<lambda>w. wal_balance_vnd w \<noteq>
        sum_list (map led_amount_vnd (filter (\<lambda>l. led_account_id l = wal_id w) (wallet_ledger s))))
        (wallet_accounts s),
      ReservationCountMismatches = countRows (\<lambda>o'. ord_status o' = OrderStatusReserving \<and>
        sum_list (map oit_quantity (filter (\<lambda>it. oit_order_id it = ord_id o') (order_items s))) \<noteq>
        countRows (\<lambda>m. map_order_id m = ord_id o' \<and> map_status m = ''active'') (order_inventory s)) (orders s),
      ReviewCasesWithoutReason = countRows (\<lambda>r. \<not> notBlank (rev_reason r)) (payment_reviews s)\<rparr>)"

definition FinancialReconciliation_Clean :: "FinancialReconciliation \<Rightarrow> bool" where
  "FinancialReconciliation_Clean r \<longleftrightarrow>
     CompletedEventsWithoutPayment r = 0 \<and> ConfirmedPaymentsWithoutOutcome r = 0 \<and>
     WalletBalanceMismatches r = 0 \<and> ReservationCountMismatches r = 0 \<and> ReviewCasesWithoutReason r = 0"

definition ReconciliationService_Run :: "FinancialReconciliation dbtx" where
  "ReconciliationService_Run = GetFinancialReconciliation"

text \<open>The zero time stands for Go's zero \<open>time.Time\<close>.\<close>

definition ReconciliationService_RunDelivery :: "time \<Rightarrow> DeliveryReconciliation dbtx" where
  "ReconciliationService_RunDelivery staleBefore =
     (if staleBefore = 0 then throwE ErrInvalidInput
      else CountDeliveryReconciliationAnomalies staleBefore)"

section \<open>What the invariant says of rows\<close>

lemma countRows_0: "countRows p rows = 0 \<longleftrightarrow> (\<forall>r \<in> set rows. \<not> p r)"
  by (auto simp: countRows_def filter_empty_conv)

lemma order_file:
  assumes "reachable s" "x \<in> set (orders s)"
  shows "cf_status (fileOf s (ord_id x)) = Some (ord_status x)" "file_ok (fileOf s (ord_id x))"
  using view_status [OF reachable_schema [OF assms(1)] assms(2)] shop_file [OF reachable_ok [OF assms(1)]]
  by (simp_all add: view_def)

lemma any_file: "reachable s \<Longrightarrow> file_ok (fileOf s k)"
  using shop_file [OF reachable_ok] by (simp add: view_def)

lemma job_file:
  assumes "reachable s" "j \<in> set (deliveryJobs s)" "job_delivery_order_id j = Some k"
  shows "cf_job (fileOf s k) = Some (job_id j, job_status j)"
  using view_job [OF reachable_schema [OF assms(1)], of j k] assms(2,3)
  by (auto simp: view_def deliveryJobs_def deliveryJob_def)

lemma file_job_row:
  assumes "cf_job (fileOf s k) = Some (jid, st)"
  obtains j where "j \<in> set (deliveryJobs s)" "job_delivery_order_id j = Some k" "job_status j = st"
  using view_jobD [of s k jid st] assms by (auto simp: view_def deliveryJobs_def deliveryJob_def)

lemma active_job_delivering:
  "file_ok f \<Longrightarrow> cf_job f = Some (jid, j) \<Longrightarrow> activeJob j \<Longrightarrow> cf_status f = Some OrderStatusDelivering"
  by (auto simp: file_defs activeJob_def split: option.splits OrderStatus.splits)

lemma completed_job_delivered:
  "file_ok f \<Longrightarrow> cf_job f = Some (jid, DeliveryJobCompleted) \<Longrightarrow> cf_status f = Some OrderStatusDelivered"
  by (auto simp: file_defs activeJob_def split: option.splits OrderStatus.splits)

lemma sold_delivered:
  "file_ok f \<Longrightarrow> cf_sold f \<noteq> {} \<Longrightarrow> cf_status f = Some OrderStatusDelivered"
  by (auto simp: file_defs split: option.splits OrderStatus.splits)

lemma delivered_file:
  "file_ok f \<Longrightarrow> cf_status f = Some OrderStatusDelivered \<Longrightarrow>
   int (card (cf_sold f)) = sum_list (cf_qty f) \<and> cf_reserved f = {} \<and> cf_alloc f = [cf_total f] \<and>
   (\<exists>jid. cf_job f = Some (jid, DeliveryJobCompleted))"
  by (auto simp: file_defs)

lemma count_distinct:
  assumes "distinct (map key rows)"
  shows "countRows p rows = int (card (key ` {r \<in> set rows. p r}))"
proof -
  have "card (key ` {r \<in> set rows. p r}) = card (set (map key (filter p rows)))"
    by (simp add: image_Collect Collect_conj_eq) 
  also have "\<dots> = length (filter p rows)"
    using distinct_card [of "map key (filter p rows)"] assms by (simp add: distinct_map_filter)
  finally show ?thesis by (simp add: countRows_def)
qed

text \<open>The columns of a case file as rows of the database.\<close>

lemma file_rows:
  assumes "reachable s" "x \<in> set (orders s)"
  shows "cf_total (fileOf s (ord_id x)) = ord_total_vnd x"
    and "cf_alloc (fileOf s (ord_id x)) = allocationsOf ''order'' (ord_id x) (payment_allocations s)"
    and "cf_qty (fileOf s (ord_id x)) = map oit_quantity (itemsOf s (ord_id x))"
    and "cf_trail (fileOf s (ord_id x)) = trailOf (ord_id x) (order_history s)"
    and "int (card (cf_sold (fileOf s (ord_id x)))) = countRows (soldTo (ord_id x)) (inventory_items s)"
    and "int (card (cf_reserved (fileOf s (ord_id x)))) = countRows (reservedFor (ord_id x)) (inventory_items s)"
    and "cf_reserved (fileOf s (ord_id x)) = {} \<longleftrightarrow> \<not> (\<exists>i \<in> set (inventory_items s). reservedFor (ord_id x) i)"
proof -
  have schema: "schema s" by (rule reachable_schema [OF assms(1)])
  then have ids: "distinct (map inv_id (inventory_items s))" by (simp add: schema_distinct)
  show "cf_total (fileOf s (ord_id x)) = ord_total_vnd x"
    using order_found [OF schema assms(2)] by (simp add: fileOf_def Let_def)
  show "int (card (cf_sold (fileOf s (ord_id x)))) = countRows (soldTo (ord_id x)) (inventory_items s)"
    "int (card (cf_reserved (fileOf s (ord_id x)))) = countRows (reservedFor (ord_id x)) (inventory_items s)"
    by (simp_all add: fileOf_def Let_def count_distinct [OF ids])
qed (auto simp: fileOf_def Let_def)

section \<open>The delivery report\<close>

lemma delivering_has_job:
  assumes "reachable s" "x \<in> set (orders s)" "ord_status x = OrderStatusDelivering"
  shows "\<exists>j \<in> set (deliveryJobs s). job_delivery_order_id j = Some (ord_id x)"
proof -
  obtain jid st where "cf_job (fileOf s (ord_id x)) = Some (jid, st)"
    using order_file [OF assms(1,2)] assms(3) by (auto simp: file_defs)
  then show ?thesis by (elim file_job_row) blast
qed

lemma job_order_status:
  assumes "reachable s" "j \<in> set (deliveryJobs s)" "x \<in> set (orders s)" "job_delivery_order_id j = Some (ord_id x)"
  shows "activeJob (job_status j) \<Longrightarrow> ord_status x = OrderStatusDelivering"
    and "job_status j = DeliveryJobCompleted \<Longrightarrow> ord_status x = OrderStatusDelivered"
  using job_file [OF assms(1,2,4)] order_file [OF assms(1,3)]
    active_job_delivering [of "fileOf s (ord_id x)"] completed_job_delivered [of "fileOf s (ord_id x)"]
  by auto

lemma delivered_rows:
  assumes "reachable s" "x \<in> set (orders s)" "ord_status x = OrderStatusDelivered"
  shows "allocationsOf ''order'' (ord_id x) (payment_allocations s) = [ord_total_vnd x]"
    and "countRows (soldTo (ord_id x)) (inventory_items s) = sum_list (map oit_quantity (itemsOf s (ord_id x)))"
    and "\<not> (\<exists>i \<in> set (inventory_items s). reservedFor (ord_id x) i)"
    and "\<exists>j \<in> set (deliveryJobs s). job_delivery_order_id j = Some (ord_id x) \<and> job_status j = DeliveryJobCompleted"
proof -
  let ?f = "fileOf s (ord_id x)"
  have f: "int (card (cf_sold ?f)) = sum_list (cf_qty ?f)" "cf_reserved ?f = {}" "cf_alloc ?f = [cf_total ?f]"
      "\<exists>jid. cf_job ?f = Some (jid, DeliveryJobCompleted)"
    using delivered_file order_file [OF assms(1,2)] assms(3) by auto
  note rows = file_rows [OF assms(1,2)]
  show "allocationsOf ''order'' (ord_id x) (payment_allocations s) = [ord_total_vnd x]" using f(3) rows(1,2) by simp
  show "countRows (soldTo (ord_id x)) (inventory_items s) = sum_list (map oit_quantity (itemsOf s (ord_id x)))"
    using f(1) rows(3,5) by simp
  show "\<not> (\<exists>i \<in> set (inventory_items s). reservedFor (ord_id x) i)" using f(2) rows(7) by simp
  show "\<exists>j \<in> set (deliveryJobs s). job_delivery_order_id j = Some (ord_id x) \<and> job_status j = DeliveryJobCompleted"
    using f(4) by (auto elim: file_job_row)
qed

lemma sold_has_job:
  assumes "reachable s" "i \<in> set (inventory_items s)" "inv_status i = InventoryStatusSold"
  shows "\<exists>j \<in> set (deliveryJobs s). job_delivery_order_id j \<noteq> None \<and>
    job_delivery_order_id j = inv_sold_order_id i \<and> job_status j = DeliveryJobCompleted"
proof -
  have "inventory_ck i" using reachable_schema [OF assms(1)] assms(2) by (auto simp: schema_def table_ok_def list_all_iff)
  then obtain k where k: "inv_sold_order_id i = Some k" using assms(3) by (auto simp: inventory_ck_def)
  then have "cf_sold (fileOf s k) \<noteq> {}" using assms(2,3) by (auto simp: fileOf_def Let_def soldTo_def)
  then obtain jid where "cf_job (fileOf s k) = Some (jid, DeliveryJobCompleted)"
    using any_file [OF assms(1)] sold_delivered delivered_file by blast
  then show ?thesis using k by (elim file_job_row) force
qed

lemma active_jobs_unique:
  assumes "reachable s"
  shows "distinct (map job_delivery_order_id (filter (\<lambda>j. activeJob (job_status j)) (deliveryJobs s)))"
proof -
  have schema: "schema s" by (rule reachable_schema [OF assms])
  have "i = j" if "i \<in> set (deliveryJobs s)" "j \<in> set (deliveryJobs s)"
    "job_delivery_order_id i = job_delivery_order_id j" for i j
  proof -
    have "job_ck i" using schema that(1) by (auto simp: schema_def table_ok_def list_all_iff deliveryJobs_def)
    then have "job_delivery_order_id i = Some (job_aggregate_id i)"
      using that(1) by (simp add: job_ck_def deliveryJobs_def)
    then show ?thesis
      using that by (intro delivery_job_unique [OF schema]) (auto simp: deliveryJobs_def deliveryJob_def)
  qed
  moreover have "distinct (deliveryJobs s)"
    using schema_distinct(3) [OF schema] unfolding deliveryJobs_def by (intro distinct_filter) (simp add: distinct_map)
  ultimately show ?thesis by (auto simp: distinct_map inj_on_def)
qed

lemma delivery_counts_zero:
  assumes "reachable s" "CountDeliveryReconciliationAnomalies cutoff s = (Inr r, s)"
  shows "DeliveringWithoutJob r = 0 \<and> ActiveJobWrongOrderState r = 0 \<and>
    CompletedJobOrderNotDelivered r = 0 \<and> DeliveredInventoryMismatch r = 0 \<and>
    SoldWithoutCompletedJob r = 0 \<and> DeliveredOrderReservedInventory r = 0 \<and> MultipleActiveJobs r = 0"
proof -
  have twice: "countRows (\<lambda>k. countRows (\<lambda>j. g j = k) xs > 1) (remdups (map g xs)) = 0"
    if "distinct (map g xs)" for g :: "job_row \<Rightarrow> int64 option" and xs
  proof -
    have "countRows (\<lambda>j. g j = k) xs \<le> 1" for k
    proof -
      have "countRows (\<lambda>j. g j = k) xs \<le> int (card {k})"
        unfolding count_distinct [OF that] by (intro of_nat_mono card_mono) auto
      then show ?thesis by simp
    qed
    then show ?thesis by (auto simp: countRows_0 not_less)
  qed
  have sold: "countRows (\<lambda>i. inv_sold_order_id i = Some (ord_id x) \<and> inv_status i = InventoryStatusSold)
      (inventory_items s) = sum_list (map oit_quantity (filter (\<lambda>it. oit_order_id it = ord_id x) (order_items s)))"
    if "x \<in> set (orders s)" "ord_status x = OrderStatusDelivered" for x
    using delivered_rows(2) [OF assms(1) that] by (simp add: soldTo_def [abs_def] itemsOf_def conj_commute)
  note run = assms(2) [unfolded CountDeliveryReconciliationAnomalies_def askE_def prod.inject sum.inject, THEN conjunct1, symmetric]
  show ?thesis
  proof (intro conjI)
    show "DeliveringWithoutJob r = 0"
      unfolding run using delivering_has_job [OF assms(1)] by (simp add: countRows_0)
    show "ActiveJobWrongOrderState r = 0"
      unfolding run using job_order_status(1) [OF assms(1)]
      by (simp add: countRows_0 activeJob_def split_beta) blast
    show "CompletedJobOrderNotDelivered r = 0"
      unfolding run using job_order_status(2) [OF assms(1)] by (simp add: countRows_0 split_beta)
    show "DeliveredInventoryMismatch r = 0"
      unfolding run using sold by (simp add: countRows_0)
    show "SoldWithoutCompletedJob r = 0"
      unfolding run DeliveryReconciliation.simps countRows_0 using sold_has_job [OF assms(1)] by blast
    show "DeliveredOrderReservedInventory r = 0"
      unfolding run by (auto simp: countRows_0 reservedFor_def dest: delivered_rows(3) [OF assms(1)])
    show "MultipleActiveJobs r = 0"
      unfolding run using twice [OF active_jobs_unique [OF assms(1)]] by (simp add: Let_def)
  qed
qed

section \<open>The financial report\<close>

lemma wallet_rows:
  assumes "reachable s" "w \<in> set (wallet_accounts s)"
  shows "wal_balance_vnd w = ledgerOf (wal_id w) (wallet_ledger s) \<and> 0 \<le> wal_balance_vnd w \<and> is_int64 (wal_balance_vnd w)"
  using shop_wallet [OF reachable_ok [OF assms(1)], of "wal_id w"] wallet_found [OF reachable_schema [OF assms(1)] assms(2)]
  by (auto simp add: view_def wallet_ok_def walletOf_def)

text \<open>An order passes through \<open>paid\<close> and \<open>reserving\<close> inside the transaction that settles it, and rests in neither.\<close>

definition no_reserving :: "shop \<Rightarrow> bool" where
  "no_reserving A \<longleftrightarrow> (\<forall>k. cf_status (sf_file A k) \<notin> {Some OrderStatusPaid, Some OrderStatusReserving})"

lemma spec_step_no_reserving: "spec_step A B \<Longrightarrow> no_reserving A \<Longrightarrow> no_reserving B"
  by (induction rule: spec_step.induct) (auto simp: no_reserving_def move_defs)

lemma spec_steps_no_reserving: "spec_step\<^sup>*\<^sup>* A B \<Longrightarrow> no_reserving A \<Longrightarrow> no_reserving B"
  by (induction rule: rtranclp_induct) (auto intro: spec_step_no_reserving)

lemma reachable_no_reserving: "reachable s \<Longrightarrow> no_reserving (view s)"
proof -
  assume "reachable s"
  then obtain t where "shop_step\<^sup>*\<^sup>* (empty_db t) s" unfolding reachable_def by blast
  then have "spec_step\<^sup>*\<^sup>* (view (empty_db t)) (view s)"
    using shop_sim.run_refines [OF _ schema_empty shop_ok_empty] by blast
  then show ?thesis
    by (rule spec_steps_no_reserving) (simp add: view_empty no_reserving_def blank_file_def)
qed

lemma resting_status:
  assumes "reachable s" "x \<in> set (orders s)"
  shows "ord_status x \<in> {OrderStatusPendingPayment, OrderStatusCancelled, OrderStatusExpired, OrderStatusOutOfStock,
    OrderStatusDelivering, OrderStatusDeliveryFailed, OrderStatusDelivered}"
  using order_file [OF assms] reachable_no_reserving [OF assms(1)]
  by (cases "ord_status x") (auto simp: file_defs no_reserving_def view_def)

end
