(* ===== verification/Contracts.thy ===== *)
theory Contracts
  imports Sample_Outcomes Reconciliation
begin

text \<open>
  The contracts of the entry points, read off the refinement: what a successful call did to
  the orders, the money and the stock. Each is stated for every
  reachable database and every argument; what a refused order means is the theory \<open>Refusals\<close>.
\<close>

section \<open>From triples to runs\<close>

lemma seen_now: "reachable s \<Longrightarrow> seen (view s) s"
  by (simp add: seen_def reachable_schema)

lemma contract:
  assumes "reachable s" "m s = (Inr r, s')" "\<And>A. shop_ok A \<Longrightarrow> triple (seen A) m (Q A)"
  shows "Q (view s) r s'"
  using tripleD [OF assms(3) [OF reachable_ok [OF assms(1)]] seen_now [OF assms(1)] assms(2)] .

lemma run_of: "fst p = r \<Longrightarrow> p = (r, snd p)"
  by (metis prod.collapse)

lemma view_sel [simp]:
  "sf_file (view s) = fileOf s" "sf_wallet (view s) = walletOf s" "sf_topup (view s) = topupOf s"
  by (simp_all add: view_def)

lemma seen_files:
  "seen A s \<Longrightarrow> fileOf s = sf_file A \<and> walletOf s = sf_wallet A \<and> topupOf s = sf_topup A"
  by (auto simp: seen_def view_def)

section \<open>Payments\<close>

text \<open>
  C12. Accepting a payment either settles one pending order whose total is exactly the amount received (it gets one
  allocation, its full stock and a delivery job), or credits one pending top-up of exactly that amount to
  its wallet; on any other decision (review, duplicate) no wallet balance and no allocation changes.
\<close>

theorem accept_contract:
  assumes "reachable s" "PaymentAcceptanceService_Accept skip ttl n now cmd s = (Inr r, s')"
  shows "(if par_Decision r = ''accepted''
     then (settled (view s) (par_OrderID r) s' \<and> cf_total (fileOf s (par_OrderID r)) = apc_Amount (normalizeCommand cmd)) \<or>
       (credited (view s) (par_TopupID r) s' \<and> tf_amount (topupOf s (par_TopupID r)) = apc_Amount (normalizeCommand cmd))
     else par_Decision r \<in> {''review'', ''duplicate''} \<and> walletOf s' = walletOf s \<and>
       (\<forall>k. cf_alloc (fileOf s' k) = cf_alloc (fileOf s k) \<and> cf_reserved (fileOf s' k) = cf_reserved (fileOf s k)) \<and>
       (\<forall>t. tf_alloc (topupOf s' t) = tf_alloc (topupOf s t)))"
proof -
  have "pay_post (view s) (normalizeCommand cmd) r s'"
    by (rule contract [OF assms triple_Accept])
  then show ?thesis
    unfolding pay_post_def by (auto simp: move_defs dest!: seen_files split: if_splits)
qed

theorem accept_contract_witness:
  "\<exists>r. PaymentAcceptanceService_Accept (\<lambda>_. False) 600 5 1300 (demo_transfer ''tx1'' ''REF1'' 50000) d_paid = (Inr r, d_twice) \<and>
     par_Decision r = ''duplicate'' \<and> cf_alloc (fileOf d_twice 1) = cf_alloc (fileOf d_paid 1)"
proof -
  obtain r where r: "fst (PaymentAcceptanceService_Accept (\<lambda>_. False) 600 5 1300 (demo_transfer ''tx1'' ''REF1'' 50000) d_paid) = Inr r"
      "par_Decision r = ''duplicate''" using twice_answer by blast
  note run = run_of [OF r(1), folded accept_at_def, folded d_twice_def]
  show ?thesis using accept_contract [OF d_paid_reachable run] run r(2) by auto
qed

text \<open>
  C13. Paying an order from the wallet either reports an earlier payment and moves no money, or settles
  the customer's pending order in full: the wallet had at least the total, is debited exactly the total, and the
  ledger records it.
\<close>

theorem wallet_payment_contract:
  assumes "reachable s" "WalletService_PayOrder skip ttl n now cmd s = (Inr r, s')"
  shows "if wor_Duplicate r
    then (\<exists>w. view s' = open_wallet w (view s)) \<and> (\<forall>k. fileOf s' k = fileOf s k)
    else cf_status (fileOf s (wop_OrderID cmd)) = Some OrderStatusPendingPayment \<and>
      cf_status (fileOf s' (wop_OrderID cmd)) = Some OrderStatusDelivering \<and>
      cf_alloc (fileOf s' (wop_OrderID cmd)) = [cf_total (fileOf s (wop_OrderID cmd))] \<and>
      int (card (cf_reserved (fileOf s' (wop_OrderID cmd)))) = sum_list (cf_qty (fileOf s (wop_OrderID cmd))) \<and>
      (\<exists>w b. wf_balance (walletOf s' w) = Some (b - cf_total (fileOf s (wop_OrderID cmd))) \<and>
         wf_ledger (walletOf s' w) = wf_ledger (walletOf s w) - cf_total (fileOf s (wop_OrderID cmd)) \<and>
         cf_total (fileOf s (wop_OrderID cmd)) \<le> b \<and>
         (\<forall>v. v \<noteq> w \<longrightarrow> wf_ledger (walletOf s' v) = wf_ledger (walletOf s v)))"
proof -
  have "wallet_pay_post (view s) cmd r s'"
    by (rule contract [OF assms triple_PayOrder])
  then consider (repeat) w where "seen (open_wallet w (view s)) s'" "wor_Duplicate r"
    | (paid) v where "wallet_paid (open_wallet v (view s)) (wop_OrderID cmd) s'" "\<not> wor_Duplicate r"
    unfolding wallet_pay_post_def by blast
  then show ?thesis
  proof cases
    case repeat
    then have "view s' = open_wallet w (view s)" by (simp add: seen_def)
    then have "(\<exists>w. view s' = open_wallet w (view s)) \<and> (\<forall>k. fileOf s' k = fileOf s k)"
      using seen_files [OF repeat(1)] by (metis open_wallet_simps(1) view_sel(1))
    with repeat(2) show ?thesis by (simp only: if_True simp_thms)
  next
    case paid
    then obtain w jid ids b where
      now: "seen (wallet_upd w (post_entry (- cf_total (fileOf s (wop_OrderID cmd))))
        (file_upd (wop_OrderID cmd) (settle jid ids) (open_wallet v (view s)))) s'"
      and card: "int (card ids) = sum_list (cf_qty (fileOf s (wop_OrderID cmd)))"
      and st: "cf_status (fileOf s (wop_OrderID cmd)) = Some OrderStatusPendingPayment"
      and b: "wf_balance (sf_wallet (open_wallet v (view s)) w) = Some b" "cf_total (fileOf s (wop_OrderID cmd)) \<le> b"
      unfolding wallet_paid_def by (auto simp: open_wallet_def)
    have led: "wf_ledger (sf_wallet (open_wallet v (view s)) u) = wf_ledger (walletOf s u)" for u
      by (simp add: open_wallet_def)
    show ?thesis
      using paid(2) card st b led seen_files [OF now] by (auto simp: post_entry_def move_defs open_wallet_def)
  qed
qed

theorem wallet_payment_contract_witness:
  "\<exists>r. WalletService_PayOrder (\<lambda>_. False) 600 5 1400 demo_wallet_payment w_credited = (Inr r, w_settled) \<and>
     cf_alloc (fileOf w_settled 1) = [cf_total (fileOf w_credited 1)] \<and> wor_Balance r = 30000"
proof -
  obtain r where r: "fst (WalletService_PayOrder (\<lambda>_. False) 600 5 1400 demo_wallet_payment w_credited) = Inr r"
      "\<not> wor_Duplicate r" "wor_Balance r = 30000"
    using wallet_answer by blast
  note run = run_of [OF r(1), folded w_settled_def]
  have id: "wop_OrderID demo_wallet_payment = 1" by (simp add: demo_wallet_payment_def)
  show ?thesis
    using wallet_payment_contract [OF w_credited_reachable run, unfolded if_not_P [OF r(2)] id] run r(3) by blast
qed

section \<open>Orders\<close>

text \<open>
  C14. Placing an order is idempotent and exact: a repeated request changes no order, and a new
  one adds exactly one pending order under a fresh id, for a positive quantity and a total that is not negative, with nothing
  reserved and nothing paid, and leaves every other order, wallet and top-up as it was.
\<close>

theorem create_contract:
  fixes ins :: "OrderDetail \<Rightarrow> error + 'i"
  assumes "reachable s" "OrderService_Create refs ins cfg now cmd s = (Inr (od, dup, x), s')"
  shows "walletOf s' = walletOf s \<and> topupOf s' = topupOf s \<and>
    (if dup then fileOf s' = fileOf s
     else cf_status (fileOf s (od_ID od)) = None \<and> 0 < coc_Quantity cmd \<and>
       (\<exists>amt \<ge> 0. fileOf s' = (fileOf s)(od_ID od := new_file amt (coc_Quantity cmd))))"
proof -
  let ?tx = "WithinTransaction (createOrderTx refs cfg now cmd)"
  obtain order where run: "?tx s = (Inr (order, dup), s')" "od = order"
    using assms(2) by (auto simp: OrderService_Create_def bindE_app split: if_splits prod.splits sum.splits)
  have "\<exists>amt. create_post (view s) amt (coc_Quantity cmd) (order, dup) s'"
    using contract [where m = ?tx and Q = "\<lambda>A r s. \<exists>amt. create_post A amt (coc_Quantity cmd) r s", OF assms(1) run(1)]
      triple_createOrderTx by simp
  then show ?thesis
    using run(2) by (auto simp: create_post_def placed_def file_upd_def split: if_splits dest!: seen_files)
qed

theorem create_contract_witness:
  "\<exists>od. OrderService_Create (\<lambda>_. Inr ''REF1'') (\<lambda>_. Inr () :: error + unit) demo_config 1000 (demo_order 1 ''k1'') d_stocked =
     (Inr (od, False, ()), d_ordered) \<and>
   (\<exists>amt \<ge> 0. fileOf d_ordered = (fileOf d_stocked)(od_ID od := new_file amt 1))"
proof -
  obtain od where "fst (OrderService_Create (\<lambda>_. Inr ''REF1'') (\<lambda>_. Inr () :: error + unit) demo_config 1000
     (demo_order 1 ''k1'') d_stocked) = Inr (od, False, ())" using order_answer by blast
  note run = run_of [OF this, folded create_at_def, folded d_ordered_def]
  show ?thesis using create_contract [OF d_stocked_reachable run] run by (auto simp: demo_order_def)
qed

text \<open>
  C15. Cancelling succeeds only for a pending order, which moves to cancelled and nothing else changes; a repeated
  cancellation changes nothing.
\<close>

theorem cancel_contract:
  assumes "reachable s" "OrderService_Cancel now cmd s = (Inr (od, dup), s')"
  shows "view s' = (if dup then view s else file_upd (cac_OrderID cmd) (go OrderStatusCancelled) (view s)) \<and>
    (dup \<or> cf_status (fileOf s (cac_OrderID cmd)) = Some OrderStatusPendingPayment)"
  using contract [where m = "OrderService_Cancel now cmd" and
      Q = "\<lambda>A r s. if snd r then seen A s else closed A (cac_OrderID cmd) OrderStatusCancelled s", OF assms]
    triple_Cancel by (auto simp: closed_def seen_def split: if_splits)

theorem cancel_contract_witness:
  "\<exists>od. OrderService_Cancel 1100 demo_cancel w_desk = (Inr (od, False), c_cancelled) \<and>
     view c_cancelled = file_upd 1 (go OrderStatusCancelled) (view w_desk)"
proof -
  obtain od where "fst (OrderService_Cancel 1100 demo_cancel w_desk) = Inr (od, False)" using cancel_answer by blast
  note run = run_of [OF this, folded c_cancelled_def]
  show ?thesis using cancel_contract [OF w_desk_reachable run] run by (auto simp: demo_cancel_def)
qed

lemma claimed_overdue:
  assumes "schema s" "ClaimOverduePendingOrders skip now n s = (Inr rows, s1)"
  shows "int (length rows) \<le> n"
    and "\<And>r. r \<in> set rows \<Longrightarrow> \<exists>x \<in> set (orders s). ord_id x = ord_id r \<and> overdue now x"
proof -
  let ?sel = "overdueIds skip now n s"
  define f where "f x = x\<lparr>ord_status := OrderStatusExpired, ord_version := ord_version x + 1\<rparr>" for x :: order_row
  from assms(2) have n: "0 \<le> n" and rows: "rows = map f (filter (\<lambda>x. ord_id x \<in> set ?sel \<and> overdue now x) (orders s))"
    by (auto simp: ClaimOverduePendingOrders_def updateOrders_def f_def [abs_def] split: if_splits dest!: sqlUpdate_InrD)
  have "map ord_id rows = map ord_id (filter (\<lambda>x. ord_id x \<in> set ?sel \<and> overdue now x) (orders s))"
    by (simp add: rows f_def comp_def)
  then have "distinct (map ord_id rows)" "set (map ord_id rows) \<subseteq> set ?sel"
    using schema_distinct(1) [OF assms(1)] by (auto simp: distinct_map_filter)
  then have "length rows \<le> card (set ?sel)"
    using distinct_card [of "map ord_id rows"] card_mono [OF _ \<open>set (map ord_id rows) \<subseteq> set ?sel\<close>] by simp
  also have "\<dots> \<le> nat n" using card_length [of ?sel] by (simp add: overdueIds_def)
  finally show "int (length rows) \<le> n" using n by simp
  show "\<exists>x \<in> set (orders s). ord_id x = ord_id r \<and> overdue now x" if "r \<in> set rows" for r
    using that by (auto simp: rows f_def)
qed

text \<open>
  C16. The expiry pass touches only orders that are still pending and whose deadline has passed, at most as
  many as the batch size, and reports how many it moved to expired.
\<close>

theorem expiry_contract:
  assumes "reachable s" "OrderExpiryService_RunOnce skip n now s = (Inr k, s')"
  shows "k \<le> n \<and>
    (\<exists>ids. distinct ids \<and> k = int (length ids) \<and> view s' = files_upd (set ids) (go OrderStatusExpired) (view s) \<and>
      (\<forall>i \<in> set ids. \<exists>x \<in> set (orders s). ord_id x = i \<and> overdue now x))"
proof -
  obtain ids where run: "ExpireOverdueOrders skip now n s = (Inr ids, s')" and k: "k = int (length ids)"
    using assms(2) by (auto simp: OrderExpiryService_RunOnce_def bindE_app split: if_splits prod.splits sum.splits)
  obtain rows s1 where rows: "ClaimOverduePendingOrders skip now n s = (Inr rows, s1)" and ids: "ids = sort (map ord_id rows)"
    using run by (auto simp: ExpireOverdueOrders_def WithinTransaction_def bindE_app split: if_splits prod.splits sum.splits)
  have "distinct ids" "view s' = files_upd (set ids) (go OrderStatusExpired) (view s)"
    using contract [OF assms(1) run triple_Expire] by (simp_all add: seen_def)
  then show ?thesis
    using claimed_overdue [OF reachable_schema [OF assms(1)] rows] k ids by (auto intro!: exI [of _ ids])
qed

theorem expiry_contract_witness:
  "OrderExpiryService_RunOnce (\<lambda>_. False) 10 5000 d_ordered = (Inr 1, c_expired) \<and> (1 :: int) \<le> 10 \<and>
   (\<exists>i. view c_expired = files_upd {i} (go OrderStatusExpired) (view d_ordered) \<and>
      (\<exists>x \<in> set (orders d_ordered). ord_id x = i \<and> overdue 5000 x))"
proof -
  note run = run_of [OF expire_answer, folded c_expired_def]
  obtain ids where "distinct ids" "(1 :: int) = int (length ids)"
      "view c_expired = files_upd (set ids) (go OrderStatusExpired) (view d_ordered)"
      "\<forall>i \<in> set ids. \<exists>x \<in> set (orders d_ordered). ord_id x = i \<and> overdue 5000 x"
    using expiry_contract [OF d_ordered_reachable run] by blast
  moreover from this obtain i where "ids = [i]" by (cases ids) auto
  ultimately show ?thesis using run by auto
qed

section \<open>Delivery\<close>

text \<open>
  C17. Recording a successful send hands exactly the reserved stock over: the order of the job, being delivered, becomes
  delivered, its reserved items become sold, the job is completed, and nothing else changes; for a job that is already completed the
  call changes nothing.
\<close>

theorem delivery_success_contract:
  assumes "reachable s" "FinalizeDeliverySuccess jid w su s = (Inr (), s')"
  shows "\<exists>k. (cf_job (fileOf s k) = Some (jid, DeliveryJobCompleted) \<and> view s' = view s) \<or>
    (cf_job (fileOf s k) = Some (jid, DeliveryJobProcessing) \<and> cf_status (fileOf s k) = Some OrderStatusDelivering \<and>
     view s' = file_upd k hand_over (view s))"
  using contract [OF assms triple_FinalizeSuccess] by (auto simp: handed_over_def seen_def)

theorem delivery_success_contract_witness:
  "FinalizeDeliverySuccess 1 ''w'' demo_success d_sending = (Inr (), d_delivered) \<and>
   (\<exists>k. cf_status (fileOf d_sending k) = Some OrderStatusDelivering \<and> view d_delivered = file_upd k hand_over (view d_sending))"
proof -
  note run = run_of [OF success_answer, folded d_delivered_def]
  have "cf_job (fileOf d_sending k) \<noteq> Some (1, DeliveryJobCompleted)" for k
    by (simp add: fileOf_def Let_def d_sending_eval)
  then show ?thesis using delivery_success_contract [OF d_sending_reachable run] run by blast
qed

text \<open>
  An administrator can close a delivery by hand only when its outcome is uncertain: the job is ambiguous or
  in manual review, its order is being delivered, and then the effect is that of a successful send.
\<close>

theorem manual_completion_contract:
  assumes "reachable s" "DeliveryAdminService_Complete now cmd s = (Inr r, s')"
  shows "\<exists>k. (\<exists>st \<in> {DeliveryJobAmbiguous, DeliveryJobManualReview}. cf_job (fileOf s k) = Some (drc_JobID cmd, st)) \<and>
    cf_status (fileOf s k) = Some OrderStatusDelivering \<and> view s' = file_upd k hand_over (view s)"
proof -
  let ?cmd = "cmd\<lparr>drc_Reason := TrimSpace (drc_Reason cmd)\<rparr>"
  have "CompleteDelivery now ?cmd now s = (Inr r, s')"
    using assms(2) by (auto simp: DeliveryAdminService_Complete_def Let_def split: if_splits)
  from contract [OF assms(1) this triple_CompleteDelivery] show ?thesis
    by (auto simp: handed_over_def seen_def)
qed

theorem manual_completion_contract_witness:
  "\<exists>r. DeliveryAdminService_Complete 2000 demo_resolution m_desk = (Inr r, m_completed) \<and>
     (\<exists>k. cf_status (fileOf m_desk k) = Some OrderStatusDelivering \<and> view m_completed = file_upd k hand_over (view m_desk))"
proof -
  obtain r where "fst (DeliveryAdminService_Complete 2000 demo_resolution m_desk) = Inr r" using complete_answer by blast
  note run = run_of [OF this, folded m_completed_def]
  show ?thesis using manual_completion_contract [OF m_desk_reachable run] run by blast
qed

section \<open>The delivery worker\<close>

text \<open>A program that only calls entry points: whatever it returns, its effect is a run of the system.\<close>

definition calls_only :: "'a dbtx \<Rightarrow> bool" where
  "calls_only m \<longleftrightarrow> (\<forall>s. shop_step\<^sup>*\<^sup>* s (snd (m s)))"

lemma calls_step: "(\<And>s r s'. m s = (r, s') \<Longrightarrow> shop_step s s') \<Longrightarrow> calls_only m"
  unfolding calls_only_def by (metis prod.collapse r_into_rtranclp)

lemma calls_still: "(\<And>s. snd (m s) = s) \<Longrightarrow> calls_only m"
  by (simp add: calls_only_def)

lemma calls_bind: "calls_only m \<Longrightarrow> (\<And>x. calls_only (f x)) \<Longrightarrow> calls_only (bindE m f)"
  unfolding calls_only_def
  by (auto simp: bindE_app split: prod.splits sum.splits) (metis rtranclp_trans snd_conv)+

lemma calls_attempt: "calls_only m \<Longrightarrow> calls_only (attempt m)"
  unfolding calls_only_def attempt_def by (simp add: split_beta)

lemma calls_if: "(b \<Longrightarrow> calls_only m) \<Longrightarrow> (\<not> b \<Longrightarrow> calls_only n) \<Longrightarrow> calls_only (if b then m else n)"
  by simp

lemma calls_sum: "(\<And>e. calls_only (f e)) \<Longrightarrow> (\<And>x. calls_only (g x)) \<Longrightarrow> calls_only (case r of Inl e \<Rightarrow> f e | Inr x \<Rightarrow> g x)"
  by (cases r) simp_all

lemma calls_forE: "(\<And>x. calls_only (f x)) \<Longrightarrow> calls_only (forE xs f)"
  by (induction xs) (auto intro: calls_bind calls_still)

lemma calls_returnE: "calls_only (returnE x)" "calls_only (throwE e)"
  by (auto intro: calls_still)

lemma calls_store:
  "calls_only (BackfillDeliveryJobs skip now n m)" "calls_only (RecoverStaleDeliveryJobs skip now sb n)"
  "calls_only (ClaimDeliveryJobs skip now w n)" "calls_only (BeginDeliveryAttempt jid w t)"
  "calls_only (FinalizeDeliverySuccess jid w su)" "calls_only (FinalizeDeliveryFailure jid w fl)"
  "calls_only (failBeforeSend dl w wi code cause rd)" "calls_only (PreserveAmbiguousSuccess jid su re)"
  by (auto intro: calls_step sh_backfill sh_stale sh_jobs sh_begin sh_success sh_failure sh_presend sh_ambiguous)

lemma calls_load: "calls_only (LoadClaimedDelivery jid w)"
proof (rule calls_still)
  have "always (\<lambda>t. t = s) (LoadClaimedDelivery jid w)" for s
    unfolding LoadClaimedDelivery_def by (intro always_intros)
  then show "snd (LoadClaimedDelivery jid w s) = s" for s by (simp add: always_def)
qed

lemmas calls_intros = calls_returnE calls_bind calls_attempt calls_if calls_sum calls_forE calls_store calls_load

lemma calls_finishSend: "calls_only (finishSend w x jid chat att outcome)"
  unfolding finishSend_def Let_def by (cases outcome) (auto intro!: calls_intros)

lemma calls_process: "calls_only (DeliveryJob_process w x job)"
  unfolding DeliveryJob_process_def by (intro calls_intros calls_finishSend | simp add: split_beta)+

text \<open>
  A pass of the delivery worker is safe to interleave and always reports: whatever the cipher,
  Telegram and the clock do, the pass ends with a report, and its effect is a sequence of steps of the
  system, so every invariant and contract of the shop holds before, between and after them.
\<close>

theorem worker_pass_is_a_run:
  assumes "DeliveryJob_RunOnce skip w x lastScan s = (r, s')"
  shows "shop_step\<^sup>*\<^sup>* s s' \<and> (\<exists>claimed err scan. r = Inr (claimed, err, scan))"
proof -
  have "calls_only (DeliveryJob_RunOnce skip w x lastScan)"
    unfolding DeliveryJob_RunOnce_def Let_def by (intro calls_intros calls_process | simp)+
  then have "shop_step\<^sup>*\<^sup>* s s'" using assms unfolding calls_only_def by (metis snd_conv)
  moreover have "\<exists>y. r = Inr y"
    using assms by (auto simp: DeliveryJob_RunOnce_def Let_def bindE_app attempt_def split: if_splits prod.splits sum.splits)
  ultimately show ?thesis by (metis prod.exhaust)
qed

definition demo_worker :: delivery_worker where
  "demo_worker = \<lparr>dw_workerID = ''w'', dw_support = [], dw_messageLimit = 3500, dw_batchSize = 10, dw_lease = 60,
     dw_staleScanInterval = 60, dw_jobTimeout = 30, dw_policy = \<lparr>drp_Base = 5, drp_Max = 300, drp_JitterRatio = FNum 0,
     drp_MaxAttempts = 5\<rparr>\<rparr>"

definition demo_world :: delivery_world where
  "demo_world = \<lparr>dx_decrypt = (\<lambda>_. Inr ''KEY-1''), dx_send = (\<lambda>chat _. SendResult \<lparr>dsr_ChatID = chat, dsr_MessageID = 9,
     dsr_SentAt = 1500\<rparr>), dx_retryDelay = (\<lambda>_ _. 5), dx_now = 1400,
     dx_clock = (\<lambda>_ k. 1450 + int k)\<rparr>"

theorem worker_pass_is_a_run_witness:
  "\<exists>claimed err scan s'. DeliveryJob_RunOnce (\<lambda>_. False) demo_worker demo_world 0 d_paid = (Inr (claimed, err, scan), s') \<and>
     shop_step\<^sup>*\<^sup>* d_paid s' \<and> reachable s'"
proof -
  obtain r s' where run: "DeliveryJob_RunOnce (\<lambda>_. False) demo_worker demo_world 0 d_paid = (r, s')" by fastforce
  from worker_pass_is_a_run [OF run] run reachable_steps [OF d_paid_reachable] show ?thesis by blast
qed

end
