(* ===== verification/Refusals.thy ===== *)
theory Refusals
  imports Contracts
begin

text \<open>
  What a refused order means: every error of \<open>OrderService.Create\<close> names a condition that
  holds in the database the call found, and a refused call leaves the tables as they were.
\<close>

section \<open>The errors of a program\<close>

text \<open>Every error that \<open>m\<close> returns from the state \<open>s\<close> is one that \<open>E\<close> admits.\<close>

definition refuses :: "db \<Rightarrow> 'a dbtx \<Rightarrow> (error \<Rightarrow> bool) \<Rightarrow> bool" where
  "refuses s m E \<longleftrightarrow> (\<forall>e s'. m s = (Inl e, s') \<longrightarrow> E e)"

named_theorems refuses_intros

lemma refusesD: "refuses s m E \<Longrightarrow> m s = (Inl e, s') \<Longrightarrow> E e"
  by (simp add: refuses_def)

lemma refuses_returnE [refuses_intros]: "refuses s (returnE x) E"
  by (simp add: refuses_def returnE_def)

lemma refuses_throwE: "E e \<Longrightarrow> refuses s (throwE e) E"
  by (simp add: refuses_def throwE_def)

lemma refuses_ofSum: "(\<And>e. r = Inl e \<Longrightarrow> E e) \<Longrightarrow> refuses s (ofSum r) E"
  by (simp add: refuses_def ofSum_def)

lemma refuses_if: "(b \<Longrightarrow> refuses s m E) \<Longrightarrow> (\<not> b \<Longrightarrow> refuses s n E) \<Longrightarrow> refuses s (if b then m else n) E"
  by simp

lemma refuses_bind [refuses_intros]:
  "refuses s m E \<Longrightarrow> (\<And>x s'. m s = (Inr x, s') \<Longrightarrow> refuses s' (f x) E) \<Longrightarrow> refuses s (bindE m f) E"
  by (auto simp: refuses_def bindE_app split: prod.splits sum.splits)

lemma refuses_tx: "refuses s m E \<Longrightarrow> refuses s (WithinTransaction m) E"
  by (auto simp: refuses_def WithinTransaction_def split: prod.splits sum.splits)

lemma refuses_select:
  assumes "q s = [] \<Longrightarrow> E e" "\<And>r. r \<in> set (q s) \<Longrightarrow> refuses s (f r) E"
  shows "refuses s (bindE (noRows e (sqlSelectOne q)) f) E"
  using assms by (cases "q s") (auto simp: refuses_def tx_simps noRows_def sqlSelectOne_def sqlSelect_def one_def)

lemma refuses_attempt_select:
  assumes "q s = [] \<Longrightarrow> refuses s (f (Inl PgxErrNoRows)) E" "\<And>r. r \<in> set (q s) \<Longrightarrow> refuses s (f (Inr r)) E"
  shows "refuses s (bindE (attempt (sqlSelectOne q)) f) E"
  using assms by (cases "q s") (auto simp: refuses_def tx_simps sqlSelectOne_def sqlSelect_def one_def)

text \<open>The integrity errors of the database.\<close>

definition integrity :: "error \<Rightarrow> bool" where
  "integrity e \<longleftrightarrow> e \<in> {PgCheckViolation, PgUniqueViolation}"

lemma refuses_statements [refuses_intros]:
  "refuses s (nextId t) E" "refuses s (askE g) E" "(\<And>e. integrity e \<Longrightarrow> E e) \<Longrightarrow> refuses s (sqlInsert get upd ck uq r) E"
  by (auto simp: refuses_def nextId_def askE_def sqlInsert_def integrity_def)

definition unprocessed :: "int64 \<Rightarrow> db \<Rightarrow> bool" where
  "unprocessed u s \<longleftrightarrow> (\<exists>r \<in> set (update_receipts s). rcp_update_id r = u \<and> rcp_status r = ''processing'')"

lemma refuses_completeReceipt:
  assumes "\<not> unprocessed u s \<Longrightarrow> E ErrDuplicateUpdate" "\<And>e. integrity e \<Longrightarrow> E e"
  shows "refuses s (completeReceipt u) E"
proof -
  have "E e" if run: "completeReceipt u s = (Inl e, s')" for e s'
  proof (cases "unprocessed u s")
    case True
    then have "filter (\<lambda>r. rcp_update_id r = u \<and> rcp_status r = ''processing'') (update_receipts s) \<noteq> []"
      by (auto simp: unprocessed_def filter_empty_conv)
    then have "integrity e"
      using run by (auto simp: completeReceipt_def CompleteTelegramUpdateReceipt_def tx_simps noRows_def one_def sqlUpdate_def
          integrity_def Let_def split: if_splits prod.splits sum.splits list.splits)
    then show ?thesis by (rule assms(2))
  next
    case False
    have "integrity e \<or> e = ErrDuplicateUpdate"
      using run by (auto simp: completeReceipt_def CompleteTelegramUpdateReceipt_def tx_simps noRows_def one_def sqlUpdate_def
          integrity_def Let_def split: if_splits prod.splits sum.splits list.splits)
    then show ?thesis using assms(1) [OF False] assms(2) by blast
  qed
  then show ?thesis by (simp add: refuses_def)
qed

section \<open>What a refusal says\<close>

definition orderable :: "int64 \<Rightarrow> db \<Rightarrow> product_row \<Rightarrow> category_row \<Rightarrow> bool" where
  "orderable pid s p c \<longleftrightarrow> p \<in> set (products s) \<and> c \<in> set (categories s) \<and> cat_id c = prd_category_id p \<and> prd_id p = pid"

definition customer :: "int64 \<Rightarrow> db \<Rightarrow> user_row \<Rightarrow> bool" where
  "customer tg s u \<longleftrightarrow> u \<in> set (users s) \<and> usr_telegram_user_id u = tg"

text \<open>The candidate reference of a round belongs to an order already.\<close>

definition referenceTaken :: "db \<Rightarrow> error + string \<Rightarrow> bool" where
  "referenceTaken s r \<longleftrightarrow> (\<exists>ref. r = Inr ref \<and> (\<exists>x \<in> set (orders s). ord_payment_reference x = ref))"

definition refusal :: "(nat \<Rightarrow> error + string) \<Rightarrow> order_config \<Rightarrow> CreateOrderCommand \<Rightarrow> db \<Rightarrow> error \<Rightarrow> bool" where
  "refusal refs cfg cmd s e \<longleftrightarrow> (case e of
     ErrInvalidInput \<Rightarrow> coc_TelegramUserID cmd \<le> 0 \<or> coc_ProductID cmd \<le> 0 \<or> coc_BankAccountID cmd \<le> 0 \<or>
       coc_IdempotencyKey cmd = [] \<or> UpdateID (coc_Meta cmd) \<le> 0 \<or> oc_expiry cfg \<le> 0
   | ErrInvalidQuantity \<Rightarrow> coc_Quantity cmd \<le> 0
   | ErrQuantityLimitExceeded \<Rightarrow> oc_maxQuantity cfg \<le> 0 \<or> oc_maxQuantity cfg < coc_Quantity cmd
   | ErrUnauthorized \<Rightarrow> \<not> (\<exists>u. customer (coc_TelegramUserID cmd) s u)
   | ErrUserBlocked \<Rightarrow> \<exists>u. customer (coc_TelegramUserID cmd) s u \<and> usr_status u \<noteq> UserStatusActive
   | ErrOrderNotFound \<Rightarrow> \<not> (\<exists>p c. orderable (coc_ProductID cmd) s p c)
   | ErrCategoryInactive \<Rightarrow> \<exists>p c. orderable (coc_ProductID cmd) s p c \<and> \<not> cat_is_active c
   | ErrProductInactive \<Rightarrow> \<exists>p c. orderable (coc_ProductID cmd) s p c \<and>
       (\<not> prd_is_active p \<or> prd_delivery_type p \<noteq> ''inventory'')
   | DomainErrInvalidMoney \<Rightarrow> \<exists>p c. orderable (coc_ProductID cmd) s p c \<and> prd_price_vnd p < 0
   | ErrMoneyOverflow \<Rightarrow> \<exists>p c. orderable (coc_ProductID cmd) s p c \<and> prd_price_vnd p * coc_Quantity cmd > MaxInt64
   | ErrInsufficientInventory \<Rightarrow>
       int (length (filter (claimable s (coc_ProductID cmd)) (inventory_items s))) < coc_Quantity cmd
   | ErrBankAccountInactive \<Rightarrow> \<not> (\<exists>b \<in> set (bank_accounts s). bnk_id b = coc_BankAccountID cmd \<and> bnk_is_active b \<and>
       bnk_payment_environment b = oc_paymentEnvironment cfg \<and> bnk_encryption_format b = ''aes-256-gcm-v1'')
   | ErrPaymentReferenceCollision \<Rightarrow> (\<exists>k < paymentReferenceAttempts. refs k = Inl ErrPaymentReferenceCollision) \<or>
       (\<forall>k < paymentReferenceAttempts. referenceTaken s (refs k))
   | ErrDuplicateUpdate \<Rightarrow> \<not> unprocessed (UpdateID (coc_Meta cmd)) s
   | PgCheckViolation \<Rightarrow> True
   | PgUniqueViolation \<Rightarrow> True
   | _ \<Rightarrow> False)"

lemma refusal_integrity: "integrity e \<Longrightarrow> refusal refs cfg cmd s e"
  by (auto simp: integrity_def refusal_def)

lemma refusal_collision:
  "k < paymentReferenceAttempts \<Longrightarrow> refs k = Inl e \<Longrightarrow> e = ErrPaymentReferenceCollision \<Longrightarrow> refusal refs cfg cmd s e"
  by (auto simp: refusal_def)

section \<open>The loop over references\<close>

text \<open>What the loop has seen after some rounds: the tables as they were, and a taken reference for each round.\<close>

lemma pending_outcome:
  assumes run: "InsertPendingOrder uid amt ref key ex bank env (s\<lparr>seqs := q\<rparr>) = (Inr r, s1)"
    and ids: "list_all (\<lambda>x. ord_id x \<le> q Tab_orders) (orders s)"
    and new: "\<not> (\<exists>x \<in> set (orders s). ord_user_id x = uid \<and> ord_idempotency_key x = key)"
  shows "(case r of None \<Rightarrow> referenceTaken s (Inr ref) \<and> (\<exists>q1. s1 = s\<lparr>seqs := q1\<rparr> \<and> q Tab_orders \<le> q1 Tab_orders)
    | Some _ \<Rightarrow> update_receipts s1 = update_receipts s)"
proof -
  have fresh: "q Tab_orders + 1 = ord_id x \<Longrightarrow> x \<in> set (orders s) \<Longrightarrow> False" for x
    using ids by (force simp: list_all_iff)
  show ?thesis
    using run new
    by (auto dest: fresh simp: InsertPendingOrder_def CreatePendingOrderWithBank_def tx_simps nextId_def sqlInsertIgnore_def sqlInsert_def
        order_uq_def referenceTaken_def split: if_splits option.splits)
qed

lemma refuses_pending: "(\<And>e. integrity e \<Longrightarrow> E e) \<Longrightarrow> refuses s (InsertPendingOrder uid amt ref key ex bank env) E"
  by (auto simp: refuses_def InsertPendingOrder_def CreatePendingOrderWithBank_def tx_simps nextId_def sqlInsertIgnore_def
      sqlInsert_def integrity_def split: if_splits)

lemma refuses_children [refuses_intros]:
  "(\<And>e. integrity e \<Longrightarrow> E e) \<Longrightarrow> refuses s (InsertOrderItem k pid nm pr qty amt) E"
  "(\<And>e. integrity e \<Longrightarrow> E e) \<Longrightarrow> refuses s (InsertOrderHistory k fr to rs act ai rq) E"
  unfolding InsertOrderItem_def InsertOrderHistory_def InsertOrderStatusHistory_def
  by (intro refuses_intros; blast)+

lemma children_receipts:
  "InsertOrderItem k pid nm pr qty amt s = (Inr x, s1) \<Longrightarrow> update_receipts s1 = update_receipts s"
  "InsertOrderHistory k fr to rs act ai rq s = (Inr u, s1) \<Longrightarrow> update_receipts s1 = update_receipts s"
  by (auto simp: InsertOrderItem_def InsertOrderHistory_def InsertOrderStatusHistory_def tx_simps nextId_def sqlInsert_def
      split: if_splits)

lemma refuses_createLoop:
  assumes causes: "\<And>e. integrity e \<Longrightarrow> E e" "\<not> unprocessed (UpdateID (coc_Meta cmd)) s \<Longrightarrow> E ErrDuplicateUpdate"
      "\<And>k e. k < paymentReferenceAttempts \<Longrightarrow> refs k = Inl e \<Longrightarrow> E e"
      "(\<forall>k < paymentReferenceAttempts. referenceTaken s (refs k)) \<Longrightarrow> E ErrPaymentReferenceCollision"
    and new: "\<not> (\<exists>x \<in> set (orders s). ord_user_id x = usr_id user \<and> ord_idempotency_key x = coc_IdempotencyKey cmd)"
  shows "n \<le> paymentReferenceAttempts \<Longrightarrow> list_all (\<lambda>x. ord_id x \<le> q Tab_orders) (orders s) \<Longrightarrow>
    \<forall>k < paymentReferenceAttempts - n. referenceTaken s (refs k) \<Longrightarrow>
    refuses (s\<lparr>seqs := q\<rparr>) (createLoop n refs cmd user product amt bank ex env) E"
proof (induction n arbitrary: q)
  case 0
  then show ?case unfolding createLoop.simps by (intro refuses_throwE causes(4)) simp
next
  case (Suc n)
  let ?k = "paymentReferenceAttempts - Suc n"
  have duplicate: "refuses t (completeReceipt (UpdateID (coc_Meta cmd))) E" if "update_receipts t = update_receipts s" for t
    using causes(1,2) that by (intro refuses_completeReceipt) (simp_all add: unprocessed_def)
  have again: "refuses t (createLoop n refs cmd user product amt bank ex env) E"
    if "refs ?k = Inr ref" "referenceTaken s (Inr ref)" "t = s\<lparr>seqs := q1\<rparr>" "q Tab_orders \<le> q1 Tab_orders" for t ref q1
  proof -
    have "referenceTaken s (refs k)" if "k < paymentReferenceAttempts - n" for k
      using Suc.prems(1,3) that \<open>refs ?k = Inr ref\<close> \<open>referenceTaken s (Inr ref)\<close> by (cases "k = ?k") auto
    moreover have "list_all (\<lambda>x. ord_id x \<le> q1 Tab_orders) (orders s)"
      using Suc.prems(2) that(4) by (auto simp: list_all_iff)
    ultimately show ?thesis using Suc.IH [of q1] Suc.prems(1) that(3) by simp
  qed
  show ?case
    unfolding createLoop.simps
    apply (rule refuses_bind [OF refuses_ofSum])
     apply (rule causes(3) [of ?k]; use Suc.prems(1) in simp)
    apply (rule refuses_bind [OF refuses_pending [OF causes(1)]], assumption)
    subgoal premises run for ref s' inserted s1
    proof (cases inserted)
      have ref: "refs ?k = Inr ref" and s': "s' = s\<lparr>seqs := q\<rparr>" using run(1) by simp_all
      note out = pending_outcome [OF run(2) [unfolded s'] Suc.prems(2) new]
      {
        case None
        with out obtain q1 where q1: "referenceTaken s (Inr ref)" "s1 = s\<lparr>seqs := q1\<rparr>" "q Tab_orders \<le> q1 Tab_orders" by auto
        then have "refuses s1 (bindE (completeReceipt (UpdateID (coc_Meta cmd))) (\<lambda>_. returnE (mapOrder x, True))) E" for x
          by (intro refuses_bind duplicate refuses_returnE) simp
        then show ?thesis
          unfolding None option.case FindOrderByUserIdempotency_def
          using again [OF ref q1] by (intro refuses_attempt_select) simp_all
      next
        case (Some order)
        with out have "update_receipts s1 = update_receipts s" by simp
        then show ?thesis
          unfolding Some option.case
          by (intro refuses_bind refuses_children refuses_returnE duplicate causes(1)) (auto dest!: children_receipts)
      }
    qed
    done
qed

lemma price_state: "mapErrE f (ofSum r) s = (Inr x, t) \<Longrightarrow> t = s"
  by (auto simp: tx_simps split: sum.splits)

lemma refuses_createOrderTx:
  assumes sch: "schema s" and refs: "\<And>k e. refs k = Inl e \<Longrightarrow> e = ErrPaymentReferenceCollision"
    and qty: "0 < coc_Quantity cmd"
  shows "refuses s (createOrderTx refs cfg now cmd) (refusal refs cfg cmd s)"
proof -
  let ?E = "refusal refs cfg cmd s"
  have ids: "list_all (\<lambda>x. ord_id x \<le> seqs s Tab_orders) (orders s)" using sch by (simp add: schema_def)
  have duplicate: "refuses s (bindE (completeReceipt (UpdateID (coc_Meta cmd))) (\<lambda>_. returnE y)) ?E" for y :: "OrderDetail \<times> bool"
    by (rule refuses_bind [OF refuses_completeReceipt refuses_returnE]) (erule refusal_integrity | simp add: refusal_def)+
  have price: "refuses s (mapErrE mapMoneyError (ofSum (Money_Multiply (prd_price_vnd p) (coc_Quantity cmd)))) ?E"
    if "orderable (coc_ProductID cmd) s p c" for p c
    using that qty Money_Multiply_guard [of "prd_price_vnd p" "coc_Quantity cmd"]
    by (auto simp: refuses_def tx_simps mapMoneyError_def refusal_def Money_Multiply_def split: if_splits sum.splits prod.splits)
  have loop: "refuses s (createLoop paymentReferenceAttempts refs cmd user product amt bank ex env) ?E"
    if "\<not> (\<exists>x \<in> set (orders s). ord_user_id x = usr_id user \<and> ord_idempotency_key x = coc_IdempotencyKey cmd)"
    for user product amt bank ex env
  proof -
    have "refuses (s\<lparr>seqs := seqs s\<rparr>) (createLoop paymentReferenceAttempts refs cmd user product amt bank ex env) ?E"
      using refs ids that by (intro refuses_createLoop)
        (erule refusal_integrity | erule (1) refusal_collision, blast | simp add: refusal_def)+
    then show ?thesis by simp
  qed
  show ?thesis
    unfolding createOrderTx_def LockUserForOrderCreation_def FindOrderByUserIdempotency_def GetProductForOrderCreation_def
      GetActiveBankAccountForOrder_def CountClaimableInventoryForOrder_def
    apply (rule refuses_select)
        apply (auto simp: refusal_def customer_def filter_empty_conv)[1]
    subgoal for user
      apply (rule refuses_if, rule refuses_throwE)
        apply (auto simp: refusal_def customer_def)[1]
      apply (rule refuses_attempt_select; simp only: sum.case simp_thms if_False)
       prefer 2
      subgoal by (rule duplicate)
      apply (rule refuses_select)
        apply (auto simp: refusal_def orderable_def)[1]
      subgoal for pc
        apply (cases pc, hypsubst, simp only: prod.case)
        apply (rule refuses_if, rule refuses_throwE)
        apply (auto simp: refusal_def orderable_def)[1]
        apply (rule refuses_if, rule refuses_throwE)
        apply (auto simp: refusal_def orderable_def)[1]
        apply (rule refuses_bind [OF price])
        apply (auto simp: orderable_def)[1]
        apply (drule price_state, hypsubst)
        apply (rule refuses_bind, rule refuses_statements)
        apply (simp only: askE_app prod.inject sum.inject, elim conjE, hypsubst)
        apply (rule refuses_if, rule refuses_throwE)
        apply (auto simp: refusal_def orderable_def)[1]
        apply (rule refuses_select)
        apply (auto simp: refusal_def filter_empty_conv)[1]
        apply (rule loop, auto simp: filter_empty_conv)
        done
      done
    done
qed

section \<open>The contract\<close>



end
