(* ===== verification/Evolution.thy ===== *)
theory Evolution
  imports Shop_System
begin

text \<open>
  How the rows evolve along any run of the system, whatever its entry points do: interpretations of
  the store's invariants and relations, each reduced to the single statements. Orders, stock and
  queue jobs never vanish and move only along their machines; the records of what
  happened (histories, ledgers, payments, allocations, attempts, audit) only grow.
\<close>

section \<open>Rows\<close>

definition follow :: "('r \<Rightarrow> 'r \<Rightarrow> bool) \<Rightarrow> 'r list \<Rightarrow> 'r list \<Rightarrow> bool" where
  "follow R xs ys \<longleftrightarrow> (\<forall>x \<in> set xs. \<exists>y \<in> set ys. R x y)"

lemma follow_refl: "(\<And>x. R x x) \<Longrightarrow> follow R xs xs"
  by (auto simp: follow_def)

lemma follow_append: "(\<And>x. R x x) \<Longrightarrow> follow R xs (xs @ ys)"
  by (auto simp: follow_def)

lemma follow_update:
  assumes "\<And>x. R x x" "\<And>x. x \<in> set xs \<Longrightarrow> p x \<Longrightarrow> R x (f x)"
  shows "follow R xs (updateWhere p f xs)"
  unfolding follow_def
proof
  fix x
  assume "x \<in> set xs"
  then show "\<exists>y \<in> set (updateWhere p f xs). R x y"
    using assms by (intro bexI [of _ "if p x then f x else x"]) (simp_all add: set_updateWhere)
qed

lemma follow_trans:
  assumes "\<And>x y z. R x y \<Longrightarrow> R y z \<Longrightarrow> R x z"
  shows "follow R xs ys \<Longrightarrow> follow R ys zs \<Longrightarrow> follow R xs zs"
  using assms unfolding follow_def by meson

section \<open>Orders\<close>

definition later_order :: "order_row \<Rightarrow> order_row \<Rightarrow> bool" where
  "later_order x y \<longleftrightarrow> same_order x y \<and> CanTransitionOrder\<^sup>*\<^sup>* (ord_status x) (ord_status y) \<and>
     ord_version x \<le> ord_version y"

lemma later_order_refl: "later_order x x"
  by (simp add: later_order_def same_order_def)

lemma later_order_trans: "later_order x y \<Longrightarrow> later_order y z \<Longrightarrow> later_order x z"
  by (auto simp: later_order_def same_order_def)

lemma order_move_later: "order_move x y \<Longrightarrow> later_order x y"
  by (auto simp: order_move_def later_order_def)

definition orders_evolve :: "db \<Rightarrow> db \<Rightarrow> bool" where
  "orders_evolve s s' \<longleftrightarrow> follow later_order (orders s) (orders s')"

interpretation order_life: store_relation orders_evolve
proof
  show "orders_evolve s s" for s by (simp add: orders_evolve_def follow_refl later_order_refl)
  show "orders_evolve s t \<Longrightarrow> orders_evolve t u \<Longrightarrow> orders_evolve s u" for s t u
    unfolding orders_evolve_def by (rule follow_trans [OF later_order_trans])
  show "orders_evolve s s'" if "stmt s s'" for s s'
    using that unfolding orders_evolve_def
    by cases (auto dest!: stmt_dests intro!: follow_refl [OF later_order_refl] follow_append [OF later_order_refl] follow_update [OF later_order_refl],
      (blast intro: order_move_later)+)
qed

section \<open>Stock\<close>

definition later_stock :: "inventory_row \<Rightarrow> inventory_row \<Rightarrow> bool" where
  "later_stock i j \<longleftrightarrow> same_stock i j \<and>
     (inv_status i = InventoryStatusSold \<longrightarrow>
        inv_status j = InventoryStatusSold \<and> inv_sold_order_id j = inv_sold_order_id i)"

lemma later_stock_refl: "later_stock i i"
  by (simp add: later_stock_def same_stock_def)

lemma later_stock_trans: "later_stock i j \<Longrightarrow> later_stock j k \<Longrightarrow> later_stock i k"
  by (auto simp: later_stock_def same_stock_def)

lemma stock_moves_later: "stock_move i j \<Longrightarrow> later_stock i j" "stock_toggle i j \<Longrightarrow> later_stock i j"
  by (auto simp: stock_move_def stock_toggle_def later_stock_def)

definition stock_evolves :: "db \<Rightarrow> db \<Rightarrow> bool" where
  "stock_evolves s s' \<longleftrightarrow> follow later_stock (inventory_items s) (inventory_items s')"

interpretation stock_life: store_relation stock_evolves
proof
  show "stock_evolves s s" for s by (simp add: stock_evolves_def follow_refl later_stock_refl)
  show "stock_evolves s t \<Longrightarrow> stock_evolves t u \<Longrightarrow> stock_evolves s u" for s t u
    unfolding stock_evolves_def by (rule follow_trans [OF later_stock_trans])
  show "stock_evolves s s'" if "stmt s s'" for s s'
    using that unfolding stock_evolves_def
    by cases (auto dest!: stmt_dests intro!: follow_refl [OF later_stock_refl] follow_append [OF later_stock_refl] follow_update [OF later_stock_refl],
      (blast intro: stock_moves_later)+)
qed

section \<open>Queue jobs\<close>

definition later_job :: "job_row \<Rightarrow> job_row \<Rightarrow> bool" where
  "later_job i j \<longleftrightarrow> same_job i j \<and> queue_move\<^sup>*\<^sup>* (job_status i) (job_status j) \<and>
     job_attempts i \<le> job_attempts j \<and> job_version i \<le> job_version j"

lemma later_job_refl: "later_job i i"
  by (simp add: later_job_def same_job_def)

lemma later_job_trans: "later_job i j \<Longrightarrow> later_job j k \<Longrightarrow> later_job i k"
  by (auto simp: later_job_def same_job_def)

lemma job_move_later: "job_move i j \<Longrightarrow> later_job i j"
  by (auto simp: job_move_def later_job_def)

definition jobs_evolve :: "db \<Rightarrow> db \<Rightarrow> bool" where
  "jobs_evolve s s' \<longleftrightarrow> follow later_job (outbox_events s) (outbox_events s')"

interpretation job_life: store_relation jobs_evolve
proof
  show "jobs_evolve s s" for s by (simp add: jobs_evolve_def follow_refl later_job_refl)
  show "jobs_evolve s t \<Longrightarrow> jobs_evolve t u \<Longrightarrow> jobs_evolve s u" for s t u
    unfolding jobs_evolve_def by (rule follow_trans [OF later_job_trans])
  show "jobs_evolve s s'" if "stmt s s'" for s s'
    using that unfolding jobs_evolve_def
    by cases (auto dest!: stmt_dests intro!: follow_refl [OF later_job_refl] follow_append [OF later_job_refl] follow_update [OF later_job_refl],
      (blast intro: job_move_later)+)
qed

lemma completed_stays: "queue_move\<^sup>*\<^sup>* DeliveryJobCompleted t \<Longrightarrow> t = DeliveryJobCompleted"
  by (induction rule: rtranclp_induct) (auto simp: queue_move_def CanTransitionDelivery_def split: if_splits)

section \<open>Records\<close>

definition grows :: "'r list \<Rightarrow> 'r list \<Rightarrow> bool" where
  "grows xs ys \<longleftrightarrow> (\<exists>zs. ys = xs @ zs)"

lemma grows_refl [simp]: "grows xs xs"
  by (simp add: grows_def)

lemma grows_append [simp]: "grows xs (xs @ ys)"
  by (simp add: grows_def)

lemma grows_trans: "grows xs ys \<Longrightarrow> grows ys zs \<Longrightarrow> grows xs zs"
  by (auto simp: grows_def)

definition records_grow :: "db \<Rightarrow> db \<Rightarrow> bool" where
  "records_grow s s' \<longleftrightarrow>
     grows (order_history s) (order_history s') \<and> grows (order_items s) (order_items s') \<and>
     grows (payments s) (payments s') \<and> grows (payment_allocations s) (payment_allocations s') \<and>
     grows (wallet_ledger s) (wallet_ledger s') \<and> grows (delivery_attempts s) (delivery_attempts s') \<and>
     grows (audit_logs s) (audit_logs s')"

interpretation record_life: store_relation records_grow
proof
  show "records_grow s s" for s by (simp add: records_grow_def)
  show "records_grow s t \<Longrightarrow> records_grow t u \<Longrightarrow> records_grow s u" for s t u
    unfolding records_grow_def by (auto intro: grows_trans)
  show "records_grow s s'" if "stmt s s'" for s s'
    using that by cases (auto dest!: stmt_dests simp: records_grow_def)
qed

section \<open>Histories\<close>

definition histories_legal :: "db \<Rightarrow> bool" where
  "histories_legal s \<longleftrightarrow> list_all (\<lambda>h. legal_history (his_from_status h) (his_to_status h)) (order_history s)"

interpretation history_law: store_invariant histories_legal
proof
  show "histories_legal s'" if "histories_legal s" "stmt s s'" for s s'
    using that(2,1) by cases (auto dest!: stmt_dests simp: histories_legal_def)
qed

end
