(* ===== verification/Payment_Reference.thy ===== *)
theory Payment_Reference
  imports Go_Text
begin

text \<open>
  Payment references: the generator of \<open>internal/app/payment_reference.go\<close> and the extractor of
  \<open>internal/app/payment_reference_extractor.go\<close> that finds a reference in the free text of a
  bank transfer. The random source is an argument; Unicode's letter and digit classes and case mapping are an argument
  for runes outside ASCII only.
\<close>

section \<open>Runes\<close>

text \<open>The runes of a string, each as its bytes; an ill-formed byte stands alone.\<close>

function runes :: "string \<Rightarrow> string list" where
  "runes [] = []"
| "runes (c # s) = (c # take (runeLen (c # s) - 1) s) # runes (drop (runeLen (c # s) - 1) s)"
  by pat_completeness auto
termination
  by (relation "measure length") auto

record unicode =
  uc_letter :: "string \<Rightarrow> bool"
  uc_digit :: "string \<Rightarrow> bool"
  uc_upper :: "string \<Rightarrow> string"

definition asciiLetter :: "char \<Rightarrow> bool" where
  "asciiLetter c \<longleftrightarrow> byteIn 65 90 c \<or> byteIn 97 122 c"

definition upperChar :: "char \<Rightarrow> char" where
  "upperChar c = (if byteIn 97 122 c then char_of ((of_char c :: nat) - 32) else c)"

fun wordRune :: "unicode \<Rightarrow> string \<Rightarrow> bool" where
  "wordRune uc [c] \<longleftrightarrow> asciiLetter c \<or> isDigitChar c \<or> c = CHR ''-''"
| "wordRune uc r \<longleftrightarrow> uc_letter uc r \<or> uc_digit uc r"

fun upperRune :: "unicode \<Rightarrow> string \<Rightarrow> string" where
  "upperRune uc [c] = [upperChar c]"
| "upperRune uc r = uc_upper uc r"

definition ToUpper :: "unicode \<Rightarrow> string \<Rightarrow> string" where
  "ToUpper uc s = concat (map (upperRune uc) (runes s))"

text \<open>\<open>strings.FieldsFunc\<close>: the maximal runs of runes that satisfy \<open>w\<close>.\<close>

function fieldsOf :: "('r \<Rightarrow> bool) \<Rightarrow> 'r list \<Rightarrow> 'r list list" where
  "fieldsOf w rs =
     (case dropWhile (\<lambda>r. \<not> w r) rs of
        [] \<Rightarrow> []
      | r # rest \<Rightarrow> (r # takeWhile w rest) # fieldsOf w (dropWhile w rest))"
  by auto
termination
proof (relation "measure (\<lambda>(w, rs). length rs)")
  fix w and rs :: "'r list" and r rest
  assume "dropWhile (\<lambda>r. \<not> w r) rs = r # rest"
  then have "length rest < length rs" using length_dropWhile_le [of "\<lambda>r. \<not> w r" rs] by simp
  then show "((w, dropWhile w rest), (w, rs)) \<in> measure (\<lambda>(w, rs). length rs)"
    using length_dropWhile_le [of w rest] by simp
qed simp

declare fieldsOf.simps [simp del]

section \<open>The generator\<close>

record reference_generator =
  rg_prefix :: string
  rg_bytes :: int

definition upperAlnum :: "char \<Rightarrow> bool" where
  "upperAlnum c \<longleftrightarrow> byteIn 65 90 c \<or> isDigitChar c"

definition safeReferencePart :: "string \<Rightarrow> bool" where
  "safeReferencePart value \<longleftrightarrow> 1 \<le> length value \<and> length value \<le> 12 \<and> list_all upperAlnum value"

definition NewPaymentReferenceGenerator :: "unicode \<Rightarrow> string \<Rightarrow> int \<Rightarrow> error + reference_generator" where
  "NewPaymentReferenceGenerator uc prefix0 randomBytes =
     (let prefix = TrimSpace (ToUpper uc prefix0) in
      if \<not> safeReferencePart prefix \<or> randomBytes < 4 \<or> randomBytes > 24 then Inl ErrInvalidInput
      else Inr \<lparr>rg_prefix = prefix, rg_bytes = randomBytes\<rparr>)"

definition hexDigit :: "nat \<Rightarrow> char" where
  "hexDigit d = (if d < 10 then char_of (48 + d) else char_of (87 + d))"

definition hex_EncodeToString :: "string \<Rightarrow> string" where
  "hex_EncodeToString bytes =
     concat (map (\<lambda>b. [hexDigit ((of_char b :: nat) div 16), hexDigit ((of_char b :: nat) mod 16)]) bytes)"

text \<open>\<open>random n\<close> is what \<open>io.ReadFull\<close> delivers: \<open>n\<close> bytes, or an error.\<close>

definition Generate :: "unicode \<Rightarrow> (int \<Rightarrow> string option) \<Rightarrow> reference_generator \<Rightarrow> error + string" where
  "Generate uc random g =
     (case random (rg_bytes g) of
        None \<Rightarrow> Inl ErrPaymentReferenceCollision
      | Some buffer \<Rightarrow> Inr (rg_prefix g @ ToUpper uc (hex_EncodeToString buffer)))"

section \<open>The extractor\<close>

datatype PaymentReferenceMatch =
  PaymentReferenceExact | PaymentReferenceMissing | PaymentReferenceMultiple | PaymentReferenceInvalid

record PaymentReferenceExtraction =
  pre_Match :: PaymentReferenceMatch
  pre_Reference :: string

record reference_extractor =
  re_prefix :: string
  re_tokenLength :: int
  re_contentLimit :: int

definition DefaultPaymentTransferContentLimit :: int where
  "DefaultPaymentTransferContentLimit = 2048"

definition NewPaymentReferenceExtractor :: "unicode \<Rightarrow> string \<Rightarrow> int \<Rightarrow> int \<Rightarrow> error + reference_extractor" where
  "NewPaymentReferenceExtractor uc prefix0 randomBytes contentLimit =
     (let prefix = ToUpper uc (TrimSpace prefix0) in
      if \<not> safeReferencePart prefix \<or> randomBytes < 4 \<or> randomBytes > 24 \<or> contentLimit \<le> 0 \<or> contentLimit > 8192
      then Inl ErrInvalidInput
      else Inr \<lparr>re_prefix = prefix, re_tokenLength = int (length prefix) + randomBytes * 2,
        re_contentLimit = contentLimit\<rparr>)"

definition isUpperHex :: "char \<Rightarrow> bool" where
  "isUpperHex c \<longleftrightarrow> isDigitChar c \<or> byteIn 65 70 c"

definition allUpperHex :: "string \<Rightarrow> bool" where
  "allUpperHex value \<longleftrightarrow> value \<noteq> [] \<and> list_all isUpperHex value"

text \<open>The loop over the upper-cased tokens: the valid ones, and whether an invalid one was met.\<close>

fun scanTokens :: "reference_extractor \<Rightarrow> string list \<Rightarrow> string list \<times> bool" where
  "scanTokens e [] = ([], False)"
| "scanTokens e (token # rest) =
     (let (valid, invalid) = scanTokens e rest in
      case stripPrefix (re_prefix e) token of
        None \<Rightarrow> (valid, invalid)
      | Some suffix \<Rightarrow>
          if suffix = [] \<or> \<not> isUpperHex (hd suffix) then (valid, invalid)
          else if int (length token) = re_tokenLength e \<and> allUpperHex suffix then (token # valid, invalid)
          else (valid, True))"

definition tokensOf :: "unicode \<Rightarrow> string \<Rightarrow> string list" where
  "tokensOf uc content = map (\<lambda>chunks. concat (map (upperRune uc) chunks)) (fieldsOf (wordRune uc) (runes content))"

definition extraction :: "PaymentReferenceMatch \<Rightarrow> string \<Rightarrow> PaymentReferenceExtraction" where
  "extraction m r = \<lparr>pre_Match = m, pre_Reference = r\<rparr>"

definition Extract :: "unicode \<Rightarrow> reference_extractor option \<Rightarrow> string \<Rightarrow> PaymentReferenceExtraction" where
  "Extract uc self content =
     (case self of None \<Rightarrow> extraction PaymentReferenceMissing []
      | Some e \<Rightarrow>
        if content = [] then extraction PaymentReferenceMissing []
        else if int (length content) > re_contentLimit e then extraction PaymentReferenceInvalid []
        else case scanTokens e (tokensOf uc content) of (valid, invalid) \<Rightarrow>
          (case valid of
             [] \<Rightarrow> extraction (if invalid then PaymentReferenceInvalid else PaymentReferenceMissing) []
           | [r] \<Rightarrow> if invalid then extraction PaymentReferenceMultiple []
               else extraction PaymentReferenceExact r
           | _ \<Rightarrow> extraction PaymentReferenceMultiple []))"

section \<open>ASCII text\<close>

definition asciiWord :: "char \<Rightarrow> bool" where
  "asciiWord c \<longleftrightarrow> asciiLetter c \<or> isDigitChar c \<or> c = CHR ''-''"

lemma runeLen_ascii: "byteIn 0 127 c \<Longrightarrow> runeLen (c # s) = 1"
  by (simp add: runeLen_def nextIn_def)

lemma runes_ascii: "list_all (byteIn 0 127) s \<Longrightarrow> runes s = map (\<lambda>c. [c]) s"
  by (induction s) (simp_all add: runeLen_ascii)

lemma asciiWord_byte: "asciiWord c \<Longrightarrow> byteIn 0 127 c"
  by (auto simp: asciiWord_def asciiLetter_def byteIn_def isDigitChar_def)

lemma ToUpper_ascii: "list_all (byteIn 0 127) s \<Longrightarrow> ToUpper uc s = map upperChar s"
  by (induction s) (simp_all add: ToUpper_def runes_ascii runeLen_ascii)

section \<open>Where runes end\<close>

lemma nextIn_cut:
  "k < length xs \<Longrightarrow> nextIn k l h (xs @ ys) = nextIn k l h xs"
  "length xs \<le> k \<Longrightarrow> nextIn k l h xs = False"
  "128 \<le> l \<Longrightarrow> h \<le> 191 \<Longrightarrow> \<not> byteIn 128 191 y \<Longrightarrow> k = length xs \<Longrightarrow> nextIn k l h (xs @ y # ys) = False"
  by (auto simp: nextIn_def nth_append byteIn_def)

lemma runeLen_cut:
  assumes xs: "xs \<noteq> []" and y: "\<not> byteIn 128 191 y"
  shows "runeLen (xs @ y # ys) = runeLen xs"
proof -
  let ?s = "xs @ y # ys"
  have first: "nextIn 0 l h ?s = nextIn 0 l h xs" for l h
    using xs by (simp add: nextIn_cut(1))
  have step: "nextIn (Suc k) l h ?s = nextIn (Suc k) l h xs" if "k < length xs" "128 \<le> l" "h \<le> 191" for k l h
  proof (cases "Suc k < length xs")
    case True
    then show ?thesis by (rule nextIn_cut(1))
  next
    case False
    then show ?thesis using nextIn_cut(3) [OF that(2,3) y, of "Suc k" xs ys] nextIn_cut(2) [of xs "Suc k" l h] that(1) by simp
  qed
  have second: "nextIn 1 l h ?s = nextIn 1 l h xs" if "128 \<le> l" "h \<le> 191" for l h
    using step [of 0 l h] xs that by simp
  have inside: "nextIn k l h xs \<Longrightarrow> k < length xs" for k l h by (simp add: nextIn_def)
  have third: "A \<and> nextIn 2 128 191 ?s \<longleftrightarrow> A \<and> nextIn 2 128 191 xs" if "A \<Longrightarrow> 1 < length xs" for A
    using step [of 1 128 191] that by (auto simp: numeral_2_eq_2)
  have fourth: "A \<and> nextIn 2 128 191 xs \<and> nextIn 3 128 191 ?s \<longleftrightarrow> A \<and> nextIn 2 128 191 xs \<and> nextIn 3 128 191 xs" for A
    using step [of 2 128 191] inside [of 2 128 191] by (auto simp: numeral_3_eq_3)
  have last: "A \<and> nextIn 2 128 191 ?s \<and> nextIn 3 128 191 ?s \<longleftrightarrow> A \<and> nextIn 2 128 191 xs \<and> nextIn 3 128 191 xs"
    if "A \<Longrightarrow> 1 < length xs" for A
    using third [OF that] fourth [of A] by blast
  have two: "(P \<and> nextIn 1 a b xs) \<or> (Q \<and> nextIn 1 c d xs) \<or> (R \<and> nextIn 1 e f xs) \<Longrightarrow> 1 < length xs"
    "(P \<and> nextIn 1 a b xs) \<or> (Q \<and> nextIn 1 c d xs) \<or> (R \<and> nextIn 1 e f xs) \<or> (S \<and> nextIn 1 g h xs) \<Longrightarrow> 1 < length xs"
    for P Q R S a b c d e f g h using inside by blast+
  have ranges: "nextIn 1 128 191 ?s = nextIn 1 128 191 xs" "nextIn 1 160 191 ?s = nextIn 1 160 191 xs"
    "nextIn 1 128 159 ?s = nextIn 1 128 159 xs" "nextIn 1 144 191 ?s = nextIn 1 144 191 xs"
    "nextIn 1 128 143 ?s = nextIn 1 128 143 xs"
    by (rule second; simp)+
  show ?thesis
    unfolding runeLen_def first
    by (simp only: ranges third [OF two(2)] last [OF two(1)])
qed

lemma nextIn_length: "nextIn k l h s \<Longrightarrow> Suc k \<le> length s"
  by (simp add: nextIn_def)

lemma if_le: "(c \<Longrightarrow> a \<le> n) \<Longrightarrow> b \<le> n \<Longrightarrow> (if c then a else b) \<le> (n :: nat)"
  by simp

lemma runeLen_le: "runeLen s \<le> length s"
  unfolding runeLen_def by (intro if_le) (auto dest: nextIn_length)

lemma runes_cut: "\<not> byteIn 128 191 y \<Longrightarrow> runes (xs @ y # ys) = runes xs @ runes (y # ys)"
proof (induction xs rule: runes.induct)
  case (2 c s)
  have le: "runeLen (c # s) - 1 \<le> length s" using runeLen_le [of "c # s"] by simp
  have "runes ((c # s) @ y # ys) = (c # take (runeLen (c # s) - 1) s) # runes (drop (runeLen (c # s) - 1) s @ y # ys)"
    using runeLen_cut [of "c # s" y ys] 2(2) le by simp
  then show ?case using 2 by simp
qed simp

lemma runes_ascii_append: "list_all (byteIn 0 127) w \<Longrightarrow> runes (w @ s) = map (\<lambda>c. [c]) w @ runes s"
  by (induction w) (simp_all add: runeLen_ascii)

text \<open>The bytes of a text around an ASCII word do not change how the word is read.\<close>

lemma runes_around:
  assumes "w \<noteq> []" "list_all (byteIn 0 127) w"
  shows "runes (before @ w @ after) = runes before @ map (\<lambda>c. [c]) w @ runes after"
proof -
  obtain y ys where w: "w = y # ys" using assms(1) by (cases w) auto
  then have "\<not> byteIn 128 191 y" using assms(2) by (simp add: byteIn_def)
  from runes_cut [OF this, of before "ys @ after"] show ?thesis
    using runes_ascii_append [OF assms(2), of after] by (simp add: w)
qed

section \<open>Words of a text\<close>

lemma fieldsOf_Nil [simp]: "fieldsOf w [] = []"
  by (simp add: fieldsOf.simps)

lemma fieldsOf_sep: "\<not> w r \<Longrightarrow> fieldsOf w (r # rs) = fieldsOf w rs"
  by (subst (1 2) fieldsOf.simps) simp

lemma fieldsOf_word: "w r \<Longrightarrow> fieldsOf w (r # rs) = (r # takeWhile w rs) # fieldsOf w (dropWhile w rs)"
  by (subst fieldsOf.simps) simp

text \<open>What stands on the two sides of a rune that ends words is split on its own.\<close>

lemma fieldsOf_separated: "\<not> w c \<Longrightarrow> fieldsOf w (xs @ c # ys) = fieldsOf w xs @ fieldsOf w ys"
proof (induction xs rule: length_induct)
  case (1 xs)
  show ?case
  proof (cases xs)
    case Nil
    then show ?thesis using 1(2) by (simp add: fieldsOf_sep)
  next
    case (Cons r rest)
    show ?thesis
    proof (cases "w r")
      case True
      have "fieldsOf w (dropWhile w rest @ c # ys) = fieldsOf w (dropWhile w rest) @ fieldsOf w ys"
        using 1 Cons length_dropWhile_le [of w rest] by simp
      moreover have "takeWhile w (rest @ c # ys) = takeWhile w rest" "dropWhile w (rest @ c # ys) = dropWhile w rest @ c # ys"
        using 1(2) by (induction rest) auto
      ultimately show ?thesis using True Cons by (simp add: fieldsOf_word)
    next
      case False
      then show ?thesis using 1 Cons by (simp add: fieldsOf_sep)
    qed
  qed
qed

lemma fieldsOf_one: "x \<noteq> [] \<Longrightarrow> list_all w x \<Longrightarrow> fieldsOf w x = [x]"
  by (cases x) (auto simp: fieldsOf_word list_all_iff takeWhile_eq_all_conv dropWhile_eq_Nil_conv [THEN iffD2])

definition standsApart :: "('r \<Rightarrow> bool) \<Rightarrow> 'r list \<Rightarrow> 'r list \<Rightarrow> bool" where
  "standsApart w before after \<longleftrightarrow> (before = [] \<or> \<not> w (last before)) \<and> (after = [] \<or> \<not> w (hd after))"

lemma fieldsOf_apart:
  assumes x: "x \<noteq> []" "list_all w x" and "standsApart w before after"
  shows "fieldsOf w (before @ x @ after) = fieldsOf w before @ x # fieldsOf w after"
proof -
  have right: "fieldsOf w (x @ after) = x # fieldsOf w after"
  proof (cases after)
    case Nil
    then show ?thesis using fieldsOf_one [OF x] by simp
  next
    case (Cons a as)
    then show ?thesis
      using fieldsOf_separated [of w a x as] fieldsOf_one [OF x] assms(3) by (simp add: standsApart_def fieldsOf_sep)
  qed
  show ?thesis
  proof (cases before rule: rev_cases)
    case Nil
    then show ?thesis using right by simp
  next
    case (snoc ys y)
    then have y: "\<not> w y" using assms(3) by (simp add: standsApart_def)
    show ?thesis using fieldsOf_separated [of w y ys] fieldsOf_separated [of w y ys "[]"] y right by (simp add: snoc)
  qed
qed

section \<open>A canonical prefix\<close>

lemma stripPrefix_iff: "stripPrefix p s = Some r \<longleftrightarrow> s = p @ r"
  by (induction p s rule: stripPrefix.induct) auto

text \<open>No rune of the list begins another, so trimming takes off one rune after another.\<close>

definition prefixFree :: "string list \<Rightarrow> bool" where
  "prefixFree ws \<longleftrightarrow> list_all (\<lambda>r. r \<noteq> [] \<and> list_all (\<lambda>w. w = r \<or> stripPrefix w r = None \<and> stripPrefix r w = None) ws) ws"

lemma stripPrefix_self [simp]: "stripPrefix r (r @ s) = Some s"
  by (induction r) auto

lemma stripPrefix_other: "stripPrefix w r = None \<Longrightarrow> stripPrefix r w = None \<Longrightarrow> stripPrefix w (r @ s) = None"
  by (induction w r rule: stripPrefix.induct) (auto split: if_splits)

lemma firstStrip_other:
  "r \<in> set ws \<Longrightarrow> list_all (\<lambda>w. w = r \<or> stripPrefix w r = None \<and> stripPrefix r w = None) ws \<Longrightarrow>
   firstStrip ws (r @ s) = Some s"
  by (induction ws) (auto simp: stripPrefix_other)

lemma space_free: "prefixFree whiteSpaceRunes" "prefixFree (map rev whiteSpaceRunes)"
  by code_simp+

lemma firstStrip_member: "prefixFree ws \<Longrightarrow> r \<in> set ws \<Longrightarrow> firstStrip ws (r @ s) = Some s"
  by (rule firstStrip_other) (auto simp: prefixFree_def list_all_iff)

lemma trim_member: "prefixFree ws \<Longrightarrow> r \<in> set ws \<Longrightarrow> trimLeftWith ws (r @ s) = trimLeftWith ws s"
  by (subst trimLeftWith.simps) (auto simp: firstStrip_member prefixFree_def list_all_iff)

lemma trim_members: "prefixFree ws \<Longrightarrow> set rs \<subseteq> set ws \<Longrightarrow> trimLeftWith ws (concat rs @ s) = trimLeftWith ws s"
  by (induction rs) (auto simp: trim_member)

text \<open>What trimming takes off is a sequence of the runes it trims.\<close>

lemma firstStrip_suffix: "firstStrip ws s = Some r \<Longrightarrow> \<exists>w \<in> set ws. s = w @ r"
  by (induction ws) (auto split: option.splits simp: stripPrefix_length, metis stripPrefix_iff)

lemma trim_split: "\<exists>rs. set rs \<subseteq> set ws \<and> s = concat rs @ trimLeftWith ws s"
proof (induction ws s rule: trimLeftWith.induct)
  case (1 ws s)
  show ?case
  proof (cases "[] \<in> set ws \<or> firstStrip ws s = None")
    case True
    then have "trimLeftWith ws s = s" by (subst trimLeftWith.simps) auto
    then show ?thesis by (intro exI [of _ "[]"]) simp
  next
    case False
    then obtain r where e: "[] \<notin> set ws" and r: "firstStrip ws s = Some r" by auto
    obtain w where w: "w \<in> set ws" "s = w @ r" using firstStrip_suffix [OF r] ..
    obtain rs where "set rs \<subseteq> set ws" "r = concat rs @ trimLeftWith ws r" using 1 [OF e r] by blast
    moreover have "trimLeftWith ws s = trimLeftWith ws r" using e r by (subst trimLeftWith.simps) simp
    ultimately show ?thesis using w by (intro exI [of _ "w # rs"]) simp
  qed
qed

lemma TrimSpace_split:
  "\<exists>as cs. set as \<subseteq> set whiteSpaceRunes \<and> set cs \<subseteq> set whiteSpaceRunes \<and> s = concat as @ TrimSpace s @ concat cs"
proof -
  define m where "m = trimLeftWith whiteSpaceRunes s"
  obtain as where as: "set as \<subseteq> set whiteSpaceRunes" "s = concat as @ m"
    using trim_split [of whiteSpaceRunes s] by (auto simp: m_def)
  obtain cs where cs: "set cs \<subseteq> set (map rev whiteSpaceRunes)" "rev m = concat cs @ rev (TrimSpace s)"
    using trim_split [of "map rev whiteSpaceRunes" "rev m"] by (auto simp: m_def TrimSpace_def)
  have "m = TrimSpace s @ concat (rev (map rev cs))"
    using arg_cong [OF cs(2), of rev] by (simp add: rev_concat rev_map)
  moreover have "set (rev (map rev cs)) \<subseteq> set whiteSpaceRunes" using cs(1) by force
  ultimately show ?thesis using as by metis
qed

definition soloRune :: "string \<Rightarrow> bool" where
  "soloRune r \<longleftrightarrow> (case r of [a] \<Rightarrow> byteIn 0 127 a | [a, b] \<Rightarrow> byteIn 0xC2 0xDF a \<and> byteIn 128 191 b
    | [a, b, c] \<Rightarrow> byteIn 0xE1 0xEC a \<and> byteIn 128 191 b \<and> byteIn 128 191 c | _ \<Rightarrow> False)"

lemma space_solo: "list_all (\<lambda>r. soloRune r \<and> \<not> byteIn 128 191 (hd r) \<and> map upperChar r = r) whiteSpaceRunes"
  by code_simp

lemma nextIn_here:
  "nextIn 0 l h (a # s) = byteIn l h a" "nextIn 1 l h (a # b # s) = byteIn l h b"
  "nextIn 2 l h (a # b # c # s) = byteIn l h c"
  by (simp_all add: nextIn_def)

lemma runeLen_solo: "soloRune r \<Longrightarrow> runeLen (r @ s) = length r"
proof -
  assume r: "soloRune r"
  then consider a where "r = [a]" "byteIn 0 127 a" | a b where "r = [a, b]" "byteIn 0xC2 0xDF a" "byteIn 128 191 b"
    | a b c where "r = [a, b, c]" "byteIn 0xE1 0xEC a" "byteIn 128 191 b" "byteIn 128 191 c"
    by (auto simp: soloRune_def split: list.splits)
  then show ?thesis
  proof cases
    case (2 a b)
    then have "byteIn 0 127 a = False" by (simp add: byteIn_def)
    with 2 show ?thesis unfolding runeLen_def by (simp add: nextIn_here del: One_nat_def)
  next
    case (3 a b c)
    then have "byteIn 0 127 a = False" "byteIn 0xC2 0xDF a = False" by (simp_all add: byteIn_def)
    with 3 show ?thesis unfolding runeLen_def by (simp add: nextIn_here del: One_nat_def)
  qed (simp add: runeLen_def nextIn_here)
qed

lemma runes_solo: "soloRune r \<Longrightarrow> runes (r @ s) = r # runes s"
  using runeLen_solo [of r s] by (cases r) (simp_all add: soloRune_def)

lemma firstStrip_None: "list_all (\<lambda>w. w \<noteq> [] \<and> hd w \<noteq> c) ws \<Longrightarrow> firstStrip ws (c # s) = None"
proof (induction ws)
  case (Cons w ws)
  then show ?case by (cases w) auto
qed simp

lemma space_not_alnum:
  "list_all (\<lambda>w. w \<noteq> [] \<and> \<not> upperAlnum (hd w)) whiteSpaceRunes"
  "list_all (\<lambda>w. w \<noteq> [] \<and> \<not> upperAlnum (hd w)) (map rev whiteSpaceRunes)"
  by code_simp+

lemma alnum_not_space: "upperAlnum c \<Longrightarrow> firstStrip whiteSpaceRunes (c # s) = None"
  "upperAlnum c \<Longrightarrow> firstStrip (map rev whiteSpaceRunes) (c # s) = None"
  using space_not_alnum by (auto intro!: firstStrip_None simp: list_all_iff)

lemma trim_stops: "z \<noteq> [] \<Longrightarrow> upperAlnum (hd z) \<Longrightarrow> trimLeftWith whiteSpaceRunes (z @ s) = z @ s"
  "z \<noteq> [] \<Longrightarrow> upperAlnum (hd z) \<Longrightarrow> trimLeftWith (map rev whiteSpaceRunes) z = z"
  using alnum_not_space [of "hd z"] by (cases z; subst trimLeftWith.simps; simp)+

lemma TrimSpace_inner:
  assumes "set as \<subseteq> set whiteSpaceRunes" "set cs \<subseteq> set whiteSpaceRunes" "z \<noteq> []" "list_all upperAlnum z"
  shows "TrimSpace (concat as @ z @ concat cs) = z"
proof -
  have ends: "upperAlnum (hd z)" "upperAlnum (hd (rev z))"
    using assms(3,4) by (simp_all add: list_all_iff hd_rev)
  have "trimLeftWith whiteSpaceRunes (concat as @ z @ concat cs) = z @ concat cs"
    using trim_members [OF space_free(1) assms(1)] trim_stops(1) [OF assms(3) ends(1)] by simp
  moreover have "set (rev (map rev cs)) \<subseteq> set (map rev whiteSpaceRunes)" using assms(2) by auto
  then have "trimLeftWith (map rev whiteSpaceRunes) (concat (rev (map rev cs)) @ rev z) = rev z"
    using trim_members [OF space_free(2)] trim_stops(2) [of "rev z"] assms(3) ends(2) by simp
  ultimately show ?thesis by (simp add: TrimSpace_def rev_concat rev_map)
qed

lemma trim_alnum: "list_all upperAlnum s \<Longrightarrow> TrimSpace s = s"
  using TrimSpace_inner [of "[]" "[]" s]
  by (cases s) (simp_all add: TrimSpace_def trimLeftWith.simps whiteSpaceRunes_def)

section \<open>One prefix\<close>

text \<open>
  The generator trims what it has upper-cased and the extractor upper-cases what it has trimmed. The two agree on
  every prefix the extractor accepts, since Unicode's upper case leaves white space as it is.
\<close>

definition keepsSpace :: "unicode \<Rightarrow> bool" where
  "keepsSpace uc \<longleftrightarrow> list_all (\<lambda>r. length r = 1 \<or> uc_upper uc r = r) whiteSpaceRunes"

lemma space_rune:
  assumes "r \<in> set whiteSpaceRunes"
  shows "soloRune r" "\<not> byteIn 128 191 (hd r)" "map upperChar r = r" "r \<noteq> []"
  using assms space_solo by (auto simp: list_all_iff soloRune_def)

lemma ToUpper_spaces:
  assumes "keepsSpace uc"
  shows "set rs \<subseteq> set whiteSpaceRunes \<Longrightarrow> ToUpper uc (concat rs @ s) = concat rs @ ToUpper uc s"
proof (induction rs)
  case (Cons r rs)
  then have r: "r \<in> set whiteSpaceRunes" by simp
  then have "upperRune uc r = r"
    using assms space_rune(3) [OF r] by (cases "(uc, r)" rule: upperRune.cases) (auto simp: keepsSpace_def list_all_iff)
  then show ?case using Cons runes_solo [OF space_rune(1) [OF r]] by (simp add: ToUpper_def)
qed simp

lemma ToUpper_before_spaces:
  assumes "keepsSpace uc" "set cs \<subseteq> set whiteSpaceRunes"
  shows "ToUpper uc (m @ concat cs) = ToUpper uc m @ concat cs"
proof (cases cs)
  case (Cons c rest)
  then obtain y ys where c: "c = y # ys" "\<not> byteIn 128 191 y"
    using assms(2) space_rune(2,4) [of c] by (cases c) auto
  have "ToUpper uc (m @ concat cs) = ToUpper uc m @ ToUpper uc (concat cs)"
    using runes_cut [OF c(2), of m "ys @ concat rest"] by (simp add: ToUpper_def Cons c(1))
  then show ?thesis using ToUpper_spaces [OF assms, of "[]"] by (simp add: ToUpper_def)
qed simp

lemma prefixes_agree:
  assumes "keepsSpace uc" "safeReferencePart (ToUpper uc (TrimSpace p))"
  shows "TrimSpace (ToUpper uc p) = ToUpper uc (TrimSpace p)"
proof -
  obtain as cs where split: "set as \<subseteq> set whiteSpaceRunes" "set cs \<subseteq> set whiteSpaceRunes"
      "p = concat as @ TrimSpace p @ concat cs"
    using TrimSpace_split by blast
  have "ToUpper uc p = concat as @ ToUpper uc (TrimSpace p) @ concat cs"
    using ToUpper_spaces [OF assms(1) split(1)] ToUpper_before_spaces [OF assms(1) split(2)] by (subst split(3)) simp
  then show ?thesis
    using TrimSpace_inner [OF split(1,2), of "ToUpper uc (TrimSpace p)"] assms(2) by (cases "ToUpper uc (TrimSpace p)") (auto simp: safeReferencePart_def)
qed

lemma upper_hexDigit: "d < 16 \<Longrightarrow> isUpperHex (upperChar (hexDigit d)) \<and> byteIn 0 127 (hexDigit d)"
  by (auto simp: hexDigit_def upperChar_def isUpperHex_def byteIn_def isDigitChar_def)

lemma upper_hex:
  "length (ToUpper uc (hex_EncodeToString b)) = 2 * length b \<and> list_all isUpperHex (ToUpper uc (hex_EncodeToString b))"
proof -
  have bytes: "list_all (byteIn 0 127) (hex_EncodeToString b) \<and> list_all (\<lambda>c. isUpperHex (upperChar c)) (hex_EncodeToString b)"
  proof (induction b)
    case (Cons c b)
    have "(of_char c :: nat) div 16 < 16" using nat_of_char_less_256 [of c] by linarith
    then show ?case using Cons upper_hexDigit [of "of_char c div 16"] upper_hexDigit [of "of_char c mod 16"]
      by (simp add: hex_EncodeToString_def)
  qed (simp add: hex_EncodeToString_def)
  moreover have "length (hex_EncodeToString b) = 2 * length b"
    by (induction b) (simp_all add: hex_EncodeToString_def)
  ultimately show ?thesis by (simp add: ToUpper_ascii list_all_iff)
qed

section \<open>Round trip\<close>

text \<open>A token that counts: the shop's prefix followed by an upper-case hexadecimal digit.\<close>

definition candidate :: "string \<Rightarrow> string \<Rightarrow> bool" where
  "candidate prefix token \<longleftrightarrow>
     (case stripPrefix prefix token of None \<Rightarrow> False | Some suffix \<Rightarrow> suffix \<noteq> [] \<and> isUpperHex (hd suffix))"

lemma scanTokens_skip:
  "(\<And>t. t \<in> set ts \<Longrightarrow> \<not> candidate (re_prefix e) t) \<Longrightarrow> scanTokens e (ts @ us) = scanTokens e us"
proof (induction ts)
  case (Cons t ts)
  then have "\<not> candidate (re_prefix e) t" "scanTokens e (ts @ us) = scanTokens e us" by auto
  then show ?case by (auto simp: candidate_def split: prod.splits option.splits)
qed simp

lemma scanTokens_none:
  "(\<And>t. t \<in> set ts \<Longrightarrow> \<not> candidate (re_prefix e) t) \<Longrightarrow> scanTokens e ts = ([], False)"
  using scanTokens_skip [of ts e "[]"] by simp

lemma scanTokens_valid:
  "scanTokens e ts = (valid, invalid) \<Longrightarrow> r \<in> set valid \<Longrightarrow>
   r \<in> set ts \<and> (\<exists>suffix. r = re_prefix e @ suffix \<and> allUpperHex suffix) \<and> int (length r) = re_tokenLength e"
proof (induction ts arbitrary: valid invalid)
  case (Cons t ts)
  obtain v i where v: "scanTokens e ts = (v, i)" by fastforce
  show ?case
  proof (cases "r \<in> set v")
    case True
    then show ?thesis using Cons.IH [OF v] by auto
  next
    case False
    then show ?thesis
      using Cons.prems v by (auto simp: Let_def stripPrefix_iff split: option.splits if_splits)
  qed
qed simp

lemma upperAlnum_word: "upperAlnum (upperChar c) \<Longrightarrow> asciiWord c"
  by (auto simp: upperAlnum_def upperChar_def asciiWord_def asciiLetter_def byteIn_def isDigitChar_def split: if_splits)

lemma upperHex_alnum: "isUpperHex c \<Longrightarrow> upperAlnum c"
  by (auto simp: isUpperHex_def upperAlnum_def byteIn_def)

lemma tokensOf_around:
  assumes w: "w \<noteq> []" "list_all asciiWord w" and "standsApart (wordRune uc) (runes before) (runes after)"
  shows "tokensOf uc (before @ w @ after) = tokensOf uc before @ map upperChar w # tokensOf uc after"
proof -
  have "list_all (wordRune uc) (map (\<lambda>c. [c]) w)" using w(2) by (simp add: list_all_iff asciiWord_def)
  moreover have "concat (map (upperRune uc) (map (\<lambda>c. [c]) w)) = map upperChar w" by (induction w) simp_all
  moreover have "list_all (byteIn 0 127) w" using w(2) asciiWord_byte by (auto simp: list_all_iff)
  ultimately show ?thesis
    using assms by (simp add: tokensOf_def runes_around fieldsOf_apart)
qed

text \<open>
  C21. Round trip of payment references: a reference the generator makes, written in upper or lower case anywhere
  in a transfer text, is what the extractor finds. The text is any bytes within the limit: what stands before and
  after the reference only has to end and begin with a rune that is no letter, digit or hyphen, and to hold no other
  token that begins with the shop's prefix and a hexadecimal digit. The prefix is any the two constructors accept.
\<close>

theorem reference_roundtrip:
  assumes "keepsSpace uc"
    and "NewPaymentReferenceGenerator uc prefix0 n = Inr g" "NewPaymentReferenceExtractor uc prefix0 n limit = Inr e"
    and "random n = Some buffer" "int (length buffer) = n" "Generate uc random g = Inr ref"
    and "map upperChar w = ref" "standsApart (wordRune uc) (runes before) (runes after)"
    and "\<forall>t \<in> set (tokensOf uc before @ tokensOf uc after). \<not> candidate (re_prefix e) t"
    and "int (length (before @ w @ after)) \<le> limit"
  shows "Extract uc (Some e) (before @ w @ after) = extraction PaymentReferenceExact ref"
proof -
  let ?prefix = "ToUpper uc (TrimSpace prefix0)" and ?hex = "ToUpper uc (hex_EncodeToString buffer)"
  have e: "e = \<lparr>re_prefix = ?prefix, re_tokenLength = int (length ?prefix) + n * 2, re_contentLimit = limit\<rparr>"
    and safe: "safeReferencePart ?prefix" and n: "4 \<le> n"
    using assms(3) by (auto simp: NewPaymentReferenceExtractor_def Let_def split: if_splits)
  have g: "g = \<lparr>rg_prefix = ?prefix, rg_bytes = n\<rparr>"
    using assms(2) by (auto simp: NewPaymentReferenceGenerator_def Let_def prefixes_agree [OF assms(1) safe] split: if_splits)
  have ref: "ref = ?prefix @ ?hex" using assms(4,6) by (simp add: Generate_def g)
  have hex: "list_all isUpperHex ?hex" "int (length ?hex) = n * 2" "?hex \<noteq> []"
    using upper_hex [of uc buffer] assms(5) n by auto
  have "list_all upperAlnum (map upperChar w)"
    using safe hex(1) upperHex_alnum by (auto simp: assms(7) ref safeReferencePart_def list_all_iff)
  then have "list_all asciiWord w" by (auto simp: list_all_iff intro: upperAlnum_word)
  moreover have "w \<noteq> []" using hex(3) assms(7) ref by auto
  ultimately have w: "w \<noteq> []" "list_all asciiWord w" by simp_all
  have rest: "scanTokens e (tokensOf uc after) = ([], False)"
    using assms(9) by (intro scanTokens_none) auto
  have "stripPrefix ?prefix ref = Some ?hex" by (simp add: ref stripPrefix_iff)
  then have here: "scanTokens e (ref # tokensOf uc after) = ([ref], False)"
    using hex rest by (auto simp: e ref allUpperHex_def list_all_iff)
  have "scanTokens e (tokensOf uc (before @ w @ after)) = ([ref], False)"
    using assms(9) here by (subst tokensOf_around [OF w assms(8)], subst scanTokens_skip) (auto simp: assms(7))
  then show ?thesis
    using assms(10) w(1) unfolding Extract_def by (simp add: e)
qed

definition plain_unicode :: unicode where
  "plain_unicode = \<lparr>uc_letter = (\<lambda>_. False), uc_digit = (\<lambda>_. False), uc_upper = (\<lambda>r. r)\<rparr>"

theorem reference_roundtrip_witness:
  "Extract plain_unicode (Some \<lparr>re_prefix = ''SHOP'', re_tokenLength = 12, re_contentLimit = 2048\<rparr>)
     (''shopping for you'' @ [CHR 0xE2, CHR 0x80, CHR 0x94] @ ''shop00abff10, now'') = extraction PaymentReferenceExact ''SHOP00ABFF10''"
proof -
  let ?bytes = "[CHR 0x00, CHR 0xAB, CHR 0xFF, CHR 0x10]" and ?before = "''shopping for you'' @ [CHR 0xE2, CHR 0x80, CHR 0x94]"
  let ?e = "\<lparr>re_prefix = ''SHOP'', re_tokenLength = 12, re_contentLimit = 2048\<rparr>"
  have "Extract plain_unicode (Some ?e) (?before @ ''shop00abff10'' @ '', now'') = extraction PaymentReferenceExact ''SHOP00ABFF10''"
  proof (rule reference_roundtrip [where ?prefix0.0 = "'' Shop ''" and n = 4 and random = "\<lambda>_. Some ?bytes" and buffer = ?bytes])
    show "keepsSpace plain_unicode" by code_simp
    show "NewPaymentReferenceGenerator plain_unicode '' Shop '' 4 = Inr \<lparr>rg_prefix = ''SHOP'', rg_bytes = 4\<rparr>" by code_simp
    show "NewPaymentReferenceExtractor plain_unicode '' Shop '' 4 2048 = Inr ?e" by code_simp
    show "Generate plain_unicode (\<lambda>_. Some ?bytes) \<lparr>rg_prefix = ''SHOP'', rg_bytes = 4\<rparr> = Inr ''SHOP00ABFF10''" by code_simp
    show "map upperChar ''shop00abff10'' = ''SHOP00ABFF10''" by code_simp
    show "standsApart (wordRune plain_unicode) (runes ?before) (runes '', now'')" by code_simp
    show "\<forall>t \<in> set (tokensOf plain_unicode ?before @ tokensOf plain_unicode '', now''). \<not> candidate (re_prefix ?e) t" by code_simp
  qed simp_all
  then show ?thesis by simp
qed

text \<open>
  The extractor never invents a reference: what it reports as exact is a token of the text, upper-cased, that
  has the shop's prefix, the full length and only hexadecimal digits after the prefix, and it is the only such token.
\<close>

theorem extraction_sound:
  assumes "Extract uc (Some e) content = extraction PaymentReferenceExact r"
  shows "r \<in> set (tokensOf uc content) \<and> (\<exists>suffix. r = re_prefix e @ suffix \<and> allUpperHex suffix) \<and>
    int (length r) = re_tokenLength e \<and> scanTokens e (tokensOf uc content) = ([r], False)"
proof -
  have "scanTokens e (tokensOf uc content) = ([r], False)"
    using assms by (auto simp: Extract_def extraction_def split: if_splits prod.splits list.splits)
  then show ?thesis using scanTokens_valid [of e "tokensOf uc content" "[r]" False r] by simp
qed

theorem extraction_sound_witness:
  "''SHOP00ABFF10'' \<in> set (tokensOf plain_unicode ''x:SHOP00abFF10.'') \<and>
   (\<exists>suffix. ''SHOP00ABFF10'' = ''SHOP'' @ suffix \<and> allUpperHex suffix)"
proof -
  let ?e = "\<lparr>re_prefix = ''SHOP'', re_tokenLength = 12, re_contentLimit = 2048\<rparr>"
  have "Extract plain_unicode (Some ?e) ''x:SHOP00abFF10.'' = extraction PaymentReferenceExact ''SHOP00ABFF10''"
    by code_simp
  from extraction_sound [OF this] show ?thesis by simp
qed

end
