(* ===== verification/Sql_Catalog.thy ===== *)
theory Sql_Catalog
  imports Sql_Inventory
begin

text \<open>
  The queries of \<open>internal/postgres/generated/\<close> behind the catalog, the bank accounts, the stock administration,
  the users and the administrative sessions (\<open>catalog.sql.go\<close>, \<open>bank_accounts.sql.go\<close>, \<open>inventory.sql.go\<close>,
  \<open>users.sql.go\<close>, \<open>admin.sql.go\<close>, \<open>telegram.sql.go\<close>).
\<close>

text \<open>\<open>LIMIT ... OFFSET ...\<close>: PostgreSQL refuses negative values.\<close>

definition selectPage :: "int32 \<Rightarrow> int32 \<Rightarrow> (db \<Rightarrow> 'r list) \<Rightarrow> 'r list dbtx" where
  "selectPage page_offset page_limit q =
     (if page_offset < 0 \<or> page_limit < 0 then throwE (ErrOther ''LIMIT/OFFSET must not be negative'')
      else sqlSelect (\<lambda>s. sqlPage page_offset page_limit (q s)))"

definition selectCount :: "(db \<Rightarrow> 'r list) \<Rightarrow> int64 dbtx" where
  "selectCount q = askE (\<lambda>s. int (length (q s)))"

section \<open>Categories and products\<close>

definition activeCategories :: "db \<Rightarrow> category_row list" where
  "activeCategories s = filter cat_is_active (categories s)"

definition CountActiveCategories :: "int64 dbtx" where
  "CountActiveCategories = selectCount activeCategories"

definition byPosition :: "category_row list \<Rightarrow> category_row list" where
  "byPosition rows = sort_key cat_sort_order (sort_key cat_id rows)"

definition ListActiveCategoriesPage :: "int32 \<Rightarrow> int32 \<Rightarrow> category_row list dbtx" where
  "ListActiveCategoriesPage page_offset page_limit =
     selectPage page_offset page_limit (\<lambda>s. byPosition (activeCategories s))"

text \<open>Products of an active category that are active themselves.\<close>

definition activeProducts :: "(product_row \<Rightarrow> bool) \<Rightarrow> db \<Rightarrow> product_row list" where
  "activeProducts p s = [x. x \<leftarrow> products s, c \<leftarrow> categories s,
     cat_id c = prd_category_id x \<and> p x \<and> prd_is_active x \<and> cat_is_active c]"

definition CountActiveProductsByCategory :: "int64 \<Rightarrow> int64 dbtx" where
  "CountActiveProductsByCategory category_id = selectCount (activeProducts (\<lambda>x. prd_category_id x = category_id))"

definition ListActiveProductsPage :: "int64 \<Rightarrow> int32 \<Rightarrow> int32 \<Rightarrow> product_row list dbtx" where
  "ListActiveProductsPage category_id page_offset page_limit =
     selectPage page_offset page_limit
       (\<lambda>s. sort_key prd_id (activeProducts (\<lambda>x. prd_category_id x = category_id) s))"

definition GetActiveProductDetail :: "int64 \<Rightarrow> product_row dbtx" where
  "GetActiveProductDetail product_id = sqlSelectOne (activeProducts (\<lambda>x. prd_id x = product_id))"

definition CountAdminCategories :: "int64 dbtx" where
  "CountAdminCategories = selectCount categories"

definition ListAdminCategoriesPage :: "int32 \<Rightarrow> int32 \<Rightarrow> category_row list dbtx" where
  "ListAdminCategoriesPage page_offset page_limit =
     selectPage page_offset page_limit (\<lambda>s. byPosition (categories s))"

definition CountAdminProducts :: "int64 dbtx" where
  "CountAdminProducts = selectCount products"

definition ListAdminProductsPage :: "int32 \<Rightarrow> int32 \<Rightarrow> product_row list dbtx" where
  "ListAdminProductsPage page_offset page_limit =
     selectPage page_offset page_limit (\<lambda>s. sort_key prd_category_id (sort_key prd_id (products s)))"

definition GetCategoryByID :: "int64 \<Rightarrow> category_row dbtx" where
  "GetCategoryByID cid = sqlSelectOne (\<lambda>s. filter (\<lambda>c. cat_id c = cid) (categories s))"

definition LockCategoryByID :: "int64 \<Rightarrow> category_row dbtx" where
  "LockCategoryByID cid = sqlSelectOne (\<lambda>s. filter (\<lambda>c. cat_id c = cid) (categories s))"

text \<open>The column default of \<open>emoji\<close>, a parcel (U+1F4E6).\<close>

definition defaultEmoji :: string where
  "defaultEmoji = [CHR 0xF0, CHR 0x9F, CHR 0x93, CHR 0xA6]"

definition CreateCategory_query :: "string \<Rightarrow> string \<Rightarrow> int32 \<Rightarrow> category_row dbtx" where
  "CreateCategory_query name slug sort_order =
     bindE (nextId Tab_categories) (\<lambda>i.
     sqlInsert categories categories_update category_ck category_uq
       \<lparr>cat_id = i, cat_name = name, cat_slug = slug, cat_emoji = defaultEmoji, cat_sort_order = sort_order,
        cat_is_active = True, cat_version = 1\<rparr>)"

definition updateCategories :: "(category_row \<Rightarrow> bool) \<Rightarrow> (category_row \<Rightarrow> category_row) \<Rightarrow> category_row list dbtx" where
  "updateCategories p f = sqlUpdate categories categories_update category_ck category_uq p f"

definition UpdateCategoryDetailsGuarded :: "string \<Rightarrow> int32 \<Rightarrow> int64 \<Rightarrow> int64 \<Rightarrow> category_row dbtx" where
  "UpdateCategoryDetailsGuarded name sort_order cid expected_version =
     one (updateCategories (\<lambda>c. cat_id c = cid \<and> cat_version c = expected_version)
       (\<lambda>c. c\<lparr>cat_name := name, cat_sort_order := sort_order, cat_version := cat_version c + 1\<rparr>))"

definition SetCategoryActiveGuarded :: "bool \<Rightarrow> int64 \<Rightarrow> int64 \<Rightarrow> category_row dbtx" where
  "SetCategoryActiveGuarded is_active cid expected_version =
     one (updateCategories (\<lambda>c. cat_id c = cid \<and> cat_version c = expected_version)
       (\<lambda>c. c\<lparr>cat_is_active := is_active, cat_version := cat_version c + 1\<rparr>))"

definition GetProductByID :: "int64 \<Rightarrow> product_row dbtx" where
  "GetProductByID pid = sqlSelectOne (\<lambda>s. filter (\<lambda>p. prd_id p = pid) (products s))"

definition LockProductByID :: "int64 \<Rightarrow> product_row dbtx" where
  "LockProductByID pid = sqlSelectOne (\<lambda>s. filter (\<lambda>p. prd_id p = pid) (products s))"

definition CreateProduct_query ::
  "int64 \<Rightarrow> string \<Rightarrow> string \<Rightarrow> string option \<Rightarrow> int64 \<Rightarrow> string \<Rightarrow> string option \<Rightarrow> product_row dbtx" where
  "CreateProduct_query category_id name slug description price_vnd delivery_type contact_url =
     bindE (nextId Tab_products) (\<lambda>i.
     bindE (askE clock) (\<lambda>ts.
     sqlInsert products products_update product_ck product_uq
       \<lparr>prd_id = i, prd_category_id = category_id, prd_name = name, prd_slug = slug, prd_description = description,
        prd_price_vnd = price_vnd, prd_delivery_type = delivery_type, prd_contact_url = contact_url,
        prd_is_active = True, prd_version = 1, prd_created_at = ts\<rparr>))"

definition updateProducts :: "(product_row \<Rightarrow> bool) \<Rightarrow> (product_row \<Rightarrow> product_row) \<Rightarrow> product_row list dbtx" where
  "updateProducts p f = sqlUpdate products products_update product_ck product_uq p f"

definition UpdateProductDetailsGuarded ::
  "int64 \<Rightarrow> string \<Rightarrow> string option \<Rightarrow> int64 \<Rightarrow> int64 \<Rightarrow> int64 \<Rightarrow> product_row dbtx" where
  "UpdateProductDetailsGuarded category_id name description price_vnd pid expected_version =
     one (updateProducts (\<lambda>p. prd_id p = pid \<and> prd_version p = expected_version)
       (\<lambda>p. p\<lparr>prd_category_id := category_id, prd_name := name, prd_description := description,
              prd_price_vnd := price_vnd, prd_version := prd_version p + 1\<rparr>))"

definition SetProductActiveGuarded :: "bool \<Rightarrow> int64 \<Rightarrow> int64 \<Rightarrow> product_row dbtx" where
  "SetProductActiveGuarded is_active pid expected_version =
     one (updateProducts (\<lambda>p. prd_id p = pid \<and> prd_version p = expected_version)
       (\<lambda>p. p\<lparr>prd_is_active := is_active, prd_version := prd_version p + 1\<rparr>))"

section \<open>Bank accounts\<close>

definition bankOrder :: "bank_row list \<Rightarrow> bank_row list" where
  "bankOrder rows = sort_key bnk_sort_order (sort_key bnk_id rows)"

definition ListActiveBankAccountOptions :: "string \<Rightarrow> bank_row list dbtx" where
  "ListActiveBankAccountOptions payment_environment =
     sqlSelect (\<lambda>s. bankOrder (filter (\<lambda>b. bnk_is_active b \<and> bnk_payment_environment b = payment_environment \<and>
       bnk_encryption_format b = ''aes-256-gcm-v1'') (bank_accounts s)))"

definition CountAdminBankAccounts :: "int64 dbtx" where
  "CountAdminBankAccounts = selectCount bank_accounts"

definition ListAdminBankAccountsPage :: "int32 \<Rightarrow> int32 \<Rightarrow> bank_row list dbtx" where
  "ListAdminBankAccountsPage page_offset page_limit =
     selectPage page_offset page_limit (\<lambda>s. bankOrder (bank_accounts s))"

definition LockBankAccountByID :: "int64 \<Rightarrow> bank_row dbtx" where
  "LockBankAccountByID bid = sqlSelectOne (\<lambda>s. filter (\<lambda>b. bnk_id b = bid) (bank_accounts s))"

record bank_params =
  bp_bank_bin :: string
  bp_bank_name :: string
  bp_display_name :: string
  bp_account_name :: string
  bp_encrypted_account_number :: string
  bp_account_number_fingerprint :: string
  bp_encryption_key_id :: string
  bp_encryption_nonce :: string
  bp_encryption_key_version :: int32
  bp_display_last4 :: string
  bp_sort_order :: int32

text \<open>\<open>ON CONFLICT (account_number_fingerprint) DO NOTHING\<close>\<close>

definition CreateEncryptedBankAccount :: "bank_params \<Rightarrow> string \<Rightarrow> bank_row dbtx" where
  "CreateEncryptedBankAccount p payment_environment =
     bindE (nextId Tab_banks) (\<lambda>i.
     bindE (askE clock) (\<lambda>ts.
     sqlInsertIgnore bank_accounts bank_accounts_update bank_ck bank_uq
       (\<lambda>a b. bnk_account_number_fingerprint a = bnk_account_number_fingerprint b)
       \<lparr>bnk_id = i, bnk_bank_bin = bp_bank_bin p, bnk_bank_name = bp_bank_name p,
        bnk_account_name = bp_account_name p, bnk_display_name = bp_display_name p,
        bnk_encrypted_account_number = bp_encrypted_account_number p,
        bnk_account_number_fingerprint = bp_account_number_fingerprint p,
        bnk_encryption_key_id = bp_encryption_key_id p, bnk_encryption_nonce = bp_encryption_nonce p,
        bnk_encryption_format = ''aes-256-gcm-v1'', bnk_encryption_key_version = bp_encryption_key_version p,
        bnk_display_last4 = bp_display_last4 p, bnk_sort_order = bp_sort_order p, bnk_is_active = True,
        bnk_version = 1,
        bnk_payment_environment = (if payment_environment = [] then ''production'' else payment_environment),
        bnk_created_at = ts\<rparr>))"

definition updateBanks :: "(bank_row \<Rightarrow> bool) \<Rightarrow> (bank_row \<Rightarrow> bank_row) \<Rightarrow> bank_row list dbtx" where
  "updateBanks p f = sqlUpdate bank_accounts bank_accounts_update bank_ck bank_uq p f"

definition UpdateEncryptedBankAccountGuarded :: "bank_params \<Rightarrow> int64 \<Rightarrow> int64 \<Rightarrow> bank_row dbtx" where
  "UpdateEncryptedBankAccountGuarded p bid expected_version =
     one (updateBanks (\<lambda>b. bnk_id b = bid \<and> bnk_version b = expected_version)
       (\<lambda>b. b\<lparr>bnk_bank_bin := bp_bank_bin p, bnk_bank_name := bp_bank_name p,
              bnk_display_name := bp_display_name p, bnk_account_name := bp_account_name p,
              bnk_encrypted_account_number := bp_encrypted_account_number p,
              bnk_account_number_fingerprint := bp_account_number_fingerprint p,
              bnk_encryption_key_id := bp_encryption_key_id p, bnk_encryption_nonce := bp_encryption_nonce p,
              bnk_encryption_format := ''aes-256-gcm-v1'',
              bnk_encryption_key_version := bp_encryption_key_version p,
              bnk_display_last4 := bp_display_last4 p, bnk_sort_order := bp_sort_order p,
              bnk_version := bnk_version b + 1\<rparr>))"

definition SetBankAccountActiveGuarded :: "bool \<Rightarrow> int64 \<Rightarrow> int64 \<Rightarrow> bank_row dbtx" where
  "SetBankAccountActiveGuarded is_active bid expected_version =
     one (updateBanks (\<lambda>b. bnk_id b = bid \<and> bnk_version b = expected_version \<and> bnk_is_active b \<noteq> is_active)
       (\<lambda>b. b\<lparr>bnk_is_active := is_active, bnk_version := bnk_version b + 1\<rparr>))"

section \<open>Users, administrators, receipts and sessions\<close>

definition newUser :: "int64 \<Rightarrow> int64 \<Rightarrow> string option \<Rightarrow> string option \<Rightarrow> user_row" where
  "newUser i telegram_user_id username display_name =
     \<lparr>usr_id = i, usr_telegram_user_id = telegram_user_id, usr_username = username,
      usr_display_name = display_name, usr_status = UserStatusActive\<rparr>"

text \<open>\<open>INSERT ... ON CONFLICT (telegram_user_id) DO UPDATE\<close>\<close>

definition upsertUser ::
  "int64 \<Rightarrow> string option \<Rightarrow> string option \<Rightarrow> (user_row \<Rightarrow> user_row) \<Rightarrow> user_row dbtx" where
  "upsertUser telegram_user_id username display_name f =
     bindE (nextId Tab_users) (\<lambda>i.
     if \<not> user_ck (newUser i telegram_user_id username display_name) then throwE PgCheckViolation else
     bindE (askE (\<lambda>s. \<exists>u \<in> set (users s). usr_telegram_user_id u = telegram_user_id)) (\<lambda>known.
     if known then one (sqlUpdate users users_update user_ck user_uq (\<lambda>u. usr_telegram_user_id u = telegram_user_id) f)
     else sqlInsert users users_update user_ck user_uq (newUser i telegram_user_id username display_name)))"

definition coalesce :: "'a option \<Rightarrow> 'a option \<Rightarrow> 'a option" where
  "coalesce x y = (case x of None \<Rightarrow> y | Some _ \<Rightarrow> x)"

definition UpsertTelegramUser :: "int64 \<Rightarrow> string option \<Rightarrow> string option \<Rightarrow> user_row dbtx" where
  "UpsertTelegramUser telegram_user_id username display_name =
     upsertUser telegram_user_id username display_name
       (\<lambda>u. u\<lparr>usr_username := coalesce username (usr_username u),
              usr_display_name := coalesce display_name (usr_display_name u)\<rparr>)"

definition EnsureBootstrapUser :: "int64 \<Rightarrow> user_row dbtx" where
  "EnsureBootstrapUser telegram_user_id = upsertUser telegram_user_id None None (\<lambda>u. u)"

text \<open>\<open>ON CONFLICT (user_id) DO NOTHING\<close>, an \<open>:execrows\<close> query: the number of rows inserted.\<close>

definition EnsureBootstrapAdmin :: "int64 \<Rightarrow> int dbtx" where
  "EnsureBootstrapAdmin user_id =
     bindE (nextId Tab_admins) (\<lambda>i.
     bindE (askE (\<lambda>s. \<exists>a \<in> set (admins s). adm_user_id a = user_id)) (\<lambda>known.
     if known then returnE 0 else
     bindE (sqlInsert admins admins_update admin_ck admin_uq
       \<lparr>adm_id = i, adm_user_id = user_id, adm_role = ''owner'', adm_is_active = True\<rparr>) (\<lambda>_. returnE 1)))"

definition receipt_uq :: "receipt_row \<Rightarrow> receipt_row \<Rightarrow> bool" where
  "receipt_uq a b \<longleftrightarrow> rcp_update_id a = rcp_update_id b"

definition newReceipt :: "int64 \<Rightarrow> string \<Rightarrow> receipt_row" where
  "newReceipt update_id update_type =
     \<lparr>rcp_update_id = update_id, rcp_update_type = update_type, rcp_status = ''received'', rcp_attempts = 0,
      rcp_processing_started_at = None, rcp_processed_at = None, rcp_last_error = None\<rparr>"

definition InsertTelegramUpdateReceipt :: "int64 \<Rightarrow> string \<Rightarrow> int dbtx" where
  "InsertTelegramUpdateReceipt update_id update_type =
     bindE (attempt (sqlInsertIgnore update_receipts update_receipts_update receipt_ck receipt_uq receipt_uq
       (newReceipt update_id update_type))) (\<lambda>r.
     case r of Inr _ \<Rightarrow> returnE 1 | Inl e \<Rightarrow> if e = PgxErrNoRows then returnE 0 else throwE e)"

definition LockTelegramUpdateReceipt :: "int64 \<Rightarrow> receipt_row dbtx" where
  "LockTelegramUpdateReceipt update_id =
     sqlSelectOne (\<lambda>s. filter (\<lambda>r. rcp_update_id r = update_id) (update_receipts s))"

definition updateReceipts :: "(receipt_row \<Rightarrow> bool) \<Rightarrow> (receipt_row \<Rightarrow> receipt_row) \<Rightarrow> receipt_row list dbtx" where
  "updateReceipts p f = sqlUpdate update_receipts update_receipts_update receipt_ck receipt_uq p f"

definition StartTelegramUpdateProcessing :: "int64 \<Rightarrow> time \<Rightarrow> receipt_row dbtx" where
  "StartTelegramUpdateProcessing update_id stale_before =
     bindE (askE clock) (\<lambda>ts.
     one (updateReceipts
       (\<lambda>r. rcp_update_id r = update_id \<and>
            (rcp_status r \<in> {''received'', ''failed''} \<or>
             (rcp_status r = ''processing'' \<and>
              (case rcp_processing_started_at r of None \<Rightarrow> False | Some t \<Rightarrow> t \<le> stale_before))))
       (\<lambda>r. r\<lparr>rcp_status := ''processing'', rcp_attempts := rcp_attempts r + 1,
              rcp_processing_started_at := Some ts, rcp_processed_at := None, rcp_last_error := None\<rparr>)))"

definition FailTelegramUpdateReceipt :: "string option \<Rightarrow> int64 \<Rightarrow> receipt_row dbtx" where
  "FailTelegramUpdateReceipt last_error update_id =
     bindE (askE clock) (\<lambda>ts.
     one (updateReceipts (\<lambda>r. rcp_update_id r = update_id \<and> rcp_status r = ''processing'')
       (\<lambda>r. r\<lparr>rcp_status := ''failed'', rcp_processed_at := Some ts, rcp_last_error := last_error\<rparr>)))"

definition newSession :: "int64 \<Rightarrow> int64 \<Rightarrow> string \<Rightarrow> json \<Rightarrow> time \<Rightarrow> session_row" where
  "newSession i admin_id state payload expires_at =
     \<lparr>ses_id = i, ses_admin_id = admin_id, ses_state = state, ses_payload = payload,
      ses_expires_at = expires_at, ses_version = 1\<rparr>"

definition updateSessions :: "(session_row \<Rightarrow> bool) \<Rightarrow> (session_row \<Rightarrow> session_row) \<Rightarrow> session_row list dbtx" where
  "updateSessions p f = sqlUpdate admin_sessions admin_sessions_update session_ck session_uq p f"

definition StartAdminSession :: "int64 \<Rightarrow> string \<Rightarrow> json \<Rightarrow> time \<Rightarrow> session_row dbtx" where
  "StartAdminSession admin_id state payload expires_at =
     bindE (nextId Tab_sessions) (\<lambda>i.
     if \<not> session_ck (newSession i admin_id state payload expires_at) then throwE PgCheckViolation else
     bindE (askE (\<lambda>s. \<exists>x \<in> set (admin_sessions s). ses_admin_id x = admin_id)) (\<lambda>known.
     if known then
       one (updateSessions (\<lambda>x. ses_admin_id x = admin_id)
         (\<lambda>x. x\<lparr>ses_state := state, ses_payload := payload, ses_expires_at := expires_at,
                ses_version := ses_version x + 1\<rparr>))
     else sqlInsert admin_sessions admin_sessions_update session_ck session_uq
       (newSession i admin_id state payload expires_at)))"

definition GetActiveAdminSession :: "int64 \<Rightarrow> session_row dbtx" where
  "GetActiveAdminSession admin_id =
     sqlSelectOne (\<lambda>s. filter (\<lambda>x. ses_admin_id x = admin_id \<and> ses_expires_at x > clock s \<and>
       ses_state x \<notin> {''completed'', ''cancelled''}) (admin_sessions s))"

definition AdvanceAdminSessionGuarded ::
  "string \<Rightarrow> json \<Rightarrow> time \<Rightarrow> int64 \<Rightarrow> int64 \<Rightarrow> int64 \<Rightarrow> session_row dbtx" where
  "AdvanceAdminSessionGuarded state payload expires_at sid admin_id expected_version =
     bindE (askE clock) (\<lambda>ts.
     one (updateSessions
       (\<lambda>x. ses_id x = sid \<and> ses_admin_id x = admin_id \<and> ses_version x = expected_version \<and>
            ses_expires_at x > ts \<and> ses_state x \<notin> {''completed'', ''cancelled''})
       (\<lambda>x. x\<lparr>ses_state := state, ses_payload := payload, ses_expires_at := expires_at,
              ses_version := ses_version x + 1\<rparr>)))"

section \<open>Stock administration\<close>

definition CountInventoryOverviewProducts :: "int64 dbtx" where
  "CountInventoryOverviewProducts = selectCount (\<lambda>s. filter (\<lambda>p. prd_delivery_type p = ''inventory'') (products s))"

definition stockCount :: "db \<Rightarrow> int64 \<Rightarrow> (InventoryStatus \<Rightarrow> bool) \<Rightarrow> int64" where
  "stockCount s pid q = int (length (filter (\<lambda>i. inv_product_id i = pid \<and> q (inv_status i)) (inventory_items s)))"

definition ListInventoryOverviewPage ::
  "int32 \<Rightarrow> int32 \<Rightarrow> (product_row \<times> int64 \<times> int64 \<times> int64 \<times> int64 \<times> int64) list dbtx" where
  "ListInventoryOverviewPage page_offset page_limit =
     selectPage page_offset page_limit (\<lambda>s.
       map (\<lambda>p. (p, stockCount s (prd_id p) (\<lambda>x. x = InventoryStatusAvailable),
                  stockCount s (prd_id p) (\<lambda>x. x = InventoryStatusReserved),
                  stockCount s (prd_id p) (\<lambda>x. x = InventoryStatusSold),
                  stockCount s (prd_id p) (\<lambda>x. x = InventoryStatusDisabled),
                  stockCount s (prd_id p) (\<lambda>_. True)))
         (sort_key prd_created_at (sort_key prd_id
           (filter (\<lambda>p. prd_delivery_type p = ''inventory'') (products s)))))"

definition CountRedactedInventoryByProduct :: "int64 \<Rightarrow> int64 dbtx" where
  "CountRedactedInventoryByProduct pid = selectCount (\<lambda>s. filter (\<lambda>i. inv_product_id i = pid) (inventory_items s))"

definition ListRedactedInventoryPage :: "int64 \<Rightarrow> int32 \<Rightarrow> int32 \<Rightarrow> (inventory_row \<times> string) list dbtx" where
  "ListRedactedInventoryPage pid page_offset page_limit =
     selectPage page_offset page_limit (\<lambda>s.
       [(i, prd_name p). i \<leftarrow> sort_key inv_created_at (sort_key inv_id (inventory_items s)), p \<leftarrow> products s,
          prd_id p = inv_product_id i \<and> inv_product_id i = pid])"

text \<open>\<open>ON CONFLICT (product_id, payload_fingerprint) DO NOTHING\<close>\<close>

definition InsertEncryptedInventoryItem ::
  "int64 \<Rightarrow> string \<Rightarrow> string \<Rightarrow> string \<Rightarrow> int32 \<Rightarrow> string \<Rightarrow> int64 option \<Rightarrow> int64 dbtx" where
  "InsertEncryptedInventoryItem product_id encrypted_payload key_id nonce key_version fingerprint imported_by =
     bindE (nextId Tab_inventory) (\<lambda>i.
     bindE (askE clock) (\<lambda>ts.
     bindE (sqlInsertIgnore inventory_items inventory_items_update inventory_ck inventory_uq
       (\<lambda>a b. inv_product_id a = inv_product_id b \<and> inv_payload_fingerprint a = inv_payload_fingerprint b)
       \<lparr>inv_id = i, inv_product_id = product_id, inv_encrypted_payload = encrypted_payload,
        inv_encryption_key_id = key_id, inv_encryption_nonce = nonce, inv_encryption_format = ''aes-256-gcm-v1'',
        inv_encryption_key_version = key_version, inv_payload_fingerprint = fingerprint,
        inv_imported_by_admin_id = imported_by,
        inv_status = InventoryStatusAvailable, inv_reserved_order_id = None, inv_reserved_until = None,
        inv_sold_order_id = None, inv_disabled_reason = None, inv_version = 1, inv_created_at = ts\<rparr>)
       (\<lambda>row. returnE (inv_id row))))"

definition LockRedactedInventoryItem :: "int64 \<Rightarrow> inventory_row dbtx" where
  "LockRedactedInventoryItem iid = sqlSelectOne (\<lambda>s. filter (\<lambda>i. inv_id i = iid) (inventory_items s))"

definition DisableAvailableInventoryItem :: "string option \<Rightarrow> int64 \<Rightarrow> int64 \<Rightarrow> inventory_row dbtx" where
  "DisableAvailableInventoryItem disabled_reason iid expected_version =
     one (updateInventory
       (\<lambda>i. inv_id i = iid \<and> inv_status i = InventoryStatusAvailable \<and> inv_version i = expected_version)
       (\<lambda>i. i\<lparr>inv_status := InventoryStatusDisabled, inv_disabled_reason := disabled_reason,
              inv_version := inv_version i + 1\<rparr>))"

definition EnableDisabledInventoryItem :: "int64 \<Rightarrow> int64 \<Rightarrow> inventory_row dbtx" where
  "EnableDisabledInventoryItem iid expected_version =
     one (updateInventory
       (\<lambda>i. inv_id i = iid \<and> inv_status i = InventoryStatusDisabled \<and> inv_version i = expected_version)
       (\<lambda>i. i\<lparr>inv_status := InventoryStatusAvailable, inv_disabled_reason := None,
              inv_version := inv_version i + 1\<rparr>))"

end
