(* ===== verification/Sql_Providers.thy ===== *)
theory Sql_Providers
  imports Sql_Payments Sql_Catalog
begin

text \<open>The queries of \<open>internal/postgres/generated/payment_providers.sql.go\<close>.\<close>

section \<open>Account mappings\<close>

text \<open>\<open>ON CONFLICT DO NOTHING\<close> without a target: any unique index swallows the insert.\<close>

definition CreatePaymentProviderAccount_query ::
  "string \<Rightarrow> string \<Rightarrow> string \<Rightarrow> string \<Rightarrow> int64 \<Rightarrow> provider_account_row dbtx" where
  "CreatePaymentProviderAccount_query provider environment identity fingerprint bank_id =
     bindE (nextId Tab_provider_accounts) (\<lambda>i.
     sqlInsertIgnore provider_accounts provider_accounts_update provider_account_ck provider_account_uq provider_account_uq
       \<lparr>pac_id = i, pac_provider = provider, pac_environment = environment, pac_external_account_identity = identity,
        pac_external_identity_fingerprint = fingerprint, pac_local_bank_account_id = bank_id, pac_status = ''active'',
        pac_version = 1\<rparr>)"

definition CountPaymentProviderAccounts :: "int64 dbtx" where
  "CountPaymentProviderAccounts = selectCount provider_accounts"

text \<open>
  \<open>ORDER BY provider, environment, id\<close> compares text by the database's collation, which is left to the argument
  \<open>collate\<close>.
\<close>

definition accountRows ::
  "((provider_account_row \<times> bank_row) list \<Rightarrow> (provider_account_row \<times> bank_row) list) \<Rightarrow>
   (provider_account_row \<Rightarrow> bool) \<Rightarrow> db \<Rightarrow> (provider_account_row \<times> bank_row) list" where
  "accountRows collate p s =
     collate [(m, b). m \<leftarrow> provider_accounts s, b \<leftarrow> bank_accounts s, bnk_id b = pac_local_bank_account_id m \<and> p m]"

definition ListPaymentProviderAccounts_query ::
  "((provider_account_row \<times> bank_row) list \<Rightarrow> (provider_account_row \<times> bank_row) list) \<Rightarrow> int32 \<Rightarrow> int32 \<Rightarrow>
   (provider_account_row \<times> bank_row) list dbtx" where
  "ListPaymentProviderAccounts_query collate page_offset page_limit =
     selectPage page_offset page_limit (accountRows collate (\<lambda>_. True))"

definition LockPaymentProviderAccount :: "int64 \<Rightarrow> provider_account_row dbtx" where
  "LockPaymentProviderAccount mid = sqlSelectOne (\<lambda>s. filter (\<lambda>m. pac_id m = mid) (provider_accounts s))"

definition SetPaymentProviderAccountStatusGuarded :: "string \<Rightarrow> int64 \<Rightarrow> int64 \<Rightarrow> provider_account_row dbtx" where
  "SetPaymentProviderAccountStatusGuarded status mid expected_version =
     one (sqlUpdate provider_accounts provider_accounts_update provider_account_ck provider_account_uq
       (\<lambda>m. pac_id m = mid \<and> pac_version m = expected_version \<and> pac_status m \<noteq> status)
       (\<lambda>m. m\<lparr>pac_status := status, pac_version := pac_version m + 1\<rparr>))"

definition ResolveActivePaymentProviderAccount :: "string \<Rightarrow> string \<Rightarrow> string \<Rightarrow> provider_account_row dbtx" where
  "ResolveActivePaymentProviderAccount provider environment identity =
     sqlSelectOne (\<lambda>s. filter (\<lambda>m. pac_provider m = provider \<and> pac_environment m = environment \<and>
       pac_external_account_identity m = identity \<and> pac_status m = ''active'') (provider_accounts s))"

definition AttachPaymentEventProviderAccount :: "int64 \<Rightarrow> int64 \<Rightarrow> event_row dbtx" where
  "AttachPaymentEventProviderAccount mapping_id eid =
     one (updateEvents (\<lambda>e. evt_id e = eid \<and> evt_processing_status e = ''processing'' \<and>
            evt_provider_account_mapping_id e = None)
       (\<lambda>e. e\<lparr>evt_provider_account_mapping_id := Some mapping_id\<rparr>))"

definition ListActivePaymentProviderAccounts ::
  "((provider_account_row \<times> bank_row) list \<Rightarrow> (provider_account_row \<times> bank_row) list) \<Rightarrow>
   (provider_account_row \<times> bank_row) list dbtx" where
  "ListActivePaymentProviderAccounts collate = sqlSelect (accountRows collate (\<lambda>m. pac_status m = ''active''))"

section \<open>Checkpoints\<close>

definition updateCheckpoints ::
  "(checkpoint_row \<Rightarrow> bool) \<Rightarrow> (checkpoint_row \<Rightarrow> checkpoint_row) \<Rightarrow> checkpoint_row list dbtx" where
  "updateCheckpoints p f = sqlUpdate checkpoints checkpoints_update checkpoint_ck checkpoint_uq p f"

definition EnsurePaymentProviderCheckpoint :: "int64 \<Rightarrow> checkpoint_row dbtx" where
  "EnsurePaymentProviderCheckpoint account_id =
     bindE (nextId Tab_checkpoints) (\<lambda>i.
     bindE (askE (\<lambda>s. \<exists>c \<in> set (checkpoints s). chk_provider_account_id c = account_id)) (\<lambda>known.
     if known then one (updateCheckpoints (\<lambda>c. chk_provider_account_id c = account_id) (\<lambda>c. c))
     else sqlInsert checkpoints checkpoints_update checkpoint_ck checkpoint_uq
       \<lparr>chk_id = i, chk_provider_account_id = account_id, chk_cursor_value = None,
        chk_last_transaction_external_id = None, chk_last_occurred_at = None, chk_last_attempted_at = None,
        chk_last_successful_at = None, chk_last_error_code = None, chk_lease_owner = None,
        chk_lease_expires_at = None, chk_version = 1\<rparr>))"

definition ClaimPaymentProviderCheckpoint :: "string option \<Rightarrow> time \<Rightarrow> time \<Rightarrow> int64 \<Rightarrow> checkpoint_row dbtx" where
  "ClaimPaymentProviderCheckpoint lease_owner lease_expires_at attempted_at cid =
     one (updateCheckpoints
       (\<lambda>c. chk_id c = cid \<and> (chk_lease_owner c = None \<or>
            (case chk_lease_expires_at c of None \<Rightarrow> False | Some t \<Rightarrow> t \<le> attempted_at)))
       (\<lambda>c. c\<lparr>chk_lease_owner := lease_owner, chk_lease_expires_at := Some lease_expires_at,
              chk_last_attempted_at := Some attempted_at, chk_last_error_code := None,
              chk_version := chk_version c + 1\<rparr>))"

definition leasedCheckpoint :: "int64 \<Rightarrow> int64 \<Rightarrow> string option \<Rightarrow> checkpoint_row \<Rightarrow> bool" where
  "leasedCheckpoint cid expected_version expected_lease_owner c \<longleftrightarrow>
     chk_id c = cid \<and> chk_version c = expected_version \<and>
     expected_lease_owner \<noteq> None \<and> chk_lease_owner c = expected_lease_owner"

definition AdvancePaymentProviderCheckpoint ::
  "string option \<Rightarrow> string option \<Rightarrow> time option \<Rightarrow> int64 \<Rightarrow> int64 \<Rightarrow> string option \<Rightarrow> checkpoint_row dbtx" where
  "AdvancePaymentProviderCheckpoint cursor last_transaction last_occurred cid expected_version owner =
     one (updateCheckpoints (leasedCheckpoint cid expected_version owner)
       (\<lambda>c. c\<lparr>chk_cursor_value := cursor, chk_last_transaction_external_id := last_transaction,
              chk_last_occurred_at := last_occurred, chk_last_error_code := None,
              chk_version := chk_version c + 1\<rparr>))"

definition CompletePaymentProviderCheckpoint :: "time \<Rightarrow> int64 \<Rightarrow> int64 \<Rightarrow> string option \<Rightarrow> checkpoint_row dbtx" where
  "CompletePaymentProviderCheckpoint completed_at cid expected_version owner =
     one (updateCheckpoints (leasedCheckpoint cid expected_version owner)
       (\<lambda>c. c\<lparr>chk_last_successful_at := Some completed_at, chk_last_error_code := None,
              chk_lease_owner := None, chk_lease_expires_at := None, chk_version := chk_version c + 1\<rparr>))"

definition RecordPaymentProviderCheckpointFailure ::
  "string option \<Rightarrow> int64 \<Rightarrow> int64 \<Rightarrow> string option \<Rightarrow> checkpoint_row dbtx" where
  "RecordPaymentProviderCheckpointFailure last_error_code cid expected_version owner =
     one (updateCheckpoints (leasedCheckpoint cid expected_version owner)
       (\<lambda>c. c\<lparr>chk_last_error_code := last_error_code, chk_lease_owner := None, chk_lease_expires_at := None,
              chk_version := chk_version c + 1\<rparr>))"

section \<open>Health\<close>

definition maxTime :: "time option list \<Rightarrow> time option" where
  "maxTime ts = (case [t. Some t \<leftarrow> ts] of [] \<Rightarrow> None | t # rest \<Rightarrow> Some (foldr max rest t))"

definition providerCheckpoints :: "string \<Rightarrow> string \<Rightarrow> db \<Rightarrow> checkpoint_row list" where
  "providerCheckpoints provider environment s =
     [c. c \<leftarrow> checkpoints s, m \<leftarrow> provider_accounts s, pac_id m = chk_provider_account_id c \<and>
        pac_provider m = provider \<and> pac_environment m = environment]"

record health_row =
  hr_active_mappings :: int64
  hr_last_webhook_at :: "time option"
  hr_last_reconciliation_attempt :: "time option"
  hr_last_reconciliation_success :: "time option"
  hr_last_error_code :: "string option"
  hr_last_transaction_at :: "time option"
  hr_pending_events :: int64
  hr_open_reviews :: int64

text \<open>\<open>ORDER BY last_attempted_at DESC NULLS LAST, id DESC LIMIT 1\<close>\<close>

definition latestError :: "checkpoint_row list \<Rightarrow> string option" where
  "latestError cs =
     (case sort_key (\<lambda>c. chk_last_attempted_at c = None) (sort_key (\<lambda>c. - int8Or (chk_last_attempted_at c))
        (sort_key (\<lambda>c. - chk_id c) (filter (\<lambda>c. chk_last_error_code c \<noteq> None) cs))) of
        [] \<Rightarrow> None | c # _ \<Rightarrow> chk_last_error_code c)"

definition GetPaymentProviderHealth_query :: "string \<Rightarrow> string \<Rightarrow> health_row dbtx" where
  "GetPaymentProviderHealth_query provider environment = askE (\<lambda>s.
     let cs = providerCheckpoints provider environment s;
         events = filter (\<lambda>e. evt_provider e = provider \<and> evt_payment_environment e = environment) (payment_events s) in
     \<lparr>hr_active_mappings = int (length (filter (\<lambda>m. pac_provider m = provider \<and> pac_environment m = environment \<and>
        pac_status m = ''active'') (provider_accounts s))),
      hr_last_webhook_at = maxTime (map (\<lambda>e. Some (evt_received_at e)) (filter (\<lambda>e. evt_event_source e = ''webhook'') events)),
      hr_last_reconciliation_attempt = maxTime (map chk_last_attempted_at cs),
      hr_last_reconciliation_success = maxTime (map chk_last_successful_at cs),
      hr_last_error_code = latestError cs,
      hr_last_transaction_at = maxTime (map chk_last_occurred_at cs),
      hr_pending_events = int (length (filter (\<lambda>e. evt_processing_status e \<in> {''received'', ''processing''}) events)),
      hr_open_reviews = int (length (filter (\<lambda>r. rev_provider r = provider \<and> rev_payment_environment r = environment \<and>
        rev_status r \<in> {''open'', ''held''}) (payment_reviews s)))\<rparr>)"

end
