(* ===== verification/Payment_Events.thy ===== *)
theory Payment_Events
  imports Payment_Acceptance Payment_Reference Sql_Providers
begin

text \<open>
  The inbox of provider events: ingestion with its deduplication and conflict cases
  (\<open>app/payment_event_service.go\<close>, \<open>postgres/payment_event_store.go\<close>), and the worker that turns stored events
  into accepted payments or review cases (\<open>app/payment_event_job.go\<close>, \<open>postgres/payment_event_worker_store.go\<close>).
  SHA-256 and the RFC 3339 form of a time are arguments.
\<close>

section \<open>Ingestion\<close>

text \<open>\<open>json.RawMessage\<close>: bytes that are not JSON, JSON that is not an object, or an object.\<close>

datatype raw_json = NotJson | OtherJson | JsonObject json

record NormalizedPaymentEvent =
  ne_Provider :: string
  ne_Environment :: string
  ne_ExternalEventID :: string
  ne_ProviderTransactionID :: string
  ne_Reference :: string
  ne_Direction :: string
  ne_TransferContent :: string
  ne_DestinationAccountID :: string
  ne_ProviderAccountID :: string
  ne_Source :: string
  ne_Amount :: Money
  ne_Currency :: string
  ne_OccurredAt :: time
  ne_ReceivedAccount :: string
  ne_EventType :: string
  ne_PayloadHash :: string
  ne_BusinessFingerprint :: string
  ne_SanitizedMetadata :: raw_json

record PaymentEventRecord =
  per_ID :: int64
  per_Provider :: string
  per_ExternalEventID :: string
  per_ProviderTransactionID :: string
  per_PayloadHash :: string
  per_BusinessFingerprint :: string

record PaymentEventIngestionResult =
  ir_EventID :: int64
  ir_Duplicate :: bool

definition mapPaymentEventRecord :: "event_row \<Rightarrow> PaymentEventRecord" where
  "mapPaymentEventRecord row = \<lparr>per_ID = evt_id row, per_Provider = evt_provider row,
     per_ExternalEventID = evt_external_event_id row,
     per_ProviderTransactionID = textOr (evt_provider_transaction_id row),
     per_PayloadHash = evt_payload_hash row, per_BusinessFingerprint = evt_business_fingerprint row\<rparr>"

definition eventParams :: "NormalizedPaymentEvent \<Rightarrow> json \<Rightarrow> int32 \<Rightarrow> event_params" where
  "eventParams event metadata maxAttempts =
     \<lparr>ep_provider = ne_Provider event, ep_external_event_id = ne_ExternalEventID event,
      ep_provider_transaction_id = optionalText (ne_ProviderTransactionID event), ep_event_type = ne_EventType event,
      ep_payload_hash = ne_PayloadHash event, ep_sanitized_payload = metadata,
      ep_signature_verified = (ne_Source event = ''webhook''), ep_payment_environment = ne_Environment event,
      ep_event_source = ne_Source event, ep_transfer_direction = ne_Direction event,
      ep_transfer_content = ne_TransferContent event,
      ep_destination_account_identity = optionalText (ne_DestinationAccountID event),
      ep_provider_account_identity = optionalText (ne_ProviderAccountID event),
      ep_business_fingerprint = ne_BusinessFingerprint event, ep_max_attempts = maxAttempts\<rparr>"

text \<open>The column's CHECK refuses a payload that is not an object.\<close>

definition insertEventRow :: "NormalizedPaymentEvent \<Rightarrow> int32 \<Rightarrow> event_row dbtx" where
  "insertEventRow event maxAttempts =
     (case ne_SanitizedMetadata event of
        JsonObject metadata \<Rightarrow> InsertPaymentEvent (eventParams event metadata maxAttempts)
      | _ \<Rightarrow> bindE (nextId Tab_events) (\<lambda>_. throwE PgCheckViolation))"

definition InsertPaymentEvent_store ::
  "NormalizedPaymentEvent \<Rightarrow> int32 \<Rightarrow> (PaymentEventRecord \<times> bool) dbtx" where
  "InsertPaymentEvent_store event maxAttempts =
     bindE (attempt (insertEventRow event maxAttempts)) (\<lambda>r. case r of
       Inr row \<Rightarrow> returnE (mapPaymentEventRecord row, True)
     | Inl e \<Rightarrow> if e \<noteq> PgxErrNoRows then throwE e else
       bindE (attempt (GetPaymentEventByProviderEventID (ne_Provider event) (ne_ExternalEventID event))) (\<lambda>found. case found of
         Inr row \<Rightarrow> returnE (mapPaymentEventRecord row, False)
       | Inl e' \<Rightarrow> if e' \<noteq> PgxErrNoRows then throwE e' else
         bindE (GetPaymentEventByProviderTransactionID (ne_Provider event) (ne_Environment event)
           (optionalText (ne_ProviderTransactionID event))) (\<lambda>row.
         returnE (mapPaymentEventRecord row, False))))"

definition RecordPaymentEventConflict ::
  "time \<Rightarrow> int64 \<Rightarrow> NormalizedPaymentEvent \<Rightarrow> string \<Rightarrow> unit dbtx" where
  "RecordPaymentEventConflict now eventID event reason = WithinTransaction (
     bindE (LockPaymentEvent eventID) (\<lambda>row.
     bindE (InsertPaymentReviewCase \<lparr>rp_payment_event_id = Some (evt_id row), rp_payment_id = None,
       rp_order_id = None, rp_wallet_topup_id = None, rp_provider = evt_provider row,
       rp_provider_transaction_id = optionalText (ne_ProviderTransactionID event),
       rp_payment_reference = (if ne_Reference event = [] then ''UNRESOLVED'' else ne_Reference event),
       rp_amount_vnd = ne_Amount event, rp_currency = ne_Currency event, rp_occurred_at = ne_OccurredAt event,
       rp_reason = reason, rp_payment_environment = ne_Environment event, rp_event_source = ne_Source event,
       rp_provider_account_mapping_id = None,
       rp_destination_account_identity = optionalText (ne_DestinationAccountID event)\<rparr>) (\<lambda>_.
     bindE (attempt (MarkPaymentEventReviewedBeforeAcceptance now (optionalText ''payment provider evidence conflict'')
       (optionalText reason) (evt_id row))) (\<lambda>marked.
     bindE (case marked of Inl e \<Rightarrow> if e = PgxErrNoRows then returnE () else throwE e | Inr _ \<Rightarrow> returnE ()) (\<lambda>_.
     bindE (InsertAuditLog \<lparr>ap_actor_type = ''system'', ap_actor_id = None,
       ap_action = ''payment.provider_event_conflict'', ap_resource_type = ''payment_event'',
       ap_resource_id = Some (evt_id row), ap_before_data = None,
       ap_after_data = Some [(''environment'', JText (evt_payment_environment row)),
         (''external_event_id'', JText (ne_ExternalEventID event)), (''provider'', JText (evt_provider row)),
         (''reason'', JText reason)],
       ap_request_id = optionalText ''provider-event-conflict'', ap_telegram_update_id = None\<rparr>) (\<lambda>_. returnE ()))))))"

text \<open>\<open>paymentBusinessFingerprint\<close>; \<open>rfc3339\<close> prints the time in UTC.\<close>

definition paymentBusinessFingerprint ::
  "(string \<Rightarrow> string) \<Rightarrow> (time \<Rightarrow> string) \<Rightarrow> NormalizedPaymentEvent \<Rightarrow> string" where
  "paymentBusinessFingerprint sha256 rfc3339 event =
     sha256 (joinWith (CHR 0x1F)
       [ne_Provider event, ne_Environment event, ne_ProviderTransactionID event, ne_EventType event,
        ne_Direction event, intText (ne_Amount event), ne_Currency event, ne_TransferContent event,
        ne_DestinationAccountID event, ne_ProviderAccountID event, rfc3339 (ne_OccurredAt event)])"

definition orDefault :: "string \<Rightarrow> string \<Rightarrow> string" where
  "orDefault d value = (if value = [] then d else value)"

definition normalizePaymentEvent ::
  "unicode \<Rightarrow> (string \<Rightarrow> string) \<Rightarrow> (time \<Rightarrow> string) \<Rightarrow> NormalizedPaymentEvent \<Rightarrow> NormalizedPaymentEvent" where
  "normalizePaymentEvent uc sha256 rfc3339 event0 =
     (let reference = TrimSpace (ToUpper uc (ne_Reference event0));
          event = event0\<lparr>ne_Provider := TrimSpace (ne_Provider event0),
            ne_Environment := orDefault ''production'' (TrimSpace (ToLower (ne_Environment event0))),
            ne_ExternalEventID := TrimSpace (ne_ExternalEventID event0),
            ne_ProviderTransactionID := TrimSpace (ne_ProviderTransactionID event0),
            ne_Reference := reference,
            ne_Direction := orDefault ''inbound'' (TrimSpace (ToLower (ne_Direction event0))),
            ne_TransferContent := orDefault reference (TrimSpace (ne_TransferContent event0)),
            ne_DestinationAccountID := TrimSpace (ne_DestinationAccountID event0),
            ne_ProviderAccountID := TrimSpace (ne_ProviderAccountID event0),
            ne_Source := orDefault ''webhook'' (TrimSpace (ToLower (ne_Source event0))),
            ne_Currency := TrimSpace (ToUpper uc (ne_Currency event0))\<rparr> in
      if ne_BusinessFingerprint event = []
      then event\<lparr>ne_BusinessFingerprint := paymentBusinessFingerprint sha256 rfc3339 event\<rparr> else event)"

definition validPaymentSource :: "string \<Rightarrow> bool" where
  "validPaymentSource value \<longleftrightarrow> value = ''webhook'' \<or> value = ''reconciliation'' \<or> value = ''legacy''"

definition validEvent :: "int32 \<Rightarrow> NormalizedPaymentEvent \<Rightarrow> bool" where
  "validEvent maxAttempts event \<longleftrightarrow>
     \<not> (ne_Provider event = [] \<or> ne_ExternalEventID event = [] \<or> ne_ProviderTransactionID event = [] \<or>
        ne_TransferContent event = [] \<or> ne_Amount event \<le> 0 \<or> ne_Currency event = [] \<or> ne_OccurredAt event = 0 \<or>
        ne_EventType event = [] \<or> \<not> validPaymentEnvironment (ne_Environment event) \<or>
        \<not> validPaymentSource (ne_Source event) \<or>
        (ne_Direction event \<noteq> ''inbound'' \<and> ne_Direction event \<noteq> ''outbound'') \<or>
        length (ne_PayloadHash event) \<noteq> 32 \<or> length (ne_BusinessFingerprint event) \<noteq> 32 \<or> maxAttempts \<le> 0 \<or>
        ne_SanitizedMetadata event = NotJson)"

definition conflictReason :: "PaymentEventRecord \<Rightarrow> NormalizedPaymentEvent \<Rightarrow> string" where
  "conflictReason r event =
     (if per_ExternalEventID r = ne_ExternalEventID event \<and> per_PayloadHash r \<noteq> ne_PayloadHash event
      then ''provider_event_payload_conflict''
      else if per_ProviderTransactionID r = ne_ProviderTransactionID event \<and>
        per_BusinessFingerprint r \<noteq> ne_BusinessFingerprint event
      then ''provider_duplicate_transaction_conflict'' else [])"

text \<open>\<open>Ingest\<close> after the guards.\<close>

definition ingestEvent :: "int32 \<Rightarrow> time \<Rightarrow> NormalizedPaymentEvent \<Rightarrow> PaymentEventIngestionResult dbtx" where
  "ingestEvent maxAttempts now event =
     bindE (InsertPaymentEvent_store event maxAttempts) (\<lambda>(r, inserted).
     if \<not> inserted \<and> conflictReason r event \<noteq> [] then
       bindE (RecordPaymentEventConflict now (per_ID r) event (conflictReason r event)) (\<lambda>_.
       throwE ErrPaymentEventConflict)
     else returnE \<lparr>ir_EventID = per_ID r, ir_Duplicate = (\<not> inserted)\<rparr>)"

definition PaymentEventIngestionService_Ingest ::
  "unicode \<Rightarrow> (string \<Rightarrow> string) \<Rightarrow> (time \<Rightarrow> string) \<Rightarrow> int32 \<Rightarrow> time \<Rightarrow> NormalizedPaymentEvent \<Rightarrow>
   PaymentEventIngestionResult dbtx" where
  "PaymentEventIngestionService_Ingest uc sha256 rfc3339 maxAttempts now event0 =
     (let event = normalizePaymentEvent uc sha256 rfc3339 event0 in
      if \<not> validEvent maxAttempts event then throwE ErrInvalidInput else ingestEvent maxAttempts now event)"

section \<open>The event worker\<close>

record PaymentEventWorkItem =
  wk_ID :: int64
  wk_Provider :: string
  wk_ExternalEventID :: string
  wk_ProviderTransactionID :: string
  wk_Reference :: string
  wk_Environment :: string
  wk_Source :: string
  wk_Direction :: string
  wk_TransferContent :: string
  wk_DestinationAccountID :: string
  wk_ProviderAccountMappingID :: int64
  wk_LocalBankAccountID :: int64
  wk_Amount :: Money
  wk_Currency :: string
  wk_OccurredAt :: time
  wk_Attempts :: int32

record storedPaymentMetadata =
  md_Reference :: string
  md_AmountVND :: int64
  md_Currency :: string
  md_OccurredAt :: time

text \<open>
  \<open>json.Unmarshal\<close> into \<open>storedPaymentMetadata\<close>: member names match regardless of case, \<open>null\<close> leaves the
  field, a value of another type is an error. \<open>parseTime\<close> reads an RFC 3339 time.
\<close>

definition decodeMember ::
  "(string \<Rightarrow> time option) \<Rightarrow> string \<times> jval \<Rightarrow> storedPaymentMetadata option \<Rightarrow> storedPaymentMetadata option" where
  "decodeMember parseTime m acc =
     (case acc of None \<Rightarrow> None | Some md \<Rightarrow>
        let name = map lowerChar (fst m); value = snd m in
        if value = JRaw ''null'' then Some md
        else if name = ''reference'' then (case value of JText t \<Rightarrow> Some (md\<lparr>md_Reference := t\<rparr>) | _ \<Rightarrow> None)
        else if name = ''currency'' then (case value of JText t \<Rightarrow> Some (md\<lparr>md_Currency := t\<rparr>) | _ \<Rightarrow> None)
        else if name = ''amount_vnd'' then
          (case value of JInt i \<Rightarrow> if is_int64 i then Some (md\<lparr>md_AmountVND := i\<rparr>) else None | _ \<Rightarrow> None)
        else if name = ''occurred_at'' then
          (case value of JText t \<Rightarrow> map_option (\<lambda>x. md\<lparr>md_OccurredAt := x\<rparr>) (parseTime t) | _ \<Rightarrow> None)
        else Some md)"

definition decodeMetadata :: "(string \<Rightarrow> time option) \<Rightarrow> json \<Rightarrow> storedPaymentMetadata option" where
  "decodeMetadata parseTime members =
     fold (decodeMember parseTime) members
       (Some \<lparr>md_Reference = [], md_AmountVND = 0, md_Currency = [], md_OccurredAt = 0\<rparr>)"

definition workItem :: "event_row \<Rightarrow> storedPaymentMetadata \<Rightarrow> PaymentEventWorkItem" where
  "workItem row metadata = \<lparr>wk_ID = evt_id row, wk_Provider = evt_provider row,
     wk_ExternalEventID = evt_external_event_id row,
     wk_ProviderTransactionID = textOr (evt_provider_transaction_id row), wk_Reference = md_Reference metadata,
     wk_Environment = evt_payment_environment row, wk_Source = evt_event_source row,
     wk_Direction = evt_transfer_direction row, wk_TransferContent = evt_transfer_content row,
     wk_DestinationAccountID = textOr (evt_destination_account_identity row), wk_ProviderAccountMappingID = 0,
     wk_LocalBankAccountID = 0, wk_Amount = md_AmountVND metadata, wk_Currency = md_Currency metadata,
     wk_OccurredAt = md_OccurredAt metadata, wk_Attempts = evt_attempts row\<rparr>"

definition attachMapping :: "event_row \<Rightarrow> PaymentEventWorkItem \<Rightarrow> PaymentEventWorkItem dbtx" where
  "attachMapping row item =
     (if wk_DestinationAccountID item = [] then returnE item else
      bindE (attempt (ResolveActivePaymentProviderAccount (evt_provider row) (evt_payment_environment row)
        (wk_DestinationAccountID item))) (\<lambda>resolved. case resolved of
        Inr mapping \<Rightarrow>
          bindE (attempt (AttachPaymentEventProviderAccount (pac_id mapping) (evt_id row))) (\<lambda>attached.
          let item' = item\<lparr>wk_ProviderAccountMappingID := pac_id mapping,
                           wk_LocalBankAccountID := pac_local_bank_account_id mapping\<rparr> in
          case attached of Inl e \<Rightarrow> if e = PgxErrNoRows then returnE item' else throwE e | Inr _ \<Rightarrow> returnE item')
      | Inl e \<Rightarrow> if e = PgxErrNoRows then returnE item else throwE e))"

definition loadItem :: "(string \<Rightarrow> time option) \<Rightarrow> event_row \<Rightarrow> PaymentEventWorkItem dbtx" where
  "loadItem parseTime row =
     (case decodeMetadata parseTime (evt_sanitized_payload row) of
        None \<Rightarrow> throwE (ErrOther ''decode payment event metadata'')
      | Some metadata \<Rightarrow> attachMapping row (workItem row metadata))"

definition ClaimPaymentEvents ::
  "(string \<Rightarrow> time option) \<Rightarrow> (int64 \<Rightarrow> bool) \<Rightarrow> time \<Rightarrow> time \<Rightarrow> int32 \<Rightarrow> PaymentEventWorkItem list dbtx" where
  "ClaimPaymentEvents parseTime skip now staleBefore batchSize =
     bindE (ClaimPaymentEvents_query skip now staleBefore batchSize) (\<lambda>rows. mapE (loadItem parseTime) rows)"

definition ReviewPaymentEvent :: "PaymentEventWorkItem \<Rightarrow> string \<Rightarrow> string \<Rightarrow> time \<Rightarrow> unit dbtx" where
  "ReviewPaymentEvent item reference reason reviewedAt = WithinTransaction (
     bindE (LockPaymentEvent (wk_ID item)) (\<lambda>row.
     if evt_processing_status row = ''review'' \<or> evt_processing_status row = ''completed'' then returnE () else
     bindE (InsertPaymentReviewCase \<lparr>rp_payment_event_id = Some (wk_ID item), rp_payment_id = None,
       rp_order_id = None, rp_wallet_topup_id = None, rp_provider = wk_Provider item,
       rp_provider_transaction_id = optionalText (wk_ProviderTransactionID item), rp_payment_reference = reference,
       rp_amount_vnd = wk_Amount item, rp_currency = wk_Currency item, rp_occurred_at = wk_OccurredAt item,
       rp_reason = reason, rp_payment_environment = wk_Environment item, rp_event_source = wk_Source item,
       rp_provider_account_mapping_id = optionalInt8 (wk_ProviderAccountMappingID item),
       rp_destination_account_identity = optionalText (wk_DestinationAccountID item)\<rparr>) (\<lambda>_.
     bindE (MarkPaymentEventReviewedBeforeAcceptance reviewedAt
       (optionalText ''payment provider event requires review'') (optionalText reason) (wk_ID item)) (\<lambda>_.
     returnE ()))))"

definition CompleteIgnoredPaymentEvent :: "int64 \<Rightarrow> string \<Rightarrow> time \<Rightarrow> unit dbtx" where
  "CompleteIgnoredPaymentEvent eventID reason completedAt =
     bindE (CompleteIgnoredPaymentEvent_query completedAt (optionalText ''provider transaction ignored'')
       (optionalText reason) eventID) (\<lambda>_. returnE ())"

definition SchedulePaymentEventRetry :: "int64 \<Rightarrow> time \<Rightarrow> time \<Rightarrow> string \<Rightarrow> string \<Rightarrow> unit dbtx" where
  "SchedulePaymentEventRetry eventID nextAttemptAt processedAt errorCode errorDetail =
     bindE (SchedulePaymentEventRetry_query nextAttemptAt processedAt (optionalText errorDetail)
       (optionalText errorCode) eventID) (\<lambda>_. returnE ())"

definition retryDelay :: "duration \<Rightarrow> int32 \<Rightarrow> duration" where
  "retryDelay base attempts =
     (let shift0 = wrap32 (attempts - 1); shift1 = (if shift0 < 0 then 0 else shift0);
          shift = (if shift1 > 10 then 10 else shift1) in wrap64 (base * 2 ^ nat shift))"

record event_job =
  ej_batchSize :: int32
  ej_retryBase :: duration
  ej_staleAfter :: duration
  ej_extractor :: "reference_extractor option"

definition acceptCommand :: "PaymentEventWorkItem \<Rightarrow> string \<Rightarrow> AcceptPaymentCommand" where
  "acceptCommand item reference = \<lparr>apc_PaymentEventID = wk_ID item, apc_Provider = wk_Provider item,
     apc_ExternalEventID = wk_ExternalEventID item, apc_ProviderTransactionID = wk_ProviderTransactionID item,
     apc_Reference = reference, apc_Amount = wk_Amount item, apc_Currency = wk_Currency item,
     apc_OccurredAt = wk_OccurredAt item, apc_Actor = \<lparr>Actor_Type = ''provider'', Actor_ID = 0\<rparr>,
     apc_RequestID = ''payment-event-'' @ intText (wk_ID item), apc_Environment = wk_Environment item,
     apc_Source = wk_Source item, apc_ProviderAccountMappingID = wk_ProviderAccountMappingID item,
     apc_LocalBankAccountID = wk_LocalBankAccountID item,
     apc_DestinationAccountID = wk_DestinationAccountID item\<rparr>"

text \<open>The reference of an item: the extractor's when there is one, with the reason of the review otherwise.\<close>

definition itemReference :: "unicode \<Rightarrow> event_job \<Rightarrow> PaymentEventWorkItem \<Rightarrow> string + string" where
  "itemReference uc job item =
     (case ej_extractor job of None \<Rightarrow> Inr (wk_Reference item)
      | Some extractor \<Rightarrow>
          let extracted = Extract uc (Some extractor) (wk_TransferContent item) in
          if pre_Match extracted \<noteq> PaymentReferenceExact then
            Inl (if pre_Match extracted = PaymentReferenceMultiple then ''provider_ambiguous_reference''
                 else ''provider_unmatched_reference'')
          else Inr (pre_Reference extracted))"

text \<open>One item of the batch; \<open>acceptedAt\<close> is the clock of the acceptance service at that item.\<close>

definition processItem ::
  "unicode \<Rightarrow> event_job \<Rightarrow> (int64 \<Rightarrow> bool) \<Rightarrow> duration \<Rightarrow> int32 \<Rightarrow> (int64 \<Rightarrow> time) \<Rightarrow> time \<Rightarrow> PaymentEventWorkItem \<Rightarrow>
   unit dbtx" where
  "processItem uc job skip ttl deliveryMaxAttempts acceptedAt now item =
     (if wk_Direction item = ''outbound'' then
        CompleteIgnoredPaymentEvent (wk_ID item) ''provider_unsupported_transaction'' now
      else case itemReference uc job item of
        Inl reason \<Rightarrow> ReviewPaymentEvent item ''UNRESOLVED'' reason now
      | Inr reference \<Rightarrow>
          if wk_DestinationAccountID item \<noteq> [] \<and> wk_ProviderAccountMappingID item = 0 then
            ReviewPaymentEvent item reference ''provider_account_unmapped'' now
          else
            bindE (attempt (PaymentAcceptanceService_Accept skip ttl deliveryMaxAttempts (acceptedAt (wk_ID item))
              (acceptCommand item reference))) (\<lambda>accepted. case accepted of
              Inr _ \<Rightarrow> returnE ()
            | Inl _ \<Rightarrow> SchedulePaymentEventRetry (wk_ID item) (now + retryDelay (ej_retryBase job) (wk_Attempts item))
                now ''acceptance_failed'' ''payment acceptance failed''))"

definition PaymentEventJob_RunOnce ::
  "(string \<Rightarrow> time option) \<Rightarrow> unicode \<Rightarrow> event_job \<Rightarrow> (int64 \<Rightarrow> bool) \<Rightarrow> duration \<Rightarrow> int32 \<Rightarrow> (int64 \<Rightarrow> time) \<Rightarrow> time \<Rightarrow>
   int dbtx" where
  "PaymentEventJob_RunOnce parseTime uc job skip ttl deliveryMaxAttempts acceptedAt now =
     (if ej_batchSize job \<le> 0 \<or> ej_retryBase job \<le> 0 \<or> ej_staleAfter job \<le> 0 then throwE ErrInvalidInput else
      bindE (ClaimPaymentEvents parseTime skip now (now - ej_staleAfter job) (ej_batchSize job)) (\<lambda>items.
      bindE (forE items (processItem uc job skip ttl deliveryMaxAttempts acceptedAt now)) (\<lambda>_.
      returnE (int (length items)))))"

end
