(* ===== verification/Desk.thy ===== *)
theory Desk
  imports Sql_Catalog Admin_Access Go_Text
begin

text \<open>
  The desk of the bot: the receipt that makes every Telegram update handled once
  (\<open>app/update_service.go\<close>), the users (\<open>app/user_service.go\<close>), and the administrators with their
  conversation sessions (\<open>app/admin_service.go\<close>), with the store functions of \<open>postgres/app_store.go\<close>
  and \<open>postgres/admin_store.go\<close> behind them.
\<close>

section \<open>Update receipts\<close>

datatype UpdateClaim = UpdateClaimed | UpdateDuplicateCompleted | UpdateDuplicateProcessing

definition ClaimUpdate :: "int64 \<Rightarrow> string \<Rightarrow> time \<Rightarrow> UpdateClaim dbtx" where
  "ClaimUpdate updateID updateType staleBefore = WithinTransaction (
     bindE (InsertTelegramUpdateReceipt updateID updateType) (\<lambda>_.
     bindE (LockTelegramUpdateReceipt updateID) (\<lambda>receipt.
     if rcp_status receipt = ''completed'' then returnE UpdateDuplicateCompleted
     else if rcp_status receipt = ''processing'' \<and>
        (case rcp_processing_started_at receipt of None \<Rightarrow> False | Some t \<Rightarrow> t > staleBefore)
     then returnE UpdateDuplicateProcessing
     else bindE (attempt (StartTelegramUpdateProcessing updateID staleBefore)) (\<lambda>r.
       case r of Inr _ \<Rightarrow> returnE UpdateClaimed
       | Inl e \<Rightarrow> if e = PgxErrNoRows then returnE UpdateDuplicateProcessing else throwE e))))"

definition FailUpdate :: "int64 \<Rightarrow> string \<Rightarrow> unit dbtx" where
  "FailUpdate updateID code =
     bindE (noRows ErrDuplicateUpdate (FailTelegramUpdateReceipt (optionalText code) updateID)) (\<lambda>_. returnE ())"

definition UpdateService_Claim :: "duration \<Rightarrow> time \<Rightarrow> int64 \<Rightarrow> string \<Rightarrow> UpdateClaim dbtx" where
  "UpdateService_Claim staleAfter now updateID updateType =
     (if updateID < 0 \<or> TrimSpace updateType = [] then throwE ErrInvalidInput
      else ClaimUpdate updateID updateType (now - staleAfter))"

definition UpdateService_Complete :: "int64 \<Rightarrow> unit dbtx" where
  "UpdateService_Complete updateID = completeReceipt updateID"

definition UpdateService_Fail :: "int64 \<Rightarrow> string \<Rightarrow> unit dbtx" where
  "UpdateService_Fail updateID code0 =
     (let code = TrimSpace code0 in
      FailUpdate updateID (if code = [] \<or> length code > 200 then ''internal_error'' else code))"

section \<open>Users\<close>

record User =
  User_ID :: int64
  User_TelegramUserID :: int64
  User_Username :: string
  User_DisplayName :: string
  User_Status :: UserStatus

record TelegramProfile =
  Profile_TelegramUserID :: int64
  Profile_Username :: string
  Profile_FirstName :: string
  Profile_LastName :: string

definition mapUser :: "user_row \<Rightarrow> User" where
  "mapUser row = \<lparr>User_ID = usr_id row, User_TelegramUserID = usr_telegram_user_id row,
     User_Username = textOr (usr_username row), User_DisplayName = textOr (usr_display_name row),
     User_Status = usr_status row\<rparr>"

definition UpsertTelegramUser_store :: "TelegramProfile \<Rightarrow> User dbtx" where
  "UpsertTelegramUser_store profile =
     (let displayName = TrimSpace (Profile_FirstName profile @ '' '' @ Profile_LastName profile) in
      bindE (UpsertTelegramUser (Profile_TelegramUserID profile) (optionalText (Profile_Username profile))
        (optionalText displayName)) (\<lambda>row. returnE (mapUser row)))"

definition UserService_Sync :: "TelegramProfile \<Rightarrow> User dbtx" where
  "UserService_Sync profile =
     (if Profile_TelegramUserID profile \<le> 0 then throwE ErrInvalidInput else
      bindE (UpsertTelegramUser_store (profile\<lparr>Profile_Username := TrimSpace (Profile_Username profile),
        Profile_FirstName := TrimSpace (Profile_FirstName profile),
        Profile_LastName := TrimSpace (Profile_LastName profile)\<rparr>)) (\<lambda>user.
      if User_Status user = UserStatusBanned \<or> User_Status user = UserStatusDisabled then throwE ErrUserBlocked
      else returnE user))"

section \<open>Administrators\<close>

definition BootstrapAdmin :: "int64 \<Rightarrow> unit dbtx" where
  "BootstrapAdmin telegramID = WithinTransaction (
     bindE (EnsureBootstrapUser telegramID) (\<lambda>user.
     bindE (EnsureBootstrapAdmin (usr_id user)) (\<lambda>_. returnE ())))"

fun bootstrapLoop :: "int64 list \<Rightarrow> int64 list \<Rightarrow> unit dbtx" where
  "bootstrapLoop seen [] = returnE ()"
| "bootstrapLoop seen (telegramID # rest) =
     (if telegramID \<le> 0 then throwE ErrInvalidInput
      else if telegramID \<in> set seen then bootstrapLoop seen rest
      else bindE (BootstrapAdmin telegramID) (\<lambda>_. bootstrapLoop (telegramID # seen) rest))"

definition AdminService_Bootstrap :: "int64 list \<Rightarrow> unit dbtx" where
  "AdminService_Bootstrap telegramIDs = bootstrapLoop [] telegramIDs"

definition AdminService_Authorize :: "int64 \<Rightarrow> bool \<Rightarrow> Admin dbtx" where
  "AdminService_Authorize telegramID mutation =
     (if telegramID \<le> 0 then throwE ErrUnauthorized else
      bindE (mapErrE (\<lambda>e. if e = ErrNotFound then ErrForbidden else e) (authorizeAdmin telegramID)) (\<lambda>admin.
      if \<not> CanOpenAdmin admin \<or> (mutation \<and> \<not> CanManageCatalog admin) then throwE ErrForbidden
      else returnE admin))"

definition validSessionState :: "string \<Rightarrow> bool" where
  "validSessionState state \<longleftrightarrow> state \<in> set
     [''category.create'', ''category.edit'', ''category.toggle'', ''product.create'', ''product.edit'',
      ''product.toggle'', ''inventory.import'', ''inventory.toggle'', ''bank.create'', ''bank.edit'',
      ''bank.toggle'', ''payment.manual'', ''payment.review'', ''wallet.adjustment'', ''delivery.retry'',
      ''delivery.complete'', ''provider.account.create'', ''provider.account.toggle'', ''provider.reconciliation'']"

text \<open>
  \<open>insertAudit\<close>: every administrative change leaves one audit row with the administrator, the resource and the
  update that asked for it.
\<close>

definition insertAudit ::
  "int64 \<Rightarrow> string \<Rightarrow> string \<Rightarrow> int64 \<Rightarrow> json option \<Rightarrow> json option \<Rightarrow> RequestMeta \<Rightarrow> unit dbtx" where
  "insertAudit adminID action resourceType resourceID before after meta =
     bindE (InsertAuditLog \<lparr>ap_actor_type = ''admin'', ap_actor_id = Some adminID, ap_action = action,
       ap_resource_type = resourceType, ap_resource_id = Some resourceID, ap_before_data = before,
       ap_after_data = after, ap_request_id = optionalText (RequestID meta),
       ap_telegram_update_id = Some (UpdateID meta)\<rparr>) (\<lambda>_. returnE ())"

text \<open>The first and the last steps of every administrative transaction.\<close>

definition asAdmin :: "time \<Rightarrow> Admin \<Rightarrow> session_row \<Rightarrow> string \<Rightarrow> 'a dbtx \<Rightarrow> 'a dbtx" where
  "asAdmin now admin session state body =
     bindE (requireCatalogAdmin admin) (\<lambda>_.
     bindE (lockAndVerifySession now (Admin_ID admin) session state) (\<lambda>_. body))"

definition closeAdmin :: "Admin \<Rightarrow> session_row \<Rightarrow> RequestMeta \<Rightarrow> 'a \<Rightarrow> 'a dbtx" where
  "closeAdmin admin session meta result =
     bindE (finishSession (Admin_ID admin) session) (\<lambda>_.
     bindE (completeReceipt (UpdateID meta)) (\<lambda>_. returnE result))"

definition StartSession :: "Admin \<Rightarrow> string \<Rightarrow> json \<Rightarrow> time \<Rightarrow> RequestMeta \<Rightarrow> session_row dbtx" where
  "StartSession admin state payload expiresAt meta = mapErrE mapConstraintError (WithinTransaction (
     bindE (requireCatalogAdmin admin) (\<lambda>_.
     bindE (StartAdminSession (Admin_ID admin) state payload expiresAt) (\<lambda>row.
     bindE (insertAudit (Admin_ID admin) ''admin.session.started'' ''admin_session'' (ses_id row) None
       (Some [(''state'', JText (ses_state row)), (''version'', JInt (ses_version row))]) meta) (\<lambda>_.
     bindE (completeReceipt (UpdateID meta)) (\<lambda>_. returnE row))))))"

definition GetActiveSession :: "int64 \<Rightarrow> session_row dbtx" where
  "GetActiveSession adminID = noRows ErrNotFound (GetActiveAdminSession adminID)"

definition AdvanceSession ::
  "time \<Rightarrow> Admin \<Rightarrow> session_row \<Rightarrow> string \<Rightarrow> json \<Rightarrow> time \<Rightarrow> RequestMeta \<Rightarrow> session_row dbtx" where
  "AdvanceSession now admin session state payload expiresAt meta = WithinTransaction (
     asAdmin now admin session [] (
     bindE (noRows ErrStaleVersion (AdvanceAdminSessionGuarded state payload expiresAt (ses_id session)
       (Admin_ID admin) (ses_version session))) (\<lambda>row.
     bindE (completeReceipt (UpdateID meta)) (\<lambda>_. returnE row))))"

definition CancelSession :: "time \<Rightarrow> Admin \<Rightarrow> session_row \<Rightarrow> RequestMeta \<Rightarrow> unit dbtx" where
  "CancelSession now admin session meta = WithinTransaction (
     asAdmin now admin session [] (
     bindE (noRows ErrStaleVersion (FinishAdminSessionGuarded ''cancelled'' (ses_id session) (Admin_ID admin)
       (ses_version session))) (\<lambda>row.
     bindE (insertAudit (Admin_ID admin) ''admin.session.cancelled'' ''admin_session'' (ses_id row)
       (Some [(''state'', JText (ses_state session)), (''version'', JInt (ses_version session))])
       (Some [(''state'', JText (ses_state row)), (''version'', JInt (ses_version row))]) meta) (\<lambda>_.
     completeReceipt (UpdateID meta)))))"

section \<open>JSON\<close>

text \<open>
  \<open>encoding/json\<close> on the payloads: strings are quoted, control bytes and the HTML characters escaped, ill-formed
  bytes replaced.
\<close>

definition hexChar :: "nat \<Rightarrow> char" where
  "hexChar d = char_of (if d < 10 then 48 + d else 87 + d)"

definition jsonByte :: "char \<Rightarrow> string" where
  "jsonByte c = (let n = (of_char c :: nat) in
     if c = CHR 0x22 \<or> c = CHR 0x5C then [CHR 0x5C, c]
     else if n = 8 then [CHR 0x5C, CHR ''b''] else if n = 9 then [CHR 0x5C, CHR ''t'']
     else if n = 10 then [CHR 0x5C, CHR ''n''] else if n = 12 then [CHR 0x5C, CHR ''f'']
     else if n = 13 then [CHR 0x5C, CHR ''r'']
     else if n < 32 \<or> c = CHR ''<'' \<or> c = CHR ''>'' \<or> c = CHR ''&''
     then [CHR 0x5C, CHR ''u'', CHR ''0'', CHR ''0'', hexChar (n div 16), hexChar (n mod 16)]
     else [c])"

function jsonChars :: "string \<Rightarrow> string" where
  "jsonChars [] = []"
| "jsonChars (c # s) =
     (let n = runeLen (c # s) in
      if n = 0 then CHR 0x5C # ''ufffd'' @ jsonChars s
      else if n = 1 then jsonByte c @ jsonChars s
      else if take 3 (c # s) = [CHR 0xE2, CHR 0x80, CHR 0xA8] then CHR 0x5C # ''u2028'' @ jsonChars (drop (n - 1) s)
      else if take 3 (c # s) = [CHR 0xE2, CHR 0x80, CHR 0xA9] then CHR 0x5C # ''u2029'' @ jsonChars (drop (n - 1) s)
      else take n (c # s) @ jsonChars (drop (n - 1) s))"
  by pat_completeness auto
termination
  by (relation "measure length") auto

definition jsonString :: "string \<Rightarrow> string" where
  "jsonString s = CHR 0x22 # jsonChars s @ [CHR 0x22]"

fun jsonValue :: "jval \<Rightarrow> string" where
  "jsonValue (JInt i) = intText i"
| "jsonValue (JText s) = jsonString s"
| "jsonValue (JBool b) = (if b then ''true'' else ''false'')"
| "jsonValue (JInts is) = ''['' @ joinWith (CHR '','') (map intText is) @ '']''"
| "jsonValue (JRaw raw) = raw"

definition json_Marshal :: "json \<Rightarrow> string" where
  "json_Marshal members = ''{'' @ joinWith (CHR '','') (map (\<lambda>(k, v). jsonString k @ '':'' @ jsonValue v) members) @ ''}''"

text \<open>\<open>encodePayload\<close>: the payload as a JSON object of at most 16 KiB.\<close>

definition encodePayload :: "json option \<Rightarrow> error + json" where
  "encodePayload payload =
     (case payload of None \<Rightarrow> Inr []
      | Some p \<Rightarrow> if length (json_Marshal p) > 16 * 1024 then Inl ErrInvalidInput else Inr p)"

section \<open>AdminService\<close>

definition AdminService_StartSession ::
  "duration \<Rightarrow> time \<Rightarrow> int64 \<Rightarrow> string \<Rightarrow> json option \<Rightarrow> RequestMeta \<Rightarrow> session_row dbtx" where
  "AdminService_StartSession sessionTTL now telegramID state payload meta =
     (if \<not> validSessionState state then throwE ErrInvalidInput else
      bindE (AdminService_Authorize telegramID True) (\<lambda>admin.
      bindE (ofSum (encodePayload payload)) (\<lambda>encoded.
      StartSession admin state encoded (now + sessionTTL) meta)))"

definition AdminService_LoadSession :: "time \<Rightarrow> int64 \<Rightarrow> session_row dbtx" where
  "AdminService_LoadSession now telegramID =
     bindE (AdminService_Authorize telegramID True) (\<lambda>admin.
     bindE (mapErrE (\<lambda>e. if e = ErrNotFound then ErrSessionExpired else e) (GetActiveSession (Admin_ID admin))) (\<lambda>session.
     if \<not> ses_expires_at session > now then throwE ErrSessionExpired else returnE session))"

definition AdminService_AdvanceSession ::
  "duration \<Rightarrow> time \<Rightarrow> int64 \<Rightarrow> session_row \<Rightarrow> string \<Rightarrow> json option \<Rightarrow> RequestMeta \<Rightarrow>
   session_row dbtx" where
  "AdminService_AdvanceSession sessionTTL now telegramID session state payload meta =
     (if \<not> validSessionState state then throwE ErrInvalidInput else
      bindE (AdminService_Authorize telegramID True) (\<lambda>admin.
      bindE (ofSum (encodePayload payload)) (\<lambda>encoded.
      AdvanceSession now admin session state encoded (now + sessionTTL) meta)))"

definition AdminService_CancelSession :: "time \<Rightarrow> int64 \<Rightarrow> session_row \<Rightarrow> RequestMeta \<Rightarrow> unit dbtx" where
  "AdminService_CancelSession now telegramID session meta =
     bindE (AdminService_Authorize telegramID True) (\<lambda>admin. CancelSession now admin session meta)"

end
