(* ===== verification/Catalog_Admin.thy ===== *)
theory Catalog_Admin
  imports Desk Order_Service
begin

text \<open>
  The catalog: its administration by guarded sessions (\<open>app/admin_service.go\<close> and \<open>postgres/admin_store.go\<close>)
  and its listings (\<open>app/catalog_service.go\<close>, \<open>postgres/app_store.go\<close>).
\<close>

record Category =
  Category_ID :: int64
  Category_Name :: string
  Category_Slug :: string
  Category_Emoji :: string
  Category_SortOrder :: int32
  Category_Active :: bool
  Category_Version :: int64

record Product =
  Product_ID :: int64
  Product_CategoryID :: int64
  Product_Name :: string
  Product_Slug :: string
  Product_Description :: string
  Product_Price :: Money
  Product_DeliveryType :: string
  Product_ContactURL :: string
  Product_Active :: bool
  Product_Version :: int64

definition mapCategory :: "category_row \<Rightarrow> Category" where
  "mapCategory row = \<lparr>Category_ID = cat_id row, Category_Name = cat_name row, Category_Slug = cat_slug row,
     Category_Emoji = cat_emoji row, Category_SortOrder = cat_sort_order row, Category_Active = cat_is_active row,
     Category_Version = cat_version row\<rparr>"

definition mapProduct :: "product_row \<Rightarrow> Product" where
  "mapProduct row = \<lparr>Product_ID = prd_id row, Product_CategoryID = prd_category_id row, Product_Name = prd_name row,
     Product_Slug = prd_slug row, Product_Description = textOr (prd_description row),
     Product_Price = prd_price_vnd row, Product_DeliveryType = prd_delivery_type row,
     Product_ContactURL = textOr (prd_contact_url row), Product_Active = prd_is_active row,
     Product_Version = prd_version row\<rparr>"

definition categorySnapshot :: "category_row \<Rightarrow> json" where
  "categorySnapshot row = [(''id'', JInt (cat_id row)), (''name'', JText (cat_name row)),
     (''sort_order'', JInt (cat_sort_order row)), (''active'', JBool (cat_is_active row)),
     (''version'', JInt (cat_version row))]"

definition productSnapshot :: "product_row \<Rightarrow> json" where
  "productSnapshot row =
     [(''id'', JInt (prd_id row)), (''category_id'', JInt (prd_category_id row)), (''name'', JText (prd_name row))] @
     (if textOr (prd_description row) = [] then [] else [(''description'', JText (textOr (prd_description row)))]) @
     [(''price_vnd'', JInt (prd_price_vnd row)), (''active'', JBool (prd_is_active row)),
      (''version'', JInt (prd_version row))]"

section \<open>Categories\<close>

record CreateCategoryInput =
  cci_Name :: string
  cci_Slug :: string
  cci_SortOrder :: int32
  cci_Meta :: RequestMeta

record UpdateCategoryInput =
  uci_CategoryID :: int64
  uci_ExpectedRecord :: int64
  uci_Name :: string
  uci_SortOrder :: int32
  uci_Meta :: RequestMeta

text \<open>The input of the toggles of categories, products and bank accounts.\<close>

record SetActiveInput =
  sai_ID :: int64
  sai_ExpectedRecord :: int64
  sai_Active :: bool
  sai_Meta :: RequestMeta

definition CreateCategory :: "time \<Rightarrow> Admin \<Rightarrow> session_row \<Rightarrow> CreateCategoryInput \<Rightarrow> Category dbtx" where
  "CreateCategory now admin session input = mapErrE mapConstraintError (WithinTransaction (
     asAdmin now admin session ''category.create'' (
     bindE (CreateCategory_query (cci_Name input) (cci_Slug input) (cci_SortOrder input)) (\<lambda>row.
     bindE (insertAudit (Admin_ID admin) ''category.created'' ''category'' (cat_id row) None
       (Some (categorySnapshot row)) (cci_Meta input)) (\<lambda>_.
     closeAdmin admin session (cci_Meta input) (mapCategory row))))))"

definition UpdateCategory :: "time \<Rightarrow> Admin \<Rightarrow> session_row \<Rightarrow> UpdateCategoryInput \<Rightarrow> Category dbtx" where
  "UpdateCategory now admin session input = mapErrE mapConstraintError (WithinTransaction (
     asAdmin now admin session ''category.edit'' (
     bindE (noRows ErrNotFound (LockCategoryByID (uci_CategoryID input))) (\<lambda>before.
     if cat_version before \<noteq> uci_ExpectedRecord input then throwE ErrStaleVersion else
     bindE (UpdateCategoryDetailsGuarded (uci_Name input) (uci_SortOrder input) (uci_CategoryID input)
       (uci_ExpectedRecord input)) (\<lambda>after.
     bindE (insertAudit (Admin_ID admin) ''category.updated'' ''category'' (cat_id after)
       (Some (categorySnapshot before)) (Some (categorySnapshot after)) (uci_Meta input)) (\<lambda>_.
     closeAdmin admin session (uci_Meta input) (mapCategory after)))))))"

definition SetCategoryActive :: "time \<Rightarrow> Admin \<Rightarrow> session_row \<Rightarrow> SetActiveInput \<Rightarrow> Category dbtx" where
  "SetCategoryActive now admin session input = WithinTransaction (
     asAdmin now admin session ''category.toggle'' (
     bindE (noRows ErrNotFound (LockCategoryByID (sai_ID input))) (\<lambda>before.
     if cat_version before \<noteq> sai_ExpectedRecord input \<or> cat_is_active before = sai_Active input
     then throwE ErrStaleVersion else
     bindE (SetCategoryActiveGuarded (sai_Active input) (sai_ID input) (sai_ExpectedRecord input)) (\<lambda>after.
     bindE (insertAudit (Admin_ID admin)
       (if sai_Active input then ''category.activated'' else ''category.deactivated'') ''category'' (cat_id after)
       (Some (categorySnapshot before)) (Some (categorySnapshot after)) (sai_Meta input)) (\<lambda>_.
     closeAdmin admin session (sai_Meta input) (mapCategory after))))))"

definition validSlugByte :: "char \<Rightarrow> bool" where
  "validSlugByte c \<longleftrightarrow> (let n = (of_char c :: nat) in (97 \<le> n \<and> n \<le> 122) \<or> (48 \<le> n \<and> n \<le> 57) \<or> c = CHR ''-'')"

text \<open>A slug with a rune outside \<open>a-z0-9-\<close> has a byte outside it, and conversely.\<close>

definition validateCategory :: "string \<Rightarrow> string \<Rightarrow> int32 \<Rightarrow> bool" where
  "validateCategory name slug sortOrder \<longleftrightarrow>
     \<not> (name = [] \<or> runeCount name > 120 \<or> slug = [] \<or> length slug > 160 \<or> sortOrder < 0) \<and>
     list_all validSlugByte slug"

definition AdminService_CreateCategory ::
  "time \<Rightarrow> int64 \<Rightarrow> session_row \<Rightarrow> CreateCategoryInput \<Rightarrow> Category dbtx" where
  "AdminService_CreateCategory now telegramID session input0 =
     (let input = input0\<lparr>cci_Name := TrimSpace (cci_Name input0), cci_Slug := TrimSpace (cci_Slug input0)\<rparr> in
      if \<not> validateCategory (cci_Name input) (cci_Slug input) (cci_SortOrder input) then throwE ErrInvalidInput else
      bindE (AdminService_Authorize telegramID True) (\<lambda>admin. CreateCategory now admin session input))"

definition AdminService_UpdateCategory ::
  "time \<Rightarrow> int64 \<Rightarrow> session_row \<Rightarrow> UpdateCategoryInput \<Rightarrow> Category dbtx" where
  "AdminService_UpdateCategory now telegramID session input0 =
     (let input = input0\<lparr>uci_Name := TrimSpace (uci_Name input0)\<rparr> in
      if uci_CategoryID input \<le> 0 \<or> uci_ExpectedRecord input \<le> 0 \<or> uci_Name input = [] \<or>
         runeCount (uci_Name input) > 120 \<or> uci_SortOrder input < 0 then throwE ErrInvalidInput else
      bindE (AdminService_Authorize telegramID True) (\<lambda>admin. UpdateCategory now admin session input))"

definition AdminService_SetCategoryActive ::
  "time \<Rightarrow> int64 \<Rightarrow> session_row \<Rightarrow> SetActiveInput \<Rightarrow> Category dbtx" where
  "AdminService_SetCategoryActive now telegramID session input =
     (if sai_ID input \<le> 0 \<or> sai_ExpectedRecord input \<le> 0 then throwE ErrInvalidInput else
      bindE (AdminService_Authorize telegramID True) (\<lambda>admin. SetCategoryActive now admin session input))"

section \<open>Products\<close>

record CreateProductInput =
  cpi_CategoryID :: int64
  cpi_Name :: string
  cpi_Slug :: string
  cpi_Description :: string
  cpi_Price :: Money
  cpi_Meta :: RequestMeta

record UpdateProductInput =
  upi_ProductID :: int64
  upi_ExpectedRecord :: int64
  upi_CategoryID :: int64
  upi_Name :: string
  upi_Description :: string
  upi_Price :: Money
  upi_Meta :: RequestMeta

definition CreateProduct :: "time \<Rightarrow> Admin \<Rightarrow> session_row \<Rightarrow> CreateProductInput \<Rightarrow> Product dbtx" where
  "CreateProduct now admin session input = mapErrE mapConstraintError (WithinTransaction (
     asAdmin now admin session ''product.create'' (
     bindE (noRows ErrNotFound (GetCategoryByID (cpi_CategoryID input))) (\<lambda>_.
     bindE (CreateProduct_query (cpi_CategoryID input) (cpi_Name input) (cpi_Slug input)
       (optionalText (cpi_Description input)) (cpi_Price input) ''inventory'' None) (\<lambda>row.
     bindE (insertAudit (Admin_ID admin) ''product.created'' ''product'' (prd_id row) None
       (Some (productSnapshot row)) (cpi_Meta input)) (\<lambda>_.
     closeAdmin admin session (cpi_Meta input) (mapProduct row)))))))"

definition UpdateProduct :: "time \<Rightarrow> Admin \<Rightarrow> session_row \<Rightarrow> UpdateProductInput \<Rightarrow> Product dbtx" where
  "UpdateProduct now admin session input = mapErrE mapConstraintError (WithinTransaction (
     asAdmin now admin session ''product.edit'' (
     bindE (noRows ErrNotFound (GetCategoryByID (upi_CategoryID input))) (\<lambda>_.
     bindE (noRows ErrNotFound (LockProductByID (upi_ProductID input))) (\<lambda>before.
     if prd_version before \<noteq> upi_ExpectedRecord input then throwE ErrStaleVersion else
     bindE (UpdateProductDetailsGuarded (upi_CategoryID input) (upi_Name input)
       (optionalText (upi_Description input)) (upi_Price input) (upi_ProductID input)
       (upi_ExpectedRecord input)) (\<lambda>after.
     bindE (insertAudit (Admin_ID admin) ''product.updated'' ''product'' (prd_id after)
       (Some (productSnapshot before)) (Some (productSnapshot after)) (upi_Meta input)) (\<lambda>_.
     closeAdmin admin session (upi_Meta input) (mapProduct after))))))))"

definition SetProductActive :: "time \<Rightarrow> Admin \<Rightarrow> session_row \<Rightarrow> SetActiveInput \<Rightarrow> Product dbtx" where
  "SetProductActive now admin session input = WithinTransaction (
     asAdmin now admin session ''product.toggle'' (
     bindE (noRows ErrNotFound (LockProductByID (sai_ID input))) (\<lambda>before.
     if prd_version before \<noteq> sai_ExpectedRecord input \<or> prd_is_active before = sai_Active input
     then throwE ErrStaleVersion else
     bindE (SetProductActiveGuarded (sai_Active input) (sai_ID input) (sai_ExpectedRecord input)) (\<lambda>after.
     bindE (insertAudit (Admin_ID admin)
       (if sai_Active input then ''product.activated'' else ''product.deactivated'') ''product'' (prd_id after)
       (Some (productSnapshot before)) (Some (productSnapshot after)) (sai_Meta input)) (\<lambda>_.
     closeAdmin admin session (sai_Meta input) (mapProduct after))))))"

definition validateProduct :: "int64 \<Rightarrow> string \<Rightarrow> string \<Rightarrow> string \<Rightarrow> Money \<Rightarrow> bool" where
  "validateProduct categoryID name slug description price \<longleftrightarrow>
     \<not> (categoryID \<le> 0 \<or> name = [] \<or> runeCount name > 160 \<or> slug = [] \<or> length slug > 180 \<or>
        runeCount description > 2000 \<or> price < 0)"

definition AdminService_CreateProduct ::
  "time \<Rightarrow> int64 \<Rightarrow> session_row \<Rightarrow> CreateProductInput \<Rightarrow> Product dbtx" where
  "AdminService_CreateProduct now telegramID session input0 =
     (let input = input0\<lparr>cpi_Name := TrimSpace (cpi_Name input0), cpi_Slug := TrimSpace (cpi_Slug input0),
                         cpi_Description := TrimSpace (cpi_Description input0)\<rparr> in
      if \<not> validateProduct (cpi_CategoryID input) (cpi_Name input) (cpi_Slug input) (cpi_Description input)
           (cpi_Price input) then throwE ErrInvalidInput else
      bindE (AdminService_Authorize telegramID True) (\<lambda>admin. CreateProduct now admin session input))"

definition AdminService_UpdateProduct ::
  "time \<Rightarrow> int64 \<Rightarrow> session_row \<Rightarrow> UpdateProductInput \<Rightarrow> Product dbtx" where
  "AdminService_UpdateProduct now telegramID session input0 =
     (let input = input0\<lparr>upi_Name := TrimSpace (upi_Name input0),
                         upi_Description := TrimSpace (upi_Description input0)\<rparr> in
      if upi_ProductID input \<le> 0 \<or> upi_ExpectedRecord input \<le> 0 \<or>
         \<not> validateProduct (upi_CategoryID input) (upi_Name input) ''valid'' (upi_Description input) (upi_Price input)
      then throwE ErrInvalidInput else
      bindE (AdminService_Authorize telegramID True) (\<lambda>admin. UpdateProduct now admin session input))"

definition AdminService_SetProductActive ::
  "time \<Rightarrow> int64 \<Rightarrow> session_row \<Rightarrow> SetActiveInput \<Rightarrow> Product dbtx" where
  "AdminService_SetProductActive now telegramID session input =
     (if sai_ID input \<le> 0 \<or> sai_ExpectedRecord input \<le> 0 then throwE ErrInvalidInput else
      bindE (AdminService_Authorize telegramID True) (\<lambda>admin. SetProductActive now admin session input))"

definition ParseMoneyInput :: "string \<Rightarrow> error + Money" where
  "ParseMoneyInput raw0 =
     (let raw = TrimSpace raw0 in
      if raw = [] \<or> CHR ''.'' \<in> set raw \<or> CHR '','' \<in> set raw then Inl ErrInvalidInput else
      case ParseInt 64 raw of
        None \<Rightarrow> Inl ErrInvalidInput
      | Some v \<Rightarrow> (case NewMoney v of Inl _ \<Rightarrow> Inl ErrInvalidInput | Inr m \<Rightarrow> Inr m))"

section \<open>Listings\<close>

definition DefaultPageSize :: int where "DefaultPageSize = 8"
definition MaxPageSize :: int where "MaxPageSize = 20"

definition servicePageSize :: "int \<Rightarrow> int" where
  "servicePageSize pageSize = (if pageSize \<le> 0 \<or> pageSize > MaxPageSize then DefaultPageSize else pageSize)"

text \<open>\<open>CatalogService.offset\<close>, and the conversion \<open>int32(offset)\<close> of its callers.\<close>

definition CatalogService_offset :: "int \<Rightarrow> int \<Rightarrow> error + int" where
  "CatalogService_offset pageSize page = (if page < 0 then Inl ErrInvalidInput else Inr (wrap64 (page * pageSize)))"

definition ListActiveCategories :: "int32 \<Rightarrow> int32 \<Rightarrow> (Category list \<times> int64) dbtx" where
  "ListActiveCategories off limit =
     bindE CountActiveCategories (\<lambda>total.
     bindE (ListActiveCategoriesPage off limit) (\<lambda>rows. returnE (map mapCategory rows, total)))"

definition ListActiveProducts :: "int64 \<Rightarrow> int32 \<Rightarrow> int32 \<Rightarrow> (Product list \<times> int64) dbtx" where
  "ListActiveProducts categoryID off limit =
     bindE (CountActiveProductsByCategory categoryID) (\<lambda>total.
     bindE (ListActiveProductsPage categoryID off limit) (\<lambda>rows. returnE (map mapProduct rows, total)))"

definition GetActiveProduct :: "int64 \<Rightarrow> Product dbtx" where
  "GetActiveProduct productID =
     bindE (noRows ErrNotFound (GetActiveProductDetail productID)) (\<lambda>row. returnE (mapProduct row))"

definition ListAdminCategories :: "int32 \<Rightarrow> int32 \<Rightarrow> (Category list \<times> int64) dbtx" where
  "ListAdminCategories off limit =
     bindE CountAdminCategories (\<lambda>total.
     bindE (ListAdminCategoriesPage off limit) (\<lambda>rows. returnE (map mapCategory rows, total)))"

definition ListAdminProducts :: "int32 \<Rightarrow> int32 \<Rightarrow> (Product list \<times> int64) dbtx" where
  "ListAdminProducts off limit =
     bindE CountAdminProducts (\<lambda>total.
     bindE (ListAdminProductsPage off limit) (\<lambda>rows. returnE (map mapProduct rows, total)))"

definition CatalogService_ListCategories :: "int \<Rightarrow> int \<Rightarrow> (Category list \<times> PageInfo) dbtx" where
  "CatalogService_ListCategories pageSize page =
     bindE (ofSum (CatalogService_offset pageSize page)) (\<lambda>off.
     bindE (ListActiveCategories (wrap32 off) (wrap32 pageSize)) (\<lambda>(items, total).
     returnE (items, pageInfo page pageSize total)))"

definition CatalogService_ListProducts :: "int \<Rightarrow> int64 \<Rightarrow> int \<Rightarrow> (Product list \<times> PageInfo) dbtx" where
  "CatalogService_ListProducts pageSize categoryID page =
     (if categoryID \<le> 0 then throwE ErrInvalidInput else
      bindE (ofSum (CatalogService_offset pageSize page)) (\<lambda>off.
      bindE (ListActiveProducts categoryID (wrap32 off) (wrap32 pageSize)) (\<lambda>(items, total).
      returnE (items, pageInfo page pageSize total))))"

definition CatalogService_GetProduct :: "int64 \<Rightarrow> Product dbtx" where
  "CatalogService_GetProduct productID = (if productID \<le> 0 then throwE ErrInvalidInput else GetActiveProduct productID)"

definition CatalogService_ListAdminCategories :: "int \<Rightarrow> int \<Rightarrow> (Category list \<times> PageInfo) dbtx" where
  "CatalogService_ListAdminCategories pageSize page =
     bindE (ofSum (CatalogService_offset pageSize page)) (\<lambda>off.
     bindE (ListAdminCategories (wrap32 off) (wrap32 pageSize)) (\<lambda>(items, total).
     returnE (items, pageInfo page pageSize total)))"

definition CatalogService_ListAdminProducts :: "int \<Rightarrow> int \<Rightarrow> (Product list \<times> PageInfo) dbtx" where
  "CatalogService_ListAdminProducts pageSize page =
     bindE (ofSum (CatalogService_offset pageSize page)) (\<lambda>off.
     bindE (ListAdminProducts (wrap32 off) (wrap32 pageSize)) (\<lambda>(items, total).
     returnE (items, pageInfo page pageSize total)))"

end
