(* ===== verification/Stock_Admin.thy ===== *)
theory Stock_Admin
  imports Catalog_Admin Inventory_Store
begin

text \<open>
  Administration of the bank accounts and of the encrypted stock: \<open>app/bank_account_service.go\<close>,
  \<open>postgres/bank_account_store.go\<close>, \<open>app/inventory_service.go\<close> and \<open>postgres/inventory_admin_store.go\<close>. The
  two ciphers are arguments; metrics are left out.
\<close>

section \<open>Bank accounts\<close>

record BankAccountOption =
  bao_ID :: int64
  bao_BankBIN :: string
  bao_BankName :: string
  bao_DisplayName :: string
  bao_AccountName :: string
  bao_Last4 :: string
  bao_SortOrder :: int32
  bao_Version :: int64
  bao_PaymentEnvironment :: string

record RedactedBankAccount =
  rba_Option :: BankAccountOption
  rba_Active :: bool
  rba_KeyVersion :: int32
  rba_Format :: string
  rba_CreatedAt :: time

record BankAccountInput =
  bai_BankBIN :: string
  bai_BankName :: string
  bai_DisplayName :: string
  bai_AccountName :: string
  bai_AccountNumber :: string
  bai_SortOrder :: int32
  bai_PaymentEnvironment :: string

record ProtectedNumber =
  pn_Ciphertext :: string
  pn_Nonce :: string
  pn_Fingerprint :: string
  pn_KeyVersion :: int32
  pn_KeyID :: string
  pn_Format :: string

definition mapBankOption :: "bank_row \<Rightarrow> BankAccountOption" where
  "mapBankOption row = \<lparr>bao_ID = bnk_id row, bao_BankBIN = bnk_bank_bin row, bao_BankName = bnk_bank_name row,
     bao_DisplayName = bnk_display_name row, bao_AccountName = bnk_account_name row, bao_Last4 = bnk_display_last4 row,
     bao_SortOrder = bnk_sort_order row, bao_Version = bnk_version row,
     bao_PaymentEnvironment = bnk_payment_environment row\<rparr>"

definition mapRedactedBank :: "bank_row \<Rightarrow> RedactedBankAccount" where
  "mapRedactedBank row = \<lparr>rba_Option = mapBankOption row, rba_Active = bnk_is_active row,
     rba_KeyVersion = bnk_encryption_key_version row, rba_Format = bnk_encryption_format row,
     rba_CreatedAt = bnk_created_at row\<rparr>"

definition bankAuditSnapshot :: "RedactedBankAccount \<Rightarrow> json" where
  "bankAuditSnapshot value = (let o' = rba_Option value in
     [(''account_last4'', JText (bao_Last4 o')), (''account_name'', JText (bao_AccountName o')),
      (''active'', JBool (rba_Active value)), (''bank_bin'', JText (bao_BankBIN o')),
      (''bank_name'', JText (bao_BankName o')), (''display_name'', JText (bao_DisplayName o')),
      (''id'', JInt (bao_ID o')), (''payment_environment'', JText (bao_PaymentEnvironment o')),
      (''sort_order'', JInt (bao_SortOrder o')), (''version'', JInt (bao_Version o'))])"

definition last4 :: "string \<Rightarrow> string" where
  "last4 value = (if length value \<le> 4 then value else drop (length value - 4) value)"

definition ListActiveBankAccounts :: "string \<Rightarrow> BankAccountOption list dbtx" where
  "ListActiveBankAccounts environment =
     bindE (ListActiveBankAccountOptions environment) (\<lambda>rows. returnE (map mapBankOption rows))"

definition ListAdminBankAccounts :: "int32 \<Rightarrow> int32 \<Rightarrow> (RedactedBankAccount list \<times> int64) dbtx" where
  "ListAdminBankAccounts off limit =
     bindE CountAdminBankAccounts (\<lambda>total.
     bindE (ListAdminBankAccountsPage off limit) (\<lambda>rows. returnE (map mapRedactedBank rows, total)))"

definition bankParams :: "BankAccountInput \<Rightarrow> ProtectedNumber \<Rightarrow> bank_params" where
  "bankParams input protected =
     \<lparr>bp_bank_bin = bai_BankBIN input, bp_bank_name = bai_BankName input, bp_display_name = bai_DisplayName input,
      bp_account_name = bai_AccountName input, bp_encrypted_account_number = pn_Ciphertext protected,
      bp_account_number_fingerprint = pn_Fingerprint protected, bp_encryption_key_id = pn_KeyID protected,
      bp_encryption_nonce = pn_Nonce protected, bp_encryption_key_version = pn_KeyVersion protected,
      bp_display_last4 = last4 (bai_AccountNumber input), bp_sort_order = bai_SortOrder input\<rparr>"

definition CreateBankAccount ::
  "time \<Rightarrow> Admin \<Rightarrow> session_row \<Rightarrow> BankAccountInput \<Rightarrow> RequestMeta \<Rightarrow> ProtectedNumber \<Rightarrow> RedactedBankAccount dbtx" where
  "CreateBankAccount now admin session input meta protected = mapErrE mapConstraintError (WithinTransaction (
     asAdmin now admin session ''bank.create'' (
     bindE (noRows ErrConflict (CreateEncryptedBankAccount (bankParams input protected) (bai_PaymentEnvironment input))) (\<lambda>row.
     bindE (insertAudit (Admin_ID admin) ''bank_account.created'' ''bank_account'' (bnk_id row) None
       (Some (bankAuditSnapshot (mapRedactedBank row))) meta) (\<lambda>_.
     closeAdmin admin session meta (mapRedactedBank row))))))"

definition UpdateBankAccount ::
  "time \<Rightarrow> Admin \<Rightarrow> session_row \<Rightarrow> int64 \<Rightarrow> int64 \<Rightarrow> BankAccountInput \<Rightarrow> RequestMeta \<Rightarrow> ProtectedNumber \<Rightarrow>
   RedactedBankAccount dbtx" where
  "UpdateBankAccount now admin session bankAccountID expectedRecord input meta protected =
     mapErrE mapConstraintError (WithinTransaction (
     asAdmin now admin session ''bank.edit'' (
     bindE (noRows ErrBankAccountNotFound (LockBankAccountByID bankAccountID)) (\<lambda>before.
     if bnk_version before \<noteq> expectedRecord then throwE ErrStaleVersion else
     bindE (noRows ErrStaleVersion (UpdateEncryptedBankAccountGuarded (bankParams input protected) bankAccountID
       expectedRecord)) (\<lambda>after.
     bindE (insertAudit (Admin_ID admin) ''bank_account.updated'' ''bank_account'' (bnk_id after)
       (Some (bankAuditSnapshot (mapRedactedBank before))) (Some (bankAuditSnapshot (mapRedactedBank after))) meta) (\<lambda>_.
     closeAdmin admin session meta (mapRedactedBank after)))))))"

definition SetBankAccountActive ::
  "time \<Rightarrow> Admin \<Rightarrow> session_row \<Rightarrow> SetActiveInput \<Rightarrow> RedactedBankAccount dbtx" where
  "SetBankAccountActive now admin session input = WithinTransaction (
     asAdmin now admin session ''bank.toggle'' (
     bindE (noRows ErrBankAccountNotFound (LockBankAccountByID (sai_ID input))) (\<lambda>before.
     if bnk_version before \<noteq> sai_ExpectedRecord input \<or> bnk_is_active before = sai_Active input
     then throwE ErrStaleVersion else
     bindE (noRows ErrStaleVersion (SetBankAccountActiveGuarded (sai_Active input) (sai_ID input)
       (sai_ExpectedRecord input))) (\<lambda>after.
     bindE (insertAudit (Admin_ID admin)
       (if sai_Active input then ''bank_account.activated'' else ''bank_account.deactivated'') ''bank_account''
       (bnk_id after) (Some (bankAuditSnapshot (mapRedactedBank before)))
       (Some (bankAuditSnapshot (mapRedactedBank after))) (sai_Meta input)) (\<lambda>_.
     closeAdmin admin session (sai_Meta input) (mapRedactedBank after))))))"

text \<open>\<open>isDigits\<close>: a rune outside \<open>0-9\<close> has a byte outside it, and conversely.\<close>

definition isDigits :: "string \<Rightarrow> nat \<Rightarrow> nat \<Rightarrow> bool" where
  "isDigits value minimum maximum \<longleftrightarrow>
     \<not> (length value < minimum \<or> length value > maximum) \<and> list_all isDigitChar value"

definition normalizeBankInput :: "BankAccountInput \<Rightarrow> BankAccountInput" where
  "normalizeBankInput input = input\<lparr>bai_BankBIN := TrimSpace (bai_BankBIN input),
     bai_BankName := TrimSpace (bai_BankName input), bai_DisplayName := TrimSpace (bai_DisplayName input),
     bai_AccountName := TrimSpace (bai_AccountName input), bai_AccountNumber := TrimSpace (bai_AccountNumber input)\<rparr>"

definition validateBankInput :: "BankAccountInput \<Rightarrow> bool" where
  "validateBankInput input \<longleftrightarrow>
     \<not> (\<not> isDigits (bai_BankBIN input) 6 6 \<or> \<not> isDigits (bai_AccountNumber input) 4 34 \<or>
        bai_BankName input = [] \<or> runeCount (bai_BankName input) > 120 \<or>
        bai_DisplayName input = [] \<or> runeCount (bai_DisplayName input) > 120 \<or>
        bai_AccountName input = [] \<or> runeCount (bai_AccountName input) > 160 \<or> bai_SortOrder input < 0)"

text \<open>\<open>WithPaymentEnvironment\<close> on the service whose environment is \<open>production\<close> by default.\<close>

definition bankEnvironment :: "string \<Rightarrow> string" where
  "bankEnvironment environment =
     (if environment \<in> {''development'', ''test'', ''production''} then environment else ''production'')"

definition BankAccountService_ListActive :: "string \<Rightarrow> BankAccountOption list dbtx" where
  "BankAccountService_ListActive paymentEnvironment = ListActiveBankAccounts paymentEnvironment"

definition BankAccountService_ListAdmin ::
  "int \<Rightarrow> int64 \<Rightarrow> int \<Rightarrow> (RedactedBankAccount list \<times> PageInfo) dbtx" where
  "BankAccountService_ListAdmin pageSize telegramID page =
     (if page < 0 then throwE ErrInvalidInput else
      bindE (AdminService_Authorize telegramID False) (\<lambda>_.
      bindE (ListAdminBankAccounts (wrap32 (wrap64 (page * pageSize))) (wrap32 pageSize)) (\<lambda>(items, total).
      returnE (items, pageInfo page pageSize total))))"

definition BankAccountService_Create ::
  "(string \<Rightarrow> string \<Rightarrow> error + ProtectedNumber) \<Rightarrow> string \<Rightarrow> time \<Rightarrow> int64 \<Rightarrow> session_row \<Rightarrow> BankAccountInput \<Rightarrow>
   RequestMeta \<Rightarrow> RedactedBankAccount dbtx" where
  "BankAccountService_Create protect paymentEnvironment now telegramID session input0 meta =
     (let input = normalizeBankInput (input0\<lparr>bai_PaymentEnvironment := paymentEnvironment\<rparr>) in
      if \<not> validateBankInput input then throwE ErrInvalidInput else
      bindE (AdminService_Authorize telegramID True) (\<lambda>admin.
      bindE (ofSum (protect (bai_BankBIN input) (bai_AccountNumber input))) (\<lambda>protected.
      CreateBankAccount now admin session input meta protected)))"

definition BankAccountService_Update ::
  "(string \<Rightarrow> string \<Rightarrow> error + ProtectedNumber) \<Rightarrow> time \<Rightarrow> int64 \<Rightarrow> session_row \<Rightarrow> int64 \<Rightarrow> int64 \<Rightarrow>
   BankAccountInput \<Rightarrow> RequestMeta \<Rightarrow> RedactedBankAccount dbtx" where
  "BankAccountService_Update protect now telegramID session bankAccountID expectedRecord input0 meta =
     (let input = normalizeBankInput input0 in
      if bankAccountID \<le> 0 \<or> expectedRecord \<le> 0 \<or> \<not> validateBankInput input then throwE ErrInvalidInput else
      bindE (AdminService_Authorize telegramID True) (\<lambda>admin.
      bindE (ofSum (protect (bai_BankBIN input) (bai_AccountNumber input))) (\<lambda>protected.
      UpdateBankAccount now admin session bankAccountID expectedRecord input meta protected)))"

definition BankAccountService_SetActive ::
  "time \<Rightarrow> int64 \<Rightarrow> session_row \<Rightarrow> SetActiveInput \<Rightarrow> RedactedBankAccount dbtx" where
  "BankAccountService_SetActive now telegramID session input =
     (if sai_ID input \<le> 0 \<or> sai_ExpectedRecord input \<le> 0 then throwE ErrInvalidInput else
      bindE (AdminService_Authorize telegramID True) (\<lambda>admin. SetBankAccountActive now admin session input))"

section \<open>Importing stock\<close>

record InventoryImportLimits =
  MaxItems :: int
  MaxItemBytes :: int
  MaxTotalBytes :: int

text \<open>
  The lines of an import: a trailing carriage return is dropped, blank lines are rejected and counted, an oversized
  line or one item too many aborts the import.
\<close>

fun importLines :: "InventoryImportLimits \<Rightarrow> string list \<Rightarrow> int \<Rightarrow> string list \<Rightarrow> error + (string list \<times> int)" where
  "importLines limits items rejected [] =
     (if items = [] then Inl ErrInvalidInventoryPayload else Inr (items, rejected))"
| "importLines limits items rejected (line0 # rest) =
     (let line = (if line0 \<noteq> [] \<and> last line0 = CHR 0x0D then butlast line0 else line0) in
      if line = [] \<or> TrimSpace line = [] then importLines limits items (rejected + 1) rest
      else if int (length line) > MaxItemBytes limits \<or> int (length items) = MaxItems limits
      then Inl (Peripheral ErrImportLimitExceeded)
      else importLines limits (items @ [line]) rejected rest)"

definition ParseInventoryImport :: "string \<Rightarrow> InventoryImportLimits \<Rightarrow> error + (string list \<times> int)" where
  "ParseInventoryImport raw limits =
     (if MaxItems limits \<le> 0 \<or> MaxItemBytes limits \<le> 0 \<or> MaxTotalBytes limits \<le> 0 \<or>
         MaxItemBytes limits > MaxTotalBytes limits then Inl ErrInvalidInput
      else if raw = [] \<or> \<not> utf8_Valid raw then Inl ErrInvalidInventoryPayload
      else if int (length raw) > MaxTotalBytes limits then Inl (Peripheral ErrImportLimitExceeded)
      else importLines limits [] 0 (Split (CHR 0x0A) raw))"

record EncryptedInventoryPayload =
  eip_Ciphertext :: string
  eip_Nonce :: string
  eip_Fingerprint :: string
  eip_KeyVersion :: int32
  eip_Format :: string

record InventoryImportResult =
  iir_ProductID :: int64
  iir_Requested :: int
  iir_Inserted :: int
  iir_Duplicates :: int
  iir_Rejected :: int
  iir_KeyVersion :: int32

definition inventoryProduct :: "int64 \<Rightarrow> product_row dbtx" where
  "inventoryProduct productID =
     bindE (noRows ErrNotFound (GetProductByID productID)) (\<lambda>product.
     if prd_delivery_type product \<noteq> ''inventory'' then throwE ErrNotFound else returnE product)"

definition envelopeOk :: "EncryptedInventoryPayload \<Rightarrow> bool" where
  "envelopeOk item \<longleftrightarrow> eip_Format item = ''aes-256-gcm-v1'' \<and> eip_KeyVersion item > 0 \<and>
     length (eip_Nonce item) = 12 \<and> length (eip_Ciphertext item) \<ge> 16 \<and> length (eip_Fingerprint item) = 32"

fun importLoop :: "int64 \<Rightarrow> int64 \<Rightarrow> EncryptedInventoryPayload list \<Rightarrow> InventoryImportResult \<Rightarrow> InventoryImportResult dbtx" where
  "importLoop adminID productID [] result = returnE result"
| "importLoop adminID productID (item # rest) result =
     (if \<not> envelopeOk item then throwE (Peripheral ErrEncryptionFailed) else
      bindE (attempt (InsertEncryptedInventoryItem productID (eip_Ciphertext item)
        (''inventory-v'' @ intText (eip_KeyVersion item)) (eip_Nonce item)
        (eip_KeyVersion item) (eip_Fingerprint item) (Some adminID))) (\<lambda>r. case r of
        Inl e \<Rightarrow> if e = PgxErrNoRows
          then importLoop adminID productID rest (result\<lparr>iir_Duplicates := iir_Duplicates result + 1\<rparr>) else throwE e
      | Inr _ \<Rightarrow> importLoop adminID productID rest (result\<lparr>iir_Inserted := iir_Inserted result + 1,
          iir_KeyVersion := eip_KeyVersion item\<rparr>)))"

definition importAudit :: "InventoryImportResult \<Rightarrow> json" where
  "importAudit result =
     [(''duplicate_count'', JInt (iir_Duplicates result)), (''inserted_count'', JInt (iir_Inserted result)),
      (''key_version'', JInt (iir_KeyVersion result)), (''product_id'', JInt (iir_ProductID result)),
      (''rejected_count'', JInt (iir_Rejected result)), (''requested_count'', JInt (iir_Requested result))]"

definition ImportInventory ::
  "time \<Rightarrow> Admin \<Rightarrow> session_row \<Rightarrow> int64 \<Rightarrow> EncryptedInventoryPayload list \<Rightarrow> int \<Rightarrow> int \<Rightarrow> RequestMeta \<Rightarrow>
   InventoryImportResult dbtx" where
  "ImportInventory now admin session productID items requested rejected meta =
     mapErrE mapConstraintError (WithinTransaction (
     asAdmin now admin session ''inventory.import'' (
     bindE (inventoryProduct productID) (\<lambda>_.
     bindE (importLoop (Admin_ID admin) productID items \<lparr>iir_ProductID = productID, iir_Requested = requested, iir_Inserted = 0,
       iir_Duplicates = 0, iir_Rejected = rejected, iir_KeyVersion = 0\<rparr>) (\<lambda>result0.
     let result = (if iir_KeyVersion result0 = 0 \<and> items \<noteq> []
       then result0\<lparr>iir_KeyVersion := eip_KeyVersion (hd items)\<rparr> else result0) in
     bindE (insertAudit (Admin_ID admin) ''inventory.imported'' ''product'' productID None (Some (importAudit result)) meta) (\<lambda>_.
     closeAdmin admin session meta result))))))"

fun protectAll ::
  "(int64 \<Rightarrow> string \<Rightarrow> error + EncryptedInventoryPayload) \<Rightarrow> int64 \<Rightarrow> string list \<Rightarrow> error + EncryptedInventoryPayload list" where
  "protectAll protect productID [] = Inr []"
| "protectAll protect productID (item # rest) =
     (case protect productID item of
        Inl _ \<Rightarrow> Inl (Peripheral ErrEncryptionFailed)
      | Inr p \<Rightarrow> (case protectAll protect productID rest of Inl e \<Rightarrow> Inl e | Inr ps \<Rightarrow> Inr (p # ps)))"

definition InventoryAdminService_Import ::
  "(int64 \<Rightarrow> string \<Rightarrow> error + EncryptedInventoryPayload) \<Rightarrow> InventoryImportLimits \<Rightarrow> time \<Rightarrow> int64 \<Rightarrow>
   session_row \<Rightarrow> int64 \<Rightarrow> string \<Rightarrow> RequestMeta \<Rightarrow> InventoryImportResult dbtx" where
  "InventoryAdminService_Import protect limits now telegramID session productID raw meta =
     (if productID \<le> 0 \<or> ses_id session \<le> 0 \<or> ses_version session \<le> 0 then throwE ErrInvalidInput else
      bindE (AdminService_Authorize telegramID True) (\<lambda>admin.
      bindE (ofSum (ParseInventoryImport raw limits)) (\<lambda>(items, rejected).
      bindE (ofSum (protectAll protect productID items)) (\<lambda>encrypted.
      ImportInventory now admin session productID encrypted (int (length encrypted)) rejected meta))))"

section \<open>Listing and switching stock\<close>

record RedactedInventoryItem =
  rii_ID :: int64
  rii_ProductID :: int64
  rii_ProductName :: string
  rii_Status :: InventoryStatus
  rii_ReservedOrderID :: int64
  rii_ReservedUntil :: time
  rii_KeyVersion :: int32
  rii_Version :: int64
  rii_CreatedAt :: time

definition mapRedactedInventory :: "string \<Rightarrow> inventory_row \<Rightarrow> RedactedInventoryItem" where
  "mapRedactedInventory productName row = \<lparr>rii_ID = inv_id row, rii_ProductID = inv_product_id row,
     rii_ProductName = productName, rii_Status = inv_status row,
     rii_ReservedOrderID = int8Or (inv_reserved_order_id row), rii_ReservedUntil = int8Or (inv_reserved_until row),
     rii_KeyVersion = inv_encryption_key_version row, rii_Version = inv_version row,
     rii_CreatedAt = inv_created_at row\<rparr>"

record InventoryOverview =
  iov_ProductID :: int64
  iov_ProductName :: string
  iov_AvailableCount :: int64
  iov_ReservedCount :: int64
  iov_SoldCount :: int64
  iov_DisabledCount :: int64
  iov_TotalCount :: int64

definition mapOverview :: "product_row \<times> int64 \<times> int64 \<times> int64 \<times> int64 \<times> int64 \<Rightarrow> InventoryOverview" where
  "mapOverview row = (case row of (p, available, reserved, sold, disabled, totalCount) \<Rightarrow>
     \<lparr>iov_ProductID = prd_id p, iov_ProductName = prd_name p, iov_AvailableCount = available,
      iov_ReservedCount = reserved, iov_SoldCount = sold, iov_DisabledCount = disabled, iov_TotalCount = totalCount\<rparr>)"

definition ListInventoryOverview :: "Admin \<Rightarrow> int32 \<Rightarrow> int32 \<Rightarrow> (InventoryOverview list \<times> int64) dbtx" where
  "ListInventoryOverview admin off limit = WithinTransaction (
     bindE (requireCatalogAdmin admin) (\<lambda>_.
     bindE CountInventoryOverviewProducts (\<lambda>total.
     bindE (ListInventoryOverviewPage off limit) (\<lambda>rows. returnE (map mapOverview rows, total)))))"

definition ListRedactedInventory ::
  "Admin \<Rightarrow> int64 \<Rightarrow> int32 \<Rightarrow> int32 \<Rightarrow> (RedactedInventoryItem list \<times> int64) dbtx" where
  "ListRedactedInventory admin productID off limit = WithinTransaction (
     bindE (requireCatalogAdmin admin) (\<lambda>_.
     bindE (inventoryProduct productID) (\<lambda>_.
     bindE (CountRedactedInventoryByProduct productID) (\<lambda>total.
     bindE (ListRedactedInventoryPage productID off limit) (\<lambda>rows.
     returnE (map (\<lambda>(row, name). mapRedactedInventory name row) rows, total))))))"

definition inventoryPageOffset :: "int \<Rightarrow> int \<Rightarrow> error + int" where
  "inventoryPageOffset page sz =
     (if page < 0 \<or> sz \<le> 0 \<or> page > go_div MaxInt64 sz then Inl ErrInvalidInput else Inr (page * sz))"

definition InventoryAdminService_ListOverview ::
  "int \<Rightarrow> int64 \<Rightarrow> int \<Rightarrow> (InventoryOverview list \<times> PageInfo) dbtx" where
  "InventoryAdminService_ListOverview pageSize telegramID page =
     bindE (ofSum (inventoryPageOffset page pageSize)) (\<lambda>off.
     bindE (AdminService_Authorize telegramID False) (\<lambda>admin.
     bindE (ListInventoryOverview admin (wrap32 off) (wrap32 pageSize)) (\<lambda>(items, total).
     returnE (items, pageInfo page pageSize total))))"

definition InventoryAdminService_ListItems ::
  "int \<Rightarrow> int64 \<Rightarrow> int64 \<Rightarrow> int \<Rightarrow> (RedactedInventoryItem list \<times> PageInfo) dbtx" where
  "InventoryAdminService_ListItems pageSize telegramID productID page =
     (if productID \<le> 0 then throwE ErrInvalidInput else
      bindE (ofSum (inventoryPageOffset page pageSize)) (\<lambda>off.
      bindE (AdminService_Authorize telegramID False) (\<lambda>admin.
      bindE (ListRedactedInventory admin productID (wrap32 off) (wrap32 pageSize)) (\<lambda>(items, total).
      returnE (items, pageInfo page pageSize total)))))"

fun InventoryStatusText :: "InventoryStatus \<Rightarrow> string" where
  "InventoryStatusText InventoryStatusAvailable = ''available''"
| "InventoryStatusText InventoryStatusReserved = ''reserved''"
| "InventoryStatusText InventoryStatusSold = ''sold''"
| "InventoryStatusText InventoryStatusDisabled = ''disabled''"
| "InventoryStatusText (InventoryStatusOther s) = s"

definition inventoryAuditSnapshot :: "RedactedInventoryItem \<Rightarrow> json" where
  "inventoryAuditSnapshot item = [(''id'', JInt (rii_ID item)), (''product_id'', JInt (rii_ProductID item)),
     (''status'', JText (InventoryStatusText (rii_Status item))), (''version'', JInt (rii_Version item))]"

definition SetInventoryItemEnabled ::
  "time \<Rightarrow> Admin \<Rightarrow> session_row \<Rightarrow> int64 \<Rightarrow> int64 \<Rightarrow> bool \<Rightarrow> RequestMeta \<Rightarrow> RedactedInventoryItem dbtx" where
  "SetInventoryItemEnabled now admin session itemID expectedVersion enabled meta = WithinTransaction (
     asAdmin now admin session ''inventory.toggle'' (
     bindE (noRows (Peripheral ErrInventoryNotFound) (LockRedactedInventoryItem itemID)) (\<lambda>before.
     if inv_version before \<noteq> expectedVersion then throwE ErrStaleVersion
     else if inv_status before \<noteq> (if enabled then InventoryStatusDisabled else InventoryStatusAvailable)
     then throwE ErrInvalidInventoryState else
     bindE (noRows ErrStaleVersion (if enabled then EnableDisabledInventoryItem itemID expectedVersion
       else DisableAvailableInventoryItem (optionalText ''admin_disabled'') itemID expectedVersion)) (\<lambda>after.
     let result = mapRedactedInventory [] after in
     bindE (insertAudit (Admin_ID admin) (if enabled then ''inventory.enabled'' else ''inventory.disabled'')
       ''inventory_item'' itemID (Some (inventoryAuditSnapshot (mapRedactedInventory [] before)))
       (Some (inventoryAuditSnapshot result)) meta) (\<lambda>_.
     closeAdmin admin session meta result)))))"

definition InventoryAdminService_SetItemEnabled ::
  "time \<Rightarrow> int64 \<Rightarrow> session_row \<Rightarrow> int64 \<Rightarrow> int64 \<Rightarrow> bool \<Rightarrow> RequestMeta \<Rightarrow> RedactedInventoryItem dbtx" where
  "InventoryAdminService_SetItemEnabled now telegramID session itemID expectedVersion enabled meta =
     (if itemID \<le> 0 \<or> expectedVersion \<le> 0 \<or> ses_id session \<le> 0 \<or> ses_version session \<le> 0
      then throwE ErrInvalidInput else
      bindE (AdminService_Authorize telegramID True) (\<lambda>admin.
      SetInventoryItemEnabled now admin session itemID expectedVersion enabled meta))"

end
