(* ===== verification/Payment_Providers.thy ===== *)
theory Payment_Providers
  imports Payment_Events Stock_Admin "HOL-Library.List_Lexorder"
begin

text \<open>
  The payment providers: the registry with its capabilities (\<open>payment/provider.go\<close>), the signed JSON webhook
  (\<open>payment/signed_json.go\<close>) and the HTTP handler in front of it (\<open>httpapi/payment_webhook.go\<close>), the polling
  reconciliation with its leased checkpoints (\<open>payment/reconciliation.go\<close>,
  \<open>postgres/provider_reconciliation_store.go\<close>), and the administration of the account mappings
  (\<open>app/payment_provider_admin_service.go\<close>, \<open>postgres/payment_provider_admin_store.go\<close>). HMAC, SHA-256, the JSON
  reader and the RFC 3339 form of a time are arguments; metrics are left out.
\<close>

section \<open>Providers and their registry\<close>

record ProviderCapabilities =
  SupportsWebhook :: bool
  SupportsReconciliation :: bool
  SupportsTestMode :: bool

record WebhookRequest =
  wr_Headers :: "string \<Rightarrow> string" \<comment> \<open>\<open>Header.Get\<close>\<close>
  wr_RawBody :: string

record WebhookAcknowledgement =
  ack_StatusCode :: int
  ack_Headers :: "(string \<times> string) list"
  ack_Body :: string
  ack_DuplicateBody :: string

text \<open>An error of a provider's API: the API's own error (code, authentication failed), or any other.\<close>

datatype reconcile_error = ProviderAPIError string bool | PlainError error

record ListTransactionsRequest =
  lt_ProviderAccountID :: int64
  lt_ExternalAccountIdentity :: string
  lt_Environment :: string
  lt_Cursor :: string
  lt_PageSize :: int

record TransactionPage =
  tp_Transactions :: "NormalizedPaymentEvent list"
  tp_NextCursor :: string
  tp_HasMore :: bool

text \<open>
  A provider: its descriptor, and the two interfaces it may implement. \<open>pv_transactions\<close> gets the number of the
  request, since a remote service may answer differently each time.
\<close>

record provider =
  pv_Name :: string
  pv_Enabled :: bool
  pv_Environment :: string
  pv_Capabilities :: ProviderCapabilities
  pv_webhook :: "(WebhookRequest \<Rightarrow> (error + NormalizedPaymentEvent) \<times> WebhookAcknowledgement) option"
  pv_transactions :: "(nat \<Rightarrow> ListTransactionsRequest \<Rightarrow> reconcile_error + TransactionPage) option"

definition providerNameByte :: "char \<Rightarrow> bool" where
  "providerNameByte c \<longleftrightarrow> validSlugByte c \<or> c = CHR ''_''"

definition validProviderName :: "string \<Rightarrow> bool" where
  "validProviderName value \<longleftrightarrow>
     \<not> (value = [] \<or> length value > 64 \<or> TrimSpace value \<noteq> value) \<and> list_all providerNameByte value"

definition validEnvironment :: "string \<Rightarrow> bool" where
  "validEnvironment e \<longleftrightarrow> e = ''development'' \<or> e = ''test'' \<or> e = ''production''"

text \<open>The registry as the list of its providers, each name once; \<open>None\<close> is a nil provider.\<close>

fun registerAll :: "provider option list \<Rightarrow> provider list \<Rightarrow> error + provider list" where
  "registerAll [] registered = Inr registered"
| "registerAll (None # rest) registered = Inl ErrInvalidInput"
| "registerAll (Some p # rest) registered =
     (if \<not> validProviderName (pv_Name p) \<or> \<not> validEnvironment (pv_Environment p) then Inl ErrInvalidInput
      else if pv_Name p \<in> pv_Name ` set registered then Inl (Peripheral ErrDuplicateProvider)
      else if \<not> SupportsWebhook (pv_Capabilities p) \<and> \<not> SupportsReconciliation (pv_Capabilities p)
      then Inl ErrInvalidInput
      else registerAll rest (registered @ [p]))"

definition NewProviderRegistry :: "provider option list \<Rightarrow> error + provider list" where
  "NewProviderRegistry providers = registerAll providers []"

definition lookupProvider :: "provider list \<Rightarrow> string \<Rightarrow> error + provider" where
  "lookupProvider registry name =
     (if \<not> validProviderName name then Inl ErrUnknownPaymentProvider
      else case filter (\<lambda>p. pv_Name p = name) registry of
        [] \<Rightarrow> Inl ErrUnknownPaymentProvider
      | p # _ \<Rightarrow> if \<not> pv_Enabled p then Inl (Peripheral ErrProviderDisabled) else Inr p)"

definition GetWebhookProvider ::
  "provider list \<Rightarrow> string \<Rightarrow> error + (WebhookRequest \<Rightarrow> (error + NormalizedPaymentEvent) \<times> WebhookAcknowledgement)" where
  "GetWebhookProvider registry name =
     (case lookupProvider registry name of Inl e \<Rightarrow> Inl e
      | Inr p \<Rightarrow> if \<not> SupportsWebhook (pv_Capabilities p) then Inl (Peripheral ErrUnsupportedCapability)
          else case pv_webhook p of None \<Rightarrow> Inl (Peripheral ErrUnsupportedCapability) | Some w \<Rightarrow> Inr w)"

definition GetTransactionAPIProvider ::
  "provider list \<Rightarrow> string \<Rightarrow>
   error + (string \<times> (nat \<Rightarrow> ListTransactionsRequest \<Rightarrow> reconcile_error + TransactionPage))" where
  "GetTransactionAPIProvider registry name =
     (case lookupProvider registry name of Inl e \<Rightarrow> Inl e
      | Inr p \<Rightarrow> if \<not> SupportsReconciliation (pv_Capabilities p) then Inl (Peripheral ErrUnsupportedCapability)
          else case pv_transactions p of None \<Rightarrow> Inl (Peripheral ErrUnsupportedCapability)
          | Some t \<Rightarrow> Inr (pv_Environment p, t))"

definition Providers :: "provider list \<Rightarrow> provider list" where
  "Providers registry = sort_key (\<lambda>p. map (of_char :: char \<Rightarrow> nat) (pv_Name p)) registry"

definition JSONAcknowledgement :: "int \<Rightarrow> string \<Rightarrow> WebhookAcknowledgement" where
  "JSONAcknowledgement status body =
     \<lparr>ack_StatusCode = status, ack_Headers = [(''Content-Type'', ''application/json'')], ack_Body = body,
      ack_DuplicateBody = []\<rparr>"

section \<open>The signed JSON webhook\<close>

record signedJSONPayload =
  sp_EventID :: string
  sp_TransactionID :: string
  sp_EventType :: string
  sp_Reference :: string
  sp_Direction :: string
  sp_TransferContent :: string
  sp_DestinationAccountID :: string
  sp_ProviderAccountID :: string
  sp_AmountVND :: int64
  sp_Currency :: string
  sp_Timestamp :: int64
  sp_OccurredAt :: time
  sp_ReceivedAccount :: string
  sp_Metadata :: string \<comment> \<open>as JSON text\<close>

record SignedJSON =
  sj_secret :: string
  sj_tolerance :: duration
  sj_environment :: string
  sj_enabled :: bool

definition NewSignedJSON :: "string \<Rightarrow> duration \<Rightarrow> error + SignedJSON" where
  "NewSignedJSON secret tolerance =
     (if TrimSpace secret = [] \<or> tolerance \<le> 0 then Inl ErrInvalidInput
      else Inr \<lparr>sj_secret = secret, sj_tolerance = tolerance, sj_environment = ''development'', sj_enabled = True\<rparr>)"

definition NewSignedJSONForEnvironment :: "string \<Rightarrow> duration \<Rightarrow> string \<Rightarrow> bool \<Rightarrow> error + SignedJSON" where
  "NewSignedJSONForEnvironment secret tolerance environment enabled =
     (if environment = ''production'' \<or> \<not> validEnvironment environment then Inl ErrInvalidInput
      else case NewSignedJSON secret tolerance of Inl e \<Rightarrow> Inl e
        | Inr p \<Rightarrow> Inr (p\<lparr>sj_environment := environment, sj_enabled := enabled\<rparr>))"

definition hexNibble :: "char \<Rightarrow> nat option" where
  "hexNibble c = (let n = (of_char c :: nat) in
     if 48 \<le> n \<and> n \<le> 57 then Some (n - 48) else if 97 \<le> n \<and> n \<le> 102 then Some (n - 87)
     else if 65 \<le> n \<and> n \<le> 70 then Some (n - 55) else None)"

fun hex_DecodeString :: "string \<Rightarrow> string option" where
  "hex_DecodeString [] = Some []"
| "hex_DecodeString [c] = None"
| "hex_DecodeString (a # b # s) =
     (case hexNibble a of None \<Rightarrow> None | Some x \<Rightarrow>
       case hexNibble b of None \<Rightarrow> None | Some y \<Rightarrow>
         map_option (\<lambda>r. char_of (16 * x + y) # r) (hex_DecodeString s))"

text \<open>
  \<open>time.Unix(seconds, 0)\<close> on the time line whose zero is Go's zero time, and \<open>Time.Sub\<close>, which saturates.
\<close>

definition time_Unix :: "int64 \<Rightarrow> time" where
  "time_Unix seconds = wrap64 (seconds + 62135596800) * 1000000000"

definition time_Sub :: "time \<Rightarrow> time \<Rightarrow> duration" where
  "time_Sub t u = max MinInt64 (min MaxInt64 (t - u))"

definition outsideTolerance :: "time \<Rightarrow> time \<Rightarrow> duration \<Rightarrow> bool" where
  "outsideTolerance now timestamp tolerance \<longleftrightarrow>
     (let delta = time_Sub now timestamp in delta > tolerance \<or> delta < - tolerance)"

definition referenceByte :: "char \<Rightarrow> bool" where
  "referenceByte c \<longleftrightarrow> upperAlnum c \<or> c = CHR ''-''"

text \<open>The pattern \<open>^[A-Z0-9][A-Z0-9-]{2,127}$\<close>.\<close>

definition referencePattern :: "string \<Rightarrow> bool" where
  "referencePattern s \<longleftrightarrow>
     (case s of [] \<Rightarrow> False | c # r \<Rightarrow> upperAlnum c \<and> 2 \<le> length r \<and> length r \<le> 127 \<and> list_all referenceByte r)"

definition trimmedWithin :: "nat \<Rightarrow> string \<Rightarrow> bool" where
  "trimmedWithin limit s \<longleftrightarrow> TrimSpace s = s \<and> s \<noteq> [] \<and> length s \<le> limit"

definition validPayload :: "signedJSONPayload \<Rightarrow> bool" where
  "validPayload p \<longleftrightarrow>
     trimmedWithin 128 (sp_EventID p) \<and> trimmedWithin 128 (sp_TransactionID p) \<and>
     sp_EventType p = ''payment.received'' \<and> (sp_Reference p = [] \<or> referencePattern (sp_Reference p)) \<and>
     (sp_Direction p = ''inbound'' \<or> sp_Direction p = ''outbound'') \<and>
     trimmedWithin 2048 (sp_TransferContent p) \<and> trimmedWithin 256 (sp_DestinationAccountID p) \<and>
     sp_AmountVND p > 0 \<and> sp_Currency p = ''VND'' \<and> sp_OccurredAt p \<noteq> 0"

definition maskAccount :: "string \<Rightarrow> string" where
  "maskAccount value0 =
     (let value = TrimSpace value0 in if length value \<le> 4 then [] else ''***'' @ drop (length value - 4) value)"

record crypto =
  hmacSHA256 :: "string \<Rightarrow> string \<Rightarrow> string"
  sha256 :: "string \<Rightarrow> string"

text \<open>\<open>unmarshal\<close> reads the body into the payload; \<open>rfc3339\<close> prints a time as JSON does.\<close>

definition normalizedEvent ::
  "crypto \<Rightarrow> (time \<Rightarrow> string) \<Rightarrow> SignedJSON \<Rightarrow> string \<Rightarrow> signedJSONPayload \<Rightarrow> NormalizedPaymentEvent" where
  "normalizedEvent cr rfc3339 s body p = \<lparr>ne_Provider = ''signed_json'', ne_Environment = sj_environment s,
     ne_ExternalEventID = sp_EventID p, ne_ProviderTransactionID = sp_TransactionID p, ne_Reference = sp_Reference p,
     ne_Direction = sp_Direction p, ne_TransferContent = sp_TransferContent p,
     ne_DestinationAccountID = sp_DestinationAccountID p, ne_ProviderAccountID = sp_ProviderAccountID p,
     ne_Source = ''webhook'', ne_Amount = sp_AmountVND p, ne_Currency = sp_Currency p,
     ne_OccurredAt = sp_OccurredAt p, ne_ReceivedAccount = maskAccount (sp_ReceivedAccount p),
     ne_EventType = sp_EventType p, ne_PayloadHash = sha256 cr body, ne_BusinessFingerprint = [],
     ne_SanitizedMetadata = JsonObject [(''amount_vnd'', JInt (sp_AmountVND p)), (''currency'', JText (sp_Currency p)),
       (''direction'', JText (sp_Direction p)), (''metadata'', JRaw (sp_Metadata p)),
       (''occurred_at'', JText (rfc3339 (sp_OccurredAt p))), (''reference'', JText (sp_Reference p)),
       (''source'', JText ''webhook'')]\<rparr>"

definition VerifyAndNormalize ::
  "crypto \<Rightarrow> (string \<Rightarrow> signedJSONPayload option) \<Rightarrow> (time \<Rightarrow> string) \<Rightarrow> time \<Rightarrow> SignedJSON \<Rightarrow>
   (string \<Rightarrow> string) \<Rightarrow> string \<Rightarrow> error + NormalizedPaymentEvent" where
  "VerifyAndNormalize cr unmarshal rfc3339 now s headers body =
     (case hex_DecodeString (TrimSpace (headers ''X-Payment-Signature'')) of
        None \<Rightarrow> Inl (Peripheral ErrInvalidWebhookSignature)
      | Some provided \<Rightarrow>
          if length provided \<noteq> 32 then Inl (Peripheral ErrInvalidWebhookSignature)
          else if provided \<noteq> hmacSHA256 cr (sj_secret s) body then Inl (Peripheral ErrInvalidWebhookSignature)
          else case ParseInt 64 (TrimSpace (headers ''X-Payment-Timestamp'')) of
            None \<Rightarrow> Inl (Peripheral ErrWebhookReplay)
          | Some headerTimestamp \<Rightarrow>
              case unmarshal body of None \<Rightarrow> Inl ErrInvalidInput
              | Some payload \<Rightarrow>
                  if sp_Timestamp payload \<noteq> headerTimestamp \<or>
                     outsideTolerance now (time_Unix (sp_Timestamp payload)) (sj_tolerance s)
                  then Inl (Peripheral ErrWebhookReplay)
                  else if \<not> validPayload payload then Inl ErrInvalidInput
                  else Inr (normalizedEvent cr rfc3339 s body payload))"

definition acceptedBody :: "bool \<Rightarrow> string" where
  "acceptedBody duplicate = json_Marshal [(''status'', JText ''accepted''), (''duplicate'', JBool duplicate)]"

definition signedJSONWebhook ::
  "crypto \<Rightarrow> (string \<Rightarrow> signedJSONPayload option) \<Rightarrow> (time \<Rightarrow> string) \<Rightarrow> time \<Rightarrow> SignedJSON \<Rightarrow>
   WebhookRequest \<Rightarrow> (error + NormalizedPaymentEvent) \<times> WebhookAcknowledgement" where
  "signedJSONWebhook cr unmarshal rfc3339 now s request =
     (VerifyAndNormalize cr unmarshal rfc3339 now s (wr_Headers request) (wr_RawBody request),
      (JSONAcknowledgement 202 (acceptedBody False))\<lparr>ack_DuplicateBody := acceptedBody True\<rparr>)"

definition signedJSONProvider ::
  "crypto \<Rightarrow> (string \<Rightarrow> signedJSONPayload option) \<Rightarrow> (time \<Rightarrow> string) \<Rightarrow> time \<Rightarrow> SignedJSON \<Rightarrow> provider" where
  "signedJSONProvider cr unmarshal rfc3339 now s =
     \<lparr>pv_Name = ''signed_json'', pv_Enabled = sj_enabled s, pv_Environment = sj_environment s,
      pv_Capabilities = \<lparr>SupportsWebhook = True, SupportsReconciliation = False, SupportsTestMode = True\<rparr>,
      pv_webhook = Some (signedJSONWebhook cr unmarshal rfc3339 now s), pv_transactions = None\<rparr>"

section \<open>The HTTP handler of payment webhooks\<close>

record http_request =
  hq_provider :: string
  hq_headers :: "string \<Rightarrow> string"
  hq_body :: "string option" \<comment> \<open>\<open>None\<close>: reading failed\<close>

record http_response =
  hs_status :: int
  hs_headers :: "(string \<times> string) list"
  hs_body :: string

definition errorResponse :: "int \<Rightarrow> string \<Rightarrow> http_response" where
  "errorResponse status message =
     \<lparr>hs_status = status, hs_headers = [(''Content-Type'', ''application/json; charset=utf-8'')],
      hs_body = json_Marshal [(''error'', JText message)]\<rparr>"

text \<open>\<open>mediaType\<close> is \<open>mime.ParseMediaType\<close> and \<open>canonical\<close> is \<open>http.CanonicalHeaderKey\<close>.\<close>

definition acknowledgementHeaderOk :: "(string \<Rightarrow> string) \<Rightarrow> string \<times> string \<Rightarrow> bool" where
  "acknowledgementHeaderOk canonical h =
     (let key = canonical (TrimSpace (fst h)) in
      \<not> (key = [] \<or> (\<exists>c \<in> set (fst h @ snd h). c = CHR 0x0D \<or> c = CHR 0x0A) \<or> length (snd h) > 512 \<or>
         key = ''Authorization'' \<or> key = ''Set-Cookie''))"

definition validateProviderAcknowledgement ::
  "(string \<Rightarrow> string option) \<Rightarrow> (string \<Rightarrow> string) \<Rightarrow> WebhookAcknowledgement \<Rightarrow> bool" where
  "validateProviderAcknowledgement mediaType canonical ack \<longleftrightarrow>
     \<not> (ack_StatusCode ack < 200 \<or> ack_StatusCode ack > 299 \<or> length (ack_Body ack) > 4096 \<or>
        length (ack_DuplicateBody ack) > 4096 \<or> ack_Headers ack = []) \<and>
     list_all (acknowledgementHeaderOk canonical) (ack_Headers ack) \<and>
     (case mediaType (case filter (\<lambda>h. canonical (TrimSpace (fst h)) = ''Content-Type'') (ack_Headers ack) of
         [] \<Rightarrow> [] | hs \<Rightarrow> snd (last hs)) of
        None \<Rightarrow> False | Some t \<Rightarrow> t = ''application/json'' \<or> t = ''text/plain'')"

text \<open>\<open>strings.EqualFold\<close> on the ASCII tokens that \<open>mime.ParseMediaType\<close> returns.\<close>

definition equalFoldASCII :: "string \<Rightarrow> string \<Rightarrow> bool" where
  "equalFoldASCII a b \<longleftrightarrow> map lowerChar a = map lowerChar b"

definition PaymentWebhook_Handler ::
  "(string \<Rightarrow> string option) \<Rightarrow> (string \<Rightarrow> string) \<Rightarrow> provider list \<Rightarrow> int64 \<Rightarrow>
   (NormalizedPaymentEvent \<Rightarrow> PaymentEventIngestionResult dbtx) \<Rightarrow> http_request \<Rightarrow> http_response dbtx" where
  "PaymentWebhook_Handler mediaType canonical registry bodyLimit ingest request =
     (case GetWebhookProvider registry (hq_provider request) of
        Inl _ \<Rightarrow> returnE (errorResponse 404 ''payment provider not found'')
      | Inr webhook \<Rightarrow>
          if (case mediaType (hq_headers request ''Content-Type'') of None \<Rightarrow> True
              | Some t \<Rightarrow> \<not> equalFoldASCII t ''application/json'')
          then returnE (errorResponse 415 ''application/json required'')
          else case hq_body request of
            None \<Rightarrow> returnE (errorResponse 400 ''invalid request body'')
          | Some body \<Rightarrow>
              if int (length body) > bodyLimit then returnE (errorResponse 413 ''request body too large'')
              else case webhook \<lparr>wr_Headers = hq_headers request, wr_RawBody = body\<rparr> of
                (Inl e, _) \<Rightarrow>
                  returnE (errorResponse (if e = Peripheral ErrInvalidWebhookSignature \<or> e = Peripheral ErrWebhookReplay
                    then 401 else 400) ''payment webhook rejected'')
              | (Inr event, ack) \<Rightarrow>
                  bindE (attempt (ingest event)) (\<lambda>ingested. case ingested of
                    Inl e \<Rightarrow> returnE (if e = ErrPaymentEventConflict then errorResponse 409 ''payment event conflict''
                      else errorResponse 503 ''payment event ingestion unavailable'')
                  | Inr result \<Rightarrow>
                      returnE (if \<not> validateProviderAcknowledgement mediaType canonical ack
                        then errorResponse 503 ''payment provider acknowledgement unavailable''
                        else \<lparr>hs_status = ack_StatusCode ack, hs_headers = ack_Headers ack,
                          hs_body = (if ir_Duplicate result \<and> ack_DuplicateBody ack \<noteq> []
                            then ack_DuplicateBody ack else ack_Body ack)\<rparr>)))"

end
