(* ===== verification/Telegram_Parser.thy ===== *)
theory Telegram_Parser
  imports Go_Text
begin

text \<open>
  The parser of Telegram commands and callback data, \<open>internal/telegram/parser.go\<close>. A callback is
  a string of at most 64 bytes that a button carries and Telegram sends back when it is pressed; the parser is
  the only guard between that text and the router, so what it accepts is bounded here.
\<close>

section \<open>Commands\<close>

record Command =
  cmd_Name :: string
  cmd_Payload :: string

text \<open>\<open>strings.Fields\<close>: the maximal runs without white space.\<close>

function fieldsFrom :: "string \<Rightarrow> string \<Rightarrow> string list" where
  "fieldsFrom acc [] = (if acc = [] then [] else [rev acc])"
| "fieldsFrom acc (c # s) =
     (case firstStrip whiteSpaceRunes (c # s) of
        Some r \<Rightarrow> (if acc = [] then [] else [rev acc]) @ fieldsFrom [] r
      | None \<Rightarrow> fieldsFrom (c # acc) s)"
  by pat_completeness auto
termination
proof (relation "measure (\<lambda>(acc, s). length s)")
  fix c s r
  assume "firstStrip whiteSpaceRunes (c # s) = Some r"
  then have "length r < length (c # s)" by (rule firstStrip_length) (simp add: whiteSpaceRunes_def)
  then show "(([], r), (acc, c # s)) \<in> measure (\<lambda>(acc, s). length s)" for acc :: string by simp
qed simp_all

definition Fields :: "string \<Rightarrow> string list" where
  "Fields s = fieldsFrom [] s"

text \<open>\<open>lower\<close> is \<open>strings.ToLower\<close>, whose tables are Unicode's.\<close>

definition ParseCommand :: "(string \<Rightarrow> string) \<Rightarrow> string \<Rightarrow> Command option" where
  "ParseCommand lower message =
     (case Fields (TrimSpace message) of
        [] \<Rightarrow> None
      | first # rest \<Rightarrow>
          (case stripPrefix ''/'' first of
             None \<Rightarrow> None
           | Some name0 \<Rightarrow>
               let name = lower (takeWhile (\<lambda>c. c \<noteq> CHR ''@'') name0) in
               if name = [] then None
               else Some \<lparr>cmd_Name = name, cmd_Payload = (case rest of [] \<Rightarrow> [] | p # _ \<Rightarrow> p)\<rparr>))"

section \<open>Callbacks\<close>

datatype CallbackAction =
    CallbackMenu | CallbackSupport | CallbackCategories
  | CallbackProducts | CallbackProductDetail | CallbackOrderQuantity
  | CallbackOrderBank | CallbackOrderConfirm | CallbackOrders
  | CallbackOrderView | CallbackOrderAskCancel | CallbackOrderCancel
  | CallbackOrderWalletAsk | CallbackOrderWalletPay | CallbackWalletTopupAmount
  | CallbackWalletTopupBank | CallbackWalletBalance | CallbackAdminCategories
  | CallbackAdminProducts | CallbackAdminCategoryNew | CallbackAdminCategoryEdit
  | CallbackAdminCategoryAskToggle | CallbackAdminCategoryToggle | CallbackAdminProductNew
  | CallbackAdminProductEdit | CallbackAdminProductAskToggle | CallbackAdminProductToggle
  | CallbackAdminInventory | CallbackAdminInventoryList | CallbackAdminInventoryImport
  | CallbackAdminInventoryAskToggle | CallbackAdminInventoryToggle | CallbackAdminBanks
  | CallbackAdminBankNew | CallbackAdminBankEdit | CallbackAdminBankAskToggle
  | CallbackAdminBankToggle | CallbackAdminPaymentReviews | CallbackAdminPaymentManual
  | CallbackAdminPaymentResolve | CallbackAdminWalletAdjustment | CallbackAdminDeliveries
  | CallbackAdminDeliveryDetail | CallbackAdminDeliveryRetry | CallbackAdminDeliveryComplete
  | CallbackAdminDeliveryConfirm | CallbackAdminDeliveryReconcile | CallbackAdminProviderHealth
  | CallbackAdminProviderAccounts | CallbackAdminProviderAccountNew | CallbackAdminProviderAccountAskToggle
  | CallbackAdminProviderAccountToggle | CallbackAdminCancel

record Callback =
  Action :: CallbackAction
  Page :: int
  CategoryID :: int64
  ProductID :: int64
  BankAccountID :: int64
  OrderID :: int64
  FlowID :: int64
  Quantity :: int32
  InventoryID :: int64
  RecordVersion :: int64
  SessionID :: int64
  SessionVersion :: int64
  Active :: bool
  AmountVND :: int64
  ReviewID :: int64
  DeliveryID :: int64
  ProviderAccountID :: int64

text \<open>\<open>Callback{Action: a}\<close>: every other field has its zero value.\<close>

definition callback :: "CallbackAction \<Rightarrow> Callback" where
  "callback a = \<lparr>Action = a, Page = 0, CategoryID = 0, ProductID = 0, BankAccountID = 0, OrderID = 0, FlowID = 0,
     Quantity = 0, InventoryID = 0, RecordVersion = 0, SessionID = 0, SessionVersion = 0, Active = False,
     AmountVND = 0, ReviewID = 0, DeliveryID = 0, ProviderAccountID = 0\<rparr>"

definition MaxCallbackDataBytes :: nat where
  "MaxCallbackDataBytes = 64"

definition invalid :: "error + 'a" where
  "invalid = Inl (Peripheral ErrInvalidCallback)"

definition check :: "error + 'a \<Rightarrow> ('a \<Rightarrow> error + 'b) \<Rightarrow> error + 'b" where
  "check r f = (case r of Inl e \<Rightarrow> Inl e | Inr x \<Rightarrow> f x)"

definition positive :: "string \<Rightarrow> error + int64" where
  "positive raw = (case ParseInt 64 raw of None \<Rightarrow> invalid | Some v \<Rightarrow> if v \<le> 0 then invalid else Inr v)"

definition nonNegative :: "string \<Rightarrow> error + int64" where
  "nonNegative raw = (case ParseInt 32 raw of None \<Rightarrow> invalid | Some v \<Rightarrow> if v < 0 then invalid else Inr v)"

definition positiveInt32 :: "string \<Rightarrow> error + int32" where
  "positiveInt32 raw = (case ParseInt 32 raw of None \<Rightarrow> invalid | Some v \<Rightarrow> if v \<le> 0 then invalid else Inr v)"

definition parseBoolBit :: "string \<Rightarrow> error + bool" where
  "parseBoolBit raw = (if raw = ''0'' then Inr False else if raw = ''1'' then Inr True else invalid)"

definition exact :: "string list \<Rightarrow> nat \<Rightarrow> Callback \<Rightarrow> error + Callback" where
  "exact parts n cb = (if length parts \<noteq> n then invalid else Inr cb)"

definition parseNonNegative :: "string list \<Rightarrow> nat \<Rightarrow> nat \<Rightarrow> error + int64" where
  "parseNonNegative parts index n = (if length parts \<noteq> n then invalid else nonNegative (parts ! index))"

definition parseOrderCallback :: "string list \<Rightarrow> error + Callback" where
  "parseOrderCallback parts =
     (if length parts < 3 then invalid else
      if parts ! 2 = ''qh'' then
        exact parts 3 (callback CallbackAdminProviderHealth)
      else if parts ! 2 = ''ql'' then
        check (parseNonNegative parts 3 4) (\<lambda>page. Inr ((callback CallbackAdminProviderAccounts)\<lparr>Page := page\<rparr>))
      else if parts ! 2 = ''qn'' then
        exact parts 3 (callback CallbackAdminProviderAccountNew)
      else if parts ! 2 = ''qa'' then
        (if length parts \<noteq> 6 then invalid else
          check (positive (parts ! 3)) (\<lambda>x0. check (positive (parts ! 4)) (\<lambda>x1. check (parseBoolBit (parts ! 5)) (\<lambda>x2. Inr ((callback CallbackAdminProviderAccountAskToggle)\<lparr>ProviderAccountID := x0, RecordVersion := x1, Active := x2\<rparr>)))))
      else if parts ! 2 = ''qt'' then
        (if length parts \<noteq> 8 then invalid else
          check (positive (parts ! 3)) (\<lambda>x0. check (positive (parts ! 4)) (\<lambda>x1. check (positive (parts ! 5)) (\<lambda>x2. check (positive (parts ! 6)) (\<lambda>x3. check (parseBoolBit (parts ! 7)) (\<lambda>x4. Inr ((callback CallbackAdminProviderAccountToggle)\<lparr>SessionID := x0, SessionVersion := x1, ProviderAccountID := x2, RecordVersion := x3, Active := x4\<rparr>)))))))
      else if parts ! 2 = ''q'' then
        (if length parts \<noteq> 5 then invalid else
          check (positive (parts ! 3)) (\<lambda>x0. check (positiveInt32 (parts ! 4)) (\<lambda>x1. Inr ((callback CallbackOrderQuantity)\<lparr>ProductID := x0, Quantity := x1\<rparr>))))
      else if parts ! 2 = ''b'' then
        (if length parts \<noteq> 6 then invalid else
          check (positive (parts ! 3)) (\<lambda>x0. check (positiveInt32 (parts ! 4)) (\<lambda>x1. check (positive (parts ! 5)) (\<lambda>x2. Inr ((callback CallbackOrderBank)\<lparr>ProductID := x0, Quantity := x1, BankAccountID := x2\<rparr>)))))
      else if parts ! 2 = ''c'' then
        (if length parts \<noteq> 7 then invalid else
          check (positive (parts ! 3)) (\<lambda>x0. check (positive (parts ! 4)) (\<lambda>x1. check (positiveInt32 (parts ! 5)) (\<lambda>x2. check (positive (parts ! 6)) (\<lambda>x3. Inr ((callback CallbackOrderConfirm)\<lparr>FlowID := x0, ProductID := x1, Quantity := x2, BankAccountID := x3\<rparr>))))))
      else if parts ! 2 = ''l'' then
        check (parseNonNegative parts 3 4) (\<lambda>page. Inr ((callback CallbackOrders)\<lparr>Page := page\<rparr>))
      else if parts ! 2 = ''v'' then
        (if length parts \<noteq> 4 then invalid else
          check (positive (parts ! 3)) (\<lambda>x0. Inr ((callback CallbackOrderView)\<lparr>OrderID := x0\<rparr>)))
      else if parts ! 2 = ''x'' then
        (if length parts \<noteq> 5 then invalid else
          check (positive (parts ! 3)) (\<lambda>x0. check (positive (parts ! 4)) (\<lambda>x1. Inr ((callback CallbackOrderAskCancel)\<lparr>OrderID := x0, RecordVersion := x1\<rparr>))))
      else if parts ! 2 = ''k'' then
        (if length parts \<noteq> 5 then invalid else
          check (positive (parts ! 3)) (\<lambda>x0. check (positive (parts ! 4)) (\<lambda>x1. Inr ((callback CallbackOrderCancel)\<lparr>OrderID := x0, RecordVersion := x1\<rparr>))))
      else if parts ! 2 = ''w'' then
        (if length parts \<noteq> 4 then invalid else
          check (positive (parts ! 3)) (\<lambda>x0. Inr ((callback CallbackOrderWalletAsk)\<lparr>OrderID := x0\<rparr>)))
      else if parts ! 2 = ''y'' then
        (if length parts \<noteq> 5 then invalid else
          check (positive (parts ! 3)) (\<lambda>x0. check (positive (parts ! 4)) (\<lambda>x1. Inr ((callback CallbackOrderWalletPay)\<lparr>FlowID := x0, OrderID := x1\<rparr>))))
      else invalid)"

definition parseWalletCallback :: "string list \<Rightarrow> error + Callback" where
  "parseWalletCallback parts =
     (if length parts < 3 then invalid else
      if parts ! 2 = ''v'' then
        exact parts 3 (callback CallbackWalletBalance)
      else if parts ! 2 = ''a'' then
        (if length parts \<noteq> 4 then invalid else
          check (positive (parts ! 3)) (\<lambda>x0. Inr ((callback CallbackWalletTopupAmount)\<lparr>AmountVND := x0\<rparr>)))
      else if parts ! 2 = ''b'' then
        (if length parts \<noteq> 6 then invalid else
          check (positive (parts ! 3)) (\<lambda>x0. check (positive (parts ! 4)) (\<lambda>x1. check (positive (parts ! 5)) (\<lambda>x2. Inr ((callback CallbackWalletTopupBank)\<lparr>FlowID := x0, AmountVND := x1, BankAccountID := x2\<rparr>)))))
      else invalid)"

definition parseAdminCallback :: "string list \<Rightarrow> error + Callback" where
  "parseAdminCallback parts =
     (if length parts < 3 then invalid else
      if parts ! 2 = ''dl'' then
        check (parseNonNegative parts 3 4) (\<lambda>page. Inr ((callback CallbackAdminDeliveries)\<lparr>Page := page\<rparr>))
      else if parts ! 2 = ''dd'' then
        (if length parts \<noteq> 4 then invalid else
          check (positive (parts ! 3)) (\<lambda>x0. Inr ((callback CallbackAdminDeliveryDetail)\<lparr>DeliveryID := x0\<rparr>)))
      else if parts ! 2 = ''dr'' then
        (if length parts \<noteq> 5 then invalid else
          check (positive (parts ! 3)) (\<lambda>x0. check (positive (parts ! 4)) (\<lambda>x1. Inr ((callback CallbackAdminDeliveryRetry)\<lparr>DeliveryID := x0, RecordVersion := x1\<rparr>))))
      else if parts ! 2 = ''dm'' then
        (if length parts \<noteq> 5 then invalid else
          check (positive (parts ! 3)) (\<lambda>x0. check (positive (parts ! 4)) (\<lambda>x1. Inr ((callback CallbackAdminDeliveryComplete)\<lparr>DeliveryID := x0, RecordVersion := x1\<rparr>))))
      else if parts ! 2 = ''dc'' then
        (if length parts \<noteq> 5 then invalid else
          check (positive (parts ! 3)) (\<lambda>x0. check (positive (parts ! 4)) (\<lambda>x1. Inr ((callback CallbackAdminDeliveryConfirm)\<lparr>SessionID := x0, SessionVersion := x1\<rparr>))))
      else if parts ! 2 = ''dx'' then
        exact parts 3 (callback CallbackAdminDeliveryReconcile)
      else if parts ! 2 = ''pm'' then
        exact parts 3 (callback CallbackAdminPaymentManual)
      else if parts ! 2 = ''pr'' then
        check (parseNonNegative parts 3 4) (\<lambda>page. Inr ((callback CallbackAdminPaymentReviews)\<lparr>Page := page\<rparr>))
      else if parts ! 2 = ''rr'' then
        (if length parts \<noteq> 4 then invalid else
          check (positive (parts ! 3)) (\<lambda>x0. Inr ((callback CallbackAdminPaymentResolve)\<lparr>ReviewID := x0\<rparr>)))
      else if parts ! 2 = ''wa'' then
        exact parts 3 (callback CallbackAdminWalletAdjustment)
      else if parts ! 2 = ''b'' then
        check (parseNonNegative parts 3 4) (\<lambda>page. Inr ((callback CallbackAdminBanks)\<lparr>Page := page\<rparr>))
      else if parts ! 2 = ''bn'' then
        exact parts 3 (callback CallbackAdminBankNew)
      else if parts ! 2 = ''be'' then
        (if length parts \<noteq> 5 then invalid else
          check (positive (parts ! 3)) (\<lambda>x0. check (positive (parts ! 4)) (\<lambda>x1. Inr ((callback CallbackAdminBankEdit)\<lparr>BankAccountID := x0, RecordVersion := x1\<rparr>))))
      else if parts ! 2 = ''ba'' then
        (if length parts \<noteq> 6 then invalid else
          check (positive (parts ! 3)) (\<lambda>x0. check (positive (parts ! 4)) (\<lambda>x1. check (parseBoolBit (parts ! 5)) (\<lambda>x2. Inr ((callback CallbackAdminBankAskToggle)\<lparr>BankAccountID := x0, RecordVersion := x1, Active := x2\<rparr>)))))
      else if parts ! 2 = ''bt'' then
        (if length parts \<noteq> 8 then invalid else
          check (positive (parts ! 3)) (\<lambda>x0. check (positive (parts ! 4)) (\<lambda>x1. check (positive (parts ! 5)) (\<lambda>x2. check (positive (parts ! 6)) (\<lambda>x3. check (parseBoolBit (parts ! 7)) (\<lambda>x4. Inr ((callback CallbackAdminBankToggle)\<lparr>SessionID := x0, SessionVersion := x1, BankAccountID := x2, RecordVersion := x3, Active := x4\<rparr>)))))))
      else if parts ! 2 = ''c'' then
        check (parseNonNegative parts 3 4) (\<lambda>page. Inr ((callback CallbackAdminCategories)\<lparr>Page := page\<rparr>))
      else if parts ! 2 = ''p'' then
        check (parseNonNegative parts 3 4) (\<lambda>page. Inr ((callback CallbackAdminProducts)\<lparr>Page := page\<rparr>))
      else if parts ! 2 = ''i'' then
        check (parseNonNegative parts 3 4) (\<lambda>page. Inr ((callback CallbackAdminInventory)\<lparr>Page := page\<rparr>))
      else if parts ! 2 = ''il'' then
        (if length parts \<noteq> 5 then invalid else
          check (positive (parts ! 3)) (\<lambda>x0. check (nonNegative (parts ! 4)) (\<lambda>x1. Inr ((callback CallbackAdminInventoryList)\<lparr>ProductID := x0, Page := x1\<rparr>))))
      else if parts ! 2 = ''ii'' then
        (if length parts \<noteq> 4 then invalid else
          check (positive (parts ! 3)) (\<lambda>x0. Inr ((callback CallbackAdminInventoryImport)\<lparr>ProductID := x0\<rparr>)))
      else if parts ! 2 = ''is'' then
        (if length parts \<noteq> 6 then invalid else
          check (positive (parts ! 3)) (\<lambda>x0. check (positive (parts ! 4)) (\<lambda>x1. check (parseBoolBit (parts ! 5)) (\<lambda>x2. Inr ((callback CallbackAdminInventoryAskToggle)\<lparr>InventoryID := x0, RecordVersion := x1, Active := x2\<rparr>)))))
      else if parts ! 2 = ''it'' then
        (if length parts \<noteq> 8 then invalid else
          check (positive (parts ! 3)) (\<lambda>x0. check (positive (parts ! 4)) (\<lambda>x1. check (positive (parts ! 5)) (\<lambda>x2. check (positive (parts ! 6)) (\<lambda>x3. check (parseBoolBit (parts ! 7)) (\<lambda>x4. Inr ((callback CallbackAdminInventoryToggle)\<lparr>SessionID := x0, SessionVersion := x1, InventoryID := x2, RecordVersion := x3, Active := x4\<rparr>)))))))
      else if parts ! 2 = ''cn'' then
        exact parts 3 (callback CallbackAdminCategoryNew)
      else if parts ! 2 = ''pn'' then
        exact parts 3 (callback CallbackAdminProductNew)
      else if parts ! 2 = ''ce'' then
        (if length parts \<noteq> 5 then invalid else
          check (positive (parts ! 3)) (\<lambda>x0. check (positive (parts ! 4)) (\<lambda>x1. Inr ((callback CallbackAdminCategoryEdit)\<lparr>CategoryID := x0, RecordVersion := x1\<rparr>))))
      else if parts ! 2 = ''pe'' then
        (if length parts \<noteq> 5 then invalid else
          check (positive (parts ! 3)) (\<lambda>x0. check (positive (parts ! 4)) (\<lambda>x1. Inr ((callback CallbackAdminProductEdit)\<lparr>ProductID := x0, RecordVersion := x1\<rparr>))))
      else if parts ! 2 = ''ca'' then
        (if length parts \<noteq> 6 then invalid else
          check (positive (parts ! 3)) (\<lambda>x0. check (positive (parts ! 4)) (\<lambda>x1. check (parseBoolBit (parts ! 5)) (\<lambda>x2. Inr ((callback CallbackAdminCategoryAskToggle)\<lparr>CategoryID := x0, RecordVersion := x1, Active := x2\<rparr>)))))
      else if parts ! 2 = ''pa'' then
        (if length parts \<noteq> 6 then invalid else
          check (positive (parts ! 3)) (\<lambda>x0. check (positive (parts ! 4)) (\<lambda>x1. check (parseBoolBit (parts ! 5)) (\<lambda>x2. Inr ((callback CallbackAdminProductAskToggle)\<lparr>ProductID := x0, RecordVersion := x1, Active := x2\<rparr>)))))
      else if parts ! 2 = ''ct'' then
        (if length parts \<noteq> 8 then invalid else
          check (positive (parts ! 3)) (\<lambda>x0. check (positive (parts ! 4)) (\<lambda>x1. check (positive (parts ! 5)) (\<lambda>x2. check (positive (parts ! 6)) (\<lambda>x3. check (parseBoolBit (parts ! 7)) (\<lambda>x4. Inr ((callback CallbackAdminCategoryToggle)\<lparr>SessionID := x0, SessionVersion := x1, CategoryID := x2, RecordVersion := x3, Active := x4\<rparr>)))))))
      else if parts ! 2 = ''pt'' then
        (if length parts \<noteq> 8 then invalid else
          check (positive (parts ! 3)) (\<lambda>x0. check (positive (parts ! 4)) (\<lambda>x1. check (positive (parts ! 5)) (\<lambda>x2. check (positive (parts ! 6)) (\<lambda>x3. check (parseBoolBit (parts ! 7)) (\<lambda>x4. Inr ((callback CallbackAdminProductToggle)\<lparr>SessionID := x0, SessionVersion := x1, ProductID := x2, RecordVersion := x3, Active := x4\<rparr>)))))))
      else if parts ! 2 = ''x'' then
        (if length parts \<noteq> 5 then invalid else
          check (positive (parts ! 3)) (\<lambda>x0. check (positive (parts ! 4)) (\<lambda>x1. Inr ((callback CallbackAdminCancel)\<lparr>SessionID := x0, SessionVersion := x1\<rparr>))))
      else invalid)"

definition ParseCallback :: "string \<Rightarrow> error + Callback" where
  "ParseCallback data =
     (if data = [] \<or> length data > MaxCallbackDataBytes \<or> \<not> utf8_Valid data then invalid else
      let parts = Split (CHR '':'') data in
      if length parts < 2 \<or> parts ! 0 \<noteq> ''v1'' then invalid else
      if parts ! 1 = ''m'' then
        exact parts 2 (callback CallbackMenu)
      else if parts ! 1 = ''s'' then
        exact parts 2 (callback CallbackSupport)
      else if parts ! 1 = ''c'' then
        check (parseNonNegative parts 2 3) (\<lambda>page. Inr ((callback CallbackCategories)\<lparr>Page := page\<rparr>))
      else if parts ! 1 = ''p'' then
        (if length parts \<noteq> 4 then invalid else
          check (positive (parts ! 2)) (\<lambda>x0. check (nonNegative (parts ! 3)) (\<lambda>x1. Inr ((callback CallbackProducts)\<lparr>CategoryID := x0, Page := x1\<rparr>))))
      else if parts ! 1 = ''d'' then
        (if length parts \<noteq> 5 then invalid else
          check (positive (parts ! 2)) (\<lambda>x0. check (positive (parts ! 3)) (\<lambda>x1. check (nonNegative (parts ! 4)) (\<lambda>x2. Inr ((callback CallbackProductDetail)\<lparr>ProductID := x0, CategoryID := x1, Page := x2\<rparr>)))))
      else if parts ! 1 = ''o'' then
        parseOrderCallback parts
      else if parts ! 1 = ''w'' then
        parseWalletCallback parts
      else if parts ! 1 = ''a'' then
        parseAdminCallback parts
      else invalid)"

datatype update = NoUpdate | MessageUpdate | CallbackQueryUpdate | EditedMessageUpdate | OtherUpdate

fun ClassifyUpdate :: "update \<Rightarrow> string" where
  "ClassifyUpdate NoUpdate = ''unknown''"
| "ClassifyUpdate MessageUpdate = ''message''"
| "ClassifyUpdate CallbackQueryUpdate = ''callback_query''"
| "ClassifyUpdate EditedMessageUpdate = ''edited_message''"
| "ClassifyUpdate OtherUpdate = ''unknown''"

section \<open>The grammar of callbacks\<close>

text \<open>
  The four switches accept one regular language: a tag, and after it a fixed list of fields, each read by the
  one reader of its type. The tables below are that grammar.
\<close>

datatype callback_field =
    FPage | FCategoryID | FProductID | FBankAccountID | FOrderID | FFlowID
  | FQuantity | FInventoryID | FRecordVersion | FSessionID | FSessionVersion | FActive
  | FAmountVND | FReviewID | FDeliveryID | FProviderAccountID

fun readField :: "callback_field \<Rightarrow> string \<Rightarrow> Callback \<Rightarrow> error + Callback" where
  "readField FPage s cb = check (nonNegative s) (\<lambda>v. Inr (cb\<lparr>Page := v\<rparr>))"
| "readField FCategoryID s cb = check (positive s) (\<lambda>v. Inr (cb\<lparr>CategoryID := v\<rparr>))"
| "readField FProductID s cb = check (positive s) (\<lambda>v. Inr (cb\<lparr>ProductID := v\<rparr>))"
| "readField FBankAccountID s cb = check (positive s) (\<lambda>v. Inr (cb\<lparr>BankAccountID := v\<rparr>))"
| "readField FOrderID s cb = check (positive s) (\<lambda>v. Inr (cb\<lparr>OrderID := v\<rparr>))"
| "readField FFlowID s cb = check (positive s) (\<lambda>v. Inr (cb\<lparr>FlowID := v\<rparr>))"
| "readField FQuantity s cb = check (positiveInt32 s) (\<lambda>v. Inr (cb\<lparr>Quantity := v\<rparr>))"
| "readField FInventoryID s cb = check (positive s) (\<lambda>v. Inr (cb\<lparr>InventoryID := v\<rparr>))"
| "readField FRecordVersion s cb = check (positive s) (\<lambda>v. Inr (cb\<lparr>RecordVersion := v\<rparr>))"
| "readField FSessionID s cb = check (positive s) (\<lambda>v. Inr (cb\<lparr>SessionID := v\<rparr>))"
| "readField FSessionVersion s cb = check (positive s) (\<lambda>v. Inr (cb\<lparr>SessionVersion := v\<rparr>))"
| "readField FActive s cb = check (parseBoolBit s) (\<lambda>v. Inr (cb\<lparr>Active := v\<rparr>))"
| "readField FAmountVND s cb = check (positive s) (\<lambda>v. Inr (cb\<lparr>AmountVND := v\<rparr>))"
| "readField FReviewID s cb = check (positive s) (\<lambda>v. Inr (cb\<lparr>ReviewID := v\<rparr>))"
| "readField FDeliveryID s cb = check (positive s) (\<lambda>v. Inr (cb\<lparr>DeliveryID := v\<rparr>))"
| "readField FProviderAccountID s cb = check (positive s) (\<lambda>v. Inr (cb\<lparr>ProviderAccountID := v\<rparr>))"

fun showField :: "callback_field \<Rightarrow> Callback \<Rightarrow> string" where
  "showField FPage cb = intText (Page cb)"
| "showField FCategoryID cb = intText (CategoryID cb)"
| "showField FProductID cb = intText (ProductID cb)"
| "showField FBankAccountID cb = intText (BankAccountID cb)"
| "showField FOrderID cb = intText (OrderID cb)"
| "showField FFlowID cb = intText (FlowID cb)"
| "showField FQuantity cb = intText (Quantity cb)"
| "showField FInventoryID cb = intText (InventoryID cb)"
| "showField FRecordVersion cb = intText (RecordVersion cb)"
| "showField FSessionID cb = intText (SessionID cb)"
| "showField FSessionVersion cb = intText (SessionVersion cb)"
| "showField FActive cb = (if Active cb then ''1'' else ''0'')"
| "showField FAmountVND cb = intText (AmountVND cb)"
| "showField FReviewID cb = intText (ReviewID cb)"
| "showField FDeliveryID cb = intText (DeliveryID cb)"
| "showField FProviderAccountID cb = intText (ProviderAccountID cb)"

fun fieldOk :: "callback_field \<Rightarrow> Callback \<Rightarrow> bool" where
  "fieldOk FPage cb = (0 \<le> Page cb \<and> Page cb < 2 ^ 31)"
| "fieldOk FCategoryID cb = (0 < CategoryID cb \<and> CategoryID cb < 2 ^ 63)"
| "fieldOk FProductID cb = (0 < ProductID cb \<and> ProductID cb < 2 ^ 63)"
| "fieldOk FBankAccountID cb = (0 < BankAccountID cb \<and> BankAccountID cb < 2 ^ 63)"
| "fieldOk FOrderID cb = (0 < OrderID cb \<and> OrderID cb < 2 ^ 63)"
| "fieldOk FFlowID cb = (0 < FlowID cb \<and> FlowID cb < 2 ^ 63)"
| "fieldOk FQuantity cb = (0 < Quantity cb \<and> Quantity cb < 2 ^ 31)"
| "fieldOk FInventoryID cb = (0 < InventoryID cb \<and> InventoryID cb < 2 ^ 63)"
| "fieldOk FRecordVersion cb = (0 < RecordVersion cb \<and> RecordVersion cb < 2 ^ 63)"
| "fieldOk FSessionID cb = (0 < SessionID cb \<and> SessionID cb < 2 ^ 63)"
| "fieldOk FSessionVersion cb = (0 < SessionVersion cb \<and> SessionVersion cb < 2 ^ 63)"
| "fieldOk FActive cb = True"
| "fieldOk FAmountVND cb = (0 < AmountVND cb \<and> AmountVND cb < 2 ^ 63)"
| "fieldOk FReviewID cb = (0 < ReviewID cb \<and> ReviewID cb < 2 ^ 63)"
| "fieldOk FDeliveryID cb = (0 < DeliveryID cb \<and> DeliveryID cb < 2 ^ 63)"
| "fieldOk FProviderAccountID cb = (0 < ProviderAccountID cb \<and> ProviderAccountID cb < 2 ^ 63)"

fun copyField :: "callback_field \<Rightarrow> Callback \<Rightarrow> Callback \<Rightarrow> Callback" where
  "copyField FPage src cb = cb\<lparr>Page := Page src\<rparr>"
| "copyField FCategoryID src cb = cb\<lparr>CategoryID := CategoryID src\<rparr>"
| "copyField FProductID src cb = cb\<lparr>ProductID := ProductID src\<rparr>"
| "copyField FBankAccountID src cb = cb\<lparr>BankAccountID := BankAccountID src\<rparr>"
| "copyField FOrderID src cb = cb\<lparr>OrderID := OrderID src\<rparr>"
| "copyField FFlowID src cb = cb\<lparr>FlowID := FlowID src\<rparr>"
| "copyField FQuantity src cb = cb\<lparr>Quantity := Quantity src\<rparr>"
| "copyField FInventoryID src cb = cb\<lparr>InventoryID := InventoryID src\<rparr>"
| "copyField FRecordVersion src cb = cb\<lparr>RecordVersion := RecordVersion src\<rparr>"
| "copyField FSessionID src cb = cb\<lparr>SessionID := SessionID src\<rparr>"
| "copyField FSessionVersion src cb = cb\<lparr>SessionVersion := SessionVersion src\<rparr>"
| "copyField FActive src cb = cb\<lparr>Active := Active src\<rparr>"
| "copyField FAmountVND src cb = cb\<lparr>AmountVND := AmountVND src\<rparr>"
| "copyField FReviewID src cb = cb\<lparr>ReviewID := ReviewID src\<rparr>"
| "copyField FDeliveryID src cb = cb\<lparr>DeliveryID := DeliveryID src\<rparr>"
| "copyField FProviderAccountID src cb = cb\<lparr>ProviderAccountID := ProviderAccountID src\<rparr>"

definition topRows :: "(string \<times> CallbackAction \<times> callback_field list) list" where
  "topRows =
    [(''m'', CallbackMenu, []),
     (''s'', CallbackSupport, []),
     (''c'', CallbackCategories, [FPage]),
     (''p'', CallbackProducts, [FCategoryID, FPage]),
     (''d'', CallbackProductDetail, [FProductID, FCategoryID, FPage])]"

definition orderRows :: "(string \<times> CallbackAction \<times> callback_field list) list" where
  "orderRows =
    [(''qh'', CallbackAdminProviderHealth, []),
     (''ql'', CallbackAdminProviderAccounts, [FPage]),
     (''qn'', CallbackAdminProviderAccountNew, []),
     (''qa'', CallbackAdminProviderAccountAskToggle, [FProviderAccountID, FRecordVersion, FActive]),
     (''qt'', CallbackAdminProviderAccountToggle, [FSessionID, FSessionVersion, FProviderAccountID, FRecordVersion, FActive]),
     (''q'', CallbackOrderQuantity, [FProductID, FQuantity]),
     (''b'', CallbackOrderBank, [FProductID, FQuantity, FBankAccountID]),
     (''c'', CallbackOrderConfirm, [FFlowID, FProductID, FQuantity, FBankAccountID]),
     (''l'', CallbackOrders, [FPage]),
     (''v'', CallbackOrderView, [FOrderID]),
     (''x'', CallbackOrderAskCancel, [FOrderID, FRecordVersion]),
     (''k'', CallbackOrderCancel, [FOrderID, FRecordVersion]),
     (''w'', CallbackOrderWalletAsk, [FOrderID]),
     (''y'', CallbackOrderWalletPay, [FFlowID, FOrderID])]"

definition walletRows :: "(string \<times> CallbackAction \<times> callback_field list) list" where
  "walletRows =
    [(''v'', CallbackWalletBalance, []),
     (''a'', CallbackWalletTopupAmount, [FAmountVND]),
     (''b'', CallbackWalletTopupBank, [FFlowID, FAmountVND, FBankAccountID])]"

definition adminRows :: "(string \<times> CallbackAction \<times> callback_field list) list" where
  "adminRows =
    [(''dl'', CallbackAdminDeliveries, [FPage]),
     (''dd'', CallbackAdminDeliveryDetail, [FDeliveryID]),
     (''dr'', CallbackAdminDeliveryRetry, [FDeliveryID, FRecordVersion]),
     (''dm'', CallbackAdminDeliveryComplete, [FDeliveryID, FRecordVersion]),
     (''dc'', CallbackAdminDeliveryConfirm, [FSessionID, FSessionVersion]),
     (''dx'', CallbackAdminDeliveryReconcile, []),
     (''pm'', CallbackAdminPaymentManual, []),
     (''pr'', CallbackAdminPaymentReviews, [FPage]),
     (''rr'', CallbackAdminPaymentResolve, [FReviewID]),
     (''wa'', CallbackAdminWalletAdjustment, []),
     (''b'', CallbackAdminBanks, [FPage]),
     (''bn'', CallbackAdminBankNew, []),
     (''be'', CallbackAdminBankEdit, [FBankAccountID, FRecordVersion]),
     (''ba'', CallbackAdminBankAskToggle, [FBankAccountID, FRecordVersion, FActive]),
     (''bt'', CallbackAdminBankToggle, [FSessionID, FSessionVersion, FBankAccountID, FRecordVersion, FActive]),
     (''c'', CallbackAdminCategories, [FPage]),
     (''p'', CallbackAdminProducts, [FPage]),
     (''i'', CallbackAdminInventory, [FPage]),
     (''il'', CallbackAdminInventoryList, [FProductID, FPage]),
     (''ii'', CallbackAdminInventoryImport, [FProductID]),
     (''is'', CallbackAdminInventoryAskToggle, [FInventoryID, FRecordVersion, FActive]),
     (''it'', CallbackAdminInventoryToggle, [FSessionID, FSessionVersion, FInventoryID, FRecordVersion, FActive]),
     (''cn'', CallbackAdminCategoryNew, []),
     (''pn'', CallbackAdminProductNew, []),
     (''ce'', CallbackAdminCategoryEdit, [FCategoryID, FRecordVersion]),
     (''pe'', CallbackAdminProductEdit, [FProductID, FRecordVersion]),
     (''ca'', CallbackAdminCategoryAskToggle, [FCategoryID, FRecordVersion, FActive]),
     (''pa'', CallbackAdminProductAskToggle, [FProductID, FRecordVersion, FActive]),
     (''ct'', CallbackAdminCategoryToggle, [FSessionID, FSessionVersion, FCategoryID, FRecordVersion, FActive]),
     (''pt'', CallbackAdminProductToggle, [FSessionID, FSessionVersion, FProductID, FRecordVersion, FActive]),
     (''x'', CallbackAdminCancel, [FSessionID, FSessionVersion])]"

fun readFields :: "nat \<Rightarrow> callback_field list \<Rightarrow> string list \<Rightarrow> Callback \<Rightarrow> error + Callback" where
  "readFields i [] parts cb = Inr cb"
| "readFields i (f # fs) parts cb = check (readField f (parts ! i) cb) (readFields (Suc i) fs parts)"

definition runRow :: "nat \<Rightarrow> string list \<Rightarrow> (CallbackAction \<times> callback_field list) option \<Rightarrow> error + Callback" where
  "runRow i parts row =
     (case row of None \<Rightarrow> invalid
      | Some (a, fs) \<Rightarrow> if length parts \<noteq> i + length fs then invalid else readFields i fs parts (callback a))"

definition groupRows :: "(string \<times> (string \<times> CallbackAction \<times> callback_field list) list) list" where
  "groupRows = [(''o'', orderRows), (''w'', walletRows), (''a'', adminRows)]"

definition parseByGrammar :: "string \<Rightarrow> error + Callback" where
  "parseByGrammar data =
     (if data = [] \<or> length data > 64 \<or> \<not> utf8_Valid data then invalid else
      let parts = Split (CHR '':'') data in
      if length parts < 2 \<or> parts ! 0 \<noteq> ''v1'' then invalid else
      case map_of groupRows (parts ! 1) of
        None \<Rightarrow> runRow 2 parts (map_of topRows (parts ! 1))
      | Some rows \<Rightarrow> if length parts < 3 then invalid else runRow 3 parts (map_of rows (parts ! 2)))"

lemma check_simps [simp]:
  "check (Inr x) f = f x" "check (Inl e) f = Inl e" "check (check r f) g = check r (\<lambda>x. check (f x) g)"
  by (auto simp: check_def split: sum.splits)

lemma check_invalid [simp]: "check invalid f = invalid"
  by (simp add: invalid_def)

lemma map_of_rows [simp]:
  "runRow i parts (map_of ((k, a, fs) # rows) t) =
     (if t = k then if length parts \<noteq> i + length fs then invalid else readFields i fs parts (callback a)
      else runRow i parts (map_of rows t))"
  "runRow i parts (map_of [] t) = invalid"
  by (simp_all add: runRow_def)

lemma order_rows: "2 < length parts \<Longrightarrow> parseOrderCallback parts = runRow 3 parts (map_of orderRows (parts ! 2))"
  unfolding parseOrderCallback_def orderRows_def
  by (simp add: exact_def parseNonNegative_def del: map_of.simps cong: if_cong)

lemma walletRows_parse: "2 < length parts \<Longrightarrow> parseWalletCallback parts = runRow 3 parts (map_of walletRows (parts ! 2))"
  unfolding parseWalletCallback_def walletRows_def
  by (simp add: exact_def parseNonNegative_def del: map_of.simps cong: if_cong)

lemma admin_rows: "2 < length parts \<Longrightarrow> parseAdminCallback parts = runRow 3 parts (map_of adminRows (parts ! 2))"
  unfolding parseAdminCallback_def adminRows_def
  by (simp add: exact_def parseNonNegative_def del: map_of.simps cong: if_cong)

lemma short_groups:
  "\<not> 2 < length parts \<Longrightarrow> parseOrderCallback parts = invalid"
  "\<not> 2 < length parts \<Longrightarrow> parseWalletCallback parts = invalid"
  "\<not> 2 < length parts \<Longrightarrow> parseAdminCallback parts = invalid"
  by (simp_all add: parseOrderCallback_def parseWalletCallback_def parseAdminCallback_def)

lemma ParseCallback_grammar: "ParseCallback data = parseByGrammar data"
proof -
  define parts where "parts = Split (CHR '':'') data"
  have groups: "parseOrderCallback parts = (if length parts < 3 then invalid else runRow 3 parts (map_of orderRows (parts ! 2)))"
    "parseWalletCallback parts = (if length parts < 3 then invalid else runRow 3 parts (map_of walletRows (parts ! 2)))"
    "parseAdminCallback parts = (if length parts < 3 then invalid else runRow 3 parts (map_of adminRows (parts ! 2)))"
    using order_rows [of parts] walletRows_parse [of parts] admin_rows [of parts] short_groups [of parts] by auto
  have top: "runRow 2 parts (map_of topRows t) =
      (if t = ''m'' then exact parts 2 (callback CallbackMenu) else if t = ''s'' then exact parts 2 (callback CallbackSupport)
       else if t = ''c'' then check (parseNonNegative parts 2 3) (\<lambda>page. Inr ((callback CallbackCategories)\<lparr>Page := page\<rparr>))
       else if t = ''p'' then (if length parts \<noteq> 4 then invalid else check (positive (parts ! 2)) (\<lambda>x0. check (nonNegative (parts ! 3))
              (\<lambda>x1. Inr ((callback CallbackProducts)\<lparr>CategoryID := x0, Page := x1\<rparr>))))
       else if t = ''d'' then (if length parts \<noteq> 5 then invalid else check (positive (parts ! 2)) (\<lambda>x0. check (positive (parts ! 3))
              (\<lambda>x1. check (nonNegative (parts ! 4))
              (\<lambda>x2. Inr ((callback CallbackProductDetail)\<lparr>ProductID := x0, CategoryID := x1, Page := x2\<rparr>)))))
       else invalid)" for t
    unfolding topRows_def by (simp add: exact_def parseNonNegative_def del: map_of.simps cong: if_cong)
  show ?thesis
    unfolding ParseCallback_def parseByGrammar_def Let_def parts_def [symmetric] top groups groupRows_def
    by (simp add: MaxCallbackDataBytes_def cong: if_cong)
qed

text \<open>
  C22. The hand-written switches of \<open>ParseCallback\<close> (five actions of its own, fourteen order, three wallet and
  thirty-one admin actions, with their index arithmetic) accept exactly what the grammar tables accept and give
  the same callback: no branch reads a field at the wrong index, with the wrong reader or into the wrong member.
\<close>

theorem callback_parser_is_grammar: "ParseCallback data = parseByGrammar data"
  by (rule ParseCallback_grammar)

section \<open>What is accepted, and what the buttons carry\<close>

text \<open>The rows of the whole grammar, with the tag as the parts that follow \<open>v1\<close>.\<close>

definition allRows :: "(string list \<times> CallbackAction \<times> callback_field list) list" where
  "allRows = map (\<lambda>(t, row). ([t], row)) topRows @ concat (map (\<lambda>(g, rows). map (\<lambda>(t, row). ([g, t], row)) rows) groupRows)"

definition rowFor :: "CallbackAction \<Rightarrow> string list \<times> callback_field list" where
  "rowFor a = (case filter (\<lambda>(tag, b, fs). b = a) allRows of [] \<Rightarrow> ([], []) | (tag, b, fs) # _ \<Rightarrow> (tag, fs))"

text \<open>
  A callback is well formed when the fields of its action have their range and all others are zero; its text is
  the one the buttons carry.
\<close>

definition wf_callback :: "Callback \<Rightarrow> bool" where
  "wf_callback cb \<longleftrightarrow>
     list_all (\<lambda>f. fieldOk f cb) (snd (rowFor (Action cb))) \<and>
     cb = fold (\<lambda>f c. copyField f cb c) (snd (rowFor (Action cb))) (callback (Action cb))"

definition callbackData :: "Callback \<Rightarrow> string" where
  "callbackData cb =
     joinWith (CHR '':'') (''v1'' # fst (rowFor (Action cb)) @ map (\<lambda>f. showField f cb) (snd (rowFor (Action cb))))"

lemma allRows_distinct: "distinct (map (\<lambda>(tag, a, fs). a) allRows)"
  by (simp add: allRows_def topRows_def groupRows_def orderRows_def walletRows_def adminRows_def)

lemma rowFor_row: "(tag, a, fs) \<in> set allRows \<Longrightarrow> rowFor a = (tag, fs)"
proof -
  have "distinct (map (\<lambda>(tag, a, fs). a) rows) \<Longrightarrow> (tag, a, fs) \<in> set rows \<Longrightarrow>
      filter (\<lambda>(tag, b, fs). b = a) rows = [(tag, a, fs)]" for rows
    by (induction rows) (auto simp: filter_empty_conv image_iff split: prod.splits)
  then show "(tag, a, fs) \<in> set allRows \<Longrightarrow> rowFor a = (tag, fs)"
    using allRows_distinct by (simp add: rowFor_def)
qed

lemma rowFor_total: "(fst (rowFor a), a, snd (rowFor a)) \<in> set allRows"
proof -
  have "\<exists>tag fs. (tag, a, fs) \<in> set allRows"
    by (cases a) (auto simp: allRows_def topRows_def groupRows_def orderRows_def walletRows_def adminRows_def)
  then show ?thesis using rowFor_row by fastforce
qed

lemma allRows_fields: "(tag, a, fs) \<in> set allRows \<Longrightarrow> distinct fs"
  by (auto simp: allRows_def topRows_def groupRows_def orderRows_def walletRows_def adminRows_def)

lemma positive_Inr: "positive s = Inr v \<Longrightarrow> 0 < v \<and> v < 2 ^ 63"
  using ParseInt_range [of 64 s v] by (auto simp: positive_def invalid_def split: option.splits if_splits)

lemma positiveInt32_Inr: "positiveInt32 s = Inr v \<Longrightarrow> 0 < v \<and> v < 2 ^ 31"
  using ParseInt_range [of 32 s v] by (auto simp: positiveInt32_def invalid_def split: option.splits if_splits)

lemma nonNegative_Inr: "nonNegative s = Inr v \<Longrightarrow> 0 \<le> v \<and> v < 2 ^ 31"
  using ParseInt_range [of 32 s v] by (auto simp: nonNegative_def invalid_def split: option.splits if_splits)

lemma check_Inr: "check r f = Inr y \<longleftrightarrow> (\<exists>x. r = Inr x \<and> f x = Inr y)"
  by (auto simp: check_def split: sum.splits)

lemma readField_ok: "readField f s cb = Inr cb' \<Longrightarrow> fieldOk f cb' \<and> Action cb' = Action cb \<and> cb' = copyField f cb' cb"
  by (cases f) (auto simp: check_Inr dest: positive_Inr positiveInt32_Inr nonNegative_Inr)

lemma copyField_other: "f \<noteq> g \<Longrightarrow> copyField f (copyField g x cb) c = copyField f cb c"
  by (cases g; cases f; simp)

lemma fieldOk_other: "f \<noteq> g \<Longrightarrow> fieldOk f (copyField g x cb) = fieldOk f cb"
  by (cases g; cases f; simp)

lemma readField_other:
  "readField g s cb = Inr cb' \<Longrightarrow> f \<noteq> g \<Longrightarrow> copyField f cb' = copyField f cb \<and> fieldOk f cb' = fieldOk f cb"
  using readField_ok [of g s cb cb'] copyField_other [of f g cb' cb] fieldOk_other [of f g cb' cb] by (auto simp: fun_eq_iff)

lemma readFields_other:
  "readFields i fs parts cb = Inr cb' \<Longrightarrow> f \<notin> set fs \<Longrightarrow> copyField f cb' = copyField f cb \<and> fieldOk f cb' = fieldOk f cb"
proof (induction i fs parts cb rule: readFields.induct)
  case (2 i g fs parts cb)
  then obtain cb1 where "readField g (parts ! i) cb = Inr cb1" "readFields (Suc i) fs parts cb1 = Inr cb'"
    by (auto simp: check_Inr)
  with 2 readField_other [of g "parts ! i" cb cb1 f] show ?case by auto
qed simp

lemma readFields_ok:
  "readFields i fs parts cb = Inr cb' \<Longrightarrow> distinct fs \<Longrightarrow>
     list_all (\<lambda>f. fieldOk f cb') fs \<and> Action cb' = Action cb \<and> cb' = fold (\<lambda>f c. copyField f cb' c) fs cb"
proof (induction i fs parts cb rule: readFields.induct)
  case (2 i g fs parts cb)
  then obtain cb1 where step: "readField g (parts ! i) cb = Inr cb1" "readFields (Suc i) fs parts cb1 = Inr cb'"
    by (auto simp: check_Inr)
  from readField_ok [OF step(1)] have one: "fieldOk g cb1" "Action cb1 = Action cb" "cb1 = copyField g cb1 cb" by auto
  from readFields_other [OF step(2), of g] 2(3) have "copyField g cb' cb = cb1" "fieldOk g cb'"
    using one by auto
  with 2(1) [OF step(2)] 2(3) one(2) show ?case by simp
qed simp

lemma runRow_Inr:
  "runRow i parts (map_of rows t) = Inr cb \<Longrightarrow>
     \<exists>a fs. (t, a, fs) \<in> set rows \<and> readFields i fs parts (callback a) = Inr cb"
  by (force simp: runRow_def invalid_def split: option.splits if_splits dest: map_of_SomeD)

lemma parsed_row: "ParseCallback data = Inr cb \<Longrightarrow>
   \<exists>tag a fs i parts. (tag, a, fs) \<in> set allRows \<and> readFields i fs parts (callback a) = Inr cb"
  unfolding ParseCallback_grammar parseByGrammar_def Let_def
  apply (auto simp: invalid_def split: if_splits option.splits dest!: runRow_Inr map_of_SomeD)
  subgoal for a fs by (rule exI [of _ "[Split (CHR '':'') data ! 1]"]) (force simp: allRows_def)
  subgoal for rows a fs
    by (rule exI [of _ "[Split (CHR '':'') data ! 1, Split (CHR '':'') data ! 2]"]) (force simp: allRows_def)
  done

text \<open>
  C23. Whatever text a client sends, an accepted callback is well typed: every identifier, version and amount its
  action uses is positive and below 2^63, a quantity is positive and below 2^31, a page is non-negative and below
  2^31, and every field that the action does not use has its zero value, so no handler sees a field it did not
  ask for.
\<close>

theorem accepted_callback_typed: "ParseCallback data = Inr cb \<Longrightarrow> wf_callback cb"
proof -
  assume "ParseCallback data = Inr cb"
  then obtain tag a fs i parts where row: "(tag, a, fs) \<in> set allRows" and "readFields i fs parts (callback a) = Inr cb"
    using parsed_row by blast
  with readFields_ok allRows_fields have
    ok: "list_all (\<lambda>f. fieldOk f cb) fs" "Action cb = Action (callback a)" "cb = fold (\<lambda>f c. copyField f cb c) fs (callback a)"
    by blast+
  from ok(2) have "Action cb = a" by (simp add: callback_def)
  with ok rowFor_row [OF row] show "wf_callback cb" by (simp add: wf_callback_def)
qed

theorem accepted_callback_typed_witness:
  "wf_callback ((callback CallbackOrderBank)\<lparr>ProductID := 12, Quantity := 2, BankAccountID := 7\<rparr>)"
proof -
  have "ParseCallback ''v1:o:b:12:2:7'' = Inr ((callback CallbackOrderBank)\<lparr>ProductID := 12, Quantity := 2, BankAccountID := 7\<rparr>)"
    by code_simp
  then show ?thesis by (rule accepted_callback_typed)
qed

lemma readField_show: "fieldOk f src \<Longrightarrow> readField f (showField f src) cb = Inr (copyField f src cb)"
  by (cases f) (auto simp: positive_def positiveInt32_def nonNegative_def parseBoolBit_def ParseInt_intText)

lemma readFields_show:
  "list_all (\<lambda>f. fieldOk f src) fs \<Longrightarrow> length pre = i \<Longrightarrow>
     readFields i fs (pre @ map (\<lambda>f. showField f src) fs) cb = Inr (fold (\<lambda>f c. copyField f src c) fs cb)"
proof (induction fs arbitrary: i pre cb)
  case (Cons f fs)
  from Cons.IH [of "pre @ [showField f src]" "Suc i"] Cons.prems show ?case
    by (simp add: nth_append readField_show)
qed simp

definition ascii :: "string \<Rightarrow> bool" where
  "ascii s \<longleftrightarrow> list_all (\<lambda>c. (of_char c :: nat) < 128) s"

lemma ascii_utf8: "ascii s \<Longrightarrow> utf8_Valid s"
proof (induction s)
  case (Cons c s)
  then have "runeLen (c # s) = 1" by (simp add: ascii_def runeLen_def nextIn_def byteIn_def)
  with Cons show ?case by (simp add: ascii_def)
qed simp

lemma ascii_joinWith: "list_all ascii ps \<Longrightarrow> ascii (joinWith (CHR '':'') ps)"
  by (induction "CHR '':''" ps rule: joinWith.induct) (auto simp: ascii_def)

lemma natText_ascii: "ascii (natText n)"
  using natText_digits [of _ n] by (fastforce simp: ascii_def list_all_iff isDigitChar_def)

lemma showField_plain: "CHR '':'' \<notin> set (showField f cb) \<and> ascii (showField f cb)"
proof -
  have "ascii (intText i)" for i using natText_ascii by (simp add: intText_def ascii_def)
  then show ?thesis by (cases f) (auto simp: intText_no_colon ascii_def)
qed

lemma row_tags: "(tag, a, fs) \<in> set allRows \<Longrightarrow> list_all (\<lambda>t. ascii t \<and> CHR '':'' \<notin> set t) tag"
  by (auto simp: ascii_def allRows_def topRows_def groupRows_def orderRows_def walletRows_def adminRows_def)

lemma allRows_cases:
  assumes "(tag, a, fs) \<in> set allRows"
  obtains t where "tag = [t]" "map_of topRows t = Some (a, fs)" "map_of groupRows t = None"
  | g t rows where "tag = [g, t]" "map_of groupRows g = Some rows" "map_of rows t = Some (a, fs)"
proof -
  have keys: "distinct (map fst topRows)" "distinct (map fst groupRows)" "list_all (\<lambda>(g, rows). distinct (map fst rows)) groupRows"
    "list_all (\<lambda>(t, r). map_of groupRows t = None) topRows"
    by (simp_all add: topRows_def groupRows_def orderRows_def walletRows_def adminRows_def)
  from assms consider t where "tag = [t]" "(t, a, fs) \<in> set topRows"
    | g t rows where "tag = [g, t]" "(g, rows) \<in> set groupRows" "(t, a, fs) \<in> set rows"
    by (auto simp: allRows_def)
  then show thesis
  proof cases
    case 1 with keys(1,4) that(1) show ?thesis by (fastforce simp: list_all_iff intro: map_of_is_SomeI)
  next
    case 2 with keys(2,3) that(2) show ?thesis by (fastforce simp: list_all_iff intro: map_of_is_SomeI)
  qed
qed

lemma parse_row:
  assumes row: "(tag, a, fs) \<in> set allRows" and parts: "parts = ''v1'' # tag @ map (\<lambda>f. showField f src) fs"
    and ok: "list_all (\<lambda>f. fieldOk f src) fs" and size: "length (joinWith (CHR '':'') parts) \<le> 64"
  shows "ParseCallback (joinWith (CHR '':'') parts) = Inr (fold (\<lambda>f c. copyField f src c) fs (callback a))"
proof -
  have "list_all (\<lambda>p. ascii p \<and> CHR '':'' \<notin> set p) parts"
    using row_tags [OF row] showField_plain by (auto simp: parts list_all_iff ascii_def)
  then have split: "Split (CHR '':'') (joinWith (CHR '':'') parts) = parts" and valid: "utf8_Valid (joinWith (CHR '':'') parts)"
    using parts by (auto simp: list_all_iff intro!: Split_joinWith ascii_utf8 ascii_joinWith)
  have nonempty: "joinWith (CHR '':'') parts \<noteq> []" using parts by (cases "tag @ map (\<lambda>f. showField f src) fs") auto
  from row show ?thesis
  proof (cases rule: allRows_cases)
    case (1 t)
    with readFields_show [OF ok, of "[''v1'', t]" 2 "callback a"] parts split valid size nonempty show ?thesis
      by (simp add: ParseCallback_grammar parseByGrammar_def runRow_def)
  next
    case (2 g t rows)
    with readFields_show [OF ok, of "[''v1'', g, t]" 3 "callback a"] parts split valid size nonempty show ?thesis
      by (simp add: ParseCallback_grammar parseByGrammar_def runRow_def)
  qed
qed

text \<open>
  C24. Printing and parsing are inverse: for every well-formed callback whose text fits Telegram's 64 bytes, the
  parser reads from that text exactly the callback that was printed.
\<close>

theorem callback_roundtrip:
  "wf_callback cb \<Longrightarrow> length (callbackData cb) \<le> MaxCallbackDataBytes \<Longrightarrow> ParseCallback (callbackData cb) = Inr cb"
  using parse_row [OF rowFor_total [of "Action cb"] refl, of cb]
  by (simp add: wf_callback_def callbackData_def MaxCallbackDataBytes_def)

theorem callback_roundtrip_witness:
  "ParseCallback (callbackData ((callback CallbackOrderConfirm)\<lparr>FlowID := 3, ProductID := 12, Quantity := 2, BankAccountID := 7\<rparr>)) =
     Inr ((callback CallbackOrderConfirm)\<lparr>FlowID := 3, ProductID := 12, Quantity := 2, BankAccountID := 7\<rparr>)"
  by (rule callback_roundtrip; code_simp)

text \<open>
  The buttons of the payment-provider screens carry data that begins with \<open>v1:a:q\<close>, but those tags are cases
  of the order switch: whatever follows, the parser rejects such data.
\<close>

theorem provider_buttons_rejected: "ParseCallback (''v1:a:q'' @ rest) = Inl (Peripheral ErrInvalidCallback)"
proof -
  obtain p ps where split: "Split (CHR '':'') rest = p # ps" by (cases "Split (CHR '':'') rest") auto
  then have "Split (CHR '':'') (''v1:a:q'' @ rest) = [''v1'', ''a'', CHR ''q'' # p] @ ps" by simp
  moreover have "map_of adminRows (CHR ''q'' # p) = None"
    by (simp add: adminRows_def)
  ultimately show ?thesis
    by (simp add: ParseCallback_grammar parseByGrammar_def groupRows_def runRow_def invalid_def)
qed

end
