(* ===== verification/Telegram_Client.thy ===== *)
theory Telegram_Client
  imports Payment_Providers Delivery_Service Telegram_Parser
begin

text \<open>
  The two sides of the Telegram connection: the delivery call with the classification of its outcome
  (\<open>telegram/delivery_client.go\<close>), the errors and keyboards of the other calls (\<open>telegram/client.go\<close>), and the
  webhook that receives updates (\<open>httpapi/telegram_webhook.go\<close>). What the network does is an argument.
\<close>

section \<open>Sending a delivery\<close>

record deliveryAPIResponse =
  dar_OK :: bool
  dar_ErrorCode :: int32
  dar_Description :: string
  dar_RetryAfter :: int32
  dar_MessageID :: int64
  dar_Date :: int64
  dar_ChatID :: int64

text \<open>What \<open>Do\<close> gives: no response, before or after the request was written; or a status and a body, if readable.\<close>

datatype exchange = Unwritten | WrittenNoResponse | Response int "string option"

definition deliveryError ::
  "DeliveryResultClass \<Rightarrow> string \<Rightarrow> string \<Rightarrow> int32 \<Rightarrow> int32 \<Rightarrow> duration \<Rightarrow> DeliverySendError" where
  "deliveryError class code summary httpStatus telegramCode retryAfter =
     \<lparr>dse_Class = class, dse_Code = code, dse_Summary = summary, dse_HTTPStatus = httpStatus,
      dse_TelegramErrorCode = telegramCode, dse_RetryAfter = retryAfter\<rparr>"

text \<open>\<open>strings.Contains\<close>\<close>

fun stringContains :: "string \<Rightarrow> string \<Rightarrow> bool" where
  "stringContains [] sub \<longleftrightarrow> sub = []"
| "stringContains (c # s) sub \<longleftrightarrow> stripPrefix sub (c # s) \<noteq> None \<or> stringContains s sub"

definition classifyDeliveryAPIResponse :: "int \<Rightarrow> deliveryAPIResponse \<Rightarrow> DeliverySendError" where
  "classifyDeliveryAPIResponse httpStatus response =
     (let errorCode = (if dar_ErrorCode response = 0 then wrap32 httpStatus else dar_ErrorCode response);
          description = ToLower (dar_Description response);
          status = wrap32 httpStatus in
      if httpStatus = 429 \<or> errorCode = 429 then
        deliveryError DeliveryResultRetryable ''rate_limited'' ''Telegram requested a delayed retry'' status errorCode
          (wrap64 (dar_RetryAfter response * 1000000000))
      else if httpStatus \<ge> 500 \<or> errorCode \<ge> 500 then
        deliveryError DeliveryResultRetryable ''server_error'' ''Telegram returned a temporary server error'' status errorCode 0
      else if stringContains description ''bot was blocked'' \<or> stringContains description ''bot blocked'' then
        deliveryError DeliveryResultPermanent ''bot_blocked'' ''recipient blocked the bot'' status errorCode 0
      else if stringContains description ''chat not found'' then
        deliveryError DeliveryResultPermanent ''chat_not_found'' ''recipient chat was not found'' status errorCode 0
      else if httpStatus = 403 \<or> errorCode = 403 then
        deliveryError DeliveryResultPermanent ''forbidden'' ''Telegram rejected the recipient'' status errorCode 0
      else if httpStatus = 401 \<or> errorCode = 401 then
        deliveryError DeliveryResultPermanent ''unauthorized'' ''Telegram rejected bot authorization'' status errorCode 0
      else if httpStatus = 400 \<or> errorCode = 400 then
        deliveryError DeliveryResultPermanent ''invalid_message'' ''Telegram rejected the delivery message'' status errorCode 0
      else
        deliveryError DeliveryResultAmbiguous ''unclassified_response''
          ''Telegram response did not prove delivery outcome'' status errorCode 0)"

text \<open>
  \<open>readReply\<close> is the JSON reader, \<open>endpointOk\<close> whether \<open>http.NewRequestWithContext\<close> takes the address, \<open>cancelled\<close> the
  state of the context at the start, \<open>clockNow\<close> the time of the answer.
\<close>

definition SendDelivery ::
  "(string \<Rightarrow> deliveryAPIResponse option) \<Rightarrow> bool \<Rightarrow> int64 \<Rightarrow> bool \<Rightarrow> exchange \<Rightarrow> time \<Rightarrow> int64 \<Rightarrow> string \<Rightarrow> SendOutcome" where
  "SendDelivery readReply endpointOk responseLimit cancelled happened clockNow chatID message =
     (if cancelled then SendFailed (deliveryError DeliveryResultRetryable ''cancelled_before_send''
        ''request cancelled before Telegram send'' 0 0 0)
      else if chatID \<le> 0 \<or> message = [] then
        SendFailed (deliveryError DeliveryResultPermanent ''invalid_message'' ''delivery request is invalid'' 0 0 0)
      else if \<not> endpointOk then
        SendFailed (deliveryError DeliveryResultPermanent ''invalid_endpoint'' ''Telegram endpoint is invalid'' 0 0 0)
      else case happened of
        Unwritten \<Rightarrow> SendFailed (deliveryError DeliveryResultRetryable ''connect_failed'' ''Telegram request was not written'' 0 0 0)
      | WrittenNoResponse \<Rightarrow>
          SendFailed (deliveryError DeliveryResultAmbiguous ''transport_after_write'' ''Telegram send outcome is unknown'' 0 0 0)
      | Response status body \<Rightarrow>
          let unverified = SendFailed (deliveryError DeliveryResultAmbiguous ''invalid_response''
                ''Telegram response could not be verified'' (wrap32 status) 0 0) in
          case body of None \<Rightarrow> unverified
          | Some b \<Rightarrow>
              if int (length b) > responseLimit then unverified
              else case readReply b of None \<Rightarrow> unverified
              | Some payload \<Rightarrow>
                  if dar_OK payload then
                    if status < 200 \<or> status \<ge> 300 \<or> dar_MessageID payload \<le> 0 \<or> dar_ChatID payload \<noteq> chatID then
                      SendFailed (deliveryError DeliveryResultAmbiguous ''invalid_success''
                        ''Telegram success evidence is incomplete'' (wrap32 status) (dar_ErrorCode payload) 0)
                    else SendResult \<lparr>dsr_ChatID = dar_ChatID payload, dsr_MessageID = dar_MessageID payload,
                      dsr_SentAt = (if dar_Date payload > 0 then time_Unix (dar_Date payload) else clockNow)\<rparr>
                  else SendFailed (classifyDeliveryAPIResponse status payload))"

text \<open>
  What keeps a delivery from going out twice: only an outcome after which Telegram cannot have taken the message is
  called retryable or permanent, and a result is proof of the message in the right chat.
\<close>

lemma classify_refusal:
  "dse_Class (classifyDeliveryAPIResponse st r) = DeliveryResultRetryable \<Longrightarrow>
   st = 429 \<or> st \<ge> 500 \<or> dar_ErrorCode r = 429 \<or> dar_ErrorCode r \<ge> 500 \<or> (dar_ErrorCode r = 0 \<and> (wrap32 st = 429 \<or> wrap32 st \<ge> 500))"
  by (auto simp: classifyDeliveryAPIResponse_def deliveryError_def Let_def split: if_splits)

text \<open>
  C31. The delivery call never calls a possibly sent message retryable: a retryable or permanent outcome means the request was
  not written, or Telegram answered it and refused; everything else that is not a proof is ambiguous. A result means
  Telegram answered with success for the right chat with a message id.
\<close>

theorem send_outcome_honest:
  "case SendDelivery readReply endpointOk limit cancelled happened clockNow chatID message of
     SendResult res \<Rightarrow> dsr_ChatID res = chatID \<and> 0 < chatID \<and> 0 < dsr_MessageID res \<and>
       (\<exists>status b payload. happened = Response status (Some b) \<and> 200 \<le> status \<and> status < 300 \<and>
          readReply b = Some payload \<and> dar_OK payload \<and> dar_MessageID payload = dsr_MessageID res)
   | SendFailed err \<Rightarrow> dse_Class err = DeliveryResultAmbiguous \<or>
       (cancelled \<or> chatID \<le> 0 \<or> message = [] \<or> \<not> endpointOk \<or> happened = Unwritten) \<or>
       (\<exists>status b payload. happened = Response status (Some b) \<and> readReply b = Some payload \<and> \<not> dar_OK payload)
   | SendUnclassified \<Rightarrow> False"
  by (auto simp: SendDelivery_def deliveryError_def Let_def split: SendOutcome.splits exchange.splits option.splits)

theorem send_outcome_honest_witness:
  "\<exists>err. SendDelivery (\<lambda>_. None) True 1024 False WrittenNoResponse 0 42 ''paid'' = SendFailed err \<and>
     dse_Class err = DeliveryResultAmbiguous"
  using send_outcome_honest [where readReply = "\<lambda>_. None" and endpointOk = True and limit = 1024 and cancelled = False
    and happened = WrittenNoResponse and clockNow = 0 and chatID = 42 and message = "''paid''"]
  by (simp add: SendDelivery_def deliveryError_def)

section \<open>Other calls\<close>

record Button =
  btn_Text :: string
  btn_Data :: string
  btn_URL :: string

type_synonym Keyboard = "Button list list"

text \<open>Errors of the client library, as far as \<open>classifyAPIError\<close> tells them apart.\<close>

datatype api_failure =
  TooManyRequests int | DeadlineExceeded | Canceled | ResponseTooLarge | Unauthorized | Forbidden | BadRequest | OtherFailure

record APIError =
  ae_Kind :: string
  ae_RetryAfter :: duration

fun classifyAPIError :: "api_failure \<Rightarrow> APIError" where
  "classifyAPIError (TooManyRequests seconds) =
     \<lparr>ae_Kind = ''rate_limited'', ae_RetryAfter = wrap64 (seconds * 1000000000)\<rparr>"
| "classifyAPIError DeadlineExceeded = \<lparr>ae_Kind = ''timeout'', ae_RetryAfter = 0\<rparr>"
| "classifyAPIError Canceled = \<lparr>ae_Kind = ''cancelled'', ae_RetryAfter = 0\<rparr>"
| "classifyAPIError ResponseTooLarge = \<lparr>ae_Kind = ''response_too_large'', ae_RetryAfter = 0\<rparr>"
| "classifyAPIError Unauthorized = \<lparr>ae_Kind = ''unauthorized'', ae_RetryAfter = 0\<rparr>"
| "classifyAPIError Forbidden = \<lparr>ae_Kind = ''forbidden'', ae_RetryAfter = 0\<rparr>"
| "classifyAPIError BadRequest = \<lparr>ae_Kind = ''bad_request'', ae_RetryAfter = 0\<rparr>"
| "classifyAPIError OtherFailure = \<lparr>ae_Kind = ''invalid_response'', ae_RetryAfter = 0\<rparr>"

section \<open>The webhook of updates\<close>

definition validSecret :: "string \<Rightarrow> string \<Rightarrow> bool" where
  "validSecret provided expected \<longleftrightarrow>
     provided \<noteq> [] \<and> expected \<noteq> [] \<and> length provided = length expected \<and> provided = expected"

text \<open>What the JSON decoder makes of the body: an update, too many bytes, or something malformed or with a tail.\<close>

datatype 'u decoded = Decoded 'u | BodyTooLarge | Malformed

definition TelegramWebhook_Handler ::
  "(string \<Rightarrow> string option) \<Rightarrow> string \<Rightarrow> ('u \<Rightarrow> string \<Rightarrow> unit dbtx) \<Rightarrow> string \<Rightarrow> (string \<Rightarrow> string) \<Rightarrow>
   'u decoded \<Rightarrow> http_response dbtx" where
  "TelegramWebhook_Handler mediaType secret process requestID headers body =
     (if \<not> validSecret (headers ''X-Telegram-Bot-Api-Secret-Token'') secret
      then returnE (errorResponse 401 ''unauthorized'')
      else if (case mediaType (headers ''Content-Type'') of None \<Rightarrow> True
               | Some t \<Rightarrow> \<not> equalFoldASCII t ''application/json'')
      then returnE (errorResponse 415 ''application/json required'')
      else case body of
        BodyTooLarge \<Rightarrow> returnE (errorResponse 413 ''request body too large'')
      | Malformed \<Rightarrow> returnE (errorResponse 400 ''malformed JSON'')
      | Decoded update \<Rightarrow>
          bindE (attempt (process update requestID)) (\<lambda>processed. case processed of
            Inl _ \<Rightarrow> returnE (errorResponse 500 ''update processing failed'')
          | Inr _ \<Rightarrow> returnE \<lparr>hs_status = 200, hs_headers = [(''Content-Type'', ''application/json; charset=utf-8'')],
              hs_body = json_Marshal [(''status'', JText ''ok'')]\<rparr>))"

text \<open>Without the secret nothing happens.\<close>

lemma webhook_needs_secret:
  assumes "TelegramWebhook_Handler mediaType secret process requestID headers body s = (r, s')" "s' \<noteq> s"
  shows "headers ''X-Telegram-Bot-Api-Secret-Token'' = secret \<and> secret \<noteq> []"
  using assms by (auto simp: TelegramWebhook_Handler_def validSecret_def split: if_splits)

end
