(* ===== verification/Review_Desk.thy ===== *)
theory Review_Desk
  imports Stock_Admin Delivery_Service Payment_Acceptance Reconciliation
begin

text \<open>
  The administrators' view of what needs a decision: the listings of delivery jobs and payment review cases with
  the services in front of them (\<open>app/delivery_admin_service.go\<close>, \<open>app/payment_admin_service.go\<close>,
  \<open>postgres/delivery_admin_store.go\<close>, \<open>postgres/payment_admin_store.go\<close>). The rows carry no \<open>updated_at\<close> and no
  creation time of review cases, so the order of a listing that sorts by them is the argument \<open>newest\<close> or \<open>oldest\<close>.
\<close>

section \<open>Deliveries\<close>

definition reviewStatus :: "DeliveryJobStatus \<Rightarrow> bool" where
  "reviewStatus st \<longleftrightarrow> st \<in> {DeliveryJobPending, DeliveryJobProcessing, DeliveryJobRetryableFailed,
     DeliveryJobAmbiguous, DeliveryJobManualReview, DeliveryJobPermanentFailed}"

definition deliveryJobRows :: "db \<Rightarrow> job_row list" where
  "deliveryJobRows s = filter (\<lambda>j. job_event_type j = deliveryEvent) (outbox_events s)"

definition CountDeliveryReviewJobs :: "int64 dbtx" where
  "CountDeliveryReviewJobs = selectCount (\<lambda>s. filter (\<lambda>j. reviewStatus (job_status j)) (deliveryJobRows s))"

text \<open>The jobs with the item of their order.\<close>

definition jobItems :: "(job_row \<Rightarrow> bool) \<Rightarrow> db \<Rightarrow> (job_row \<times> order_item_row) list" where
  "jobItems p s = [(j, i). j \<leftarrow> deliveryJobRows s, i \<leftarrow> order_items s,
     job_delivery_order_id j = Some (oit_order_id i) \<and> p j]"

definition ListDeliveryReviewJobs ::
  "((job_row \<times> order_item_row) list \<Rightarrow> (job_row \<times> order_item_row) list) \<Rightarrow> int32 \<Rightarrow> int32 \<Rightarrow>
   (job_row \<times> order_item_row) list dbtx" where
  "ListDeliveryReviewJobs newest page_offset page_limit =
     selectPage page_offset page_limit (\<lambda>s. newest (jobItems (\<lambda>j. reviewStatus (job_status j)) s))"

definition GetDeliveryReviewJob :: "int64 \<Rightarrow> (job_row \<times> order_item_row) dbtx" where
  "GetDeliveryReviewJob jid = sqlSelectOne (jobItems (\<lambda>j. job_id j = jid))"

definition ListDeliveryAttemptEvents :: "int64 \<Rightarrow> attempt_row list dbtx" where
  "ListDeliveryAttemptEvents jid = sqlSelect (\<lambda>s.
     sort_key (\<lambda>a. - att_attempt_number a) (sort_key (\<lambda>a. - att_id a)
       (filter (\<lambda>a. att_delivery_job_id a = Some jid) (delivery_attempts s))))"

text \<open>The groups of \<open>GROUP BY status\<close>; their order does not matter, the store puts them into a map.\<close>

definition CountDeliveryJobsByStatus :: "(string \<times> int64) list dbtx" where
  "CountDeliveryJobsByStatus = sqlSelect (\<lambda>s.
     map (\<lambda>st. (deliveryStatusText st, int (length (filter (\<lambda>j. job_status j = st) (deliveryJobRows s)))))
       (remdups (map job_status (deliveryJobRows s))))"

record DeliveryAttemptView =
  dav_Number :: int32
  dav_Status :: string
  dav_HTTPStatus :: int32
  dav_TelegramErrorCode :: int32
  dav_RetryAfterSeconds :: int32
  dav_TelegramChatID :: int64
  dav_TelegramMessageID :: int64
  dav_ErrorClass :: string
  dav_ErrorCode :: string
  dav_ErrorDetail :: string
  dav_StartedAt :: time
  dav_FinishedAt :: time

record DeliveryReviewDetail =
  drd_Item :: DeliveryReviewItem
  drd_AttemptsHistory :: "DeliveryAttemptView list"

definition attemptView :: "attempt_row \<Rightarrow> DeliveryAttemptView" where
  "attemptView a = \<lparr>dav_Number = att_attempt_number a, dav_Status = att_status a,
     dav_HTTPStatus = int8Or (att_http_status a), dav_TelegramErrorCode = int8Or (att_telegram_error_code a),
     dav_RetryAfterSeconds = int8Or (att_retry_after_seconds a), dav_TelegramChatID = int8Or (att_telegram_chat_id a),
     dav_TelegramMessageID = int8Or (att_telegram_message_id a), dav_ErrorClass = textOr (att_error_class a),
     dav_ErrorCode = textOr (att_error_code a), dav_ErrorDetail = textOr (att_error_detail a),
     dav_StartedAt = att_started_at a, dav_FinishedAt = int8Or (att_finished_at a)\<rparr>"

definition reviewItem :: "job_row \<times> order_item_row \<Rightarrow> DeliveryReviewItem" where
  "reviewItem row = deliveryReviewFromJob (fst row) (oit_product_name (snd row)) (oit_quantity (snd row))"

definition ListDeliveryReviews ::
  "((job_row \<times> order_item_row) list \<Rightarrow> (job_row \<times> order_item_row) list) \<Rightarrow> int64 \<Rightarrow> int32 \<Rightarrow> int32 \<Rightarrow>
   (DeliveryReviewItem list \<times> int64) dbtx" where
  "ListDeliveryReviews newest adminTelegramID off limit =
     bindE (authorizePaymentAdmin adminTelegramID) (\<lambda>_.
     bindE CountDeliveryReviewJobs (\<lambda>totalCount.
     bindE (ListDeliveryReviewJobs newest off limit) (\<lambda>rows.
     returnE (map reviewItem rows, totalCount))))"

definition GetDeliveryReview :: "int64 \<Rightarrow> int64 \<Rightarrow> DeliveryReviewDetail dbtx" where
  "GetDeliveryReview adminTelegramID jobID =
     bindE (authorizePaymentAdmin adminTelegramID) (\<lambda>_.
     bindE (noRows ErrNotFound (GetDeliveryReviewJob jobID)) (\<lambda>row.
     bindE (ListDeliveryAttemptEvents jobID) (\<lambda>attempts.
     returnE \<lparr>drd_Item = reviewItem row, drd_AttemptsHistory = map attemptView attempts\<rparr>)))"

definition ReconcileDeliveryForAdmin :: "int64 \<Rightarrow> time \<Rightarrow> DeliveryReconciliation dbtx" where
  "ReconcileDeliveryForAdmin adminTelegramID staleBefore =
     bindE (authorizePaymentAdmin adminTelegramID) (\<lambda>_. CountDeliveryReconciliationAnomalies staleBefore)"

definition DeliveryQueueDepthForAdmin :: "int64 \<Rightarrow> (string \<rightharpoonup> int64) dbtx" where
  "DeliveryQueueDepthForAdmin adminTelegramID =
     bindE (authorizePaymentAdmin adminTelegramID) (\<lambda>_.
     bindE CountDeliveryJobsByStatus (\<lambda>rows. returnE (map_of rows)))"

definition DeliveryAdminService_Reconcile :: "duration \<Rightarrow> time \<Rightarrow> int64 \<Rightarrow> DeliveryReconciliation dbtx" where
  "DeliveryAdminService_Reconcile processingLease now adminTelegramID =
     (if adminTelegramID \<le> 0 \<or> processingLease \<le> 0 then throwE ErrInvalidInput
      else ReconcileDeliveryForAdmin adminTelegramID (now - processingLease))"

text \<open>With metrics set, the list is shown only if the queue could be measured too.\<close>

definition DeliveryAdminService_List ::
  "((job_row \<times> order_item_row) list \<Rightarrow> (job_row \<times> order_item_row) list) \<Rightarrow> bool \<Rightarrow> int \<Rightarrow> int64 \<Rightarrow> int \<Rightarrow>
   (DeliveryReviewItem list \<times> PageInfo) dbtx" where
  "DeliveryAdminService_List newest metrics pageSize adminTelegramID page =
     (if adminTelegramID \<le> 0 \<or> page < 0 then throwE ErrInvalidInput else
      bindE (ListDeliveryReviews newest adminTelegramID (wrap32 (wrap64 (page * pageSize))) (wrap32 pageSize)) (\<lambda>(items, totalCount).
      bindE (if metrics then bindE (DeliveryQueueDepthForAdmin adminTelegramID) (\<lambda>_. returnE ()) else returnE ()) (\<lambda>_.
      returnE (items, pageInfo page pageSize totalCount))))"

definition DeliveryAdminService_Get :: "int64 \<Rightarrow> int64 \<Rightarrow> DeliveryReviewDetail dbtx" where
  "DeliveryAdminService_Get adminTelegramID jobID =
     (if adminTelegramID \<le> 0 \<or> jobID \<le> 0 then throwE ErrInvalidInput
      else mapErrE (\<lambda>e. if e = ErrNotFound then ErrDeliveryNotFound else e) (GetDeliveryReview adminTelegramID jobID))"

section \<open>Payment reviews\<close>

record PaymentReviewCase =
  prc_ID :: int64
  prc_Provider :: string
  prc_Environment :: string
  prc_Source :: string
  prc_MaskedTransactionID :: string
  prc_MaskedDestinationAccount :: string
  prc_ProviderAccountMappingID :: int64
  prc_Reference :: string
  prc_Amount :: Money
  prc_Currency :: string
  prc_OccurredAt :: time
  prc_OrderID :: int64
  prc_TopupID :: int64
  prc_Reason :: string
  prc_Status :: string

definition maskTransactionID :: "string \<Rightarrow> string" where
  "maskTransactionID value =
     (if length value \<le> 6 then ''***'' else take 2 value @ ''***'' @ drop (length value - 4) value)"

definition mapPaymentReview :: "review_row \<Rightarrow> PaymentReviewCase" where
  "mapPaymentReview row = \<lparr>prc_ID = rev_id row, prc_Provider = rev_provider row,
     prc_Environment = rev_payment_environment row, prc_Source = rev_event_source row,
     prc_MaskedTransactionID = maskTransactionID (textOr (rev_provider_transaction_id row)),
     prc_MaskedDestinationAccount = maskTransactionID (textOr (rev_destination_account_identity row)),
     prc_ProviderAccountMappingID = int8Or (rev_provider_account_mapping_id row),
     prc_Reference = rev_payment_reference row, prc_Amount = rev_amount_vnd row, prc_Currency = rev_currency row,
     prc_OccurredAt = rev_occurred_at row, prc_OrderID = int8Or (rev_order_id row),
     prc_TopupID = int8Or (rev_wallet_topup_id row), prc_Reason = rev_reason row, prc_Status = rev_status row\<rparr>"

definition openReviews :: "db \<Rightarrow> review_row list" where
  "openReviews s = filter (\<lambda>r. rev_status r = ''open'' \<or> rev_status r = ''held'') (payment_reviews s)"

definition CountOpenPaymentReviews :: "int64 dbtx" where
  "CountOpenPaymentReviews = selectCount openReviews"

definition ListOpenPaymentReviews ::
  "(review_row list \<Rightarrow> review_row list) \<Rightarrow> int32 \<Rightarrow> int32 \<Rightarrow> review_row list dbtx" where
  "ListOpenPaymentReviews oldest page_offset page_limit =
     selectPage page_offset page_limit (\<lambda>s. oldest (openReviews s))"

definition ListPaymentReviews ::
  "(review_row list \<Rightarrow> review_row list) \<Rightarrow> int64 \<Rightarrow> int32 \<Rightarrow> int32 \<Rightarrow> (PaymentReviewCase list \<times> int64) dbtx" where
  "ListPaymentReviews oldest adminTelegramID off limit =
     bindE (authorizeAdmin adminTelegramID) (\<lambda>_.
     bindE CountOpenPaymentReviews (\<lambda>totalCount.
     bindE (ListOpenPaymentReviews oldest off limit) (\<lambda>rows.
     returnE (map mapPaymentReview rows, totalCount))))"

definition PaymentAdminService_ManualConfirm ::
  "(int64 \<Rightarrow> bool) \<Rightarrow> duration \<Rightarrow> int32 \<Rightarrow> time \<Rightarrow> ManualPaymentCommand \<Rightarrow> PaymentAcceptanceResult dbtx" where
  "PaymentAdminService_ManualConfirm skip reservationTTL deliveryMaxAttempts now command0 =
     (let command = command0\<lparr>mpc_ProviderTransactionID := TrimSpace (mpc_ProviderTransactionID command0),
            mpc_Reference := TrimSpace (mpc_Reference command0), mpc_Currency := TrimSpace (mpc_Currency command0),
            mpc_Note := TrimSpace (mpc_Note command0)\<rparr> in
      if mpc_AdminTelegramID command \<le> 0 \<or> ses_id (mpc_Session command) \<le> 0 \<or> ses_version (mpc_Session command) \<le> 0 \<or>
         mpc_ProviderTransactionID command = [] \<or> mpc_Reference command = [] \<or> mpc_Amount command \<le> 0 \<or>
         mpc_Currency command = [] \<or> mpc_OccurredAt command = 0 \<or> UpdateID (mpc_Meta command) \<le> 0 \<or> reservationTTL \<le> 0
      then throwE ErrInvalidInput
      else ManualAcceptPayment skip now command now reservationTTL [deliveryMaxAttempts])"

definition PaymentAdminService_ListReviews ::
  "(review_row list \<Rightarrow> review_row list) \<Rightarrow> int \<Rightarrow> int64 \<Rightarrow> int \<Rightarrow> (PaymentReviewCase list \<times> PageInfo) dbtx" where
  "PaymentAdminService_ListReviews oldest pageSize adminTelegramID page =
     (if adminTelegramID \<le> 0 \<or> page < 0 then throwE ErrInvalidInput else
      bindE (ListPaymentReviews oldest adminTelegramID (wrap32 (wrap64 (page * pageSize))) (wrap32 pageSize)) (\<lambda>(items, totalCount).
      returnE (items, pageInfo page pageSize totalCount)))"

definition PaymentAdminService_ResolveReview ::
  "time \<Rightarrow> ResolvePaymentReviewCommand \<Rightarrow> PaymentReviewCase dbtx" where
  "PaymentAdminService_ResolveReview now command0 =
     (let command = command0\<lparr>rpc_Note := TrimSpace (rpc_Note command0)\<rparr> in
      if rpc_AdminTelegramID command \<le> 0 \<or> rpc_ReviewID command \<le> 0 \<or> ses_id (rpc_Session command) \<le> 0 \<or>
         ses_version (rpc_Session command) \<le> 0 \<or> rpc_Note command = [] \<or> UpdateID (rpc_Meta command) \<le> 0 \<or>
         (rpc_Status command \<noteq> ''held'' \<and> rpc_Status command \<noteq> ''resolved'')
      then throwE ErrInvalidInput
      else bindE (ResolvePaymentReview now command) (\<lambda>row. returnE (mapPaymentReview row)))"

section \<open>The listings only read\<close>

lemma listings_read_only:
  "always I (DeliveryAdminService_List newest mt n a p)" "always I (DeliveryAdminService_Get a j)"
  "always I (DeliveryAdminService_Reconcile l now a)" "always I (PaymentAdminService_ListReviews oldest n a p)"
  unfolding DeliveryAdminService_List_def ListDeliveryReviews_def CountDeliveryReviewJobs_def selectCount_def
    ListDeliveryReviewJobs_def selectPage_def DeliveryQueueDepthForAdmin_def CountDeliveryJobsByStatus_def
    DeliveryAdminService_Get_def GetDeliveryReview_def GetDeliveryReviewJob_def ListDeliveryAttemptEvents_def
    DeliveryAdminService_Reconcile_def ReconcileDeliveryForAdmin_def CountDeliveryReconciliationAnomalies_def
    PaymentAdminService_ListReviews_def ListPaymentReviews_def CountOpenPaymentReviews_def ListOpenPaymentReviews_def
  by (intro always_intros)+

text \<open>The decisions are steps of the shop.\<close>

lemma decisions_are_steps:
  "PaymentAdminService_ManualConfirm skip ttl n now mc s = (r, s') \<Longrightarrow> s' = s \<or> shop_step s s'"
  "PaymentAdminService_ResolveReview now rc s = (r2, s') \<Longrightarrow> s' = s \<or> shop_step s s'"
  by (auto simp: PaymentAdminService_ManualConfirm_def PaymentAdminService_ResolveReview_def Let_def bindE_app
      intro: sh_manual sh_resolve split: if_splits prod.splits sum.splits)

text \<open>A masked identifier shows at most six of its characters.\<close>

lemma maskTransactionID_hides:
  "\<exists>a b. maskTransactionID v = a @ ''***'' @ b \<and> length a + length b \<le> 6"
  by (rule exI [where x = "if length v \<le> 6 then [] else take 2 v"],
      rule exI [where x = "if length v \<le> 6 then [] else drop (length v - 4) v"]) (auto simp: maskTransactionID_def)

end
