(* ===== verification/Ciphers.thy ===== *)
theory Ciphers
  imports Stock_Admin Delivery_Service
begin

text \<open>
  The ciphers of \<open>internal/inventorycrypto/cipher.go\<close> and \<open>internal/bankcrypto/cipher.go\<close>: key derivation per
  version, the associated data that ties a ciphertext to its product or bank, the keyed fingerprints that find
  duplicates, and the guards around them. AES-GCM, HKDF, HMAC and the random source are arguments.
\<close>

section \<open>Bytes of numbers\<close>

text \<open>\<open>binary.BigEndian.PutUint32\<close> and \<open>PutUint64\<close> of a converted signed integer.\<close>

fun bigEndian :: "nat \<Rightarrow> int \<Rightarrow> string" where
  "bigEndian 0 v = []"
| "bigEndian (Suc n) v = bigEndian n (v div 256) @ [char_of (nat (v mod 256))]"

definition PutUint32 :: "int32 \<Rightarrow> string" where
  "PutUint32 v = bigEndian 4 (v mod 2 ^ 32)"

definition PutUint64 :: "int64 \<Rightarrow> string" where
  "PutUint64 v = bigEndian 8 (v mod 2 ^ 64)"

lemma length_bigEndian [simp]: "length (bigEndian n v) = n"
  by (induction n arbitrary: v) simp_all

lemma bigEndian_inj:
  "bigEndian n v = bigEndian n w \<Longrightarrow> 0 \<le> v \<Longrightarrow> 0 \<le> w \<Longrightarrow> v < 256 ^ n \<Longrightarrow> w < 256 ^ n \<Longrightarrow> v = w"
proof (induction n arbitrary: v w)
  case (Suc n)
  then have "v div 256 = w div 256"
    by (auto intro!: Suc.IH simp: div_less_iff_less_mult)
  moreover have "(char_of (nat (v mod 256)) :: char) = char_of (nat (w mod 256))"
    using Suc.prems(1) by (simp only: bigEndian.simps append1_eq_conv)
  then have "nat (v mod 256) mod 256 = nat (w mod 256) mod 256" by (metis of_char_of)
  then have "v mod 256 = w mod 256" by simp
  ultimately show ?case by (metis div_mult_mod_eq)
qed simp

lemma PutUint32_inj: "is_int32 v \<Longrightarrow> is_int32 w \<Longrightarrow> PutUint32 v = PutUint32 w \<Longrightarrow> v = w"
proof -
  assume int: "is_int32 v" "is_int32 w" and "PutUint32 v = PutUint32 w"
  then have "v mod 2 ^ 32 = w mod 2 ^ 32"
    unfolding PutUint32_def by (intro bigEndian_inj [of 4]) simp_all
  then have "(v + 2 ^ 31) mod 2 ^ 32 = (w + 2 ^ 31) mod 2 ^ 32" by (rule mod_add_cong) simp
  then show "v = w" using int by (simp add: is_int32_def MaxInt32_def)
qed

lemma PutUint64_inj: "is_int64 v \<Longrightarrow> is_int64 w \<Longrightarrow> PutUint64 v = PutUint64 w \<Longrightarrow> v = w"
proof -
  assume int: "is_int64 v" "is_int64 w" and "PutUint64 v = PutUint64 w"
  then have "v mod 2 ^ 64 = w mod 2 ^ 64"
    unfolding PutUint64_def by (intro bigEndian_inj [of 8]) simp_all
  then have "(v + 2 ^ 63) mod 2 ^ 64 = (w + 2 ^ 63) mod 2 ^ 64" by (rule mod_add_cong) simp
  then show "v = w" using int by (simp add: is_int64_def MinInt64_def MaxInt64_def)
qed

lemma length_PutUint [simp]: "length (PutUint32 v) = 4" "length (PutUint64 w) = 8"
  by (simp_all add: PutUint32_def PutUint64_def)

section \<open>Keys\<close>

text \<open>The standard library: \<open>gcm.Seal\<close>, \<open>gcm.Open\<close>, \<open>hkdf.Key\<close> and \<open>hmac\<close>, all on SHA-256 and AES.\<close>

record primitives =
  gcm_Seal :: "string \<Rightarrow> string \<Rightarrow> string \<Rightarrow> string \<Rightarrow> string" \<comment> \<open>key, nonce, plaintext, associated data\<close>
  gcm_Open :: "string \<Rightarrow> string \<Rightarrow> string \<Rightarrow> string \<Rightarrow> string option"
  hkdf_Key :: "string \<Rightarrow> string \<Rightarrow> nat \<Rightarrow> string option"
  hmac_Sum :: "string \<Rightarrow> string \<Rightarrow> string"

record derivedKey =
  dk_encryption :: string
  dk_fingerprint :: string

record Cipher =
  ci_keys :: "(int32 \<times> derivedKey) list"
  ci_currentVersion :: int32

definition masterKeyBytes :: nat where "masterKeyBytes = 32"
definition nonceBytes :: nat where "nonceBytes = 12"

definition FormatAES256GCMV1 :: string where "FormatAES256GCMV1 = ''aes-256-gcm-v1''"

text \<open>\<open>newGCM\<close>: \<open>aes.NewCipher\<close> takes keys of 16, 24 and 32 bytes.\<close>

definition newGCM :: "string \<Rightarrow> bool" where
  "newGCM key \<longleftrightarrow> length key \<in> {16, 24, 32}"

definition deriveKey :: "primitives \<Rightarrow> string \<Rightarrow> string \<Rightarrow> int32 \<times> string \<Rightarrow> (int32 \<times> derivedKey) option" where
  "deriveKey lib encryptionInfo fingerprintInfo vm =
     (case vm of (version, master) \<Rightarrow>
        if version \<le> 0 \<or> length master \<noteq> masterKeyBytes then None
        else case hkdf_Key lib master encryptionInfo masterKeyBytes of None \<Rightarrow> None | Some encryptionKey \<Rightarrow>
          case hkdf_Key lib master fingerprintInfo masterKeyBytes of None \<Rightarrow> None | Some fingerprintKey \<Rightarrow>
            Some (version, \<lparr>dk_encryption = encryptionKey, dk_fingerprint = fingerprintKey\<rparr>))"

text \<open>
  \<open>newWithRandom\<close> of both packages. \<open>masterKeys\<close> lists the entries of the Go map; any bad entry gives the same
  error, so the order of the iteration does not show.
\<close>

definition newWithRandom ::
  "primitives \<Rightarrow> string \<Rightarrow> string \<Rightarrow> error \<Rightarrow> error \<Rightarrow> (int32 \<times> string) list \<Rightarrow> int32 \<Rightarrow> error + Cipher" where
  "newWithRandom lib encryptionInfo fingerprintInfo failed unknown masterKeys currentVersion =
     (if currentVersion \<le> 0 \<or> masterKeys = [] then Inl failed
      else if list_ex (\<lambda>vm. deriveKey lib encryptionInfo fingerprintInfo vm = None) masterKeys then Inl failed
      else let keys = map (\<lambda>vm. the (deriveKey lib encryptionInfo fingerprintInfo vm)) masterKeys in
        if map_of keys currentVersion = None then Inl unknown
        else Inr \<lparr>ci_keys = keys, ci_currentVersion = currentVersion\<rparr>)"

definition inventory_NewKeyring :: "primitives \<Rightarrow> (int32 \<times> string) list \<Rightarrow> int32 \<Rightarrow> error + Cipher" where
  "inventory_NewKeyring lib masterKeys currentVersion =
     newWithRandom lib ''telegram-shop/inventory/encryption/v1'' ''telegram-shop/inventory/fingerprint/v1''
       (Peripheral ErrEncryptionFailed) (Peripheral ErrUnknownKeyVersion) masterKeys currentVersion"

definition inventory_New :: "primitives \<Rightarrow> string \<Rightarrow> int32 \<Rightarrow> error + Cipher" where
  "inventory_New lib masterKey keyVersion = inventory_NewKeyring lib [(keyVersion, masterKey)] keyVersion"

definition bank_NewKeyring :: "primitives \<Rightarrow> (int32 \<times> string) list \<Rightarrow> int32 \<Rightarrow> error + Cipher" where
  "bank_NewKeyring lib masterKeys currentVersion =
     newWithRandom lib ''telegram-shop/bank/encryption/v1'' ''telegram-shop/bank/fingerprint/v1''
       (Peripheral ErrBankEncryptionFailed) (Peripheral ErrUnknownBankKeyVersion) masterKeys currentVersion"

definition bank_New :: "primitives \<Rightarrow> string \<Rightarrow> int32 \<Rightarrow> error + Cipher" where
  "bank_New lib masterKey keyVersion = bank_NewKeyring lib [(keyVersion, masterKey)] keyVersion"

section \<open>Inventory payloads\<close>

definition inventory_associatedData :: "int32 \<Rightarrow> int64 \<Rightarrow> string" where
  "inventory_associatedData keyVersion productID =
     ''telegram-shop/inventory/aad/v1'' @ [CHR 0x00] @ PutUint32 keyVersion @ PutUint64 productID"

text \<open>What \<open>keyedFingerprint\<close> writes into the HMAC.\<close>

definition fingerprintInput :: "int64 \<Rightarrow> string \<Rightarrow> string" where
  "fingerprintInput productID plaintext =
     ''telegram-shop/inventory/fingerprint-input/v1'' @ [CHR 0x00] @ PutUint64 productID @
     PutUint64 (int (length plaintext)) @ plaintext"

definition keyedFingerprint :: "primitives \<Rightarrow> string \<Rightarrow> int64 \<Rightarrow> string \<Rightarrow> string" where
  "keyedFingerprint lib key productID plaintext = hmac_Sum lib key (fingerprintInput productID plaintext)"

text \<open>\<open>ctxErr\<close> is \<open>ctx.Err()\<close>, \<open>random\<close> what \<open>io.ReadFull\<close> gets from the random source.\<close>

definition inventory_Protect ::
  "primitives \<Rightarrow> error option \<Rightarrow> string option \<Rightarrow> Cipher \<Rightarrow> int64 \<Rightarrow> string \<Rightarrow> error + EncryptedInventoryPayload" where
  "inventory_Protect lib ctxErr random c productID plaintext =
     (case ctxErr of Some e \<Rightarrow> Inl e | None \<Rightarrow>
      if productID \<le> 0 \<or> plaintext = [] then Inl ErrInvalidInventoryPayload
      else case map_of (ci_keys c) (ci_currentVersion c) of None \<Rightarrow> Inl (Peripheral ErrUnknownKeyVersion)
      | Some key \<Rightarrow>
          if \<not> newGCM (dk_encryption key) then Inl (Peripheral ErrEncryptionFailed)
          else case random of None \<Rightarrow> Inl (Peripheral ErrEncryptionFailed)
          | Some nonce \<Rightarrow> Inr \<lparr>eip_Ciphertext = gcm_Seal lib (dk_encryption key) nonce plaintext
                (inventory_associatedData (ci_currentVersion c) productID), eip_Nonce = nonce,
              eip_Fingerprint = keyedFingerprint lib (dk_fingerprint key) productID plaintext,
              eip_KeyVersion = ci_currentVersion c, eip_Format = FormatAES256GCMV1\<rparr>)"

definition inventory_Decrypt ::
  "primitives \<Rightarrow> error option \<Rightarrow> Cipher \<Rightarrow> int64 \<Rightarrow> EncryptedInventoryPayload \<Rightarrow> error + string" where
  "inventory_Decrypt lib ctxErr c productID payload =
     (case ctxErr of Some e \<Rightarrow> Inl e | None \<Rightarrow>
      if productID \<le> 0 \<or> eip_Format payload \<noteq> FormatAES256GCMV1 \<or> length (eip_Nonce payload) \<noteq> nonceBytes \<or>
         length (eip_Ciphertext payload) < 16 then Inl (Peripheral ErrDecryptionFailed)
      else case map_of (ci_keys c) (eip_KeyVersion payload) of None \<Rightarrow> Inl (Peripheral ErrUnknownKeyVersion)
      | Some key \<Rightarrow>
          if \<not> newGCM (dk_encryption key) then Inl (Peripheral ErrDecryptionFailed)
          else case gcm_Open lib (dk_encryption key) (eip_Nonce payload) (eip_Ciphertext payload)
              (inventory_associatedData (eip_KeyVersion payload) productID) of
            None \<Rightarrow> Inl (Peripheral ErrDecryptionFailed)
          | Some plaintext \<Rightarrow> Inr plaintext)"

section \<open>Bank account numbers\<close>

definition digitsOnly :: "string \<Rightarrow> bool" where
  "digitsOnly value \<longleftrightarrow> list_all isDigitChar value"

definition validBankBIN :: "string \<Rightarrow> bool" where
  "validBankBIN value \<longleftrightarrow> length value = 6 \<and> digitsOnly value"

definition validAccountNumber :: "string \<Rightarrow> bool" where
  "validAccountNumber value \<longleftrightarrow> length value \<ge> 4 \<and> length value \<le> 34 \<and> digitsOnly value"

text \<open>The loop of \<open>decimalVersion\<close>: digits from the right until nothing is left; nothing for a negative number.\<close>

function decimalDigits :: "int32 \<Rightarrow> string" where
  "decimalDigits value = (if value > 0 then decimalDigits (value div 10) @ [char_of (nat (48 + value mod 10))] else [])"
  by auto
termination by (relation "measure nat") auto

declare decimalDigits.simps [simp del]

definition decimalVersion :: "int32 \<Rightarrow> string" where
  "decimalVersion value = (if value = 0 then ''0'' else decimalDigits value)"

definition bank_associatedData :: "int32 \<Rightarrow> string \<Rightarrow> string" where
  "bank_associatedData version bankBIN = PutUint32 version @ bankBIN"

definition bankFingerprintInput :: "string \<Rightarrow> string \<Rightarrow> string" where
  "bankFingerprintInput bankBIN accountNumber =
     ''telegram-shop/bank/fingerprint-input/v1'' @ [CHR 0x00] @ bankBIN @ [CHR 0x00] @ accountNumber"

definition bank_fingerprint :: "primitives \<Rightarrow> string \<Rightarrow> string \<Rightarrow> string \<Rightarrow> string" where
  "bank_fingerprint lib key bankBIN accountNumber = hmac_Sum lib key (bankFingerprintInput bankBIN accountNumber)"

definition bank_Protect ::
  "primitives \<Rightarrow> bool \<Rightarrow> string option \<Rightarrow> Cipher \<Rightarrow> string \<Rightarrow> string \<Rightarrow> error + ProtectedNumber" where
  "bank_Protect lib cancelled random c bankBIN accountNumber =
     (if cancelled \<or> \<not> validBankBIN bankBIN \<or> \<not> validAccountNumber accountNumber
      then Inl (Peripheral ErrBankEncryptionFailed)
      else case map_of (ci_keys c) (ci_currentVersion c) of None \<Rightarrow> Inl (Peripheral ErrUnknownBankKeyVersion)
      | Some key \<Rightarrow>
          if \<not> newGCM (dk_encryption key) then Inl (Peripheral ErrBankEncryptionFailed)
          else case random of None \<Rightarrow> Inl (Peripheral ErrBankEncryptionFailed)
          | Some nonce \<Rightarrow> Inr \<lparr>pn_Ciphertext = gcm_Seal lib (dk_encryption key) nonce accountNumber
                (bank_associatedData (ci_currentVersion c) bankBIN), pn_Nonce = nonce,
              pn_Fingerprint = bank_fingerprint lib (dk_fingerprint key) bankBIN accountNumber,
              pn_KeyVersion = ci_currentVersion c, pn_KeyID = ''bank-v'' @ decimalVersion (ci_currentVersion c),
              pn_Format = FormatAES256GCMV1\<rparr>)"

definition bank_Decrypt :: "primitives \<Rightarrow> bool \<Rightarrow> Cipher \<Rightarrow> string \<Rightarrow> ProtectedNumber \<Rightarrow> error + string" where
  "bank_Decrypt lib cancelled c bankBIN protected =
     (if cancelled \<or> \<not> validBankBIN bankBIN \<or> pn_Format protected \<noteq> FormatAES256GCMV1 \<or>
         length (pn_Nonce protected) \<noteq> nonceBytes \<or> length (pn_Ciphertext protected) < 16
      then Inl (Peripheral ErrBankDecryptionFailed)
      else case map_of (ci_keys c) (pn_KeyVersion protected) of None \<Rightarrow> Inl (Peripheral ErrUnknownBankKeyVersion)
      | Some key \<Rightarrow>
          if \<not> newGCM (dk_encryption key) then Inl (Peripheral ErrBankDecryptionFailed)
          else case gcm_Open lib (dk_encryption key) (pn_Nonce protected) (pn_Ciphertext protected)
              (bank_associatedData (pn_KeyVersion protected) bankBIN) of
            None \<Rightarrow> Inl (Peripheral ErrBankDecryptionFailed)
          | Some plaintext \<Rightarrow> if \<not> validAccountNumber plaintext then Inl (Peripheral ErrBankDecryptionFailed) else Inr plaintext)"

section \<open>What the ciphers promise\<close>

text \<open>Associated data names its key version and product; the fingerprint input its product and payload.\<close>

lemma inventory_associatedData_inj:
  assumes "inventory_associatedData v p = inventory_associatedData v' p'" "is_int32 v" "is_int32 v'" "is_int64 p" "is_int64 p'"
  shows "v = v' \<and> p = p'"
  using assms PutUint32_inj PutUint64_inj by (auto simp: inventory_associatedData_def append_eq_append_conv)

lemma fingerprintInput_inj:
  assumes "fingerprintInput p a = fingerprintInput q b" "is_int64 p" "is_int64 q"
  shows "p = q \<and> a = b"
  using assms PutUint64_inj by (auto simp: fingerprintInput_def append_eq_append_conv)

lemma bankFingerprintInput_inj:
  assumes "bankFingerprintInput b a = bankFingerprintInput b' a'" "validBankBIN b" "validBankBIN b'"
  shows "b = b' \<and> a = a'"
  using assms by (auto simp: bankFingerprintInput_def validBankBIN_def append_eq_append_conv)

text \<open>
  C30. What goes in comes out, and only where it belongs: with an authenticated cipher, a payload protected for a product
  decrypts to the same bytes under any keyring that still has the key version, and for every other product the
  decryption fails, because the associated data of two products never agree.
\<close>

theorem inventory_cipher_roundtrip:
  assumes opens: "\<And>key nonce plaintext aad. gcm_Open lib key nonce (gcm_Seal lib key nonce plaintext aad) aad = Some plaintext"
    and authentic: "\<And>key nonce plaintext aad aad'. aad' \<noteq> aad \<Longrightarrow>
      gcm_Open lib key nonce (gcm_Seal lib key nonce plaintext aad) aad' = None"
    and tagged: "\<And>key nonce plaintext aad. 16 \<le> length (gcm_Seal lib key nonce plaintext aad)"
    and prot: "inventory_Protect lib None (Some nonce) c productID plaintext = Inr payload" "length nonce = nonceBytes"
    and keys: "map_of (ci_keys c') (ci_currentVersion c) = map_of (ci_keys c) (ci_currentVersion c)"
    and ints: "is_int32 (ci_currentVersion c)" "is_int64 productID" "is_int64 other" "0 < other"
  shows "inventory_Decrypt lib None c' other payload =
     (if other = productID then Inr plaintext else Inl (Peripheral ErrDecryptionFailed))"
proof -
  from prot obtain key where key: "map_of (ci_keys c) (ci_currentVersion c) = Some key" "newGCM (dk_encryption key)"
    and payload: "eip_Ciphertext payload = gcm_Seal lib (dk_encryption key) nonce plaintext
      (inventory_associatedData (ci_currentVersion c) productID)" "eip_Nonce payload = nonce"
      "eip_KeyVersion payload = ci_currentVersion c" "eip_Format payload = FormatAES256GCMV1"
    by (auto simp: inventory_Protect_def split: if_splits option.splits)
  have "inventory_associatedData (ci_currentVersion c) other \<noteq> inventory_associatedData (ci_currentVersion c) productID"
    if "other \<noteq> productID"
    using that ints inventory_associatedData_inj by blast
  then show ?thesis
    using key payload keys ints(4) prot(2) opens authentic leD [OF tagged] by (auto simp: inventory_Decrypt_def)
qed

text \<open>A transparent stand-in for AES-GCM: the associated data travel in front of the plaintext.\<close>

definition plainSeal :: "string \<Rightarrow> string \<Rightarrow> string \<Rightarrow> string \<Rightarrow> string" where
  "plainSeal key nonce plaintext aad = replicate (16 + length aad) CHR ''1'' @ CHR ''0'' # aad @ plaintext"

definition plainOpen :: "string \<Rightarrow> string \<Rightarrow> string \<Rightarrow> string \<Rightarrow> string option" where
  "plainOpen key nonce ciphertext aad =
     (let n = length (takeWhile (\<lambda>c. c = CHR ''1'') ciphertext); rest = drop (n + 1) ciphertext in
      if n = 16 + length aad \<and> take (length aad) rest = aad then Some (drop (length aad) rest) else None)"

lemma plainOpen_plainSeal:
  "plainOpen key nonce (plainSeal key nonce plaintext aad) aad' = (if aad' = aad then Some plaintext else None)"
proof -
  have "takeWhile (\<lambda>c. c = CHR ''1'') (replicate n CHR ''1'' @ CHR ''0'' # xs) = replicate n CHR ''1''" for n xs
    by (induction n) simp_all
  then show ?thesis by (auto simp: plainOpen_def plainSeal_def Let_def)
qed

definition plain_primitives :: primitives where
  "plain_primitives = \<lparr>gcm_Seal = plainSeal, gcm_Open = plainOpen, hkdf_Key = (\<lambda>master info n. Some (take n master)),
     hmac_Sum = (\<lambda>key m. replicate 32 CHR ''h'')\<rparr>"

definition demo_keyring :: Cipher where
  "demo_keyring = \<lparr>ci_keys = [(1, \<lparr>dk_encryption = replicate 32 CHR ''k'', dk_fingerprint = replicate 32 CHR ''f''\<rparr>)],
     ci_currentVersion = 1\<rparr>"

theorem inventory_cipher_roundtrip_witness:
  "\<exists>payload. inventory_Protect plain_primitives None (Some (replicate 12 CHR ''n'')) demo_keyring 7 ''KEY-1'' = Inr payload \<and>
     inventory_Decrypt plain_primitives None demo_keyring 7 payload = Inr ''KEY-1'' \<and>
     inventory_Decrypt plain_primitives None demo_keyring 8 payload = Inl (Peripheral ErrDecryptionFailed)"
proof -
  obtain payload where p: "inventory_Protect plain_primitives None (Some (replicate 12 CHR ''n'')) demo_keyring 7 ''KEY-1'' = Inr payload"
    by (simp add: inventory_Protect_def demo_keyring_def newGCM_def)
  have ints: "is_int32 (ci_currentVersion demo_keyring)" "is_int64 7" "is_int64 8"
    by (simp_all add: demo_keyring_def is_int32_def MaxInt32_def is_int64_def MinInt64_def MaxInt64_def)
  have lib: "\<And>key nonce plaintext aad. gcm_Open plain_primitives key nonce (gcm_Seal plain_primitives key nonce plaintext aad) aad = Some plaintext"
    "\<And>key nonce plaintext aad aad'. aad' \<noteq> aad \<Longrightarrow>
      gcm_Open plain_primitives key nonce (gcm_Seal plain_primitives key nonce plaintext aad) aad' = None"
    "\<And>key nonce plaintext aad. 16 \<le> length (gcm_Seal plain_primitives key nonce plaintext aad)"
    by (simp_all add: plain_primitives_def plainOpen_plainSeal) (simp add: plainSeal_def)
  show ?thesis
    using p inventory_cipher_roundtrip [OF lib p _ refl ints(1,2,2)] inventory_cipher_roundtrip [OF lib p _ refl ints(1,2,3)]
    by (auto simp: nonceBytes_def)
qed

lemma bank_cipher_roundtrip:
  assumes "\<And>key nonce plaintext aad. gcm_Open lib key nonce (gcm_Seal lib key nonce plaintext aad) aad = Some plaintext"
    and "\<And>key nonce plaintext aad. 16 \<le> length (gcm_Seal lib key nonce plaintext aad)"
    and "bank_Protect lib False (Some nonce) c bin number = Inr protected" "length nonce = nonceBytes"
    and "map_of (ci_keys c') (ci_currentVersion c) = map_of (ci_keys c) (ci_currentVersion c)"
  shows "bank_Decrypt lib False c' bin protected = Inr number"
  using assms by (auto simp: bank_Protect_def bank_Decrypt_def not_less split: if_splits option.splits)

text \<open>A protected payload passes the envelope check of the import.\<close>

lemma protected_envelopeOk:
  assumes "\<And>key nonce plaintext aad. 16 \<le> length (gcm_Seal lib key nonce plaintext aad)"
    and "\<And>key m. length (hmac_Sum lib key m) = 32"
    and "inventory_Protect lib None (Some nonce) c productID plaintext = Inr payload" "length nonce = nonceBytes"
    and "0 < ci_currentVersion c"
  shows "envelopeOk payload"
  using assms by (auto simp: inventory_Protect_def envelopeOk_def FormatAES256GCMV1_def nonceBytes_def keyedFingerprint_def
      split: if_splits option.splits)

text \<open>The hand-written decimal digits are the usual ones, so key ids are readable.\<close>

lemma decimalDigits_natText: "0 < v \<Longrightarrow> decimalDigits v = natText (nat v)"
proof (induction v rule: decimalDigits.induct)
  case (1 v)
  have digit: "char_of (nat (48 + v mod 10)) = digitChar (nat (v mod 10))"
    using pos_mod_sign [of 10 v] by (simp add: digitChar_def nat_add_distrib)
  show ?case
  proof (cases "v < 10")
    case True
    with 1(2) digit show ?thesis
      by (simp add: decimalDigits.simps [of v] decimalDigits.simps [of 0] natText.simps [of "nat v"])
  next
    case False
    with 1 have "decimalDigits (v div 10) = natText (nat v div 10)"
      by (simp add: nat_div_distrib pos_imp_zdiv_pos_iff)
    with 1(2) False digit show ?thesis
      by (simp add: decimalDigits.simps [of v] natText.simps [of "nat v"] nat_mod_distrib)
  qed
qed

lemma zero_digit: "CHR ''0'' = char_of (48 :: nat)"
  by code_simp

lemma decimalVersion_intText: "0 \<le> v \<Longrightarrow> decimalVersion v = intText v"
  using zero_digit by (cases "v = 0") (simp_all add: decimalVersion_def intText_def decimalDigits_natText natText.simps [of 0] digitChar_def)

end
