(* ===== verification/Payment_Instruction.thy ===== *)
theory Payment_Instruction
  imports Ciphers Order_Service
begin

text \<open>
  The instruction a customer pays by: the account number decrypted for the order or top-up
  (\<open>instruction\<close> of \<open>app/order_service.go\<close>, \<open>CreateTopup\<close> of \<open>app/wallet_service.go\<close>) and the address of its VietQR
  image (\<open>internal/vietqr/generator.go\<close>). Reading and writing addresses with \<open>net/url\<close> are arguments.
\<close>

record PaymentInstructionRequest =
  pir_BankBIN :: string
  pir_BankName :: string
  pir_AccountNumber :: string
  pir_AccountName :: string
  pir_BankDisplayName :: string
  pir_Amount :: Money
  pir_PaymentReference :: string
  pir_OrderID :: int64
  pir_ExpiresAt :: time

record PaymentInstruction =
  pin_ImageURL :: string
  pin_BankDisplayName :: string
  pin_BankName :: string
  pin_AccountNumber :: string
  pin_AccountName :: string
  pin_Amount :: Money
  pin_TransferContent :: string
  pin_ExpiresAt :: time

section \<open>The generator\<close>

text \<open>What \<open>url.Parse\<close> makes of an address, as far as the generator looks at it.\<close>

record url =
  url_Scheme :: string
  url_Host :: string
  url_Path :: string
  url_Query :: "(string \<times> string) list"

record Generator =
  gen_baseURL :: url
  gen_template :: string

definition accountDigits :: "string \<Rightarrow> bool" where
  "accountDigits value \<longleftrightarrow> \<not> (length value < 4 \<or> length value > 34) \<and> list_all isDigitChar value"

definition sixDigits :: "string \<Rightarrow> bool" where
  "sixDigits value \<longleftrightarrow> length value = 6 \<and> accountDigits value"

definition isUpperLetter :: "char \<Rightarrow> bool" where
  "isUpperLetter c \<longleftrightarrow> byteIn 65 90 c"

definition validReference :: "string \<Rightarrow> bool" where
  "validReference value \<longleftrightarrow>
     \<not> (length value < 4 \<or> length value > 64) \<and> list_all (\<lambda>c. isUpperLetter c \<or> isDigitChar c) value"

definition safeTemplate :: "string \<Rightarrow> bool" where
  "safeTemplate value0 = (let value = TrimSpace value0 in
     \<not> (length value < 1 \<or> length value > 32) \<and>
     list_all (\<lambda>c. byteIn 97 122 c \<or> isUpperLetter c \<or> isDigitChar c \<or> c = CHR ''-'' \<or> c = CHR ''_'') value)"

definition NewGenerator :: "(string \<Rightarrow> url option) \<Rightarrow> string \<Rightarrow> string \<Rightarrow> error + Generator" where
  "NewGenerator url_Parse baseURL template =
     (case url_Parse (TrimSpace baseURL) of None \<Rightarrow> Inl (Peripheral ErrInvalidPaymentInstruction)
      | Some parsed \<Rightarrow>
          if url_Scheme parsed \<noteq> ''https'' \<or> url_Host parsed = [] \<or> \<not> safeTemplate template
          then Inl (Peripheral ErrInvalidPaymentInstruction)
          else Inr \<lparr>gen_baseURL = parsed, gen_template = TrimSpace template\<rparr>)"

text \<open>\<open>query.Set\<close> replaces all values of a key.\<close>

definition querySet :: "string \<Rightarrow> string \<Rightarrow> (string \<times> string) list \<Rightarrow> (string \<times> string) list" where
  "querySet k v q = filter (\<lambda>p. fst p \<noteq> k) q @ [(k, v)]"

definition imageURL :: "Generator \<Rightarrow> (string \<Rightarrow> string \<Rightarrow> string) \<Rightarrow> PaymentInstructionRequest \<Rightarrow> url" where
  "imageURL g path_Join request = (gen_baseURL g)\<lparr>
     url_Path := path_Join (url_Path (gen_baseURL g))
       (pir_BankBIN request @ ''-'' @ pir_AccountNumber request @ ''-'' @ gen_template g @ ''.png''),
     url_Query := querySet ''accountName'' (TrimSpace (pir_AccountName request))
       (querySet ''addInfo'' (pir_PaymentReference request)
         (querySet ''amount'' (intText (pir_Amount request)) (url_Query (gen_baseURL g))))\<rparr>"

definition Generator_Generate ::
  "(string \<Rightarrow> string \<Rightarrow> string) \<Rightarrow> (url \<Rightarrow> string) \<Rightarrow> Generator \<Rightarrow> error option \<Rightarrow> PaymentInstructionRequest \<Rightarrow>
   error + PaymentInstruction" where
  "Generator_Generate path_Join url_String g ctxErr request =
     (case ctxErr of Some e \<Rightarrow> Inl e | None \<Rightarrow>
      if \<not> sixDigits (pir_BankBIN request) \<or> \<not> accountDigits (pir_AccountNumber request) \<or> pir_Amount request \<le> 0 \<or>
         pir_OrderID request \<le> 0 \<or> pir_ExpiresAt request = 0 \<or> \<not> validReference (pir_PaymentReference request) \<or>
         TrimSpace (pir_AccountName request) = [] \<or> TrimSpace (pir_BankDisplayName request) = [] \<or>
         TrimSpace (pir_BankName request) = []
      then Inl (Peripheral ErrInvalidPaymentInstruction)
      else Inr \<lparr>pin_ImageURL = url_String (imageURL g path_Join request),
        pin_BankDisplayName = TrimSpace (pir_BankDisplayName request),
        pin_BankName = TrimSpace (pir_BankName request), pin_AccountNumber = pir_AccountNumber request,
        pin_AccountName = TrimSpace (pir_AccountName request), pin_Amount = pir_Amount request,
        pin_TransferContent = pir_PaymentReference request, pin_ExpiresAt = pir_ExpiresAt request\<rparr>)"

section \<open>Instructions of orders and top-ups\<close>

text \<open>\<open>decrypt\<close> is the bank cipher, \<open>generate\<close> the generator above.\<close>

definition OrderService_instruction ::
  "(string \<Rightarrow> ProtectedBankAccountNumber \<Rightarrow> error + string) \<Rightarrow>
   (PaymentInstructionRequest \<Rightarrow> error + PaymentInstruction) \<Rightarrow> OrderDetail \<Rightarrow> error + PaymentInstruction" where
  "OrderService_instruction decrypt generate order =
     (case decrypt (od_BankBIN order) (od_BankProtected order) of Inl e \<Rightarrow> Inl e
      | Inr accountNumber \<Rightarrow> generate \<lparr>pir_BankBIN = od_BankBIN order, pir_BankName = od_BankName order,
          pir_AccountNumber = accountNumber, pir_AccountName = od_BankAccountName order,
          pir_BankDisplayName = od_BankDisplayName order, pir_Amount = od_Total order,
          pir_PaymentReference = od_PaymentReference order, pir_OrderID = od_ID order,
          pir_ExpiresAt = od_ExpiresAt order\<rparr>)"

definition topup_instruction ::
  "(string \<Rightarrow> ProtectedBankAccountNumber \<Rightarrow> error + string) \<Rightarrow>
   (PaymentInstructionRequest \<Rightarrow> error + PaymentInstruction) \<Rightarrow> topup_row \<Rightarrow> error + PaymentInstruction" where
  "topup_instruction decrypt generate topup =
     (let b = top_bank topup in
      case decrypt (snap_bank_bin b) \<lparr>pb_Ciphertext = snap_encrypted_account_number b,
          pb_Nonce = snap_account_number_nonce b, pb_KeyVersion = snap_key_version b,
          pb_Format = snap_encryption_format b\<rparr> of Inl e \<Rightarrow> Inl e
      | Inr accountNumber \<Rightarrow> generate \<lparr>pir_BankBIN = snap_bank_bin b, pir_BankName = snap_bank_name b,
          pir_AccountNumber = accountNumber, pir_AccountName = snap_account_name b,
          pir_BankDisplayName = snap_display_name b, pir_Amount = top_amount_vnd topup,
          pir_PaymentReference = top_payment_reference topup, pir_OrderID = top_id topup,
          pir_ExpiresAt = top_expires_at topup\<rparr>)"

text \<open>The bank cipher as the services call it.\<close>

definition bankDecrypt ::
  "primitives \<Rightarrow> Cipher \<Rightarrow> string \<Rightarrow> ProtectedBankAccountNumber \<Rightarrow> error + string" where
  "bankDecrypt lib c bankBIN protected =
     bank_Decrypt lib False c bankBIN \<lparr>pn_Ciphertext = pb_Ciphertext protected, pn_Nonce = pb_Nonce protected,
       pn_Fingerprint = [], pn_KeyVersion = pb_KeyVersion protected, pn_KeyID = [], pn_Format = pb_Format protected\<rparr>"

text \<open>The guards of the generator and of the cipher agree on account numbers.\<close>

lemma accountDigits_validAccountNumber: "accountDigits v \<longleftrightarrow> validAccountNumber v"
  by (auto simp: accountDigits_def validAccountNumber_def digitsOnly_def)

lemma sixDigits_validBankBIN: "sixDigits v \<longleftrightarrow> validBankBIN v"
  by (auto simp: sixDigits_def accountDigits_def validBankBIN_def digitsOnly_def)

text \<open>The image and the text of an instruction ask for the same: the order's total, to its account, under its reference.\<close>

lemma query_image:
  "map_of (url_Query (imageURL g pj request)) ''amount'' = Some (intText (pir_Amount request))"
  "map_of (url_Query (imageURL g pj request)) ''addInfo'' = Some (pir_PaymentReference request)"
  by (simp_all add: imageURL_def querySet_def map_add_def map_of_eq_None_iff [THEN iffD2])
    (auto simp: map_of_eq_None_iff map_add_def split: option.splits dest!: map_of_SomeD)

text \<open>
  C36. A customer is asked for exactly what the order needs: an instruction that is shown names the order's total, which
  is positive, its payment reference as the transfer content and the account number stored with the order, and the
  address of its QR image carries the same amount and the same reference.
\<close>

theorem order_instruction_exact:
  assumes "OrderService_instruction decrypt (Generator_Generate path_Join url_String g ctx) order = Inr ins"
  shows "pin_Amount ins = od_Total order \<and> 0 < od_Total order \<and> pin_TransferContent ins = od_PaymentReference order \<and>
    decrypt (od_BankBIN order) (od_BankProtected order) = Inr (pin_AccountNumber ins) \<and>
    (\<exists>u. pin_ImageURL ins = url_String u \<and> map_of (url_Query u) ''amount'' = Some (intText (od_Total order)) \<and>
       map_of (url_Query u) ''addInfo'' = Some (od_PaymentReference order))"
proof -
  obtain number where number: "decrypt (od_BankBIN order) (od_BankProtected order) = Inr number"
    using assms by (auto simp: OrderService_instruction_def split: sum.splits)
  have "\<exists>u. pin_ImageURL ins = url_String u \<and> map_of (url_Query u) ''amount'' = Some (intText (od_Total order)) \<and>
       map_of (url_Query u) ''addInfo'' = Some (od_PaymentReference order)"
    using assms number query_image [of g path_Join]
    by (fastforce simp: OrderService_instruction_def Generator_Generate_def split: option.splits if_splits)
  then show ?thesis
    using assms number by (auto simp: OrderService_instruction_def Generator_Generate_def split: option.splits if_splits)
qed

text \<open>An order of 50000 with a reference, an account and a generator whose addresses are kept in a simple form.\<close>

definition demo_instructed :: OrderDetail where
  "demo_instructed = \<lparr>od_ID = 1, od_UserID = 1, od_Status = OrderStatusPendingPayment, od_Currency = ''VND'',
     od_Subtotal = 50000, od_Total = 50000, od_PaymentReference = ''PAY0A1B'', od_ExpiresAt = 1900, od_CancelledAt = 0,
     od_Version = 1, od_CreatedAt = 1000, od_BankAccountID = 1, od_BankBIN = ''970436'', od_BankName = ''VCB'',
     od_BankDisplayName = ''Main'', od_BankAccountName = ''SHOP'', od_BankAccountLast4 = ''6789'',
     od_BankProtected = \<lparr>pb_Ciphertext = ''x'', pb_Nonce = ''n'', pb_KeyVersion = 1, pb_Format = ''f''\<rparr>,
     od_Item = noItem, od_DeliveryStatus = None\<rparr>"

theorem order_instruction_exact_witness:
  "\<exists>ins. OrderService_instruction (\<lambda>_ _. Inr ''0123456789'')
       (Generator_Generate (\<lambda>d f. d @ ''/'' @ f) url_Path \<lparr>gen_baseURL = \<lparr>url_Scheme = ''https'', url_Host = ''h'',
          url_Path = ''/image'', url_Query = []\<rparr>, gen_template = ''qr''\<rparr> None) demo_instructed = Inr ins \<and>
     pin_Amount ins = 50000 \<and> pin_TransferContent ins = ''PAY0A1B'' \<and> pin_AccountNumber ins = ''0123456789''"
    (is "\<exists>ins. ?run = Inr ins \<and> _")
proof -
  have trims: "TrimSpace ''SHOP'' \<noteq> []" "TrimSpace ''Main'' \<noteq> []" "TrimSpace ''VCB'' \<noteq> []" by code_simp+
  have shapes: "sixDigits ''970436''" "accountDigits ''0123456789''" "validReference ''PAY0A1B''" by code_simp+
  obtain ins where run: "?run = Inr ins"
    using trims shapes by (simp add: OrderService_instruction_def Generator_Generate_def demo_instructed_def)
  with order_instruction_exact [OF run] show ?thesis by (simp add: demo_instructed_def)
qed

end
