(* ===== verification/Provider_Reconciliation.thy ===== *)
theory Provider_Reconciliation
  imports Payment_Providers
begin

text \<open>
  The polling reconciliation of \<open>payment/reconciliation.go\<close> over the leased checkpoints of
  \<open>postgres/provider_reconciliation_store.go\<close>, and the administration of the account mappings
  (\<open>app/payment_provider_admin_service.go\<close>, \<open>postgres/payment_provider_admin_store.go\<close>).
\<close>

section \<open>Checkpoints\<close>

record ProviderAccount =
  pa_ID :: int64
  pa_Provider :: string
  pa_Environment :: string
  pa_ExternalAccountIdentity :: string
  pa_LocalBankAccountID :: int64

record ProviderCheckpoint =
  cp_ID :: int64
  cp_ProviderAccountID :: int64
  cp_Cursor :: string
  cp_LastTransactionExternalID :: string
  cp_LastOccurredAt :: time
  cp_LeaseOwner :: string
  cp_Version :: int64

text \<open>\<open>payment.ProviderCheckpoint{}\<close>\<close>

definition noCheckpoint :: ProviderCheckpoint where
  "noCheckpoint = \<lparr>cp_ID = 0, cp_ProviderAccountID = 0, cp_Cursor = [], cp_LastTransactionExternalID = [],
     cp_LastOccurredAt = 0, cp_LeaseOwner = [], cp_Version = 0\<rparr>"

definition mapProviderCheckpoint :: "checkpoint_row \<Rightarrow> ProviderCheckpoint" where
  "mapProviderCheckpoint row = \<lparr>cp_ID = chk_id row, cp_ProviderAccountID = chk_provider_account_id row,
     cp_Cursor = textOr (chk_cursor_value row),
     cp_LastTransactionExternalID = textOr (chk_last_transaction_external_id row),
     cp_LastOccurredAt = int8Or (chk_last_occurred_at row), cp_LeaseOwner = textOr (chk_lease_owner row),
     cp_Version = chk_version row\<rparr>"

definition optionalTimestamp :: "time \<Rightarrow> time option" where
  "optionalTimestamp value = (if value = 0 then None else Some value)"

definition ListActiveProviderAccounts ::
  "((provider_account_row \<times> bank_row) list \<Rightarrow> (provider_account_row \<times> bank_row) list) \<Rightarrow> ProviderAccount list dbtx" where
  "ListActiveProviderAccounts collate =
     bindE (ListActivePaymentProviderAccounts collate) (\<lambda>rows.
     returnE (map (\<lambda>(m, _). \<lparr>pa_ID = pac_id m, pa_Provider = pac_provider m, pa_Environment = pac_environment m,
       pa_ExternalAccountIdentity = pac_external_account_identity m,
       pa_LocalBankAccountID = pac_local_bank_account_id m\<rparr>) rows))"

definition EnsureProviderCheckpoint :: "int64 \<Rightarrow> ProviderCheckpoint dbtx" where
  "EnsureProviderCheckpoint accountID =
     bindE (EnsurePaymentProviderCheckpoint accountID) (\<lambda>row. returnE (mapProviderCheckpoint row))"

definition ClaimProviderCheckpoint :: "int64 \<Rightarrow> string \<Rightarrow> time \<Rightarrow> time \<Rightarrow> ProviderCheckpoint option dbtx" where
  "ClaimProviderCheckpoint checkpointID owner attemptedAt expiresAt =
     bindE (attempt (ClaimPaymentProviderCheckpoint (optionalText owner) expiresAt attemptedAt checkpointID)) (\<lambda>r.
     case r of Inr row \<Rightarrow> returnE (Some (mapProviderCheckpoint row))
     | Inl e \<Rightarrow> if e = PgxErrNoRows then returnE None else throwE e)"

definition leaseLost :: "'a dbtx \<Rightarrow> 'a dbtx" where
  "leaseLost m = noRows (Peripheral ErrCheckpointLeaseUnavailable) m"

definition AdvanceProviderCheckpoint ::
  "ProviderCheckpoint \<Rightarrow> string \<Rightarrow> string \<Rightarrow> time \<Rightarrow> ProviderCheckpoint dbtx" where
  "AdvanceProviderCheckpoint checkpoint cursor lastTransactionID lastOccurredAt =
     bindE (leaseLost (AdvancePaymentProviderCheckpoint (optionalText cursor) (optionalText lastTransactionID)
       (optionalTimestamp lastOccurredAt) (cp_ID checkpoint) (cp_Version checkpoint)
       (optionalText (cp_LeaseOwner checkpoint)))) (\<lambda>row. returnE (mapProviderCheckpoint row))"

definition CompleteProviderCheckpoint :: "ProviderCheckpoint \<Rightarrow> time \<Rightarrow> unit dbtx" where
  "CompleteProviderCheckpoint checkpoint completedAt =
     bindE (leaseLost (CompletePaymentProviderCheckpoint completedAt (cp_ID checkpoint) (cp_Version checkpoint)
       (optionalText (cp_LeaseOwner checkpoint)))) (\<lambda>_. returnE ())"

definition FailProviderCheckpoint :: "ProviderCheckpoint \<Rightarrow> string \<Rightarrow> unit dbtx" where
  "FailProviderCheckpoint checkpoint errorCode =
     bindE (leaseLost (RecordPaymentProviderCheckpointFailure (optionalText errorCode) (cp_ID checkpoint)
       (cp_Version checkpoint) (optionalText (cp_LeaseOwner checkpoint)))) (\<lambda>_. returnE ())"

section \<open>One account\<close>

record ReconciliationSummary =
  rs_Accounts :: int
  rs_Pages :: int
  rs_Fetched :: int
  rs_Ingested :: int
  rs_Duplicates :: int
  rs_Skipped :: int

definition emptySummary :: ReconciliationSummary where
  "emptySummary = \<lparr>rs_Accounts = 0, rs_Pages = 0, rs_Fetched = 0, rs_Ingested = 0, rs_Duplicates = 0, rs_Skipped = 0\<rparr>"

record reconciliation_job =
  rj_owner :: string
  rj_maxPages :: int
  rj_pageSize :: int
  rj_requestTimeout :: duration
  rj_leaseDuration :: duration

definition NewReconciliationJob :: "string \<Rightarrow> int \<Rightarrow> int \<Rightarrow> duration \<Rightarrow> duration \<Rightarrow> error + reconciliation_job" where
  "NewReconciliationJob owner0 maxPages pageSize requestTimeout leaseDuration =
     (let owner = TrimSpace owner0 in
      if owner = [] \<or> length owner > 128 \<or> maxPages \<le> 0 \<or> maxPages > 100 \<or> pageSize \<le> 0 \<or> pageSize > 1000 \<or>
         requestTimeout \<le> 0 \<or> leaseDuration \<le> requestTimeout then Inl ErrInvalidInput
      else Inr \<lparr>rj_owner = owner, rj_maxPages = maxPages, rj_pageSize = pageSize,
                rj_requestTimeout = requestTimeout, rj_leaseDuration = leaseDuration\<rparr>)"

definition errorCodeByte :: "char \<Rightarrow> bool" where
  "errorCodeByte c \<longleftrightarrow> (let n = (of_char c :: nat) in (97 \<le> n \<and> n \<le> 122) \<or> (48 \<le> n \<and> n \<le> 57) \<or> c = CHR ''_'')"

definition safeErrorCode :: "string \<Rightarrow> string" where
  "safeErrorCode value0 =
     (let value = TrimSpace (ToLower value0) in
      if value = [] \<or> length value > 64 \<or> \<not> list_all errorCodeByte value then ''provider_api_error'' else value)"

fun reconciliationErrorCode :: "reconcile_error \<Rightarrow> string" where
  "reconciliationErrorCode (ProviderAPIError code authFailed) =
     (if authFailed then ''provider_api_auth_failed'' else safeErrorCode code)"
| "reconciliationErrorCode (PlainError e) =
     (if e = ContextDeadlineExceeded then ''provider_api_timeout''
      else if e = ContextCanceled then ''provider_api_cancelled''
      else if e = Peripheral ErrMalformedTransactionPage then ''provider_malformed_page''
      else ''provider_reconciliation_failed'')"

definition accountEvent :: "ProviderAccount \<Rightarrow> NormalizedPaymentEvent \<Rightarrow> NormalizedPaymentEvent" where
  "accountEvent account event = event\<lparr>ne_Provider := pa_Provider account, ne_Environment := pa_Environment account,
     ne_Source := ''reconciliation'',
     ne_DestinationAccountID := (if ne_DestinationAccountID event = [] then pa_ExternalAccountIdentity account
       else ne_DestinationAccountID event)\<rparr>"

text \<open>
  The transactions of a page, up to the first that cannot be ingested: the summary, the last transaction and its
  time, and the error if there was one.
\<close>

fun ingestPage ::
  "(NormalizedPaymentEvent \<Rightarrow> PaymentEventIngestionResult dbtx) \<Rightarrow> ProviderAccount \<Rightarrow> NormalizedPaymentEvent list \<Rightarrow>
   ReconciliationSummary \<Rightarrow> string \<Rightarrow> time \<Rightarrow> (ReconciliationSummary \<times> string \<times> time \<times> error option) dbtx" where
  "ingestPage ingest account [] summary lastID lastAt = returnE (summary, lastID, lastAt, None)"
| "ingestPage ingest account (event0 # rest) summary lastID lastAt =
     (let event = accountEvent account event0 in
      bindE (attempt (ingest event)) (\<lambda>r. case r of
        Inl e \<Rightarrow> returnE (summary, lastID, lastAt, Some e)
      | Inr result \<Rightarrow>
          ingestPage ingest account rest
            (if ir_Duplicate result then summary\<lparr>rs_Duplicates := rs_Duplicates summary + 1\<rparr>
             else summary\<lparr>rs_Ingested := rs_Ingested summary + 1\<rparr>)
            (ne_ProviderTransactionID event)
            (if ne_OccurredAt event > lastAt then ne_OccurredAt event else lastAt)))"

text \<open>
  The page loop. The result carries the checkpoint variable as it stands at the return, which the deferred failure
  report uses; when advancing fails, Go's assignment has left the zero checkpoint in it.
\<close>

fun reconcilePages ::
  "(NormalizedPaymentEvent \<Rightarrow> PaymentEventIngestionResult dbtx) \<Rightarrow>
   (nat \<Rightarrow> ListTransactionsRequest \<Rightarrow> reconcile_error + TransactionPage) \<Rightarrow> reconciliation_job \<Rightarrow> time \<Rightarrow>
   ProviderAccount \<Rightarrow> nat \<Rightarrow> nat \<Rightarrow> string \<Rightarrow> ProviderCheckpoint \<Rightarrow> ReconciliationSummary \<Rightarrow>
   (ProviderCheckpoint \<times> ReconciliationSummary \<times> reconcile_error option) dbtx" where
  "reconcilePages ingest fetch job finishedAt account 0 k cursor checkpoint summary =
     bindE (attempt (CompleteProviderCheckpoint checkpoint finishedAt)) (\<lambda>completed.
     returnE (checkpoint, summary, case completed of Inl e \<Rightarrow> Some (PlainError e) | Inr _ \<Rightarrow> None))"
| "reconcilePages ingest fetch job finishedAt account (Suc n) k cursor checkpoint summary =
     (case fetch k \<lparr>lt_ProviderAccountID = pa_ID account,
          lt_ExternalAccountIdentity = pa_ExternalAccountIdentity account, lt_Environment = pa_Environment account,
          lt_Cursor = cursor, lt_PageSize = rj_pageSize job\<rparr> of
        Inl e \<Rightarrow> returnE (checkpoint, summary, Some e)
      | Inr page \<Rightarrow>
          if tp_HasMore page \<and> (TrimSpace (tp_NextCursor page) = [] \<or> tp_NextCursor page = cursor) then
            returnE (checkpoint, summary, Some (PlainError (Peripheral ErrMalformedTransactionPage)))
          else
          bindE (ingestPage ingest account (tp_Transactions page)
            (summary\<lparr>rs_Pages := rs_Pages summary + 1,
                     rs_Fetched := rs_Fetched summary + int (length (tp_Transactions page))\<rparr>)
            (cp_LastTransactionExternalID checkpoint) (cp_LastOccurredAt checkpoint)) (\<lambda>(summary', lastID, lastAt, failed).
          case failed of Some e \<Rightarrow> returnE (checkpoint, summary', Some (PlainError e))
          | None \<Rightarrow>
              let nextCursor = (if \<not> tp_HasMore page \<and> tp_NextCursor page = [] then cursor else tp_NextCursor page) in
              bindE (attempt (AdvanceProviderCheckpoint checkpoint nextCursor lastID lastAt)) (\<lambda>advanced.
              case advanced of
                Inl e \<Rightarrow> returnE (noCheckpoint, summary', Some (PlainError e))
              | Inr checkpoint' \<Rightarrow>
                  if \<not> tp_HasMore page then
                    bindE (attempt (CompleteProviderCheckpoint checkpoint' finishedAt)) (\<lambda>completed.
                    returnE (checkpoint', summary', case completed of Inl e \<Rightarrow> Some (PlainError e) | Inr _ \<Rightarrow> None))
                  else reconcilePages ingest fetch job finishedAt account n (Suc k) nextCursor checkpoint' summary')))"

definition reconcileAccount ::
  "(NormalizedPaymentEvent \<Rightarrow> PaymentEventIngestionResult dbtx) \<Rightarrow>
   (nat \<Rightarrow> ListTransactionsRequest \<Rightarrow> reconcile_error + TransactionPage) \<Rightarrow> reconciliation_job \<Rightarrow> time \<Rightarrow> time \<Rightarrow>
   ProviderAccount \<Rightarrow> (ReconciliationSummary \<times> reconcile_error option) dbtx" where
  "reconcileAccount ingest fetch job now finishedAt account =
     bindE (attempt (EnsureProviderCheckpoint (pa_ID account))) (\<lambda>ensured. case ensured of
       Inl e \<Rightarrow> returnE (emptySummary, Some (PlainError e))
     | Inr checkpoint0 \<Rightarrow>
       bindE (attempt (ClaimProviderCheckpoint (cp_ID checkpoint0) (rj_owner job) now (now + rj_leaseDuration job))) (\<lambda>claimed.
       case claimed of
         Inl e \<Rightarrow> returnE (emptySummary, Some (PlainError e))
       | Inr None \<Rightarrow> returnE (emptySummary, Some (PlainError (Peripheral ErrCheckpointLeaseUnavailable)))
       | Inr (Some checkpoint) \<Rightarrow>
           bindE (reconcilePages ingest fetch job finishedAt account (nat (rj_maxPages job)) 1 (cp_Cursor checkpoint)
             checkpoint emptySummary) (\<lambda>(last, summary, failed).
           case failed of
             None \<Rightarrow> returnE (summary, None)
           | Some e \<Rightarrow>
               bindE (attempt (FailProviderCheckpoint last (reconciliationErrorCode e))) (\<lambda>_.
               returnE (summary, Some e)))))"

section \<open>The pass over all accounts\<close>

fun reconcileAccounts ::
  "(NormalizedPaymentEvent \<Rightarrow> PaymentEventIngestionResult dbtx) \<Rightarrow> provider list \<Rightarrow> reconciliation_job \<Rightarrow>
   (int64 \<Rightarrow> time) \<Rightarrow> (int64 \<Rightarrow> time) \<Rightarrow> ProviderAccount list \<Rightarrow> ReconciliationSummary \<Rightarrow> (int64 \<times> reconcile_error) list \<Rightarrow>
   (ReconciliationSummary \<times> (int64 \<times> reconcile_error) list) dbtx" where
  "reconcileAccounts ingest registry job started finished [] summary errors = returnE (summary, errors)"
| "reconcileAccounts ingest registry job started finished (account # rest) summary errors =
     (case GetTransactionAPIProvider registry (pa_Provider account) of
        Inl _ \<Rightarrow> reconcileAccounts ingest registry job started finished rest
                   (summary\<lparr>rs_Skipped := rs_Skipped summary + 1\<rparr>) errors
      | Inr (environment, fetch) \<Rightarrow>
          if environment \<noteq> pa_Environment account then
            reconcileAccounts ingest registry job started finished rest (summary\<lparr>rs_Skipped := rs_Skipped summary + 1\<rparr>) errors
          else
          bindE (reconcileAccount ingest fetch job (started (pa_ID account)) (finished (pa_ID account)) account) (\<lambda>(one, failed).
          let summary' = summary\<lparr>rs_Accounts := rs_Accounts summary + 1, rs_Pages := rs_Pages summary + rs_Pages one,
                rs_Fetched := rs_Fetched summary + rs_Fetched one,
                rs_Ingested := rs_Ingested summary + rs_Ingested one,
                rs_Duplicates := rs_Duplicates summary + rs_Duplicates one\<rparr> in
          case failed of
            None \<Rightarrow> reconcileAccounts ingest registry job started finished rest summary' errors
          | Some e \<Rightarrow>
              if e = PlainError (Peripheral ErrCheckpointLeaseUnavailable)
              then reconcileAccounts ingest registry job started finished rest
                     (summary'\<lparr>rs_Skipped := rs_Skipped summary' + 1\<rparr>) errors
              else reconcileAccounts ingest registry job started finished rest summary' (errors @ [(pa_ID account, e)])))"

definition ReconciliationJob_RunOnce ::
  "((provider_account_row \<times> bank_row) list \<Rightarrow> (provider_account_row \<times> bank_row) list) \<Rightarrow>
   (NormalizedPaymentEvent \<Rightarrow> PaymentEventIngestionResult dbtx) \<Rightarrow> provider list \<Rightarrow> reconciliation_job \<Rightarrow>
   (int64 \<Rightarrow> time) \<Rightarrow> (int64 \<Rightarrow> time) \<Rightarrow> (ReconciliationSummary \<times> (int64 \<times> reconcile_error) list) dbtx" where
  "ReconciliationJob_RunOnce collate ingest registry job started finished =
     bindE (ListActiveProviderAccounts collate) (\<lambda>accounts.
     reconcileAccounts ingest registry job started finished accounts emptySummary [])"

section \<open>Administration of the account mappings\<close>

record PaymentProviderDescriptor =
  ppd_Name :: string
  ppd_Enabled :: bool
  ppd_Environment :: string
  ppd_Capabilities :: ProviderCapabilities

record PaymentProviderAccount =
  ppa_ID :: int64
  ppa_Provider :: string
  ppa_Environment :: string
  ppa_MaskedExternalIdentity :: string
  ppa_LocalBankAccountID :: int64
  ppa_LocalBankDisplayName :: string
  ppa_LocalBankLast4 :: string
  ppa_Status :: string
  ppa_Version :: int64

definition maskProviderAccountIdentity :: "string \<Rightarrow> string" where
  "maskProviderAccountIdentity value =
     (if length value \<le> 4 then ''***'' else ''***'' @ drop (length value - 4) value)"

definition mapPaymentProviderAccountView :: "bank_row \<Rightarrow> provider_account_row \<Rightarrow> PaymentProviderAccount" where
  "mapPaymentProviderAccountView bank row = \<lparr>ppa_ID = pac_id row, ppa_Provider = pac_provider row,
     ppa_Environment = pac_environment row,
     ppa_MaskedExternalIdentity = maskProviderAccountIdentity (pac_external_account_identity row),
     ppa_LocalBankAccountID = pac_local_bank_account_id row, ppa_LocalBankDisplayName = bnk_display_name bank,
     ppa_LocalBankLast4 = bnk_display_last4 bank, ppa_Status = pac_status row, ppa_Version = pac_version row\<rparr>"

definition providerAccountAuditSnapshot :: "PaymentProviderAccount \<Rightarrow> json" where
  "providerAccountAuditSnapshot value =
     [(''environment'', JText (ppa_Environment value)), (''external_identity'', JText (ppa_MaskedExternalIdentity value)),
      (''id'', JInt (ppa_ID value)), (''local_bank_account_id'', JInt (ppa_LocalBankAccountID value)),
      (''provider'', JText (ppa_Provider value)), (''status'', JText (ppa_Status value)),
      (''version'', JInt (ppa_Version value))]"

record CreatePaymentProviderAccountCommand =
  cpa_AdminTelegramID :: int64
  cpa_Provider :: string
  cpa_Environment :: string
  cpa_ExternalAccountIdentity :: string
  cpa_LocalBankAccountID :: int64
  cpa_Confirmed :: bool
  cpa_Session :: session_row
  cpa_Meta :: RequestMeta

record SetPaymentProviderAccountStatusCommand =
  spa_AdminTelegramID :: int64
  spa_MappingID :: int64
  spa_ExpectedVersion :: int64
  spa_Active :: bool
  spa_Confirmed :: bool
  spa_Session :: session_row
  spa_Meta :: RequestMeta

definition ListPaymentProviderAccounts ::
  "((provider_account_row \<times> bank_row) list \<Rightarrow> (provider_account_row \<times> bank_row) list) \<Rightarrow> int32 \<Rightarrow> int32 \<Rightarrow>
   (PaymentProviderAccount list \<times> int64) dbtx" where
  "ListPaymentProviderAccounts collate off limit =
     bindE CountPaymentProviderAccounts (\<lambda>total.
     bindE (ListPaymentProviderAccounts_query collate off limit) (\<lambda>rows.
     returnE (map (\<lambda>(m, b). mapPaymentProviderAccountView b m) rows, total)))"

definition CreatePaymentProviderAccount ::
  "time \<Rightarrow> Admin \<Rightarrow> session_row \<Rightarrow> CreatePaymentProviderAccountCommand \<Rightarrow> string \<Rightarrow> PaymentProviderAccount dbtx" where
  "CreatePaymentProviderAccount now admin session command fingerprint =
     mapErrE mapConstraintError (WithinTransaction (
     asAdmin now admin session ''provider.account.create'' (
     bindE (noRows ErrBankAccountInactive (LockBankAccountByID (cpa_LocalBankAccountID command))) (\<lambda>bank.
     if \<not> bnk_is_active bank then throwE ErrBankAccountInactive
     else if bnk_payment_environment bank \<noteq> cpa_Environment command then throwE ErrInvalidInput else
     bindE (noRows ErrConflict (CreatePaymentProviderAccount_query (cpa_Provider command) (cpa_Environment command)
       (cpa_ExternalAccountIdentity command) fingerprint (bnk_id bank))) (\<lambda>row.
     let result = mapPaymentProviderAccountView bank row in
     bindE (insertAudit (Admin_ID admin) ''payment_provider_account.created'' ''payment_provider_account'' (pac_id row)
       None (Some (providerAccountAuditSnapshot result)) (cpa_Meta command)) (\<lambda>_.
     closeAdmin admin session (cpa_Meta command) result))))))"

definition SetPaymentProviderAccountStatus ::
  "time \<Rightarrow> Admin \<Rightarrow> session_row \<Rightarrow> SetPaymentProviderAccountStatusCommand \<Rightarrow> PaymentProviderAccount dbtx" where
  "SetPaymentProviderAccountStatus now admin session command =
     mapErrE mapConstraintError (WithinTransaction (
     asAdmin now admin session ''provider.account.toggle'' (
     bindE (noRows ErrNotFound (LockPaymentProviderAccount (spa_MappingID command))) (\<lambda>before.
     if pac_version before \<noteq> spa_ExpectedVersion command \<or> (pac_status before = ''active'') = spa_Active command
     then throwE ErrStaleVersion else
     bindE (noRows ErrStaleVersion (SetPaymentProviderAccountStatusGuarded
       (if spa_Active command then ''active'' else ''inactive'') (pac_id before) (spa_ExpectedVersion command))) (\<lambda>after.
     bindE (LockBankAccountByID (pac_local_bank_account_id after)) (\<lambda>bank.
     let result = mapPaymentProviderAccountView bank after in
     bindE (insertAudit (Admin_ID admin)
       (if spa_Active command then ''payment_provider_account.activated'' else ''payment_provider_account.deactivated'')
       ''payment_provider_account'' (pac_id after)
       (Some (providerAccountAuditSnapshot (mapPaymentProviderAccountView bank before)))
       (Some (providerAccountAuditSnapshot result)) (spa_Meta command)) (\<lambda>_.
     closeAdmin admin session (spa_Meta command) result)))))))"

text \<open>\<open>NewPaymentProviderAdminService\<close>: nameless descriptors are dropped, the last of a name wins the lookup.\<close>

definition providerDescriptors :: "PaymentProviderDescriptor list \<Rightarrow> PaymentProviderDescriptor list" where
  "providerDescriptors providers = filter (\<lambda>p. ppd_Name p \<noteq> []) providers"

definition descriptorOf :: "PaymentProviderDescriptor list \<Rightarrow> string \<Rightarrow> PaymentProviderDescriptor option" where
  "descriptorOf providers name =
     (case filter (\<lambda>p. ppd_Name p = name) (providerDescriptors providers) of [] \<Rightarrow> None | ps \<Rightarrow> Some (last ps))"

definition PaymentProviderAdminService_ListProviders ::
  "PaymentProviderDescriptor list \<Rightarrow> int64 \<Rightarrow> PaymentProviderDescriptor list dbtx" where
  "PaymentProviderAdminService_ListProviders providers telegramID =
     bindE (AdminService_Authorize telegramID False) (\<lambda>_. returnE (filter ppd_Enabled (providerDescriptors providers)))"

definition PaymentProviderAdminService_ListAccounts ::
  "((provider_account_row \<times> bank_row) list \<Rightarrow> (provider_account_row \<times> bank_row) list) \<Rightarrow> int \<Rightarrow> int64 \<Rightarrow> int \<Rightarrow>
   (PaymentProviderAccount list \<times> PageInfo) dbtx" where
  "PaymentProviderAdminService_ListAccounts collate pageSize telegramID page =
     (if page < 0 then throwE ErrInvalidInput else
      bindE (AdminService_Authorize telegramID False) (\<lambda>_.
      bindE (ListPaymentProviderAccounts collate (wrap32 (wrap64 (page * pageSize))) (wrap32 pageSize)) (\<lambda>(items, total).
      returnE (items, pageInfo page pageSize total))))"

definition PaymentProviderAdminService_CreateAccount ::
  "(string \<Rightarrow> string) \<Rightarrow> PaymentProviderDescriptor list \<Rightarrow> time \<Rightarrow> CreatePaymentProviderAccountCommand \<Rightarrow>
   PaymentProviderAccount dbtx" where
  "PaymentProviderAdminService_CreateAccount sha256sum providers now command0 =
     (let command = command0\<lparr>cpa_Provider := ToLower (TrimSpace (cpa_Provider command0)),
            cpa_Environment := ToLower (TrimSpace (cpa_Environment command0)),
            cpa_ExternalAccountIdentity := TrimSpace (cpa_ExternalAccountIdentity command0)\<rparr> in
      if (case descriptorOf providers (cpa_Provider command) of None \<Rightarrow> True
          | Some p \<Rightarrow> \<not> ppd_Enabled p \<or> ppd_Environment p \<noteq> cpa_Environment command) \<or>
         cpa_ExternalAccountIdentity command = [] \<or> length (cpa_ExternalAccountIdentity command) > 256 \<or>
         cpa_LocalBankAccountID command \<le> 0 \<or> \<not> cpa_Confirmed command then throwE ErrInvalidInput else
      bindE (AdminService_Authorize (cpa_AdminTelegramID command) True) (\<lambda>admin.
      CreatePaymentProviderAccount now admin (cpa_Session command) command
        (sha256sum (cpa_Provider command @ CHR 0x00 # cpa_Environment command @ CHR 0x00 #
           cpa_ExternalAccountIdentity command))))"

definition PaymentProviderAdminService_SetAccountActive ::
  "time \<Rightarrow> SetPaymentProviderAccountStatusCommand \<Rightarrow> PaymentProviderAccount dbtx" where
  "PaymentProviderAdminService_SetAccountActive now command =
     (if spa_MappingID command \<le> 0 \<or> spa_ExpectedVersion command \<le> 0 \<or> \<not> spa_Confirmed command
      then throwE ErrInvalidInput else
      bindE (AdminService_Authorize (spa_AdminTelegramID command) True) (\<lambda>admin.
      SetPaymentProviderAccountStatus now admin (spa_Session command) command))"

definition PaymentProviderAdminService_Health ::
  "PaymentProviderDescriptor list \<Rightarrow> int64 \<Rightarrow> (PaymentProviderDescriptor \<times> health_row) list dbtx" where
  "PaymentProviderAdminService_Health providers telegramID =
     bindE (AdminService_Authorize telegramID False) (\<lambda>_.
     mapE (\<lambda>p. bindE (GetPaymentProviderHealth_query (ppd_Name p) (ppd_Environment p)) (\<lambda>row. returnE (p, row)))
       (providerDescriptors providers))"

end
