(* ===== verification/Telegram_View.thy ===== *)
theory Telegram_View
  imports Telegram_Client Review_Desk Payment_Instruction Provider_Reconciliation
begin

text \<open>
  The screens of the bot (\<open>telegram/view.go\<close>): the text and the keyboard of every view, byte for byte. Every view
  escapes what comes from users and administrators, and its buttons carry callback data for the parser of
  \<open>Telegram_Parser\<close>. The two uses of the clock's format are arguments.
\<close>

section \<open>Literals\<close>

text \<open>Go source is UTF-8. \<open>lit\<close> writes a literal with its non-ASCII letters as code points in braces.\<close>

definition utf8Encode :: "nat \<Rightarrow> string" where
  "utf8Encode n =
     (if n < 0x80 then [char_of n]
      else if n < 0x800 then [char_of (0xC0 + n div 64), char_of (0x80 + n mod 64)]
      else if n < 0x10000 then
        [char_of (0xE0 + n div 4096), char_of (0x80 + n div 64 mod 64), char_of (0x80 + n mod 64)]
      else [char_of (0xF0 + n div 262144), char_of (0x80 + n div 4096 mod 64), char_of (0x80 + n div 64 mod 64),
        char_of (0x80 + n mod 64)])"

definition hexDigitValue :: "char \<Rightarrow> nat" where
  "hexDigitValue c = (let n = (of_char c :: nat) in if n < 58 then n - 48 else n - 55)"

fun lit :: "string \<Rightarrow> string" and litCode :: "nat \<Rightarrow> string \<Rightarrow> string" where
  "lit [] = []"
| "lit (c # s) = (if c = CHR ''{'' then litCode 0 s else c # lit s)"
| "litCode acc [] = []"
| "litCode acc (c # s) = (if c = CHR ''}'' then utf8Encode acc @ lit s else litCode (16 * acc + hexDigitValue c) s)"

section \<open>Parts\<close>

definition Escape :: "string \<Rightarrow> string" where
  "Escape value = html_EscapeString value"

type_synonym view = "string \<times> Keyboard"

definition dataButton :: "string \<Rightarrow> string \<Rightarrow> Button" where
  "dataButton label payload = \<lparr>btn_Text = label, btn_Data = payload, btn_URL = []\<rparr>"

definition urlButton :: "string \<Rightarrow> string \<Rightarrow> Button" where
  "urlButton label address = \<lparr>btn_Text = label, btn_Data = [], btn_URL = address\<rparr>"

function insertDots :: "int \<Rightarrow> string \<Rightarrow> string" where
  "insertDots index raw =
     (if index > 0 then insertDots (index - 3) (take (nat index) raw @ ''.'' @ drop (nat index) raw) else raw)"
  by auto
termination
  by (relation "measure (\<lambda>(index, raw). nat index)") auto

declare insertDots.simps [simp del]

definition formatVND :: "int64 \<Rightarrow> string" where
  "formatVND value = (let raw = intText value in insertDots (int (length raw) - 3) raw)"

text \<open>The format ends in the page number.\<close>

definition navigationRows :: "string \<Rightarrow> PageInfo \<Rightarrow> Keyboard" where
  "navigationRows format page =
     (let row = (if pg_Page page > 0 then [dataButton (lit ''{2B05}{FE0F}'') (format @ intText (pg_Page page - 1))] else []) @
        (if pg_TotalPages page > 0 \<and> pg_Page page + 1 < pg_TotalPages page
         then [dataButton (lit ''{27A1}{FE0F}'') (format @ intText (pg_Page page + 1))] else []) in
      if row = [] then [] else [row])"

definition joinLines :: "string list \<Rightarrow> string" where
  "joinLines lines = joinWith (CHR 0x0A) lines"

text \<open>\<open>t.Local().Format(layout)\<close> and \<open>t.UTC().Format(layout)\<close>.\<close>

record time_formats =
  tf_Local :: "string \<Rightarrow> time \<Rightarrow> string"
  tf_UTC :: "string \<Rightarrow> time \<Rightarrow> string"

section \<open>The customer\<close>

definition MainMenuText :: "string \<Rightarrow> string" where
  "MainMenuText name0 =
     (let name = (if TrimSpace name0 = [] then (lit ''b{1EA1}n'') else name0) in
      (lit ''Xin ch{E0}o <b>'') @ Escape name @ (lit ''</b>!{A}Ch{1ECD}n m{1ED9}t m{1EE5}c b{EA}n d{1B0}{1EDB}i:''))"

definition MainMenuKeyboard :: Keyboard where
  "MainMenuKeyboard =
     [[dataButton (lit ''{1F4E6} S{1EA3}n ph{1EA9}m'') ''v1:c:0''],
      [dataButton (lit ''{1F9FE} {110}{1A1}n h{E0}ng'') ''v1:o:l:0''],
      [dataButton (lit ''{1F4B0} S{1ED1} d{1B0}'') ''v1:w:v''],
      [dataButton (lit ''{1F198} H{1ED7} tr{1EE3}'') ''v1:s'']]"

definition CategoriesView :: "Category list \<times> PageInfo \<Rightarrow> view" where
  "CategoriesView page =
     ((lit ''<b>Danh m{1EE5}c s{1EA3}n ph{1EA9}m</b>''),
      map (\<lambda>category. [dataButton (Category_Emoji category @ '' '' @ Category_Name category)
        (''v1:p:'' @ intText (Category_ID category) @ '':0'')]) (fst page) @
      navigationRows ''v1:c:'' (snd page) @
      [[dataButton (lit ''{2B05}{FE0F} Menu'') ''v1:m'']])"

definition ProductsView :: "int64 \<Rightarrow> Product list \<times> PageInfo \<Rightarrow> view" where
  "ProductsView categoryID page =
     ((lit ''<b>S{1EA3}n ph{1EA9}m</b>''),
      map (\<lambda>product. [dataButton (Product_Name product @ (lit '' {2014} '') @ formatVND (Product_Price product) @ (lit '' {20AB}''))
        (''v1:d:'' @ intText (Product_ID product) @ '':'' @ intText categoryID @ '':'' @
          intText (pg_Page (snd page)))]) (fst page) @
      navigationRows (''v1:p:'' @ intText categoryID @ '':'') (snd page) @
      [[dataButton (lit ''{2B05}{FE0F} Danh m{1EE5}c'') ''v1:c:0'']])"

definition ProductView :: "Product \<Rightarrow> int64 \<Rightarrow> int \<Rightarrow> view" where
  "ProductView product categoryID page =
     (let description = (if Escape (Product_Description product) = [] then (lit ''Ch{1B0}a c{F3} m{F4} t{1EA3}.'')
        else Escape (Product_Description product)) in
      (''<b>'' @ Escape (Product_Name product) @ (lit ''</b>{A}'') @ description @ (lit ''{A}{A}Gi{E1}: <b>'') @
         formatVND (Product_Price product) @ (lit '' {20AB}</b>''),
       [[dataButton ''Mua 1'' (''v1:o:q:'' @ intText (Product_ID product) @ '':1''),
         dataButton ''Mua 2'' (''v1:o:q:'' @ intText (Product_ID product) @ '':2''),
         dataButton ''Mua 5'' (''v1:o:q:'' @ intText (Product_ID product) @ '':5'')],
        [dataButton (lit ''{2B05}{FE0F} S{1EA3}n ph{1EA9}m'') (''v1:p:'' @ intText categoryID @ '':'' @ intText page)]]))"

definition BankSelectionView :: "int64 \<Rightarrow> int32 \<Rightarrow> BankAccountOption list \<Rightarrow> view" where
  "BankSelectionView productID quantity banks =
     ((lit ''<b>Ch{1ECD}n t{E0}i kho{1EA3}n nh{1EAD}n</b>{A}S{1ED1} l{1B0}{1EE3}ng: '') @ intText quantity,
      map (\<lambda>bank. [dataButton (bao_DisplayName bank @ (lit '' {B7} {2022}{2022}{2022}{2022}'') @ bao_Last4 bank)
        (''v1:o:b:'' @ intText productID @ '':'' @ intText quantity @ '':'' @ intText (bao_ID bank))]) banks @
      [[dataButton (lit ''{2B05}{FE0F} S{1EA3}n ph{1EA9}m'') ''v1:c:0'']])"

definition OrderConfirmView :: "int64 \<Rightarrow> int64 \<Rightarrow> int32 \<Rightarrow> BankAccountOption \<Rightarrow> view" where
  "OrderConfirmView flowID productID quantity bank =
     ((lit ''<b>X{E1}c nh{1EAD}n t{1EA1}o {111}{1A1}n</b>{A}S{1EA3}n ph{1EA9}m #'') @ intText productID @ (lit '' {B7} s{1ED1} l{1B0}{1EE3}ng '') @ intText quantity @
        (lit ''{A}Ng{E2}n h{E0}ng: '') @ Escape (bao_DisplayName bank) @ (lit '' {B7} {2022}{2022}{2022}{2022}'') @ Escape (bao_Last4 bank) @
        (lit ''{A}{A}Gi{E1} v{E0} tr{1EA1}ng th{E1}i s{1EBD} {111}{1B0}{1EE3}c ki{1EC3}m tra l{1EA1}i trong giao d{1ECB}ch t{1EA1}o {111}{1A1}n.''),
      [[dataButton (lit ''X{E1}c nh{1EAD}n'') (''v1:o:c:'' @ intText flowID @ '':'' @ intText productID @ '':'' @ intText quantity @
          '':'' @ intText (bao_ID bank))]])"

definition PaymentInstructionView :: "time_formats \<Rightarrow> OrderDetail \<Rightarrow> PaymentInstruction \<Rightarrow> view" where
  "PaymentInstructionView tf order instruction =
     ((lit ''<b>H{1B0}{1EDB}ng d{1EAB}n chuy{1EC3}n kho{1EA3}n {B7} {111}{1A1}n #'') @ intText (od_ID order) @
        (lit ''</b>{A}Tr{1EA1}ng th{E1}i: <b>{111}ang ch{1EDD} thanh to{E1}n</b>{A}Ng{E2}n h{E0}ng: '') @ Escape (pin_BankDisplayName instruction) @
        (lit ''{A}S{1ED1} t{E0}i kho{1EA3}n: <code>'') @ Escape (pin_AccountNumber instruction) @
        (lit ''</code>{A}T{EA}n t{E0}i kho{1EA3}n: <b>'') @ Escape (pin_AccountName instruction) @
        (lit ''</b>{A}S{1ED1} ti{1EC1}n: <b>'') @ formatVND (pin_Amount instruction) @
        (lit '' {20AB}</b>{A}N{1ED9}i dung: <code>'') @ Escape (pin_TransferContent instruction) @
        (lit ''</code>{A}H{1EBF}t h{1EA1}n: '') @ tf_Local tf ''02/01/2006 15:04:05'' (pin_ExpiresAt instruction) @
        (lit ''{A}{A}Ch{1EC9} chuy{1EC3}n {111}{FA}ng s{1ED1} ti{1EC1}n v{E0} n{1ED9}i dung. QR l{E0} h{1B0}{1EDB}ng d{1EAB}n, kh{F4}ng ch{1EE9}ng minh giao d{1ECB}ch {111}{E3} {111}{1B0}{1EE3}c thanh to{E1}n.''),
      [[urlButton (lit ''M{1EDF} VietQR'') (pin_ImageURL instruction)],
       [dataButton (lit ''Xem {111}{1A1}n'') (''v1:o:v:'' @ intText (od_ID order))],
       [dataButton (lit ''Danh s{E1}ch {111}{1A1}n'') ''v1:o:l:0'']])"

definition deliveryStatusLabel :: "OrderStatus \<Rightarrow> DeliveryJobStatus option \<Rightarrow> string" where
  "deliveryStatusLabel status deliveryStatus =
     (case deliveryStatus of
        Some DeliveryJobAmbiguous \<Rightarrow> (lit ''giao h{E0}ng {111}ang {111}{1B0}{1EE3}c ki{1EC3}m tra'')
      | Some DeliveryJobManualReview \<Rightarrow> (lit ''giao h{E0}ng {111}ang {111}{1B0}{1EE3}c ki{1EC3}m tra'')
      | Some DeliveryJobPermanentFailed \<Rightarrow> (lit ''giao h{E0}ng th{1EA5}t b{1EA1}i'')
      | Some DeliveryJobPending \<Rightarrow> (lit ''{111}ang giao h{E0}ng'')
      | Some DeliveryJobProcessing \<Rightarrow> (lit ''{111}ang giao h{E0}ng'')
      | Some DeliveryJobRetryableFailed \<Rightarrow> (lit ''{111}ang giao h{E0}ng'')
      | Some DeliveryJobCompleted \<Rightarrow> (lit ''{111}{E3} giao h{E0}ng'')
      | _ \<Rightarrow> (case status of
          OrderStatusReserving \<Rightarrow> (lit ''{111}ang chu{1EA9}n b{1ECB} giao h{E0}ng'')
        | OrderStatusDelivering \<Rightarrow> (lit ''{111}ang giao h{E0}ng'')
        | OrderStatusDelivered \<Rightarrow> (lit ''{111}{E3} giao h{E0}ng'')
        | OrderStatusDeliveryFailed \<Rightarrow> (lit ''giao h{E0}ng th{1EA5}t b{1EA1}i'')
        | OrderStatusPendingPayment \<Rightarrow> (lit ''{111}ang ch{1EDD} thanh to{E1}n'')
        | _ \<Rightarrow> orderStatusText status))"

text \<open>A line of the order list and its button.\<close>

definition orderLine :: "time_formats \<Rightarrow> order_row \<times> order_item_row \<times> DeliveryJobStatus option \<Rightarrow> string" where
  "orderLine tf row = (case row of (order, item, job) \<Rightarrow>
     ''#'' @ intText (ord_id order) @ (lit '' {B7} '') @ Escape (deliveryStatusLabel (ord_status order) job) @ (lit '' {B7} '') @
     intText (oit_quantity item) @ ''x '' @ Escape (oit_product_name item) @ (lit '' {B7} '') @
     formatVND (ord_total_vnd order) @ (lit '' {20AB} {B7} '') @ tf_Local tf ''02/01 15:04'' (ord_created_at order))"

definition OrdersView ::
  "time_formats \<Rightarrow> (order_row \<times> order_item_row \<times> DeliveryJobStatus option) list \<times> PageInfo \<Rightarrow> view" where
  "OrdersView tf page =
     (joinLines ((lit ''<b>{110}{1A1}n h{E0}ng c{1EE7}a b{1EA1}n</b>'') # map (orderLine tf) (fst page) @
        (if fst page = [] then [(lit ''Ch{1B0}a c{F3} {111}{1A1}n h{E0}ng.'')] else [])),
      map (\<lambda>(order, _). [dataButton ((lit ''{110}{1A1}n #'') @ intText (ord_id order)) (''v1:o:v:'' @ intText (ord_id order))]) (fst page) @
      navigationRows ''v1:o:l:'' (snd page) @
      [[dataButton (lit ''{2B05}{FE0F} Menu'') ''v1:m'']])"

text \<open>\<open>None\<close> is the empty instruction of an order without a bank account.\<close>

definition OrderDetailView :: "time_formats \<Rightarrow> OrderDetail \<Rightarrow> PaymentInstruction option \<Rightarrow> view" where
  "OrderDetailView tf order instruction =
     (let image = (case instruction of None \<Rightarrow> [] | Some i \<Rightarrow> pin_ImageURL i); item = od_Item order in
      ((lit ''<b>{110}{1A1}n #'') @ intText (od_ID order) @ (lit ''</b>{A}'') @ Escape (ois_Name item) @ (lit '' {B7} s{1ED1} l{1B0}{1EE3}ng '') @
         intText (ois_Quantity item) @ (lit ''{A}{110}{1A1}n gi{E1}: '') @ formatVND (ois_UnitPrice item) @ (lit '' {20AB}{A}T{1ED5}ng: <b>'') @
         formatVND (od_Total order) @ (lit '' {20AB}</b>{A}Tr{1EA1}ng th{E1}i: <b>'') @
         Escape (deliveryStatusLabel (od_Status order) (od_DeliveryStatus order)) @
         (lit ''</b>{A}M{E3} chuy{1EC3}n kho{1EA3}n: <code>'') @ Escape (od_PaymentReference order) @ (lit ''</code>{A}H{1EBF}t h{1EA1}n: '') @
         tf_Local tf ''02/01/2006 15:04:05'' (od_ExpiresAt order),
       (if od_Status order = OrderStatusPendingPayment \<and> image \<noteq> [] then
          [[urlButton (lit ''M{1EDF} VietQR'') image],
           [dataButton (lit ''Thanh to{E1}n b{1EB1}ng v{ED}'') (''v1:o:w:'' @ intText (od_ID order))],
           [dataButton (lit ''H{1EE7}y {111}{1A1}n'') (''v1:o:x:'' @ intText (od_ID order) @ '':'' @ intText (od_Version order))]]
        else []) @
       [[dataButton (lit ''{2B05}{FE0F} Danh s{E1}ch'') ''v1:o:l:0'']]))"

definition WalletBalanceView :: "WalletAccount \<Rightarrow> view" where
  "WalletBalanceView account =
     ((lit ''<b>S{1ED1} d{1B0} v{ED}</b>{A}'') @ formatVND (wa_Balance account) @ (lit '' {20AB}''),
      [[dataButton (lit ''N{1EA1}p 50.000 {20AB}'') ''v1:w:a:50000'', dataButton (lit ''N{1EA1}p 100.000 {20AB}'') ''v1:w:a:100000''],
       [dataButton (lit ''N{1EA1}p 500.000 {20AB}'') ''v1:w:a:500000''],
       [dataButton (lit ''{2B05}{FE0F} Menu'') ''v1:m'']])"

definition WalletTopupBankView :: "int64 \<Rightarrow> int64 \<Rightarrow> BankAccountOption list \<Rightarrow> view" where
  "WalletTopupBankView flowID amount banks =
     ((lit ''<b>Ch{1ECD}n t{E0}i kho{1EA3}n nh{1EAD}n</b>{A}S{1ED1} ti{1EC1}n n{1EA1}p: '') @ formatVND amount @ (lit '' {20AB}''),
      map (\<lambda>bank. [dataButton (bao_DisplayName bank @ (lit '' {B7} {2022}{2022}{2022}{2022}'') @ bao_Last4 bank)
        (''v1:w:b:'' @ intText flowID @ '':'' @ intText amount @ '':'' @ intText (bao_ID bank))]) banks @
      [[dataButton (lit ''{2B05}{FE0F} V{ED}'') ''v1:w:a:50000'']])"

definition WalletTopupInstructionView :: "time_formats \<Rightarrow> topup_row \<Rightarrow> PaymentInstruction \<Rightarrow> view" where
  "WalletTopupInstructionView tf topup instruction =
     ((lit ''<b>H{1B0}{1EDB}ng d{1EAB}n n{1EA1}p v{ED}</b>{A}Ng{E2}n h{E0}ng: '') @ Escape (pin_BankDisplayName instruction) @
        (lit ''{A}S{1ED1} t{E0}i kho{1EA3}n: <code>'') @ Escape (pin_AccountNumber instruction) @
        (lit ''</code>{A}T{EA}n t{E0}i kho{1EA3}n: <b>'') @ Escape (pin_AccountName instruction) @
        (lit ''</b>{A}S{1ED1} ti{1EC1}n: <b>'') @ formatVND (top_amount_vnd topup) @
        (lit '' {20AB}</b>{A}N{1ED9}i dung: <code>'') @ Escape (top_payment_reference topup) @
        (lit ''</code>{A}H{1EBF}t h{1EA1}n: '') @ tf_Local tf ''02/01/2006 15:04:05'' (top_expires_at topup) @
        (lit ''{A}{A}QR ch{1EC9} l{E0} h{1B0}{1EDB}ng d{1EAB}n. V{ED} ch{1EC9} {111}{1B0}{1EE3}c c{1ED9}ng sau khi payment {111}{1B0}{1EE3}c ch{1EA5}p nh{1EAD}n.''),
      [[urlButton (lit ''M{1EDF} VietQR'') (pin_ImageURL instruction)],
       [dataButton (lit ''Xem s{1ED1} d{1B0}'') ''v1:w:v'']])"

definition WalletOrderConfirmationView :: "OrderDetail \<Rightarrow> WalletAccount \<Rightarrow> int64 \<Rightarrow> view" where
  "WalletOrderConfirmationView order balance flowID =
     ((lit ''X{E1}c nh{1EAD}n d{F9}ng v{ED} thanh to{E1}n {111}{1A1}n #'') @ intText (od_ID order) @ (lit ''?{A}T{1ED5}ng: '') @ formatVND (od_Total order) @
        (lit '' {20AB}{A}S{1ED1} d{1B0}: '') @ formatVND (wa_Balance balance) @ (lit '' {20AB}''),
      [[dataButton (lit ''X{E1}c nh{1EAD}n'') (''v1:o:y:'' @ intText flowID @ '':'' @ intText (od_ID order))],
       [dataButton (lit ''Quay l{1EA1}i'') (''v1:o:v:'' @ intText (od_ID order))]])"

definition OrderCancelConfirmationView :: "int64 \<Rightarrow> int64 \<Rightarrow> view" where
  "OrderCancelConfirmationView orderID version =
     ((lit ''X{E1}c nh{1EAD}n h{1EE7}y {111}{1A1}n #'') @ intText orderID @ ''?'',
      [[dataButton (lit ''X{E1}c nh{1EAD}n h{1EE7}y'') (''v1:o:k:'' @ intText orderID @ '':'' @ intText version)],
       [dataButton (lit ''Quay l{1EA1}i'') (''v1:o:v:'' @ intText orderID)]])"

section \<open>The administrator\<close>

definition AdminMenu :: view where
  "AdminMenu =
     ((lit ''<b>Qu{1EA3}n tr{1ECB} c{1EED}a h{E0}ng</b>''),
      [[dataButton (lit ''Danh m{1EE5}c'') ''v1:a:c:0''],
       [dataButton (lit ''S{1EA3}n ph{1EA9}m'') ''v1:a:p:0''],
       [dataButton (lit ''Kho m{E3} h{F3}a'') ''v1:a:i:0''],
       [dataButton (lit ''T{E0}i kho{1EA3}n ng{E2}n h{E0}ng'') ''v1:a:b:0''],
       [dataButton ''Payment reviews'' ''v1:a:pr:0''],
       [dataButton ''Payment providers'' ''v1:a:qh''],
       [dataButton ''Manual confirm'' ''v1:a:pm''],
       [dataButton (lit ''{110}i{1EC1}u ch{1EC9}nh v{ED}'') ''v1:a:wa''],
       [dataButton ''Delivery queue'' ''v1:a:dl:0''],
       [dataButton ''Delivery reconciliation'' ''v1:a:dx'']])"

definition healthLine :: "time_formats \<Rightarrow> PaymentProviderDescriptor \<times> health_row \<Rightarrow> string" where
  "healthLine tf item = (case item of (d, h) \<Rightarrow>
     let capabilities = (if SupportsWebhook (ppd_Capabilities d) then [''webhook''] else []) @
           (if SupportsReconciliation (ppd_Capabilities d) then [''reconciliation''] else []) in
     (lit ''{A}<b>'') @ Escape (ppd_Name d) @ (lit ''</b> {B7} '') @ Escape (ppd_Environment d) @ (lit '' {B7} '') @
     Escape (joinWith (CHR ''+'') capabilities) @ (lit ''{A}Mappings: '') @ intText (hr_active_mappings h) @
     (lit '' {B7} pending: '') @ intText (hr_pending_events h) @ (lit '' {B7} reviews: '') @ intText (hr_open_reviews h) @
     (case hr_last_webhook_at h of None \<Rightarrow> [] | Some t \<Rightarrow> (lit ''{A}Last webhook: '') @ tf_UTC tf ''2006-01-02T15:04:05Z07:00'' t) @
     (case hr_last_reconciliation_success h of None \<Rightarrow> []
      | Some t \<Rightarrow> (lit ''{A}Last reconciliation: '') @ tf_UTC tf ''2006-01-02T15:04:05Z07:00'' t) @
     (if textOr (hr_last_error_code h) \<noteq> []
      then (lit ''{A}Last error: <code>'') @ Escape (textOr (hr_last_error_code h)) @ ''</code>'' else []))"

definition PaymentProviderHealthView :: "time_formats \<Rightarrow> (PaymentProviderDescriptor \<times> health_row) list \<Rightarrow> view" where
  "PaymentProviderHealthView tf items =
     (joinLines (''<b>Payment provider health</b>'' # map (healthLine tf) items @
        (if items = [] then [(lit ''Ch{1B0}a c{F3} provider {111}{1B0}{1EE3}c b{1EAD}t.'')] else [])),
      [[dataButton ''Account mappings'' ''v1:a:ql:0''], [dataButton (lit ''{2B05}{FE0F} Admin'') ''v1:m'']])"

text \<open>The mark of an active or inactive row, and the bit that would toggle it.\<close>

definition activeMark :: "bool \<Rightarrow> string" where
  "activeMark active = (if active then (lit ''{1F7E2}'') else (lit ''{26AA}''))"

definition toggleTarget :: "bool \<Rightarrow> string" where
  "toggleTarget active = (if active then ''0'' else ''1'')"

definition providerAccountLine :: "PaymentProviderAccount \<Rightarrow> string" where
  "providerAccountLine item =
     activeMark (ppa_Status item = ''active'') @ '' #'' @ intText (ppa_ID item) @ (lit '' {B7} '') @ Escape (ppa_Provider item) @
     ''/'' @ Escape (ppa_Environment item) @ (lit '' {B7} '') @ Escape (ppa_MaskedExternalIdentity item) @ (lit '' {2192} '') @
     Escape (ppa_LocalBankDisplayName item) @ (lit '' {2022}{2022}{2022}{2022}'') @ Escape (ppa_LocalBankLast4 item) @ (lit '' {B7} v'') @
     intText (ppa_Version item)"

definition PaymentProviderAccountsView :: "PaymentProviderAccount list \<times> PageInfo \<Rightarrow> view" where
  "PaymentProviderAccountsView page =
     (joinLines (''<b>Provider account mappings</b>'' # map providerAccountLine (fst page) @
        (if fst page = [] then [(lit ''Ch{1B0}a c{F3} mapping.'')] else [])),
      [[dataButton (lit ''{2795} Link account'') ''v1:a:qn'']] @
      map (\<lambda>item. [dataButton ((lit ''B{1EAD}t/t{1EAF}t #'') @ intText (ppa_ID item)) (''v1:a:qa:'' @ intText (ppa_ID item) @ '':'' @
        intText (ppa_Version item) @ '':'' @ toggleTarget (ppa_Status item = ''active''))]) (fst page) @
      navigationRows ''v1:a:ql:'' (snd page) @
      [[dataButton (lit ''{2B05}{FE0F} Provider health'') ''v1:a:qh'']])"

definition deliveryLine :: "DeliveryReviewItem \<Rightarrow> string" where
  "deliveryLine item = (let job = dri_Job item in
     ''Job #'' @ intText (job_id job) @ (lit '' {B7} {111}{1A1}n #'') @ intText (int8Or (job_delivery_order_id job)) @ (lit '' {B7} '') @
     Escape (deliveryStatusText (job_status job)) @ (lit '' {B7} '') @ intText (job_attempts job) @ ''/'' @
     intText (job_max_attempts job) @ (lit '' attempts {B7} '') @ intText (dri_Quantity item) @ ''x '' @
     Escape (dri_ProductName item))"

definition DeliveryReviewsView :: "DeliveryReviewItem list \<times> PageInfo \<Rightarrow> view" where
  "DeliveryReviewsView page =
     (joinLines (''<b>Delivery queue</b>'' # map deliveryLine (fst page) @
        (if fst page = [] then [(lit ''Kh{F4}ng c{F3} delivery job c{1EA7}n hi{1EC3}n th{1ECB}.'')] else [])),
      map (\<lambda>item. [dataButton (''Delivery #'' @ intText (job_id (dri_Job item)))
        (''v1:a:dd:'' @ intText (job_id (dri_Job item)))]) (fst page) @
      navigationRows ''v1:a:dl:'' (snd page) @
      [[dataButton (lit ''{2B05}{FE0F} Admin'') ''v1:m'']])"

definition attemptLine :: "DeliveryAttemptView \<Rightarrow> string" where
  "attemptLine a =
     ''#'' @ intText (dav_Number a) @ (lit '' {B7} '') @ Escape (dav_Status a) @
     (if dav_ErrorCode a \<noteq> [] then (lit '' {B7} '') @ Escape (dav_ErrorCode a) else []) @
     (if dav_TelegramMessageID a > 0 then (lit '' {B7} message '') @ intText (dav_TelegramMessageID a) else [])"

definition DeliveryDetailView :: "DeliveryReviewDetail \<Rightarrow> view" where
  "DeliveryDetailView detail =
     (let item = drd_Item detail; job = dri_Job item; st = job_status job in
      (joinLines (
         [''<b>Delivery #'' @ intText (job_id job) @ ''</b>'',
          (lit ''{110}{1A1}n #'') @ intText (int8Or (job_delivery_order_id job)) @ (lit '' {B7} chat <code>'') @
            intText (int8Or (job_recipient_chat_id job)) @ ''</code>'',
          intText (dri_Quantity item) @ ''x '' @ Escape (dri_ProductName item),
          (lit ''Tr{1EA1}ng th{E1}i: <b>'') @ Escape (deliveryStatusText st) @ (lit ''</b> {B7} attempt '') @ intText (job_attempts job) @ ''/'' @
            intText (job_max_attempts job) @ (lit '' {B7} version '') @ intText (job_version job)] @
         (if int8Or (job_telegram_message_id job) > 0
          then [''Telegram message ID: <code>'' @ intText (int8Or (job_telegram_message_id job)) @ ''</code>''] else []) @
         (if textOr (job_last_error_code job) \<noteq> []
          then [(lit ''L{1ED7}i: <code>'') @ Escape (textOr (job_last_error_code job)) @ (lit ''</code> {B7} '') @
            Escape (textOr (job_last_error_detail job))] else []) @
         [[], ''<b>Attempt history</b>''] @
         map attemptLine (drd_AttemptsHistory detail) @
         (if drd_AttemptsHistory detail = [] then [(lit ''Ch{1B0}a c{F3} attempt.'')] else [])),
       (if st \<in> {DeliveryJobRetryableFailed, DeliveryJobPermanentFailed, DeliveryJobAmbiguous, DeliveryJobManualReview}
        then [[dataButton (lit ''Verified not delivered {2192} retry'')
          (''v1:a:dr:'' @ intText (job_id job) @ '':'' @ intText (job_version job))]] else []) @
       (if st = DeliveryJobAmbiguous \<or> st = DeliveryJobManualReview
        then [[dataButton ''Verified delivered''
          (''v1:a:dm:'' @ intText (job_id job) @ '':'' @ intText (job_version job))]] else []) @
       [[dataButton (lit ''{2B05}{FE0F} Delivery queue'') ''v1:a:dl:0'']]))"

definition DeliveryReconciliationView :: "DeliveryReconciliation \<Rightarrow> view" where
  "DeliveryReconciliationView report =
     ((lit ''<b>Delivery reconciliation</b>{A}Clean: <b>'') @
        (if DeliveryReconciliation_Clean report then ''true'' else ''false'') @
        (lit ''</b>{A}Delivering without job: '') @ intText (DeliveringWithoutJob report) @
        (lit ''{A}Active job / wrong order: '') @ intText (ActiveJobWrongOrderState report) @
        (lit ''{A}Completed job / order not delivered: '') @ intText (CompletedJobOrderNotDelivered report) @
        (lit ''{A}Delivered inventory mismatch: '') @ intText (DeliveredInventoryMismatch report) @
        (lit ''{A}Sold without completed job: '') @ intText (SoldWithoutCompletedJob report) @
        (lit ''{A}Delivered with reserved inventory: '') @ intText (DeliveredOrderReservedInventory report) @
        (lit ''{A}Multiple active jobs: '') @ intText (MultipleActiveJobs report) @
        (lit ''{A}Stale processing: '') @ intText (StaleProcessing report) @
        (lit ''{A}Ambiguous without review: '') @ intText (AmbiguousWithoutReview report) @
        (lit ''{A}Success evidence not completed: '') @ intText (SuccessEvidenceNotCompleted report),
      [[dataButton (lit ''{2B05}{FE0F} Admin'') ''v1:m'']])"

definition paymentReviewLine :: "PaymentReviewCase \<Rightarrow> string" where
  "paymentReviewLine item =
     (let mapping = (if prc_ProviderAccountMappingID item > 0
        then ''mapping #'' @ intText (prc_ProviderAccountMappingID item) else ''unmapped'') in
      ''#'' @ intText (prc_ID item) @ (lit '' {B7} '') @ Escape (prc_Reason item) @ (lit '' {B7} '') @ Escape (prc_Provider item) @ ''/'' @
      Escape (prc_Environment item) @ ''/'' @ Escape (prc_Source item) @ (lit '' {B7} '') @ formatVND (prc_Amount item) @
      (lit '' {20AB} {B7} '') @ Escape (prc_Currency item) @ (lit '' {B7} ref <code>'') @ Escape (prc_Reference item) @ (lit ''</code> {B7} tx '') @
      Escape (prc_MaskedTransactionID item) @ (lit '' {B7} account '') @ Escape (prc_MaskedDestinationAccount item) @ (lit '' {B7} '') @
      mapping)"

definition PaymentReviewsView :: "PaymentReviewCase list \<times> PageInfo \<Rightarrow> view" where
  "PaymentReviewsView page =
     (joinLines (''<b>Payment review queue</b>'' # map paymentReviewLine (fst page) @
        (if fst page = [] then [(lit ''Kh{F4}ng c{F3} case {111}ang m{1EDF}.'')] else [])),
      map (\<lambda>item. [dataButton (''Resolve #'' @ intText (prc_ID item)) (''v1:a:rr:'' @ intText (prc_ID item))]) (fst page) @
      navigationRows ''v1:a:pr:'' (snd page))"

definition bankLine :: "RedactedBankAccount \<Rightarrow> string" where
  "bankLine bank = (let b = rba_Option bank in
     activeMark (rba_Active bank) @ '' #'' @ intText (bao_ID b) @ (lit '' {B7} '') @ Escape (bao_DisplayName b) @ (lit '' {B7} {2022}{2022}{2022}{2022}'') @
     Escape (bao_Last4 b) @ (lit '' {B7} v'') @ intText (bao_Version b))"

definition AdminBankAccountsView :: "RedactedBankAccount list \<times> PageInfo \<Rightarrow> view" where
  "AdminBankAccountsView page =
     (joinLines ((lit ''<b>T{E0}i kho{1EA3}n ng{E2}n h{E0}ng</b>'') # map bankLine (fst page)),
      [[dataButton (lit ''{2795} T{1EA1}o t{E0}i kho{1EA3}n'') ''v1:a:bn'']] @
      map (\<lambda>bank. let b = rba_Option bank in
        [dataButton ((lit ''S{1EED}a '') @ bao_DisplayName b) (''v1:a:be:'' @ intText (bao_ID b) @ '':'' @ intText (bao_Version b)),
         dataButton (lit ''B{1EAD}t/t{1EAF}t'') (''v1:a:ba:'' @ intText (bao_ID b) @ '':'' @ intText (bao_Version b) @ '':'' @
           toggleTarget (rba_Active bank))]) (fst page) @
      navigationRows ''v1:a:b:'' (snd page))"

definition overviewLine :: "InventoryOverview \<Rightarrow> string" where
  "overviewLine item =
     (lit ''{A}<b>'') @ Escape (iov_ProductName item) @ ''</b> (#'' @ intText (iov_ProductID item) @ (lit ''){A}C{F3} s{1EB5}n: '') @
     intText (iov_AvailableCount item) @ (lit '' {B7} {110}{E3} gi{1EEF}: '') @ intText (iov_ReservedCount item) @ (lit '' {B7} {110}{E3} b{E1}n: '') @
     intText (iov_SoldCount item) @ (lit '' {B7} T{1EAF}t: '') @ intText (iov_DisabledCount item) @ (lit '' {B7} T{1ED5}ng: '') @
     intText (iov_TotalCount item)"

definition AdminInventoryOverviewView :: "InventoryOverview list \<times> PageInfo \<Rightarrow> view" where
  "AdminInventoryOverviewView page =
     (joinLines ((lit ''<b>T{1ED5}ng quan kho m{E3} h{F3}a</b>'') # map overviewLine (fst page) @
        (if fst page = [] then [(lit ''{A}Ch{1B0}a c{F3} s{1EA3}n ph{1EA9}m inventory.'')] else [])),
      map (\<lambda>item. [dataButton (iov_ProductName item @ '' ('' @ intText (iov_AvailableCount item) @ ''/'' @
          intText (iov_TotalCount item) @ '')'')
        (''v1:a:il:'' @ intText (iov_ProductID item) @ '':0'')]) (fst page) @
      navigationRows ''v1:a:i:'' (snd page))"

definition inventoryLine :: "time_formats \<Rightarrow> RedactedInventoryItem \<Rightarrow> string" where
  "inventoryLine tf item =
     ''#'' @ intText (rii_ID item) @ (lit '' {B7} '') @ Escape (InventoryStatusText (rii_Status item)) @ (lit '' {B7} key v'') @
     intText (rii_KeyVersion item) @ (lit '' {B7} version '') @ intText (rii_Version item) @
     (if rii_CreatedAt item \<noteq> 0 then (lit '' {B7} '') @ tf_UTC tf ''2006-01-02'' (rii_CreatedAt item) else []) @
     (if rii_ReservedOrderID item > 0 then (lit '' {B7} order #'') @ intText (rii_ReservedOrderID item) else []) @
     (if rii_ReservedUntil item \<noteq> 0 then (lit '' {111}{1EBF}n '') @ tf_UTC tf ''2006-01-02 15:04Z'' (rii_ReservedUntil item) else [])"

definition inventoryButtons :: "RedactedInventoryItem \<Rightarrow> Keyboard" where
  "inventoryButtons item =
     (case rii_Status item of
        InventoryStatusAvailable \<Rightarrow> [[dataButton ((lit ''T{1EAF}t #'') @ intText (rii_ID item))
          (''v1:a:is:'' @ intText (rii_ID item) @ '':'' @ intText (rii_Version item) @ '':0'')]]
      | InventoryStatusDisabled \<Rightarrow> [[dataButton ((lit ''B{1EAD}t #'') @ intText (rii_ID item))
          (''v1:a:is:'' @ intText (rii_ID item) @ '':'' @ intText (rii_Version item) @ '':1'')]]
      | _ \<Rightarrow> [])"

definition AdminInventoryItemsView :: "time_formats \<Rightarrow> int64 \<Rightarrow> RedactedInventoryItem list \<times> PageInfo \<Rightarrow> view" where
  "AdminInventoryItemsView tf productID page =
     (joinLines (((lit ''<b>Inventory {111}{E3} redacted</b> {B7} s{1EA3}n ph{1EA9}m #'') @ intText productID) # map (inventoryLine tf) (fst page) @
        (if fst page = [] then [(lit ''Ch{1B0}a c{F3} item.'')] else [])),
      [[dataButton (lit ''{2795} Import stock'') (''v1:a:ii:'' @ intText productID)]] @
      concat (map inventoryButtons (fst page)) @
      navigationRows (''v1:a:il:'' @ intText productID @ '':'') (snd page) @
      [[dataButton (lit ''{2B05}{FE0F} T{1ED5}ng quan'') ''v1:a:i:0'']])"

definition AdminCategoriesView :: "Category list \<times> PageInfo \<Rightarrow> view" where
  "AdminCategoriesView page =
     ((lit ''<b>Danh m{1EE5}c qu{1EA3}n tr{1ECB}</b>''),
      [[dataButton (lit ''{2795} T{1EA1}o danh m{1EE5}c'') ''v1:a:cn'']] @
      map (\<lambda>category.
        [dataButton (activeMark (Category_Active category) @ '' '' @ Category_Name category)
           (''v1:a:ce:'' @ intText (Category_ID category) @ '':'' @ intText (Category_Version category)),
         dataButton (lit ''B{1EAD}t/t{1EAF}t'') (''v1:a:ca:'' @ intText (Category_ID category) @ '':'' @
           intText (Category_Version category) @ '':'' @ toggleTarget (Category_Active category))]) (fst page) @
      navigationRows ''v1:a:c:'' (snd page))"

definition AdminProductsView :: "Product list \<times> PageInfo \<Rightarrow> view" where
  "AdminProductsView page =
     ((lit ''<b>S{1EA3}n ph{1EA9}m qu{1EA3}n tr{1ECB}</b>''),
      [[dataButton (lit ''{2795} T{1EA1}o s{1EA3}n ph{1EA9}m'') ''v1:a:pn'']] @
      map (\<lambda>product.
        [dataButton (activeMark (Product_Active product) @ '' '' @ Product_Name product)
           (''v1:a:pe:'' @ intText (Product_ID product) @ '':'' @ intText (Product_Version product)),
         dataButton (lit ''B{1EAD}t/t{1EAF}t'') (''v1:a:pa:'' @ intText (Product_ID product) @ '':'' @
           intText (Product_Version product) @ '':'' @ toggleTarget (Product_Active product))]) (fst page) @
      navigationRows ''v1:a:p:'' (snd page))"

end
