(* ===== verification/Router_Base.thy ===== *)
theory Router_Base
  imports Telegram_View
begin

text \<open>
  What the router of updates is made of (\<open>telegram/router.go\<close>): the updates it reads, the plan of a response, the
  payload of an administrator's conversation with its JSON form, the codes and texts of errors, and the calls to
  Telegram that carry a plan out.
\<close>

section \<open>Updates\<close>

text \<open>The fields of the client library's types that the router reads.\<close>

record tg_user =
  tu_ID :: int64
  tu_IsBot :: bool
  tu_Username :: string
  tu_FirstName :: string
  tu_LastName :: string

record tg_message =
  tm_From :: "tg_user option"
  tm_ChatID :: int64
  tm_Text :: string

datatype query_message = NoMessage | AccessibleMessage int64 int | InaccessibleMessage int64 int

record tg_query =
  cq_ID :: string
  cq_From :: tg_user
  cq_Message :: query_message
  cq_Data :: string

record tg_update =
  upd_ID :: int64
  upd_Message :: "tg_message option"
  upd_CallbackQuery :: "tg_query option"
  upd_Edited :: bool

definition updateKind :: "tg_update option \<Rightarrow> update" where
  "updateKind u =
     (case u of None \<Rightarrow> NoUpdate
      | Some u \<Rightarrow> if upd_Message u \<noteq> None then MessageUpdate
          else if upd_CallbackQuery u \<noteq> None then CallbackQueryUpdate
          else if upd_Edited u then EditedMessageUpdate else OtherUpdate)"

definition profileFromUser :: "tg_user \<Rightarrow> TelegramProfile" where
  "profileFromUser user = \<lparr>Profile_TelegramUserID = tu_ID user, Profile_Username = tu_Username user,
     Profile_FirstName = tu_FirstName user, Profile_LastName = tu_LastName user\<rparr>"

definition callbackMessage :: "tg_query \<Rightarrow> int64 \<times> int" where
  "callbackMessage query =
     (case cq_Message query of AccessibleMessage chat m \<Rightarrow> (chat, m) | InaccessibleMessage chat m \<Rightarrow> (chat, m)
      | NoMessage \<Rightarrow> (0, 0))"

section \<open>The router and its plans\<close>

text \<open>
  The services of the router with their configuration: page sizes, limits, generators and ciphers, the sort orders
  of two listings, the providers if their administration is on, formats of time, and the reading \<open>rt_now name\<close> of
  the clock at the call with that name.
\<close>

record Router =
  rt_now :: "string \<Rightarrow> time"
  rt_staleAfter :: duration
  rt_catalogPageSize :: int
  rt_sessionTTL :: duration
  rt_protectInventory :: "int64 \<Rightarrow> string \<Rightarrow> error + EncryptedInventoryPayload"
  rt_importLimits :: InventoryImportLimits
  rt_inventoryPageSize :: int
  rt_protectBank :: "string \<Rightarrow> string \<Rightarrow> error + ProtectedNumber"
  rt_paymentEnvironment :: string
  rt_bankPageSize :: int
  rt_orders :: order_config
  rt_references :: "nat \<Rightarrow> error + string"
  rt_orderInstruction :: "OrderDetail \<Rightarrow> error + PaymentInstruction"
  rt_topupMin :: Money
  rt_topupMax :: Money
  rt_topupExpiry :: duration
  rt_topupReference :: "error + string"
  rt_topupInstruction :: "topup_row \<Rightarrow> error + PaymentInstruction"
  rt_skipLocked :: "int64 \<Rightarrow> bool"
  rt_reservationTTL :: duration
  rt_deliveryMaxAttempts :: int32
  rt_reviewPageSize :: int
  rt_oldestReviews :: "review_row list \<Rightarrow> review_row list"
  rt_deliveryPageSize :: int
  rt_newestDeliveries :: "(job_row \<times> order_item_row) list \<Rightarrow> (job_row \<times> order_item_row) list"
  rt_deliveryMetrics :: bool
  rt_processingLease :: duration
  rt_providers :: "PaymentProviderDescriptor list option"
  rt_providerPageSize :: int
  rt_collateProviders :: "(provider_account_row \<times> bank_row) list \<Rightarrow> (provider_account_row \<times> bank_row) list"
  rt_sha256 :: "string \<Rightarrow> string"
  rt_supportContact :: string
  rt_formats :: time_formats
  rt_parseTime :: "string \<Rightarrow> time option"
  rt_lower :: "string \<Rightarrow> string"
  rt_unicode :: unicode

record responsePlan =
  rp_chatID :: int64
  rp_messageID :: int
  rp_text :: string
  rp_keyboard :: Keyboard
  rp_callbackID :: string
  rp_callbackText :: string
  rp_callbackAlert :: bool
  rp_edit :: bool
  rp_completedByApp :: bool

definition emptyPlan :: responsePlan where
  "emptyPlan = \<lparr>rp_chatID = 0, rp_messageID = 0, rp_text = [], rp_keyboard = [], rp_callbackID = [],
     rp_callbackText = [], rp_callbackAlert = False, rp_edit = False, rp_completedByApp = False\<rparr>"

text \<open>\<open>responsePlan{chatID: ..., text: ..., keyboard: ...}\<close>, the answer to a message.\<close>

definition reply :: "int64 \<Rightarrow> view \<Rightarrow> responsePlan" where
  "reply chatID v = emptyPlan\<lparr>rp_chatID := chatID, rp_text := fst v, rp_keyboard := snd v\<rparr>"

text \<open>\<open>plan.text, plan.keyboard = ...\<close>, and the same when the service has completed the receipt.\<close>

definition display :: "responsePlan \<Rightarrow> view \<Rightarrow> responsePlan" where
  "display plan v = plan\<lparr>rp_text := fst v, rp_keyboard := snd v\<rparr>"

definition completed :: "responsePlan \<Rightarrow> view \<Rightarrow> responsePlan" where
  "completed plan v = plan\<lparr>rp_text := fst v, rp_keyboard := snd v, rp_completedByApp := True\<rparr>"

definition cancelKeyboard :: "session_row \<Rightarrow> Keyboard" where
  "cancelKeyboard session =
     [[dataButton (lit ''H{1EE7}y'') (''v1:a:x:'' @ intText (ses_id session) @ '':'' @ intText (ses_version session))]]"

fun activeBankOption :: "BankAccountOption list \<Rightarrow> int64 \<Rightarrow> BankAccountOption option" where
  "activeBankOption [] bid = None"
| "activeBankOption (item # items) bid = (if bao_ID item = bid then Some item else activeBankOption items bid)"

definition boolBit :: "bool \<Rightarrow> int" where
  "boolBit value = (if value then 1 else 0)"

text \<open>The other keyboards that the router builds itself.\<close>

definition supportKeyboard :: Keyboard where
  "supportKeyboard = [[dataButton (lit ''{2B05}{FE0F} Menu'') ''v1:m'']]"

definition cancelledKeyboard :: Keyboard where
  "cancelledKeyboard = [[dataButton (lit ''Danh s{E1}ch {111}{1A1}n'') ''v1:o:l:0'']]"

definition paidKeyboard :: "int64 \<Rightarrow> Keyboard" where
  "paidKeyboard orderID = [[dataButton (lit ''Xem {111}{1A1}n'') (''v1:o:v:'' @ intText orderID)]]"

definition confirmKeyboard :: "string \<Rightarrow> session_row \<Rightarrow> int64 \<Rightarrow> Callback \<Rightarrow> Keyboard" where
  "confirmKeyboard tag session record cb =
     [[dataButton (lit ''X{E1}c nh{1EAD}n'') (tag @ intText (ses_id session) @ '':'' @
       intText (ses_version session) @ '':'' @ intText record @ '':'' @ intText (RecordVersion cb) @ '':'' @
       intText (boolBit (Active cb)))]]"

definition evidenceKeyboard :: "string \<Rightarrow> session_row \<Rightarrow> Keyboard" where
  "evidenceKeyboard label session =
     [[dataButton label (''v1:a:dc:'' @ intText (ses_id session) @ '':'' @ intText (ses_version session))],
      [dataButton (lit ''H{1EE7}y'') (''v1:a:x:'' @ intText (ses_id session) @ '':'' @ intText (ses_version session))]]"

section \<open>Calls to Telegram\<close>

datatype messenger_call =
    AnswerCallback string string bool
  | SendMessage int64 string Keyboard
  | EditMessage int64 int string Keyboard

definition executePlan :: "responsePlan \<Rightarrow> messenger_call list" where
  "executePlan plan =
     (if rp_callbackID plan \<noteq> []
      then [AnswerCallback (rp_callbackID plan) (rp_callbackText plan) (rp_callbackAlert plan)] else []) @
     (if rp_text plan = [] \<or> rp_chatID plan = 0 then []
      else if rp_edit plan then [EditMessage (rp_chatID plan) (rp_messageID plan) (rp_text plan) (rp_keyboard plan)]
      else [SendMessage (rp_chatID plan) (rp_text plan) (rp_keyboard plan)])"

definition answerDuplicateCallback :: "tg_update \<Rightarrow> string \<Rightarrow> messenger_call list" where
  "answerDuplicateCallback u answer =
     (case upd_CallbackQuery u of None \<Rightarrow> []
      | Some query \<Rightarrow> if cq_ID query = [] then [] else [AnswerCallback (cq_ID query) answer False])"

section \<open>Errors\<close>

definition errorCode :: "error \<Rightarrow> string" where
  "errorCode err =
     (if err = ErrInvalidInput then ''invalid_input''
      else if err = ErrInvalidInventoryPayload then ''invalid_input''
      else if err = Peripheral ErrImportLimitExceeded then ''limit_exceeded''
      else if err = Peripheral ErrInventoryNotFound then ''not_found''
      else if err = ErrInvalidInventoryState \<or> err = Peripheral ErrInventoryUnavailable then ''stale''
      else if err = ErrForbidden \<or> err = ErrUnauthorized then ''forbidden''
      else if err = ErrNotFound then ''not_found''
      else if err = ErrSessionExpired then ''session_expired''
      else if err = ErrStaleVersion then ''stale''
      else if err = ErrConflict then ''conflict''
      else if err = ErrInvalidQuantity \<or> err = ErrQuantityLimitExceeded then ''invalid_quantity''
      else if err = ErrInsufficientInventory then ''insufficient_inventory''
      else if err = ErrOrderNotFound \<or> err = Peripheral ErrOrderNotOwned \<or> err = ErrBankAccountNotFound then ''not_found''
      else if err = ErrOrderExpired \<or> err = ErrInvalidOrderState \<or> err = ErrBankAccountInactive then ''stale''
      else ''internal_error'')"

definition userError :: "error \<Rightarrow> string" where
  "userError err =
     (let code = errorCode err in
      if code = ''invalid_input'' then (lit ''D{1EEF} li{1EC7}u kh{F4}ng h{1EE3}p l{1EC7}.'')
      else if code = ''forbidden'' then (lit ''B{1EA1}n kh{F4}ng c{F3} quy{1EC1}n th{1EF1}c hi{1EC7}n thao t{E1}c n{E0}y.'')
      else if code = ''not_found'' then (lit ''Kh{F4}ng t{EC}m th{1EA5}y d{1EEF} li{1EC7}u.'')
      else if code = ''session_expired'' then (lit ''Phi{EA}n thao t{E1}c {111}{E3} h{1EBF}t h{1EA1}n.'')
      else if code = ''stale'' then (lit ''Thao t{E1}c {111}{E3} c{169}, vui l{F2}ng m{1EDF} l{1EA1}i menu.'')
      else if code = ''conflict'' then (lit ''D{1EEF} li{1EC7}u {111}{E3} t{1ED3}n t{1EA1}i ho{1EB7}c v{1EEB}a thay {111}{1ED5}i.'')
      else if code = ''limit_exceeded'' then (lit ''D{1EEF} li{1EC7}u import v{1B0}{1EE3}t gi{1EDB}i h{1EA1}n cho ph{E9}p.'')
      else if code = ''invalid_quantity'' then (lit ''S{1ED1} l{1B0}{1EE3}ng kh{F4}ng h{1EE3}p l{1EC7}.'')
      else if code = ''insufficient_inventory'' then (lit ''S{1EA3}n ph{1EA9}m hi{1EC7}n kh{F4}ng {111}{1EE7} s{1ED1} l{1B0}{1EE3}ng kh{1EA3} d{1EE5}ng.'')
      else (lit ''C{F3} l{1ED7}i x{1EA3}y ra, vui l{F2}ng th{1EED} l{1EA1}i.''))"

section \<open>The payload of a conversation\<close>

record workflowPayload =
  wp_Step :: string
  wp_CategoryID :: int64
  wp_ProductID :: int64
  wp_RecordVersion :: int64
  wp_InventoryItemID :: int64
  wp_Active :: bool
  wp_Name :: string
  wp_Description :: string
  wp_SortOrder :: int32
  wp_PriceVND :: int64
  wp_BankAccountID :: int64
  wp_ReviewID :: int64
  wp_BankBIN :: string
  wp_BankName :: string
  wp_DisplayName :: string
  wp_AccountName :: string
  wp_DeliveryID :: int64
  wp_ProviderAccountID :: int64
  wp_TelegramMessageID :: int64
  wp_Reason :: string

definition atStep :: "string \<Rightarrow> workflowPayload" where
  "atStep step = \<lparr>wp_Step = step, wp_CategoryID = 0, wp_ProductID = 0, wp_RecordVersion = 0, wp_InventoryItemID = 0,
     wp_Active = False, wp_Name = [], wp_Description = [], wp_SortOrder = 0, wp_PriceVND = 0, wp_BankAccountID = 0,
     wp_ReviewID = 0, wp_BankBIN = [], wp_BankName = [], wp_DisplayName = [], wp_AccountName = [], wp_DeliveryID = 0,
     wp_ProviderAccountID = 0, wp_TelegramMessageID = 0, wp_Reason = []\<rparr>"

text \<open>\<open>json.Marshal\<close>: all fields but the step have \<open>omitempty\<close>.\<close>

definition omitInt :: "string \<Rightarrow> int \<Rightarrow> json" where
  "omitInt name v = (if v = 0 then [] else [(name, JInt v)])"

definition omitText :: "string \<Rightarrow> string \<Rightarrow> json" where
  "omitText name v = (if v = [] then [] else [(name, JText v)])"

definition workflowJSON :: "workflowPayload \<Rightarrow> json" where
  "workflowJSON p =
     [(''step'', JText (wp_Step p))] @ omitInt ''category_id'' (wp_CategoryID p) @
     omitInt ''product_id'' (wp_ProductID p) @ omitInt ''record_version'' (wp_RecordVersion p) @
     omitInt ''inventory_item_id'' (wp_InventoryItemID p) @
     (if wp_Active p then [(''active'', JBool True)] else []) @
     omitText ''name'' (wp_Name p) @ omitText ''description'' (wp_Description p) @
     omitInt ''sort_order'' (wp_SortOrder p) @ omitInt ''price_vnd'' (wp_PriceVND p) @
     omitInt ''bank_account_id'' (wp_BankAccountID p) @ omitInt ''review_id'' (wp_ReviewID p) @
     omitText ''bank_bin'' (wp_BankBIN p) @ omitText ''bank_name'' (wp_BankName p) @
     omitText ''display_name'' (wp_DisplayName p) @ omitText ''account_name'' (wp_AccountName p) @
     omitInt ''delivery_id'' (wp_DeliveryID p) @ omitInt ''provider_account_id'' (wp_ProviderAccountID p) @
     omitInt ''telegram_message_id'' (wp_TelegramMessageID p) @ omitText ''reason'' (wp_Reason p)"

text \<open>
  \<open>json.Unmarshal\<close> into the payload: member names match regardless of case, \<open>null\<close> leaves the field, a value of
  another type or out of range is an error.
\<close>

definition int64Members :: "(string \<times> (int64 \<Rightarrow> workflowPayload \<Rightarrow> workflowPayload)) list" where
  "int64Members =
     [(''category_id'', \<lambda>v. wp_CategoryID_update (\<lambda>_. v)), (''product_id'', \<lambda>v. wp_ProductID_update (\<lambda>_. v)),
      (''record_version'', \<lambda>v. wp_RecordVersion_update (\<lambda>_. v)),
      (''inventory_item_id'', \<lambda>v. wp_InventoryItemID_update (\<lambda>_. v)),
      (''price_vnd'', \<lambda>v. wp_PriceVND_update (\<lambda>_. v)), (''bank_account_id'', \<lambda>v. wp_BankAccountID_update (\<lambda>_. v)),
      (''review_id'', \<lambda>v. wp_ReviewID_update (\<lambda>_. v)), (''delivery_id'', \<lambda>v. wp_DeliveryID_update (\<lambda>_. v)),
      (''provider_account_id'', \<lambda>v. wp_ProviderAccountID_update (\<lambda>_. v)),
      (''telegram_message_id'', \<lambda>v. wp_TelegramMessageID_update (\<lambda>_. v))]"

definition textMembers :: "(string \<times> (string \<Rightarrow> workflowPayload \<Rightarrow> workflowPayload)) list" where
  "textMembers =
     [(''step'', \<lambda>v. wp_Step_update (\<lambda>_. v)), (''name'', \<lambda>v. wp_Name_update (\<lambda>_. v)),
      (''description'', \<lambda>v. wp_Description_update (\<lambda>_. v)), (''bank_bin'', \<lambda>v. wp_BankBIN_update (\<lambda>_. v)),
      (''bank_name'', \<lambda>v. wp_BankName_update (\<lambda>_. v)), (''display_name'', \<lambda>v. wp_DisplayName_update (\<lambda>_. v)),
      (''account_name'', \<lambda>v. wp_AccountName_update (\<lambda>_. v)), (''reason'', \<lambda>v. wp_Reason_update (\<lambda>_. v))]"

definition payloadMember :: "string \<times> jval \<Rightarrow> workflowPayload option \<Rightarrow> workflowPayload option" where
  "payloadMember m acc =
     (case acc of None \<Rightarrow> None | Some p \<Rightarrow>
        let name = map lowerChar (fst m); value = snd m in
        if value = JRaw ''null'' then Some p
        else case map_of int64Members name of
          Some put \<Rightarrow> (case value of JInt i \<Rightarrow> if is_int64 i then Some (put i p) else None | _ \<Rightarrow> None)
        | None \<Rightarrow> (case map_of textMembers name of
            Some put \<Rightarrow> (case value of JText t \<Rightarrow> Some (put t p) | _ \<Rightarrow> None)
          | None \<Rightarrow>
              if name = ''sort_order'' then
                (case value of JInt i \<Rightarrow> if is_int32 i then Some (p\<lparr>wp_SortOrder := i\<rparr>) else None | _ \<Rightarrow> None)
              else if name = ''active'' then (case value of JBool b \<Rightarrow> Some (p\<lparr>wp_Active := b\<rparr>) | _ \<Rightarrow> None)
              else Some p))"

definition workflowOf :: "json \<Rightarrow> workflowPayload option" where
  "workflowOf members = fold payloadMember members (Some (atStep []))"

text \<open>\<open>strings.SplitN\<close> with a separator of one byte.\<close>

definition SplitN :: "char \<Rightarrow> string \<Rightarrow> nat \<Rightarrow> string list" where
  "SplitN sep s n =
     (let parts = Split sep s in
      if length parts \<le> n then parts else take (n - 1) parts @ [joinWith sep (drop (n - 1) parts)])"

text \<open>What a conversation stores at one message it reads back at the next.\<close>

definition payloadFits :: "workflowPayload \<Rightarrow> bool" where
  "payloadFits p \<longleftrightarrow> is_int64 (wp_CategoryID p) \<and> is_int64 (wp_ProductID p) \<and> is_int64 (wp_RecordVersion p) \<and>
     is_int64 (wp_InventoryItemID p) \<and> is_int32 (wp_SortOrder p) \<and> is_int64 (wp_PriceVND p) \<and>
     is_int64 (wp_BankAccountID p) \<and> is_int64 (wp_ReviewID p) \<and> is_int64 (wp_DeliveryID p) \<and>
     is_int64 (wp_ProviderAccountID p) \<and> is_int64 (wp_TelegramMessageID p)"

lemma payloadMember_int:
  "map_of int64Members name = Some put \<Longrightarrow> map lowerChar name = name \<Longrightarrow> is_int64 i \<Longrightarrow>
   payloadMember (name, JInt i) (Some p) = Some (put i p)"
  by (simp add: payloadMember_def)

lemma payloadMember_text:
  "map_of textMembers name = Some put \<Longrightarrow> map_of int64Members name = None \<Longrightarrow> map lowerChar name = name \<Longrightarrow>
   payloadMember (name, JText t) (Some p) = Some (put t p)"
  by (simp add: payloadMember_def)

lemma fold_omitInt:
  assumes "map_of int64Members name = Some put" "map lowerChar name = name" "is_int64 v" "v = 0 \<Longrightarrow> put 0 p = p"
  shows "fold payloadMember (omitInt name v) (Some p) = Some (put v p)"
  using assms by (auto simp: omitInt_def payloadMember_int)

lemma fold_omitText:
  assumes "map_of textMembers name = Some put" "map_of int64Members name = None" "map lowerChar name = name"
    "v = [] \<Longrightarrow> put [] p = p"
  shows "fold payloadMember (omitText name v) (Some p) = Some (put v p)"
  using assms by (auto simp: omitText_def payloadMember_text)

text \<open>
  The payload of an administrator's conversation survives its way through the database: what a step stores as
  JSON, leaving out the members that are zero, is what the next step reads back, member by member.
\<close>

theorem workflow_roundtrip: "payloadFits p \<Longrightarrow> workflowOf (workflowJSON p) = Some p"
proof -
  assume fits: "payloadFits p"
  note tables = int64Members_def textMembers_def lowerChar_def atStep_def
  have sort: "fold payloadMember (omitInt ''sort_order'' v) (Some q) = Some (q\<lparr>wp_SortOrder := v\<rparr>)"
    if "is_int32 v" "wp_SortOrder q = 0" for v q
    using that by (auto simp: omitInt_def payloadMember_def tables)
  show ?thesis
    using fits unfolding workflowOf_def workflowJSON_def payloadFits_def
    by (simp add: fold_omitInt fold_omitText sort payloadMember_def tables)
qed

theorem workflow_roundtrip_witness:
  "workflowOf (workflowJSON ((atStep ''sort'')\<lparr>wp_CategoryID := 7, wp_RecordVersion := 2, wp_Name := ''Games''\<rparr>)) =
     Some ((atStep ''sort'')\<lparr>wp_CategoryID := 7, wp_RecordVersion := 2, wp_Name := ''Games''\<rparr>)"
  by (rule workflow_roundtrip) (simp add: payloadFits_def atStep_def; code_simp)

end
