(* ===== verification/Router_Callbacks.thy ===== *)
theory Router_Callbacks
  imports Router_Base
begin

text \<open>
  \<open>routeCallback\<close> of \<open>telegram/router.go\<close>: what every button does. One definition per case of the switch, in its
  order, and the switch itself at the end. Metrics and log lines are left out.
\<close>

section \<open>The customer\<close>

definition onMenu :: "responsePlan \<Rightarrow> responsePlan dbtx" where
  "onMenu plan = returnE (display plan (MainMenuText (lit ''b{1EA1}n''), MainMenuKeyboard))"

definition supportText :: "Router \<Rightarrow> string" where
  "supportText r = (lit ''H{1ED7} tr{1EE3}: <b>'') @ Escape (rt_supportContact r) @ ''</b>''"

definition onSupport :: "Router \<Rightarrow> responsePlan \<Rightarrow> responsePlan dbtx" where
  "onSupport r plan = returnE (display plan (supportText r, supportKeyboard))"

definition onCategories :: "Router \<Rightarrow> Callback \<Rightarrow> responsePlan \<Rightarrow> responsePlan dbtx" where
  "onCategories r cb plan =
     bindE (CatalogService_ListCategories (rt_catalogPageSize r) (Page cb)) (\<lambda>page.
     returnE (display plan (CategoriesView page)))"

definition onProducts :: "Router \<Rightarrow> Callback \<Rightarrow> responsePlan \<Rightarrow> responsePlan dbtx" where
  "onProducts r cb plan =
     bindE (CatalogService_ListProducts (rt_catalogPageSize r) (CategoryID cb) (Page cb)) (\<lambda>page.
     returnE (display plan (ProductsView (CategoryID cb) page)))"

definition onProductDetail :: "Callback \<Rightarrow> responsePlan \<Rightarrow> responsePlan dbtx" where
  "onProductDetail cb plan =
     bindE (CatalogService_GetProduct (ProductID cb)) (\<lambda>product.
     returnE (display plan (ProductView product (CategoryID cb) (Page cb))))"

definition onOrderQuantity :: "Router \<Rightarrow> Callback \<Rightarrow> responsePlan \<Rightarrow> responsePlan dbtx" where
  "onOrderQuantity r cb plan =
     bindE (BankAccountService_ListActive (rt_paymentEnvironment r)) (\<lambda>banks.
     if banks = [] then throwE ErrBankAccountNotFound
     else returnE (display plan (BankSelectionView (ProductID cb) (Quantity cb) banks)))"

definition onOrderBank :: "Router \<Rightarrow> Callback \<Rightarrow> RequestMeta \<Rightarrow> responsePlan \<Rightarrow> responsePlan dbtx" where
  "onOrderBank r cb meta plan =
     bindE (BankAccountService_ListActive (rt_paymentEnvironment r)) (\<lambda>banks.
     case activeBankOption banks (BankAccountID cb) of
       None \<Rightarrow> throwE ErrBankAccountInactive
     | Some bank \<Rightarrow> returnE (display plan (OrderConfirmView (UpdateID meta) (ProductID cb) (Quantity cb) bank)))"

definition onOrderConfirm :: "Router \<Rightarrow> int64 \<Rightarrow> Callback \<Rightarrow> RequestMeta \<Rightarrow> responsePlan \<Rightarrow> responsePlan dbtx" where
  "onOrderConfirm r telegramID cb meta plan =
     bindE (OrderService_Create (rt_references r) (rt_orderInstruction r) (rt_orders r) (rt_now r ''orders.Create'')
       \<lparr>coc_TelegramUserID = telegramID, coc_ProductID = ProductID cb, coc_BankAccountID = BankAccountID cb,
        coc_Quantity = Quantity cb, coc_IdempotencyKey = ''telegram-order-flow:'' @ intText (FlowID cb),
        coc_Meta = meta\<rparr>) (\<lambda>(order, duplicate, instruction).
     returnE (completed plan (PaymentInstructionView (rt_formats r) order instruction)))"

definition onOrders :: "Router \<Rightarrow> int64 \<Rightarrow> Callback \<Rightarrow> responsePlan \<Rightarrow> responsePlan dbtx" where
  "onOrders r telegramID cb plan =
     bindE (OrderService_List (rt_orders r) telegramID (Page cb)) (\<lambda>page.
     returnE (display plan (OrdersView (rt_formats r) page)))"

definition onOrderView :: "Router \<Rightarrow> int64 \<Rightarrow> Callback \<Rightarrow> responsePlan \<Rightarrow> responsePlan dbtx" where
  "onOrderView r telegramID cb plan =
     bindE (OrderService_Get (rt_orderInstruction r) telegramID (OrderID cb)) (\<lambda>(order, instruction).
     returnE (display plan (OrderDetailView (rt_formats r) order instruction)))"

definition onOrderAskCancel :: "Router \<Rightarrow> int64 \<Rightarrow> Callback \<Rightarrow> responsePlan \<Rightarrow> responsePlan dbtx" where
  "onOrderAskCancel r telegramID cb plan =
     bindE (OrderService_Get (rt_orderInstruction r) telegramID (OrderID cb)) (\<lambda>(order, _).
     if od_Status order \<noteq> OrderStatusPendingPayment \<or> od_Version order \<noteq> RecordVersion cb
     then throwE ErrInvalidOrderState
     else returnE (display plan (OrderCancelConfirmationView (od_ID order) (od_Version order))))"

definition onOrderCancel :: "Router \<Rightarrow> int64 \<Rightarrow> Callback \<Rightarrow> RequestMeta \<Rightarrow> responsePlan \<Rightarrow> responsePlan dbtx" where
  "onOrderCancel r telegramID cb meta plan =
     bindE (OrderService_Cancel (rt_now r ''orders.Cancel'') \<lparr>cac_TelegramUserID = telegramID, cac_OrderID = OrderID cb,
       cac_ExpectedVersion = RecordVersion cb, cac_Meta = meta\<rparr>) (\<lambda>(order, already).
     returnE (completed plan ((lit ''{110}{E3} h{1EE7}y {111}{1A1}n #'') @ intText (od_ID order) @ ''.'', cancelledKeyboard)))"

definition onOrderWalletAsk :: "Router \<Rightarrow> int64 \<Rightarrow> Callback \<Rightarrow> RequestMeta \<Rightarrow> responsePlan \<Rightarrow> responsePlan dbtx" where
  "onOrderWalletAsk r telegramID cb meta plan =
     bindE (OrderService_Get (rt_orderInstruction r) telegramID (OrderID cb)) (\<lambda>(order, _).
     if od_Status order \<noteq> OrderStatusPendingPayment then throwE ErrInvalidOrderState else
     bindE (WalletService_Balance telegramID) (\<lambda>account.
     returnE (display plan (WalletOrderConfirmationView order account (UpdateID meta)))))"

definition onOrderWalletPay :: "Router \<Rightarrow> int64 \<Rightarrow> Callback \<Rightarrow> RequestMeta \<Rightarrow> responsePlan \<Rightarrow> responsePlan dbtx" where
  "onOrderWalletPay r telegramID cb meta plan =
     bindE (WalletService_PayOrder (rt_skipLocked r) (rt_reservationTTL r) (rt_deliveryMaxAttempts r)
       (rt_now r ''wallet.PayOrder'') \<lparr>wop_TelegramUserID = telegramID, wop_OrderID = OrderID cb,
        wop_IdempotencyKey = ''telegram-wallet-order:'' @ intText (FlowID cb), wop_Meta = meta\<rparr>) (\<lambda>result.
     returnE (completed plan
       ((lit ''{110}{E3} thanh to{E1}n {111}{1A1}n #'') @ intText (wor_OrderID result) @ (lit '' b{1EB1}ng v{ED}. S{1ED1} d{1B0} c{F2}n l{1EA1}i: '') @
          formatVND (wor_Balance result) @ (lit '' {20AB}. {110}{1A1}n {111}ang gi{1EEF} h{E0}ng {111}{1EC3} ch{1EDD} giao.''),
        paidKeyboard (wor_OrderID result))))"

definition onWalletBalance :: "int64 \<Rightarrow> responsePlan \<Rightarrow> responsePlan dbtx" where
  "onWalletBalance telegramID plan =
     bindE (WalletService_Balance telegramID) (\<lambda>account. returnE (display plan (WalletBalanceView account)))"

definition onTopupAmount :: "Router \<Rightarrow> Callback \<Rightarrow> RequestMeta \<Rightarrow> responsePlan \<Rightarrow> responsePlan dbtx" where
  "onTopupAmount r cb meta plan =
     bindE (BankAccountService_ListActive (rt_paymentEnvironment r)) (\<lambda>banks.
     if banks = [] then throwE ErrBankAccountNotFound
     else returnE (display plan (WalletTopupBankView (UpdateID meta) (AmountVND cb) banks)))"

definition onTopupBank :: "Router \<Rightarrow> int64 \<Rightarrow> Callback \<Rightarrow> RequestMeta \<Rightarrow> responsePlan \<Rightarrow> responsePlan dbtx" where
  "onTopupBank r telegramID cb meta plan =
     bindE (WalletService_CreateTopup (rt_topupMin r) (rt_topupMax r) (rt_topupExpiry r) (rt_paymentEnvironment r)
       (rt_topupReference r) (rt_topupInstruction r) (rt_now r ''wallet.CreateTopup'')
       \<lparr>cwt_TelegramUserID = telegramID, cwt_Amount = AmountVND cb, cwt_BankAccountID = BankAccountID cb,
        cwt_IdempotencyKey = ''telegram-wallet-topup:'' @ intText (FlowID cb), cwt_Meta = meta,
        cwt_PaymentEnvironment = []\<rparr>) (\<lambda>(topup, instruction, duplicate).
     returnE (completed plan (WalletTopupInstructionView (rt_formats r) topup instruction)))"

section \<open>Sessions\<close>

definition startSession ::
  "Router \<Rightarrow> int64 \<Rightarrow> string \<Rightarrow> workflowPayload \<Rightarrow> RequestMeta \<Rightarrow> session_row dbtx" where
  "startSession r telegramID state payload meta =
     AdminService_StartSession (rt_sessionTTL r) (rt_now r ''admins.StartSession'') telegramID state
       (Some (workflowJSON payload)) meta"

text \<open>A session that starts with a question, and one that asks for a confirmation.\<close>

definition askFor ::
  "Router \<Rightarrow> int64 \<Rightarrow> string \<Rightarrow> workflowPayload \<Rightarrow> string \<Rightarrow> RequestMeta \<Rightarrow> responsePlan \<Rightarrow> responsePlan dbtx" where
  "askFor r telegramID state payload prompt meta plan =
     bindE (startSession r telegramID state payload meta) (\<lambda>session.
     returnE (completed plan (prompt, cancelKeyboard session)))"

definition askConfirm ::
  "Router \<Rightarrow> int64 \<Rightarrow> string \<Rightarrow> workflowPayload \<Rightarrow> string \<Rightarrow> string \<Rightarrow> int64 \<Rightarrow> Callback \<Rightarrow> RequestMeta \<Rightarrow> responsePlan \<Rightarrow>
   responsePlan dbtx" where
  "askConfirm r telegramID state payload prompt tag record cb meta plan =
     bindE (startSession r telegramID state payload meta) (\<lambda>session.
     returnE (completed plan (prompt, confirmKeyboard tag session record cb)))"

text \<open>\<open>app.AdminSession{ID: ..., AdminID: ..., Version: ...}\<close> of the administrator who pressed the button.\<close>

definition pressedSession :: "Callback \<Rightarrow> Admin \<Rightarrow> session_row" where
  "pressedSession cb admin = \<lparr>ses_id = SessionID cb, ses_admin_id = Admin_ID admin, ses_state = [], ses_payload = [],
     ses_expires_at = 0, ses_version = SessionVersion cb\<rparr>"

definition toggleInput :: "int64 \<Rightarrow> Callback \<Rightarrow> RequestMeta \<Rightarrow> SetActiveInput" where
  "toggleInput record cb meta =
     \<lparr>sai_ID = record, sai_ExpectedRecord = RecordVersion cb, sai_Active = Active cb, sai_Meta = meta\<rparr>"

section \<open>The administrator\<close>

text \<open>The case of both catalog screens: it authorizes and shows nothing.\<close>

definition onAdminCatalog :: "int64 \<Rightarrow> responsePlan \<Rightarrow> responsePlan dbtx" where
  "onAdminCatalog telegramID plan = bindE (AdminService_Authorize telegramID False) (\<lambda>_. returnE plan)"

definition onPaymentReviews :: "Router \<Rightarrow> int64 \<Rightarrow> Callback \<Rightarrow> responsePlan \<Rightarrow> responsePlan dbtx" where
  "onPaymentReviews r telegramID cb plan =
     bindE (PaymentAdminService_ListReviews (rt_oldestReviews r) (rt_reviewPageSize r) telegramID (Page cb)) (\<lambda>page.
     returnE (display plan (PaymentReviewsView page)))"

definition onDeliveries :: "Router \<Rightarrow> int64 \<Rightarrow> Callback \<Rightarrow> responsePlan \<Rightarrow> responsePlan dbtx" where
  "onDeliveries r telegramID cb plan =
     bindE (DeliveryAdminService_List (rt_newestDeliveries r) (rt_deliveryMetrics r) (rt_deliveryPageSize r) telegramID
       (Page cb)) (\<lambda>page.
     returnE (display plan (DeliveryReviewsView page)))"

definition onDeliveryDetail :: "int64 \<Rightarrow> Callback \<Rightarrow> responsePlan \<Rightarrow> responsePlan dbtx" where
  "onDeliveryDetail telegramID cb plan =
     bindE (DeliveryAdminService_Get telegramID (DeliveryID cb)) (\<lambda>detail.
     returnE (display plan (DeliveryDetailView detail)))"

definition onDeliveryResolution :: "Router \<Rightarrow> int64 \<Rightarrow> Callback \<Rightarrow> RequestMeta \<Rightarrow> responsePlan \<Rightarrow> responsePlan dbtx" where
  "onDeliveryResolution r telegramID cb meta plan =
     (let complete = (Action cb = CallbackAdminDeliveryComplete) in
      askFor r telegramID (if complete then ''delivery.complete'' else ''delivery.retry'')
        ((atStep (if complete then ''evidence'' else ''reason''))\<lparr>wp_DeliveryID := DeliveryID cb,
          wp_RecordVersion := RecordVersion cb\<rparr>)
        (if \<not> complete then (lit ''Ch{1EC9} ti{1EBF}p t{1EE5}c sau khi {111}{E3} x{E1}c minh credential ch{1B0}a {111}{1B0}{1EE3}c giao. G{1EED}i l{FD} do/evidence ki{1EC3}m tra.'')
         else (lit ''G{1EED}i Telegram message ID v{E0} l{FD} do x{E1}c minh theo d{1EA1}ng: message_id|reason'')) meta plan)"

definition onDeliveryConfirm :: "Router \<Rightarrow> int64 \<Rightarrow> Callback \<Rightarrow> RequestMeta \<Rightarrow> responsePlan \<Rightarrow> responsePlan dbtx" where
  "onDeliveryConfirm r telegramID cb meta plan =
     bindE (AdminService_LoadSession (rt_now r ''admins.LoadSession'') telegramID) (\<lambda>session.
     if ses_id session \<noteq> SessionID cb \<or> ses_version session \<noteq> SessionVersion cb then throwE ErrStaleVersion else
     case workflowOf (ses_payload session) of None \<Rightarrow> throwE ErrInvalidInput
     | Some payload \<Rightarrow>
         if wp_Step payload \<noteq> ''confirm'' \<or> wp_DeliveryID payload \<le> 0 \<or> wp_RecordVersion payload \<le> 0
         then throwE ErrStaleVersion else
         let command = \<lparr>drc_AdminTelegramID = telegramID, drc_JobID = wp_DeliveryID payload,
               drc_ExpectedVersion = wp_RecordVersion payload, drc_TelegramMessageID = wp_TelegramMessageID payload,
               drc_Reason = wp_Reason payload, drc_Session = session, drc_Meta = meta\<rparr> in
         if ses_state session = ''delivery.retry'' then
           bindE (DeliveryAdminService_Retry (rt_now r ''deliveries.Retry'') command) (\<lambda>job.
           returnE (completed plan (''Delivery #'' @ intText (job_id (dri_Job job)) @
             (lit '' {111}{E3} {111}{1B0}{1EE3}c x{1EBF}p l{1EA1}i v{E0}o worker queue.''), [])))
         else if ses_state session = ''delivery.complete'' then
           bindE (DeliveryAdminService_Complete (rt_now r ''deliveries.Complete'') command) (\<lambda>job.
           returnE (completed plan (''Delivery #'' @ intText (job_id (dri_Job job)) @
             (lit '' {111}{E3} {111}{1B0}{1EE3}c x{E1}c nh{1EAD}n delivered t{1EEB} evidence.''), [])))
         else throwE ErrStaleVersion)"

definition onDeliveryReconcile :: "Router \<Rightarrow> int64 \<Rightarrow> responsePlan \<Rightarrow> responsePlan dbtx" where
  "onDeliveryReconcile r telegramID plan =
     bindE (DeliveryAdminService_Reconcile (rt_processingLease r) (rt_now r ''deliveries.Reconcile'') telegramID) (\<lambda>report.
     returnE (display plan (DeliveryReconciliationView report)))"

definition onPaymentManual :: "Router \<Rightarrow> int64 \<Rightarrow> RequestMeta \<Rightarrow> responsePlan \<Rightarrow> responsePlan dbtx" where
  "onPaymentManual r telegramID meta plan = askFor r telegramID ''payment.manual'' (atStep ''payment'')
     (lit ''G{1EED}i: transaction_id|reference|amount_vnd|currency|occurred_at_RFC3339|note'') meta plan"

definition onPaymentResolve :: "Router \<Rightarrow> int64 \<Rightarrow> Callback \<Rightarrow> RequestMeta \<Rightarrow> responsePlan \<Rightarrow> responsePlan dbtx" where
  "onPaymentResolve r telegramID cb meta plan =
     askFor r telegramID ''payment.review'' ((atStep ''resolution'')\<lparr>wp_ReviewID := ReviewID cb\<rparr>)
       (lit ''G{1EED}i ghi ch{FA} resolution. Case s{1EBD} {111}{1B0}{1EE3}c {111}{E1}nh d{1EA5}u resolved; kh{F4}ng c{F3} refund network.'') meta plan"

text \<open>
  The case of the wallet adjustment. After the session has started, the code goes on to the screens of the
  catalog: its action is not the one of the categories, so the products replace the question.
\<close>

definition onWalletAdjustment :: "Router \<Rightarrow> int64 \<Rightarrow> Callback \<Rightarrow> RequestMeta \<Rightarrow> responsePlan \<Rightarrow> responsePlan dbtx" where
  "onWalletAdjustment r telegramID cb meta plan =
     bindE (askFor r telegramID ''wallet.adjustment'' (atStep ''adjustment'')
       (lit ''G{1EED}i: telegram_user_id|credit/debit|amount_vnd|reason|idempotency_key'') meta plan) (\<lambda>plan1.
     if Action cb = CallbackAdminCategories then
       bindE (CatalogService_ListAdminCategories (rt_catalogPageSize r) (Page cb)) (\<lambda>page.
       returnE (display plan1 (AdminCategoriesView page)))
     else
       bindE (CatalogService_ListAdminProducts (rt_catalogPageSize r) (Page cb)) (\<lambda>page.
       returnE (display plan1 (AdminProductsView page))))"

definition onInventory :: "Router \<Rightarrow> int64 \<Rightarrow> Callback \<Rightarrow> responsePlan \<Rightarrow> responsePlan dbtx" where
  "onInventory r telegramID cb plan =
     bindE (InventoryAdminService_ListOverview (rt_inventoryPageSize r) telegramID (Page cb)) (\<lambda>page.
     returnE (display plan (AdminInventoryOverviewView page)))"

definition onBanks :: "Router \<Rightarrow> int64 \<Rightarrow> Callback \<Rightarrow> responsePlan \<Rightarrow> responsePlan dbtx" where
  "onBanks r telegramID cb plan =
     bindE (BankAccountService_ListAdmin (rt_bankPageSize r) telegramID (Page cb)) (\<lambda>page.
     returnE (display plan (AdminBankAccountsView page)))"

text \<open>The cases that need the administration of providers.\<close>

definition withProviders :: "Router \<Rightarrow> (PaymentProviderDescriptor list \<Rightarrow> responsePlan dbtx) \<Rightarrow> responsePlan dbtx" where
  "withProviders r f = (case rt_providers r of None \<Rightarrow> throwE ErrNotFound | Some providers \<Rightarrow> f providers)"

definition onProviderHealth :: "Router \<Rightarrow> int64 \<Rightarrow> responsePlan \<Rightarrow> responsePlan dbtx" where
  "onProviderHealth r telegramID plan = withProviders r (\<lambda>providers.
     bindE (PaymentProviderAdminService_Health providers telegramID) (\<lambda>items.
     returnE (display plan (PaymentProviderHealthView (rt_formats r) items))))"

definition onProviderAccounts :: "Router \<Rightarrow> int64 \<Rightarrow> Callback \<Rightarrow> responsePlan \<Rightarrow> responsePlan dbtx" where
  "onProviderAccounts r telegramID cb plan = withProviders r (\<lambda>_.
     bindE (PaymentProviderAdminService_ListAccounts (rt_collateProviders r) (rt_providerPageSize r) telegramID
       (Page cb)) (\<lambda>page.
     returnE (display plan (PaymentProviderAccountsView page))))"

definition onProviderAccountNew :: "Router \<Rightarrow> int64 \<Rightarrow> RequestMeta \<Rightarrow> responsePlan \<Rightarrow> responsePlan dbtx" where
  "onProviderAccountNew r telegramID meta plan = withProviders r (\<lambda>_.
     askFor r telegramID ''provider.account.create'' (atStep ''input'')
       (lit ''G{1EED}i: provider|environment|external_account_identity|local_bank_account_id|CONFIRM{A}Gi{E1} tr{1ECB} identity s{1EBD} kh{F4}ng {111}{1B0}{1EE3}c hi{1EC3}n th{1ECB} l{1EA1}i {111}{1EA7}y {111}{1EE7}.'')
       meta plan)"

definition onProviderAskToggle :: "Router \<Rightarrow> int64 \<Rightarrow> Callback \<Rightarrow> RequestMeta \<Rightarrow> responsePlan \<Rightarrow> responsePlan dbtx" where
  "onProviderAskToggle r telegramID cb meta plan = withProviders r (\<lambda>_.
     askConfirm r telegramID ''provider.account.toggle''
       ((atStep ''confirm'')\<lparr>wp_ProviderAccountID := ProviderAccountID cb, wp_RecordVersion := RecordVersion cb,
         wp_Active := Active cb\<rparr>)
       (lit ''X{E1}c nh{1EAD}n {111}{1ED5}i tr{1EA1}ng th{E1}i provider account mapping?'') ''v1:a:qt:'' (ProviderAccountID cb) cb meta plan)"

definition onProviderToggle :: "Router \<Rightarrow> int64 \<Rightarrow> Callback \<Rightarrow> RequestMeta \<Rightarrow> responsePlan \<Rightarrow> responsePlan dbtx" where
  "onProviderToggle r telegramID cb meta plan = withProviders r (\<lambda>_.
     bindE (AdminService_Authorize telegramID True) (\<lambda>admin.
     bindE (PaymentProviderAdminService_SetAccountActive (rt_now r ''providers.SetAccountActive'')
       \<lparr>spa_AdminTelegramID = telegramID, spa_MappingID = ProviderAccountID cb, spa_ExpectedVersion = RecordVersion cb,
        spa_Active = Active cb, spa_Confirmed = True, spa_Session = pressedSession cb admin, spa_Meta = meta\<rparr>) (\<lambda>mapping.
     returnE (plan\<lparr>rp_text := (lit ''{110}{E3} c{1EAD}p nh{1EAD}t provider mapping #'') @ intText (ppa_ID mapping) @ (lit '' th{E0}nh '') @
       Escape (ppa_Status mapping) @ ''.'', rp_completedByApp := True\<rparr>))))"

definition onBankNew :: "Router \<Rightarrow> int64 \<Rightarrow> RequestMeta \<Rightarrow> responsePlan \<Rightarrow> responsePlan dbtx" where
  "onBankNew r telegramID meta plan =
     askFor r telegramID ''bank.create'' (atStep ''bank_bin'') (lit ''G{1EED}i m{E3} BIN ng{E2}n h{E0}ng g{1ED3}m 6 ch{1EEF} s{1ED1}.'') meta plan"

definition onBankEdit :: "Router \<Rightarrow> int64 \<Rightarrow> Callback \<Rightarrow> RequestMeta \<Rightarrow> responsePlan \<Rightarrow> responsePlan dbtx" where
  "onBankEdit r telegramID cb meta plan = askFor r telegramID ''bank.edit''
     ((atStep ''bank_bin'')\<lparr>wp_BankAccountID := BankAccountID cb, wp_RecordVersion := RecordVersion cb\<rparr>)
     (lit ''G{1EED}i m{E3} BIN ng{E2}n h{E0}ng m{1EDB}i g{1ED3}m 6 ch{1EEF} s{1ED1}.'') meta plan"

definition onBankAskToggle :: "Router \<Rightarrow> int64 \<Rightarrow> Callback \<Rightarrow> RequestMeta \<Rightarrow> responsePlan \<Rightarrow> responsePlan dbtx" where
  "onBankAskToggle r telegramID cb meta plan = askConfirm r telegramID ''bank.toggle''
     ((atStep ''confirm'')\<lparr>wp_BankAccountID := BankAccountID cb, wp_RecordVersion := RecordVersion cb,
       wp_Active := Active cb\<rparr>)
     (lit ''X{E1}c nh{1EAD}n {111}{1ED5}i tr{1EA1}ng th{E1}i t{E0}i kho{1EA3}n ng{E2}n h{E0}ng?'') ''v1:a:bt:'' (BankAccountID cb) cb meta plan"

definition onBankToggle :: "Router \<Rightarrow> int64 \<Rightarrow> Callback \<Rightarrow> RequestMeta \<Rightarrow> responsePlan \<Rightarrow> responsePlan dbtx" where
  "onBankToggle r telegramID cb meta plan =
     bindE (AdminService_Authorize telegramID True) (\<lambda>admin.
     bindE (BankAccountService_SetActive (rt_now r ''banks.SetActive'') telegramID (pressedSession cb admin)
       (toggleInput (BankAccountID cb) cb meta)) (\<lambda>bank.
     returnE (completed plan ((lit ''{110}{E3} c{1EAD}p nh{1EAD}t t{E0}i kho{1EA3}n: '') @ Escape (bao_DisplayName (rba_Option bank)), []))))"

definition onInventoryList :: "Router \<Rightarrow> int64 \<Rightarrow> Callback \<Rightarrow> responsePlan \<Rightarrow> responsePlan dbtx" where
  "onInventoryList r telegramID cb plan =
     bindE (InventoryAdminService_ListItems (rt_inventoryPageSize r) telegramID (ProductID cb) (Page cb)) (\<lambda>page.
     returnE (display plan (AdminInventoryItemsView (rt_formats r) (ProductID cb) page)))"

definition onInventoryImport :: "Router \<Rightarrow> int64 \<Rightarrow> Callback \<Rightarrow> RequestMeta \<Rightarrow> responsePlan \<Rightarrow> responsePlan dbtx" where
  "onInventoryImport r telegramID cb meta plan =
     askFor r telegramID ''inventory.import'' ((atStep ''payload'')\<lparr>wp_ProductID := ProductID cb\<rparr>)
       (lit ''G{1EED}i inventory, m{1ED7}i d{F2}ng l{E0} m{1ED9}t item. N{1ED9}i dung s{1EBD} kh{F4}ng {111}{1B0}{1EE3}c hi{1EC3}n th{1ECB} l{1EA1}i.'') meta plan"

definition onInventoryAskToggle :: "Router \<Rightarrow> int64 \<Rightarrow> Callback \<Rightarrow> RequestMeta \<Rightarrow> responsePlan \<Rightarrow> responsePlan dbtx" where
  "onInventoryAskToggle r telegramID cb meta plan = askConfirm r telegramID ''inventory.toggle''
     ((atStep ''confirm'')\<lparr>wp_InventoryItemID := InventoryID cb, wp_RecordVersion := RecordVersion cb,
       wp_Active := Active cb\<rparr>)
     ((lit ''X{E1}c nh{1EAD}n '') @ (if Active cb then (lit ''b{1EAD}t'') else (lit ''t{1EAF}t'')) @ (lit '' inventory item #'') @ intText (InventoryID cb) @ ''?'')
     ''v1:a:it:'' (InventoryID cb) cb meta plan"

definition onInventoryToggle :: "Router \<Rightarrow> int64 \<Rightarrow> Callback \<Rightarrow> RequestMeta \<Rightarrow> responsePlan \<Rightarrow> responsePlan dbtx" where
  "onInventoryToggle r telegramID cb meta plan =
     bindE (AdminService_Authorize telegramID True) (\<lambda>admin.
     bindE (InventoryAdminService_SetItemEnabled (rt_now r ''inventory.SetItemEnabled'') telegramID
       (pressedSession cb admin) (InventoryID cb) (RecordVersion cb) (Active cb) meta) (\<lambda>item.
     returnE (completed plan ((lit ''{110}{E3} c{1EAD}p nh{1EAD}t inventory item #'') @ intText (rii_ID item) @ (lit '' th{E0}nh '') @
       Escape (InventoryStatusText (rii_Status item)) @ ''.'', []))))"

definition onCategoryNew :: "Router \<Rightarrow> int64 \<Rightarrow> RequestMeta \<Rightarrow> responsePlan \<Rightarrow> responsePlan dbtx" where
  "onCategoryNew r telegramID meta plan =
     askFor r telegramID ''category.create'' (atStep ''name'') (lit ''G{1EED}i t{EA}n danh m{1EE5}c m{1EDB}i.'') meta plan"

definition onCategoryEdit :: "Router \<Rightarrow> int64 \<Rightarrow> Callback \<Rightarrow> RequestMeta \<Rightarrow> responsePlan \<Rightarrow> responsePlan dbtx" where
  "onCategoryEdit r telegramID cb meta plan =
     (let payload = (\<lambda>step. (atStep step)\<lparr>wp_CategoryID := CategoryID cb, wp_RecordVersion := RecordVersion cb\<rparr>) in
      if Action cb = CallbackAdminCategoryAskToggle then
        askConfirm r telegramID ''category.toggle'' (payload ''confirm'') (lit ''X{E1}c nh{1EAD}n {111}{1ED5}i tr{1EA1}ng th{E1}i danh m{1EE5}c?'')
          ''v1:a:ct:'' (CategoryID cb) cb meta plan
      else askFor r telegramID ''category.edit'' (payload ''name'') (lit ''G{1EED}i t{EA}n danh m{1EE5}c m{1EDB}i.'') meta plan)"

definition onCategoryToggle :: "Router \<Rightarrow> int64 \<Rightarrow> Callback \<Rightarrow> RequestMeta \<Rightarrow> responsePlan \<Rightarrow> responsePlan dbtx" where
  "onCategoryToggle r telegramID cb meta plan =
     bindE (AdminService_Authorize telegramID True) (\<lambda>admin.
     bindE (AdminService_SetCategoryActive (rt_now r ''admins.SetCategoryActive'') telegramID (pressedSession cb admin)
       (toggleInput (CategoryID cb) cb meta)) (\<lambda>category.
     returnE (completed plan ((lit ''{110}{E3} c{1EAD}p nh{1EAD}t danh m{1EE5}c: '') @ Escape (Category_Name category), []))))"

definition onProductNew :: "Router \<Rightarrow> int64 \<Rightarrow> RequestMeta \<Rightarrow> responsePlan \<Rightarrow> responsePlan dbtx" where
  "onProductNew r telegramID meta plan =
     askFor r telegramID ''product.create'' (atStep ''category'') (lit ''G{1EED}i ID danh m{1EE5}c cho s{1EA3}n ph{1EA9}m.'') meta plan"

definition onProductEdit :: "Router \<Rightarrow> int64 \<Rightarrow> Callback \<Rightarrow> RequestMeta \<Rightarrow> responsePlan \<Rightarrow> responsePlan dbtx" where
  "onProductEdit r telegramID cb meta plan =
     (let payload = (\<lambda>step. (atStep step)\<lparr>wp_ProductID := ProductID cb, wp_RecordVersion := RecordVersion cb\<rparr>) in
      if Action cb = CallbackAdminProductAskToggle then
        askConfirm r telegramID ''product.toggle'' (payload ''confirm'') (lit ''X{E1}c nh{1EAD}n {111}{1ED5}i tr{1EA1}ng th{E1}i s{1EA3}n ph{1EA9}m?'')
          ''v1:a:pt:'' (ProductID cb) cb meta plan
      else askFor r telegramID ''product.edit'' (payload ''name'') (lit ''G{1EED}i t{EA}n s{1EA3}n ph{1EA9}m m{1EDB}i.'') meta plan)"

definition onProductToggle :: "Router \<Rightarrow> int64 \<Rightarrow> Callback \<Rightarrow> RequestMeta \<Rightarrow> responsePlan \<Rightarrow> responsePlan dbtx" where
  "onProductToggle r telegramID cb meta plan =
     bindE (AdminService_Authorize telegramID True) (\<lambda>admin.
     bindE (AdminService_SetProductActive (rt_now r ''admins.SetProductActive'') telegramID (pressedSession cb admin)
       (toggleInput (ProductID cb) cb meta)) (\<lambda>product.
     returnE (completed plan ((lit ''{110}{E3} c{1EAD}p nh{1EAD}t s{1EA3}n ph{1EA9}m: '') @ Escape (Product_Name product), []))))"

definition onCancel :: "Router \<Rightarrow> int64 \<Rightarrow> Callback \<Rightarrow> RequestMeta \<Rightarrow> responsePlan \<Rightarrow> responsePlan dbtx" where
  "onCancel r telegramID cb meta plan =
     bindE (AdminService_Authorize telegramID True) (\<lambda>admin.
     bindE (AdminService_CancelSession (rt_now r ''admins.CancelSession'') telegramID (pressedSession cb admin) meta) (\<lambda>_.
     returnE (completed plan ((lit ''{110}{E3} h{1EE7}y thao t{E1}c.''), []))))"

section \<open>The switch\<close>

text \<open>Every action has its case, so the default case is never taken.\<close>

definition routeCallback :: "Router \<Rightarrow> int64 \<Rightarrow> Callback \<Rightarrow> RequestMeta \<Rightarrow> responsePlan \<Rightarrow> responsePlan dbtx" where
  "routeCallback r telegramID cb meta plan =
     (case Action cb of
        CallbackMenu \<Rightarrow> onMenu plan
      | CallbackSupport \<Rightarrow> onSupport r plan
      | CallbackCategories \<Rightarrow> onCategories r cb plan
      | CallbackProducts \<Rightarrow> onProducts r cb plan
      | CallbackProductDetail \<Rightarrow> onProductDetail cb plan
      | CallbackOrderQuantity \<Rightarrow> onOrderQuantity r cb plan
      | CallbackOrderBank \<Rightarrow> onOrderBank r cb meta plan
      | CallbackOrderConfirm \<Rightarrow> onOrderConfirm r telegramID cb meta plan
      | CallbackOrders \<Rightarrow> onOrders r telegramID cb plan
      | CallbackOrderView \<Rightarrow> onOrderView r telegramID cb plan
      | CallbackOrderAskCancel \<Rightarrow> onOrderAskCancel r telegramID cb plan
      | CallbackOrderCancel \<Rightarrow> onOrderCancel r telegramID cb meta plan
      | CallbackOrderWalletAsk \<Rightarrow> onOrderWalletAsk r telegramID cb meta plan
      | CallbackOrderWalletPay \<Rightarrow> onOrderWalletPay r telegramID cb meta plan
      | CallbackWalletBalance \<Rightarrow> onWalletBalance telegramID plan
      | CallbackWalletTopupAmount \<Rightarrow> onTopupAmount r cb meta plan
      | CallbackWalletTopupBank \<Rightarrow> onTopupBank r telegramID cb meta plan
      | CallbackAdminCategories \<Rightarrow> onAdminCatalog telegramID plan
      | CallbackAdminProducts \<Rightarrow> onAdminCatalog telegramID plan
      | CallbackAdminPaymentReviews \<Rightarrow> onPaymentReviews r telegramID cb plan
      | CallbackAdminDeliveries \<Rightarrow> onDeliveries r telegramID cb plan
      | CallbackAdminDeliveryDetail \<Rightarrow> onDeliveryDetail telegramID cb plan
      | CallbackAdminDeliveryRetry \<Rightarrow> onDeliveryResolution r telegramID cb meta plan
      | CallbackAdminDeliveryComplete \<Rightarrow> onDeliveryResolution r telegramID cb meta plan
      | CallbackAdminDeliveryConfirm \<Rightarrow> onDeliveryConfirm r telegramID cb meta plan
      | CallbackAdminDeliveryReconcile \<Rightarrow> onDeliveryReconcile r telegramID plan
      | CallbackAdminPaymentManual \<Rightarrow> onPaymentManual r telegramID meta plan
      | CallbackAdminPaymentResolve \<Rightarrow> onPaymentResolve r telegramID cb meta plan
      | CallbackAdminWalletAdjustment \<Rightarrow> onWalletAdjustment r telegramID cb meta plan
      | CallbackAdminInventory \<Rightarrow> onInventory r telegramID cb plan
      | CallbackAdminBanks \<Rightarrow> onBanks r telegramID cb plan
      | CallbackAdminProviderHealth \<Rightarrow> onProviderHealth r telegramID plan
      | CallbackAdminProviderAccounts \<Rightarrow> onProviderAccounts r telegramID cb plan
      | CallbackAdminProviderAccountNew \<Rightarrow> onProviderAccountNew r telegramID meta plan
      | CallbackAdminProviderAccountAskToggle \<Rightarrow> onProviderAskToggle r telegramID cb meta plan
      | CallbackAdminProviderAccountToggle \<Rightarrow> onProviderToggle r telegramID cb meta plan
      | CallbackAdminBankNew \<Rightarrow> onBankNew r telegramID meta plan
      | CallbackAdminBankEdit \<Rightarrow> onBankEdit r telegramID cb meta plan
      | CallbackAdminBankAskToggle \<Rightarrow> onBankAskToggle r telegramID cb meta plan
      | CallbackAdminBankToggle \<Rightarrow> onBankToggle r telegramID cb meta plan
      | CallbackAdminInventoryList \<Rightarrow> onInventoryList r telegramID cb plan
      | CallbackAdminInventoryImport \<Rightarrow> onInventoryImport r telegramID cb meta plan
      | CallbackAdminInventoryAskToggle \<Rightarrow> onInventoryAskToggle r telegramID cb meta plan
      | CallbackAdminInventoryToggle \<Rightarrow> onInventoryToggle r telegramID cb meta plan
      | CallbackAdminCategoryNew \<Rightarrow> onCategoryNew r telegramID meta plan
      | CallbackAdminCategoryEdit \<Rightarrow> onCategoryEdit r telegramID cb meta plan
      | CallbackAdminCategoryAskToggle \<Rightarrow> onCategoryEdit r telegramID cb meta plan
      | CallbackAdminCategoryToggle \<Rightarrow> onCategoryToggle r telegramID cb meta plan
      | CallbackAdminProductNew \<Rightarrow> onProductNew r telegramID meta plan
      | CallbackAdminProductEdit \<Rightarrow> onProductEdit r telegramID cb meta plan
      | CallbackAdminProductAskToggle \<Rightarrow> onProductEdit r telegramID cb meta plan
      | CallbackAdminProductToggle \<Rightarrow> onProductToggle r telegramID cb meta plan
      | CallbackAdminCancel \<Rightarrow> onCancel r telegramID cb meta plan)"

end
