(* ===== verification/Telegram_Router.thy ===== *)
theory Telegram_Router
  imports Router_Callbacks
begin

text \<open>
  The router of updates (\<open>telegram/router.go\<close>): commands, the conversations of administrators, and \<open>Process\<close>, which
  claims an update, dispatches it, completes its receipt and carries out the plan. \<open>Process\<close> returns the error of
  the Go function, if any, with the calls made to Telegram; a call that fails is only logged.
\<close>

section \<open>Commands\<close>

definition unsupported :: "int64 \<Rightarrow> responsePlan" where
  "unsupported chatID = reply chatID ((lit ''L{1EC7}nh ch{1B0}a {111}{1B0}{1EE3}c h{1ED7} tr{1EE3}. D{F9}ng /menu {111}{1EC3} m{1EDF} menu.''), [])"

definition handleCommand :: "Router \<Rightarrow> int64 \<Rightarrow> tg_user \<Rightarrow> int64 \<Rightarrow> User \<Rightarrow> Command \<Rightarrow> responsePlan dbtx" where
  "handleCommand r updateID sender chatID user command =
     (if cmd_Name command = ''start'' \<or> cmd_Name command = ''menu'' then
        returnE (reply chatID (MainMenuText (User_DisplayName user), MainMenuKeyboard))
      else if cmd_Name command = ''products'' then
        bindE (CatalogService_ListCategories (rt_catalogPageSize r) 0) (\<lambda>page.
        returnE (reply chatID (CategoriesView page)))
      else if cmd_Name command = ''orders'' then
        bindE (OrderService_List (rt_orders r) (User_TelegramUserID user) 0) (\<lambda>page.
        returnE (reply chatID (OrdersView (rt_formats r) page)))
      else if cmd_Name command = ''balance'' then
        bindE (WalletService_Balance (User_TelegramUserID user)) (\<lambda>account.
        returnE (reply chatID (WalletBalanceView account)))
      else if cmd_Name command = ''nap'' then
        (if cmd_Payload command = [] then
           bindE (WalletService_Balance (User_TelegramUserID user)) (\<lambda>account.
           let v = WalletBalanceView account in
           returnE (reply chatID (fst v @ (lit ''{A}{A}Ch{1ECD}n s{1ED1} ti{1EC1}n mu{1ED1}n n{1EA1}p.''), snd v)))
         else case ParseInt 64 (cmd_Payload command) of None \<Rightarrow> throwE ErrInvalidWalletAmount
         | Some amount \<Rightarrow>
             if amount \<le> 0 then throwE ErrInvalidWalletAmount else
             bindE (BankAccountService_ListActive (rt_paymentEnvironment r)) (\<lambda>banks.
             returnE (reply chatID (WalletTopupBankView updateID amount banks))))
      else if cmd_Name command = ''order'' then
        (case ParseInt 64 (cmd_Payload command) of None \<Rightarrow> throwE ErrInvalidInput
         | Some orderID \<Rightarrow>
             if orderID \<le> 0 then throwE ErrInvalidInput else
             bindE (OrderService_Get (rt_orderInstruction r) (User_TelegramUserID user) orderID) (\<lambda>(order, instruction).
             returnE (reply chatID (OrderDetailView (rt_formats r) order instruction))))
      else if cmd_Name command = ''support'' then returnE (reply chatID (supportText r, []))
      else if cmd_Name command = ''myid'' then
        returnE (reply chatID ((lit ''Telegram ID c{1EE7}a b{1EA1}n: <code>'') @ intText (User_TelegramUserID user) @ ''</code>'', []))
      else if cmd_Name command = ''admin'' then
        bindE (attempt (AdminService_Authorize (tu_ID sender) False)) (\<lambda>authorized. case authorized of
          Inl _ \<Rightarrow> returnE (reply chatID ((lit ''B{1EA1}n kh{F4}ng c{F3} quy{1EC1}n s{1EED} d{1EE5}ng ch{1EE9}c n{103}ng n{E0}y.''), []))
        | Inr _ \<Rightarrow> returnE (reply chatID AdminMenu))
      else returnE (unsupported chatID))"

section \<open>Conversations\<close>

text \<open>\<open>AdvanceSession\<close> to the next question.\<close>

definition advanceTo ::
  "Router \<Rightarrow> int64 \<Rightarrow> session_row \<Rightarrow> workflowPayload \<Rightarrow> string \<Rightarrow> RequestMeta \<Rightarrow> responsePlan \<Rightarrow> responsePlan dbtx" where
  "advanceTo r telegramID session payload nextPrompt meta plan =
     bindE (AdminService_AdvanceSession (rt_sessionTTL r) (rt_now r ''admins.AdvanceSession'') telegramID session
       (ses_state session) (Some (workflowJSON payload)) meta) (\<lambda>next.
     returnE (display plan (nextPrompt, cancelKeyboard next)))"

definition tooLong :: "nat \<Rightarrow> string \<Rightarrow> bool" where
  "tooLong n s \<longleftrightarrow> runeCount s > n"

definition handleProductSessionText ::
  "Router \<Rightarrow> int64 \<Rightarrow> string \<Rightarrow> session_row \<Rightarrow> workflowPayload \<Rightarrow> RequestMeta \<Rightarrow> responsePlan \<Rightarrow> responsePlan dbtx" where
  "handleProductSessionText r telegramID message session payload meta plan =
     (let t = TrimSpace message; ask = (\<lambda>p prompt. advanceTo r telegramID session p prompt meta plan) in
      if ses_state session = ''product.edit'' \<and> wp_Step payload = ''category'' then
        (case ParseInt 64 t of None \<Rightarrow> throwE ErrInvalidInput
         | Some categoryID \<Rightarrow>
             if categoryID \<le> 0 then throwE ErrInvalidInput else
             bindE (AdminService_UpdateProduct (rt_now r ''admins.UpdateProduct'') telegramID session
               \<lparr>upi_ProductID = wp_ProductID payload, upi_ExpectedRecord = wp_RecordVersion payload,
                upi_CategoryID = categoryID, upi_Name = wp_Name payload, upi_Description = wp_Description payload,
                upi_Price = wp_PriceVND payload, upi_Meta = meta\<rparr>) (\<lambda>product.
             returnE (plan\<lparr>rp_text := (lit ''{110}{E3} c{1EAD}p nh{1EAD}t s{1EA3}n ph{1EA9}m: '') @ Escape (Product_Name product)\<rparr>)))
      else if wp_Step payload = ''category'' then
        (case ParseInt 64 t of None \<Rightarrow> throwE ErrInvalidInput
         | Some categoryID \<Rightarrow>
             if categoryID \<le> 0 then throwE ErrInvalidInput
             else ask (payload\<lparr>wp_CategoryID := categoryID, wp_Step := ''name''\<rparr>) (lit ''G{1EED}i t{EA}n s{1EA3}n ph{1EA9}m.''))
      else if wp_Step payload = ''name'' then
        (if t = [] \<or> tooLong 160 t then throwE ErrInvalidInput
         else ask (payload\<lparr>wp_Name := t, wp_Step := ''description''\<rparr>) (lit ''G{1EED}i m{F4} t{1EA3}, ho{1EB7}c d{1EA5}u - {111}{1EC3} b{1ECF} tr{1ED1}ng.''))
      else if wp_Step payload = ''description'' then
        (if tooLong 2000 t then throwE ErrInvalidInput
         else ask ((if t \<noteq> ''-'' then payload\<lparr>wp_Description := t\<rparr> else payload)\<lparr>wp_Step := ''price''\<rparr>)
           (lit ''G{1EED}i gi{E1} VND d{1EA1}ng s{1ED1} nguy{EA}n.''))
      else if wp_Step payload = ''price'' then
        (case ParseMoneyInput t of Inl e \<Rightarrow> throwE e
         | Inr price \<Rightarrow>
             if ses_state session = ''product.edit'' then
               ask (payload\<lparr>wp_PriceVND := price, wp_Step := ''category''\<rparr>) (lit ''G{1EED}i ID danh m{1EE5}c m{1EDB}i.'')
             else
               bindE (AdminService_CreateProduct (rt_now r ''admins.CreateProduct'') telegramID session
                 \<lparr>cpi_CategoryID = wp_CategoryID payload, cpi_Name = wp_Name payload,
                  cpi_Slug = ''product-'' @ intText (UpdateID meta), cpi_Description = wp_Description payload,
                  cpi_Price = price, cpi_Meta = meta\<rparr>) (\<lambda>product.
               returnE (plan\<lparr>rp_text := (lit ''{110}{E3} t{1EA1}o s{1EA3}n ph{1EA9}m: '') @ Escape (Product_Name product)\<rparr>)))
      else throwE ErrStaleVersion)"

definition handleBankSessionText ::
  "Router \<Rightarrow> int64 \<Rightarrow> string \<Rightarrow> session_row \<Rightarrow> workflowPayload \<Rightarrow> RequestMeta \<Rightarrow> responsePlan \<Rightarrow> responsePlan dbtx" where
  "handleBankSessionText r telegramID message session payload meta plan =
     (let t = TrimSpace message; ask = (\<lambda>p prompt. advanceTo r telegramID session p prompt meta plan) in
      if wp_Step payload = ''bank_bin'' then
        (if length t \<noteq> 6 then throwE ErrInvalidInput
         else ask (payload\<lparr>wp_BankBIN := t, wp_Step := ''bank_name''\<rparr>) (lit ''G{1EED}i t{EA}n ng{E2}n h{E0}ng.''))
      else if wp_Step payload = ''bank_name'' then
        (if t = [] \<or> tooLong 120 t then throwE ErrInvalidInput
         else ask (payload\<lparr>wp_BankName := t, wp_Step := ''display_name''\<rparr>) (lit ''G{1EED}i t{EA}n hi{1EC3}n th{1ECB}.''))
      else if wp_Step payload = ''display_name'' then
        (if t = [] \<or> tooLong 120 t then throwE ErrInvalidInput
         else ask (payload\<lparr>wp_DisplayName := t, wp_Step := ''account_name''\<rparr>) (lit ''G{1EED}i t{EA}n ch{1EE7} t{E0}i kho{1EA3}n.''))
      else if wp_Step payload = ''account_name'' then
        (if t = [] \<or> tooLong 160 t then throwE ErrInvalidInput
         else ask (payload\<lparr>wp_AccountName := t, wp_Step := ''sort_order''\<rparr>) (lit ''G{1EED}i th{1EE9} t{1EF1} hi{1EC3}n th{1ECB} (s{1ED1} nguy{EA}n kh{F4}ng {E2}m).''))
      else if wp_Step payload = ''sort_order'' then
        (case ParseInt 32 t of None \<Rightarrow> throwE ErrInvalidInput
         | Some sortOrder \<Rightarrow>
             if sortOrder < 0 then throwE ErrInvalidInput
             else ask (payload\<lparr>wp_SortOrder := sortOrder, wp_Step := ''account_number''\<rparr>)
               (lit ''G{1EED}i s{1ED1} t{E0}i kho{1EA3}n (ch{1EC9} ch{1EEF} s{1ED1}). N{1ED9}i dung n{E0}y s{1EBD} {111}{1B0}{1EE3}c m{E3} h{F3}a ngay v{E0} kh{F4}ng l{1B0}u trong phi{EA}n.''))
      else if wp_Step payload = ''account_number'' then
        (let bankInput = \<lparr>bai_BankBIN = wp_BankBIN payload, bai_BankName = wp_BankName payload,
               bai_DisplayName = wp_DisplayName payload, bai_AccountName = wp_AccountName payload,
               bai_AccountNumber = t, bai_SortOrder = wp_SortOrder payload, bai_PaymentEnvironment = []\<rparr> in
         if ses_state session = ''bank.create'' then
           bindE (BankAccountService_Create (rt_protectBank r) (rt_paymentEnvironment r) (rt_now r ''banks.Create'')
             telegramID session bankInput meta) (\<lambda>bank.
           returnE (plan\<lparr>rp_text := (lit ''{110}{E3} t{1EA1}o t{E0}i kho{1EA3}n: '') @ Escape (bao_DisplayName (rba_Option bank))\<rparr>))
         else
           bindE (BankAccountService_Update (rt_protectBank r) (rt_now r ''banks.Update'') telegramID session
             (wp_BankAccountID payload) (wp_RecordVersion payload) bankInput meta) (\<lambda>bank.
           returnE (plan\<lparr>rp_text := (lit ''{110}{E3} c{1EAD}p nh{1EAD}t t{E0}i kho{1EA3}n: '') @ Escape (bao_DisplayName (rba_Option bank))\<rparr>)))
      else throwE ErrStaleVersion)"

definition onProviderText ::
  "Router \<Rightarrow> int64 \<Rightarrow> string \<Rightarrow> session_row \<Rightarrow> workflowPayload \<Rightarrow> RequestMeta \<Rightarrow> responsePlan \<Rightarrow> responsePlan dbtx" where
  "onProviderText r telegramID t session payload meta plan =
     (case rt_providers r of None \<Rightarrow> throwE ErrStaleVersion
      | Some providers \<Rightarrow>
          if wp_Step payload \<noteq> ''input'' then throwE ErrStaleVersion
          else case SplitN (CHR ''|'') t 5 of
            [provider, environment, identity, bank, confirm] \<Rightarrow>
              if ToUpper (rt_unicode r) (TrimSpace confirm) \<noteq> ''CONFIRM'' then throwE ErrInvalidInput
              else (case ParseInt 64 (TrimSpace bank) of None \<Rightarrow> throwE ErrInvalidInput
                | Some bankID \<Rightarrow>
                    if bankID \<le> 0 then throwE ErrInvalidInput else
                    bindE (PaymentProviderAdminService_CreateAccount (rt_sha256 r) providers
                      (rt_now r ''providers.CreateAccount'')
                      \<lparr>cpa_AdminTelegramID = telegramID, cpa_Provider = provider, cpa_Environment = environment,
                       cpa_ExternalAccountIdentity = identity, cpa_LocalBankAccountID = bankID, cpa_Confirmed = True,
                       cpa_Session = session, cpa_Meta = meta\<rparr>) (\<lambda>mapping.
                    returnE (plan\<lparr>rp_text := (lit ''{110}{E3} link provider mapping #'') @ intText (ppa_ID mapping) @ '': '' @
                      Escape (ppa_MaskedExternalIdentity mapping) @ (lit '' {2192} bank #'') @
                      intText (ppa_LocalBankAccountID mapping) @ ''.''\<rparr>)))
          | _ \<Rightarrow> throwE ErrInvalidInput)"

text \<open>The evidence of a delivery decision: a reason, or a message id with a reason.\<close>

definition deliveryEvidence :: "session_row \<Rightarrow> workflowPayload \<Rightarrow> string \<Rightarrow> error + workflowPayload" where
  "deliveryEvidence session payload t =
     (if ses_state session = ''delivery.retry'' then
        (if wp_Step payload \<noteq> ''reason'' \<or> t = [] \<or> tooLong 1000 t then Inl ErrInvalidInput
         else Inr (payload\<lparr>wp_Reason := t\<rparr>))
      else case SplitN (CHR ''|'') t 2 of
          [first, second] \<Rightarrow>
            if wp_Step payload \<noteq> ''evidence'' then Inl ErrInvalidInput
            else (let reason = TrimSpace second in
              case ParseInt 64 (TrimSpace first) of None \<Rightarrow> Inl ErrInvalidInput
              | Some messageID \<Rightarrow>
                  if messageID \<le> 0 \<or> reason = [] \<or> tooLong 1000 reason then Inl ErrInvalidInput
                  else Inr (payload\<lparr>wp_TelegramMessageID := messageID, wp_Reason := reason\<rparr>))
        | _ \<Rightarrow> Inl ErrInvalidInput)"

definition onDeliveryText ::
  "Router \<Rightarrow> int64 \<Rightarrow> string \<Rightarrow> session_row \<Rightarrow> workflowPayload \<Rightarrow> RequestMeta \<Rightarrow> responsePlan \<Rightarrow> responsePlan dbtx" where
  "onDeliveryText r telegramID t session payload meta plan =
     (if wp_DeliveryID payload \<le> 0 \<or> wp_RecordVersion payload \<le> 0 \<or> wp_Step payload = ''confirm''
      then throwE ErrStaleVersion else
      bindE (ofSum (deliveryEvidence session payload t)) (\<lambda>evidence.
      bindE (AdminService_AdvanceSession (rt_sessionTTL r) (rt_now r ''admins.AdvanceSession'') telegramID session
        (ses_state session) (Some (workflowJSON (evidence\<lparr>wp_Step := ''confirm''\<rparr>))) meta) (\<lambda>next.
      let label = (if ses_state session = ''delivery.complete'' then (lit ''X{E1}c nh{1EAD}n evidence v{E0} mark delivered'')
            else (lit ''X{E1}c nh{1EAD}n credential ch{1B0}a {111}{1B0}{1EE3}c giao v{E0} cho worker retry'')) in
      returnE (display plan
        ((lit ''<b>X{E1}c nh{1EAD}n thao t{E1}c nh{1EA1}y c{1EA3}m</b>{A}Delivery job s{1EBD} {111}{1B0}{1EE3}c kh{F3}a v{E0} ki{1EC3}m tra l{1EA1}i version/state trong transaction.''),
         evidenceKeyboard label next)))))"

definition onImportText ::
  "Router \<Rightarrow> int64 \<Rightarrow> string \<Rightarrow> session_row \<Rightarrow> workflowPayload \<Rightarrow> RequestMeta \<Rightarrow> responsePlan \<Rightarrow> responsePlan dbtx" where
  "onImportText r telegramID message session payload meta plan =
     (if wp_Step payload \<noteq> ''payload'' \<or> wp_ProductID payload \<le> 0 then throwE ErrStaleVersion else
      bindE (InventoryAdminService_Import (rt_protectInventory r) (rt_importLimits r) (rt_now r ''inventory.Import'')
        telegramID session (wp_ProductID payload) message meta) (\<lambda>result.
      returnE (plan\<lparr>rp_text := (lit ''Import ho{E0}n t{1EA5}t: {111}{E3} th{EA}m '') @ intText (iir_Inserted result) @ (lit '', tr{F9}ng '') @
        intText (iir_Duplicates result) @ (lit '', b{1ECF} qua '') @ intText (iir_Rejected result) @ ''.''\<rparr>)))"

definition onCategoryText ::
  "Router \<Rightarrow> int64 \<Rightarrow> string \<Rightarrow> session_row \<Rightarrow> workflowPayload \<Rightarrow> RequestMeta \<Rightarrow> responsePlan \<Rightarrow> responsePlan dbtx" where
  "onCategoryText r telegramID t session payload meta plan =
     (if wp_Step payload = ''name'' then
        (if t = [] \<or> tooLong 120 t then throwE ErrInvalidInput
         else advanceTo r telegramID session (payload\<lparr>wp_Name := t, wp_Step := ''sort''\<rparr>)
           (lit ''G{1EED}i th{1EE9} t{1EF1} hi{1EC3}n th{1ECB} (s{1ED1} nguy{EA}n kh{F4}ng {E2}m).'') meta plan)
      else case ParseInt 32 t of None \<Rightarrow> throwE ErrInvalidInput
      | Some sortOrder \<Rightarrow>
          if sortOrder < 0 then throwE ErrInvalidInput
          else if ses_state session = ''category.create'' then
            bindE (AdminService_CreateCategory (rt_now r ''admins.CreateCategory'') telegramID session
              \<lparr>cci_Name = wp_Name payload, cci_Slug = ''category-'' @ intText (UpdateID meta), cci_SortOrder = sortOrder,
               cci_Meta = meta\<rparr>) (\<lambda>category.
            returnE (plan\<lparr>rp_text := (lit ''{110}{E3} t{1EA1}o danh m{1EE5}c: '') @ Escape (Category_Name category)\<rparr>))
          else
            bindE (AdminService_UpdateCategory (rt_now r ''admins.UpdateCategory'') telegramID session
              \<lparr>uci_CategoryID = wp_CategoryID payload, uci_ExpectedRecord = wp_RecordVersion payload,
               uci_Name = wp_Name payload, uci_SortOrder = sortOrder, uci_Meta = meta\<rparr>) (\<lambda>category.
            returnE (plan\<lparr>rp_text := (lit ''{110}{E3} c{1EAD}p nh{1EAD}t danh m{1EE5}c: '') @ Escape (Category_Name category)\<rparr>)))"

definition onPaymentText ::
  "Router \<Rightarrow> int64 \<Rightarrow> string \<Rightarrow> session_row \<Rightarrow> RequestMeta \<Rightarrow> responsePlan \<Rightarrow> responsePlan dbtx" where
  "onPaymentText r telegramID t session meta plan =
     (case SplitN (CHR ''|'') t 6 of
        [transaction, reference, money, currency, occurred, note] \<Rightarrow>
          (case (ParseInt 64 (TrimSpace money), rt_parseTime r (TrimSpace occurred)) of
             (Some amount, Some occurredAt) \<Rightarrow>
               bindE (PaymentAdminService_ManualConfirm (rt_skipLocked r) (rt_reservationTTL r)
                 (rt_deliveryMaxAttempts r) (rt_now r ''payments.ManualConfirm'')
                 \<lparr>mpc_AdminTelegramID = telegramID, mpc_ProviderTransactionID = TrimSpace transaction,
                  mpc_Reference = TrimSpace reference, mpc_Amount = amount, mpc_Currency = TrimSpace currency,
                  mpc_OccurredAt = occurredAt, mpc_Note = TrimSpace note, mpc_Session = session,
                  mpc_Meta = meta\<rparr>) (\<lambda>result.
               returnE (plan\<lparr>rp_text := ''Manual payment: '' @ par_Decision result @ (lit '' {B7} target '') @
                 par_Target result @ (lit '' {B7} reason '') @ par_Reason result\<rparr>))
           | _ \<Rightarrow> throwE ErrInvalidInput)
      | _ \<Rightarrow> throwE ErrInvalidInput)"

definition onReviewText ::
  "Router \<Rightarrow> int64 \<Rightarrow> string \<Rightarrow> session_row \<Rightarrow> workflowPayload \<Rightarrow> RequestMeta \<Rightarrow> responsePlan \<Rightarrow> responsePlan dbtx" where
  "onReviewText r telegramID t session payload meta plan =
     (if wp_ReviewID payload \<le> 0 \<or> t = [] then throwE ErrInvalidInput else
      bindE (PaymentAdminService_ResolveReview (rt_now r ''payments.ResolveReview'')
        \<lparr>rpc_AdminTelegramID = telegramID, rpc_ReviewID = wp_ReviewID payload, rpc_Status = ''resolved'', rpc_Note = t,
         rpc_Session = session, rpc_Meta = meta\<rparr>) (\<lambda>result.
      returnE (plan\<lparr>rp_text := (lit ''{110}{E3} resolve review #'') @ intText (prc_ID result) @
        (lit ''. Kh{F4}ng th{1EF1}c hi{1EC7}n refund network.'')\<rparr>)))"

definition onAdjustmentText ::
  "Router \<Rightarrow> int64 \<Rightarrow> string \<Rightarrow> session_row \<Rightarrow> RequestMeta \<Rightarrow> responsePlan \<Rightarrow> responsePlan dbtx" where
  "onAdjustmentText r telegramID t session meta plan =
     (case SplitN (CHR ''|'') t 5 of
        [target, kind, money, reason, key] \<Rightarrow>
          (let operation = ToLower (TrimSpace kind) in
           case (ParseInt 64 (TrimSpace target), ParseInt 64 (TrimSpace money)) of
             (Some targetID, Some amount) \<Rightarrow>
               if operation \<noteq> ''credit'' \<and> operation \<noteq> ''debit'' then throwE ErrInvalidInput else
               bindE (WalletService_Adjust (rt_now r ''wallet.Adjust'')
                 \<lparr>wac_AdminTelegramID = telegramID, wac_TargetTelegramID = targetID, wac_Amount = amount,
                  wac_Debit = (operation = ''debit''), wac_Reason = TrimSpace reason,
                  wac_IdempotencyKey = TrimSpace key, wac_Session = session, wac_Meta = meta\<rparr>) (\<lambda>account.
               returnE (plan\<lparr>rp_text := (lit ''{110}{E3} {111}i{1EC1}u ch{1EC9}nh v{ED}. S{1ED1} d{1B0} m{1EDB}i: '') @ formatVND (wa_Balance account) @ (lit '' {20AB}'')\<rparr>))
           | _ \<Rightarrow> throwE ErrInvalidInput)
      | _ \<Rightarrow> throwE ErrInvalidInput)"

definition handleSessionText ::
  "Router \<Rightarrow> int64 \<Rightarrow> string \<Rightarrow> int64 \<Rightarrow> int64 \<Rightarrow> string \<Rightarrow> session_row \<Rightarrow> responsePlan dbtx" where
  "handleSessionText r updateID requestID telegramID chatID message session =
     (case workflowOf (ses_payload session) of None \<Rightarrow> throwE ErrInvalidInput
      | Some payload \<Rightarrow>
        let t = TrimSpace message; meta = \<lparr>RequestID = requestID, UpdateID = updateID\<rparr>;
            plan = emptyPlan\<lparr>rp_chatID := chatID, rp_completedByApp := True\<rparr>; state = ses_state session in
        if state = ''provider.account.create'' then onProviderText r telegramID t session payload meta plan
        else if state = ''delivery.retry'' \<or> state = ''delivery.complete'' then
          onDeliveryText r telegramID t session payload meta plan
        else if state = ''inventory.import'' then onImportText r telegramID message session payload meta plan
        else if state = ''category.create'' \<or> state = ''category.edit'' then
          onCategoryText r telegramID t session payload meta plan
        else if state = ''product.create'' \<or> state = ''product.edit'' then
          handleProductSessionText r telegramID message session payload meta plan
        else if state = ''bank.create'' \<or> state = ''bank.edit'' then
          handleBankSessionText r telegramID message session payload meta plan
        else if state = ''payment.manual'' then onPaymentText r telegramID t session meta plan
        else if state = ''payment.review'' then onReviewText r telegramID t session payload meta plan
        else if state = ''wallet.adjustment'' then onAdjustmentText r telegramID t session meta plan
        else throwE ErrStaleVersion)"

section \<open>Dispatch\<close>

definition blockedText :: string where
  "blockedText = (lit ''T{E0}i kho{1EA3}n kh{F4}ng th{1EC3} s{1EED} d{1EE5}ng ch{1EE9}c n{103}ng n{E0}y.'')"

definition handleMessage :: "Router \<Rightarrow> int64 \<Rightarrow> string \<Rightarrow> tg_message \<Rightarrow> responsePlan dbtx" where
  "handleMessage r updateID requestID message =
     (case tm_From message of None \<Rightarrow> returnE emptyPlan
      | Some sender \<Rightarrow>
        if tu_IsBot sender \<or> tm_ChatID message = 0 then returnE emptyPlan else
        bindE (attempt (UserService_Sync (profileFromUser sender))) (\<lambda>synced. case synced of
          Inl e \<Rightarrow> if e = ErrUserBlocked then returnE (reply (tm_ChatID message) (blockedText, [])) else throwE e
        | Inr user \<Rightarrow>
          (case ParseCommand (rt_lower r) (tm_Text message) of
             Some command \<Rightarrow> handleCommand r updateID sender (tm_ChatID message) user command
           | None \<Rightarrow>
             if tm_Text message \<noteq> [] then
               bindE (attempt (AdminService_LoadSession (rt_now r ''admins.LoadSession'') (tu_ID sender))) (\<lambda>loaded.
               case loaded of
                 Inr session \<Rightarrow> handleSessionText r updateID requestID (tu_ID sender) (tm_ChatID message)
                   (tm_Text message) session
               | Inl _ \<Rightarrow> returnE (unsupported (tm_ChatID message)))
             else returnE (unsupported (tm_ChatID message)))))"

definition handleCallback :: "Router \<Rightarrow> int64 \<Rightarrow> string \<Rightarrow> tg_query \<Rightarrow> responsePlan dbtx" where
  "handleCallback r updateID requestID query =
     (case callbackMessage query of (chatID, messageID) \<Rightarrow>
        let plan = emptyPlan\<lparr>rp_chatID := chatID, rp_messageID := messageID, rp_callbackID := cq_ID query,
              rp_edit := (chatID \<noteq> 0 \<and> messageID \<noteq> 0)\<rparr> in
        if tu_IsBot (cq_From query) \<or> tu_ID (cq_From query) \<le> 0
        then returnE (plan\<lparr>rp_callbackText := (lit ''Kh{F4}ng h{1EE3}p l{1EC7}.'')\<rparr>) else
        bindE (attempt (UserService_Sync (profileFromUser (cq_From query)))) (\<lambda>synced. case synced of
          Inl e \<Rightarrow> if e = ErrUserBlocked
            then returnE (plan\<lparr>rp_callbackText := blockedText, rp_callbackAlert := True\<rparr>) else throwE e
        | Inr _ \<Rightarrow> (case ParseCallback (cq_Data query) of
            Inl _ \<Rightarrow> returnE (plan\<lparr>rp_callbackText := (lit ''Thao t{E1}c kh{F4}ng h{1EE3}p l{1EC7}.''), rp_callbackAlert := True\<rparr>)
          | Inr cb \<Rightarrow> routeCallback r (tu_ID (cq_From query)) cb \<lparr>RequestID = requestID, UpdateID = updateID\<rparr> plan)))"

definition dispatch :: "Router \<Rightarrow> tg_update \<Rightarrow> string \<Rightarrow> responsePlan dbtx" where
  "dispatch r u requestID =
     (case upd_Message u of Some message \<Rightarrow> handleMessage r (upd_ID u) requestID message
      | None \<Rightarrow> (case upd_CallbackQuery u of Some query \<Rightarrow> handleCallback r (upd_ID u) requestID query
          | None \<Rightarrow> returnE emptyPlan))"

text \<open>The part of \<open>Process\<close> after the claim.\<close>

definition processClaimed :: "Router \<Rightarrow> tg_update \<Rightarrow> string \<Rightarrow> (error option \<times> messenger_call list) dbtx" where
  "processClaimed r u requestID =
     bindE (attempt (dispatch r u requestID)) (\<lambda>dispatched. case dispatched of
       Inl e \<Rightarrow> bindE (attempt (UpdateService_Fail (upd_ID u) (errorCode e))) (\<lambda>_.
         returnE (Some e, answerDuplicateCallback u (userError e)))
     | Inr plan \<Rightarrow>
         if rp_completedByApp plan then returnE (None, executePlan plan) else
         bindE (attempt (UpdateService_Complete (upd_ID u))) (\<lambda>completion. case completion of
           Inl e \<Rightarrow> bindE (attempt (UpdateService_Fail (upd_ID u) ''receipt_completion_failed'')) (\<lambda>_.
             returnE (Some e, []))
         | Inr _ \<Rightarrow> returnE (None, executePlan plan)))"

definition Process :: "Router \<Rightarrow> tg_update option \<Rightarrow> string \<Rightarrow> (error option \<times> messenger_call list) dbtx" where
  "Process r update0 requestID =
     (case update0 of None \<Rightarrow> returnE (Some ErrInvalidInput, [])
      | Some u \<Rightarrow>
        if upd_ID u < 0 then returnE (Some ErrInvalidInput, []) else
        bindE (attempt (UpdateService_Claim (rt_staleAfter r) (rt_now r ''updates.Claim'') (upd_ID u)
          (ClassifyUpdate (updateKind update0)))) (\<lambda>claimed. case claimed of
          Inl e \<Rightarrow> returnE (Some e, answerDuplicateCallback u (lit ''Vui l{F2}ng th{1EED} l{1EA1}i.''))
        | Inr claim \<Rightarrow>
            if claim \<noteq> UpdateClaimed then returnE (None, answerDuplicateCallback u (lit ''{110}{E3} x{1EED} l{FD}.''))
            else processClaimed r u requestID))"

end
