(* ===== verification/Back_Office.thy ===== *)
theory Back_Office
  imports Contracts Provider_Reconciliation
begin

text \<open>
  What the back office can do to the shop: every entry point of the desk, the catalog, the bank accounts, the
  stock administration, the account mappings, the webhook and the reconciliation is a sequence of environment
  steps of the shop's transition system, whether it succeeds or fails. The invariants and contracts of the shop
  therefore hold with all of them running.
\<close>

section \<open>Runs of the environment\<close>

definition env_run :: "db \<Rightarrow> db \<Rightarrow> bool" where
  "env_run s0 s \<longleftrightarrow> env_step\<^sup>*\<^sup>* s0 s"

lemma env_run_refl [simp]: "env_run s s"
  by (simp add: env_run_def)

lemma env_run_step: "env_run s0 s \<Longrightarrow> env_step s s' \<Longrightarrow> env_run s0 s'"
  by (simp add: env_run_def rtranclp.rtrancl_into_rtrancl)

lemma env_seqs_mono: "env_step s s' \<Longrightarrow> seqs s t \<le> seqs s' t"
  using env_step_stmt stmt_seqs_mono by blast

lemma env_run_seqs_mono: "env_run s0 s \<Longrightarrow> seqs s0 t \<le> seqs s t"
  unfolding env_run_def by (induction rule: rtranclp_induct) (auto intro: env_seqs_mono order_trans)

lemma env_WithinTransaction [always_intros]:
  assumes "\<And>s1. always (env_run s1) m"
  shows "always (env_run s0) (WithinTransaction m)"
proof (rule alwaysI)
  fix s
  assume run: "env_run s0 s"
  obtain r s' where m: "m s = (r, s')" by fastforce
  have "env_run s s'" "env_run s0 s'" using assms m run by (blast intro: alwaysD env_run_refl)+
  then show "env_run s0 (snd (WithinTransaction m s))"
    by (cases r) (auto simp: WithinTransaction_def m intro!: env_run_step [OF run] env_seq dest: env_run_seqs_mono)
qed

lemma env_nextId [always_intros]: "always (env_run s0) (nextId t)"
  by (rule alwaysI) (auto simp: nextId_def intro!: env_seq elim!: env_run_step)

lemma env_update:
  assumes "\<And>s rs s'. sqlUpdate get upd ck uq p f s = (Inr rs, s') \<Longrightarrow> env_step s s'"
  shows "always (env_run s0) (sqlUpdate get upd ck uq p f)"
proof (rule alwaysI)
  fix s
  assume "env_run s0 s"
  with assms show "env_run s0 (snd (sqlUpdate get upd ck uq p f s))"
    by (cases "sqlUpdate get upd ck uq p f s") (fastforce simp: sqlUpdate_def Let_def intro: env_run_step split: if_splits)
qed

lemma env_insert:
  assumes "\<And>s x s'. sqlInsert get upd ck uq r s = (Inr x, s') \<Longrightarrow> env_step s s'"
  shows "always (env_run s0) (sqlInsert get upd ck uq r)" "always (env_run s0) (sqlInsertIgnore get upd ck uq arb r)"
proof -
  have ins: "env_run s0 (snd (sqlInsert get upd ck uq r s))" if "env_run s0 s" for s
    using assms that by (cases "sqlInsert get upd ck uq r s") (fastforce simp: sqlInsert_def intro: env_run_step split: if_splits)
  then show "always (env_run s0) (sqlInsert get upd ck uq r)" by (rule alwaysI)
  from ins show "always (env_run s0) (sqlInsertIgnore get upd ck uq arb r)"
    by (intro alwaysI) (auto simp: sqlInsertIgnore_def)
qed

text \<open>Tables the environment may rewrite freely.\<close>

lemma env_free:
  assumes "\<And>s f. env_step s (upd f s)"
  shows "always (env_run s0) (sqlUpdate get upd ck uq p f)" "always (env_run s0) (sqlInsert get upd ck uq r)"
    "always (env_run s0) (sqlInsertIgnore get upd ck uq arb r)"
  using assms by (intro env_update env_insert; auto dest: sqlUpdate_InrD sqlInsert_InrD)+

lemma env_tables:
  "env_step s (users_update f1 s)" "env_step s (admins_update f2 s)" "env_step s (categories_update f3 s)"
  "env_step s (products_update f4 s)" "env_step s (bank_accounts_update f5 s)"
  "env_step s (provider_accounts_update f6 s)" "env_step s (checkpoints_update f7 s)"
  "env_step s (update_receipts_update f8 s)" "env_step s (admin_sessions_update f9 s)"
  "env_step s (payment_events_update g1 s)" "env_step s (payment_reviews_update g2 s)"
proof -
  have catalog: "s' = s\<lparr>users := users s', admins := admins s', categories := categories s', products := products s',
      bank_accounts := bank_accounts s', provider_accounts := provider_accounts s', checkpoints := checkpoints s',
      clock := clock s'\<rparr> \<Longrightarrow> env_step s s'" for s'
    using env_catalog by metis
  show "env_step s (users_update f1 s)" "env_step s (admins_update f2 s)" "env_step s (categories_update f3 s)"
    "env_step s (products_update f4 s)" "env_step s (bank_accounts_update f5 s)"
    "env_step s (provider_accounts_update f6 s)" "env_step s (checkpoints_update f7 s)"
    by (rule catalog; cases s rule: db.cases; simp)+
  have desk: "s' = s\<lparr>update_receipts := update_receipts s', admin_sessions := admin_sessions s'\<rparr> \<Longrightarrow> env_step s s'"
    and inbox: "s' = s\<lparr>payment_events := payment_events s', payment_reviews := payment_reviews s'\<rparr> \<Longrightarrow> env_step s s'" for s'
    using env_desk env_inbox by metis+
  show "env_step s (update_receipts_update f8 s)" "env_step s (admin_sessions_update f9 s)"
    by (rule desk; cases s rule: db.cases; simp)+
  show "env_step s (payment_events_update g1 s)" "env_step s (payment_reviews_update g2 s)"
    by (rule inbox; cases s rule: db.cases; simp)+
qed

lemmas env_writes [always_intros] =
  env_free [OF env_tables(1)] env_free [OF env_tables(2)] env_free [OF env_tables(3)] env_free [OF env_tables(4)]
  env_free [OF env_tables(5)] env_free [OF env_tables(6)] env_free [OF env_tables(7)] env_free [OF env_tables(8)]
  env_free [OF env_tables(9)] env_free [OF env_tables(10)] env_free [OF env_tables(11)]

lemma env_InsertAuditLog [always_intros]: "always (env_run s0) (InsertAuditLog p)"
  unfolding InsertAuditLog_def by (intro always_intros env_insert(1)) (rule env_audit)

section \<open>The queries\<close>

lemma always_pages [always_intros]: "always I (selectPage off n q)" "always I (selectCount q2)"
  unfolding selectPage_def selectCount_def by (intro always_intros)+

lemma env_receipts [always_intros]:
  "always (env_run s0) (completeReceipt u)" "always (env_run s0) (finishSession a ses)"
  "always (env_run s0) (FinishAdminSessionGuarded st sid aid v)"
  "always (env_run s0) (InsertTelegramUpdateReceipt u ty)" "always (env_run s0) (updateReceipts p1 f1)"
  "always (env_run s0) (updateSessions p2 f2)" "always (env_run s0) (StartAdminSession aid st py ex)"
  "always (env_run s0) (upsertUser u n d g)" "always (env_run s0) (EnsureBootstrapAdmin uid)"
  unfolding completeReceipt_def CompleteTelegramUpdateReceipt_def finishSession_def FinishAdminSessionGuarded_def
    InsertTelegramUpdateReceipt_def updateReceipts_def updateSessions_def StartAdminSession_def upsertUser_def
    EnsureBootstrapAdmin_def
  by (intro always_intros)+

lemma env_catalog_queries [always_intros]:
  "always (env_run s0) (updateCategories p f)" "always (env_run s0) (CreateCategory_query n sl so)"
  "always (env_run s0) (updateProducts p2 f2)" "always (env_run s0) (CreateProduct_query c n sl d pr ty u)"
  "always (env_run s0) (updateBanks p3 f3)" "always (env_run s0) (CreateEncryptedBankAccount bp env)"
  "always (env_run s0) (CreatePaymentProviderAccount_query pv env idn fp b)"
  "always (env_run s0) (SetPaymentProviderAccountStatusGuarded st m v)"
  "always (env_run s0) (updateCheckpoints p4 f4)" "always (env_run s0) (EnsurePaymentProviderCheckpoint a)"
  unfolding updateCategories_def CreateCategory_query_def updateProducts_def CreateProduct_query_def updateBanks_def
    CreateEncryptedBankAccount_def CreatePaymentProviderAccount_query_def SetPaymentProviderAccountStatusGuarded_def
    updateCheckpoints_def EnsurePaymentProviderCheckpoint_def
  by (intro always_intros)+

lemma env_inventory_queries [always_intros]:
  "always (env_run s0) (InsertEncryptedInventoryItem pid c kid n v fp adm)"
  "always (env_run s0) (DisableAvailableInventoryItem dr iid v)"
  "always (env_run s0) (EnableDisabledInventoryItem iid v)"
proof -
  have toggle: "always (env_run s0) (updateInventory p f)" if "\<And>i. p i \<Longrightarrow> stock_toggle i (f i)" for p f
    unfolding updateInventory_def
    by (rule env_update) (rule env_toggle [unfolded updateInventory_def, where p = p and f = f], assumption, simp add: that)
  show "always (env_run s0) (DisableAvailableInventoryItem dr iid v)" "always (env_run s0) (EnableDisabledInventoryItem iid v)"
    unfolding DisableAvailableInventoryItem_def EnableDisabledInventoryItem_def
    by (intro always_intros toggle; simp add: stock_toggle_def same_stock_def)+
  show "always (env_run s0) (InsertEncryptedInventoryItem pid c kid n v fp adm)"
    unfolding InsertEncryptedInventoryItem_def
    by (intro always_intros env_insert(2)) (erule env_import, simp)
qed

lemma env_event_queries [always_intros]:
  "always (env_run s0) (updateEvents p f)" "always (env_run s0) (InsertPaymentEvent ep)"
  "always (env_run s0) (InsertPaymentReviewCase rp)"
  unfolding updateEvents_def InsertPaymentEvent_def InsertPaymentReviewCase_def
  by (intro always_intros)+

lemma always_office_reads [always_intros]:
  "always I (LockTelegramUpdateReceipt u)" "always I (GetActiveAdminSession a)" "always I (LockCategoryByID c)"
  "always I (GetCategoryByID c)" "always I (LockProductByID p)" "always I (GetProductByID p)"
  "always I (LockBankAccountByID b)" "always I (LockRedactedInventoryItem i)" "always I (LockPaymentProviderAccount m)"
  "always I (ResolveActivePaymentProviderAccount pv env idn)" "always I (GetPaymentEventByProviderEventID pv x)"
  "always I (GetPaymentEventByProviderTransactionID pv env t)" "always I (ListActivePaymentProviderAccounts col)"
  unfolding LockTelegramUpdateReceipt_def GetActiveAdminSession_def LockCategoryByID_def GetCategoryByID_def
    LockProductByID_def GetProductByID_def LockBankAccountByID_def LockRedactedInventoryItem_def
    LockPaymentProviderAccount_def ResolveActivePaymentProviderAccount_def GetPaymentEventByProviderEventID_def
    GetPaymentEventByProviderTransactionID_def ListActivePaymentProviderAccounts_def
  by (intro always_intros)+

section \<open>The handlers\<close>

lemma always_Authorize [always_intros]: "always I (AdminService_Authorize u m)"
  unfolding AdminService_Authorize_def by (intro always_intros)

lemma env_office [always_intros]:
  "always (env_run s0) (insertAudit a ac rt rid bd ad me)"
  "always (env_run s0) (closeAdmin ad2 ses me res)"
  unfolding insertAudit_def closeAdmin_def by (intro always_intros)+

lemma env_asAdmin [always_intros]: "always (env_run s0) body \<Longrightarrow> always (env_run s0) (asAdmin now ad ses st body)"
  unfolding asAdmin_def by (intro always_intros)

lemma env_desk_entries:
  "always (env_run s0) (UpdateService_Claim sa now u ty)" "always (env_run s0) (UpdateService_Complete u)"
  "always (env_run s0) (UpdateService_Fail u code)" "always (env_run s0) (UserService_Sync prof)"
  unfolding UpdateService_Claim_def ClaimUpdate_def UpdateService_Complete_def UpdateService_Fail_def FailUpdate_def
    StartTelegramUpdateProcessing_def FailTelegramUpdateReceipt_def UserService_Sync_def UpsertTelegramUser_store_def
    UpsertTelegramUser_def
  by (intro always_intros)+

lemma env_BootstrapAdmin [always_intros]: "always (env_run s0) (BootstrapAdmin t)"
  unfolding BootstrapAdmin_def EnsureBootstrapUser_def by (intro always_intros)

lemma env_bootstrapLoop: "always (env_run s0) (bootstrapLoop known ids)"
  by (induction ids arbitrary: known)
    (simp_all only: bootstrapLoop.simps, (intro always_intros | assumption | simp)+)

lemma env_Bootstrap: "always (env_run s0) (AdminService_Bootstrap ids)"
  unfolding AdminService_Bootstrap_def by (rule env_bootstrapLoop)

lemma env_session_entries:
  "always (env_run s0) (AdminService_StartSession ttl now u st py me)"
  "always (env_run s0) (AdminService_AdvanceSession ttl now u ses st py me)"
  "always (env_run s0) (AdminService_CancelSession now u ses me)"
  unfolding AdminService_StartSession_def StartSession_def AdminService_AdvanceSession_def AdvanceSession_def
    AdvanceAdminSessionGuarded_def AdminService_CancelSession_def CancelSession_def
  by (intro always_intros)+

lemma env_catalog_entries:
  "always (env_run s0) (AdminService_CreateCategory now u ses cci)"
  "always (env_run s0) (AdminService_UpdateCategory now u ses uci)"
  "always (env_run s0) (AdminService_SetCategoryActive now u ses sai)"
  "always (env_run s0) (AdminService_CreateProduct now u ses cpi)"
  "always (env_run s0) (AdminService_UpdateProduct now u ses upi)"
  "always (env_run s0) (AdminService_SetProductActive now u ses sai)"
  unfolding AdminService_CreateCategory_def CreateCategory_def AdminService_UpdateCategory_def UpdateCategory_def
    UpdateCategoryDetailsGuarded_def AdminService_SetCategoryActive_def SetCategoryActive_def
    SetCategoryActiveGuarded_def AdminService_CreateProduct_def CreateProduct_def AdminService_UpdateProduct_def
    UpdateProduct_def UpdateProductDetailsGuarded_def AdminService_SetProductActive_def SetProductActive_def
    SetProductActiveGuarded_def
  by (intro always_intros)+

lemma env_bank_entries:
  "always (env_run s0) (BankAccountService_Create pr env now u ses bi me)"
  "always (env_run s0) (BankAccountService_Update pr now u ses b v bi me)"
  "always (env_run s0) (BankAccountService_SetActive now u ses sai)"
  unfolding BankAccountService_Create_def CreateBankAccount_def BankAccountService_Update_def UpdateBankAccount_def
    UpdateEncryptedBankAccountGuarded_def BankAccountService_SetActive_def SetBankAccountActive_def
    SetBankAccountActiveGuarded_def
  by (intro always_intros)+

lemma env_importLoop [always_intros]: "always (env_run s0) (importLoop adm pid items res)"
  by (induction items arbitrary: res) (simp_all only: importLoop.simps, (intro always_intros | assumption)+)

lemma env_stock_entries:
  "always (env_run s0) (InventoryAdminService_Import pr lim' now u ses pid raw me)"
  "always (env_run s0) (InventoryAdminService_SetItemEnabled now u ses i v en me)"
  unfolding InventoryAdminService_Import_def ImportInventory_def inventoryProduct_def
    InventoryAdminService_SetItemEnabled_def SetInventoryItemEnabled_def
  by (intro always_intros)+

lemma env_provider_entries:
  "always (env_run s0) (PaymentProviderAdminService_CreateAccount sh ds now cpa)"
  "always (env_run s0) (PaymentProviderAdminService_SetAccountActive now spa)"
  unfolding PaymentProviderAdminService_CreateAccount_def CreatePaymentProviderAccount_def
    PaymentProviderAdminService_SetAccountActive_def SetPaymentProviderAccountStatus_def
  by (intro always_intros)+

lemma env_Ingest [always_intros]: "always (env_run s0) (PaymentEventIngestionService_Ingest uc sh rf ma now ev)"
proof -
  have "always (env_run s1) (insertEventRow e ma)" for s1 e
    unfolding insertEventRow_def by (cases "ne_SanitizedMetadata e") (simp_all, (intro always_intros)+)
  note [always_intros] = this
  show ?thesis
    unfolding PaymentEventIngestionService_Ingest_def ingestEvent_def InsertPaymentEvent_store_def
      RecordPaymentEventConflict_def MarkPaymentEventReviewedBeforeAcceptance_def
    by (intro always_intros)
qed

lemma env_webhook:
  "(\<And>e. always (env_run s0) (ingest e)) \<Longrightarrow> always (env_run s0) (PaymentWebhook_Handler mt ca reg li ingest req)"
  unfolding PaymentWebhook_Handler_def by (intro always_intros)

lemma env_checkpoints [always_intros]:
  "always (env_run s0) (AdvanceProviderCheckpoint cp cu tx tm)" "always (env_run s0) (CompleteProviderCheckpoint cp tm)"
  "always (env_run s0) (FailProviderCheckpoint cp ec)" "always (env_run s0) (EnsureProviderCheckpoint a)"
  "always (env_run s0) (ClaimProviderCheckpoint c ow tm ex)"
  unfolding AdvanceProviderCheckpoint_def AdvancePaymentProviderCheckpoint_def CompleteProviderCheckpoint_def
    CompletePaymentProviderCheckpoint_def FailProviderCheckpoint_def RecordPaymentProviderCheckpointFailure_def
    EnsureProviderCheckpoint_def ClaimProviderCheckpoint_def ClaimPaymentProviderCheckpoint_def leaseLost_def
  by (intro always_intros)+

lemma env_ingestPage:
  "(\<And>e. always (env_run s0) (ingest e)) \<Longrightarrow> always (env_run s0) (ingestPage ingest ac evs su li la)"
  by (induction evs arbitrary: su li la) (simp_all only: ingestPage.simps, (intro always_intros | assumption | simp)+)

lemma env_reconcilePages:
  "(\<And>e. always (env_run s0) (ingest e)) \<Longrightarrow>
     always (env_run s0) (reconcilePages ingest fe jb fin ac n k cu cp su)"
  by (induction n arbitrary: k cu cp su)
    (simp_all only: reconcilePages.simps, (intro always_intros env_ingestPage | assumption | simp)+)

lemma env_reconcileAccount:
  "(\<And>e. always (env_run s0) (ingest e)) \<Longrightarrow> always (env_run s0) (reconcileAccount ingest fe jb now fin ac)"
  unfolding reconcileAccount_def by (intro always_intros env_reconcilePages)

lemma env_reconcileAccounts:
  "(\<And>e. always (env_run s0) (ingest e)) \<Longrightarrow> always (env_run s0) (reconcileAccounts ingest reg jb st fin acs su er)"
  by (induction acs arbitrary: su er)
    (simp_all only: reconcileAccounts.simps, (intro always_intros env_reconcileAccount | assumption | simp)+)

lemma env_Reconciliation:
  "(\<And>e. always (env_run s0) (ingest e)) \<Longrightarrow> always (env_run s0) (ReconciliationJob_RunOnce col ingest reg jb st fin)"
  unfolding ReconciliationJob_RunOnce_def ListActiveProviderAccounts_def
  by (intro always_intros env_reconcileAccounts)

section \<open>The back office as a transition system\<close>

text \<open>
  One rule per entry point. The webhook and the reconciliation call the ingestion service, as \<open>cmd/api\<close> and \<open>cmd/worker\<close> wire them.
\<close>

inductive office_step :: "db \<Rightarrow> db \<Rightarrow> bool" where
  of_claim: "UpdateService_Claim sa now u ty s = (r1, s') \<Longrightarrow> office_step s s'"
| of_complete: "UpdateService_Complete u s = (r2, s') \<Longrightarrow> office_step s s'"
| of_fail: "UpdateService_Fail u code s = (r3, s') \<Longrightarrow> office_step s s'"
| of_sync: "UserService_Sync prof s = (r4, s') \<Longrightarrow> office_step s s'"
| of_bootstrap: "AdminService_Bootstrap ids s = (r5, s') \<Longrightarrow> office_step s s'"
| of_start: "AdminService_StartSession ttl now u st py me s = (r6, s') \<Longrightarrow> office_step s s'"
| of_advance: "AdminService_AdvanceSession ttl now u ses st py me s = (r7, s') \<Longrightarrow> office_step s s'"
| of_cancel: "AdminService_CancelSession now u ses me s = (r8, s') \<Longrightarrow> office_step s s'"
| of_category: "AdminService_CreateCategory now u ses cci s = (r9, s') \<Longrightarrow> office_step s s'"
| of_rename: "AdminService_UpdateCategory now u ses uci s = (r10, s') \<Longrightarrow> office_step s s'"
| of_category_active: "AdminService_SetCategoryActive now u ses sai s = (r11, s') \<Longrightarrow> office_step s s'"
| of_product: "AdminService_CreateProduct now u ses cpi s = (r12, s') \<Longrightarrow> office_step s s'"
| of_edit: "AdminService_UpdateProduct now u ses upi s = (r13, s') \<Longrightarrow> office_step s s'"
| of_product_active: "AdminService_SetProductActive now u ses sai s = (r14, s') \<Longrightarrow> office_step s s'"
| of_bank: "BankAccountService_Create pr env now u ses bi me s = (r15, s') \<Longrightarrow> office_step s s'"
| of_bank_edit: "BankAccountService_Update pr now u ses b v bi me s = (r16, s') \<Longrightarrow> office_step s s'"
| of_bank_active: "BankAccountService_SetActive now u ses sai s = (r17, s') \<Longrightarrow> office_step s s'"
| of_import: "InventoryAdminService_Import ci li now u ses pid raw me s = (r18, s') \<Longrightarrow> office_step s s'"
| of_toggle: "InventoryAdminService_SetItemEnabled now u ses i v en me s = (r19, s') \<Longrightarrow> office_step s s'"
| of_account: "PaymentProviderAdminService_CreateAccount sh ds now cpa s = (r20, s') \<Longrightarrow> office_step s s'"
| of_account_active: "PaymentProviderAdminService_SetAccountActive now spa s = (r21, s') \<Longrightarrow> office_step s s'"
| of_ingest: "PaymentEventIngestionService_Ingest uc sh rf ma now ev s = (r22, s') \<Longrightarrow> office_step s s'"
| of_webhook: "PaymentWebhook_Handler mt ca reg lmt (PaymentEventIngestionService_Ingest uc sh rf ma now) req s = (r23, s') \<Longrightarrow>
    office_step s s'"
| of_reconcile: "ReconciliationJob_RunOnce col (PaymentEventIngestionService_Ingest uc sh rf ma now) reg jb st fin s = (r24, s') \<Longrightarrow>
    office_step s s'"

lemma env_runD: "always (env_run s) m \<Longrightarrow> m s = (r, s') \<Longrightarrow> env_run s s'"
  using alwaysD [of "env_run s" m s] by simp

lemmas office_runs =
  env_desk_entries [THEN env_runD] env_Bootstrap [THEN env_runD] env_session_entries [THEN env_runD]
  env_catalog_entries [THEN env_runD] env_bank_entries [THEN env_runD] env_stock_entries [THEN env_runD]
  env_provider_entries [THEN env_runD] env_Ingest [THEN env_runD]
  env_webhook [where ingest = "PaymentEventIngestionService_Ingest uc sh rf ma now" for uc sh rf ma now,
    OF env_Ingest, THEN env_runD]
  env_Reconciliation [where ingest = "PaymentEventIngestionService_Ingest uc sh rf ma now" for uc sh rf ma now,
    OF env_Ingest, THEN env_runD]

lemma office_env_run: "office_step s s' \<Longrightarrow> env_run s s'"
  by (induction rule: office_step.induct) (erule office_runs)+

text \<open>The tables that hold the money, the orders and the deliveries.\<close>

definition books where
  "books s = (orders s, order_items s, order_history s, order_inventory s, payments s, payment_allocations s,
     wallet_accounts s, wallet_ledger s, wallet_topups s, outbox_events s, delivery_attempts s)"

lemma env_books: "env_step s s' \<Longrightarrow> books s' = books s"
  by (induction rule: env_step.induct) (auto simp: books_def updateInventory_def dest!: sqlInsert_InrD sqlUpdate_InrD)

lemma env_run_keeps:
  assumes "env_run s s'"
  shows "books s' = books s" "view s' = view s" "shop_step\<^sup>*\<^sup>* s s'"
  using assms unfolding env_run_def
  by (induction rule: rtranclp_induct)
    (auto simp: env_books env_view intro: rtranclp.rtrancl_into_rtrancl sh_env)

text \<open>
  C25. The back office never touches the books: every desk, catalog, bank, stock and account operation, the
  webhook, the ingestion and the polling reconciliation, whether it succeeds or fails, leaves orders, payments,
  wallets, deliveries and the abstract shop as they are and keeps the state reachable for the shop's invariants.
\<close>

theorem back_office_keeps_books:
  assumes "office_step s s'"
  shows "books s' = books s \<and> view s' = view s \<and> shop_step\<^sup>*\<^sup>* s s'"
  using env_run_keeps [OF office_env_run [OF assms]] by blast

theorem back_office_keeps_books_witness:
  "\<exists>s'. UpdateService_Claim 60 1400 7 ''message'' d_paid = (Inr UpdateClaimed, s') \<and> books s' = books d_paid \<and>
     update_receipts s' \<noteq> update_receipts d_paid \<and> reachable s'"
proof -
  obtain r s' where run: "UpdateService_Claim 60 1400 7 ''message'' d_paid = (r, s')" by fastforce
  from back_office_keeps_books [OF of_claim [OF run]] reachable_steps [OF d_paid_reachable]
  have "books s' = books d_paid" "reachable s'" by blast+
  moreover from run have "r = Inr UpdateClaimed" "update_receipts s' \<noteq> update_receipts d_paid"
    by (auto simp: UpdateService_Claim_def ClaimUpdate_def InsertTelegramUpdateReceipt_def newReceipt_def
      LockTelegramUpdateReceipt_def StartTelegramUpdateProcessing_def updateReceipts_def receipt_uq_def TrimSpace_def
      run_defs d_paid_eval cong: lazy_congs)
  ultimately show ?thesis using run by blast
qed

end
