(* ===== verification/Inbox.thy ===== *)
theory Inbox
  imports Back_Office
begin

text \<open>
  What the inbox promises: a provider event is stored once however often it is sent, a webhook without the right
  signature, timestamp and payload changes nothing, a pass of the event worker moves money only for inbound
  transfers with exactly one reference, and a Telegram update that was not finished can always be claimed again.
\<close>

section \<open>Ingestion is idempotent\<close>

text \<open>The columns of an event that no later statement changes.\<close>

definition eventIdentity :: "event_row \<Rightarrow> PaymentEventRecord \<times> string option \<times> string" where
  "eventIdentity e = (mapPaymentEventRecord e, evt_provider_transaction_id e, evt_payment_environment e)"

lemma event_uq_identity: "eventIdentity b = eventIdentity c \<Longrightarrow> event_uq a b = event_uq a c"
  by (auto simp: eventIdentity_def mapPaymentEventRecord_def event_uq_def)

lemma same_identities:
  assumes "map eventIdentity xs = map eventIdentity ys" "\<And>a b. eventIdentity a = eventIdentity b \<Longrightarrow> P a = P b"
  shows "(\<exists>x \<in> set xs. P x) = (\<exists>y \<in> set ys. P y)" "map eventIdentity (filter P xs) = map eventIdentity (filter P ys)"
proof -
  have "list_all2 (\<lambda>x y. eventIdentity x = eventIdentity y) xs ys"
    using assms(1) by (simp add: list_all2_conv_all_nth list_eq_iff_nth_eq)
  then have "(\<exists>x \<in> set xs. P x) = (\<exists>y \<in> set ys. P y) \<and> map eventIdentity (filter P xs) = map eventIdentity (filter P ys)"
    by (induction rule: list_all2_induct) (auto dest: assms(2))
  then show "(\<exists>x \<in> set xs. P x) = (\<exists>y \<in> set ys. P y)" "map eventIdentity (filter P xs) = map eventIdentity (filter P ys)"
    by blast+
qed

text \<open>Where a repeated event is found.\<close>

definition storedEvents :: "NormalizedPaymentEvent \<Rightarrow> db \<Rightarrow> event_row list" where
  "storedEvents ev s =
     filter (\<lambda>e. evt_provider e = ne_Provider ev \<and> evt_external_event_id e = ne_ExternalEventID ev) (payment_events s) @
     filter (\<lambda>e. evt_provider e = ne_Provider ev \<and> evt_payment_environment e = ne_Environment ev \<and>
       optionalText (ne_ProviderTransactionID ev) \<noteq> None \<and>
       evt_provider_transaction_id e = optionalText (ne_ProviderTransactionID ev)) (payment_events s)"

definition newEvent :: "int64 \<Rightarrow> time \<Rightarrow> event_params \<Rightarrow> event_row" where
  "newEvent i ts p =
     \<lparr>evt_id = i, evt_provider = ep_provider p, evt_external_event_id = ep_external_event_id p,
      evt_provider_transaction_id = ep_provider_transaction_id p, evt_event_type = ep_event_type p,
      evt_payload_hash = ep_payload_hash p, evt_sanitized_payload = ep_sanitized_payload p,
      evt_signature_verified = ep_signature_verified p, evt_processing_status = ''received'',
      evt_processing_error = None, evt_received_at = ts, evt_processed_at = None, evt_attempts = 0,
      evt_max_attempts = ep_max_attempts p, evt_next_attempt_at = ts, evt_processing_started_at = None,
      evt_last_error_code = None, evt_related_order_id = None, evt_related_wallet_topup_id = None,
      evt_payment_environment = ep_payment_environment p, evt_event_source = ep_event_source p,
      evt_transfer_direction = ep_transfer_direction p, evt_transfer_content = ep_transfer_content p,
      evt_destination_account_identity = ep_destination_account_identity p,
      evt_provider_account_identity = ep_provider_account_identity p, evt_provider_account_mapping_id = None,
      evt_business_fingerprint = ep_business_fingerprint p\<rparr>"

lemma event_ck_new: "event_ck (newEvent i ts p) = event_ck (newEvent i' ts' p)"
  by (simp add: event_ck_def newEvent_def)

lemma insert_event:
  "InsertPaymentEvent p s =
     (let i = seqs s Tab_events + 1; r = newEvent i (clock s) p; s1 = s\<lparr>seqs := (seqs s)(Tab_events := i)\<rparr> in
      if \<not> event_ck r then (Inl PgCheckViolation, s1)
      else if \<exists>x \<in> set (payment_events s). event_uq r x then (Inl PgxErrNoRows, s1)
      else (Inr r, s1\<lparr>payment_events := payment_events s @ [r]\<rparr>))"
  by (simp add: InsertPaymentEvent_def nextId_def bindE_app sqlInsertIgnore_def sqlInsert_def newEvent_def Let_def)

lemma store_found:
  assumes "ne_SanitizedMetadata ev = JsonObject md" "event_ck (newEvent i ts (eventParams ev md ma))"
    and "storedEvents ev s = row # rest"
  shows "InsertPaymentEvent_store ev ma s =
     (Inr (mapPaymentEventRecord row, False), s\<lparr>seqs := (seqs s)(Tab_events := seqs s Tab_events + 1)\<rparr>)"
proof -
  let ?r = "newEvent (seqs s Tab_events + 1) (clock s) (eventParams ev md ma)"
  let ?s1 = "s\<lparr>seqs := (seqs s)(Tab_events := seqs s Tab_events + 1)\<rparr>"
  have "row \<in> set (storedEvents ev s)" using assms(3) by simp
  then have "event_uq ?r row" "row \<in> set (payment_events s)"
    by (auto simp: storedEvents_def event_uq_def newEvent_def eventParams_def)
  moreover have "event_ck ?r" using assms(2) event_ck_new by blast
  ultimately have "InsertPaymentEvent (eventParams ev md ma) s = (Inl PgxErrNoRows, ?s1)"
    by (auto simp: insert_event Let_def)
  then show ?thesis using assms(1,3)
    by (auto simp: InsertPaymentEvent_store_def insertEventRow_def bindE_app attempt_def storedEvents_def
        GetPaymentEventByProviderEventID_def GetPaymentEventByProviderTransactionID_def sqlSelectOne_def one_def sqlSelect_def
        append_eq_Cons_conv split: list.splits)
qed

lemma store_InrD:
  assumes "InsertPaymentEvent_store ev ma s = (Inr (r, ins), s')"
  shows "\<exists>md i ts row rest. ne_SanitizedMetadata ev = JsonObject md \<and> event_ck (newEvent i ts (eventParams ev md ma)) \<and>
     storedEvents ev s' = row # rest \<and> r = mapPaymentEventRecord row \<and>
     (ins \<longrightarrow> row = newEvent i ts (eventParams ev md ma))"
proof -
  obtain md where md: "ne_SanitizedMetadata ev = JsonObject md"
    using assms by (cases "ne_SanitizedMetadata ev")
      (auto simp: InsertPaymentEvent_store_def insertEventRow_def bindE_app attempt_def nextId_def)
  let ?i = "seqs s Tab_events + 1"
  let ?r = "newEvent ?i (clock s) (eventParams ev md ma)"
  from assms md have ck: "event_ck ?r"
    by (auto simp: InsertPaymentEvent_store_def insertEventRow_def bindE_app attempt_def insert_event Let_def split: if_splits)
  show ?thesis
  proof (cases "\<exists>x \<in> set (payment_events s). event_uq ?r x")
    case True
    with assms md ck have "\<exists>rest row. storedEvents ev s' = row # rest \<and> r = mapPaymentEventRecord row \<and> \<not> ins"
      by (auto simp: InsertPaymentEvent_store_def insertEventRow_def bindE_app attempt_def insert_event Let_def storedEvents_def
          GetPaymentEventByProviderEventID_def GetPaymentEventByProviderTransactionID_def sqlSelectOne_def one_def sqlSelect_def
          split: if_splits sum.splits list.splits)
    with md ck show ?thesis by blast
  next
    case False
    then have "storedEvents ev s = []"
      by (auto simp: storedEvents_def filter_empty_conv event_uq_def newEvent_def eventParams_def)
    moreover from False assms md ck have "r = mapPaymentEventRecord ?r" "payment_events s' = payment_events s @ [?r]"
      by (auto simp: InsertPaymentEvent_store_def insertEventRow_def bindE_app attempt_def insert_event Let_def)
    ultimately have "\<exists>rest. storedEvents ev s' = ?r # rest"
      by (auto simp: storedEvents_def newEvent_def eventParams_def)
    with md ck \<open>r = mapPaymentEventRecord ?r\<close> show ?thesis by blast
  qed
qed

lemma stored_identities:
  assumes "map eventIdentity (payment_events s2) = map eventIdentity (payment_events s1)"
  shows "map eventIdentity (storedEvents ev s2) = map eventIdentity (storedEvents ev s1)"
  unfolding storedEvents_def map_append
  by (intro arg_cong2 [where f = append] same_identities(2) assms)
    (auto simp: eventIdentity_def mapPaymentEventRecord_def)

lemma conflictReason_new:
  "conflictReason (mapPaymentEventRecord (newEvent i ts (eventParams ev md ma))) ev = []"
  by (simp add: conflictReason_def mapPaymentEventRecord_def newEvent_def eventParams_def)

text \<open>
  C26. Ingestion is idempotent: when a provider event was taken in, sending it again, however far the stored
  events have been processed in between, answers with the same event id as a duplicate, stores nothing and
  changes no table.
\<close>

theorem ingestion_idempotent:
  assumes "PaymentEventIngestionService_Ingest uc sh rf maxAttempts now ev s = (Inr res, s1)"
    and "map eventIdentity (payment_events s2) = map eventIdentity (payment_events s1)"
  shows "\<exists>q. PaymentEventIngestionService_Ingest uc sh rf maxAttempts now' ev s2 =
     (Inr \<lparr>ir_EventID = ir_EventID res, ir_Duplicate = True\<rparr>, s2\<lparr>seqs := q\<rparr>)"
proof -
  define e where "e = normalizePaymentEvent uc sh rf ev"
  have valid: "validEvent maxAttempts e" and ing: "ingestEvent maxAttempts now e s = (Inr res, s1)"
    using assms(1) by (auto simp: PaymentEventIngestionService_Ingest_def e_def Let_def split: if_splits)
  then obtain r ins where st: "InsertPaymentEvent_store e maxAttempts s = (Inr (r, ins), s1)"
    and ok: "ins \<or> conflictReason r e = []" and res: "ir_EventID res = per_ID r"
    by (auto simp: ingestEvent_def bindE_app split: if_splits sum.splits prod.splits)
  from store_InrD [OF st] obtain md i ts row rest where md: "ne_SanitizedMetadata e = JsonObject md"
    and ck: "event_ck (newEvent i ts (eventParams e md maxAttempts))" and found: "storedEvents e s1 = row # rest"
    and r: "r = mapPaymentEventRecord row" and new: "ins \<longrightarrow> row = newEvent i ts (eventParams e md maxAttempts)"
    by blast
  have "conflictReason r e = []"
    using ok r new by (auto simp: conflictReason_new)
  moreover from stored_identities [OF assms(2), of e] found obtain row' rest'
    where found': "storedEvents e s2 = row' # rest'" "mapPaymentEventRecord row' = r"
    by (auto simp: Cons_eq_map_conv eventIdentity_def r)
  ultimately have "\<exists>q. ingestEvent maxAttempts now' e s2 = (Inr \<lparr>ir_EventID = ir_EventID res, ir_Duplicate = True\<rparr>, s2\<lparr>seqs := q\<rparr>)"
    by (auto simp: ingestEvent_def bindE_app store_found [OF md ck found'(1)] res)
  then show ?thesis using valid by (simp add: PaymentEventIngestionService_Ingest_def e_def)
qed

definition demo_event :: NormalizedPaymentEvent where
  "demo_event = \<lparr>ne_Provider = ''signed_json'', ne_Environment = ''test'', ne_ExternalEventID = ''evt-1'',
     ne_ProviderTransactionID = ''tx-1'', ne_Reference = [], ne_Direction = ''inbound'',
     ne_TransferContent = ''pay SHOP00ABFF10'', ne_DestinationAccountID = ''001'', ne_ProviderAccountID = [],
     ne_Source = ''webhook'', ne_Amount = 50000, ne_Currency = ''VND'', ne_OccurredAt = 900, ne_ReceivedAccount = [],
     ne_EventType = ''payment.received'', ne_PayloadHash = replicate 32 CHR ''p'', ne_BusinessFingerprint = [],
     ne_SanitizedMetadata = JsonObject [(''currency'', JText ''VND'')]\<rparr>"

definition demo_ingest :: "time \<Rightarrow> PaymentEventIngestionResult dbtx" where
  "demo_ingest now =
     PaymentEventIngestionService_Ingest plain_unicode (\<lambda>_. replicate 32 CHR ''f'') (\<lambda>_. []) 5 now demo_event"

theorem ingestion_idempotent_witness:
  "\<exists>s1 q. demo_ingest 1000 (empty_db 1000) = (Inr \<lparr>ir_EventID = 1, ir_Duplicate = False\<rparr>, s1) \<and>
     demo_ingest 1001 s1 = (Inr \<lparr>ir_EventID = 1, ir_Duplicate = True\<rparr>, s1\<lparr>seqs := q\<rparr>)"
proof -
  obtain r s1 where run: "demo_ingest 1000 (empty_db 1000) = (r, s1)" by fastforce
  have "fst (demo_ingest 1000 (empty_db 1000)) = Inr \<lparr>ir_EventID = 1, ir_Duplicate = False\<rparr>" by code_simp
  with run have run': "demo_ingest 1000 (empty_db 1000) = (Inr \<lparr>ir_EventID = 1, ir_Duplicate = False\<rparr>, s1)" by simp
  from ingestion_idempotent [OF run' [unfolded demo_ingest_def] refl] run' show ?thesis
    by (auto simp: demo_ingest_def)
qed

section \<open>The webhook\<close>

lemma VerifyAndNormalize_InrD:
  assumes "VerifyAndNormalize cr um rf t sj hs body = Inr ev"
  shows "\<exists>payload. hex_DecodeString (TrimSpace (hs ''X-Payment-Signature'')) = Some (hmacSHA256 cr (sj_secret sj) body) \<and>
     um body = Some payload \<and> ParseInt 64 (TrimSpace (hs ''X-Payment-Timestamp'')) = Some (sp_Timestamp payload) \<and>
     \<not> outsideTolerance t (time_Unix (sp_Timestamp payload)) (sj_tolerance sj) \<and> validPayload payload \<and>
     ev = normalizedEvent cr rf sj body payload"
  using assms by (auto simp: VerifyAndNormalize_def split: option.splits if_splits)

lemma registry_single:
  assumes "NewProviderRegistry [Some p] = Inr registry" "GetWebhookProvider registry name = Inr w"
  shows "pv_Enabled p \<and> pv_webhook p = Some w \<and> name = pv_Name p"
  using assms by (auto simp: NewProviderRegistry_def GetWebhookProvider_def lookupProvider_def split: if_splits option.splits)

lemma handler_effect:
  assumes "PaymentWebhook_Handler mt ca registry limit ingest request s = (Inr resp, s')"
    and "s' \<noteq> s \<or> hs_status resp \<in> {200..299}"
  shows "\<exists>webhook body ev ack. GetWebhookProvider registry (hq_provider request) = Inr webhook \<and>
     hq_body request = Some body \<and> int (length body) \<le> limit \<and>
     webhook \<lparr>wr_Headers = hq_headers request, wr_RawBody = body\<rparr> = (Inr ev, ack) \<and> (\<exists>r. ingest ev s = (r, s'))"
  using assms
  by (auto simp: PaymentWebhook_Handler_def errorResponse_def bindE_app attempt_def
      split: sum.splits if_splits option.splits prod.splits)

text \<open>
  C27. The webhook takes in authentic events only: with the signed JSON provider registered, a request that changes
  the database or gets a success answer came with the HMAC of its exact body under the shared secret, a header
  timestamp equal to the one in the body and within the tolerance, and a well-formed payload no longer than the
  limit; and its only effect is the ingestion of that payload's event.
\<close>

theorem webhook_only_authentic:
  assumes "NewProviderRegistry [Some (signedJSONProvider cr um rf t sj)] = Inr registry"
    and "PaymentWebhook_Handler mt ca registry limit ingest request s = (Inr resp, s')"
    and "s' \<noteq> s \<or> hs_status resp \<in> {200..299}"
  shows "sj_enabled sj \<and> hq_provider request = ''signed_json'' \<and>
     (\<exists>body payload. hq_body request = Some body \<and> int (length body) \<le> limit \<and>
        hex_DecodeString (TrimSpace (hq_headers request ''X-Payment-Signature'')) = Some (hmacSHA256 cr (sj_secret sj) body) \<and>
        um body = Some payload \<and>
        ParseInt 64 (TrimSpace (hq_headers request ''X-Payment-Timestamp'')) = Some (sp_Timestamp payload) \<and>
        \<not> outsideTolerance t (time_Unix (sp_Timestamp payload)) (sj_tolerance sj) \<and> validPayload payload \<and>
        (\<exists>r. ingest (normalizedEvent cr rf sj body payload) s = (r, s')))"
proof -
  from handler_effect [OF assms(2,3)] obtain webhook body ev ack
    where w: "GetWebhookProvider registry (hq_provider request) = Inr webhook"
      and body: "hq_body request = Some body" "int (length body) \<le> limit"
      and ok: "webhook \<lparr>wr_Headers = hq_headers request, wr_RawBody = body\<rparr> = (Inr ev, ack)"
      and eff: "\<exists>r. ingest ev s = (r, s')"
    by blast
  from registry_single [OF assms(1) w]
  have p: "sj_enabled sj" "webhook = signedJSONWebhook cr um rf t sj" "hq_provider request = ''signed_json''"
    by (auto simp: signedJSONProvider_def)
  from ok p(2) have "VerifyAndNormalize cr um rf t sj (hq_headers request) body = Inr ev"
    by (simp add: signedJSONWebhook_def)
  from VerifyAndNormalize_InrD [OF this] show ?thesis using p body eff by blast
qed

definition demo_crypto :: crypto where
  "demo_crypto = \<lparr>hmacSHA256 = (\<lambda>key body. replicate 32 CHR ''A''), sha256 = (\<lambda>_. replicate 32 CHR ''h'')\<rparr>"

definition demo_payload :: signedJSONPayload where
  "demo_payload = \<lparr>sp_EventID = ''evt-1'', sp_TransactionID = ''tx-1'', sp_EventType = ''payment.received'',
     sp_Reference = [], sp_Direction = ''inbound'', sp_TransferContent = ''pay SHOP00ABFF10'',
     sp_DestinationAccountID = ''001'', sp_ProviderAccountID = [], sp_AmountVND = 50000, sp_Currency = ''VND'',
     sp_Timestamp = 1000, sp_OccurredAt = 900, sp_ReceivedAccount = [], sp_Metadata = ''{}''\<rparr>"

definition demo_signed :: SignedJSON where
  "demo_signed = \<lparr>sj_secret = ''k'', sj_tolerance = 300000000000, sj_environment = ''test'', sj_enabled = True\<rparr>"

definition demo_provider :: provider where
  "demo_provider = signedJSONProvider demo_crypto (\<lambda>_. Some demo_payload) (\<lambda>_. ''t'') (time_Unix 1060) demo_signed"

definition demo_request :: http_request where
  "demo_request = \<lparr>hq_provider = ''signed_json'',
     hq_headers = (\<lambda>h. if h = ''X-Payment-Signature'' then concat (replicate 32 ''41'')
       else if h = ''X-Payment-Timestamp'' then ''1000'' else ''application/json''),
     hq_body = Some ''body''\<rparr>"

definition demo_webhook :: "http_response dbtx" where
  "demo_webhook = PaymentWebhook_Handler Some id [demo_provider] 4096
     (PaymentEventIngestionService_Ingest plain_unicode (\<lambda>_. replicate 32 CHR ''f'') (\<lambda>_. ''t'') 5 1000) demo_request"

theorem webhook_only_authentic_witness:
  "\<exists>resp s' r. demo_webhook (empty_db 1000) = (Inr resp, s') \<and> hs_status resp = 202 \<and>
     PaymentEventIngestionService_Ingest plain_unicode (\<lambda>_. replicate 32 CHR ''f'') (\<lambda>_. ''t'') 5 1000
       (normalizedEvent demo_crypto (\<lambda>_. ''t'') demo_signed ''body'' demo_payload) (empty_db 1000) = (r, s')"
proof -
  obtain v s' where run: "demo_webhook (empty_db 1000) = (v, s')" by fastforce
  have "map_sum (\<lambda>_. ()) hs_status (fst (demo_webhook (empty_db 1000))) = Inr 202" by code_simp
  with run obtain resp where v: "v = Inr resp" and ok: "hs_status resp = 202"
    by (cases v) auto
  have reg: "NewProviderRegistry [Some demo_provider] = Inr [demo_provider]"
    by (simp add: NewProviderRegistry_def demo_provider_def signedJSONProvider_def demo_signed_def validEnvironment_def)
      code_simp
  have "\<exists>r. PaymentEventIngestionService_Ingest plain_unicode (\<lambda>_. replicate 32 CHR ''f'') (\<lambda>_. ''t'') 5 1000
       (normalizedEvent demo_crypto (\<lambda>_. ''t'') demo_signed ''body'' demo_payload) (empty_db 1000) = (r, s')"
    using webhook_only_authentic [OF reg [unfolded demo_provider_def] run [unfolded v demo_webhook_def demo_provider_def]] ok
    by (auto simp: demo_request_def)
  with run v ok show ?thesis by blast
qed

section \<open>The event worker\<close>

lemma env_calls: "(\<And>s0. always (env_run s0) m) \<Longrightarrow> calls_only m"
  unfolding calls_only_def by (metis alwaysD env_run_refl env_run_keeps(3) prod.collapse)

lemma env_event_worker [always_intros]:
  "always (env_run s0) (ReviewPaymentEvent item ref reason t)"
  "always (env_run s0) (CompleteIgnoredPaymentEvent eid code t)"
  "always (env_run s0) (SchedulePaymentEventRetry eid t1 t2 code detail)"
  "always (env_run s0) (ClaimPaymentEvents_query skip t sb n)"
  "always (env_run s0) (AttachPaymentEventProviderAccount m eid)"
  unfolding ReviewPaymentEvent_def MarkPaymentEventReviewedBeforeAcceptance_def CompleteIgnoredPaymentEvent_def
    CompleteIgnoredPaymentEvent_query_def SchedulePaymentEventRetry_def SchedulePaymentEventRetry_query_def
    ClaimPaymentEvents_query_def AttachPaymentEventProviderAccount_def LockPaymentEvent_def
  by (intro always_intros)+

lemma env_loadItem: "always (env_run s0) (loadItem pt row)"
  unfolding loadItem_def attachMapping_def Let_def by (intro always_intros)

lemma always_mapE: "(\<And>x. always I (f x)) \<Longrightarrow> always I (mapE f xs)"
  by (induction xs) (auto intro!: always_intros)

lemma env_ClaimEvents [always_intros]: "always (env_run s0) (ClaimPaymentEvents pt skip t sb n)"
  unfolding ClaimPaymentEvents_def by (intro always_intros always_mapE env_loadItem)

lemma calls_processItem: "calls_only (processItem uc job skip ttl n acc now item)"
proof -
  have "calls_only (PaymentAcceptanceService_Accept skip ttl n t cmd)" for t cmd
    by (rule calls_step) (rule sh_accept)
  moreover have "calls_only (SchedulePaymentEventRetry eid t1 t2 code detail)"
    "calls_only (ReviewPaymentEvent item ref reason t)" "calls_only (CompleteIgnoredPaymentEvent eid code t)"
    for eid t1 t2 code detail ref reason t
    by (rule env_calls, rule env_event_worker)+
  ultimately show ?thesis
    unfolding processItem_def by (intro calls_intros; assumption?) (auto intro!: calls_intros split: sum.splits)
qed

text \<open>An item that may lead to a payment.\<close>

definition payable :: "unicode \<Rightarrow> event_job \<Rightarrow> string \<Rightarrow> string \<Rightarrow> bool" where
  "payable uc job direction content \<longleftrightarrow> direction \<noteq> ''outbound'' \<and>
     (case ej_extractor job of None \<Rightarrow> True
      | Some x \<Rightarrow> pre_Match (Extract uc (Some x) content) = PaymentReferenceExact)"

lemma unpayable_item:
  "\<not> payable uc job (wk_Direction item) (wk_TransferContent item) \<Longrightarrow>
   always (env_run s0) (processItem uc job skip ttl n acc now item)"
  by (cases "ej_extractor job")
    (auto simp: payable_def processItem_def itemReference_def Let_def intro: env_event_worker)

lemma always_forE_in: "(\<And>x. x \<in> set xs \<Longrightarrow> always I (f x)) \<Longrightarrow> always I (forE xs f)"
  by (induction xs) (auto intro!: always_intros)

lemma loadItem_InrD:
  "loadItem pt row s = (Inr item, s') \<Longrightarrow>
   wk_Direction item = evt_transfer_direction row \<and> wk_TransferContent item = evt_transfer_content row"
  by (auto simp: loadItem_def attachMapping_def workItem_def bindE_app attempt_def Let_def
      split: option.splits if_splits sum.splits prod.splits)

lemma mapE_InrD:
  "mapE f xs s = (Inr ys, s') \<Longrightarrow> y \<in> set ys \<Longrightarrow> \<exists>x \<in> set xs. \<exists>t t'. f x t = (Inr y, t')"
  by (induction xs arbitrary: s ys) (fastforce simp: bindE_app split: sum.splits prod.splits)+

lemma claimed_items:
  assumes "ClaimPaymentEvents pt skip now sb n s = (Inr items, s')" "item \<in> set items"
  shows "\<exists>e \<in> set (payment_events s).
     wk_Direction item = evt_transfer_direction e \<and> wk_TransferContent item = evt_transfer_content e"
proof -
  from assms(1) obtain rows s1 where q: "ClaimPaymentEvents_query skip now sb n s = (Inr rows, s1)"
    and items: "mapE (loadItem pt) rows s1 = (Inr items, s')"
    by (auto simp: ClaimPaymentEvents_def bindE_app split: sum.splits prod.splits)
  from mapE_InrD [OF items assms(2)] obtain row where row: "row \<in> set rows"
    "wk_Direction item = evt_transfer_direction row" "wk_TransferContent item = evt_transfer_content row"
    using loadItem_InrD by metis
  from q row(1) obtain e where "e \<in> set (payment_events s)" "evt_transfer_direction row = evt_transfer_direction e"
    "evt_transfer_content row = evt_transfer_content e"
    by (auto simp: ClaimPaymentEvents_query_def bindE_app updateEvents_def dest!: sqlUpdate_InrD split: if_splits)
  with row show ?thesis by auto
qed

text \<open>
  C28. A pass of the payment event worker is a sequence of steps of the shop, whatever it finds, and it touches
  orders, payments, wallets or deliveries only if the inbox holds an event that is not an outgoing transfer and, when
  the extractor is configured, whose transfer content names exactly one payment reference.
\<close>

theorem event_pass_is_a_run:
  assumes "PaymentEventJob_RunOnce pt uc job skip ttl n acc now s = (r, s')"
  shows "shop_step\<^sup>*\<^sup>* s s' \<and>
     (books s' \<noteq> books s \<longrightarrow>
       (\<exists>e \<in> set (payment_events s). payable uc job (evt_transfer_direction e) (evt_transfer_content e)))"
proof -
  have "calls_only (PaymentEventJob_RunOnce pt uc job skip ttl n acc now)"
    unfolding PaymentEventJob_RunOnce_def
    by (intro calls_intros calls_processItem env_calls env_ClaimEvents)
  then have run: "shop_step\<^sup>*\<^sup>* s s'" using assms unfolding calls_only_def by (metis snd_conv)
  have "books s' = books s"
    if none: "\<forall>e \<in> set (payment_events s). \<not> payable uc job (evt_transfer_direction e) (evt_transfer_content e)"
  proof (cases "ej_batchSize job \<le> 0 \<or> ej_retryBase job \<le> 0 \<or> ej_staleAfter job \<le> 0")
    case True
    with assms show ?thesis by (simp add: PaymentEventJob_RunOnce_def)
  next
    case False
    obtain c s1 where c: "ClaimPaymentEvents pt skip now (now - ej_staleAfter job) (ej_batchSize job) s = (c, s1)" by fastforce
    then have s1: "books s1 = books s" using env_ClaimEvents env_runD env_run_keeps(1) by blast
    show ?thesis
    proof (cases c)
      case (Inl e)
      with assms c s1 False show ?thesis by (auto simp: PaymentEventJob_RunOnce_def bindE_app)
    next
      case (Inr items)
      have "always (env_run s1) (forE items (processItem uc job skip ttl n acc now))"
        using none claimed_items [OF c [unfolded Inr]] by (intro always_forE_in unpayable_item) metis
      then have "always (env_run s1) (bindE (forE items (processItem uc job skip ttl n acc now)) (\<lambda>_. returnE (int (length items))))"
        by (rule always_bindE) (rule always_returnE)
      from env_runD [OF this] assms c Inr False have "env_run s1 s'"
        by (auto simp: PaymentEventJob_RunOnce_def bindE_app [of "ClaimPaymentEvents _ _ _ _ _"])
      with s1 show ?thesis by (simp add: env_run_keeps(1))
    qed
  qed
  with run show ?thesis by blast
qed

definition demo_job :: event_job where
  "demo_job = \<lparr>ej_batchSize = 10, ej_retryBase = 60, ej_staleAfter = 300,
     ej_extractor = Some \<lparr>re_prefix = ''SHOP'', re_tokenLength = 12, re_contentLimit = 2048\<rparr>\<rparr>"

text \<open>An event without a reference: the pass reviews it and the books stay as they are.\<close>

definition stray_inbox :: db where
  "stray_inbox = snd (PaymentEventIngestionService_Ingest plain_unicode (\<lambda>_. replicate 32 CHR ''f'') (\<lambda>_. []) 5 1000
     (demo_event\<lparr>ne_TransferContent := ''thanks'', ne_SanitizedMetadata := JsonObject [(''amount_vnd'', JInt 50000),
       (''currency'', JText ''VND''), (''occurred_at'', JText ''t'')]\<rparr>) (empty_db 1000))"

definition stray_pass :: "int dbtx" where
  "stray_pass = PaymentEventJob_RunOnce (\<lambda>_. Some 900) plain_unicode demo_job (\<lambda>_. False) 900 5 (\<lambda>_. 2000) 2000"

theorem event_pass_is_a_run_witness:
  "\<exists>s'. stray_pass stray_inbox = (Inr 1, s') \<and> shop_step\<^sup>*\<^sup>* stray_inbox s' \<and> books s' = books stray_inbox \<and>
     map evt_processing_status (payment_events s') = [''review'']"
proof -
  obtain v s' where run: "stray_pass stray_inbox = (v, s')" by fastforce
  have "fst (stray_pass stray_inbox) = Inr 1"
    "map evt_processing_status (payment_events (snd (stray_pass stray_inbox))) = [''review'']" by code_simp+
  moreover have "list_all (\<lambda>e. \<not> payable plain_unicode demo_job (evt_transfer_direction e) (evt_transfer_content e))
    (payment_events stray_inbox)" by code_simp
  ultimately show ?thesis
    using run event_pass_is_a_run [OF run [unfolded stray_pass_def]] by (auto simp: list_all_iff)
qed

section \<open>Unfinished updates\<close>

definition startable :: "int64 \<Rightarrow> time \<Rightarrow> receipt_row \<Rightarrow> bool" where
  "startable u stale_before r \<longleftrightarrow> rcp_update_id r = u \<and>
     (rcp_status r \<in> {''received'', ''failed''} \<or>
      (rcp_status r = ''processing'' \<and> (case rcp_processing_started_at r of None \<Rightarrow> False | Some t \<Rightarrow> t \<le> stale_before)))"

lemma receipts_noClash: "noClash receipt_uq rows \<longleftrightarrow> distinct (map rcp_update_id rows)"
  by (simp add: receipt_uq_def [abs_def] noClash_key)

lemma start_query:
  "StartTelegramUpdateProcessing u sb = bindE (askE clock) (\<lambda>ts. one (updateReceipts (startable u sb)
     (\<lambda>r. r\<lparr>rcp_status := ''processing'', rcp_attempts := rcp_attempts r + 1, rcp_processing_started_at := Some ts,
            rcp_processed_at := None, rcp_last_error := None\<rparr>)))"
  by (simp add: StartTelegramUpdateProcessing_def startable_def [abs_def])

lemma start_update:
  assumes "table_ok receipt_ck receipt_uq (update_receipts s)" "r \<in> set (update_receipts s)" "startable u sb r"
  shows "\<exists>x s'. StartTelegramUpdateProcessing u sb s = (Inr x, s')"
proof -
  let ?f = "\<lambda>r. r\<lparr>rcp_status := ''processing'', rcp_attempts := rcp_attempts r + 1,
    rcp_processing_started_at := Some (clock s), rcp_processed_at := None, rcp_last_error := None\<rparr>"
  have "map rcp_update_id (updateWhere (startable u sb) ?f (update_receipts s)) = map rcp_update_id (update_receipts s)"
    by (auto simp: updateWhere_def)
  then have "noClash receipt_uq (updateWhere (startable u sb) ?f (update_receipts s))"
    using assms(1) by (simp add: receipts_noClash table_ok_def)
  moreover have "list_all receipt_ck (map ?f (filter (startable u sb) (update_receipts s)))"
    using assms(1) by (auto simp: table_ok_def list_all_iff receipt_ck_def optNotBlank_def)
  moreover have "filter (startable u sb) (update_receipts s) \<noteq> []" using assms(2,3) by (auto simp: filter_empty_conv)
  ultimately show ?thesis
    by (auto simp: start_query bindE_app updateReceipts_def sqlUpdate_def Let_def one_def neq_Nil_conv)
qed

lemma blank_trim: "\<not> notBlank t \<Longrightarrow> TrimSpace t = []"
proof -
  assume "\<not> notBlank t"
  then have "t = replicate (length t) CHR '' ''" by (simp add: notBlank_def list_eq_iff_nth_eq)
  moreover have "trimLeftWith whiteSpaceRunes (replicate n CHR '' '') = []" for n
    by (induction n) (simp_all add: trimLeftWith.simps [where s = "[]"] trimLeftWith.simps [where s = "CHR '' '' # _"]
        whiteSpaceRunes_def)
  ultimately have "trimLeftWith whiteSpaceRunes t = []" by metis
  then show "TrimSpace t = []"
    by (simp add: TrimSpace_def trimLeftWith.simps [where s = "[]"] whiteSpaceRunes_def)
qed

lemma claim_at:
  assumes "update_receipts s1 = rows" "filter (\<lambda>r. rcp_update_id r = u) rows = r # rest"
    and "InsertTelegramUpdateReceipt u ty s = (Inr k, s1)" "table_ok receipt_ck receipt_uq rows"
    and "rcp_status r \<noteq> ''completed''" "rcp_status r = ''processing'' \<longrightarrow> startable u sb r"
  shows "fst (ClaimUpdate u ty sb s) = Inr UpdateClaimed"
proof -
  have r: "r \<in> set rows" "rcp_update_id r = u" using assms(2) by (auto simp: filter_eq_Cons_iff)
  with assms(4) have "receipt_ck r" by (auto simp: table_ok_def list_all_iff)
  with assms(5,6) r have st: "startable u sb r" by (auto simp: receipt_ck_def startable_def)
  from start_update [of s1 r u sb] assms(1,4) r(1) st obtain x s2
    where "StartTelegramUpdateProcessing u sb s1 = (Inr x, s2)" by blast
  with assms st show ?thesis
    by (auto simp: ClaimUpdate_def WithinTransaction_def bindE_app LockTelegramUpdateReceipt_def sqlSelectOne_def
        sqlSelect_def one_def attempt_def startable_def split: option.splits)
qed

text \<open>The claim of an update never seen, and of one with a receipt.\<close>

lemma claim_new_update:
  assumes "table_ok receipt_ck receipt_uq (update_receipts s)" and "0 \<le> updateID" "TrimSpace updateType \<noteq> []"
    and new: "filter (\<lambda>r. rcp_update_id r = updateID) (update_receipts s) = []"
  shows "fst (UpdateService_Claim staleAfter now updateID updateType s) = Inr UpdateClaimed"
proof -
  have "notBlank updateType" using assms(3) blank_trim by blast
  then have ins: "InsertTelegramUpdateReceipt updateID updateType s =
      (Inr 1, s\<lparr>update_receipts := update_receipts s @ [newReceipt updateID updateType]\<rparr>)"
    using new assms(2) by (auto simp: InsertTelegramUpdateReceipt_def bindE_app attempt_def sqlInsertIgnore_def sqlInsert_def
        receipt_ck_def newReceipt_def optNotBlank_def receipt_uq_def filter_empty_conv)
  have "table_ok receipt_ck receipt_uq (update_receipts s @ [newReceipt updateID updateType])"
    using assms \<open>notBlank updateType\<close> by (auto simp: table_ok_def noClash_append receipt_uq_def receipt_ck_def newReceipt_def
        optNotBlank_def filter_empty_conv)
  with claim_at [OF _ _ ins, of _ "newReceipt updateID updateType" "[]"] new show ?thesis
    using assms(2,3) by (simp add: UpdateService_Claim_def newReceipt_def)
qed

lemma claim_known_update:
  assumes ok: "table_ok receipt_ck receipt_uq (update_receipts s)" and args: "0 \<le> updateID" "TrimSpace updateType \<noteq> []"
    and known: "filter (\<lambda>r. rcp_update_id r = updateID) (update_receipts s) = r # rest"
  shows "rcp_status r = ''completed'' \<Longrightarrow>
      UpdateService_Claim staleAfter now updateID updateType s = (Inr UpdateDuplicateCompleted, s)" (is "?done \<Longrightarrow> ?dup")
    and "rcp_status r \<noteq> ''completed'' \<Longrightarrow> staleAfter + int8Or (rcp_processing_started_at r) \<le> now \<Longrightarrow>
      fst (UpdateService_Claim staleAfter now updateID updateType s) = Inr UpdateClaimed" (is "_ \<Longrightarrow> ?late \<Longrightarrow> ?claimed")
proof -
  have r: "r \<in> set (update_receipts s)" "rcp_update_id r = updateID" using known by (auto simp: filter_eq_Cons_iff)
  have "notBlank updateType" using args(2) blank_trim by blast
  then have ins: "InsertTelegramUpdateReceipt updateID updateType s = (Inr 0, s)"
    using r args(1) by (auto simp: InsertTelegramUpdateReceipt_def bindE_app attempt_def sqlInsertIgnore_def
        receipt_ck_def newReceipt_def optNotBlank_def receipt_uq_def)
  show ?dup if ?done
    using that args ins known by (simp add: UpdateService_Claim_def ClaimUpdate_def WithinTransaction_def bindE_app
        LockTelegramUpdateReceipt_def sqlSelectOne_def sqlSelect_def one_def)
  have "receipt_ck r" using ok r(1) by (auto simp: table_ok_def list_all_iff)
  then have "rcp_status r = ''processing'' \<longrightarrow> startable updateID (now - staleAfter) r" if ?late
    using that r(2) by (auto simp: receipt_ck_def startable_def int8Or_def)
  then show ?claimed if "rcp_status r \<noteq> ''completed''" ?late
    using claim_at [OF refl known ins ok that(1)] args that(2) by (simp add: UpdateService_Claim_def)
qed

text \<open>
  C29. No Telegram update gets stuck: whatever happened to it so far, as long as it is not completed, there is a time
  from which every claim of it succeeds, be it new, failed, or left behind by a process that died while handling it.
  A completed update is never handed out again and its claim changes nothing.
\<close>

theorem unfinished_update_reclaimed:
  assumes "table_ok receipt_ck receipt_uq (update_receipts s)" and "0 \<le> updateID" "TrimSpace updateType \<noteq> []"
  shows "if \<exists>r \<in> set (update_receipts s). rcp_update_id r = updateID \<and> rcp_status r = ''completed''
     then \<forall>now. UpdateService_Claim staleAfter now updateID updateType s = (Inr UpdateDuplicateCompleted, s)
     else \<exists>T. \<forall>now \<ge> T. fst (UpdateService_Claim staleAfter now updateID updateType s) = Inr UpdateClaimed"
proof (cases "filter (\<lambda>r. rcp_update_id r = updateID) (update_receipts s)")
  case Nil
  then show ?thesis using claim_new_update [OF assms] by (auto simp: filter_empty_conv)
next
  case (Cons r rest)
  then have r: "r \<in> set (update_receipts s)" "rcp_update_id r = updateID" by (auto simp: filter_eq_Cons_iff)
  have "distinct (map rcp_update_id (update_receipts s))" using assms(1) by (simp add: table_ok_def receipts_noClash)
  then have same: "x = r" if "x \<in> set (update_receipts s)" "rcp_update_id x = updateID" for x
    using that r by (auto simp: distinct_map dest: inj_onD)
  then have "(\<exists>r \<in> set (update_receipts s). rcp_update_id r = updateID \<and> rcp_status r = ''completed'') \<longleftrightarrow>
      rcp_status r = ''completed''"
    using r by blast
  then show ?thesis
    using claim_known_update [OF assms Cons] by (simp only: split: if_split) blast
qed

text \<open>An update whose handler died at time 500.\<close>

definition abandoned :: db where
  "abandoned = (empty_db 1000)\<lparr>update_receipts := [\<lparr>rcp_update_id = 7, rcp_update_type = ''message'',
     rcp_status = ''processing'', rcp_attempts = 1, rcp_processing_started_at = Some 500, rcp_processed_at = None,
     rcp_last_error = None\<rparr>]\<rparr>"

theorem unfinished_update_reclaimed_witness:
  "fst (UpdateService_Claim 60 510 7 ''message'' abandoned) = Inr UpdateDuplicateProcessing \<and>
   (\<exists>T. \<forall>now \<ge> T. fst (UpdateService_Claim 60 now 7 ''message'' abandoned) = Inr UpdateClaimed)"
proof
  show "fst (UpdateService_Claim 60 510 7 ''message'' abandoned) = Inr UpdateDuplicateProcessing" by code_simp
  have "TrimSpace ''message'' \<noteq> []" by code_simp
  moreover have "table_ok receipt_ck receipt_uq (update_receipts abandoned)"
    by (simp add: abandoned_def table_ok_def receipt_ck_def notBlank_def optNotBlank_def)
  ultimately show "\<exists>T. \<forall>now \<ge> T. fst (UpdateService_Claim 60 now 7 ''message'' abandoned) = Inr UpdateClaimed"
    using unfinished_update_reclaimed [of abandoned 7 "''message''" 60] by (simp add: abandoned_def)
qed

end
