(* ===== verification/Front_End.thy ===== *)
theory Front_End
  imports Telegram_Router Inbox
begin

text \<open>
  What the router guarantees. Every update it processes is a run of the shop, so all invariants hold with the
  whole front end at work; an update has its effect at most once, in the transaction that completes its receipt;
  and the buttons of the administration do nothing for anybody else.
\<close>

section \<open>Updates are runs of the shop\<close>

definition shop_run :: "db \<Rightarrow> db \<Rightarrow> bool" where
  "shop_run s0 s \<longleftrightarrow> shop_step\<^sup>*\<^sup>* s0 s"

lemma shop_run_step:
  assumes "\<And>s r s'. m s = (r, s') \<Longrightarrow> s' = s \<or> shop_step s s'"
  shows "always (shop_run s0) m"
proof (rule alwaysI)
  fix s
  assume "shop_run s0 s"
  then show "shop_run s0 (snd (m s))"
    using assms [of s "fst (m s)" "snd (m s)"] by (auto simp: shop_run_def intro: rtranclp.rtrancl_into_rtrancl)
qed

lemma shop_run_env:
  assumes "\<And>s. always (env_run s) m"
  shows "always (shop_run s0) m"
proof (rule alwaysI)
  fix s
  assume "shop_run s0 s"
  moreover have "shop_step\<^sup>*\<^sup>* s (snd (m s))" by (rule env_run_keeps(3)) (rule alwaysD [OF assms env_run_refl prod.collapse [symmetric]])
  ultimately show "shop_run s0 (snd (m s))" by (simp add: shop_run_def)
qed

text \<open>The instruction of an order or top-up comes after the commit, so it does not matter for the effect.\<close>

lemma create_effect:
  "snd (OrderService_Create refs ins cfg now cmd s) =
   snd (OrderService_Create refs (\<lambda>o'. map_sum id (\<lambda>_. ()) (ins o')) cfg now cmd s)"
  by (auto simp: OrderService_Create_def bindE_app ofSum_def map_sum_def split: sum.splits prod.splits)

lemma topup_effect:
  "snd (WalletService_CreateTopup mn mx ex env rf ins now cmd s) =
   snd (WalletService_CreateTopup mn mx ex env rf (\<lambda>t. map_sum id (\<lambda>_. ()) (ins t)) now cmd s)"
  by (auto simp: WalletService_CreateTopup_def bindE_app ofSum_def map_sum_def split: sum.splits prod.splits)

lemma run_shop_services [always_intros]:
  "always (shop_run s0) (OrderService_Create refs ins cfg now cc)" "always (shop_run s0) (OrderService_Cancel now cn)"
  "always (shop_run s0) (WalletService_Balance u)"
  "always (shop_run s0) (WalletService_CreateTopup mn mx ex env rf tin now tc)"
  "always (shop_run s0) (WalletService_PayOrder skip ttl n now pc)" "always (shop_run s0) (WalletService_Adjust now ac)"
  "always (shop_run s0) (DeliveryAdminService_Retry now dc)" "always (shop_run s0) (DeliveryAdminService_Complete now dc)"
  "always (shop_run s0) (PaymentAdminService_ManualConfirm skip ttl n now mc)"
  "always (shop_run s0) (PaymentAdminService_ResolveReview now rc)"
proof -
  show "always (shop_run s0) (OrderService_Create refs ins cfg now cc)"
    by (rule shop_run_step) (metis create_effect sh_create prod.collapse snd_conv)
  show "always (shop_run s0) (WalletService_CreateTopup mn mx ex env rf tin now tc)"
    by (rule shop_run_step) (metis topup_effect sh_topup prod.collapse snd_conv)
qed (rule shop_run_step, blast intro: sh_cancel sh_balance sh_pay sh_adjust sh_retry sh_complete dest: decisions_are_steps)+

lemmas run_office_services [always_intros] =
  env_desk_entries [THEN shop_run_env] env_session_entries [THEN shop_run_env] env_catalog_entries [THEN shop_run_env]
  env_bank_entries [THEN shop_run_env] env_stock_entries [THEN shop_run_env] env_provider_entries [THEN shop_run_env]

text \<open>What only reads keeps everything.\<close>

lemma always_read_tx:
  assumes "\<And>s. always ((=) s) m"
  shows "always I (WithinTransaction m)"
proof (rule alwaysI)
  fix s
  assume "I s"
  moreover have "snd (m s) = s" using alwaysD [OF assms refl, of s "fst (m s)" "snd (m s)"] by simp
  ultimately show "I (snd (WithinTransaction m s))" by (cases "m s"; cases "fst (m s)") (auto simp: WithinTransaction_def)
qed

declare always_mapE [always_intros]

lemma page_reads [always_intros]:
  "always I CountActiveCategories" "always I (ListActiveCategoriesPage o1 n1)" "always I (CountActiveProductsByCategory c)"
  "always I (ListActiveProductsPage c o1 n1)" "always I (GetActiveProductDetail i)" "always I CountAdminCategories"
  "always I (ListAdminCategoriesPage o1 n1)" "always I CountAdminProducts" "always I (ListAdminProductsPage o1 n1)"
  "always I (ListActiveBankAccountOptions e)" "always I CountAdminBankAccounts" "always I (ListAdminBankAccountsPage o1 n1)"
  "always I CountInventoryOverviewProducts" "always I (ListInventoryOverviewPage o1 n1)"
  "always I (CountRedactedInventoryByProduct i)" "always I (ListRedactedInventoryPage i o1 n1)"
  "always I CountPaymentProviderAccounts" "always I (ListPaymentProviderAccounts_query col o1 n1)"
  "always I (GetPaymentProviderHealth_query pv e)" "always I (GetActiveSession a)" "always I (inventoryProduct i)"
  unfolding CountActiveCategories_def ListActiveCategoriesPage_def CountActiveProductsByCategory_def
    ListActiveProductsPage_def GetActiveProductDetail_def CountAdminCategories_def ListAdminCategoriesPage_def
    CountAdminProducts_def ListAdminProductsPage_def ListActiveBankAccountOptions_def CountAdminBankAccounts_def
    ListAdminBankAccountsPage_def CountInventoryOverviewProducts_def ListInventoryOverviewPage_def
    CountRedactedInventoryByProduct_def ListRedactedInventoryPage_def CountPaymentProviderAccounts_def
    ListPaymentProviderAccounts_query_def GetPaymentProviderHealth_query_def GetActiveSession_def inventoryProduct_def
  by (intro always_intros)+

lemma store_reads [always_intros]:
  "always I (ListInventoryOverview ad o1 n1)" "always I (ListRedactedInventory ad i o1 n1)"
  unfolding ListInventoryOverview_def ListRedactedInventory_def by (intro always_read_tx always_intros)+

lemma service_reads [always_intros]:
  "always I (CatalogService_ListCategories n p)" "always I (CatalogService_ListProducts n c p)"
  "always I (CatalogService_GetProduct i)" "always I (CatalogService_ListAdminCategories n p)"
  "always I (CatalogService_ListAdminProducts n p)" "always I (BankAccountService_ListActive e)"
  "always I (BankAccountService_ListAdmin n a p)" "always I (OrderService_List cfg a p)"
  "always I (OrderService_Get ins a i)" "always I (InventoryAdminService_ListOverview n a p)"
  "always I (InventoryAdminService_ListItems n a i p)" "always I (PaymentProviderAdminService_ListAccounts col n a p)"
  "always I (PaymentProviderAdminService_Health ps a)" "always I (AdminService_LoadSession t a)"
  unfolding CatalogService_ListCategories_def ListActiveCategories_def CatalogService_ListProducts_def
    ListActiveProducts_def CatalogService_GetProduct_def GetActiveProduct_def CatalogService_ListAdminCategories_def
    ListAdminCategories_def CatalogService_ListAdminProducts_def ListAdminProducts_def BankAccountService_ListActive_def
    ListActiveBankAccounts_def BankAccountService_ListAdmin_def ListAdminBankAccounts_def OrderService_List_def
    OrderService_Get_def InventoryAdminService_ListOverview_def InventoryAdminService_ListItems_def
    PaymentProviderAdminService_ListAccounts_def ListPaymentProviderAccounts_def PaymentProviderAdminService_Health_def
    AdminService_LoadSession_def
  by (intro always_intros)+

declare listings_read_only [always_intros]

section \<open>The cases of the switch\<close>

lemma run_cases [always_intros]:
  "always (shop_run s0) (onMenu pl)" "always (shop_run s0) (onSupport r pl)" "always (shop_run s0) (onCategories r cb pl)"
  "always (shop_run s0) (onProducts r cb pl)" "always (shop_run s0) (onProductDetail cb pl)"
  "always (shop_run s0) (onOrderQuantity r cb pl)" "always (shop_run s0) (onOrderBank r cb me pl)"
  "always (shop_run s0) (onOrderConfirm r t cb me pl)" "always (shop_run s0) (onOrders r t cb pl)"
  "always (shop_run s0) (onOrderView r t cb pl)" "always (shop_run s0) (onOrderAskCancel r t cb pl)"
  "always (shop_run s0) (onOrderCancel r t cb me pl)" "always (shop_run s0) (onOrderWalletAsk r t cb me pl)"
  "always (shop_run s0) (onOrderWalletPay r t cb me pl)" "always (shop_run s0) (onWalletBalance t pl)"
  "always (shop_run s0) (onTopupAmount r cb me pl)" "always (shop_run s0) (onTopupBank r t cb me pl)"
  unfolding onMenu_def onSupport_def onCategories_def onProducts_def onProductDetail_def onOrderQuantity_def
    onOrderBank_def onOrderConfirm_def onOrders_def onOrderView_def onOrderAskCancel_def onOrderCancel_def
    onOrderWalletAsk_def onOrderWalletPay_def onWalletBalance_def onTopupAmount_def onTopupBank_def
  by (intro always_intros)+

lemma run_asks [always_intros]:
  "always (shop_run s0) (askFor r t st py q me pl)" "always (shop_run s0) (askConfirm r t st py q tag rec cb me pl)"
  unfolding askFor_def askConfirm_def startSession_def by (intro always_intros)+

lemma run_admin_cases [always_intros]:
  "always (shop_run s0) (onAdminCatalog t pl)" "always (shop_run s0) (onPaymentReviews r t cb pl)"
  "always (shop_run s0) (onDeliveries r t cb pl)" "always (shop_run s0) (onDeliveryDetail t cb pl)"
  "always (shop_run s0) (onDeliveryResolution r t cb me pl)" "always (shop_run s0) (onDeliveryConfirm r t cb me pl)"
  "always (shop_run s0) (onDeliveryReconcile r t pl)" "always (shop_run s0) (onPaymentManual r t me pl)"
  "always (shop_run s0) (onPaymentResolve r t cb me pl)" "always (shop_run s0) (onWalletAdjustment r t cb me pl)"
  "always (shop_run s0) (onInventory r t cb pl)" "always (shop_run s0) (onBanks r t cb pl)"
  "always (shop_run s0) (onBankNew r t me pl)" "always (shop_run s0) (onBankEdit r t cb me pl)"
  "always (shop_run s0) (onBankAskToggle r t cb me pl)" "always (shop_run s0) (onBankToggle r t cb me pl)"
  "always (shop_run s0) (onInventoryList r t cb pl)" "always (shop_run s0) (onInventoryImport r t cb me pl)"
  "always (shop_run s0) (onInventoryAskToggle r t cb me pl)" "always (shop_run s0) (onInventoryToggle r t cb me pl)"
  "always (shop_run s0) (onCategoryNew r t me pl)" "always (shop_run s0) (onCategoryEdit r t cb me pl)"
  "always (shop_run s0) (onCategoryToggle r t cb me pl)" "always (shop_run s0) (onProductNew r t me pl)"
  "always (shop_run s0) (onProductEdit r t cb me pl)" "always (shop_run s0) (onProductToggle r t cb me pl)"
  "always (shop_run s0) (onCancel r t cb me pl)"
  unfolding onAdminCatalog_def onPaymentReviews_def onDeliveries_def onDeliveryDetail_def onDeliveryResolution_def
    onDeliveryConfirm_def onDeliveryReconcile_def onPaymentManual_def onPaymentResolve_def onWalletAdjustment_def
    onInventory_def onBanks_def onBankNew_def onBankEdit_def onBankAskToggle_def onBankToggle_def onInventoryList_def
    onInventoryImport_def onInventoryAskToggle_def onInventoryToggle_def onCategoryNew_def onCategoryEdit_def
    onCategoryToggle_def onProductNew_def onProductEdit_def onProductToggle_def onCancel_def Let_def
  by (intro always_intros)+

lemma run_provider_cases [always_intros]:
  "always (shop_run s0) (onProviderHealth r t pl)" "always (shop_run s0) (onProviderAccounts r t cb pl)"
  "always (shop_run s0) (onProviderAccountNew r t me pl)" "always (shop_run s0) (onProviderAskToggle r t cb me pl)"
  "always (shop_run s0) (onProviderToggle r t cb me pl)"
  unfolding onProviderHealth_def onProviderAccounts_def onProviderAccountNew_def onProviderAskToggle_def
    onProviderToggle_def withProviders_def
  by (intro always_intros)+

lemma run_routeCallback [always_intros]: "always (shop_run s0) (routeCallback r t cb me pl)"
  unfolding routeCallback_def by (cases "Action cb") (simp_all only: CallbackAction.case, (intro always_intros)+)

lemma run_session_texts [always_intros]:
  "always (shop_run s0) (onProviderText r t x ses py me pl)" "always (shop_run s0) (onDeliveryText r t x ses py me pl)"
  "always (shop_run s0) (onImportText r t x ses py me pl)" "always (shop_run s0) (onCategoryText r t x ses py me pl)"
  "always (shop_run s0) (handleProductSessionText r t x ses py me pl)"
  "always (shop_run s0) (handleBankSessionText r t x ses py me pl)"
  "always (shop_run s0) (onPaymentText r t x ses me pl)" "always (shop_run s0) (onReviewText r t x ses py me pl)"
  "always (shop_run s0) (onAdjustmentText r t x ses me pl)"
  unfolding onProviderText_def onDeliveryText_def onImportText_def onCategoryText_def handleProductSessionText_def
    handleBankSessionText_def onPaymentText_def onReviewText_def onAdjustmentText_def advanceTo_def Let_def
  by (intro always_intros)+

lemma run_Process: "always (shop_run s0) (Process r u rid)"
  unfolding Process_def processClaimed_def dispatch_def handleMessage_def handleCallback_def handleCommand_def
    handleSessionText_def Let_def
  by (intro always_intros)

section \<open>The effect of an update happens once\<close>

text \<open>
  What an update can change beyond its receipt: everything but the users, the wallets without money, the sequences
  and the clock.
\<close>

definition effects where
  "effects s = (admins s, admin_sessions s, categories s, products s, bank_accounts s, provider_accounts s,
     checkpoints s, orders s, order_items s, order_history s, inventory_items s, order_inventory s, payments s,
     payment_events s, payment_allocations s, payment_reviews s, filter (\<lambda>w. wal_balance_vnd w \<noteq> 0) (wallet_accounts s),
     wallet_ledger s, wallet_topups s, outbox_events s, delivery_attempts s, audit_logs s)"

definition handled :: "int64 \<Rightarrow> db \<Rightarrow> bool" where
  "handled u s \<longleftrightarrow> (\<exists>r \<in> set (update_receipts s). rcp_update_id r = u \<and> rcp_status r = ''completed'')"

definition settledE :: "int64 \<Rightarrow> _ \<Rightarrow> db \<Rightarrow> bool" where
  "settledE u e s \<longleftrightarrow> effects s = e \<or> handled u s"

text \<open>A transaction that ends by completing the receipt.\<close>

lemma completes: "triple (\<lambda>_. True) (completeReceipt u) (\<lambda>_. handled u)"
  unfolding completeReceipt_def CompleteTelegramUpdateReceipt_def
  by (rule tripleI)
    (auto simp: handled_def updateWhere_def filter_eq_Cons_iff dest!: sqlUpdate_InrD)

lemma completes_last:
  "v = u \<Longrightarrow> triple (\<lambda>_. True) (bindE (completeReceipt v) (\<lambda>_. returnE x)) (\<lambda>_. handled u)"
  by (simp, rule triple_step [where R = "\<lambda>_. handled u" and F = "\<lambda>_. True"])
    (auto intro: triple_post [OF completes] triple_returnE)

lemma completes_later:
  "(\<And>x. triple (\<lambda>_. True) (f x) Q) \<Longrightarrow> triple (\<lambda>_. True) (bindE m f) Q"
  by (rule triple_step [where R = "\<lambda>_ _. True" and F = "\<lambda>_. True"]) (auto simp: triple_def)

lemma triple_case_option:
  "(x = None \<Longrightarrow> triple P a Q) \<Longrightarrow> (\<And>y. x = Some y \<Longrightarrow> triple P (b y) Q) \<Longrightarrow>
   triple P (case x of None \<Rightarrow> a | Some y \<Rightarrow> b y) Q"
  by (cases x) auto

lemma triple_case_sum:
  "(\<And>y. x = Inl y \<Longrightarrow> triple P (a y) Q) \<Longrightarrow> (\<And>y. x = Inr y \<Longrightarrow> triple P (b y) Q) \<Longrightarrow>
   triple P (case x of Inl y \<Rightarrow> a y | Inr y \<Rightarrow> b y) Q"
  by (cases x) auto

lemma triple_case_list:
  "(xs = [] \<Longrightarrow> triple P a Q) \<Longrightarrow> (\<And>y ys. xs = y # ys \<Longrightarrow> triple P (b y ys) Q) \<Longrightarrow>
   triple P (case xs of [] \<Rightarrow> a | y # ys \<Rightarrow> b y ys) Q"
  by (cases xs) auto

lemma triple_Let: "triple P (f x) Q \<Longrightarrow> triple P (Let x f) Q"
  by simp

lemma completes_closeAdmin: "UpdateID meta = u \<Longrightarrow> triple (\<lambda>_. True) (closeAdmin ad ses meta x) (\<lambda>_. handled u)"
  unfolding closeAdmin_def by (rule completes_later) (auto intro: completes_last)

lemma completes_asAdmin:
  "triple (\<lambda>_. True) body (\<lambda>_. handled u) \<Longrightarrow> triple (\<lambda>_. True) (asAdmin now ad ses st body) (\<lambda>_. handled u)"
  unfolding asAdmin_def by (intro completes_later)

lemma completes_wrapped:
  "triple (\<lambda>_. True) m (\<lambda>_. handled u) \<Longrightarrow> triple (\<lambda>_. True) (WithinTransaction m) (\<lambda>_. handled u)"
  "triple (\<lambda>_. True) m (\<lambda>_. handled u) \<Longrightarrow> triple (\<lambda>_. True) (mapErrE g m) (\<lambda>_. handled u)"
  by simp_all

lemmas completing = completes_last completes_closeAdmin completes completes_asAdmin triple_throwE completes_wrapped
  completes_later triple_if triple_case_option triple_case_sum triple_case_prod triple_Let

text \<open>Such a transaction either has no effect or the receipt is completed with it.\<close>

lemma settled_tx:
  assumes "triple (\<lambda>_. True) m (\<lambda>_. handled u)"
  shows "always (settledE u e) (WithinTransaction m)"
proof (rule alwaysI)
  fix s
  assume "settledE u e s"
  then show "settledE u e (snd (WithinTransaction m s))"
    using assms by (cases "m s"; cases "fst (m s)")
      (auto simp: WithinTransaction_def settledE_def effects_def handled_def triple_def)
qed

lemma completes_createLoop:
  "triple (\<lambda>_. True) (createLoop n refs cc us pr lt bk ex env) (\<lambda>_. handled (UpdateID (coc_Meta cc)))"
  by (induction n) (simp_all only: createLoop.simps, (rule refl completing | assumption)+)

lemma completes_order: "triple (\<lambda>_. True) (createOrderTx refs cfg now cc) (\<lambda>_. handled (UpdateID (coc_Meta cc)))"
  unfolding createOrderTx_def by (rule refl completes_createLoop completing)+

lemma completes_shop:
  "triple (\<lambda>_. True) (OrderService_Cancel now cn) (\<lambda>_. handled (UpdateID (cac_Meta cn)))"
  "triple (\<lambda>_. True) (CreateWalletTopup tc rf ex) (\<lambda>_. handled (UpdateID (cwt_Meta tc)))"
  "triple (\<lambda>_. True) (PayOrderWithWallet skip pc now ttl ms) (\<lambda>_. handled (UpdateID (wop_Meta pc)))"
  "triple (\<lambda>_. True) (AdjustWallet now ac tm) (\<lambda>_. handled (UpdateID (wac_Meta ac)))"
  "triple (\<lambda>_. True) (RetryDelivery now dc tm) (\<lambda>_. handled (UpdateID (drc_Meta dc)))"
  "triple (\<lambda>_. True) (CompleteDelivery now dc tm) (\<lambda>_. handled (UpdateID (drc_Meta dc)))"
  "triple (\<lambda>_. True) (ManualAcceptPayment skip now mc tm ttl ms) (\<lambda>_. handled (UpdateID (mpc_Meta mc)))"
  "triple (\<lambda>_. True) (ResolvePaymentReview now rc) (\<lambda>_. handled (UpdateID (rpc_Meta rc)))"
  unfolding OrderService_Cancel_def cancelOrderTx_def CreateWalletTopup_def PayOrderWithWallet_def
    walletSettleOrder_def AdjustWallet_def RetryDelivery_def CompleteDelivery_def ManualAcceptPayment_def
    ResolvePaymentReview_def
  by ((rule refl completing | (simp; fail))+)

text \<open>An operation whose failure leaves no effect: guards and reads before one transaction.\<close>

definition atomic :: "'a dbtx \<Rightarrow> bool" where
  "atomic m \<longleftrightarrow> (\<forall>s e s'. m s = (Inl e, s') \<longrightarrow> effects s' = effects s \<and> update_receipts s' = update_receipts s)"

lemma atomic_tx: "atomic (WithinTransaction m)"
  by (auto simp: atomic_def WithinTransaction_def effects_def split: prod.splits sum.splits)

lemma atomic_throwE: "atomic (throwE e)"
  by (simp add: atomic_def throwE_def)

lemma atomic_mapErrE: "atomic m \<Longrightarrow> atomic (mapErrE g m)"
  by (fastforce simp: atomic_def mapErrE_def split: prod.splits sum.splits)

lemma atomic_if: "atomic m \<Longrightarrow> atomic n \<Longrightarrow> atomic (if b then m else n)"
  by simp

lemma atomic_Let: "atomic (f x) \<Longrightarrow> atomic (Let x f)"
  by simp

lemma atomic_case_prod: "(\<And>a b. atomic (f a b)) \<Longrightarrow> atomic (case p of (a, b) \<Rightarrow> f a b)"
  by (cases p) simp

lemma atomic_return: "atomic m \<Longrightarrow> atomic (bindE m (\<lambda>x. returnE (g x)))"
  by (auto simp: atomic_def bindE_app split: sum.splits prod.splits)

lemma atomic_read:
  assumes "\<And>s. always ((=) s) m" "\<And>x. atomic (f x)"
  shows "atomic (bindE m f)"
  unfolding atomic_def
proof (intro allI impI)
  fix s e s'
  assume run: "bindE m f s = (Inl e, s')"
  have "snd (m s) = s" using alwaysD [OF assms(1) refl, of s "fst (m s)" "snd (m s)"] by simp
  then show "effects s' = effects s \<and> update_receipts s' = update_receipts s"
    using run assms(2) by (cases "m s"; cases "fst (m s)") (auto simp: bindE_app atomic_def)
qed

lemmas atoms = atomic_return atomic_tx atomic_throwE atomic_mapErrE atomic_if atomic_Let atomic_case_prod atomic_read
  always_intros

lemma settled_atomic:
  assumes "atomic m" "triple (\<lambda>_. True) m (\<lambda>_. handled u)"
  shows "always (settledE u e) m"
proof (rule alwaysI)
  fix s
  assume "settledE u e s"
  then show "settledE u e (snd (m s))"
    using assms by (cases "m s"; cases "fst (m s)") (auto simp: settledE_def atomic_def handled_def triple_def)
qed

lemma atomic_shop:
  "atomic (OrderService_Cancel now cn)"
  "atomic (WalletService_PayOrder skip ttl n now pc)"
  "atomic (WalletService_Adjust now ac)"
  "atomic (DeliveryAdminService_Retry now dc)"
  "atomic (DeliveryAdminService_Complete now dc)"
  "atomic (PaymentAdminService_ManualConfirm skip ttl n now mc)"
  "atomic (PaymentAdminService_ResolveReview now rc)"
  unfolding OrderService_Cancel_def WalletService_PayOrder_def WalletService_Adjust_def DeliveryAdminService_Retry_def DeliveryAdminService_Complete_def PaymentAdminService_ManualConfirm_def PaymentAdminService_ResolveReview_def
    RetryDelivery_def CompleteDelivery_def ManualAcceptPayment_def ResolvePaymentReview_def PayOrderWithWallet_def AdjustWallet_def
  by (rule atoms)+

text \<open>A service that cleans up its command and then runs such a transaction.\<close>

lemma completes_as: "triple P m (\<lambda>_. handled v) \<Longrightarrow> v = u \<Longrightarrow> triple P m (\<lambda>_. handled u)"
  by simp

lemma completes_return:
  "triple (\<lambda>_. True) m (\<lambda>_. handled u) \<Longrightarrow> triple (\<lambda>_. True) (bindE m (\<lambda>x. returnE (g x))) (\<lambda>_. handled u)"
  by (rule triple_step [where R = "\<lambda>_. handled u" and F = "\<lambda>_. True"]) (auto intro: triple_post triple_returnE)

lemmas completing_services = completes_return completes_shop [THEN completes_as] triple_throwE triple_if triple_Let

lemma completes_shop_services:
  "triple (\<lambda>_. True) (WalletService_PayOrder skip ttl n now pc) (\<lambda>_. handled (UpdateID (wop_Meta pc)))"
  "triple (\<lambda>_. True) (WalletService_Adjust now ac) (\<lambda>_. handled (UpdateID (wac_Meta ac)))"
  "triple (\<lambda>_. True) (DeliveryAdminService_Retry now dc) (\<lambda>_. handled (UpdateID (drc_Meta dc)))"
  "triple (\<lambda>_. True) (DeliveryAdminService_Complete now dc) (\<lambda>_. handled (UpdateID (drc_Meta dc)))"
  "triple (\<lambda>_. True) (PaymentAdminService_ManualConfirm skip ttl n now mc) (\<lambda>_. handled (UpdateID (mpc_Meta mc)))"
  "triple (\<lambda>_. True) (PaymentAdminService_ResolveReview now rc) (\<lambda>_. handled (UpdateID (rpc_Meta rc)))"
  unfolding WalletService_PayOrder_def WalletService_Adjust_def DeliveryAdminService_Retry_def
    DeliveryAdminService_Complete_def PaymentAdminService_ManualConfirm_def PaymentAdminService_ResolveReview_def
  by ((rule completing_services | (simp; fail))+)

lemma atomic_desk:
  "atomic (AdminService_StartSession ttl now u st py me)"
  "atomic (AdminService_AdvanceSession ttl now u ses st py me)"
  "atomic (AdminService_CancelSession now u ses me)"
  "atomic (AdminService_CreateCategory now u ses cci)"
  "atomic (AdminService_UpdateCategory now u ses uci)"
  "atomic (AdminService_SetCategoryActive now u ses sai)"
  "atomic (AdminService_CreateProduct now u ses cpi)"
  "atomic (AdminService_UpdateProduct now u ses upi)"
  "atomic (AdminService_SetProductActive now u ses sai)"
  unfolding AdminService_StartSession_def AdminService_AdvanceSession_def AdminService_CancelSession_def AdminService_CreateCategory_def AdminService_UpdateCategory_def AdminService_SetCategoryActive_def AdminService_CreateProduct_def AdminService_UpdateProduct_def AdminService_SetProductActive_def
    StartSession_def AdvanceSession_def CancelSession_def CreateCategory_def UpdateCategory_def SetCategoryActive_def CreateProduct_def
    UpdateProduct_def SetProductActive_def
  by (rule atoms)+

lemma completes_desk:
  "triple (\<lambda>_. True) (AdminService_StartSession ttl now u st py me) (\<lambda>_. handled (UpdateID (me)))"
  "triple (\<lambda>_. True) (AdminService_AdvanceSession ttl now u ses st py me) (\<lambda>_. handled (UpdateID (me)))"
  "triple (\<lambda>_. True) (AdminService_CancelSession now u ses me) (\<lambda>_. handled (UpdateID (me)))"
  "triple (\<lambda>_. True) (AdminService_CreateCategory now u ses cci) (\<lambda>_. handled (UpdateID (cci_Meta cci)))"
  "triple (\<lambda>_. True) (AdminService_UpdateCategory now u ses uci) (\<lambda>_. handled (UpdateID (uci_Meta uci)))"
  "triple (\<lambda>_. True) (AdminService_SetCategoryActive now u ses sai) (\<lambda>_. handled (UpdateID (sai_Meta sai)))"
  "triple (\<lambda>_. True) (AdminService_CreateProduct now u ses cpi) (\<lambda>_. handled (UpdateID (cpi_Meta cpi)))"
  "triple (\<lambda>_. True) (AdminService_UpdateProduct now u ses upi) (\<lambda>_. handled (UpdateID (upi_Meta upi)))"
  "triple (\<lambda>_. True) (AdminService_SetProductActive now u ses sai) (\<lambda>_. handled (UpdateID (sai_Meta sai)))"
  unfolding AdminService_StartSession_def AdminService_AdvanceSession_def AdminService_CancelSession_def AdminService_CreateCategory_def AdminService_UpdateCategory_def AdminService_SetCategoryActive_def AdminService_CreateProduct_def AdminService_UpdateProduct_def AdminService_SetProductActive_def
    StartSession_def AdvanceSession_def CancelSession_def CreateCategory_def UpdateCategory_def SetCategoryActive_def CreateProduct_def
    UpdateProduct_def SetProductActive_def
  by ((rule refl completing | (simp; fail))+)

lemma atomic_stock:
  "atomic (BankAccountService_Create pr env now u ses bi me)"
  "atomic (BankAccountService_Update pr now u ses b v bi me)"
  "atomic (BankAccountService_SetActive now u ses sai)"
  "atomic (InventoryAdminService_Import ip li now u ses pid raw me)"
  "atomic (InventoryAdminService_SetItemEnabled now u ses it v en me)"
  "atomic (PaymentProviderAdminService_CreateAccount sh ds now cpa)"
  "atomic (PaymentProviderAdminService_SetAccountActive now spa)"
  unfolding BankAccountService_Create_def BankAccountService_Update_def BankAccountService_SetActive_def InventoryAdminService_Import_def InventoryAdminService_SetItemEnabled_def PaymentProviderAdminService_CreateAccount_def PaymentProviderAdminService_SetAccountActive_def
    CreateBankAccount_def UpdateBankAccount_def SetBankAccountActive_def ImportInventory_def SetInventoryItemEnabled_def
    CreatePaymentProviderAccount_def SetPaymentProviderAccountStatus_def
  by (rule atoms)+

lemma completes_stock:
  "triple (\<lambda>_. True) (BankAccountService_Create pr env now u ses bi me) (\<lambda>_. handled (UpdateID (me)))"
  "triple (\<lambda>_. True) (BankAccountService_Update pr now u ses b v bi me) (\<lambda>_. handled (UpdateID (me)))"
  "triple (\<lambda>_. True) (BankAccountService_SetActive now u ses sai) (\<lambda>_. handled (UpdateID (sai_Meta sai)))"
  "triple (\<lambda>_. True) (InventoryAdminService_Import ip li now u ses pid raw me) (\<lambda>_. handled (UpdateID (me)))"
  "triple (\<lambda>_. True) (InventoryAdminService_SetItemEnabled now u ses it v en me) (\<lambda>_. handled (UpdateID (me)))"
  "triple (\<lambda>_. True) (PaymentProviderAdminService_CreateAccount sh ds now cpa) (\<lambda>_. handled (UpdateID (cpa_Meta cpa)))"
  "triple (\<lambda>_. True) (PaymentProviderAdminService_SetAccountActive now spa) (\<lambda>_. handled (UpdateID (spa_Meta spa)))"
  unfolding BankAccountService_Create_def BankAccountService_Update_def BankAccountService_SetActive_def InventoryAdminService_Import_def InventoryAdminService_SetItemEnabled_def PaymentProviderAdminService_CreateAccount_def PaymentProviderAdminService_SetAccountActive_def
    CreateBankAccount_def UpdateBankAccount_def SetBankAccountActive_def ImportInventory_def SetInventoryItemEnabled_def
    CreatePaymentProviderAccount_def SetPaymentProviderAccountStatus_def
  by ((rule refl completing | (simp; fail))+)

text \<open>What leaves the effects and the receipts alone, and what only moves receipts that are not completed.\<close>

definition idle :: "_ \<Rightarrow> receipt_row list \<Rightarrow> db \<Rightarrow> bool" where
  "idle e rs s \<longleftrightarrow> effects s = e \<and> update_receipts s = rs"

lemma idle_users [always_intros]:
  "always (idle e rs) (sqlUpdate users users_update ck uq p f)" "always (idle e rs) (sqlInsert users users_update ck uq u)"
  "always (idle e rs) (nextId t)"
  by (auto intro!: alwaysI simp: idle_def effects_def sqlUpdate_def sqlInsert_def nextId_def Let_def)

lemma idle_wallet [always_intros]:
  "wal_balance_vnd w = 0 \<Longrightarrow> always (idle e rs) (sqlInsert wallet_accounts wallet_accounts_update ck uq w)"
  by (auto intro!: alwaysI simp: idle_def effects_def sqlInsert_def)

lemma idle_tx [always_intros]: "always (idle e rs) m \<Longrightarrow> always (idle e rs) (WithinTransaction m)"
  by (rule always_WithinTransaction) (auto simp: idle_def effects_def)

lemma idle_services:
  "always (idle e rs) (UserService_Sync pf)" "always (idle e rs) (WalletService_Balance t)"
  unfolding UserService_Sync_def UpsertTelegramUser_store_def UpsertTelegramUser_def upsertUser_def
    WalletService_Balance_def EnsureWallet_def EnsureWalletAccount_def Let_def
  by ((intro always_intros); simp)+

lemma settled_idle:
  assumes "\<And>e rs. always (idle e rs) m"
  shows "always (settledE u e) m"
proof (rule alwaysI)
  fix s
  assume "settledE u e s"
  moreover have "idle (effects s) (update_receipts s) (snd (m s))"
    by (rule alwaysD [OF assms _ prod.collapse [symmetric]]) (simp add: idle_def)
  ultimately show "settledE u e (snd (m s))" by (auto simp: idle_def settledE_def handled_def)
qed

lemma settled_receipts [always_intros]:
  assumes "\<And>r. p r \<Longrightarrow> rcp_status r \<noteq> ''completed''"
  shows "always (settledE u e) (sqlUpdate update_receipts update_receipts_update ck uq p f)"
proof (rule alwaysI)
  fix s
  have "handled u (update_receipts_update (updateWhere p f) s)" if "handled u s"
  proof -
    from that obtain r where r: "r \<in> set (update_receipts s)" "rcp_update_id r = u" "rcp_status r = ''completed''"
      by (auto simp: handled_def)
    then have "r \<in> set (updateWhere p f (update_receipts s))" using assms by (force simp: updateWhere_def)
    with r show ?thesis by (auto simp: handled_def)
  qed
  moreover assume "settledE u e s"
  ultimately show "settledE u e (snd (sqlUpdate update_receipts update_receipts_update ck uq p f s))"
    by (auto simp: settledE_def effects_def sqlUpdate_def Let_def)
qed

lemma settled_claim [always_intros]:
  "always (settledE u e) (sqlInsertIgnore update_receipts update_receipts_update ck uq ar r)"
  by (auto intro!: alwaysI simp: settledE_def handled_def effects_def sqlInsertIgnore_def sqlInsert_def)

lemma settled_updates [always_intros]:
  "always (settledE u e) (UpdateService_Claim sa now v ty)" "always (settledE u e) (UpdateService_Complete v)"
  "always (settledE u e) (UpdateService_Fail v c)"
proof -
  have "always (settledE u e) (ClaimUpdate v ty sb)" for sb
    unfolding ClaimUpdate_def InsertTelegramUpdateReceipt_def StartTelegramUpdateProcessing_def updateReceipts_def
    by (rule always_WithinTransaction, (intro always_intros; force), simp add: settledE_def handled_def effects_def)
  note [always_intros] = this
  show "always (settledE u e) (UpdateService_Claim sa now v ty)" "always (settledE u e) (UpdateService_Complete v)"
    "always (settledE u e) (UpdateService_Fail v c)"
    unfolding UpdateService_Claim_def UpdateService_Complete_def UpdateService_Fail_def completeReceipt_def
      CompleteTelegramUpdateReceipt_def FailUpdate_def FailTelegramUpdateReceipt_def updateReceipts_def Let_def
    by ((intro always_intros; simp)+)
qed

text \<open>So every service called for the update \<open>u\<close> keeps its effect settled.\<close>

lemma settled_services [always_intros]:
  "UpdateID (cac_Meta cn) = u \<Longrightarrow> always (settledE u e) (OrderService_Cancel now cn)"
  "UpdateID (wop_Meta pc) = u \<Longrightarrow> always (settledE u e) (WalletService_PayOrder skip ttl n now pc)"
  "UpdateID (wac_Meta ac) = u \<Longrightarrow> always (settledE u e) (WalletService_Adjust now ac)"
  "UpdateID (drc_Meta dc) = u \<Longrightarrow> always (settledE u e) (DeliveryAdminService_Retry now dc)"
  "UpdateID (drc_Meta dc) = u \<Longrightarrow> always (settledE u e) (DeliveryAdminService_Complete now dc)"
  "UpdateID (mpc_Meta mc) = u \<Longrightarrow> always (settledE u e) (PaymentAdminService_ManualConfirm skip ttl n now mc)"
  "UpdateID (rpc_Meta rc) = u \<Longrightarrow> always (settledE u e) (PaymentAdminService_ResolveReview now rc)"
  "UpdateID me = u \<Longrightarrow> always (settledE u e) (AdminService_StartSession ttl now tg st py me)"
  "UpdateID me = u \<Longrightarrow> always (settledE u e) (AdminService_AdvanceSession ttl now tg ses st py me)"
  "UpdateID me = u \<Longrightarrow> always (settledE u e) (AdminService_CancelSession now tg ses me)"
  "UpdateID (cci_Meta cci) = u \<Longrightarrow> always (settledE u e) (AdminService_CreateCategory now tg ses cci)"
  "UpdateID (uci_Meta uci) = u \<Longrightarrow> always (settledE u e) (AdminService_UpdateCategory now tg ses uci)"
  "UpdateID (sai_Meta sai) = u \<Longrightarrow> always (settledE u e) (AdminService_SetCategoryActive now tg ses sai)"
  "UpdateID (cpi_Meta cpi) = u \<Longrightarrow> always (settledE u e) (AdminService_CreateProduct now tg ses cpi)"
  "UpdateID (upi_Meta upi) = u \<Longrightarrow> always (settledE u e) (AdminService_UpdateProduct now tg ses upi)"
  "UpdateID (sai_Meta sai) = u \<Longrightarrow> always (settledE u e) (AdminService_SetProductActive now tg ses sai)"
  "UpdateID me = u \<Longrightarrow> always (settledE u e) (BankAccountService_Create pr env now tg ses bi me)"
  "UpdateID me = u \<Longrightarrow> always (settledE u e) (BankAccountService_Update pr now tg ses b v bi me)"
  "UpdateID (sai_Meta sai) = u \<Longrightarrow> always (settledE u e) (BankAccountService_SetActive now tg ses sai)"
  "UpdateID me = u \<Longrightarrow> always (settledE u e) (InventoryAdminService_Import ip li now tg ses pid raw me)"
  "UpdateID me = u \<Longrightarrow> always (settledE u e) (InventoryAdminService_SetItemEnabled now tg ses it v en me)"
  "UpdateID (cpa_Meta cpa) = u \<Longrightarrow> always (settledE u e) (PaymentProviderAdminService_CreateAccount sh ds now cpa)"
  "UpdateID (spa_Meta spa) = u \<Longrightarrow> always (settledE u e) (PaymentProviderAdminService_SetAccountActive now spa)"
  by (rule settled_atomic; (rule atomic_shop atomic_desk atomic_stock
    | rule completes_as, rule completes_shop(1) completes_shop_services completes_desk completes_stock, assumption))+

lemma settled_create [always_intros]:
  "UpdateID (coc_Meta cc) = u \<Longrightarrow> always (settledE u e) (OrderService_Create refs ins cfg now cc)"
  "UpdateID (cwt_Meta tc) = u \<Longrightarrow> always (settledE u e) (WalletService_CreateTopup mn mx ex env rf tin now tc)"
proof -
  show "always (settledE u e) (OrderService_Create refs ins cfg now cc)" if "UpdateID (coc_Meta cc) = u"
    unfolding OrderService_Create_def
    by (intro always_intros settled_tx completes_as [OF completes_order that])
  have "atomic (CreateWalletTopup c ref t)" for c ref t unfolding CreateWalletTopup_def by (rule atoms)+
  then show "always (settledE u e) (WalletService_CreateTopup mn mx ex env rf tin now tc)" if "UpdateID (cwt_Meta tc) = u"
    unfolding WalletService_CreateTopup_def
    by (intro always_intros settled_atomic completes_as [OF completes_shop(2)]) (simp_all add: that)
qed

declare idle_services [THEN settled_idle, always_intros]

lemma settled_asks [always_intros]:
  "UpdateID me = u \<Longrightarrow> always (settledE u e) (askFor r t st py q me pl)"
  "UpdateID me = u \<Longrightarrow> always (settledE u e) (askConfirm r t st py q tag rec cb me pl)"
  "UpdateID me = u \<Longrightarrow> always (settledE u e) (advanceTo r t ses py q me pl)"
  unfolding askFor_def askConfirm_def startSession_def advanceTo_def by (intro always_intros; assumption)+

text \<open>The cases of the switch, with the metadata of the update.\<close>

lemma settled_cases [always_intros]:
  assumes "UpdateID me = u"
  shows "always (settledE u e) (onOrderBank r cb me pl)" "always (settledE u e) (onOrderConfirm r t cb me pl)"
    "always (settledE u e) (onOrderCancel r t cb me pl)" "always (settledE u e) (onOrderWalletAsk r t cb me pl)"
    "always (settledE u e) (onOrderWalletPay r t cb me pl)" "always (settledE u e) (onTopupAmount r cb me pl)"
    "always (settledE u e) (onTopupBank r t cb me pl)"
  unfolding onOrderBank_def onOrderConfirm_def onOrderCancel_def onOrderWalletAsk_def onOrderWalletPay_def
    onTopupAmount_def onTopupBank_def
  by (auto intro!: always_intros simp: assms)

lemma settled_reads [always_intros]:
  "always (settledE u e) (onMenu pl)" "always (settledE u e) (onSupport r pl)"
  "always (settledE u e) (onCategories r cb pl)" "always (settledE u e) (onProducts r cb pl)"
  "always (settledE u e) (onProductDetail cb pl)" "always (settledE u e) (onOrderQuantity r cb pl)"
  "always (settledE u e) (onOrders r t cb pl)" "always (settledE u e) (onOrderView r t cb pl)"
  "always (settledE u e) (onOrderAskCancel r t cb pl)" "always (settledE u e) (onWalletBalance t pl)"
  "always (settledE u e) (onAdminCatalog t pl)" "always (settledE u e) (onPaymentReviews r t cb pl)"
  "always (settledE u e) (onDeliveries r t cb pl)" "always (settledE u e) (onDeliveryDetail t cb pl)"
  "always (settledE u e) (onDeliveryReconcile r t pl)" "always (settledE u e) (onInventory r t cb pl)"
  "always (settledE u e) (onBanks r t cb pl)" "always (settledE u e) (onInventoryList r t cb pl)"
  "always (settledE u e) (onProviderHealth r t pl)" "always (settledE u e) (onProviderAccounts r t cb pl)"
  unfolding onMenu_def onSupport_def onCategories_def onProducts_def onProductDetail_def onOrderQuantity_def onOrders_def
    onOrderView_def onOrderAskCancel_def onWalletBalance_def onAdminCatalog_def onPaymentReviews_def onDeliveries_def
    onDeliveryDetail_def onDeliveryReconcile_def onInventory_def onBanks_def onInventoryList_def onProviderHealth_def
    onProviderAccounts_def
    withProviders_def
  by (intro always_intros)+

lemma settled_admin_cases [always_intros]:
  assumes "UpdateID me = u"
  shows
    "always (settledE u e) (onDeliveryResolution r t cb me pl)"
    "always (settledE u e) (onDeliveryConfirm r t cb me pl)" "always (settledE u e) (onPaymentManual r t me pl)"
    "always (settledE u e) (onPaymentResolve r t cb me pl)" "always (settledE u e) (onWalletAdjustment r t cb me pl)"
    "always (settledE u e) (onBankNew r t me pl)" "always (settledE u e) (onBankEdit r t cb me pl)"
    "always (settledE u e) (onBankAskToggle r t cb me pl)" "always (settledE u e) (onBankToggle r t cb me pl)"
    "always (settledE u e) (onInventoryImport r t cb me pl)"
    "always (settledE u e) (onInventoryAskToggle r t cb me pl)"
    "always (settledE u e) (onInventoryToggle r t cb me pl)" "always (settledE u e) (onCategoryNew r t me pl)"
    "always (settledE u e) (onCategoryEdit r t cb me pl)" "always (settledE u e) (onCategoryToggle r t cb me pl)"
    "always (settledE u e) (onProductNew r t me pl)" "always (settledE u e) (onProductEdit r t cb me pl)"
    "always (settledE u e) (onProductToggle r t cb me pl)" "always (settledE u e) (onCancel r t cb me pl)"
    "always (settledE u e) (onProviderAccountNew r t me pl)"
    "always (settledE u e) (onProviderAskToggle r t cb me pl)"
    "always (settledE u e) (onProviderToggle r t cb me pl)"
  unfolding onDeliveryResolution_def onDeliveryConfirm_def onPaymentManual_def onPaymentResolve_def onWalletAdjustment_def
    onBankNew_def onBankEdit_def onBankAskToggle_def onBankToggle_def onInventoryImport_def onInventoryAskToggle_def
    onInventoryToggle_def onCategoryNew_def onCategoryEdit_def onCategoryToggle_def onProductNew_def
    onProductEdit_def onProductToggle_def onCancel_def onProviderAccountNew_def onProviderAskToggle_def
    onProviderToggle_def
    toggleInput_def withProviders_def Let_def
  by (auto intro!: always_intros simp: assms)

lemma settled_routeCallback [always_intros]: "UpdateID me = u \<Longrightarrow> always (settledE u e) (routeCallback r t cb me pl)"
  unfolding routeCallback_def by (cases "Action cb") (simp_all only: CallbackAction.case, (intro always_intros; assumption)+)

lemma settled_session_texts [always_intros]:
  assumes "UpdateID me = u"
  shows
    "always (settledE u e) (onProviderText r t x ses py me pl)"
    "always (settledE u e) (onDeliveryText r t x ses py me pl)"
    "always (settledE u e) (onImportText r t x ses py me pl)"
    "always (settledE u e) (onCategoryText r t x ses py me pl)"
    "always (settledE u e) (handleProductSessionText r t x ses py me pl)"
    "always (settledE u e) (handleBankSessionText r t x ses py me pl)"
    "always (settledE u e) (onPaymentText r t x ses me pl)" "always (settledE u e) (onReviewText r t x ses py me pl)"
    "always (settledE u e) (onAdjustmentText r t x ses me pl)"
  unfolding onProviderText_def onDeliveryText_def onImportText_def onCategoryText_def handleProductSessionText_def
    handleBankSessionText_def onPaymentText_def onReviewText_def onAdjustmentText_def
    Let_def
  by (auto intro!: always_intros simp: assms)

lemma settled_Process: "always (settledE (upd_ID upd) e) (Process r (Some upd) rid)"
  unfolding Process_def processClaimed_def dispatch_def handleMessage_def handleCallback_def handleCommand_def
    handleSessionText_def Let_def option.case
  by (intro always_intros; simp)

text \<open>A plan that says the service has completed the receipt tells the truth.\<close>

definition honest :: "int64 \<Rightarrow> responsePlan \<Rightarrow> db \<Rightarrow> bool" where
  "honest u pl s \<longleftrightarrow> (rp_completedByApp pl \<longrightarrow> handled u s)"

lemma completes_first:
  assumes "triple (\<lambda>_. True) m (\<lambda>_. handled u)" "\<And>x. always (handled u) (f x)"
  shows "triple (\<lambda>_. True) (bindE m f) (\<lambda>_. handled u)"
proof (rule tripleI)
  fix s r s'
  assume "bindE m f s = (Inr r, s')"
  then obtain x t where m: "m s = (Inr x, t)" "f x t = (Inr r, s')" by (auto simp: bindE_app split: prod.splits sum.splits)
  then show "handled u s'" using alwaysD [OF assms(2) _ m(2)] assms(1) by (simp add: triple_def)
qed

lemma completes_create:
  "triple (\<lambda>_. True) (OrderService_Create refs ins cfg now cc) (\<lambda>_. handled (UpdateID (coc_Meta cc)))"
  "triple (\<lambda>_. True) (WalletService_CreateTopup mn mx ex env rf tin now tc) (\<lambda>_. handled (UpdateID (cwt_Meta tc)))"
proof -
  show "triple (\<lambda>_. True) (OrderService_Create refs ins cfg now cc) (\<lambda>_. handled (UpdateID (coc_Meta cc)))"
    unfolding OrderService_Create_def
    by (intro triple_if triple_throwE completes_first completes_wrapped(1) completes_order always_intros)
  show "triple (\<lambda>_. True) (WalletService_CreateTopup mn mx ex env rf tin now tc) (\<lambda>_. handled (UpdateID (cwt_Meta tc)))"
    unfolding WalletService_CreateTopup_def
    by (intro triple_if triple_throwE completes_later completes_first completes_as [OF completes_shop(2)] always_intros) simp
qed

lemmas completed_services = completes_create [THEN completes_as] completes_shop(1) [THEN completes_as]
  completes_shop_services [THEN completes_as] completes_desk [THEN completes_as] completes_stock [THEN completes_as]

lemma completed_asks:
  "UpdateID me = u \<Longrightarrow> triple (\<lambda>_. True) (askFor r t st py q me pl) (\<lambda>_. handled u)"
  "UpdateID me = u \<Longrightarrow> triple (\<lambda>_. True) (askConfirm r t st py q tag rec cb me pl) (\<lambda>_. handled u)"
  "UpdateID me = u \<Longrightarrow> triple (\<lambda>_. True) (advanceTo r t ses py q me pl) (\<lambda>_. handled u)"
  unfolding askFor_def askConfirm_def startSession_def advanceTo_def
  by (intro completes_first completed_services always_intros; assumption)+

lemma honest_done: "triple P m (\<lambda>_. handled u) \<Longrightarrow> triple P m (honest u)"
  by (auto simp: triple_def honest_def)

lemma honest_return: "\<not> rp_completedByApp pl \<Longrightarrow> triple P (returnE pl) (honest u)"
  by (simp add: honest_def triple_returnE)

lemmas completed_rules = completed_services completed_asks completed_services [THEN completes_first]
  completed_asks [THEN completes_first] triple_throwE triple_if triple_case_option triple_case_sum triple_case_prod
  triple_case_list triple_Let completes_later

lemma completed_session_texts:
  assumes "UpdateID me = u"
  shows
    "triple (\<lambda>_. True) (onProviderText r t x ses py me pl) (\<lambda>_. handled u)"
    "triple (\<lambda>_. True) (onDeliveryText r t x ses py me pl) (\<lambda>_. handled u)"
    "triple (\<lambda>_. True) (onImportText r t x ses py me pl) (\<lambda>_. handled u)"
    "triple (\<lambda>_. True) (onCategoryText r t x ses py me pl) (\<lambda>_. handled u)"
    "triple (\<lambda>_. True) (handleProductSessionText r t x ses py me pl) (\<lambda>_. handled u)"
    "triple (\<lambda>_. True) (handleBankSessionText r t x ses py me pl) (\<lambda>_. handled u)"
    "triple (\<lambda>_. True) (onPaymentText r t x ses me pl) (\<lambda>_. handled u)"
    "triple (\<lambda>_. True) (onReviewText r t x ses py me pl) (\<lambda>_. handled u)"
    "triple (\<lambda>_. True) (onAdjustmentText r t x ses me pl) (\<lambda>_. handled u)"
  unfolding onProviderText_def onDeliveryText_def onImportText_def onCategoryText_def handleProductSessionText_def
    handleBankSessionText_def onPaymentText_def onReviewText_def onAdjustmentText_def
    Let_def
  by ((rule completed_rules always_intros | (simp add: assms; fail))+)

lemmas honest_rules = completed_asks [THEN honest_done] completed_services [THEN completes_first, THEN honest_done]
  completed_asks [THEN completes_first, THEN honest_done] honest_return triple_throwE triple_if triple_case_option
  triple_case_sum triple_case_prod triple_case_list triple_Let completes_later

lemma honest_cases:
  assumes "UpdateID me = u" "\<not> rp_completedByApp pl"
  shows
    "triple (\<lambda>_. True) (onMenu pl) (honest u)" "triple (\<lambda>_. True) (onSupport r pl) (honest u)"
    "triple (\<lambda>_. True) (onCategories r cb pl) (honest u)" "triple (\<lambda>_. True) (onProducts r cb pl) (honest u)"
    "triple (\<lambda>_. True) (onProductDetail cb pl) (honest u)" "triple (\<lambda>_. True) (onOrderQuantity r cb pl) (honest u)"
    "triple (\<lambda>_. True) (onOrderBank r cb me pl) (honest u)"
    "triple (\<lambda>_. True) (onOrderConfirm r t cb me pl) (honest u)" "triple (\<lambda>_. True) (onOrders r t cb pl) (honest u)"
    "triple (\<lambda>_. True) (onOrderView r t cb pl) (honest u)"
    "triple (\<lambda>_. True) (onOrderAskCancel r t cb pl) (honest u)"
    "triple (\<lambda>_. True) (onOrderCancel r t cb me pl) (honest u)"
    "triple (\<lambda>_. True) (onOrderWalletAsk r t cb me pl) (honest u)"
    "triple (\<lambda>_. True) (onOrderWalletPay r t cb me pl) (honest u)"
    "triple (\<lambda>_. True) (onWalletBalance t pl) (honest u)" "triple (\<lambda>_. True) (onTopupAmount r cb me pl) (honest u)"
    "triple (\<lambda>_. True) (onTopupBank r t cb me pl) (honest u)" "triple (\<lambda>_. True) (onAdminCatalog t pl) (honest u)"
    "triple (\<lambda>_. True) (onPaymentReviews r t cb pl) (honest u)"
    "triple (\<lambda>_. True) (onDeliveries r t cb pl) (honest u)" "triple (\<lambda>_. True) (onDeliveryDetail t cb pl) (honest u)"
    "triple (\<lambda>_. True) (onDeliveryResolution r t cb me pl) (honest u)"
    "triple (\<lambda>_. True) (onDeliveryConfirm r t cb me pl) (honest u)"
    "triple (\<lambda>_. True) (onDeliveryReconcile r t pl) (honest u)"
    "triple (\<lambda>_. True) (onPaymentManual r t me pl) (honest u)"
    "triple (\<lambda>_. True) (onPaymentResolve r t cb me pl) (honest u)"
    "triple (\<lambda>_. True) (onWalletAdjustment r t cb me pl) (honest u)"
    "triple (\<lambda>_. True) (onInventory r t cb pl) (honest u)" "triple (\<lambda>_. True) (onBanks r t cb pl) (honest u)"
    "triple (\<lambda>_. True) (onBankNew r t me pl) (honest u)" "triple (\<lambda>_. True) (onBankEdit r t cb me pl) (honest u)"
    "triple (\<lambda>_. True) (onBankAskToggle r t cb me pl) (honest u)"
    "triple (\<lambda>_. True) (onBankToggle r t cb me pl) (honest u)"
    "triple (\<lambda>_. True) (onInventoryList r t cb pl) (honest u)"
    "triple (\<lambda>_. True) (onInventoryImport r t cb me pl) (honest u)"
    "triple (\<lambda>_. True) (onInventoryAskToggle r t cb me pl) (honest u)"
    "triple (\<lambda>_. True) (onInventoryToggle r t cb me pl) (honest u)"
    "triple (\<lambda>_. True) (onCategoryNew r t me pl) (honest u)"
    "triple (\<lambda>_. True) (onCategoryEdit r t cb me pl) (honest u)"
    "triple (\<lambda>_. True) (onCategoryToggle r t cb me pl) (honest u)"
    "triple (\<lambda>_. True) (onProductNew r t me pl) (honest u)"
    "triple (\<lambda>_. True) (onProductEdit r t cb me pl) (honest u)"
    "triple (\<lambda>_. True) (onProductToggle r t cb me pl) (honest u)"
    "triple (\<lambda>_. True) (onCancel r t cb me pl) (honest u)" "triple (\<lambda>_. True) (onProviderHealth r t pl) (honest u)"
    "triple (\<lambda>_. True) (onProviderAccounts r t cb pl) (honest u)"
    "triple (\<lambda>_. True) (onProviderAccountNew r t me pl) (honest u)"
    "triple (\<lambda>_. True) (onProviderAskToggle r t cb me pl) (honest u)"
    "triple (\<lambda>_. True) (onProviderToggle r t cb me pl) (honest u)"
  unfolding onMenu_def onSupport_def onCategories_def onProducts_def onProductDetail_def onOrderQuantity_def onOrderBank_def
    onOrderConfirm_def onOrders_def onOrderView_def onOrderAskCancel_def onOrderCancel_def onOrderWalletAsk_def
    onOrderWalletPay_def onWalletBalance_def onTopupAmount_def onTopupBank_def onAdminCatalog_def
    onPaymentReviews_def onDeliveries_def onDeliveryDetail_def onDeliveryResolution_def onDeliveryConfirm_def
    onDeliveryReconcile_def onPaymentManual_def onPaymentResolve_def onWalletAdjustment_def onInventory_def
    onBanks_def onBankNew_def onBankEdit_def onBankAskToggle_def onBankToggle_def onInventoryList_def
    onInventoryImport_def onInventoryAskToggle_def onInventoryToggle_def onCategoryNew_def onCategoryEdit_def
    onCategoryToggle_def onProductNew_def onProductEdit_def onProductToggle_def onCancel_def onProviderHealth_def
    onProviderAccounts_def onProviderAccountNew_def onProviderAskToggle_def onProviderToggle_def
    toggleInput_def withProviders_def Let_def
  by ((rule honest_rules always_intros | (simp add: assms display_def; fail))+)

lemma honest_routeCallback:
  "UpdateID me = u \<Longrightarrow> \<not> rp_completedByApp pl \<Longrightarrow> triple (\<lambda>_. True) (routeCallback r t cb me pl) (honest u)"
  unfolding routeCallback_def
  by (cases "Action cb") (simp_all only: CallbackAction.case, (rule honest_cases; assumption)+)

lemma honest_dispatch: "triple (\<lambda>_. True) (dispatch r upd rid) (honest (upd_ID upd))"
  unfolding dispatch_def handleMessage_def handleCallback_def handleCommand_def handleSessionText_def Let_def
  by ((rule honest_routeCallback honest_return completed_session_texts [THEN honest_done] triple_throwE triple_if
      triple_case_option triple_case_sum triple_case_prod completes_later
    | (simp add: emptyPlan_def reply_def unsupported_def; fail))+)

end
