(* ===== verification/Router_Guarantees.thy ===== *)
theory Router_Guarantees
  imports Front_End
begin

text \<open>
  The guarantees of the front end: processing an update is a run of the shop, has its effect at most once and answers
  only where the update came from, and the buttons of the administration do nothing for anybody else.
\<close>

section \<open>Processing always returns\<close>

lemma Process_returns: "\<exists>err calls. fst (Process r u rid s) = Inr (err, calls)"
  by (auto simp: Process_def processClaimed_def bindE_app attempt_def returnE_def split: option.splits sum.splits prod.splits)

text \<open>
  Processing an update always returns, and what it does to the shop is a sequence of the shop's own steps: no
  message, command, button or conversation can move the database in a way the services do not, so every invariant
  of the shop survives whatever users and administrators send.
\<close>

theorem processed_update_is_a_run:
  "(\<exists>err calls. fst (Process r upd requestID s) = Inr (err, calls)) \<and> shop_step\<^sup>*\<^sup>* s (snd (Process r upd requestID s))"
proof -
  have "shop_run s (snd (Process r upd requestID s))"
    by (rule alwaysD [OF run_Process _ prod.collapse [symmetric]]) (simp add: shop_run_def)
  then show ?thesis by (simp add: Process_returns shop_run_def)
qed

section \<open>Once\<close>

lemma claimed_kinds: "TrimSpace (ClassifyUpdate k) \<noteq> []"
  by (cases k) (simp_all, code_simp+)

lemma handled_claim:
  assumes "table_ok receipt_ck receipt_uq (update_receipts s)" "handled u s"
  shows "UpdateService_Claim sa now u (ClassifyUpdate k) s = (Inr UpdateDuplicateCompleted, s)" "0 \<le> u"
proof -
  from assms(2) obtain r where r: "r \<in> set (update_receipts s)" "rcp_update_id r = u" "rcp_status r = ''completed''"
    by (auto simp: handled_def)
  with assms(1) show u: "0 \<le> u" by (auto simp: table_ok_def list_all_iff receipt_ck_def)
  from r obtain r' rest where f: "filter (\<lambda>r. rcp_update_id r = u) (update_receipts s) = r' # rest"
    by (cases "filter (\<lambda>r. rcp_update_id r = u) (update_receipts s)") (auto simp: filter_empty_conv)
  then have "r' \<in> set (update_receipts s)" "rcp_update_id r' = u" by (auto simp: filter_eq_Cons_iff)
  moreover have "distinct (map rcp_update_id (update_receipts s))"
    using assms(1) by (simp add: table_ok_def receipts_noClash)
  ultimately have "r' = r" using r by (auto simp: distinct_map dest: inj_onD)
  with claim_known_update(1) [OF assms(1) u claimed_kinds f] r
  show "UpdateService_Claim sa now u (ClassifyUpdate k) s = (Inr UpdateDuplicateCompleted, s)" by simp
qed

lemma processClaimed_handled:
  assumes "processClaimed r upd rid s = (Inr (None, calls), s')"
  shows "handled (upd_ID upd) s'"
proof -
  have "triple (\<lambda>_. True) (UpdateService_Complete (upd_ID upd)) (\<lambda>_. handled (upd_ID upd))"
    unfolding UpdateService_Complete_def by (rule completes)
  with honest_dispatch [of r upd rid] assms show ?thesis
    by (auto simp: processClaimed_def bindE_app attempt_def returnE_def triple_def honest_def
        split: sum.splits prod.splits if_splits)
qed

lemma claim_completed:
  assumes "UpdateService_Claim sa now u ty s = (Inr UpdateDuplicateCompleted, s')"
  shows "handled u s'"
  using assms
  by (auto simp: UpdateService_Claim_def ClaimUpdate_def throwE_def returnE_def bindE_app attempt_def handled_def
      LockTelegramUpdateReceipt_def sqlSelectOne_def sqlSelect_def askE_def one_def filter_eq_Cons_iff
      split: sum.splits prod.splits if_splits list.splits)

text \<open>
  C33. An update has its effect at most once. If processing it changed anything of the shop (an order, a payment, the
  money of a wallet, the catalog, a session, an audit entry), its receipt is completed in the resulting state, even when
  the processing ended in an error after the commit. Processing that ends without error leaves the update completed,
  unless another worker is at it. And a completed update that is delivered again changes nothing at all: only the button
  is answered.
\<close>

theorem update_effect_once:
  assumes "Process r (Some upd) requestID s = (Inr (err, calls), s')"
  shows "(effects s' \<noteq> effects s \<longrightarrow> handled (upd_ID upd) s') \<and>
    (err = None \<longrightarrow> handled (upd_ID upd) s' \<or> fst (UpdateService_Claim (rt_staleAfter r) (rt_now r ''updates.Claim'')
       (upd_ID upd) (ClassifyUpdate (updateKind (Some upd))) s) = Inr UpdateDuplicateProcessing) \<and>
    (table_ok receipt_ck receipt_uq (update_receipts s') \<and> handled (upd_ID upd) s' \<and> upd_ID again = upd_ID upd \<longrightarrow>
       Process r2 (Some again) requestID2 s' = (Inr (None, answerDuplicateCallback again (lit ''{110}{E3} x{1EED} l{FD}.'')), s'))"
proof (intro conjI impI)
  have "settledE (upd_ID upd) (effects s) s'"
    by (rule alwaysD [OF settled_Process _ assms]) (simp add: settledE_def)
  then show "handled (upd_ID upd) s'" if "effects s' \<noteq> effects s" using that by (simp add: settledE_def)
  show "handled (upd_ID upd) s' \<or> fst (UpdateService_Claim (rt_staleAfter r) (rt_now r ''updates.Claim'')
       (upd_ID upd) (ClassifyUpdate (updateKind (Some upd))) s) = Inr UpdateDuplicateProcessing" if "err = None"
  proof (cases "UpdateService_Claim (rt_staleAfter r) (rt_now r ''updates.Claim'') (upd_ID upd)
      (ClassifyUpdate (updateKind (Some upd))) s")
    case (Pair c s1)
    with assms that show ?thesis
      by (cases c; cases "projr c") (auto simp: Process_def bindE_app attempt_def returnE_def split: if_splits
          dest: processClaimed_handled claim_completed)
  qed
  assume "table_ok receipt_ck receipt_uq (update_receipts s') \<and> handled (upd_ID upd) s' \<and> upd_ID again = upd_ID upd"
  then show "Process r2 (Some again) requestID2 s' = (Inr (None, answerDuplicateCallback again (lit ''{110}{E3} x{1EED} l{FD}.'')), s')"
    using handled_claim [of s' "upd_ID upd"] by (simp add: Process_def bindE_app attempt_def returnE_def)
qed

text \<open>A router with small settings, and the administrator of the sample shop pressing ``new bank account''.\<close>

definition demo_router :: Router where
  "demo_router = \<lparr>rt_now = (\<lambda>_. 1000), rt_staleAfter = 60, rt_catalogPageSize = 5, rt_sessionTTL = 900,
     rt_protectInventory = (\<lambda>_ _. Inl ErrInvalidInput),
     rt_importLimits = \<lparr>MaxItems = 100, MaxItemBytes = 1000, MaxTotalBytes = 10000\<rparr>, rt_inventoryPageSize = 5,
     rt_protectBank = (\<lambda>_ _. Inl ErrInvalidInput), rt_paymentEnvironment = ''production'', rt_bankPageSize = 5,
     rt_orders = demo_config, rt_references = (\<lambda>_. Inl ErrInvalidInput),
     rt_orderInstruction = (\<lambda>_. Inl ErrInvalidInput), rt_topupMin = 10000, rt_topupMax = 1000000,
     rt_topupExpiry = 900, rt_topupReference = Inl ErrInvalidInput, rt_topupInstruction = (\<lambda>_. Inl ErrInvalidInput),
     rt_skipLocked = (\<lambda>_. False), rt_reservationTTL = 900, rt_deliveryMaxAttempts = 3, rt_reviewPageSize = 5,
     rt_oldestReviews = id, rt_deliveryPageSize = 5, rt_newestDeliveries = id, rt_deliveryMetrics = False,
     rt_processingLease = 60, rt_providers = None, rt_providerPageSize = 5, rt_collateProviders = id, rt_sha256 = id,
     rt_supportContact = ''@shop'', rt_formats = \<lparr>tf_Local = (\<lambda>_ _. []), tf_UTC = (\<lambda>_ _. [])\<rparr>,
     rt_parseTime = (\<lambda>_. None), rt_lower = map lowerChar,
     rt_unicode = \<lparr>uc_letter = (\<lambda>_. False), uc_digit = (\<lambda>_. False), uc_upper = id\<rparr>\<rparr>"

definition demo_staff :: tg_user where
  "demo_staff = \<lparr>tu_ID = 77, tu_IsBot = False, tu_Username = [], tu_FirstName = ''A'', tu_LastName = []\<rparr>"

definition demo_press :: "string \<Rightarrow> tg_update" where
  "demo_press button = \<lparr>upd_ID = 7, upd_Message = None, upd_CallbackQuery = Some \<lparr>cq_ID = ''q'',
     cq_From = demo_staff, cq_Message = AccessibleMessage 77 3, cq_Data = button\<rparr>, upd_Edited = False\<rparr>"

definition demo_claimed :: db where
  "demo_claimed = snd (UpdateService_Claim 60 1000 7 ''callback_query'' (demo_catalog (empty_db 1000)))"

definition demo_synced :: db where
  "demo_synced = snd (UserService_Sync (profileFromUser demo_staff) demo_claimed)"

definition demo_opening :: "(error + session_row) \<times> db" where
  "demo_opening = AdminService_StartSession 900 1000 77 ''bank.create'' (Some (workflowJSON (atStep ''bank_bin'')))
     \<lparr>RequestID = ''req'', UpdateID = 7\<rparr> demo_synced"

lemma demo_parts:
  "fst (UpdateService_Claim 60 1000 7 ''callback_query'' (demo_catalog (empty_db 1000))) = Inr UpdateClaimed"
  "map_sum id User_ID (fst (UserService_Sync (profileFromUser demo_staff) demo_claimed)) = Inr 1"
  "ParseCallback ''v1:a:bn'' = Inr (callback CallbackAdminBankNew)"
  by code_simp+

lemma demo_opening_runs:
  "map_prod (map_sum id ses_state) (\<lambda>s. (map ses_state (admin_sessions s), update_receipts s)) demo_opening =
   (Inr ''bank.create'', [''bank.create''], [\<lparr>rcp_update_id = 7, rcp_update_type = ''callback_query'',
      rcp_status = ''completed'', rcp_attempts = 1, rcp_processing_started_at = Some 1000,
      rcp_processed_at = Some 1000, rcp_last_error = None\<rparr>])"
  by code_simp

lemma demo_opening_result:
  "\<exists>ses. demo_opening = (Inr ses, snd demo_opening)" "map ses_state (admin_sessions (snd demo_opening)) = [''bank.create'']"
  "update_receipts (snd demo_opening) = [\<lparr>rcp_update_id = 7, rcp_update_type = ''callback_query'',
     rcp_status = ''completed'', rcp_attempts = 1, rcp_processing_started_at = Some 1000,
     rcp_processed_at = Some 1000, rcp_last_error = None\<rparr>]"
proof -
  obtain a b where d: "demo_opening = (a, b)" by fastforce
  note runs = demo_opening_runs [unfolded d map_prod_simp prod.inject]
  then have "\<exists>ses. a = Inr ses" by (cases a) auto
  with runs show "\<exists>ses. demo_opening = (Inr ses, snd demo_opening)"
    "map ses_state (admin_sessions (snd demo_opening)) = [''bank.create'']"
    "update_receipts (snd demo_opening) = [\<lparr>rcp_update_id = 7, rcp_update_type = ''callback_query'',
     rcp_status = ''completed'', rcp_attempts = 1, rcp_processing_started_at = Some 1000,
     rcp_processed_at = Some 1000, rcp_last_error = None\<rparr>]"
    unfolding d by auto
qed

lemma demo_processed:
  "\<exists>calls. Process demo_router (Some (demo_press ''v1:a:bn'')) ''req'' (demo_catalog (empty_db 1000)) =
     (Inr (None, calls), snd demo_opening)"
proof -
  obtain ses where ses: "demo_opening = (Inr ses, snd demo_opening)" using demo_opening_result(1) by blast
  have start: "AdminService_StartSession 900 1000 77 ''bank.create'' (Some (workflowJSON (atStep ''bank_bin'')))
     \<lparr>RequestID = ''req'', UpdateID = 7\<rparr> demo_synced = (Inr ses, snd demo_opening)"
    using ses by (simp only: demo_opening_def [symmetric])
  have staff: "tu_IsBot demo_staff = False" "tu_ID demo_staff = 77" by (simp_all add: demo_staff_def)
  have claim: "UpdateService_Claim 60 1000 7 ''callback_query'' (demo_catalog (empty_db 1000)) = (Inr UpdateClaimed, demo_claimed)"
    using demo_parts(1) unfolding demo_claimed_def by (metis prod.collapse)
  obtain user where sync: "UserService_Sync (profileFromUser demo_staff) demo_claimed = (Inr user, demo_synced)"
    using demo_parts(2) unfolding demo_synced_def
    by (cases "UserService_Sync (profileFromUser demo_staff) demo_claimed"; cases "fst (UserService_Sync (profileFromUser demo_staff) demo_claimed)") auto
  have "handleCallback demo_router 7 ''req'' (the (upd_CallbackQuery (demo_press ''v1:a:bn''))) demo_claimed =
      (Inr (completed (emptyPlan\<lparr>rp_chatID := 77, rp_messageID := 3, rp_callbackID := ''q'', rp_edit := True\<rparr>)
        ((lit ''G{1EED}i m{E3} BIN ng{E2}n h{E0}ng g{1ED3}m 6 ch{1EEF} s{1ED1}.''), cancelKeyboard ses)), snd demo_opening)"
    using sync start demo_parts(3)
    by (simp add: handleCallback_def callbackMessage_def demo_press_def staff bindE_app attempt_def returnE_def
        routeCallback_def callback_def onBankNew_def askFor_def startSession_def demo_router_def Let_def)
  then show ?thesis using claim
    by (simp add: Process_def processClaimed_def dispatch_def demo_press_def demo_router_def bindE_app attempt_def
        returnE_def updateKind_def completed_def)
qed

theorem update_effect_once_witness:
  "\<exists>calls s'. Process demo_router (Some (demo_press ''v1:a:bn'')) ''req'' (demo_catalog (empty_db 1000)) =
       (Inr (None, calls), s') \<and> handled 7 s' \<and> map ses_state (admin_sessions s') = [''bank.create''] \<and>
     Process demo_router (Some (demo_press ''v1:a:bn'')) ''req'' s' =
       (Inr (None, [AnswerCallback ''q'' (lit ''{110}{E3} x{1EED} l{FD}.'') False]), s')"
proof -
  obtain calls where run: "Process demo_router (Some (demo_press ''v1:a:bn'')) ''req'' (demo_catalog (empty_db 1000)) =
     (Inr (None, calls), snd demo_opening)" using demo_processed by blast
  note s' = demo_opening_result(2,3)
  have changed: "effects (snd demo_opening) \<noteq> effects (demo_catalog (empty_db 1000))"
    using s'(1) by (auto simp: effects_def demo_catalog_def empty_db_def)
  have "table_ok receipt_ck receipt_uq (update_receipts (snd demo_opening))"
    by (simp add: s' table_ok_def receipt_ck_def notBlank_def optNotBlank_def)
  with update_effect_once [OF run, of "demo_press ''v1:a:bn''" demo_router "''req''"] run s'(1) changed show ?thesis
    by (auto simp: demo_press_def answerDuplicateCallback_def)
qed

section \<open>Answers\<close>

text \<open>A plan goes where the update came from: its chat, the message of its button, its button.\<close>

definition conversation :: "tg_update \<Rightarrow> int64" where
  "conversation u = (case upd_Message u of Some message \<Rightarrow> tm_ChatID message
     | None \<Rightarrow> (case upd_CallbackQuery u of Some query \<Rightarrow> fst (callbackMessage query) | None \<Rightarrow> 0))"

definition pressed :: "tg_update \<Rightarrow> string \<Rightarrow> bool" where
  "pressed u qid \<longleftrightarrow> (case upd_CallbackQuery u of None \<Rightarrow> False | Some query \<Rightarrow> cq_ID query = qid)"

definition pressedOn :: "tg_update \<Rightarrow> int64 \<times> int \<Rightarrow> bool" where
  "pressedOn u place \<longleftrightarrow> (case upd_CallbackQuery u of None \<Rightarrow> False | Some query \<Rightarrow> callbackMessage query = place)"

definition addressed :: "tg_update \<Rightarrow> messenger_call \<Rightarrow> bool" where
  "addressed u call \<longleftrightarrow> (case call of
     AnswerCallback qid _ _ \<Rightarrow> qid \<noteq> [] \<and> pressed u qid
   | SendMessage chat _ _ \<Rightarrow> chat \<noteq> 0 \<and> chat = conversation u
   | EditMessage chat message _ _ \<Rightarrow> chat \<noteq> 0 \<and> message \<noteq> 0 \<and> upd_Message u = None \<and>
       pressedOn u (chat, message))"

fun answersButton :: "messenger_call \<Rightarrow> bool" where
  "answersButton (AnswerCallback qid answer alert) = True"
| "answersButton call = False"

definition samePlace :: "responsePlan \<Rightarrow> responsePlan \<Rightarrow> bool" where
  "samePlace p q \<longleftrightarrow> rp_chatID q = rp_chatID p \<and> rp_messageID q = rp_messageID p \<and>
     rp_callbackID q = rp_callbackID p \<and> rp_edit q = rp_edit p"

lemma place_end: "samePlace p q \<Longrightarrow> triple P (returnE q) (\<lambda>pl _. samePlace p pl)"
  by (auto intro: triple_returnE)

lemmas place_rules = triple_throwE place_end triple_if triple_case_option triple_case_sum triple_case_list triple_case_prod
  triple_Let completes_later

lemma place_then:
  "triple (\<lambda>_. True) m (\<lambda>q _. samePlace p q) \<Longrightarrow> (\<And>q. samePlace p q \<Longrightarrow> triple (\<lambda>_. True) (f q) Q) \<Longrightarrow>
   triple (\<lambda>_. True) (bindE m f) Q"
  by (rule triple_step [where R = "\<lambda>_ _. True" and F = "samePlace p"]) simp_all

lemma place_adjustment: "triple (\<lambda>_. True) (onWalletAdjustment r t cb me pl) (\<lambda>q _. samePlace pl q)"
  unfolding onWalletAdjustment_def
proof (rule place_then)
  show "triple (\<lambda>_. True) (askFor r t st py pr me pl) (\<lambda>q _. samePlace pl q)" for st py pr
    unfolding askFor_def by (rule place_rules | (simp add: samePlace_def completed_def; fail))+
qed (rule place_rules | (simp add: samePlace_def display_def; fail))+

lemma place_routeCallback: "triple (\<lambda>_. True) (routeCallback r t cb me pl) (\<lambda>q _. samePlace pl q)"
  unfolding routeCallback_def onMenu_def onSupport_def onCategories_def onProducts_def onProductDetail_def onOrderQuantity_def
    onOrderBank_def onOrderConfirm_def onOrders_def onOrderView_def onOrderAskCancel_def onOrderCancel_def
    onOrderWalletAsk_def onOrderWalletPay_def onWalletBalance_def onTopupAmount_def onTopupBank_def onAdminCatalog_def
    onPaymentReviews_def onDeliveries_def onDeliveryDetail_def onDeliveryResolution_def onDeliveryConfirm_def
    onDeliveryReconcile_def onPaymentManual_def onPaymentResolve_def onInventory_def
    onBanks_def onBankNew_def onBankEdit_def onBankAskToggle_def onBankToggle_def onInventoryList_def
    onInventoryImport_def onInventoryAskToggle_def onInventoryToggle_def onCategoryNew_def onCategoryEdit_def
    onCategoryToggle_def onProductNew_def onProductEdit_def onProductToggle_def onCancel_def onProviderHealth_def
    onProviderAccounts_def onProviderAccountNew_def onProviderAskToggle_def onProviderToggle_def
    withProviders_def askFor_def askConfirm_def Let_def
  by (cases "Action cb"; simp only: CallbackAction.case)
    ((rule place_adjustment place_rules | (simp add: samePlace_def display_def completed_def; fail))+)

lemma place_session_texts:
  "triple (\<lambda>_. True) (onProviderText r t x ses py me pl) (\<lambda>q _. samePlace pl q)"
  "triple (\<lambda>_. True) (onDeliveryText r t x ses py me pl) (\<lambda>q _. samePlace pl q)"
  "triple (\<lambda>_. True) (onImportText r t x ses py me pl) (\<lambda>q _. samePlace pl q)"
  "triple (\<lambda>_. True) (onCategoryText r t x ses py me pl) (\<lambda>q _. samePlace pl q)"
  "triple (\<lambda>_. True) (handleProductSessionText r t x ses py me pl) (\<lambda>q _. samePlace pl q)"
  "triple (\<lambda>_. True) (handleBankSessionText r t x ses py me pl) (\<lambda>q _. samePlace pl q)"
  "triple (\<lambda>_. True) (onPaymentText r t x ses me pl) (\<lambda>q _. samePlace pl q)"
  "triple (\<lambda>_. True) (onReviewText r t x ses py me pl) (\<lambda>q _. samePlace pl q)"
  "triple (\<lambda>_. True) (onAdjustmentText r t x ses me pl) (\<lambda>q _. samePlace pl q)"
  unfolding onProviderText_def onDeliveryText_def onImportText_def onCategoryText_def handleProductSessionText_def
    handleBankSessionText_def onPaymentText_def onReviewText_def onAdjustmentText_def advanceTo_def Let_def
  by ((rule place_rules | (simp add: samePlace_def display_def completed_def; fail))+)

definition placed :: "tg_update \<Rightarrow> responsePlan \<Rightarrow> bool" where
  "placed u pl \<longleftrightarrow> (rp_callbackID pl = [] \<or> pressed u (rp_callbackID pl)) \<and>
     (rp_chatID pl = 0 \<or> rp_chatID pl = conversation u) \<and>
     (rp_edit pl \<longrightarrow> rp_messageID pl \<noteq> 0 \<and> upd_Message u = None \<and> pressedOn u (rp_chatID pl, rp_messageID pl))"

lemma placed_calls: "placed u pl \<Longrightarrow> call \<in> set (executePlan pl) \<Longrightarrow> addressed u call"
  by (auto simp: placed_def executePlan_def addressed_def split: if_splits)

lemma placed_same: "placed u p \<Longrightarrow> triple P m (\<lambda>q _. samePlace p q) \<Longrightarrow> triple P m (\<lambda>q _. placed u q)"
  by (erule triple_post) (simp add: placed_def samePlace_def)

lemma placed_end: "placed u q \<Longrightarrow> triple P (returnE q) (\<lambda>pl _. placed u pl)"
  by (auto intro: triple_returnE)

lemmas placing = triple_throwE placed_end triple_if triple_case_option triple_case_sum triple_case_prod triple_Let
  completes_later

lemma placed_message:
  assumes "upd_Message u = Some message"
  shows "triple (\<lambda>_. True) (handleMessage r k rid message) (\<lambda>pl _. placed u pl)"
  unfolding handleMessage_def handleCommand_def handleSessionText_def Let_def
  by ((rule placing placed_same [OF _ place_session_texts(1)] placed_same [OF _ place_session_texts(2)]
      placed_same [OF _ place_session_texts(3)] placed_same [OF _ place_session_texts(4)]
      placed_same [OF _ place_session_texts(5)] placed_same [OF _ place_session_texts(6)]
      placed_same [OF _ place_session_texts(7)] placed_same [OF _ place_session_texts(8)]
      placed_same [OF _ place_session_texts(9)]
    | (simp add: placed_def emptyPlan_def reply_def unsupported_def conversation_def assms; fail))+)

lemma placed_callback:
  assumes "upd_Message u = None" "upd_CallbackQuery u = Some query"
  shows "triple (\<lambda>_. True) (handleCallback r k rid query) (\<lambda>pl _. placed u pl)"
  unfolding handleCallback_def Let_def
  by ((rule placing placed_same [OF _ place_routeCallback]
    | (simp add: placed_def emptyPlan_def conversation_def pressed_def pressedOn_def assms; fail))+)

lemma placed_dispatch: "triple (\<lambda>_. True) (dispatch r u rid) (\<lambda>pl _. placed u pl)"
proof -
  have "placed u emptyPlan" by (simp add: placed_def emptyPlan_def)
  then show ?thesis
    unfolding dispatch_def by (intro triple_case_option placed_message placed_callback placed_end)
qed

text \<open>At most one answer to the button and at most one message, all of them to the update.\<close>

definition measured :: "tg_update \<Rightarrow> messenger_call list \<Rightarrow> bool" where
  "measured u calls \<longleftrightarrow> list_all (addressed u) calls \<and> length (filter answersButton calls) \<le> 1 \<and>
     length (filter (\<lambda>c. \<not> answersButton c) calls) \<le> 1"

lemma measured_duplicate: "measured u (answerDuplicateCallback u answer)" "list_all answersButton (answerDuplicateCallback u answer)"
  "measured u []"
  by (auto simp: measured_def list_all_iff answerDuplicateCallback_def addressed_def pressed_def split: option.splits)

lemma measured_plan: "placed u pl \<Longrightarrow> measured u (executePlan pl)"
  using placed_calls [of u pl] by (auto simp: measured_def list_all_iff executePlan_def split: if_splits)

lemma processClaimed_calls:
  assumes "processClaimed r u rid s = (Inr (err, calls), s')"
  shows "measured u calls \<and> (err \<noteq> None \<longrightarrow> list_all answersButton calls)"
proof -
  have "measured u (executePlan pl)" if "dispatch r u rid s = (Inr pl, s1)" for pl s1
    using tripleD [OF placed_dispatch _ that] measured_plan by blast
  then show ?thesis
    using assms measured_duplicate
    by (auto simp: processClaimed_def bindE_app attempt_def returnE_def split: prod.splits sum.splits if_splits)
qed

text \<open>
  C32. The bot answers only where an update came from: whatever the update asks for and whatever happens, every call to
  Telegram answers the button that was pressed, edits the message of that button or writes to the chat of the message, at
  most one of each kind. A processing that ends in an error shows nothing but the answer to the button, and an update whose
  claim was refused reaches no service: nothing changes after the claim.
\<close>

theorem replies_stay_with_sender:
  assumes "Process r (Some upd) requestID s = (Inr (err, calls), s')"
    and "claim = UpdateService_Claim (rt_staleAfter r) (rt_now r ''updates.Claim'') (upd_ID upd)
      (ClassifyUpdate (updateKind (Some upd))) s"
  shows "list_all (addressed upd) calls \<and> length (filter answersButton calls) \<le> 1 \<and>
    length (filter (\<lambda>c. \<not> answersButton c) calls) \<le> 1 \<and> (err \<noteq> None \<longrightarrow> list_all answersButton calls) \<and>
    (upd_ID upd < 0 \<longrightarrow> s' = s \<and> calls = []) \<and>
    (0 \<le> upd_ID upd \<and> fst claim \<noteq> Inr UpdateClaimed \<longrightarrow> s' = snd claim \<and> list_all answersButton calls)"
proof -
  have "measured upd calls \<and> (err \<noteq> None \<longrightarrow> list_all answersButton calls) \<and> (upd_ID upd < 0 \<longrightarrow> s' = s \<and> calls = []) \<and>
    (0 \<le> upd_ID upd \<and> fst claim \<noteq> Inr UpdateClaimed \<longrightarrow> s' = snd claim \<and> list_all answersButton calls)"
    using assms(1) measured_duplicate
    by (cases claim; cases "fst claim")
      (auto simp: Process_def bindE_app attempt_def returnE_def assms(2) [symmetric] dest!: processClaimed_calls split: if_splits)
  then show ?thesis by (simp add: measured_def)
qed

theorem replies_stay_with_sender_witness:
  "\<exists>calls s'. Process demo_router (Some (demo_press ''v1:a:bn'')) ''req'' (demo_catalog (empty_db 1000)) =
       (Inr (None, calls), s') \<and> list_all (addressed (demo_press ''v1:a:bn'')) calls \<and> length (filter answersButton calls) \<le> 1"
proof -
  obtain calls where run: "Process demo_router (Some (demo_press ''v1:a:bn'')) ''req'' (demo_catalog (empty_db 1000)) =
     (Inr (None, calls), snd demo_opening)" using demo_processed by blast
  with replies_stay_with_sender [OF run refl] show ?thesis by blast
qed

section \<open>Buttons of the administration\<close>

text \<open>What fails without a trace for anybody the back office does not let in.\<close>

definition denied :: "int64 \<Rightarrow> 'a dbtx \<Rightarrow> bool" where
  "denied t m \<longleftrightarrow> (\<forall>s e. 0 < t \<and> fst (AdminService_Authorize t False s) = Inl e \<longrightarrow> (\<exists>e'. m s = (Inl e', s)))"

lemma denied_Authorize: "denied t (AdminService_Authorize t b)" "denied t (authorizePaymentAdmin t)"
  by (auto simp: denied_def AdminService_Authorize_def authorizePaymentAdmin_def authorizeAdmin_def CanManageCatalog_def
      GetAdminAuthorizationByTelegramID_def sqlSelectOne_def sqlSelect_def one_def bindE_app mapErrE_def noRows_app Let_def
      throwE_def returnE_def askE_def split: list.splits if_splits)

lemma denied_throwE: "denied t (throwE e)"
  by (simp add: denied_def throwE_def)

lemma denied_bindE: "denied t m \<Longrightarrow> denied t (bindE m f)"
  by (fastforce simp: denied_def bindE_app)

lemma denied_ofSum: "(\<And>x. denied t (f x)) \<Longrightarrow> denied t (bindE (ofSum v) f)"
  by (cases v) (auto simp: denied_def bindE_app ofSum_def)

lemma denied_wrap: "denied t m \<Longrightarrow> denied t (mapErrE g m)" "denied t m \<Longrightarrow> denied t (WithinTransaction m)"
  by (fastforce simp: denied_def mapErrE_def WithinTransaction_def)+

lemma denied_if: "denied t m \<Longrightarrow> denied t n \<Longrightarrow> denied t (if b then m else n)"
  by simp

lemma denied_Let: "denied t (f x) \<Longrightarrow> denied t (Let x f)"
  by simp

lemma denied_case_option: "denied t a \<Longrightarrow> (\<And>y. denied t (b y)) \<Longrightarrow> denied t (case x of None \<Rightarrow> a | Some y \<Rightarrow> b y)"
  by (cases x) auto

lemmas denials = denied_Authorize denied_throwE denied_ofSum denied_bindE denied_wrap denied_if denied_Let denied_case_option

lemma denied_services:
  "denied t (AdminService_StartSession ttl now t st py me)" "denied t (AdminService_LoadSession now t)"
  "denied t (DeliveryAdminService_List nw mt n t p)" "denied t (DeliveryAdminService_Get t j)"
  "denied t (DeliveryAdminService_Reconcile l now t)" "denied t (InventoryAdminService_ListOverview n t p)"
  "denied t (InventoryAdminService_ListItems n t i p)" "denied t (BankAccountService_ListAdmin n t p)"
  "denied t (PaymentProviderAdminService_Health ps t)" "denied t (PaymentProviderAdminService_ListAccounts col n t p)"
  unfolding AdminService_StartSession_def AdminService_LoadSession_def DeliveryAdminService_List_def
    ListDeliveryReviews_def DeliveryAdminService_Get_def GetDeliveryReview_def DeliveryAdminService_Reconcile_def
    ReconcileDeliveryForAdmin_def InventoryAdminService_ListOverview_def InventoryAdminService_ListItems_def
    BankAccountService_ListAdmin_def PaymentProviderAdminService_Health_def PaymentProviderAdminService_ListAccounts_def
  by (rule denials)+

lemma denied_admin_cases:
  "denied t (onAdminCatalog t pl)" "denied t (onDeliveries r t cb pl)" "denied t (onDeliveryDetail t cb pl)"
  "denied t (onDeliveryResolution r t cb me pl)" "denied t (onDeliveryConfirm r t cb me pl)"
  "denied t (onDeliveryReconcile r t pl)" "denied t (onPaymentManual r t me pl)" "denied t (onPaymentResolve r t cb me pl)"
  "denied t (onWalletAdjustment r t cb me pl)" "denied t (onInventory r t cb pl)" "denied t (onBanks r t cb pl)"
  "denied t (onProviderHealth r t pl)" "denied t (onProviderAccounts r t cb pl)" "denied t (onProviderAccountNew r t me pl)"
  "denied t (onProviderAskToggle r t cb me pl)" "denied t (onProviderToggle r t cb me pl)" "denied t (onBankNew r t me pl)"
  "denied t (onBankEdit r t cb me pl)" "denied t (onBankAskToggle r t cb me pl)" "denied t (onBankToggle r t cb me pl)"
  "denied t (onInventoryList r t cb pl)" "denied t (onInventoryImport r t cb me pl)"
  "denied t (onInventoryAskToggle r t cb me pl)" "denied t (onInventoryToggle r t cb me pl)"
  "denied t (onCategoryNew r t me pl)" "denied t (onCategoryEdit r t cb me pl)" "denied t (onCategoryToggle r t cb me pl)"
  "denied t (onProductNew r t me pl)" "denied t (onProductEdit r t cb me pl)" "denied t (onProductToggle r t cb me pl)"
  "denied t (onCancel r t cb me pl)"
  unfolding onAdminCatalog_def onDeliveries_def onDeliveryDetail_def onDeliveryResolution_def onDeliveryConfirm_def
    onDeliveryReconcile_def onPaymentManual_def onPaymentResolve_def onWalletAdjustment_def onInventory_def onBanks_def
    onProviderHealth_def onProviderAccounts_def onProviderAccountNew_def onProviderAskToggle_def onProviderToggle_def
    onBankNew_def onBankEdit_def onBankAskToggle_def onBankToggle_def onInventoryList_def onInventoryImport_def
    onInventoryAskToggle_def onInventoryToggle_def onCategoryNew_def onCategoryEdit_def onCategoryToggle_def
    onProductNew_def onProductEdit_def onProductToggle_def onCancel_def withProviders_def askFor_def askConfirm_def
    startSession_def
  by (rule denied_services denials)+

text \<open>The buttons that anybody may press.\<close>

definition customerActions :: "CallbackAction list" where
  "customerActions = [CallbackMenu, CallbackSupport, CallbackCategories, CallbackProducts, CallbackProductDetail,
     CallbackOrderQuantity, CallbackOrderBank, CallbackOrderConfirm, CallbackOrders, CallbackOrderView,
     CallbackOrderAskCancel, CallbackOrderCancel, CallbackOrderWalletAsk, CallbackOrderWalletPay, CallbackWalletBalance,
     CallbackWalletTopupAmount, CallbackWalletTopupBank]"

text \<open>
  C34. Every button of the administration, whoever sends its data, fails for a user who may not open the
  administration and leaves the database as it was, whatever the data asks for. The list of payment reviews
  is the exception: it checks only that the user has an entry as administrator, but it changes nothing either.
\<close>

theorem admin_buttons_guarded:
  assumes "0 < telegramID" "fst (AdminService_Authorize telegramID False s) = Inl e" and "Action cb \<notin> set customerActions"
  shows "if Action cb = CallbackAdminPaymentReviews then snd (routeCallback r telegramID cb meta plan s) = s
    else \<exists>e'. routeCallback r telegramID cb meta plan s = (Inl e', s)"
proof (cases "Action cb = CallbackAdminPaymentReviews")
  case True
  have "always ((=) s) (onPaymentReviews r telegramID cb plan)" unfolding onPaymentReviews_def by (intro always_intros)
  then have "s = snd (onPaymentReviews r telegramID cb plan s)" by (simp add: always_def)
  with True show ?thesis by (simp add: routeCallback_def)
next
  case False
  with assms(3) have "denied telegramID (routeCallback r telegramID cb meta plan)"
    unfolding routeCallback_def by (cases "Action cb") (simp_all add: customerActions_def denied_admin_cases)
  with assms(1,2) False show ?thesis by (auto simp: denied_def)
qed

theorem admin_buttons_guarded_witness:
  "\<exists>e'. routeCallback demo_router 88 (callback CallbackAdminBankNew) \<lparr>RequestID = ''req'', UpdateID = 7\<rparr> emptyPlan
     (demo_catalog (empty_db 1000)) = (Inl e', demo_catalog (empty_db 1000))"
proof -
  have "fst (AdminService_Authorize 88 False (demo_catalog (empty_db 1000))) = Inl ErrForbidden"
    by (simp add: AdminService_Authorize_def authorizeAdmin_def GetAdminAuthorizationByTelegramID_def demo_catalog_def
        sqlSelectOne_def sqlSelect_def one_def bindE_app mapErrE_def noRows_app throwE_def askE_def)
  from admin_buttons_guarded [OF _ this, of "callback CallbackAdminBankNew"] show ?thesis
    by (simp add: customerActions_def callback_def)
qed

section \<open>The screens of the catalog\<close>

text \<open>
  The two catalog screens of the administration stay empty, since their case only authorizes; the code that
  should fill them sits in the case of the wallet adjustment, where it replaces the question with the products.
\<close>

lemma catalog_screens_missing:
  assumes "routeCallback r telegramID cb meta plan s = (Inr plan', s')"
  shows "Action cb \<in> {CallbackAdminCategories, CallbackAdminProducts} \<Longrightarrow> plan' = plan \<and> s' = s"
    and "Action cb = CallbackAdminWalletAdjustment \<Longrightarrow> \<exists>page. (rp_text plan', rp_keyboard plan') = AdminProductsView page"
proof -
  have same: "snd (AdminService_Authorize telegramID False s) = s"
    using always_Authorize [of "(=) s" telegramID False] by (simp add: always_def)
  show "plan' = plan \<and> s' = s" if "Action cb \<in> {CallbackAdminCategories, CallbackAdminProducts}"
    using assms that same by (cases "AdminService_Authorize telegramID False s"; cases "fst (AdminService_Authorize telegramID False s)")
      (auto simp: routeCallback_def onAdminCatalog_def bindE_app returnE_def)
  show "\<exists>page. (rp_text plan', rp_keyboard plan') = AdminProductsView page" if "Action cb = CallbackAdminWalletAdjustment"
    using assms that by (auto simp: routeCallback_def onWalletAdjustment_def bindE_app returnE_def display_def
        split: prod.splits sum.splits) (metis prod.collapse)+
qed

end
