(* ===== verification/Router_Buttons.thy ===== *)
theory Router_Buttons
  imports Router_Guarantees
begin

text \<open>
  The views and the parser: every button of a screen that fits the 64 bytes of Telegram is read back as an action
  of the router, apart from the buttons of the payment providers, which the parser rejects; and the screens of a
  customer only offer actions of a customer.
\<close>

section \<open>Reading a button\<close>

definition idOk :: "int64 \<Rightarrow> bool" where
  "idOk i \<longleftrightarrow> 0 < i \<and> i < 2 ^ 63"

definition pageOk :: "PageInfo \<Rightarrow> bool" where
  "pageOk p \<longleftrightarrow> 0 \<le> pg_Page p \<and> pg_Page p + 1 < 2 ^ 31"

definition accepted :: "CallbackAction list \<Rightarrow> string \<Rightarrow> bool" where
  "accepted acts d \<longleftrightarrow> d = [] \<or> length d > 64 \<or> (\<exists>cb. ParseCallback d = Inr cb \<and> Action cb \<in> set acts)"

text \<open>The buttons that open the screens of the payment providers.\<close>

definition providerButton :: "string \<Rightarrow> bool" where
  "providerButton d \<longleftrightarrow> stripPrefix ''v1:a:q'' d \<noteq> None"

definition leadsTo :: "(string \<Rightarrow> bool) \<Rightarrow> Keyboard \<Rightarrow> bool" where
  "leadsTo P kb \<longleftrightarrow> list_all (list_all (\<lambda>b. P (btn_Data b))) kb"

lemma ascii_simps [simp]:
  "ascii []" "ascii (c # s) \<longleftrightarrow> (of_char c :: nat) < 128 \<and> ascii s" "ascii (s @ t) \<longleftrightarrow> ascii s \<and> ascii t" "ascii (intText i)"
  using showField_plain [of FPage "(callback CallbackMenu)\<lparr>Page := i\<rparr>"] by (auto simp: ascii_def)

lemma Split_intText:
  "Split (CHR '':'') (intText i @ CHR '':'' # s) = intText i # Split (CHR '':'') s"
  "Split (CHR '':'') (intText i) = [intText i]"
  by (simp_all add: Split_append Split_single intText_no_colon)

text \<open>The readers on what the views print.\<close>

lemma read_numbers:
  "idOk i \<Longrightarrow> positive (intText i) = Inr i" "0 < q \<Longrightarrow> q < 2 ^ 31 \<Longrightarrow> positiveInt32 (intText q) = Inr q"
  "0 \<le> p \<Longrightarrow> p < 2 ^ 31 \<Longrightarrow> nonNegative (intText p) = Inr p" "pageOk info \<Longrightarrow> nonNegative (intText (pg_Page info)) = Inr (pg_Page info)"
  by (simp_all add: pageOk_def positive_def positiveInt32_def nonNegative_def idOk_def ParseInt_intText)

lemma read_literals:
  "nonNegative ''0'' = Inr 0" "positiveInt32 ''1'' = Inr 1" "positiveInt32 ''2'' = Inr 2" "positiveInt32 ''5'' = Inr 5"
  "positive ''50000'' = Inr 50000" "positive ''100000'' = Inr 100000" "positive ''500000'' = Inr 500000"
proof -
  have digits: "digitChar 0 = CHR ''0''" "digitChar 1 = CHR ''1''" "digitChar 2 = CHR ''2''" "digitChar 5 = CHR ''5''"
    by code_simp+
  have "intText 0 = ''0''" "intText 1 = ''1''" "intText 2 = ''2''" "intText 5 = ''5''" "intText 50000 = ''50000''"
    "intText 100000 = ''100000''" "intText 500000 = ''500000''"
    by (simp_all add: intText_def natText.simps digits digits(2) [unfolded One_nat_def])
  then show "nonNegative ''0'' = Inr 0" "positiveInt32 ''1'' = Inr 1" "positiveInt32 ''2'' = Inr 2" "positiveInt32 ''5'' = Inr 5"
    "positive ''50000'' = Inr 50000" "positive ''100000'' = Inr 100000" "positive ''500000'' = Inr 500000"
    using read_numbers(1) [of 50000] read_numbers(1) [of 100000] read_numbers(1) [of 500000] read_numbers(2) [of 1]
      read_numbers(2) [of 2] read_numbers(2) [of 5] read_numbers(3) [of 0] by (simp_all add: idOk_def)
qed

lemma read_bits: "parseBoolBit (toggleTarget a) = Inr (\<not> a)" "parseBoolBit ''0'' = Inr False" "parseBoolBit ''1'' = Inr True"
  by (auto simp: parseBoolBit_def toggleTarget_def)

lemma Split_toggle: "Split (CHR '':'') (toggleTarget a) = [toggleTarget a]" "ascii (toggleTarget a)"
  by (simp_all add: toggleTarget_def)

text \<open>The parser after the checks of length and encoding.\<close>

definition readParts :: "string list \<Rightarrow> error + Callback" where
  "readParts parts =
     (if length parts < 2 \<or> parts ! 0 \<noteq> ''v1'' then invalid else
      case map_of groupRows (parts ! 1) of
        None \<Rightarrow> runRow 2 parts (map_of topRows (parts ! 1))
      | Some rows \<Rightarrow> if length parts < 3 then invalid else runRow 3 parts (map_of rows (parts ! 2)))"

lemma accepted_ascii:
  "ascii d \<Longrightarrow> accepted acts d \<longleftrightarrow> d = [] \<or> length d > 64 \<or>
     (\<exists>cb. readParts (Split (CHR '':'') d) = Inr cb \<and> Action cb \<in> set acts)"
  using ascii_utf8 [of d]
  by (auto simp: accepted_def ParseCallback_grammar parseByGrammar_def readParts_def Let_def)

lemmas reading = accepted_ascii readParts_def groupRows_def topRows_def orderRows_def walletRows_def adminRows_def
  runRow_def Split_intText read_numbers read_literals read_bits Split_toggle callback_def

section \<open>The screens\<close>

lemma leadsTo_simps:
  "leadsTo P []" "leadsTo P (row # kb) \<longleftrightarrow> list_all (\<lambda>b. P (btn_Data b)) row \<and> leadsTo P kb"
  "leadsTo P (kb @ kb') \<longleftrightarrow> leadsTo P kb \<and> leadsTo P kb'"
  "leadsTo P (map f xs) \<longleftrightarrow> (\<forall>x \<in> set xs. list_all (\<lambda>b. P (btn_Data b)) (f x))"
  "leadsTo P (concat kbs) \<longleftrightarrow> (\<forall>kb \<in> set kbs. leadsTo P kb)"
  by (auto simp: leadsTo_def list_all_iff)

lemma leadsTo_navigation:
  assumes "pageOk page" "\<And>p. 0 \<le> p \<Longrightarrow> p < 2 ^ 31 \<Longrightarrow> P (format @ intText p)"
  shows "leadsTo P (navigationRows format page)"
  using assms by (auto simp: navigationRows_def leadsTo_simps dataButton_def pageOk_def)

text \<open>
  The screens a customer sees, for data with valid numbers: the views of \<open>view.go\<close> and the keyboards that \<open>router.go\<close>
  puts under a text of its own.
\<close>

inductive customer_screen :: "view \<Rightarrow> bool" where
  sc_menu: "customer_screen (MainMenuText name, MainMenuKeyboard)"
| sc_categories: "pageOk info \<Longrightarrow> \<forall>c \<in> set cats. idOk (Category_ID c) \<Longrightarrow> customer_screen (CategoriesView (cats, info))"
| sc_products: "pageOk info \<Longrightarrow> idOk c \<Longrightarrow> \<forall>p \<in> set prods. idOk (Product_ID p) \<Longrightarrow> customer_screen (ProductsView c (prods, info))"
| sc_product: "idOk (Product_ID p) \<Longrightarrow> idOk c \<Longrightarrow> 0 \<le> n \<Longrightarrow> n < 2 ^ 31 \<Longrightarrow> customer_screen (ProductView p c n)"
| sc_banks: "idOk p \<Longrightarrow> 0 < q \<Longrightarrow> q < 2 ^ 31 \<Longrightarrow> \<forall>b \<in> set banks. idOk (bao_ID b) \<Longrightarrow>
    customer_screen (BankSelectionView p q banks)"
| sc_confirm: "idOk f \<Longrightarrow> idOk p \<Longrightarrow> 0 < q \<Longrightarrow> q < 2 ^ 31 \<Longrightarrow> idOk (bao_ID bank) \<Longrightarrow> customer_screen (OrderConfirmView f p q bank)"
| sc_instruction: "idOk (od_ID order) \<Longrightarrow> customer_screen (PaymentInstructionView tf order ins)"
| sc_orders: "pageOk info \<Longrightarrow> \<forall>row \<in> set rows. idOk (ord_id (fst row)) \<Longrightarrow> customer_screen (OrdersView tf (rows, info))"
| sc_order: "idOk (od_ID order) \<Longrightarrow> idOk (od_Version order) \<Longrightarrow> customer_screen (OrderDetailView tf order oins)"
| sc_balance: "customer_screen (WalletBalanceView account)"
| sc_topup: "idOk f \<Longrightarrow> idOk amount \<Longrightarrow> \<forall>b \<in> set banks. idOk (bao_ID b) \<Longrightarrow> customer_screen (WalletTopupBankView f amount banks)"
| sc_topup_instruction: "customer_screen (WalletTopupInstructionView tf topup ins)"
| sc_wallet: "idOk f \<Longrightarrow> idOk (od_ID order) \<Longrightarrow> customer_screen (WalletOrderConfirmationView order account f)"
| sc_cancel: "idOk oid \<Longrightarrow> idOk version \<Longrightarrow> customer_screen (OrderCancelConfirmationView oid version)"
| sc_support: "customer_screen (message, supportKeyboard)"
| sc_cancelled: "customer_screen (message, cancelledKeyboard)"
| sc_paid: "idOk oid \<Longrightarrow> customer_screen (message, paidKeyboard oid)"

lemma customer_screens_lead: "customer_screen v \<Longrightarrow> leadsTo (accepted customerActions) (snd v)"
proof (induction rule: customer_screen.induct)
qed (auto simp: MainMenuKeyboard_def CategoriesView_def ProductsView_def ProductView_def BankSelectionView_def
    OrderConfirmView_def PaymentInstructionView_def OrdersView_def OrderDetailView_def WalletBalanceView_def
    WalletTopupBankView_def WalletTopupInstructionView_def WalletOrderConfirmationView_def OrderCancelConfirmationView_def
    supportKeyboard_def cancelledKeyboard_def paidKeyboard_def Let_def dataButton_def urlButton_def leadsTo_simps reading customerActions_def intro!: leadsTo_navigation)

text \<open>The screens of the administration.\<close>

definition adminActions :: "CallbackAction list" where
  "adminActions = [CallbackMenu, CallbackAdminDeliveries, CallbackAdminDeliveryDetail, CallbackAdminDeliveryRetry,
     CallbackAdminDeliveryComplete, CallbackAdminDeliveryConfirm, CallbackAdminDeliveryReconcile,
     CallbackAdminPaymentManual, CallbackAdminPaymentReviews, CallbackAdminPaymentResolve, CallbackAdminWalletAdjustment,
     CallbackAdminBanks, CallbackAdminBankNew, CallbackAdminBankEdit, CallbackAdminBankAskToggle, CallbackAdminBankToggle,
     CallbackAdminInventory, CallbackAdminInventoryList, CallbackAdminInventoryImport, CallbackAdminInventoryAskToggle,
     CallbackAdminInventoryToggle, CallbackAdminCategories, CallbackAdminCategoryNew, CallbackAdminCategoryEdit,
     CallbackAdminCategoryAskToggle, CallbackAdminCategoryToggle, CallbackAdminProducts, CallbackAdminProductNew,
     CallbackAdminProductEdit, CallbackAdminProductAskToggle, CallbackAdminProductToggle, CallbackAdminCancel]"

definition officeData :: "string \<Rightarrow> bool" where
  "officeData d \<longleftrightarrow> providerButton d \<or> accepted adminActions d"

definition confirmTags :: "string list" where
  "confirmTags = [''v1:a:qt:'', ''v1:a:bt:'', ''v1:a:it:'', ''v1:a:ct:'', ''v1:a:pt:'']"

inductive admin_screen :: "view \<Rightarrow> bool" where
  sa_deliveries: "pageOk info \<Longrightarrow> \<forall>i \<in> set items. idOk (job_id (dri_Job i)) \<Longrightarrow> admin_screen (DeliveryReviewsView (items, info))"
| sa_delivery: "idOk (job_id (dri_Job (drd_Item d))) \<Longrightarrow> idOk (job_version (dri_Job (drd_Item d))) \<Longrightarrow>
    admin_screen (DeliveryDetailView d)"
| sa_reconciliation: "admin_screen (DeliveryReconciliationView report)"
| sa_reviews: "pageOk info \<Longrightarrow> \<forall>i \<in> set cases. idOk (prc_ID i) \<Longrightarrow> admin_screen (PaymentReviewsView (cases, info))"
| sa_banks: "pageOk info \<Longrightarrow> \<forall>b \<in> set banks. idOk (bao_ID (rba_Option b)) \<and> idOk (bao_Version (rba_Option b)) \<Longrightarrow>
    admin_screen (AdminBankAccountsView (banks, info))"
| sa_inventory: "pageOk info \<Longrightarrow> \<forall>i \<in> set rows. idOk (iov_ProductID i) \<Longrightarrow> admin_screen (AdminInventoryOverviewView (rows, info))"
| sa_items: "pageOk info \<Longrightarrow> idOk p \<Longrightarrow> \<forall>i \<in> set stock. idOk (rii_ID i) \<and> idOk (rii_Version i) \<Longrightarrow>
    admin_screen (AdminInventoryItemsView tf p (stock, info))"
| sa_categories: "pageOk info \<Longrightarrow> \<forall>c \<in> set cats. idOk (Category_ID c) \<and> idOk (Category_Version c) \<Longrightarrow>
    admin_screen (AdminCategoriesView (cats, info))"
| sa_products: "pageOk info \<Longrightarrow> \<forall>p \<in> set prods. idOk (Product_ID p) \<and> idOk (Product_Version p) \<Longrightarrow>
    admin_screen (AdminProductsView (prods, info))"
| sa_menu: "admin_screen AdminMenu"
| sa_health: "admin_screen (PaymentProviderHealthView tf healths)"
| sa_accounts: "pageOk info \<Longrightarrow> admin_screen (PaymentProviderAccountsView (accounts, info))"
| sa_cancel: "idOk (ses_id ses) \<Longrightarrow> idOk (ses_version ses) \<Longrightarrow> admin_screen (message, cancelKeyboard ses)"
| sa_confirm: "tag \<in> set confirmTags \<Longrightarrow> idOk (ses_id ses) \<Longrightarrow> idOk (ses_version ses) \<Longrightarrow> idOk record \<Longrightarrow> idOk (RecordVersion cb) \<Longrightarrow>
    admin_screen (message, confirmKeyboard tag ses record cb)"
| sa_evidence: "idOk (ses_id ses) \<Longrightarrow> idOk (ses_version ses) \<Longrightarrow> admin_screen (message, evidenceKeyboard label ses)"

lemma inventoryButtons_lead: "idOk (rii_ID i) \<Longrightarrow> idOk (rii_Version i) \<Longrightarrow> leadsTo officeData (inventoryButtons i)"
  by (cases "rii_Status i")
    (simp_all add: inventoryButtons_def leadsTo_simps dataButton_def officeData_def reading adminActions_def)

lemma office_data: "officeData (c # d) \<longleftrightarrow> providerButton (c # d) \<or> accepted adminActions (c # d)" "officeData []"
  "providerButton (c # d) \<longleftrightarrow> stripPrefix ''v1:a:q'' (c # d) \<noteq> None"
  by (auto simp: officeData_def providerButton_def accepted_def adminActions_def)

lemma read_boolBit: "parseBoolBit (intText (boolBit a)) = Inr a"
proof -
  have "digitChar 0 = CHR ''0''" "digitChar 1 = CHR ''1''" by code_simp+
  then show ?thesis by (auto simp: boolBit_def parseBoolBit_def intText_def natText.simps)
qed

lemma confirmKeyboard_lead:
  "tag \<in> set confirmTags \<Longrightarrow> idOk (ses_id ses) \<Longrightarrow> idOk (ses_version ses) \<Longrightarrow> idOk record \<Longrightarrow> idOk (RecordVersion cb) \<Longrightarrow>
   leadsTo officeData (confirmKeyboard tag ses record cb)"
  by (auto simp: confirmTags_def confirmKeyboard_def leadsTo_simps dataButton_def officeData_def providerButton_def reading
      read_boolBit adminActions_def)

lemma admin_screens_lead: "admin_screen v \<Longrightarrow> leadsTo officeData (snd v)"
proof (induction rule: admin_screen.induct)
qed (auto simp: DeliveryReviewsView_def DeliveryDetailView_def DeliveryReconciliationView_def PaymentReviewsView_def
    AdminBankAccountsView_def AdminInventoryOverviewView_def AdminInventoryItemsView_def AdminCategoriesView_def
    AdminProductsView_def AdminMenu_def PaymentProviderHealthView_def PaymentProviderAccountsView_def cancelKeyboard_def
    evidenceKeyboard_def Let_def dataButton_def leadsTo_simps office_data reading adminActions_def
    intro!: leadsTo_navigation inventoryButtons_lead confirmKeyboard_lead)

lemma provider_rejected: "providerButton d \<Longrightarrow> ParseCallback d = Inl (Peripheral ErrInvalidCallback)"
proof -
  assume "providerButton d"
  then obtain rest where "d = ''v1:a:q'' @ rest" by (auto simp: providerButton_def stripPrefix_iff)
  then show ?thesis using provider_buttons_rejected by simp
qed

text \<open>
  C35. Every button works but those of the payment providers: on every screen of the bot (each view of \<open>view.go\<close> and
  each keyboard the router builds itself, for data with valid numbers), a button whose data fits the 64 bytes of
  Telegram is read by the parser as an action of the router, unless its data begins with \<open>v1:a:q\<close>, in which case the
  parser rejects it. A screen shown to customers has no such button and never offers an action of the administration.
\<close>

theorem screens_understood:
  assumes "customer_screen v \<or> admin_screen v" and "row \<in> set (snd v)" "b \<in> set row" "btn_Data b \<noteq> []"
    and "length (btn_Data b) \<le> MaxCallbackDataBytes"
  shows "if providerButton (btn_Data b)
    then \<not> customer_screen v \<and> ParseCallback (btn_Data b) = Inl (Peripheral ErrInvalidCallback)
    else \<exists>cb. ParseCallback (btn_Data b) = Inr cb \<and> (customer_screen v \<longrightarrow> Action cb \<in> set customerActions)"
proof -
  have holds: "P (btn_Data b)" if "leadsTo P (snd v)" for P
    using that assms(2,3) by (auto simp: leadsTo_def list_all_iff)
  have customer: "\<exists>cb. ParseCallback (btn_Data b) = Inr cb \<and> Action cb \<in> set customerActions" if "customer_screen v"
    using holds [OF customer_screens_lead [OF that]] assms(4,5) by (simp add: accepted_def MaxCallbackDataBytes_def)
  have admin: "providerButton (btn_Data b) \<or> (\<exists>cb. ParseCallback (btn_Data b) = Inr cb)" if "admin_screen v"
    using holds [OF admin_screens_lead [OF that]] assms(4,5) by (auto simp: officeData_def accepted_def MaxCallbackDataBytes_def)
  show ?thesis
    using assms(1) customer admin provider_rejected [of "btn_Data b"] by auto
qed

theorem screens_understood_witness:
  "(\<exists>b cb. b \<in> set (concat (snd (OrderCancelConfirmationView 12 3))) \<and> btn_Data b = ''v1:o:k:12:3'' \<and>
     ParseCallback (btn_Data b) = Inr cb \<and> Action cb \<in> set customerActions) \<and>
   (\<exists>b \<in> set (concat (snd AdminMenu)). btn_Data b = ''v1:a:qh'' \<and> ParseCallback (btn_Data b) = Inl (Peripheral ErrInvalidCallback))"
proof -
  let ?v = "OrderCancelConfirmationView 12 3" and ?q = "dataButton ''Payment providers'' ''v1:a:qh''"
  let ?b = "hd (hd (snd ?v))"
  have numbers: "intText 12 = ''12''" "intText 3 = ''3''" by code_simp+
  then have data: "btn_Data ?b = ''v1:o:k:12:3''" by (simp add: OrderCancelConfirmationView_def dataButton_def)
  have screen: "customer_screen ?v" by (rule sc_cancel) (simp_all add: idOk_def)
  have places: "hd (snd ?v) \<in> set (snd ?v)" "?b \<in> set (hd (snd ?v))" by (simp_all add: OrderCancelConfirmationView_def)
  then have one: "\<exists>cb. ParseCallback (btn_Data ?b) = Inr cb \<and> Action cb \<in> set customerActions"
    using screens_understood [of ?v "hd (snd ?v)" ?b] screen data
    by (simp add: MaxCallbackDataBytes_def providerButton_def)
  have row: "[?q] \<in> set (snd AdminMenu)" by (simp add: AdminMenu_def)
  have two: "btn_Data ?q = ''v1:a:qh''" by (simp add: dataButton_def)
  have "ParseCallback (btn_Data ?q) = Inl (Peripheral ErrInvalidCallback)"
    using screens_understood [of AdminMenu "[?q]" ?q] row sa_menu by (simp add: MaxCallbackDataBytes_def providerButton_def two)
  then have "\<exists>b \<in> set (concat (snd AdminMenu)). btn_Data b = ''v1:a:qh'' \<and> ParseCallback (btn_Data b) = Inl (Peripheral ErrInvalidCallback)"
    using two by (intro bexI [of _ ?q]) (simp_all add: AdminMenu_def)
  with one data places show ?thesis by (auto intro!: exI [of _ ?b])
qed

end
