(* ===== verification/Config_Values.thy ===== *)
theory Config_Values
  imports Payment_Instruction Ciphers Provider_Reconciliation Delivery_Service
begin

text \<open>
  The values of the environment variables: the parsing helpers of \<open>internal/config/config.go\<close>, each with the
  text of its error. \<open>env\<close> is \<open>os.Getenv\<close>. What the code takes from the Unicode tables, from \<open>net/url\<close>, from
  the reading of floating-point numbers and from the quoting of text is the argument \<open>lib\<close>.
\<close>

record go_lib =
  lb_ToLower :: "string \<Rightarrow> string" \<comment> \<open>\<open>strings.ToLower\<close>\<close>
  lb_unicode :: unicode \<comment> \<open>behind \<open>strings.ToUpper\<close>\<close>
  lb_url_Parse :: "string \<Rightarrow> url option"
  lb_url_ParseRequestURI :: "string \<Rightarrow> url option"
  lb_ParseFloat :: "string \<Rightarrow> float64 option"
  lb_Quote :: "string \<Rightarrow> string" \<comment> \<open>\<open>%q\<close>\<close>
  lb_Fixed2 :: "float64 \<Rightarrow> string" \<comment> \<open>\<open>%.2f\<close>\<close>

section \<open>Text\<close>

lemma stripPrefix_append: "stripPrefix w s = Some r \<Longrightarrow> stripPrefix w (s @ t) = Some (r @ t)"
  by (induction w s rule: stripPrefix.induct) (auto split: if_splits)

lemma firstStrip_append: "firstStrip ws (s @ t) = None \<Longrightarrow> firstStrip ws s = None"
proof (induction ws)
  case (Cons w ws)
  then show ?case using stripPrefix_append [of w s _ t] by (cases "stripPrefix w s") (auto split: option.splits)
qed simp

lemma trimLeft_none: "[] \<notin> set ws \<Longrightarrow> firstStrip ws (trimLeftWith ws s) = None"
  by (induction ws s rule: trimLeftWith.induct)
    (subst trimLeftWith.simps, simp split: option.split)

lemma trimLeft_id: "firstStrip ws s = None \<Longrightarrow> trimLeftWith ws s = s"
  by (simp add: trimLeftWith.simps)

text \<open>What is cut off is made of white space.\<close>

lemma trimLeft_suffix: "\<exists>w. s = w @ trimLeftWith ws s \<and> set w \<subseteq> \<Union>(set ` set ws)"
proof (induction ws s rule: trimLeftWith.induct)
  case (1 ws s)
  show ?case
  proof (cases "[] \<in> set ws \<or> firstStrip ws s = None")
    case True
    then have "trimLeftWith ws s = s" by (subst trimLeftWith.simps) auto
    then show ?thesis by (intro exI [of _ "[]"]) simp
  next
    case False
    then obtain r where e: "[] \<notin> set ws" and r: "firstStrip ws s = Some r" by auto
    from firstStrip_suffix [OF r] obtain w where w: "w \<in> set ws" "s = w @ r" ..
    from 1 [OF e r] obtain v where v: "r = v @ trimLeftWith ws r" "set v \<subseteq> \<Union>(set ` set ws)" by blast
    have "trimLeftWith ws s = trimLeftWith ws r" using e r by (subst trimLeftWith.simps) simp
    with w v show ?thesis by (intro exI [of _ "w @ v"]) auto
  qed
qed

lemma trimLeft_keeps: "c \<in> set s \<Longrightarrow> c \<notin> \<Union>(set ` set ws) \<Longrightarrow> c \<in> set (trimLeftWith ws s)"
  using trimLeft_suffix [of s ws] by (metis Un_iff set_append subsetD)

lemma trimLeft_length: "length (trimLeftWith ws s) \<le> length s"
  using trimLeft_suffix [of s ws] by (metis le_add2 length_append)

lemma no_empty_rune: "[] \<notin> set whiteSpaceRunes" "[] \<notin> set (map rev whiteSpaceRunes)"
  by (simp_all add: whiteSpaceRunes_def)

text \<open>Trimmed text is trimmed.\<close>

lemma TrimSpace_idem [simp]: "TrimSpace (TrimSpace s) = TrimSpace s"
proof -
  define l where "l = trimLeftWith whiteSpaceRunes s"
  define r where "r = trimLeftWith (map rev whiteSpaceRunes) (rev l)"
  have t: "TrimSpace s = rev r" by (simp add: TrimSpace_def l_def r_def)
  from trimLeft_suffix obtain w where "rev l = w @ r" unfolding r_def by metis
  then have "l = rev r @ rev w" by (metis rev_append rev_rev_ident)
  moreover have "firstStrip whiteSpaceRunes l = None"
    unfolding l_def by (rule trimLeft_none [OF no_empty_rune(1)])
  ultimately have "firstStrip whiteSpaceRunes (rev r) = None" by (metis firstStrip_append)
  moreover have "firstStrip (map rev whiteSpaceRunes) r = None"
    unfolding r_def by (rule trimLeft_none [OF no_empty_rune(2)])
  ultimately show ?thesis by (simp add: t TrimSpace_def [of "rev r"] trimLeft_id)
qed

lemma TrimSpace_length: "length (TrimSpace s) \<le> length s"
  using trimLeft_length [of whiteSpaceRunes s] trimLeft_length [of "map rev whiteSpaceRunes" "rev (trimLeftWith whiteSpaceRunes s)"]
  by (simp add: TrimSpace_def)

lemma TrimSpace_keeps: "c \<in> set s \<Longrightarrow> c \<notin> \<Union>(set ` set whiteSpaceRunes) \<Longrightarrow> c \<in> set (TrimSpace s)"
  by (simp add: TrimSpace_def trimLeft_keeps)

lemma TrimSpace_Nil [simp]: "TrimSpace [] = []"
  by (simp add: TrimSpace_def trimLeft_id whiteSpaceRunes_def)

definition envOrDefault :: "(string \<Rightarrow> string) \<Rightarrow> string \<Rightarrow> string \<Rightarrow> string" where
  "envOrDefault env name fallback =
     (let value = TrimSpace (env name) in if value \<noteq> [] then value else fallback)"

definition containsString :: "string list \<Rightarrow> string \<Rightarrow> bool" where
  "containsString values expected \<longleftrightarrow> list_ex (\<lambda>value. value = expected) values"

definition validReferencePrefix :: "go_lib \<Rightarrow> string \<Rightarrow> bool" where
  "validReferencePrefix lib value0 = (let value = TrimSpace (ToUpper (lb_unicode lib) value0) in
     \<not> (length value < 1 \<or> length value > 12) \<and> list_all (\<lambda>c. byteIn 65 90 c \<or> byteIn 48 57 c) value)"

definition validVietQRTemplate :: "string \<Rightarrow> bool" where
  "validVietQRTemplate value0 = (let value = TrimSpace value0 in
     \<not> (length value < 1 \<or> length value > 32) \<and>
     list_all (\<lambda>c. byteIn 97 122 c \<or> byteIn 65 90 c \<or> byteIn 48 57 c \<or> c = CHR ''-'' \<or> c = CHR ''_'') value)"

definition providerEnvironmentForApp :: "go_lib \<Rightarrow> string \<Rightarrow> string" where
  "providerEnvironmentForApp lib appEnv =
     (let name = lb_ToLower lib (TrimSpace appEnv) in
      if name = ''production'' then ''production'' else if name = ''test'' then ''test'' else ''development'')"

section \<open>Lists\<close>

text \<open>\<open>parseResult\<close>: the text of the error, or the value.\<close>

fun adminIDsFrom :: "go_lib \<Rightarrow> int64 list \<Rightarrow> string list \<Rightarrow> string + int64 list" where
  "adminIDsFrom lib ids [] = Inr ids"
| "adminIDsFrom lib ids (item # rest) =
     (case ParseInt 64 (TrimSpace item) of
        None \<Rightarrow> Inl (lb_Quote lib item @ '' is not a positive Telegram ID'')
      | Some n \<Rightarrow>
          if n \<le> 0 then Inl (lb_Quote lib item @ '' is not a positive Telegram ID'')
          else if n \<in> set ids then adminIDsFrom lib ids rest else adminIDsFrom lib (ids @ [n]) rest)"

definition parseAdminIDs :: "go_lib \<Rightarrow> string \<Rightarrow> string + int64 list" where
  "parseAdminIDs lib raw =
     (if TrimSpace raw = [] then Inr [] else adminIDsFrom lib [] (Split (CHR '','') raw))"

fun providersFrom :: "go_lib \<Rightarrow> string list \<Rightarrow> string list \<Rightarrow> string + string list" where
  "providersFrom lib providers [] = Inr providers"
| "providersFrom lib providers (item # rest) =
     (let name = lb_ToLower lib (TrimSpace item) in
      if name = [] then Inl ''contains a blank provider''
      else if name \<in> set providers then providersFrom lib providers rest
      else providersFrom lib (providers @ [name]) rest)"

definition parsePaymentProviders :: "go_lib \<Rightarrow> string \<Rightarrow> string + string list" where
  "parsePaymentProviders lib raw =
     (if TrimSpace raw = [] then Inr [] else providersFrom lib [] (Split (CHR '','') raw))"

definition providerList :: "(string \<Rightarrow> string) \<Rightarrow> string" where
  "providerList env =
     (let providers = env ''PAYMENT_PROVIDERS'' in
      if TrimSpace providers = [] then env ''PAYMENT_ALLOWED_PROVIDERS'' else providers)"

section \<open>Keys\<close>

text \<open>
  \<open>base64.StdEncoding\<close>: line breaks are skipped, the text is made of groups of four, only the last group may be
  padded, and the unused bits of a padded group are not looked at.
\<close>

definition base64Digit :: "char \<Rightarrow> nat option" where
  "base64Digit c =
     (if byteIn 65 90 c then Some (of_char c - 65) else if byteIn 97 122 c then Some (of_char c - 71)
      else if byteIn 48 57 c then Some (of_char c + 4)
      else if c = CHR ''+'' then Some 62 else if c = CHR ''/'' then Some 63 else None)"

fun base64Groups :: "string \<Rightarrow> string option" where
  "base64Groups [] = Some []"
| "base64Groups (a # b # c # d # rest) =
     (case (base64Digit a, base64Digit b) of
        (Some p, Some q) \<Rightarrow>
          let first = char_of (4 * p + q div 16) in
          if c = CHR ''='' then (if d = CHR ''='' \<and> rest = [] then Some [first] else None)
          else (case base64Digit c of None \<Rightarrow> None
            | Some r \<Rightarrow>
                let second = char_of (16 * (q mod 16) + r div 4) in
                if d = CHR ''='' then (if rest = [] then Some [first, second] else None)
                else (case base64Digit d of None \<Rightarrow> None
                  | Some t \<Rightarrow> map_option (\<lambda>bytes. first # second # char_of (64 * (r mod 4) + t) # bytes)
                      (base64Groups rest)))
      | _ \<Rightarrow> None)"
| "base64Groups _ = None"

definition base64_DecodeString :: "string \<Rightarrow> string option" where
  "base64_DecodeString s = base64Groups (filter (\<lambda>c. c \<noteq> CHR 0x0A \<and> c \<noteq> CHR 0x0D) s)"

definition parseEncryptionKey :: "string \<Rightarrow> string + string" where
  "parseEncryptionKey raw =
     (if TrimSpace raw = [] then Inr []
      else case base64_DecodeString (TrimSpace raw) of None \<Rightarrow> Inl ''must be standard base64'' | Some key \<Rightarrow> Inr key)"

section \<open>Numbers\<close>

definition parsePositiveInt :: "string \<Rightarrow> int \<Rightarrow> string + int" where
  "parsePositiveInt raw fallback =
     (if TrimSpace raw = [] then Inr fallback
      else case ParseInt 64 raw of None \<Rightarrow> Inl ''must be a positive integer''
        | Some value \<Rightarrow> if value \<le> 0 then Inl ''must be a positive integer'' else Inr value)"

definition parsePositiveInt32 :: "string \<Rightarrow> int32 \<Rightarrow> string + int32" where
  "parsePositiveInt32 raw fallback =
     (if TrimSpace raw = [] then Inr fallback
      else case ParseInt 32 raw of None \<Rightarrow> Inl ''must be a positive 32-bit integer''
        | Some value \<Rightarrow> if value \<le> 0 then Inl ''must be a positive 32-bit integer'' else Inr value)"

definition parsePositiveInt64 :: "string \<Rightarrow> int64 \<Rightarrow> string + int64" where
  "parsePositiveInt64 raw fallback =
     (if TrimSpace raw = [] then Inr fallback
      else case ParseInt 64 raw of None \<Rightarrow> Inl ''must be a positive 64-bit integer''
        | Some value \<Rightarrow> if value \<le> 0 then Inl ''must be a positive 64-bit integer'' else Inr value)"

definition parseNonNegativeInt32 :: "string \<Rightarrow> int32 \<Rightarrow> string + int32" where
  "parseNonNegativeInt32 raw fallback =
     (if TrimSpace raw = [] then Inr fallback
      else case ParseInt 32 raw of None \<Rightarrow> Inl ''must be a non-negative integer''
        | Some value \<Rightarrow> if value < 0 then Inl ''must be a non-negative integer'' else Inr value)"

text \<open>Durations are nanoseconds in an \<open>int64\<close>; the product with the unit wraps around.\<close>

definition goSeconds :: "int \<Rightarrow> duration" where "goSeconds n = n * 1000000000"

definition goMinutes :: "int \<Rightarrow> duration" where "goMinutes n = n * 60000000000"

lemma wrap64_code [code]:
  "wrap64 x = (x + 9223372036854775808) mod 18446744073709551616 - 9223372036854775808"
  by (simp add: wrap64_def)

definition parsePositiveDuration :: "string \<Rightarrow> duration \<Rightarrow> duration \<Rightarrow> string + duration" where
  "parsePositiveDuration raw unit fallback =
     (case parsePositiveInt raw (go_div fallback unit) of Inl e \<Rightarrow> Inl e
      | Inr value \<Rightarrow> Inr (wrap64 (value * unit)))"

definition parseFloatRange :: "go_lib \<Rightarrow> string \<Rightarrow> float64 \<Rightarrow> float64 \<Rightarrow> float64 \<Rightarrow> string + float64" where
  "parseFloatRange lib raw fallback minimum maximum =
     (if TrimSpace raw = [] then Inr fallback
      else let failed = Inl (''must be between '' @ lb_Fixed2 lib minimum @ '' and '' @ lb_Fixed2 lib maximum) in
        case lb_ParseFloat lib (TrimSpace raw) of None \<Rightarrow> failed
        | Some value \<Rightarrow> if float_less value minimum \<or> float_less maximum value then failed else Inr value)"

text \<open>\<open>slog.Level.UnmarshalText\<close>: a name and an optional signed offset.\<close>

definition LevelInfo :: int where "LevelInfo = 0"

definition levelName :: "string \<Rightarrow> int option" where
  "levelName name =
     (if name = ''DEBUG'' then Some (-4) else if name = ''INFO'' then Some 0
      else if name = ''WARN'' then Some 4 else if name = ''ERROR'' then Some 8 else None)"

definition level_UnmarshalText :: "go_lib \<Rightarrow> string \<Rightarrow> int option" where
  "level_UnmarshalText lib s =
     (let named = (\<lambda>c. c \<noteq> CHR ''+'' \<and> c \<noteq> CHR ''-'');
          name = takeWhile named s; rest = dropWhile named s in
      case (if rest = [] then Some 0 else ParseInt 64 rest) of None \<Rightarrow> None
      | Some offset \<Rightarrow> map_option (\<lambda>level. wrap64 (level + offset)) (levelName (ToUpper (lb_unicode lib) name)))"

definition parseLogLevel :: "go_lib \<Rightarrow> string \<Rightarrow> string + int" where
  "parseLogLevel lib raw =
     (if TrimSpace raw = [] then Inr LevelInfo
      else case level_UnmarshalText lib (ToUpper (lb_unicode lib) (TrimSpace raw)) of
        None \<Rightarrow> Inl ''must be DEBUG, INFO, WARN, or ERROR'' | Some level \<Rightarrow> Inr level)"

definition ParseBool :: "string \<Rightarrow> bool option" where
  "ParseBool s =
     (if s \<in> {''1'', ''t'', ''T'', ''TRUE'', ''true'', ''True''} then Some True
      else if s \<in> {''0'', ''f'', ''F'', ''FALSE'', ''false'', ''False''} then Some False else None)"

definition parseBool :: "string \<Rightarrow> bool \<Rightarrow> string + bool" where
  "parseBool raw fallback =
     (if TrimSpace raw = [] then Inr fallback
      else case ParseBool raw of None \<Rightarrow> Inl ''must be true or false'' | Some value \<Rightarrow> Inr value)"

section \<open>What an accepted value is\<close>

named_theorems parsed \<open>what a successful parse says of its value\<close>

lemma parsed_numbers [parsed]:
  "parsePositiveInt raw d = Inr v \<Longrightarrow> 0 < d \<Longrightarrow> 0 < v"
  "parsePositiveInt32 raw d = Inr w \<Longrightarrow> 0 < d \<Longrightarrow> 0 < w"
  "parsePositiveInt64 raw d = Inr x \<Longrightarrow> 0 < d \<Longrightarrow> 0 < x"
  "parseNonNegativeInt32 raw d = Inr y \<Longrightarrow> 0 \<le> d \<Longrightarrow> 0 \<le> y"
  by (auto simp: parsePositiveInt_def parsePositiveInt32_def parsePositiveInt64_def parseNonNegativeInt32_def
      split: if_splits option.splits)

lemma adminIDsFrom_ok:
  "adminIDsFrom lib ids items = Inr out \<Longrightarrow> distinct ids \<Longrightarrow> (\<forall>x \<in> set ids. 0 < x \<and> x \<le> MaxInt64) \<Longrightarrow>
   distinct out \<and> (\<forall>x \<in> set out. 0 < x \<and> x \<le> MaxInt64)"
proof (induction lib ids items rule: adminIDsFrom.induct)
  case (2 lib ids item rest)
  then show ?case
    by (auto simp: MaxInt64_def dest: ParseInt_range split: option.splits if_splits)
qed simp

lemma parsed_admins [parsed]:
  "parseAdminIDs lib raw = Inr ids \<Longrightarrow> distinct ids \<and> (\<forall>x \<in> set ids. 0 < x \<and> x \<le> MaxInt64)"
  by (auto simp: parseAdminIDs_def dest: adminIDsFrom_ok split: if_splits)

lemma providersFrom_ok:
  "providersFrom lib ps items = Inr out \<Longrightarrow> distinct ps \<Longrightarrow> [] \<notin> set ps \<Longrightarrow> distinct out \<and> [] \<notin> set out"
  by (induction lib ps items rule: providersFrom.induct) (auto simp: Let_def split: if_splits)

lemma parsed_providers [parsed]: "parsePaymentProviders lib raw = Inr ps \<Longrightarrow> distinct ps \<and> [] \<notin> set ps"
  by (auto simp: parsePaymentProviders_def dest: providersFrom_ok split: if_splits)

lemma parsed_ratio [parsed]:
  "parseFloatRange lib raw d lo hi = Inr v \<Longrightarrow> \<not> float_less d lo \<and> \<not> float_less hi d \<Longrightarrow> \<not> float_less v lo \<and> \<not> float_less hi v"
  by (auto simp: parseFloatRange_def Let_def split: if_splits option.splits)

text \<open>
  A duration is positive when the number of units fits, here into half the range so that two may be added; a
  large number wraps around.
\<close>

definition longest :: duration where "longest = MaxInt64 div 2"

definition fits :: "string \<Rightarrow> duration \<Rightarrow> bool" where
  "fits raw unit \<longleftrightarrow> (case ParseInt 64 raw of None \<Rightarrow> True | Some n \<Rightarrow> n * unit \<le> longest)"

lemma parsed_duration:
  assumes "parsePositiveDuration raw unit d = Inr v" "0 < unit" "unit \<le> d" "d \<le> longest" "fits raw unit"
  shows "unit \<le> v \<and> v \<le> longest"
proof -
  from assms(1) obtain n where n: "parsePositiveInt raw (go_div d unit) = Inr n" "v = wrap64 (n * unit)"
    by (auto simp: parsePositiveDuration_def split: sum.splits)
  have d: "go_div d unit = d div unit" "0 < d div unit"
    using assms(2,3) by (simp_all add: pos_imp_zdiv_pos_iff)
  have "d div unit * unit \<le> d" using assms(2) by (simp add: minus_mod_eq_div_mult [symmetric])
  with n(1) d assms have pos: "0 < n" and bound: "n * unit \<le> longest"
    by (auto simp: parsePositiveInt_def fits_def split: if_splits option.splits)
  from pos assms(2) have low: "unit \<le> n * unit" by simp
  with assms(2) have "0 \<le> n * unit" by linarith
  with bound have "is_int64 (n * unit)"
    unfolding is_int64_def MinInt64_def longest_def MaxInt64_def by auto
  with low bound n(2) show ?thesis by simp
qed

lemma duration_wraps: "parsePositiveDuration ''9223372037'' (goSeconds 1) (goSeconds 30) = Inr (-9223372036709551616)"
proof -
  have "TrimSpace ''9223372037'' = ''9223372037''" by (rule trim_alnum) code_simp
  moreover have "ParseInt 64 ''9223372037'' = Some 9223372037"
    by (simp add: ParseInt_def parseSigned_def parseDigits_def isDigitChar_def)
  ultimately show ?thesis by (simp add: parsePositiveDuration_def parsePositiveInt_def goSeconds_def wrap64_def)
qed

text \<open>No comparison rejects NaN, neither here nor in the delivery job.\<close>

lemma nan_accepted:
  "lb_ParseFloat lib (TrimSpace raw) = Some FNaN \<Longrightarrow> TrimSpace raw \<noteq> [] \<Longrightarrow> parseFloatRange lib raw d lo hi = Inr FNaN"
  "DeliveryJob_validate w \<Longrightarrow> DeliveryJob_validate (w\<lparr>dw_policy := (dw_policy w)\<lparr>drp_JitterRatio := FNaN\<rparr>\<rparr>)"
  by (simp_all add: parseFloatRange_def DeliveryJob_validate_def)

end
