(* ===== verification/Configuration.thy ===== *)
theory Configuration
  imports Config_Values Telegram_View
begin

text \<open>
  The configuration of both processes, \<open>internal/config/config.go\<close>: the record of settings, its defaults, the
  assignments from the environment in the order of the code, the validation, and what a configuration that was
  accepted is like. Problems are collected, not reported one at a time, so one pass names them all.
\<close>

section \<open>Settings\<close>

text \<open>Byte slices are strings; the level of the log is its number.\<close>

record Config =
  cfg_AppEnv :: string
  cfg_HTTPAddr :: string
  cfg_DatabaseURL :: string
  cfg_TelegramBotToken :: string
  cfg_TelegramWebhookSecret :: string
  cfg_TelegramWebhookURL :: string
  cfg_TelegramWebhookBodyLimit :: int64
  cfg_TelegramWebhookTimeout :: duration
  cfg_TelegramUpdateStaleAfter :: duration
  cfg_AdminSessionTTL :: duration
  cfg_TelegramAPITimeout :: duration
  cfg_SupportContact :: string
  cfg_AdminTelegramIDs :: "int64 list"
  cfg_InventoryEncryptionKey :: string
  cfg_InventoryEncryptionKeyVersion :: int32
  cfg_InventoryImportMaxItems :: int
  cfg_InventoryImportMaxItemBytes :: int
  cfg_InventoryImportMaxTotalBytes :: int
  cfg_BankAccountEncryptionKey :: string
  cfg_BankAccountEncryptionVersion :: int32
  cfg_OrderExpiry :: duration
  cfg_OrderMaxQuantity :: int32
  cfg_OrderExpiryInterval :: duration
  cfg_OrderExpiryBatchSize :: int32
  cfg_OrderExpiryRunTimeout :: duration
  cfg_PaymentReferencePrefix :: string
  cfg_PaymentReferenceRandomBytes :: int
  cfg_VietQRBaseURL :: string
  cfg_VietQRTemplate :: string
  cfg_OrderPageSize :: int
  cfg_BankAccountPageSize :: int
  cfg_PaymentWebhookBodyLimit :: int64
  cfg_PaymentEventBatchSize :: int32
  cfg_PaymentEventPollInterval :: duration
  cfg_PaymentEventRunTimeout :: duration
  cfg_PaymentEventMaxAttempts :: int32
  cfg_PaymentEventRetryBase :: duration
  cfg_PaymentStaleProcessingTimeout :: duration
  cfg_PaymentProviders :: "string list"
  cfg_PaymentPrimaryProvider :: string
  cfg_PaymentProviderEnvironment :: string
  cfg_PaymentReconciliationEnabled :: bool
  cfg_PaymentReconciliationInterval :: duration
  cfg_PaymentReconciliationRunTimeout :: duration
  cfg_PaymentReconciliationRequestTimeout :: duration
  cfg_PaymentReconciliationMaxPages :: int
  cfg_PaymentReconciliationPageSize :: int
  cfg_PaymentProviderReviewPageSize :: int
  cfg_SignedJSONWebhookSecret :: string
  cfg_SignedJSONTimestampTolerance :: duration
  cfg_WalletTopupMinAmount :: int64
  cfg_WalletTopupMaxAmount :: int64
  cfg_WalletTopupExpiry :: duration
  cfg_WalletPageSize :: int
  cfg_PaymentReviewPageSize :: int
  cfg_DeliveryBatchSize :: int32
  cfg_DeliveryPollInterval :: duration
  cfg_DeliveryRunTimeout :: duration
  cfg_DeliveryJobTimeout :: duration
  cfg_DeliveryProcessingLease :: duration
  cfg_DeliveryMaxAttempts :: int32
  cfg_DeliveryRetryBase :: duration
  cfg_DeliveryRetryMax :: duration
  cfg_DeliveryRetryJitter :: float64
  cfg_DeliveryStaleScanInterval :: duration
  cfg_DeliveryMessageMaxBytes :: int
  cfg_DeliveryReviewPageSize :: int
  cfg_LogLevel :: int
  cfg_PrometheusEnabled :: bool
  cfg_ShutdownTimeout :: duration
  cfg_DatabaseMaxConnections :: int32
  cfg_DatabaseMinConnections :: int32
  cfg_DatabaseConnectionTTL :: duration
  cfg_DatabaseHealthTimeout :: duration

definition defaultConfig :: "go_lib \<Rightarrow> (string \<Rightarrow> string) \<Rightarrow> Config" where
  "defaultConfig lib env = \<lparr>
     cfg_AppEnv = envOrDefault env ''APP_ENV'' ''local'',
     cfg_HTTPAddr = envOrDefault env ''HTTP_ADDR'' '':8080'',
     cfg_DatabaseURL = TrimSpace (env ''DATABASE_URL''),
     cfg_TelegramBotToken = TrimSpace (env ''TELEGRAM_BOT_TOKEN''),
     cfg_TelegramWebhookSecret = TrimSpace (env ''TELEGRAM_WEBHOOK_SECRET''),
     cfg_TelegramWebhookURL = TrimSpace (env ''TELEGRAM_WEBHOOK_URL''),
     cfg_TelegramWebhookBodyLimit = 1048576,
     cfg_TelegramWebhookTimeout = goSeconds 5,
     cfg_TelegramUpdateStaleAfter = goMinutes 2,
     cfg_AdminSessionTTL = goMinutes 15,
     cfg_TelegramAPITimeout = goSeconds 5,
     cfg_SupportContact = envOrDefault env ''SUPPORT_CONTACT'' (lit ''Vui l{F2}ng li{EA}n h{1EC7} qu{1EA3}n tr{1ECB} vi{EA}n c{1EED}a h{E0}ng.''),
     cfg_AdminTelegramIDs = [],
     cfg_InventoryEncryptionKey = [],
     cfg_InventoryEncryptionKeyVersion = 1,
     cfg_InventoryImportMaxItems = 100,
     cfg_InventoryImportMaxItemBytes = 4096,
     cfg_InventoryImportMaxTotalBytes = 262144,
     cfg_BankAccountEncryptionKey = [],
     cfg_BankAccountEncryptionVersion = 1,
     cfg_OrderExpiry = goMinutes 15,
     cfg_OrderMaxQuantity = 10,
     cfg_OrderExpiryInterval = goSeconds 30,
     cfg_OrderExpiryBatchSize = 100,
     cfg_OrderExpiryRunTimeout = goSeconds 10,
     cfg_PaymentReferencePrefix = ''TS'',
     cfg_PaymentReferenceRandomBytes = 6,
     cfg_VietQRBaseURL = ''https://img.vietqr.io/image/'',
     cfg_VietQRTemplate = ''compact2'',
     cfg_OrderPageSize = 8,
     cfg_BankAccountPageSize = 8,
     cfg_PaymentWebhookBodyLimit = 1048576,
     cfg_PaymentEventBatchSize = 100,
     cfg_PaymentEventPollInterval = goSeconds 5,
     cfg_PaymentEventRunTimeout = goSeconds 10,
     cfg_PaymentEventMaxAttempts = 5,
     cfg_PaymentEventRetryBase = goSeconds 5,
     cfg_PaymentStaleProcessingTimeout = goMinutes 2,
     cfg_PaymentProviders = [],
     cfg_PaymentPrimaryProvider = [],
     cfg_PaymentProviderEnvironment = providerEnvironmentForApp lib (envOrDefault env ''APP_ENV'' ''local''),
     cfg_PaymentReconciliationEnabled = False,
     cfg_PaymentReconciliationInterval = goMinutes 1,
     cfg_PaymentReconciliationRunTimeout = goSeconds 30,
     cfg_PaymentReconciliationRequestTimeout = goSeconds 10,
     cfg_PaymentReconciliationMaxPages = 10,
     cfg_PaymentReconciliationPageSize = 100,
     cfg_PaymentProviderReviewPageSize = 8,
     cfg_SignedJSONWebhookSecret = [],
     cfg_SignedJSONTimestampTolerance = goMinutes 5,
     cfg_WalletTopupMinAmount = 10000,
     cfg_WalletTopupMaxAmount = 10000000,
     cfg_WalletTopupExpiry = goMinutes 15,
     cfg_WalletPageSize = 8,
     cfg_PaymentReviewPageSize = 8,
     cfg_DeliveryBatchSize = 25,
     cfg_DeliveryPollInterval = goSeconds 5,
     cfg_DeliveryRunTimeout = goSeconds 30,
     cfg_DeliveryJobTimeout = goSeconds 10,
     cfg_DeliveryProcessingLease = goMinutes 2,
     cfg_DeliveryMaxAttempts = 5,
     cfg_DeliveryRetryBase = goSeconds 5,
     cfg_DeliveryRetryMax = goMinutes 5,
     cfg_DeliveryRetryJitter = FNum (3602879701896397 / 18014398509481984),
     cfg_DeliveryStaleScanInterval = goSeconds 30,
     cfg_DeliveryMessageMaxBytes = 3500,
     cfg_DeliveryReviewPageSize = 8,
     cfg_LogLevel = LevelInfo,
     cfg_PrometheusEnabled = True,
     cfg_ShutdownTimeout = goSeconds 10,
     cfg_DatabaseMaxConnections = 20,
     cfg_DatabaseMinConnections = 2,
     cfg_DatabaseConnectionTTL = goMinutes 30,
     cfg_DatabaseHealthTimeout = goSeconds 2\<rparr>"

datatype processKind = processAPI | processWorker

text \<open>A step of the loading: the problems found so far and the settings.\<close>

type_synonym setting_step = "string list \<times> Config \<Rightarrow> string list \<times> Config"

definition assign :: "string \<Rightarrow> (Config \<Rightarrow> string + 'a) \<Rightarrow> ('a \<Rightarrow> Config \<Rightarrow> Config) \<Rightarrow> setting_step" where
  "assign name result target = (\<lambda>(problems, cfg).
     case result cfg of Inl err \<Rightarrow> (problems @ [name @ '': '' @ err], cfg) | Inr value \<Rightarrow> (problems, target value cfg))"

definition setting :: "(Config \<Rightarrow> Config) \<Rightarrow> setting_step" where
  "setting f = (\<lambda>(problems, cfg). (problems, f cfg))"

definition commonSettings :: "go_lib \<Rightarrow> (string \<Rightarrow> string) \<Rightarrow> setting_step list" where
  "commonSettings lib env = [
     assign ''DELIVERY_BATCH_SIZE'' (\<lambda>cfg. parsePositiveInt32 (env ''DELIVERY_BATCH_SIZE'') (cfg_DeliveryBatchSize cfg)) (\<lambda>v. cfg_DeliveryBatchSize_update (\<lambda>_. v)),
     assign ''DELIVERY_POLL_INTERVAL'' (\<lambda>cfg. parsePositiveDuration (env ''DELIVERY_POLL_INTERVAL'') (goSeconds 1) (cfg_DeliveryPollInterval cfg)) (\<lambda>v. cfg_DeliveryPollInterval_update (\<lambda>_. v)),
     assign ''DELIVERY_RUN_TIMEOUT'' (\<lambda>cfg. parsePositiveDuration (env ''DELIVERY_RUN_TIMEOUT'') (goSeconds 1) (cfg_DeliveryRunTimeout cfg)) (\<lambda>v. cfg_DeliveryRunTimeout_update (\<lambda>_. v)),
     assign ''DELIVERY_JOB_TIMEOUT'' (\<lambda>cfg. parsePositiveDuration (env ''DELIVERY_JOB_TIMEOUT'') (goSeconds 1) (cfg_DeliveryJobTimeout cfg)) (\<lambda>v. cfg_DeliveryJobTimeout_update (\<lambda>_. v)),
     assign ''DELIVERY_PROCESSING_LEASE'' (\<lambda>cfg. parsePositiveDuration (env ''DELIVERY_PROCESSING_LEASE'') (goSeconds 1) (cfg_DeliveryProcessingLease cfg)) (\<lambda>v. cfg_DeliveryProcessingLease_update (\<lambda>_. v)),
     assign ''DELIVERY_MAX_ATTEMPTS'' (\<lambda>cfg. parsePositiveInt32 (env ''DELIVERY_MAX_ATTEMPTS'') (cfg_DeliveryMaxAttempts cfg)) (\<lambda>v. cfg_DeliveryMaxAttempts_update (\<lambda>_. v)),
     assign ''DELIVERY_RETRY_BASE'' (\<lambda>cfg. parsePositiveDuration (env ''DELIVERY_RETRY_BASE'') (goSeconds 1) (cfg_DeliveryRetryBase cfg)) (\<lambda>v. cfg_DeliveryRetryBase_update (\<lambda>_. v)),
     assign ''DELIVERY_RETRY_MAX'' (\<lambda>cfg. parsePositiveDuration (env ''DELIVERY_RETRY_MAX'') (goSeconds 1) (cfg_DeliveryRetryMax cfg)) (\<lambda>v. cfg_DeliveryRetryMax_update (\<lambda>_. v)),
     assign ''DELIVERY_RETRY_JITTER'' (\<lambda>cfg. parseFloatRange lib (env ''DELIVERY_RETRY_JITTER'') (cfg_DeliveryRetryJitter cfg) (FNum 0) (FNum 1)) (\<lambda>v. cfg_DeliveryRetryJitter_update (\<lambda>_. v)),
     assign ''DELIVERY_STALE_SCAN_INTERVAL'' (\<lambda>cfg. parsePositiveDuration (env ''DELIVERY_STALE_SCAN_INTERVAL'') (goSeconds 1) (cfg_DeliveryStaleScanInterval cfg)) (\<lambda>v. cfg_DeliveryStaleScanInterval_update (\<lambda>_. v)),
     assign ''DELIVERY_MESSAGE_MAX_BYTES'' (\<lambda>cfg. parsePositiveInt (env ''DELIVERY_MESSAGE_MAX_BYTES'') (cfg_DeliveryMessageMaxBytes cfg)) (\<lambda>v. cfg_DeliveryMessageMaxBytes_update (\<lambda>_. v)),
     assign ''DELIVERY_REVIEW_PAGE_SIZE'' (\<lambda>cfg. parsePositiveInt (env ''DELIVERY_REVIEW_PAGE_SIZE'') (cfg_DeliveryReviewPageSize cfg)) (\<lambda>v. cfg_DeliveryReviewPageSize_update (\<lambda>_. v)),
     assign ''LOG_LEVEL'' (\<lambda>cfg. parseLogLevel lib (env ''LOG_LEVEL'')) (\<lambda>v. cfg_LogLevel_update (\<lambda>_. v)),
     assign ''PROMETHEUS_ENABLED'' (\<lambda>cfg. parseBool (env ''PROMETHEUS_ENABLED'') (cfg_PrometheusEnabled cfg)) (\<lambda>v. cfg_PrometheusEnabled_update (\<lambda>_. v)),
     assign ''SHUTDOWN_TIMEOUT_SECONDS'' (\<lambda>cfg. parsePositiveDuration (env ''SHUTDOWN_TIMEOUT_SECONDS'') (goSeconds 1) (cfg_ShutdownTimeout cfg)) (\<lambda>v. cfg_ShutdownTimeout_update (\<lambda>_. v)),
     assign ''DATABASE_MAX_CONNECTIONS'' (\<lambda>cfg. parsePositiveInt32 (env ''DATABASE_MAX_CONNECTIONS'') (cfg_DatabaseMaxConnections cfg)) (\<lambda>v. cfg_DatabaseMaxConnections_update (\<lambda>_. v)),
     assign ''DATABASE_MIN_CONNECTIONS'' (\<lambda>cfg. parseNonNegativeInt32 (env ''DATABASE_MIN_CONNECTIONS'') (cfg_DatabaseMinConnections cfg)) (\<lambda>v. cfg_DatabaseMinConnections_update (\<lambda>_. v)),
     assign ''DATABASE_CONNECTION_TTL_MINUTES'' (\<lambda>cfg. parsePositiveDuration (env ''DATABASE_CONNECTION_TTL_MINUTES'') (goMinutes 1) (cfg_DatabaseConnectionTTL cfg)) (\<lambda>v. cfg_DatabaseConnectionTTL_update (\<lambda>_. v)),
     assign ''DATABASE_HEALTH_TIMEOUT_SECONDS'' (\<lambda>cfg. parsePositiveDuration (env ''DATABASE_HEALTH_TIMEOUT_SECONDS'') (goSeconds 1) (cfg_DatabaseHealthTimeout cfg)) (\<lambda>v. cfg_DatabaseHealthTimeout_update (\<lambda>_. v)),
     assign ''PAYMENT_EVENT_BATCH_SIZE'' (\<lambda>cfg. parsePositiveInt32 (env ''PAYMENT_EVENT_BATCH_SIZE'') (cfg_PaymentEventBatchSize cfg)) (\<lambda>v. cfg_PaymentEventBatchSize_update (\<lambda>_. v)),
     assign ''PAYMENT_EVENT_POLL_INTERVAL'' (\<lambda>cfg. parsePositiveDuration (env ''PAYMENT_EVENT_POLL_INTERVAL'') (goSeconds 1) (cfg_PaymentEventPollInterval cfg)) (\<lambda>v. cfg_PaymentEventPollInterval_update (\<lambda>_. v)),
     assign ''PAYMENT_EVENT_RUN_TIMEOUT'' (\<lambda>cfg. parsePositiveDuration (env ''PAYMENT_EVENT_RUN_TIMEOUT'') (goSeconds 1) (cfg_PaymentEventRunTimeout cfg)) (\<lambda>v. cfg_PaymentEventRunTimeout_update (\<lambda>_. v)),
     assign ''PAYMENT_EVENT_MAX_ATTEMPTS'' (\<lambda>cfg. parsePositiveInt32 (env ''PAYMENT_EVENT_MAX_ATTEMPTS'') (cfg_PaymentEventMaxAttempts cfg)) (\<lambda>v. cfg_PaymentEventMaxAttempts_update (\<lambda>_. v)),
     assign ''PAYMENT_EVENT_RETRY_BASE'' (\<lambda>cfg. parsePositiveDuration (env ''PAYMENT_EVENT_RETRY_BASE'') (goSeconds 1) (cfg_PaymentEventRetryBase cfg)) (\<lambda>v. cfg_PaymentEventRetryBase_update (\<lambda>_. v)),
     assign ''PAYMENT_STALE_PROCESSING_TIMEOUT'' (\<lambda>cfg. parsePositiveDuration (env ''PAYMENT_STALE_PROCESSING_TIMEOUT'') (goSeconds 1) (cfg_PaymentStaleProcessingTimeout cfg)) (\<lambda>v. cfg_PaymentStaleProcessingTimeout_update (\<lambda>_. v)),
     assign ''PAYMENT_REFERENCE_RANDOM_BYTES'' (\<lambda>cfg. parsePositiveInt (env ''PAYMENT_REFERENCE_RANDOM_BYTES'') (cfg_PaymentReferenceRandomBytes cfg)) (\<lambda>v. cfg_PaymentReferenceRandomBytes_update (\<lambda>_. v)),
     setting (\<lambda>cfg. cfg\<lparr>cfg_PaymentReferencePrefix := envOrDefault env ''PAYMENT_REFERENCE_PREFIX'' (cfg_PaymentReferencePrefix cfg)\<rparr>),
     assign ''PAYMENT_PROVIDERS'' (\<lambda>cfg. parsePaymentProviders lib (providerList env)) (\<lambda>v. cfg_PaymentProviders_update (\<lambda>_. v)),
     setting (\<lambda>cfg. cfg\<lparr>cfg_PaymentPrimaryProvider := lb_ToLower lib (TrimSpace (env ''PAYMENT_PRIMARY_PROVIDER''))\<rparr>),
     setting (\<lambda>cfg. cfg\<lparr>cfg_PaymentProviderEnvironment := lb_ToLower lib (envOrDefault env ''PAYMENT_PROVIDER_ENVIRONMENT'' (cfg_PaymentProviderEnvironment cfg))\<rparr>),
     assign ''PAYMENT_RECONCILIATION_ENABLED'' (\<lambda>cfg. parseBool (env ''PAYMENT_RECONCILIATION_ENABLED'') (cfg_PaymentReconciliationEnabled cfg)) (\<lambda>v. cfg_PaymentReconciliationEnabled_update (\<lambda>_. v)),
     assign ''PAYMENT_RECONCILIATION_INTERVAL'' (\<lambda>cfg. parsePositiveDuration (env ''PAYMENT_RECONCILIATION_INTERVAL'') (goSeconds 1) (cfg_PaymentReconciliationInterval cfg)) (\<lambda>v. cfg_PaymentReconciliationInterval_update (\<lambda>_. v)),
     assign ''PAYMENT_RECONCILIATION_RUN_TIMEOUT'' (\<lambda>cfg. parsePositiveDuration (env ''PAYMENT_RECONCILIATION_RUN_TIMEOUT'') (goSeconds 1) (cfg_PaymentReconciliationRunTimeout cfg)) (\<lambda>v. cfg_PaymentReconciliationRunTimeout_update (\<lambda>_. v)),
     assign ''PAYMENT_RECONCILIATION_REQUEST_TIMEOUT'' (\<lambda>cfg. parsePositiveDuration (env ''PAYMENT_RECONCILIATION_REQUEST_TIMEOUT'') (goSeconds 1) (cfg_PaymentReconciliationRequestTimeout cfg)) (\<lambda>v. cfg_PaymentReconciliationRequestTimeout_update (\<lambda>_. v)),
     assign ''PAYMENT_RECONCILIATION_MAX_PAGES'' (\<lambda>cfg. parsePositiveInt (env ''PAYMENT_RECONCILIATION_MAX_PAGES'') (cfg_PaymentReconciliationMaxPages cfg)) (\<lambda>v. cfg_PaymentReconciliationMaxPages_update (\<lambda>_. v)),
     assign ''PAYMENT_RECONCILIATION_PAGE_SIZE'' (\<lambda>cfg. parsePositiveInt (env ''PAYMENT_RECONCILIATION_PAGE_SIZE'') (cfg_PaymentReconciliationPageSize cfg)) (\<lambda>v. cfg_PaymentReconciliationPageSize_update (\<lambda>_. v)),
     assign ''PAYMENT_PROVIDER_REVIEW_PAGE_SIZE'' (\<lambda>cfg. parsePositiveInt (env ''PAYMENT_PROVIDER_REVIEW_PAGE_SIZE'') (cfg_PaymentProviderReviewPageSize cfg)) (\<lambda>v. cfg_PaymentProviderReviewPageSize_update (\<lambda>_. v))]"

definition apiSettings :: "go_lib \<Rightarrow> (string \<Rightarrow> string) \<Rightarrow> setting_step list" where
  "apiSettings lib env = [
     assign ''PAYMENT_WEBHOOK_BODY_LIMIT'' (\<lambda>cfg. parsePositiveInt64 (env ''PAYMENT_WEBHOOK_BODY_LIMIT'') (cfg_PaymentWebhookBodyLimit cfg)) (\<lambda>v. cfg_PaymentWebhookBodyLimit_update (\<lambda>_. v)),
     setting (\<lambda>cfg. cfg\<lparr>cfg_SignedJSONWebhookSecret := TrimSpace (env ''SIGNED_JSON_WEBHOOK_SECRET'')\<rparr>),
     assign ''SIGNED_JSON_TIMESTAMP_TOLERANCE'' (\<lambda>cfg. parsePositiveDuration (env ''SIGNED_JSON_TIMESTAMP_TOLERANCE'') (goSeconds 1) (cfg_SignedJSONTimestampTolerance cfg)) (\<lambda>v. cfg_SignedJSONTimestampTolerance_update (\<lambda>_. v)),
     assign ''WALLET_TOPUP_MIN_AMOUNT'' (\<lambda>cfg. parsePositiveInt64 (env ''WALLET_TOPUP_MIN_AMOUNT'') (cfg_WalletTopupMinAmount cfg)) (\<lambda>v. cfg_WalletTopupMinAmount_update (\<lambda>_. v)),
     assign ''WALLET_TOPUP_MAX_AMOUNT'' (\<lambda>cfg. parsePositiveInt64 (env ''WALLET_TOPUP_MAX_AMOUNT'') (cfg_WalletTopupMaxAmount cfg)) (\<lambda>v. cfg_WalletTopupMaxAmount_update (\<lambda>_. v)),
     assign ''WALLET_TOPUP_EXPIRE_MINUTES'' (\<lambda>cfg. parsePositiveDuration (env ''WALLET_TOPUP_EXPIRE_MINUTES'') (goMinutes 1) (cfg_WalletTopupExpiry cfg)) (\<lambda>v. cfg_WalletTopupExpiry_update (\<lambda>_. v)),
     assign ''WALLET_PAGE_SIZE'' (\<lambda>cfg. parsePositiveInt (env ''WALLET_PAGE_SIZE'') (cfg_WalletPageSize cfg)) (\<lambda>v. cfg_WalletPageSize_update (\<lambda>_. v)),
     assign ''PAYMENT_REVIEW_PAGE_SIZE'' (\<lambda>cfg. parsePositiveInt (env ''PAYMENT_REVIEW_PAGE_SIZE'') (cfg_PaymentReviewPageSize cfg)) (\<lambda>v. cfg_PaymentReviewPageSize_update (\<lambda>_. v)),
     assign ''ORDER_EXPIRE_MINUTES'' (\<lambda>cfg. parsePositiveDuration (env ''ORDER_EXPIRE_MINUTES'') (goMinutes 1) (cfg_OrderExpiry cfg)) (\<lambda>v. cfg_OrderExpiry_update (\<lambda>_. v)),
     assign ''ORDER_MAX_QUANTITY'' (\<lambda>cfg. parsePositiveInt32 (env ''ORDER_MAX_QUANTITY'') (cfg_OrderMaxQuantity cfg)) (\<lambda>v. cfg_OrderMaxQuantity_update (\<lambda>_. v)),
     assign ''ORDER_PAGE_SIZE'' (\<lambda>cfg. parsePositiveInt (env ''ORDER_PAGE_SIZE'') (cfg_OrderPageSize cfg)) (\<lambda>v. cfg_OrderPageSize_update (\<lambda>_. v)),
     assign ''BANK_ACCOUNT_PAGE_SIZE'' (\<lambda>cfg. parsePositiveInt (env ''BANK_ACCOUNT_PAGE_SIZE'') (cfg_BankAccountPageSize cfg)) (\<lambda>v. cfg_BankAccountPageSize_update (\<lambda>_. v)),
     setting (\<lambda>cfg. cfg\<lparr>cfg_VietQRBaseURL := envOrDefault env ''VIETQR_BASE_URL'' (cfg_VietQRBaseURL cfg)\<rparr>),
     setting (\<lambda>cfg. cfg\<lparr>cfg_VietQRTemplate := envOrDefault env ''VIETQR_TEMPLATE'' (cfg_VietQRTemplate cfg)\<rparr>),
     assign ''ADMIN_TELEGRAM_IDS'' (\<lambda>cfg. parseAdminIDs lib (env ''ADMIN_TELEGRAM_IDS'')) (\<lambda>v. cfg_AdminTelegramIDs_update (\<lambda>_. v)),
     assign ''INVENTORY_ENCRYPTION_KEY'' (\<lambda>cfg. parseEncryptionKey (env ''INVENTORY_ENCRYPTION_KEY'')) (\<lambda>v. cfg_InventoryEncryptionKey_update (\<lambda>_. v)),
     assign ''INVENTORY_ENCRYPTION_KEY_VERSION'' (\<lambda>cfg. parsePositiveInt32 (env ''INVENTORY_ENCRYPTION_KEY_VERSION'') (cfg_InventoryEncryptionKeyVersion cfg)) (\<lambda>v. cfg_InventoryEncryptionKeyVersion_update (\<lambda>_. v)),
     assign ''INVENTORY_IMPORT_MAX_ITEMS'' (\<lambda>cfg. parsePositiveInt (env ''INVENTORY_IMPORT_MAX_ITEMS'') (cfg_InventoryImportMaxItems cfg)) (\<lambda>v. cfg_InventoryImportMaxItems_update (\<lambda>_. v)),
     assign ''INVENTORY_IMPORT_MAX_ITEM_BYTES'' (\<lambda>cfg. parsePositiveInt (env ''INVENTORY_IMPORT_MAX_ITEM_BYTES'') (cfg_InventoryImportMaxItemBytes cfg)) (\<lambda>v. cfg_InventoryImportMaxItemBytes_update (\<lambda>_. v)),
     assign ''INVENTORY_IMPORT_MAX_TOTAL_BYTES'' (\<lambda>cfg. parsePositiveInt (env ''INVENTORY_IMPORT_MAX_TOTAL_BYTES'') (cfg_InventoryImportMaxTotalBytes cfg)) (\<lambda>v. cfg_InventoryImportMaxTotalBytes_update (\<lambda>_. v)),
     assign ''BANK_ACCOUNT_ENCRYPTION_KEY'' (\<lambda>cfg. parseEncryptionKey (env ''BANK_ACCOUNT_ENCRYPTION_KEY'')) (\<lambda>v. cfg_BankAccountEncryptionKey_update (\<lambda>_. v)),
     assign ''BANK_ACCOUNT_ENCRYPTION_KEY_VERSION'' (\<lambda>cfg. parsePositiveInt32 (env ''BANK_ACCOUNT_ENCRYPTION_KEY_VERSION'') (cfg_BankAccountEncryptionVersion cfg)) (\<lambda>v. cfg_BankAccountEncryptionVersion_update (\<lambda>_. v)),
     assign ''TELEGRAM_WEBHOOK_BODY_LIMIT_BYTES'' (\<lambda>cfg. parsePositiveInt64 (env ''TELEGRAM_WEBHOOK_BODY_LIMIT_BYTES'') (cfg_TelegramWebhookBodyLimit cfg)) (\<lambda>v. cfg_TelegramWebhookBodyLimit_update (\<lambda>_. v)),
     assign ''TELEGRAM_WEBHOOK_TIMEOUT_SECONDS'' (\<lambda>cfg. parsePositiveDuration (env ''TELEGRAM_WEBHOOK_TIMEOUT_SECONDS'') (goSeconds 1) (cfg_TelegramWebhookTimeout cfg)) (\<lambda>v. cfg_TelegramWebhookTimeout_update (\<lambda>_. v)),
     assign ''TELEGRAM_UPDATE_STALE_SECONDS'' (\<lambda>cfg. parsePositiveDuration (env ''TELEGRAM_UPDATE_STALE_SECONDS'') (goSeconds 1) (cfg_TelegramUpdateStaleAfter cfg)) (\<lambda>v. cfg_TelegramUpdateStaleAfter_update (\<lambda>_. v)),
     assign ''ADMIN_SESSION_TTL_MINUTES'' (\<lambda>cfg. parsePositiveDuration (env ''ADMIN_SESSION_TTL_MINUTES'') (goMinutes 1) (cfg_AdminSessionTTL cfg)) (\<lambda>v. cfg_AdminSessionTTL_update (\<lambda>_. v)),
     assign ''TELEGRAM_API_TIMEOUT_SECONDS'' (\<lambda>cfg. parsePositiveDuration (env ''TELEGRAM_API_TIMEOUT_SECONDS'') (goSeconds 1) (cfg_TelegramAPITimeout cfg)) (\<lambda>v. cfg_TelegramAPITimeout_update (\<lambda>_. v))]"

definition workerSettings :: "go_lib \<Rightarrow> (string \<Rightarrow> string) \<Rightarrow> setting_step list" where
  "workerSettings lib env = [
     assign ''TELEGRAM_API_TIMEOUT_SECONDS'' (\<lambda>cfg. parsePositiveDuration (env ''TELEGRAM_API_TIMEOUT_SECONDS'') (goSeconds 1) (cfg_TelegramAPITimeout cfg)) (\<lambda>v. cfg_TelegramAPITimeout_update (\<lambda>_. v)),
     assign ''INVENTORY_ENCRYPTION_KEY'' (\<lambda>cfg. parseEncryptionKey (env ''INVENTORY_ENCRYPTION_KEY'')) (\<lambda>v. cfg_InventoryEncryptionKey_update (\<lambda>_. v)),
     assign ''INVENTORY_ENCRYPTION_KEY_VERSION'' (\<lambda>cfg. parsePositiveInt32 (env ''INVENTORY_ENCRYPTION_KEY_VERSION'') (cfg_InventoryEncryptionKeyVersion cfg)) (\<lambda>v. cfg_InventoryEncryptionKeyVersion_update (\<lambda>_. v)),
     assign ''ORDER_EXPIRY_INTERVAL'' (\<lambda>cfg. parsePositiveDuration (env ''ORDER_EXPIRY_INTERVAL'') (goSeconds 1) (cfg_OrderExpiryInterval cfg)) (\<lambda>v. cfg_OrderExpiryInterval_update (\<lambda>_. v)),
     assign ''ORDER_EXPIRY_BATCH_SIZE'' (\<lambda>cfg. parsePositiveInt32 (env ''ORDER_EXPIRY_BATCH_SIZE'') (cfg_OrderExpiryBatchSize cfg)) (\<lambda>v. cfg_OrderExpiryBatchSize_update (\<lambda>_. v)),
     assign ''ORDER_EXPIRY_RUN_TIMEOUT'' (\<lambda>cfg. parsePositiveDuration (env ''ORDER_EXPIRY_RUN_TIMEOUT'') (goSeconds 1) (cfg_OrderExpiryRunTimeout cfg)) (\<lambda>v. cfg_OrderExpiryRunTimeout_update (\<lambda>_. v))]"

section \<open>Validation\<close>

definition problem :: "bool \<Rightarrow> string \<Rightarrow> string list" where
  "problem bad message = (if bad then [message] else [])"

text \<open>The names that must be set; the code goes through them in the order of a Go map, that is in any order.\<close>

definition requiredProblems :: "Config \<Rightarrow> processKind \<Rightarrow> string list" where
  "requiredProblems cfg process =
     concat (map (\<lambda>(name, value). problem (value = []) (name @ '' is required''))
       ([(''DATABASE_URL'', cfg_DatabaseURL cfg), (''TELEGRAM_BOT_TOKEN'', cfg_TelegramBotToken cfg)] @
        (if process = processAPI then [(''TELEGRAM_WEBHOOK_SECRET'', cfg_TelegramWebhookSecret cfg),
           (''TELEGRAM_WEBHOOK_URL'', cfg_TelegramWebhookURL cfg)] else [])))"

definition webhookProblems :: "go_lib \<Rightarrow> Config \<Rightarrow> string list" where
  "webhookProblems lib cfg =
     problem (cfg_HTTPAddr cfg = []) ''HTTP_ADDR is required'' @
     problem (length (cfg_TelegramWebhookSecret cfg) > 0 \<and> length (cfg_TelegramWebhookSecret cfg) < 16)
       ''TELEGRAM_WEBHOOK_SECRET must contain at least 16 characters'' @
     (if cfg_TelegramWebhookURL cfg \<noteq> [] then
        case lb_url_ParseRequestURI lib (cfg_TelegramWebhookURL cfg) of
          None \<Rightarrow> [''TELEGRAM_WEBHOOK_URL must be an absolute URL'']
        | Some webhookURL \<Rightarrow>
            if url_Host webhookURL = [] then [''TELEGRAM_WEBHOOK_URL must be an absolute URL'']
            else problem (cfg_AppEnv cfg = ''production'' \<and> url_Scheme webhookURL \<noteq> ''https'')
              ''TELEGRAM_WEBHOOK_URL must use HTTPS in production''
      else []) @
     problem (cfg_TelegramWebhookBodyLimit cfg < 1024 \<or> cfg_TelegramWebhookBodyLimit cfg > 10485760)
       ''TELEGRAM_WEBHOOK_BODY_LIMIT_BYTES must be between 1024 and 10485760'' @
     problem (cfg_PaymentWebhookBodyLimit cfg < 1024 \<or> cfg_PaymentWebhookBodyLimit cfg > 10485760)
       ''PAYMENT_WEBHOOK_BODY_LIMIT must be between 1024 and 10485760''"

definition providerProblems :: "go_lib \<Rightarrow> Config \<Rightarrow> string list" where
  "providerProblems lib cfg =
     concat (map (\<lambda>provider.
       problem (provider \<noteq> ''signed_json'') (''PAYMENT_PROVIDERS contains unsupported provider '' @ lb_Quote lib provider) @
       problem (provider = ''signed_json'' \<and> length (cfg_SignedJSONWebhookSecret cfg) < 16)
         ''SIGNED_JSON_WEBHOOK_SECRET must contain at least 16 characters when signed_json is enabled'')
       (cfg_PaymentProviders cfg)) @
     problem (cfg_PaymentProviderEnvironment cfg = ''production'' \<and> containsString (cfg_PaymentProviders cfg) ''signed_json'')
       ''signed_json cannot be enabled in production''"

definition apiProblems :: "go_lib \<Rightarrow> Config \<Rightarrow> string list" where
  "apiProblems lib cfg =
     providerProblems lib cfg @
     problem (cfg_AdminTelegramIDs cfg = []) ''ADMIN_TELEGRAM_IDS must contain at least one positive ID'' @
     problem (length (cfg_InventoryEncryptionKey cfg) \<noteq> 32) ''INVENTORY_ENCRYPTION_KEY must decode to exactly 32 bytes'' @
     problem (cfg_InventoryEncryptionKeyVersion cfg \<le> 0) ''INVENTORY_ENCRYPTION_KEY_VERSION must be positive'' @
     problem (cfg_InventoryImportMaxItemBytes cfg > cfg_InventoryImportMaxTotalBytes cfg)
       ''INVENTORY_IMPORT_MAX_ITEM_BYTES cannot exceed INVENTORY_IMPORT_MAX_TOTAL_BYTES'' @
     problem (length (cfg_BankAccountEncryptionKey cfg) \<noteq> 32)
       ''BANK_ACCOUNT_ENCRYPTION_KEY must decode to exactly 32 bytes'' @
     problem (cfg_BankAccountEncryptionVersion cfg \<le> 0) ''BANK_ACCOUNT_ENCRYPTION_KEY_VERSION must be positive'' @
     problem (cfg_OrderMaxQuantity cfg \<le> 0 \<or> cfg_OrderMaxQuantity cfg > 1000)
       ''ORDER_MAX_QUANTITY must be between 1 and 1000'' @
     problem (cfg_OrderPageSize cfg > 20 \<or> cfg_BankAccountPageSize cfg > 20)
       ''order and bank page sizes must not exceed 20'' @
     problem (cfg_WalletTopupMinAmount cfg > cfg_WalletTopupMaxAmount cfg \<or> cfg_WalletPageSize cfg > 20 \<or>
         cfg_PaymentReviewPageSize cfg > 20) ''wallet amount limits or page sizes are invalid'' @
     problem (case lb_url_Parse lib (cfg_VietQRBaseURL cfg) of None \<Rightarrow> True
       | Some vietQRURL \<Rightarrow> url_Scheme vietQRURL \<noteq> ''https'' \<or> url_Host vietQRURL = [] \<or>
           \<not> validVietQRTemplate (cfg_VietQRTemplate cfg)) ''VietQR configuration is invalid''"

definition workerProblems :: "Config \<Rightarrow> string list" where
  "workerProblems cfg =
     problem (cfg_OrderExpiryBatchSize cfg \<le> 0 \<or> cfg_OrderExpiryBatchSize cfg > 1000)
       ''ORDER_EXPIRY_BATCH_SIZE must be between 1 and 1000'' @
     problem (length (cfg_InventoryEncryptionKey cfg) \<noteq> 32 \<or> cfg_InventoryEncryptionKeyVersion cfg \<le> 0)
       ''worker inventory encryption key configuration is invalid''"

definition sharedProblems :: "go_lib \<Rightarrow> Config \<Rightarrow> string list" where
  "sharedProblems lib cfg =
     problem (cfg_PaymentProviderEnvironment cfg \<noteq> ''development'' \<and> cfg_PaymentProviderEnvironment cfg \<noteq> ''test'' \<and>
         cfg_PaymentProviderEnvironment cfg \<noteq> ''production'')
       ''PAYMENT_PROVIDER_ENVIRONMENT must be development, test, or production'' @
     problem (cfg_PaymentReferenceRandomBytes cfg < 4 \<or> cfg_PaymentReferenceRandomBytes cfg > 24 \<or>
         \<not> validReferencePrefix lib (cfg_PaymentReferencePrefix cfg)) ''payment reference configuration is invalid'' @
     problem (cfg_PaymentPrimaryProvider cfg \<noteq> [] \<and>
         \<not> containsString (cfg_PaymentProviders cfg) (cfg_PaymentPrimaryProvider cfg))
       ''PAYMENT_PRIMARY_PROVIDER must be present in PAYMENT_PROVIDERS'' @
     problem (cfg_PaymentReconciliationMaxPages cfg > 100 \<or> cfg_PaymentReconciliationPageSize cfg > 1000 \<or>
         cfg_PaymentProviderReviewPageSize cfg > 20 \<or>
         cfg_PaymentReconciliationRunTimeout cfg \<le> cfg_PaymentReconciliationRequestTimeout cfg)
       ''payment provider reconciliation configuration is outside its safe range'' @
     problem (cfg_PaymentEventBatchSize cfg \<le> 0 \<or> cfg_PaymentEventBatchSize cfg > 1000 \<or>
         cfg_PaymentEventMaxAttempts cfg \<le> 0 \<or> cfg_PaymentEventMaxAttempts cfg > 100)
       ''payment event batch size or max attempts is outside its safe range'' @
     problem (cfg_DeliveryBatchSize cfg \<le> 0 \<or> cfg_DeliveryBatchSize cfg > 100 \<or>
         cfg_DeliveryMaxAttempts cfg \<le> 0 \<or> cfg_DeliveryMaxAttempts cfg > 20)
       ''delivery batch size or max attempts is outside its safe range'' @
     problem (cfg_DeliveryRetryBase cfg > cfg_DeliveryRetryMax cfg \<or>
         cfg_DeliveryProcessingLease cfg \<le> cfg_TelegramAPITimeout cfg \<or>
         cfg_DeliveryProcessingLease cfg \<le> cfg_DeliveryJobTimeout cfg)
       ''delivery retry or processing lease configuration is invalid'' @
     problem (cfg_DeliveryMessageMaxBytes cfg < 512 \<or> cfg_DeliveryMessageMaxBytes cfg > 4096 \<or>
         cfg_DeliveryReviewPageSize cfg > 20) ''delivery message limit or review page size is invalid'' @
     problem (cfg_DatabaseMinConnections cfg > cfg_DatabaseMaxConnections cfg)
       ''DATABASE_MIN_CONNECTIONS cannot exceed DATABASE_MAX_CONNECTIONS''"

definition validate :: "go_lib \<Rightarrow> Config \<Rightarrow> processKind \<Rightarrow> string list" where
  "validate lib cfg process =
     requiredProblems cfg process @
     (if process = processAPI then webhookProblems lib cfg else []) @
     problem (TrimSpace (cfg_SupportContact cfg) = [] \<or> runeCount (cfg_SupportContact cfg) > 200)
       ''SUPPORT_CONTACT must contain 1 to 200 characters'' @
     (if process = processAPI then apiProblems lib cfg else workerProblems cfg) @
     sharedProblems lib cfg"

section \<open>Loading\<close>

definition settingsOf :: "go_lib \<Rightarrow> (string \<Rightarrow> string) \<Rightarrow> processKind \<Rightarrow> string list \<times> Config" where
  "settingsOf lib env process =
     fold (\<lambda>step st. step st)
       (commonSettings lib env @ (if process = processAPI then apiSettings lib env else workerSettings lib env))
       ([], defaultConfig lib env)"

definition load :: "go_lib \<Rightarrow> (string \<Rightarrow> string) \<Rightarrow> processKind \<Rightarrow> string + Config" where
  "load lib env process =
     (case settingsOf lib env process of (problems0, cfg) \<Rightarrow>
        let problems = problems0 @ validate lib cfg process in
        if problems \<noteq> [] then Inl (''invalid configuration: '' @ joinWith (CHR 0x0A) problems) else Inr cfg)"

definition LoadAPI :: "go_lib \<Rightarrow> (string \<Rightarrow> string) \<Rightarrow> string + Config" where
  "LoadAPI lib env = load lib env processAPI"

definition LoadWorker :: "go_lib \<Rightarrow> (string \<Rightarrow> string) \<Rightarrow> string + Config" where
  "LoadWorker lib env = load lib env processWorker"

record MigrationConfig =
  mc_DatabaseURL :: string
  mc_MigrationsDir :: string

definition LoadMigration :: "(string \<Rightarrow> string) \<Rightarrow> string + MigrationConfig" where
  "LoadMigration env =
     (let cfg = \<lparr>mc_DatabaseURL = TrimSpace (env ''DATABASE_URL''),
           mc_MigrationsDir = envOrDefault env ''MIGRATIONS_DIR'' ''migrations''\<rparr> in
      if mc_DatabaseURL cfg = [] then Inl ''DATABASE_URL is required''
      else if TrimSpace (mc_MigrationsDir cfg) = [] then Inl ''MIGRATIONS_DIR is required''
      else Inr cfg)"

section \<open>What loading keeps\<close>

definition keeps :: "(Config \<Rightarrow> bool) \<Rightarrow> setting_step \<Rightarrow> bool" where
  "keeps I step \<longleftrightarrow> (\<forall>problems cfg. I cfg \<longrightarrow> I (snd (step (problems, cfg))))"

lemma keeps_assign:
  "(\<And>cfg v. I cfg \<Longrightarrow> result cfg = Inr v \<Longrightarrow> I (target v cfg)) \<Longrightarrow> keeps I (assign name result target)"
  by (auto simp: keeps_def assign_def split: sum.splits)

lemma keeps_setting: "(\<And>cfg. I cfg \<Longrightarrow> I (f cfg)) \<Longrightarrow> keeps I (setting f)"
  by (auto simp: keeps_def setting_def)

lemma keeps_fold: "list_all (keeps I) steps \<Longrightarrow> I (snd st) \<Longrightarrow> I (snd (fold (\<lambda>step st. step st) steps st))"
proof (induction steps arbitrary: st)
  case (Cons step steps)
  then have "I (snd (step st))" by (cases st) (auto simp: keeps_def)
  with Cons show ?case by simp
qed simp

text \<open>An invariant of the settings holds after loading when the defaults have it and every step keeps it.\<close>

lemma loaded_invariant:
  assumes "load lib env process = Inr cfg" "I (defaultConfig lib env)"
    and "list_all (keeps I) (commonSettings lib env)" "list_all (keeps I) (apiSettings lib env)"
    and "list_all (keeps I) (workerSettings lib env)"
  shows "I cfg"
proof -
  have "I (snd (settingsOf lib env process))"
    unfolding settingsOf_def by (rule keeps_fold) (use assms in simp_all)
  with assms(1) show ?thesis by (auto simp: load_def Let_def split: prod.splits if_splits)
qed

lemma loaded_validated: "load lib env process = Inr cfg \<Longrightarrow> validate lib cfg process = []"
  by (auto simp: load_def Let_def split: prod.splits if_splits)

lemma problem_Nil [simp]: "problem bad message = [] \<longleftrightarrow> \<not> bad"
  by (simp add: problem_def)

text \<open>Numbers are positive, lists have no repetitions, and text that the services trim again is trimmed.\<close>

definition positive_settings :: "Config \<Rightarrow> bool" where
  "positive_settings cfg \<longleftrightarrow>
     0 < cfg_TelegramWebhookBodyLimit cfg \<and>
     0 < cfg_InventoryEncryptionKeyVersion cfg \<and>
     0 < cfg_InventoryImportMaxItems cfg \<and>
     0 < cfg_InventoryImportMaxItemBytes cfg \<and>
     0 < cfg_InventoryImportMaxTotalBytes cfg \<and>
     0 < cfg_BankAccountEncryptionVersion cfg \<and>
     0 < cfg_OrderMaxQuantity cfg \<and>
     0 < cfg_OrderExpiryBatchSize cfg \<and>
     0 < cfg_PaymentReferenceRandomBytes cfg \<and>
     0 < cfg_OrderPageSize cfg \<and>
     0 < cfg_BankAccountPageSize cfg \<and>
     0 < cfg_PaymentWebhookBodyLimit cfg \<and>
     0 < cfg_PaymentEventBatchSize cfg \<and>
     0 < cfg_PaymentEventMaxAttempts cfg \<and>
     0 < cfg_PaymentReconciliationMaxPages cfg \<and>
     0 < cfg_PaymentReconciliationPageSize cfg \<and>
     0 < cfg_PaymentProviderReviewPageSize cfg \<and>
     0 < cfg_WalletTopupMinAmount cfg \<and>
     0 < cfg_WalletTopupMaxAmount cfg \<and>
     0 < cfg_WalletPageSize cfg \<and>
     0 < cfg_PaymentReviewPageSize cfg \<and>
     0 < cfg_DeliveryBatchSize cfg \<and>
     0 < cfg_DeliveryMaxAttempts cfg \<and>
     0 < cfg_DeliveryMessageMaxBytes cfg \<and>
     0 < cfg_DeliveryReviewPageSize cfg \<and>
     0 < cfg_DatabaseMaxConnections cfg \<and>
     0 \<le> cfg_DatabaseMinConnections cfg"

definition plain_settings :: "Config \<Rightarrow> bool" where
  "plain_settings cfg \<longleftrightarrow>
     TrimSpace (cfg_PaymentReferencePrefix cfg) = cfg_PaymentReferencePrefix cfg \<and>
     TrimSpace (cfg_VietQRBaseURL cfg) = cfg_VietQRBaseURL cfg \<and>
     TrimSpace (cfg_SignedJSONWebhookSecret cfg) = cfg_SignedJSONWebhookSecret cfg \<and>
     distinct (cfg_PaymentProviders cfg) \<and> [] \<notin> set (cfg_PaymentProviders cfg) \<and>
     distinct (cfg_AdminTelegramIDs cfg) \<and> (\<forall>x \<in> set (cfg_AdminTelegramIDs cfg). 0 < x \<and> x \<le> MaxInt64) \<and>
     \<not> float_less (cfg_DeliveryRetryJitter cfg) (FNum 0) \<and> \<not> float_less (FNum 1) (cfg_DeliveryRetryJitter cfg)"

lemma positive_kept:
  "list_all (keeps positive_settings) (commonSettings lib env)"
  "list_all (keeps positive_settings) (apiSettings lib env)"
  "list_all (keeps positive_settings) (workerSettings lib env)"
  unfolding commonSettings_def apiSettings_def workerSettings_def list.pred_inject
  by (intro conjI TrueI keeps_assign keeps_setting; simp add: positive_settings_def parsed)+

lemma loaded_positive: "load lib env process = Inr cfg \<Longrightarrow> positive_settings cfg"
  by (erule loaded_invariant [OF _ _ positive_kept]) (simp add: positive_settings_def defaultConfig_def)

lemma envOrDefault_trimmed: "TrimSpace d = d \<Longrightarrow> TrimSpace (envOrDefault env name d) = envOrDefault env name d"
  by (simp add: envOrDefault_def Let_def)

lemma plain_kept:
  "list_all (keeps plain_settings) (commonSettings lib env)"
  "list_all (keeps plain_settings) (apiSettings lib env)"
  "list_all (keeps plain_settings) (workerSettings lib env)"
  unfolding commonSettings_def apiSettings_def workerSettings_def list.pred_inject
  by (intro conjI TrueI keeps_assign keeps_setting;
      simp add: plain_settings_def envOrDefault_trimmed parsed)+

lemma default_texts: "TrimSpace ''TS'' = ''TS''" "TrimSpace ''https://img.vietqr.io/image/'' = ''https://img.vietqr.io/image/''"
  by code_simp+

lemma loaded_plain: "load lib env process = Inr cfg \<Longrightarrow> plain_settings cfg"
  by (erule loaded_invariant [OF _ _ plain_kept]) (simp add: plain_settings_def defaultConfig_def default_texts)

text \<open>Durations are positive when no variable holds more units than half an \<open>int64\<close> of nanoseconds can.\<close>

definition commonDurations :: "(string \<times> duration) list" where
  "commonDurations = [
     (''DELIVERY_POLL_INTERVAL'', goSeconds 1),
     (''DELIVERY_RUN_TIMEOUT'', goSeconds 1),
     (''DELIVERY_JOB_TIMEOUT'', goSeconds 1),
     (''DELIVERY_PROCESSING_LEASE'', goSeconds 1),
     (''DELIVERY_RETRY_BASE'', goSeconds 1),
     (''DELIVERY_RETRY_MAX'', goSeconds 1),
     (''DELIVERY_STALE_SCAN_INTERVAL'', goSeconds 1),
     (''SHUTDOWN_TIMEOUT_SECONDS'', goSeconds 1),
     (''DATABASE_CONNECTION_TTL_MINUTES'', goMinutes 1),
     (''DATABASE_HEALTH_TIMEOUT_SECONDS'', goSeconds 1),
     (''PAYMENT_EVENT_POLL_INTERVAL'', goSeconds 1),
     (''PAYMENT_EVENT_RUN_TIMEOUT'', goSeconds 1),
     (''PAYMENT_EVENT_RETRY_BASE'', goSeconds 1),
     (''PAYMENT_STALE_PROCESSING_TIMEOUT'', goSeconds 1),
     (''PAYMENT_RECONCILIATION_INTERVAL'', goSeconds 1),
     (''PAYMENT_RECONCILIATION_RUN_TIMEOUT'', goSeconds 1),
     (''PAYMENT_RECONCILIATION_REQUEST_TIMEOUT'', goSeconds 1)]"

definition apiDurations :: "(string \<times> duration) list" where
  "apiDurations = [
     (''SIGNED_JSON_TIMESTAMP_TOLERANCE'', goSeconds 1),
     (''WALLET_TOPUP_EXPIRE_MINUTES'', goMinutes 1),
     (''ORDER_EXPIRE_MINUTES'', goMinutes 1),
     (''TELEGRAM_WEBHOOK_TIMEOUT_SECONDS'', goSeconds 1),
     (''TELEGRAM_UPDATE_STALE_SECONDS'', goSeconds 1),
     (''ADMIN_SESSION_TTL_MINUTES'', goMinutes 1),
     (''TELEGRAM_API_TIMEOUT_SECONDS'', goSeconds 1)]"

definition workerDurations :: "(string \<times> duration) list" where
  "workerDurations = [
     (''TELEGRAM_API_TIMEOUT_SECONDS'', goSeconds 1),
     (''ORDER_EXPIRY_INTERVAL'', goSeconds 1),
     (''ORDER_EXPIRY_RUN_TIMEOUT'', goSeconds 1)]"

definition durationVariables :: "(string \<times> duration) list" where
  "durationVariables = commonDurations @ apiDurations @ workerDurations"

text \<open>The duration variables that a process reads.\<close>

definition durationsOf :: "processKind \<Rightarrow> (string \<times> duration) list" where
  "durationsOf process = commonDurations @ (if process = processAPI then apiDurations else workerDurations)"

definition moderate :: "(string \<Rightarrow> string) \<Rightarrow> bool" where
  "moderate env \<longleftrightarrow> list_all (\<lambda>(name, unit). fits (env name) unit) durationVariables"

definition lasting :: "duration \<Rightarrow> duration \<Rightarrow> bool" where
  "lasting unit d \<longleftrightarrow> unit \<le> d \<and> d \<le> longest"

definition lasting_settings :: "Config \<Rightarrow> bool" where
  "lasting_settings cfg \<longleftrightarrow>
     lasting (goSeconds 1) (cfg_DeliveryPollInterval cfg) \<and>
     lasting (goSeconds 1) (cfg_DeliveryRunTimeout cfg) \<and>
     lasting (goSeconds 1) (cfg_DeliveryJobTimeout cfg) \<and>
     lasting (goSeconds 1) (cfg_DeliveryProcessingLease cfg) \<and>
     lasting (goSeconds 1) (cfg_DeliveryRetryBase cfg) \<and>
     lasting (goSeconds 1) (cfg_DeliveryRetryMax cfg) \<and>
     lasting (goSeconds 1) (cfg_DeliveryStaleScanInterval cfg) \<and>
     lasting (goSeconds 1) (cfg_ShutdownTimeout cfg) \<and>
     lasting (goMinutes 1) (cfg_DatabaseConnectionTTL cfg) \<and>
     lasting (goSeconds 1) (cfg_DatabaseHealthTimeout cfg) \<and>
     lasting (goSeconds 1) (cfg_PaymentEventPollInterval cfg) \<and>
     lasting (goSeconds 1) (cfg_PaymentEventRunTimeout cfg) \<and>
     lasting (goSeconds 1) (cfg_PaymentEventRetryBase cfg) \<and>
     lasting (goSeconds 1) (cfg_PaymentStaleProcessingTimeout cfg) \<and>
     lasting (goSeconds 1) (cfg_PaymentReconciliationInterval cfg) \<and>
     lasting (goSeconds 1) (cfg_PaymentReconciliationRunTimeout cfg) \<and>
     lasting (goSeconds 1) (cfg_PaymentReconciliationRequestTimeout cfg) \<and>
     lasting (goSeconds 1) (cfg_SignedJSONTimestampTolerance cfg) \<and>
     lasting (goMinutes 1) (cfg_WalletTopupExpiry cfg) \<and>
     lasting (goMinutes 1) (cfg_OrderExpiry cfg) \<and>
     lasting (goSeconds 1) (cfg_TelegramWebhookTimeout cfg) \<and>
     lasting (goSeconds 1) (cfg_TelegramUpdateStaleAfter cfg) \<and>
     lasting (goMinutes 1) (cfg_AdminSessionTTL cfg) \<and>
     lasting (goSeconds 1) (cfg_TelegramAPITimeout cfg) \<and>
     lasting (goSeconds 1) (cfg_OrderExpiryInterval cfg) \<and>
     lasting (goSeconds 1) (cfg_OrderExpiryRunTimeout cfg)"

lemma lasting_parsed:
  "parsePositiveDuration raw unit d = Inr v \<Longrightarrow> 0 < unit \<Longrightarrow> fits raw unit \<Longrightarrow> lasting unit d \<Longrightarrow> lasting unit v"
  using parsed_duration [of raw unit d v] by (simp add: lasting_def)

lemma units_positive: "0 < goSeconds 1" "0 < goMinutes 1"
  by (simp_all add: goSeconds_def goMinutes_def)

lemma lasting_kept:
  assumes "moderate env"
  shows "list_all (keeps lasting_settings) (commonSettings lib env)"
    "list_all (keeps lasting_settings) (apiSettings lib env)"
    "list_all (keeps lasting_settings) (workerSettings lib env)"
  using assms
  unfolding commonSettings_def apiSettings_def workerSettings_def list.pred_inject moderate_def durationVariables_def commonDurations_def
    apiDurations_def workerDurations_def append.simps
  by - (intro conjI TrueI keeps_assign keeps_setting; simp add: lasting_settings_def lasting_parsed units_positive)+

lemma loaded_lasting: "load lib env process = Inr cfg \<Longrightarrow> moderate env \<Longrightarrow> lasting_settings cfg"
  by (erule loaded_invariant [OF _ _ lasting_kept])
    (simp_all add: lasting_settings_def lasting_def defaultConfig_def goSeconds_def goMinutes_def longest_def MaxInt64_def)

section \<open>What is refused\<close>

text \<open>Problems are only ever added.\<close>

lemma step_problems: "step \<in> set (commonSettings lib env) \<union> set (apiSettings lib env) \<union> set (workerSettings lib env) \<Longrightarrow>
   \<exists>more. fst (step (problems, cfg)) = problems @ more"
  unfolding commonSettings_def apiSettings_def workerSettings_def set_simps Un_insert_left Un_empty_left insert_iff empty_iff
  by (elim disjE; simp add: assign_def setting_def split: sum.split)

lemma fold_problems:
  assumes "set steps \<subseteq> set (commonSettings lib env) \<union> set (apiSettings lib env) \<union> set (workerSettings lib env)"
  shows "\<exists>more. fst (fold (\<lambda>step st. step st) steps (problems, cfg)) = problems @ more"
  using assms
proof (induction steps arbitrary: problems cfg)
  case (Cons step steps)
  from Cons.prems step_problems [of step lib env problems cfg] obtain m where "fst (step (problems, cfg)) = problems @ m"
    by auto
  moreover have "\<exists>more. fst (fold (\<lambda>step st. step st) steps (problems', cfg')) = problems' @ more" for problems' cfg'
    using Cons by simp
  ultimately show ?case by (metis append.assoc comp_apply fold_simps(2) prod.collapse)
qed simp

definition stepsOf :: "go_lib \<Rightarrow> (string \<Rightarrow> string) \<Rightarrow> processKind \<Rightarrow> setting_step list" where
  "stepsOf lib env process =
     commonSettings lib env @ (if process = processAPI then apiSettings lib env else workerSettings lib env)"

lemma failed_step_reported:
  assumes "assign name result target \<in> set (stepsOf lib env process)" "\<And>cfg. result cfg = Inl err"
  shows "name @ '': '' @ err \<in> set (fst (settingsOf lib env process))"
proof -
  let ?run = "fold (\<lambda>step st. step st)"
  from assms(1) obtain before after where split: "stepsOf lib env process = before @ assign name result target # after"
    by (meson split_list)
  obtain problems cfg where b: "?run before ([], defaultConfig lib env) = (problems, cfg)" by fastforce
  have "set after \<subseteq> set (stepsOf lib env process)" unfolding split by auto
  then have "set after \<subseteq> set (commonSettings lib env) \<union> set (apiSettings lib env) \<union> set (workerSettings lib env)"
    by (auto simp: stepsOf_def split: if_splits)
  from fold_problems [OF this] obtain more
    where "fst (?run after (problems @ [name @ '': '' @ err], cfg)) = (problems @ [name @ '': '' @ err]) @ more" by blast
  moreover have "settingsOf lib env process = ?run (before @ assign name result target # after) ([], defaultConfig lib env)"
    unfolding split [symmetric] by (simp add: settingsOf_def stepsOf_def)
  ultimately show ?thesis by (simp add: b assign_def assms(2))
qed

text \<open>Every listed variable is read by a step of its process.\<close>

definition readsDuration :: "(string \<Rightarrow> string) \<Rightarrow> string \<times> duration \<Rightarrow> setting_step list \<Rightarrow> bool" where
  "readsDuration env v steps \<longleftrightarrow>
     (\<exists>F target. assign (fst v) (\<lambda>cfg. parsePositiveDuration (env (fst v)) (snd v) (F cfg)) target \<in> set steps)"

lemma listed_durations:
  "list_all (\<lambda>v. readsDuration env v (commonSettings lib env)) commonDurations"
  "list_all (\<lambda>v. readsDuration env v (apiSettings lib env)) apiDurations"
  "list_all (\<lambda>v. readsDuration env v (workerSettings lib env)) workerDurations"
  unfolding commonDurations_def apiDurations_def workerDurations_def list.pred_inject readsDuration_def fst_conv snd_conv
    commonSettings_def apiSettings_def workerSettings_def
  by (intro conjI TrueI; simp; blast)+

lemma readsDuration_append: "readsDuration env v (xs @ ys) \<longleftrightarrow> readsDuration env v xs \<or> readsDuration env v ys"
  by (auto simp: readsDuration_def)

lemma durations_read: "v \<in> set (durationsOf process) \<Longrightarrow> readsDuration env v (stepsOf lib env process)"
  using listed_durations [of env lib]
  by (auto simp: durationsOf_def stepsOf_def readsDuration_append list_all_iff split: if_splits)


text \<open>The defaults of what validation looks at.\<close>

lemma default_settings:
  "cfg_AdminTelegramIDs (defaultConfig lib env) = []"
  "cfg_AppEnv (defaultConfig lib env) = envOrDefault env ''APP_ENV'' ''local''"
  "cfg_BankAccountEncryptionKey (defaultConfig lib env) = []"
  "cfg_BankAccountEncryptionVersion (defaultConfig lib env) = 1"
  "cfg_BankAccountPageSize (defaultConfig lib env) = 8" "cfg_DatabaseMaxConnections (defaultConfig lib env) = 20"
  "cfg_DatabaseMinConnections (defaultConfig lib env) = 2"
  "cfg_DatabaseURL (defaultConfig lib env) = TrimSpace (env ''DATABASE_URL'')"
  "cfg_DeliveryBatchSize (defaultConfig lib env) = 25"
  "cfg_DeliveryJobTimeout (defaultConfig lib env) = goSeconds 10"
  "cfg_DeliveryMaxAttempts (defaultConfig lib env) = 5"
  "cfg_DeliveryMessageMaxBytes (defaultConfig lib env) = 3500"
  "cfg_DeliveryProcessingLease (defaultConfig lib env) = goMinutes 2"
  "cfg_DeliveryRetryBase (defaultConfig lib env) = goSeconds 5"
  "cfg_DeliveryRetryMax (defaultConfig lib env) = goMinutes 5"
  "cfg_DeliveryReviewPageSize (defaultConfig lib env) = 8"
  "cfg_HTTPAddr (defaultConfig lib env) = envOrDefault env ''HTTP_ADDR'' '':8080''"
  "cfg_InventoryEncryptionKey (defaultConfig lib env) = []"
  "cfg_InventoryEncryptionKeyVersion (defaultConfig lib env) = 1"
  "cfg_InventoryImportMaxItemBytes (defaultConfig lib env) = 4096"
  "cfg_InventoryImportMaxTotalBytes (defaultConfig lib env) = 262144"
  "cfg_OrderExpiryBatchSize (defaultConfig lib env) = 100" "cfg_OrderMaxQuantity (defaultConfig lib env) = 10"
  "cfg_OrderPageSize (defaultConfig lib env) = 8" "cfg_PaymentEventBatchSize (defaultConfig lib env) = 100"
  "cfg_PaymentEventMaxAttempts (defaultConfig lib env) = 5"
  "cfg_PaymentPrimaryProvider (defaultConfig lib env) = []"
  "cfg_PaymentProviderEnvironment (defaultConfig lib env) = providerEnvironmentForApp lib (envOrDefault env ''APP_ENV'' ''local'')"
  "cfg_PaymentProviderReviewPageSize (defaultConfig lib env) = 8"
  "cfg_PaymentProviders (defaultConfig lib env) = []"
  "cfg_PaymentReconciliationMaxPages (defaultConfig lib env) = 10"
  "cfg_PaymentReconciliationPageSize (defaultConfig lib env) = 100"
  "cfg_PaymentReconciliationRequestTimeout (defaultConfig lib env) = goSeconds 10"
  "cfg_PaymentReconciliationRunTimeout (defaultConfig lib env) = goSeconds 30"
  "cfg_PaymentReferencePrefix (defaultConfig lib env) = ''TS''"
  "cfg_PaymentReferenceRandomBytes (defaultConfig lib env) = 6"
  "cfg_PaymentReviewPageSize (defaultConfig lib env) = 8"
  "cfg_PaymentWebhookBodyLimit (defaultConfig lib env) = 1048576"
  "cfg_SignedJSONWebhookSecret (defaultConfig lib env) = []"
  "cfg_SupportContact (defaultConfig lib env) = envOrDefault env ''SUPPORT_CONTACT'' (lit ''Vui l{F2}ng li{EA}n h{1EC7} qu{1EA3}n tr{1ECB} vi{EA}n c{1EED}a h{E0}ng.'')"
  "cfg_TelegramAPITimeout (defaultConfig lib env) = goSeconds 5"
  "cfg_TelegramBotToken (defaultConfig lib env) = TrimSpace (env ''TELEGRAM_BOT_TOKEN'')"
  "cfg_TelegramWebhookBodyLimit (defaultConfig lib env) = 1048576"
  "cfg_TelegramWebhookSecret (defaultConfig lib env) = TrimSpace (env ''TELEGRAM_WEBHOOK_SECRET'')"
  "cfg_TelegramWebhookURL (defaultConfig lib env) = TrimSpace (env ''TELEGRAM_WEBHOOK_URL'')"
  "cfg_VietQRBaseURL (defaultConfig lib env) = ''https://img.vietqr.io/image/''"
  "cfg_VietQRTemplate (defaultConfig lib env) = ''compact2''" "cfg_WalletPageSize (defaultConfig lib env) = 8"
  "cfg_WalletTopupMaxAmount (defaultConfig lib env) = 10000000"
  "cfg_WalletTopupMinAmount (defaultConfig lib env) = 10000"
  by (simp_all add: defaultConfig_def)

definition demo_lib :: go_lib where
  "demo_lib = \<lparr>lb_ToLower = ToLower, lb_unicode = plain_unicode,
     lb_url_Parse = (\<lambda>_. Some \<lparr>url_Scheme = ''https'', url_Host = ''img.vietqr.io'', url_Path = ''/image/'', url_Query = []\<rparr>),
     lb_url_ParseRequestURI = (\<lambda>_. Some \<lparr>url_Scheme = ''https'', url_Host = ''shop.example'', url_Path = ''/tg'', url_Query = []\<rparr>),
     lb_ParseFloat = (\<lambda>_. None), lb_Quote = (\<lambda>s. s), lb_Fixed2 = (\<lambda>_. [])\<rparr>"


end
