(* ===== verification/Worker_Process.thy ===== *)
theory Worker_Process
  imports Configuration Inbox
begin

text \<open>
  The worker process: the runner of \<open>internal/worker/runner.go\<close> with its four jobs, and the wiring of
  \<open>cmd/worker/main.go\<close>, which builds the jobs from the configuration. The passes of the jobs are those of the
  other theories. A pass always leaves one report and never stops the loop; everything the process does to the
  database is a sequence of the shop's own steps.
\<close>

section \<open>The runner\<close>

record payment_job =
  pj_job :: event_job
  pj_reservationTTL :: duration
  pj_deliveryMaxAttempts :: int32

record reconciliation_run =
  rc_registry :: "provider list"
  rc_job :: reconciliation_job
  rc_eventMaxAttempts :: int32

record Runner =
  rn_healthInterval :: duration
  rn_expiry :: int32 \<comment> \<open>the batch size of the expiry service\<close>
  rn_expiryInterval :: duration
  rn_runTimeout :: duration
  rn_payment :: "payment_job option"
  rn_paymentInterval :: duration
  rn_paymentTimeout :: duration
  rn_delivery :: "delivery_worker option"
  rn_deliveryInterval :: duration
  rn_deliveryTimeout :: duration
  rn_reconciliation :: "reconciliation_run option"
  rn_reconciliationInterval :: duration
  rn_reconciliationTimeout :: duration

definition NewRunner :: "int32 \<Rightarrow> duration \<Rightarrow> duration \<Rightarrow> duration \<Rightarrow> Runner" where
  "NewRunner expiry healthInterval expiryInterval runTimeout =
     \<lparr>rn_healthInterval = healthInterval, rn_expiry = expiry, rn_expiryInterval = expiryInterval,
      rn_runTimeout = runTimeout, rn_payment = None, rn_paymentInterval = 0, rn_paymentTimeout = 0,
      rn_delivery = None, rn_deliveryInterval = 0, rn_deliveryTimeout = 0,
      rn_reconciliation = None, rn_reconciliationInterval = 0, rn_reconciliationTimeout = 0\<rparr>"

definition WithPaymentEvents :: "payment_job \<Rightarrow> duration \<Rightarrow> duration \<Rightarrow> Runner \<Rightarrow> Runner" where
  "WithPaymentEvents job interval timeout r =
     r\<lparr>rn_payment := Some job, rn_paymentInterval := interval, rn_paymentTimeout := timeout\<rparr>"

definition WithDelivery :: "delivery_worker \<Rightarrow> duration \<Rightarrow> duration \<Rightarrow> Runner \<Rightarrow> Runner" where
  "WithDelivery job interval timeout r =
     r\<lparr>rn_delivery := Some job, rn_deliveryInterval := interval, rn_deliveryTimeout := timeout\<rparr>"

definition WithPaymentReconciliation :: "reconciliation_run \<Rightarrow> duration \<Rightarrow> duration \<Rightarrow> Runner \<Rightarrow> Runner" where
  "WithPaymentReconciliation job interval timeout r =
     r\<lparr>rn_reconciliation := Some job, rn_reconciliationInterval := interval, rn_reconciliationTimeout := timeout\<rparr>"

section \<open>Passes\<close>

text \<open>
  The standard library and the collation of the database, and what the outside world does during one pass: the rows that others have locked,
  the clock, Telegram, and whether the dependency check fails.
\<close>

record runner_lib =
  rl_parseTime :: "string \<Rightarrow> time option"
  rl_unicode :: unicode
  rl_sha256 :: "string \<Rightarrow> string"
  rl_rfc3339 :: "time \<Rightarrow> string"
  rl_collate :: "(provider_account_row \<times> bank_row) list \<Rightarrow> (provider_account_row \<times> bank_row) list"

record pass_world =
  pw_skip :: "int64 \<Rightarrow> bool"
  pw_now :: time
  pw_delivery :: delivery_world
  pw_acceptedAt :: "int64 \<Rightarrow> time"
  pw_started :: "int64 \<Rightarrow> time"
  pw_finished :: "int64 \<Rightarrow> time"
  pw_checkFails :: bool

text \<open>The log line at the end of a pass; the metrics say the same.\<close>

datatype run_report =
  ExpiryReport "error + int" | PaymentReport "error + int" | DeliveryReport "error + int" |
  ReconciliationReport bool ReconciliationSummary | DependencyReport

definition runExpiry :: "Runner \<Rightarrow> pass_world \<Rightarrow> run_report list dbtx" where
  "runExpiry r x =
     bindE (attempt (OrderExpiryService_RunOnce (pw_skip x) (rn_expiry r) (pw_now x))) (\<lambda>result.
     returnE [ExpiryReport result])"

definition runPaymentEvents :: "runner_lib \<Rightarrow> Runner \<Rightarrow> pass_world \<Rightarrow> run_report list dbtx" where
  "runPaymentEvents lib r x =
     (case rn_payment r of None \<Rightarrow> returnE []
      | Some p \<Rightarrow>
          bindE (attempt (PaymentEventJob_RunOnce (rl_parseTime lib) (rl_unicode lib) (pj_job p) (pw_skip x)
            (pj_reservationTTL p) (pj_deliveryMaxAttempts p) (pw_acceptedAt x) (pw_now x))) (\<lambda>result.
          returnE [PaymentReport result]))"

text \<open>The delivery job remembers its last scan for stale jobs; the scan is an argument and part of the result.\<close>

definition runDelivery :: "Runner \<Rightarrow> pass_world \<Rightarrow> time \<Rightarrow> (run_report list \<times> time) dbtx" where
  "runDelivery r x scan =
     (case rn_delivery r of None \<Rightarrow> returnE ([], scan)
      | Some w \<Rightarrow>
          bindE (DeliveryJob_RunOnce (pw_skip x) w (pw_delivery x) scan) (\<lambda>(count, err, scan').
          returnE ([DeliveryReport (case err of None \<Rightarrow> Inr count | Some e \<Rightarrow> Inl e)], scan')))"

definition runReconciliation :: "runner_lib \<Rightarrow> Runner \<Rightarrow> pass_world \<Rightarrow> run_report list dbtx" where
  "runReconciliation lib r x =
     (case rn_reconciliation r of None \<Rightarrow> returnE []
      | Some j \<Rightarrow>
          bindE (attempt (ReconciliationJob_RunOnce (rl_collate lib)
            (PaymentEventIngestionService_Ingest (rl_unicode lib) (rl_sha256 lib) (rl_rfc3339 lib)
              (rc_eventMaxAttempts j) (pw_now x))
            (rc_registry j) (rc_job j) (pw_started x) (pw_finished x))) (\<lambda>result. case result of
            Inl _ \<Rightarrow> returnE [ReconciliationReport False emptySummary]
          | Inr (summary, failures) \<Rightarrow> returnE [ReconciliationReport (failures = []) summary]))"

section \<open>The loop\<close>

datatype tick = HealthTick | ExpiryTick | PaymentTick | DeliveryTick | ReconciliationTick

definition runTick :: "runner_lib \<Rightarrow> Runner \<Rightarrow> pass_world \<Rightarrow> time \<Rightarrow> tick \<Rightarrow> (run_report list \<times> time) dbtx" where
  "runTick lib r x scan t =
     (case t of
        HealthTick \<Rightarrow> returnE (if pw_checkFails x then [DependencyReport] else [], scan)
      | ExpiryTick \<Rightarrow> bindE (runExpiry r x) (\<lambda>reports. returnE (reports, scan))
      | PaymentTick \<Rightarrow> bindE (runPaymentEvents lib r x) (\<lambda>reports. returnE (reports, scan))
      | DeliveryTick \<Rightarrow> runDelivery r x scan
      | ReconciliationTick \<Rightarrow> bindE (runReconciliation lib r x) (\<lambda>reports. returnE (reports, scan)))"

text \<open>
  The iterations of the loop. The list is the sequence of channels that \<open>select\<close> takes, in any order, and ends where
  the context is done; \<open>world n\<close> is the outside world during the \<open>n\<close>-th pass. A job that is not configured has a nil
  channel, which never fires; its tick would do nothing.
\<close>

fun passes :: "runner_lib \<Rightarrow> Runner \<Rightarrow> (nat \<Rightarrow> pass_world) \<Rightarrow> nat \<Rightarrow> time \<Rightarrow> tick list \<Rightarrow> run_report list dbtx" where
  "passes lib r world n scan [] = returnE []"
| "passes lib r world n scan (t # ts) =
     bindE (runTick lib r (world n) scan t) (\<lambda>(reports, scan').
     bindE (passes lib r world (Suc n) scan' ts) (\<lambda>rest. returnE (reports @ rest)))"

text \<open>\<open>time.NewTicker\<close> panics on an interval that is not positive.\<close>

definition tickersStart :: "Runner \<Rightarrow> bool" where
  "tickersStart r \<longleftrightarrow> 0 < rn_healthInterval r \<and> 0 < rn_expiryInterval r \<and>
     (rn_payment r \<noteq> None \<longrightarrow> 0 < rn_paymentInterval r) \<and>
     (rn_delivery r \<noteq> None \<longrightarrow> 0 < rn_deliveryInterval r) \<and>
     (rn_reconciliation r \<noteq> None \<longrightarrow> 0 < rn_reconciliationInterval r)"

definition startup :: "tick list" where
  "startup = [ExpiryTick, PaymentTick, DeliveryTick, ReconciliationTick]"

text \<open>\<open>Run\<close> up to its end; \<open>None\<close> is the panic of a ticker.\<close>

definition Runner_Run :: "runner_lib \<Rightarrow> Runner \<Rightarrow> (nat \<Rightarrow> pass_world) \<Rightarrow> tick list \<Rightarrow> run_report list option dbtx" where
  "Runner_Run lib r world ticks =
     (if \<not> tickersStart r then returnE None
      else bindE (passes lib r world 0 0 (startup @ ticks)) (\<lambda>reports. returnE (Some reports)))"

section \<open>The wiring of the worker\<close>

definition DefaultPostPaymentReservationTTL :: duration where
  "DefaultPostPaymentReservationTTL = 24 * 3600 * 1000000000"

text \<open>\<open>WithDeliveryMaxAttempts\<close> keeps the default unless the value is positive.\<close>

definition WithDeliveryMaxAttempts :: "int32 \<Rightarrow> int32" where
  "WithDeliveryMaxAttempts maxAttempts = (if maxAttempts > 0 then maxAttempts else DefaultDeliveryMaxAttempts)"

definition NewDeliveryJob ::
  "DeliveryRetryPolicy \<Rightarrow> int32 \<Rightarrow> duration \<Rightarrow> duration \<Rightarrow> int \<Rightarrow> string \<Rightarrow> string \<Rightarrow> delivery_worker" where
  "NewDeliveryJob policy batchSize lease jobTimeout messageLimit support workerID =
     \<lparr>dw_workerID = TrimSpace workerID, dw_support = TrimSpace support, dw_messageLimit = messageLimit,
      dw_batchSize = batchSize, dw_lease = lease, dw_staleScanInterval = lease, dw_jobTimeout = jobTimeout,
      dw_policy = policy\<rparr>"

definition WithStaleScanInterval :: "duration \<Rightarrow> delivery_worker \<Rightarrow> delivery_worker" where
  "WithStaleScanInterval interval j = (if interval > 0 then j\<lparr>dw_staleScanInterval := interval\<rparr> else j)"

definition workerDelivery :: "string \<Rightarrow> Config \<Rightarrow> delivery_worker" where
  "workerDelivery owner cfg = WithStaleScanInterval (cfg_DeliveryStaleScanInterval cfg)
     (NewDeliveryJob \<lparr>drp_Base = cfg_DeliveryRetryBase cfg, drp_Max = cfg_DeliveryRetryMax cfg,
        drp_JitterRatio = cfg_DeliveryRetryJitter cfg, drp_MaxAttempts = cfg_DeliveryMaxAttempts cfg\<rparr>
       (cfg_DeliveryBatchSize cfg) (cfg_DeliveryProcessingLease cfg) (cfg_DeliveryJobTimeout cfg)
       (cfg_DeliveryMessageMaxBytes cfg) (cfg_SupportContact cfg) owner)"

definition workerRunner :: "string \<Rightarrow> Config \<Rightarrow> reference_extractor \<Rightarrow> Runner" where
  "workerRunner owner cfg extractor =
     WithDelivery (workerDelivery owner cfg) (cfg_DeliveryPollInterval cfg) (cfg_DeliveryRunTimeout cfg)
      (WithPaymentEvents \<lparr>pj_job = \<lparr>ej_batchSize = cfg_PaymentEventBatchSize cfg,
            ej_retryBase = cfg_PaymentEventRetryBase cfg, ej_staleAfter = cfg_PaymentStaleProcessingTimeout cfg,
            ej_extractor = Some extractor\<rparr>,
          pj_reservationTTL = DefaultPostPaymentReservationTTL,
          pj_deliveryMaxAttempts = WithDeliveryMaxAttempts (cfg_DeliveryMaxAttempts cfg)\<rparr>
        (cfg_PaymentEventPollInterval cfg) (cfg_PaymentEventRunTimeout cfg)
       (NewRunner (cfg_OrderExpiryBatchSize cfg) (goSeconds 30) (cfg_OrderExpiryInterval cfg)
         (cfg_OrderExpiryRunTimeout cfg)))"

text \<open>
  \<open>run\<close> up to the call of the runner: the error with what it happened at, or the runner. \<open>opened\<close> is the error of
  \<open>postgres.Open\<close>, \<open>newClient\<close> the one of the Telegram client; the registry of the worker is empty.
\<close>

definition worker_setup ::
  "go_lib \<Rightarrow> primitives \<Rightarrow> error option \<Rightarrow> error option \<Rightarrow> string \<Rightarrow> int \<Rightarrow> Config \<Rightarrow> (string \<times> error) + Runner" where
  "worker_setup lib prims opened newClient hostname pid cfg =
     (case opened of Some e \<Rightarrow> Inl ([], e) | None \<Rightarrow>
      case NewPaymentReferenceExtractor (lb_unicode lib) (cfg_PaymentReferencePrefix cfg)
          (cfg_PaymentReferenceRandomBytes cfg) DefaultPaymentTransferContentLimit of
        Inl e \<Rightarrow> Inl (''initialize payment reference extractor'', e)
      | Inr extractor \<Rightarrow>
      case inventory_New prims (cfg_InventoryEncryptionKey cfg) (cfg_InventoryEncryptionKeyVersion cfg) of
        Inl e \<Rightarrow> Inl (''initialize delivery inventory decryption'', e)
      | Inr inventoryCipher \<Rightarrow>
      case newClient of Some e \<Rightarrow> Inl (''initialize delivery Telegram client'', e) | None \<Rightarrow>
      let owner = hostname @ ''-'' @ intText pid; runner = workerRunner owner cfg extractor in
      if \<not> cfg_PaymentReconciliationEnabled cfg then Inr runner
      else case NewProviderRegistry [] of Inl e \<Rightarrow> Inl (''initialize reconciliation provider registry'', e)
      | Inr registry \<Rightarrow>
      case NewReconciliationJob owner (cfg_PaymentReconciliationMaxPages cfg) (cfg_PaymentReconciliationPageSize cfg)
          (cfg_PaymentReconciliationRequestTimeout cfg)
          (wrap64 (cfg_PaymentReconciliationRunTimeout cfg + cfg_PaymentReconciliationRequestTimeout cfg)) of
        Inl e \<Rightarrow> Inl (''initialize provider reconciliation'', e)
      | Inr job \<Rightarrow> Inr (WithPaymentReconciliation \<lparr>rc_registry = registry, rc_job = job,
            rc_eventMaxAttempts = cfg_PaymentEventMaxAttempts cfg\<rparr>
          (cfg_PaymentReconciliationInterval cfg) (cfg_PaymentReconciliationRunTimeout cfg) runner))"

section \<open>The process as a run of the shop\<close>

lemma calls_expiry: "calls_only (OrderExpiryService_RunOnce skip n now)"
  by (rule calls_step) (rule sh_expire)

lemma calls_events: "calls_only (PaymentEventJob_RunOnce pt uc job skip ttl n acc now)"
  unfolding PaymentEventJob_RunOnce_def by (intro calls_intros calls_processItem env_calls env_ClaimEvents)

lemma calls_delivery: "calls_only (DeliveryJob_RunOnce skip w x scan)"
  unfolding DeliveryJob_RunOnce_def Let_def by (intro calls_intros calls_process | simp)+

lemma calls_reconciliation:
  "calls_only (ReconciliationJob_RunOnce col (PaymentEventIngestionService_Ingest uc sh rf ma now) reg jb st fin)"
  by (intro env_calls env_Reconciliation env_Ingest)

lemma calls_runs:
  "calls_only (runExpiry r x)" "calls_only (runPaymentEvents lib r x)" "calls_only (runDelivery r x scan)"
  "calls_only (runReconciliation lib r x)"
  unfolding runExpiry_def runPaymentEvents_def runDelivery_def runReconciliation_def
  by (auto intro!: calls_intros calls_expiry calls_events calls_delivery calls_reconciliation split: option.split)

lemma calls_tick: "calls_only (runTick lib r x scan t)"
  unfolding runTick_def by (cases t) (auto intro!: calls_intros calls_runs)

lemma calls_passes: "calls_only (passes lib r world n scan ts)"
  by (induction ts arbitrary: n scan) (auto intro!: calls_intros calls_tick)

text \<open>The job that left a report, and whether a tick leaves one.\<close>

fun reportOf :: "run_report \<Rightarrow> tick" where
  "reportOf (ExpiryReport _) = ExpiryTick"
| "reportOf (PaymentReport _) = PaymentTick"
| "reportOf (DeliveryReport _) = DeliveryTick"
| "reportOf (ReconciliationReport _ _) = ReconciliationTick"
| "reportOf DependencyReport = HealthTick"

fun reports :: "Runner \<Rightarrow> pass_world \<Rightarrow> tick \<Rightarrow> bool" where
  "reports r x HealthTick \<longleftrightarrow> pw_checkFails x"
| "reports r x ExpiryTick \<longleftrightarrow> True"
| "reports r x PaymentTick \<longleftrightarrow> rn_payment r \<noteq> None"
| "reports r x DeliveryTick \<longleftrightarrow> rn_delivery r \<noteq> None"
| "reports r x ReconciliationTick \<longleftrightarrow> rn_reconciliation r \<noteq> None"

fun expected :: "Runner \<Rightarrow> (nat \<Rightarrow> pass_world) \<Rightarrow> nat \<Rightarrow> tick list \<Rightarrow> tick list" where
  "expected r world n [] = []"
| "expected r world n (t # ts) = (if reports r (world n) t then [t] else []) @ expected r world (Suc n) ts"

lemma delivery_reports: "\<exists>out. fst (DeliveryJob_RunOnce skip w x scan s) = Inr out"
  by (auto simp: DeliveryJob_RunOnce_def Let_def bindE_app attempt_def returnE_def split: if_splits prod.splits sum.splits)

lemma tick_reports:
  "\<exists>reps scan' s'. runTick lib r x scan t s = (Inr (reps, scan'), s') \<and>
     map reportOf reps = (if reports r x t then [t] else [])"
proof (cases t)
  case DeliveryTick
  show ?thesis
  proof (cases "rn_delivery r")
    case (Some w)
    from delivery_reports obtain out where "fst (DeliveryJob_RunOnce (pw_skip x) w (pw_delivery x) scan s) = Inr out"
      by blast
    then obtain count err scan' s' where "DeliveryJob_RunOnce (pw_skip x) w (pw_delivery x) scan s = (Inr (count, err, scan'), s')"
      by (metis prod.collapse)
    with Some DeliveryTick show ?thesis by (simp add: runTick_def runDelivery_def bindE_app returnE_def)
  qed (use DeliveryTick in \<open>simp add: runTick_def runDelivery_def returnE_def\<close>)
qed (auto simp: runTick_def runExpiry_def runPaymentEvents_def runReconciliation_def bindE_app attempt_def returnE_def
    split: option.splits prod.splits sum.splits)

lemma passes_reports:
  "\<exists>reps s'. passes lib r world n scan ts s = (Inr reps, s') \<and> map reportOf reps = expected r world n ts"
proof (induction ts arbitrary: n scan s)
  case (Cons t ts)
  obtain reps scan' s' where t: "runTick lib r (world n) scan t s = (Inr (reps, scan'), s')"
    and m: "map reportOf reps = (if reports r (world n) t then [t] else [])"
    using tick_reports [of lib r "world n" scan t s] by blast
  obtain rest s'' where "passes lib r world (Suc n) scan' ts s' = (Inr rest, s'')"
    and "map reportOf rest = expected r world (Suc n) ts"
    using Cons.IH by blast
  with t m show ?case by (simp add: bindE_app returnE_def)
qed (simp add: returnE_def)

text \<open>
  C37. The worker process keeps going and keeps the books. Whatever the sequence of ticks, the clock, Telegram, the
  providers and the locks of others do, a runner whose tickers start comes through every pass with exactly one report
  for each configured job (and one for each failed dependency check), errors included, and its whole effect on the
  database is a sequence of the shop's own steps. A runner with an interval that is not positive panics before it
  touches anything.
\<close>

theorem worker_process_is_a_run:
  "case Runner_Run lib r world ticks s of (x, s') \<Rightarrow>
     shop_step\<^sup>*\<^sup>* s s' \<and>
     (if tickersStart r
      then \<exists>reps. x = Inr (Some reps) \<and> map reportOf reps = expected r world 0 (startup @ ticks)
      else x = Inr None \<and> s' = s)"
proof (cases "tickersStart r")
  case True
  obtain reps s1 where p: "passes lib r world 0 0 (startup @ ticks) s = (Inr reps, s1)"
    and m: "map reportOf reps = expected r world 0 (startup @ ticks)"
    using passes_reports by blast
  from True p have "Runner_Run lib r world ticks s = (Inr (Some reps), s1)"
    by (simp add: Runner_Run_def bindE_app returnE_def)
  moreover from calls_passes p have "shop_step\<^sup>*\<^sup>* s s1" unfolding calls_only_def by (metis snd_conv)
  ultimately show ?thesis using True m by simp
qed (simp add: Runner_Run_def returnE_def)

section \<open>Starting the worker\<close>

lemma dash_kept: "TrimSpace (a @ ''-'' @ b) \<noteq> []"
  using TrimSpace_keeps [of "CHR ''-''" "a @ ''-'' @ b"] by (auto simp: whiteSpaceRunes_def)

lemma prefix_safe:
  assumes "validReferencePrefix lib p"
  shows "safeReferencePart (TrimSpace (ToUpper (lb_unicode lib) p))"
  using assms unfolding validReferencePrefix_def safeReferencePart_def Let_def
  by (auto simp: upperAlnum_def isDigitChar_def byteIn_def list_all_iff Suc_le_eq)

lemma cipher_starts:
  assumes "length master = 32" "0 < version"
    and hkdf: "\<forall>m info. length m = 32 \<longrightarrow> (\<exists>k. hkdf_Key prims m info 32 = Some k)"
  shows "\<exists>c. inventory_New prims master version = Inr c" "\<exists>c. bank_New prims master version = Inr c"
proof -
  have "\<exists>k. deriveKey prims i j (version, master) = Some (version, k)" for i j
    using hkdf [rule_format, OF assms(1), of i] hkdf [rule_format, OF assms(1), of j] assms(1,2)
    by (auto simp: deriveKey_def masterKeyBytes_def)
  then obtain k where "\<And>i j. deriveKey prims i j (version, master) = Some (version, k i j)" by metis
  then show "\<exists>c. inventory_New prims master version = Inr c" "\<exists>c. bank_New prims master version = Inr c"
    using assms(2)
    by (simp_all add: inventory_New_def inventory_NewKeyring_def bank_New_def bank_NewKeyring_def newWithRandom_def Let_def)
qed

text \<open>The guards at the head of every pass.\<close>

definition jobsValid :: "Runner \<Rightarrow> bool" where
  "jobsValid r \<longleftrightarrow> 0 < rn_expiry r \<and>
     (\<forall>p. rn_payment r = Some p \<longrightarrow>
        0 < ej_batchSize (pj_job p) \<and> 0 < ej_retryBase (pj_job p) \<and> 0 < ej_staleAfter (pj_job p)) \<and>
     (\<forall>w. rn_delivery r = Some w \<longrightarrow> DeliveryJob_validate w)"

lemma lasting_pos: "lasting (goSeconds 1) d \<Longrightarrow> 0 < d \<and> d \<le> longest" "lasting (goMinutes 1) d \<Longrightarrow> 0 < d \<and> d \<le> longest"
  using units_positive by (auto simp: lasting_def)

lemma loaded_durations:
  assumes "load lib env process = Inr cfg" "moderate env"
  shows "0 < cfg_DeliveryProcessingLease cfg" "0 < cfg_DeliveryStaleScanInterval cfg" "0 < cfg_DeliveryJobTimeout cfg"
    "0 < cfg_DeliveryRetryBase cfg" "0 < cfg_DeliveryPollInterval cfg" "0 < cfg_PaymentEventPollInterval cfg"
    "0 < cfg_PaymentEventRetryBase cfg" "0 < cfg_PaymentStaleProcessingTimeout cfg" "0 < cfg_OrderExpiryInterval cfg"
    "0 < cfg_PaymentReconciliationInterval cfg"
    "0 < cfg_PaymentReconciliationRunTimeout cfg \<and> cfg_PaymentReconciliationRunTimeout cfg \<le> longest"
    "0 < cfg_PaymentReconciliationRequestTimeout cfg \<and> cfg_PaymentReconciliationRequestTimeout cfg \<le> longest"
    "0 < cfg_SignedJSONTimestampTolerance cfg"
  using loaded_lasting [OF assms] lasting_pos unfolding lasting_settings_def by blast+

lemma loaded_ranges:
  assumes "load lib env process = Inr cfg"
  shows "0 < cfg_DeliveryBatchSize cfg" "cfg_DeliveryRetryBase cfg \<le> cfg_DeliveryRetryMax cfg" "0 < cfg_DeliveryMaxAttempts cfg"
    "0 < cfg_DeliveryMessageMaxBytes cfg" "0 < cfg_PaymentEventBatchSize cfg" "0 < cfg_OrderExpiryBatchSize cfg"
    "\<not> float_less (cfg_DeliveryRetryJitter cfg) (FNum 0)" "\<not> float_less (FNum 1) (cfg_DeliveryRetryJitter cfg)"
    "0 < cfg_PaymentReconciliationMaxPages cfg \<and> cfg_PaymentReconciliationMaxPages cfg \<le> 100"
    "0 < cfg_PaymentReconciliationPageSize cfg \<and> cfg_PaymentReconciliationPageSize cfg \<le> 1000"
    "4 \<le> cfg_PaymentReferenceRandomBytes cfg \<and> cfg_PaymentReferenceRandomBytes cfg \<le> 24"
    "validReferencePrefix lib (cfg_PaymentReferencePrefix cfg)" "validEnvironment (cfg_PaymentProviderEnvironment cfg)"
  using loaded_positive [OF assms] loaded_plain [OF assms] loaded_validated [OF assms]
  unfolding positive_settings_def plain_settings_def validate_def sharedProblems_def validEnvironment_def append_is_Nil_conv problem_Nil
    not_less de_Morgan_disj de_Morgan_conj not_not not_le
  by blast+

lemma delivery_valid:
  assumes "load lib env process = Inr cfg" "moderate env"
  shows "DeliveryJob_validate (workerDelivery (a @ ''-'' @ b) cfg)"
  using loaded_durations [OF assms] loaded_ranges [OF assms(1)] dash_kept [of a b]
  by (simp add: DeliveryJob_validate_def workerDelivery_def WithStaleScanInterval_def NewDeliveryJob_def)

lemma runner_valid:
  assumes "load lib env process = Inr cfg" "moderate env"
  shows "jobsValid (workerRunner (a @ ''-'' @ b) cfg ex) \<and> tickersStart (workerRunner (a @ ''-'' @ b) cfg ex)"
proof -
  have "0 < goSeconds 30" by (simp add: goSeconds_def)
  then show ?thesis
    using loaded_durations [OF assms] loaded_ranges [OF assms(1)] delivery_valid [OF assms, of a b]
    by (simp add: jobsValid_def tickersStart_def workerRunner_def WithDelivery_def WithPaymentEvents_def NewRunner_def)
qed

lemma reconciliation_starts:
  assumes "load lib env process = Inr cfg" "moderate env" "length (a @ ''-'' @ b) \<le> 128"
  shows "\<exists>job. NewReconciliationJob (a @ ''-'' @ b) (cfg_PaymentReconciliationMaxPages cfg) (cfg_PaymentReconciliationPageSize cfg)
     (cfg_PaymentReconciliationRequestTimeout cfg)
     (wrap64 (cfg_PaymentReconciliationRunTimeout cfg + cfg_PaymentReconciliationRequestTimeout cfg)) = Inr job"
proof -
  note d = loaded_durations(11,12) [OF assms(1,2)]
  then have "is_int64 (cfg_PaymentReconciliationRunTimeout cfg + cfg_PaymentReconciliationRequestTimeout cfg)"
    by (simp add: is_int64_def MinInt64_def MaxInt64_def longest_def)
  with d loaded_ranges(9,10) [OF assms(1)] dash_kept [of a b] assms(3) TrimSpace_length [of "a @ ''-'' @ b"]
  show ?thesis by (simp add: NewReconciliationJob_def Let_def)
qed

text \<open>
  C38. A worker whose configuration was accepted starts and can work: when no duration in the environment is longer
  than half the range of \<open>time.Duration\<close>, the keys can be derived and upper-casing adds no white space to the prefix
  of the references, the wiring fails at none of its constructors, no ticker panics, and the guards at the head of
  every pass of the expiry, payment and delivery jobs are met.
\<close>

theorem accepted_worker_starts:
  assumes "LoadWorker lib env = Inr cfg" "moderate env"
    and "\<forall>m info. length m = 32 \<longrightarrow> (\<exists>k. hkdf_Key prims m info 32 = Some k)"
    and "TrimSpace (ToUpper (lb_unicode lib) (cfg_PaymentReferencePrefix cfg)) = ToUpper (lb_unicode lib) (cfg_PaymentReferencePrefix cfg)"
    and "length (hostname @ ''-'' @ intText pid) \<le> 128"
  shows "\<exists>r. worker_setup lib prims None None hostname pid cfg = Inr r \<and> tickersStart r \<and> jobsValid r"
proof -
  from assms(1) have load: "load lib env processWorker = Inr cfg" by (simp add: LoadWorker_def)
  have key: "length (cfg_InventoryEncryptionKey cfg) = 32" "0 < cfg_InventoryEncryptionKeyVersion cfg"
    using loaded_validated [OF load] by (simp_all add: validate_def workerProblems_def)
  have "TrimSpace (cfg_PaymentReferencePrefix cfg) = cfg_PaymentReferencePrefix cfg"
    using loaded_plain [OF load] by (simp add: plain_settings_def)
  with prefix_safe [OF loaded_ranges(12) [OF load]] loaded_ranges(11) [OF load] assms(4)
  obtain ex where "NewPaymentReferenceExtractor (lb_unicode lib) (cfg_PaymentReferencePrefix cfg)
      (cfg_PaymentReferenceRandomBytes cfg) DefaultPaymentTransferContentLimit = Inr ex"
    by (simp add: NewPaymentReferenceExtractor_def DefaultPaymentTransferContentLimit_def Let_def)
  moreover from cipher_starts(1) [OF key assms(3)]
  obtain c where "inventory_New prims (cfg_InventoryEncryptionKey cfg) (cfg_InventoryEncryptionKeyVersion cfg) = Inr c" ..
  moreover note runner_valid [OF load assms(2), of hostname "intText pid" ex]
  moreover from reconciliation_starts [OF load assms(2,5)] obtain job where
    "NewReconciliationJob (hostname @ ''-'' @ intText pid) (cfg_PaymentReconciliationMaxPages cfg)
       (cfg_PaymentReconciliationPageSize cfg) (cfg_PaymentReconciliationRequestTimeout cfg)
       (wrap64 (cfg_PaymentReconciliationRunTimeout cfg + cfg_PaymentReconciliationRequestTimeout cfg)) = Inr job" ..
  moreover note loaded_durations(10) [OF load assms(2)]
  ultimately show ?thesis
    by (auto simp: worker_setup_def Let_def NewProviderRegistry_def WithPaymentReconciliation_def jobsValid_def tickersStart_def)
qed

definition demo_env :: "string \<Rightarrow> string" where
  "demo_env name =
     (case map_of [(''DATABASE_URL'', ''postgres://db''), (''TELEGRAM_BOT_TOKEN'', ''token''),
        (''INVENTORY_ENCRYPTION_KEY'', ''AAAAAAAAAAAAAAAAAAAAAAAAAAAAAAAAAAAAAAAAAAA=''),
        (''PAYMENT_RECONCILIATION_ENABLED'', ''true''), (''DELIVERY_JOB_TIMEOUT'', ''20''),
        (''SUPPORT_CONTACT'', ''Ask us'')] name of
        None \<Rightarrow> [] | Some value \<Rightarrow> value)"

definition demo_config :: Config where
  "demo_config = (defaultConfig demo_lib demo_env)\<lparr>cfg_InventoryEncryptionKey := replicate 32 (CHR 0x00),
     cfg_PaymentReconciliationEnabled := True, cfg_DeliveryJobTimeout := goSeconds 20\<rparr>"

text \<open>A blank variable leaves the default.\<close>

lemma blank_parses:
  "parsePositiveInt [] d = Inr d" "parsePositiveInt32 [] d = Inr d" "parsePositiveInt64 [] d = Inr d"
  "parseNonNegativeInt32 [] d = Inr d" "parseBool [] b = Inr b" "parseFloatRange lib [] f lo hi = Inr f"
  "parseLogLevel lib [] = Inr LevelInfo" "parsePaymentProviders lib [] = Inr []"
  "parsePositiveDuration [] unit d = Inr (wrap64 (go_div d unit * unit))"
  by (simp_all add: parsePositiveInt_def parsePositiveInt32_def parsePositiveInt64_def parseNonNegativeInt32_def
      parseBool_def parseFloatRange_def parseLogLevel_def parsePaymentProviders_def parsePositiveDuration_def)

lemma blank_durations:
  assumes "0 \<le> n" "n \<le> 1000000"
  shows "wrap64 (go_div (goSeconds n) (goSeconds 1) * goSeconds 1) = goSeconds n"
    "wrap64 (go_div (goMinutes n) (goMinutes 1) * goMinutes 1) = goMinutes n"
    "wrap64 (go_div (goMinutes n) (goSeconds 1) * goSeconds 1) = goMinutes n"
  using assms by (simp_all add: goSeconds_def goMinutes_def wrap64_def)

lemma demo_parses:
  "parseEncryptionKey ''AAAAAAAAAAAAAAAAAAAAAAAAAAAAAAAAAAAAAAAAAAA='' = Inr (replicate 32 (CHR 0x00))"
  "parsePositiveDuration ''20'' (goSeconds 1) (goSeconds 10) = Inr (goSeconds 20)" "parseBool ''true'' False = Inr True"
  "lb_ToLower demo_lib [] = []" "lb_ToLower demo_lib ''development'' = ''development''"
  "providerEnvironmentForApp demo_lib ''local'' = ''development''"
  by code_simp+

lemma demo_settings: "settingsOf demo_lib demo_env processWorker = ([], demo_config)"
  unfolding settingsOf_def commonSettings_def workerSettings_def
  by (simp add: assign_def setting_def demo_env_def defaultConfig_def demo_config_def providerList_def envOrDefault_def
      blank_parses blank_durations demo_parses)

lemma demo_texts:
  "TrimSpace ''postgres://db'' = ''postgres://db''" "TrimSpace ''token'' = ''token''" "TrimSpace ''Ask us'' = ''Ask us''"
  "runeCount ''Ask us'' = 6" "validReferencePrefix demo_lib ''TS''"
  by code_simp+

lemma demo_values:
  "demo_env ''DATABASE_URL'' = ''postgres://db''" "demo_env ''TELEGRAM_BOT_TOKEN'' = ''token''"
  "envOrDefault demo_env ''APP_ENV'' d = d" "envOrDefault demo_env ''SUPPORT_CONTACT'' d = ''Ask us''"
  by (simp_all add: demo_env_def envOrDefault_def demo_texts)

lemma demo_validated: "validate demo_lib demo_config processWorker = []"
  unfolding validate_def requiredProblems_def workerProblems_def sharedProblems_def
  by (simp add: demo_config_def default_settings demo_values demo_parses demo_texts goSeconds_def goMinutes_def
      del: runeCount.simps)

lemma demo_loaded: "LoadWorker demo_lib demo_env = Inr demo_config"
  by (simp add: LoadWorker_def load_def demo_settings demo_validated)

lemma demo_moderate: "moderate demo_env"
  by code_simp

lemma demo_prefix: "cfg_PaymentReferencePrefix demo_config = ''TS''"
  by (simp add: demo_config_def default_settings)

lemma demo_keys: "\<forall>m info. length m = 32 \<longrightarrow> (\<exists>k. hkdf_Key plain_primitives m info 32 = Some k)"
  by (simp add: plain_primitives_def)

theorem accepted_worker_starts_witness:
  "\<exists>r. worker_setup demo_lib plain_primitives None None ''shop'' 7 demo_config = Inr r \<and> tickersStart r \<and> jobsValid r"
proof (rule accepted_worker_starts [OF demo_loaded demo_moderate demo_keys])
  show "TrimSpace (ToUpper (lb_unicode demo_lib) (cfg_PaymentReferencePrefix demo_config)) =
      ToUpper (lb_unicode demo_lib) (cfg_PaymentReferencePrefix demo_config)"
    unfolding demo_prefix by code_simp
  show "length (''shop'' @ ''-'' @ intText 7) \<le> 128" by code_simp
qed

end
