(* ===== verification/Api_Process.thy ===== *)
theory Api_Process
  imports Worker_Process Telegram_Router
begin

text \<open>
  The wiring of the API process, \<open>run\<close> of \<open>cmd/api/main.go\<close> up to the start of the HTTP server: the
  administrators, ciphers, generators and services built from the configuration, the router over them, and the
  registry of payment providers. What the operator has configured is what the services use.
\<close>

section \<open>Services\<close>

text \<open>\<open>WithPaymentEnvironment\<close> of the order, wallet and bank services, \<open>WithProcessingLease\<close> of the delivery desk.\<close>

definition WithPaymentEnvironment :: "string \<Rightarrow> string" where
  "WithPaymentEnvironment environment = (if validPaymentEnvironment environment then environment else ''production'')"

definition WithProcessingLease :: "duration \<Rightarrow> duration" where
  "WithProcessingLease lease = (if lease > 0 then lease else goMinutes 2)"

text \<open>The random sources, the paths and addresses of \<open>net/url\<close>, and the crypto of the webhook.\<close>

record api_world =
  aw_inventoryNonce :: "int64 \<Rightarrow> string \<Rightarrow> string option"
  aw_bankNonce :: "string \<Rightarrow> string \<Rightarrow> string option"
  aw_referenceBytes :: "nat \<Rightarrow> int \<Rightarrow> string option"
  aw_topupBytes :: "int \<Rightarrow> string option"
  aw_pathJoin :: "string \<Rightarrow> string \<Rightarrow> string"
  aw_urlString :: "url \<Rightarrow> string"
  aw_crypto :: crypto
  aw_unmarshal :: "string \<Rightarrow> signedJSONPayload option"
  aw_rfc3339 :: "time \<Rightarrow> string"
  aw_now :: time

text \<open>
  The router with its services. \<open>base\<close> has what is not configuration: clocks, locks, sort orders and formats.
\<close>

definition api_router ::
  "primitives \<Rightarrow> go_lib \<Rightarrow> api_world \<Rightarrow> Router \<Rightarrow> Config \<Rightarrow> Cipher \<Rightarrow> Cipher \<Rightarrow> Generator \<Rightarrow> reference_generator \<Rightarrow>
   PaymentProviderDescriptor list \<Rightarrow> Router" where
  "api_router prims lib x base cfg inventoryCipher bankCipher vietQR references descriptors = base\<lparr>
     rt_staleAfter := cfg_TelegramUpdateStaleAfter cfg,
     rt_catalogPageSize := servicePageSize DefaultPageSize,
     rt_sessionTTL := cfg_AdminSessionTTL cfg,
     rt_protectInventory := (\<lambda>product payload.
       inventory_Protect prims None (aw_inventoryNonce x product payload) inventoryCipher product payload),
     rt_importLimits := \<lparr>MaxItems = cfg_InventoryImportMaxItems cfg, MaxItemBytes = cfg_InventoryImportMaxItemBytes cfg,
       MaxTotalBytes = cfg_InventoryImportMaxTotalBytes cfg\<rparr>,
     rt_inventoryPageSize := servicePageSize DefaultPageSize,
     rt_protectBank := (\<lambda>bin number. bank_Protect prims False (aw_bankNonce x bin number) bankCipher bin number),
     rt_paymentEnvironment := WithPaymentEnvironment (cfg_PaymentProviderEnvironment cfg),
     rt_bankPageSize := servicePageSize (cfg_BankAccountPageSize cfg),
     rt_orders := \<lparr>oc_expiry = cfg_OrderExpiry cfg, oc_maxQuantity = cfg_OrderMaxQuantity cfg,
       oc_pageSize = servicePageSize (cfg_OrderPageSize cfg),
       oc_paymentEnvironment = WithPaymentEnvironment (cfg_PaymentProviderEnvironment cfg)\<rparr>,
     rt_references := (\<lambda>n. Generate (lb_unicode lib) (aw_referenceBytes x n) references),
     rt_orderInstruction := OrderService_instruction (bankDecrypt prims bankCipher)
       (Generator_Generate (aw_pathJoin x) (aw_urlString x) vietQR None),
     rt_topupMin := cfg_WalletTopupMinAmount cfg,
     rt_topupMax := cfg_WalletTopupMaxAmount cfg,
     rt_topupExpiry := cfg_WalletTopupExpiry cfg,
     rt_topupReference := Generate (lb_unicode lib) (aw_topupBytes x) references,
     rt_topupInstruction := topup_instruction (bankDecrypt prims bankCipher)
       (Generator_Generate (aw_pathJoin x) (aw_urlString x) vietQR None),
     rt_reservationTTL := DefaultPostPaymentReservationTTL,
     rt_deliveryMaxAttempts := WithDeliveryMaxAttempts (cfg_DeliveryMaxAttempts cfg),
     rt_reviewPageSize := servicePageSize (cfg_PaymentReviewPageSize cfg),
     rt_deliveryPageSize := servicePageSize (cfg_DeliveryReviewPageSize cfg),
     rt_deliveryMetrics := True,
     rt_processingLease := WithProcessingLease (cfg_DeliveryProcessingLease cfg),
     rt_providers := Some (filter (\<lambda>d. ppd_Name d \<noteq> []) descriptors),
     rt_providerPageSize := servicePageSize (cfg_PaymentProviderReviewPageSize cfg),
     rt_supportContact := cfg_SupportContact cfg,
     rt_lower := lb_ToLower lib,
     rt_unicode := lb_unicode lib\<rparr>"

section \<open>Payment providers\<close>

text \<open>One adapter for each \<open>signed_json\<close> in the list; other names are passed over.\<close>

fun providerAdapters :: "api_world \<Rightarrow> Config \<Rightarrow> string list \<Rightarrow> error + provider option list" where
  "providerAdapters x cfg [] = Inr []"
| "providerAdapters x cfg (name # rest) =
     (if name = ''signed_json'' then
        case NewSignedJSONForEnvironment (cfg_SignedJSONWebhookSecret cfg) (cfg_SignedJSONTimestampTolerance cfg)
            (cfg_PaymentProviderEnvironment cfg) True of
          Inl e \<Rightarrow> Inl e
        | Inr adapter \<Rightarrow>
            (case providerAdapters x cfg rest of Inl e \<Rightarrow> Inl e
             | Inr adapters \<Rightarrow>
                 Inr (Some (signedJSONProvider (aw_crypto x) (aw_unmarshal x) (aw_rfc3339 x) (aw_now x) adapter) # adapters))
      else providerAdapters x cfg rest)"

definition providerDescriptor :: "provider \<Rightarrow> PaymentProviderDescriptor" where
  "providerDescriptor p = \<lparr>ppd_Name = pv_Name p, ppd_Enabled = pv_Enabled p, ppd_Environment = pv_Environment p,
     ppd_Capabilities = pv_Capabilities p\<rparr>"

section \<open>The process\<close>

record Api =
  api_Router :: Router
  api_registry :: "provider list"
  api_webhookSecret :: string
  api_webhookBodyLimit :: int64
  api_webhookTimeout :: duration
  api_eventMaxAttempts :: int32
  api_paymentBodyLimit :: int64
  api_paymentTimeout :: duration
  api_HTTPAddr :: string
  api_PrometheusEnabled :: bool

definition api_services ::
  "go_lib \<Rightarrow> primitives \<Rightarrow> api_world \<Rightarrow> Router \<Rightarrow> error option \<Rightarrow> Config \<Rightarrow> (string \<times> error) + Api" where
  "api_services lib prims x base newClient cfg =
     (case inventory_New prims (cfg_InventoryEncryptionKey cfg) (cfg_InventoryEncryptionKeyVersion cfg) of
        Inl e \<Rightarrow> Inl (''initialize inventory encryption'', e)
      | Inr inventoryCipher \<Rightarrow>
      case bank_New prims (cfg_BankAccountEncryptionKey cfg) (cfg_BankAccountEncryptionVersion cfg) of
        Inl e \<Rightarrow> Inl (''initialize bank account encryption'', e)
      | Inr bankCipher \<Rightarrow>
      case NewGenerator (lb_url_Parse lib) (cfg_VietQRBaseURL cfg) (cfg_VietQRTemplate cfg) of
        Inl e \<Rightarrow> Inl (''initialize VietQR instructions'', e)
      | Inr vietQR \<Rightarrow>
      case NewPaymentReferenceGenerator (lb_unicode lib) (cfg_PaymentReferencePrefix cfg)
          (cfg_PaymentReferenceRandomBytes cfg) of
        Inl e \<Rightarrow> Inl (''initialize payment references'', e)
      | Inr references \<Rightarrow>
      case newClient of Some e \<Rightarrow> Inl ([], e) | None \<Rightarrow>
      case providerAdapters x cfg (cfg_PaymentProviders cfg) of
        Inl e \<Rightarrow> Inl (''initialize signed payment webhook'', e)
      | Inr adapters \<Rightarrow>
      case NewProviderRegistry adapters of
        Inl e \<Rightarrow> Inl (''initialize payment provider registry'', e)
      | Inr registry \<Rightarrow> Inr \<lparr>
          api_Router = api_router prims lib x base cfg inventoryCipher bankCipher vietQR references
            (map providerDescriptor registry),
          api_registry = registry, api_webhookSecret = cfg_TelegramWebhookSecret cfg,
          api_webhookBodyLimit = cfg_TelegramWebhookBodyLimit cfg, api_webhookTimeout = cfg_TelegramWebhookTimeout cfg,
          api_eventMaxAttempts = cfg_PaymentEventMaxAttempts cfg, api_paymentBodyLimit = cfg_PaymentWebhookBodyLimit cfg,
          api_paymentTimeout = cfg_PaymentEventRunTimeout cfg, api_HTTPAddr = cfg_HTTPAddr cfg,
          api_PrometheusEnabled = cfg_PrometheusEnabled cfg\<rparr>)"

text \<open>\<open>opened\<close> is the error of \<open>postgres.Open\<close>; the administrators are stored before anything else is built.\<close>

definition api_setup ::
  "go_lib \<Rightarrow> primitives \<Rightarrow> api_world \<Rightarrow> Router \<Rightarrow> error option \<Rightarrow> error option \<Rightarrow> Config \<Rightarrow> ((string \<times> error) + Api) dbtx" where
  "api_setup lib prims x base opened newClient cfg =
     (case opened of Some e \<Rightarrow> returnE (Inl ([], e)) | None \<Rightarrow>
      bindE (attempt (AdminService_Bootstrap (cfg_AdminTelegramIDs cfg))) (\<lambda>result. case result of
        Inl e \<Rightarrow> returnE (Inl (''bootstrap administrators'', e))
      | Inr _ \<Rightarrow> returnE (api_services lib prims x base newClient cfg)))"

section \<open>Starting the API\<close>

lemma template_safe: "validVietQRTemplate t \<Longrightarrow> safeTemplate t"
  unfolding validVietQRTemplate_def safeTemplate_def Let_def
  by (auto simp: isUpperLetter_def isDigitChar_def byteIn_def list_all_iff)

lemma signed_json_starts:
  assumes "validEnvironment (cfg_PaymentProviderEnvironment cfg)" "cfg_PaymentProviderEnvironment cfg \<noteq> ''production''"
    and "TrimSpace (cfg_SignedJSONWebhookSecret cfg) \<noteq> []" "0 < cfg_SignedJSONTimestampTolerance cfg"
  shows "\<exists>sj. NewSignedJSONForEnvironment (cfg_SignedJSONWebhookSecret cfg) (cfg_SignedJSONTimestampTolerance cfg)
      (cfg_PaymentProviderEnvironment cfg) True = Inr sj \<and> sj_secret sj = cfg_SignedJSONWebhookSecret cfg \<and>
    sj_tolerance sj = cfg_SignedJSONTimestampTolerance cfg \<and> sj_enabled sj \<and>
    sj_environment sj = cfg_PaymentProviderEnvironment cfg"
  using assms by (simp add: NewSignedJSONForEnvironment_def NewSignedJSON_def)

lemma provider_name_valid: "validProviderName ''signed_json''"
  by code_simp

lemma distinct_singleton: "distinct xs \<Longrightarrow> (\<forall>x \<in> set xs. x = a) \<Longrightarrow> xs = [] \<or> xs = [a]"
  by (cases xs; cases "tl xs") auto

text \<open>The registry has the signed JSON provider with the configured secret if it is listed, and is empty otherwise.\<close>

definition guardedRegistry :: "Config \<Rightarrow> api_world \<Rightarrow> provider list \<Rightarrow> bool" where
  "guardedRegistry cfg x registry \<longleftrightarrow>
     (if ''signed_json'' \<in> set (cfg_PaymentProviders cfg)
      then \<exists>sj. registry = [signedJSONProvider (aw_crypto x) (aw_unmarshal x) (aw_rfc3339 x) (aw_now x) sj] \<and>
        sj_enabled sj \<and> sj_secret sj = cfg_SignedJSONWebhookSecret cfg \<and> 16 \<le> length (sj_secret sj) \<and>
        sj_tolerance sj = cfg_SignedJSONTimestampTolerance cfg \<and> sj_environment sj \<in> {''development'', ''test''}
      else registry = [])"

lemma registry_starts:
  assumes "load lib env processAPI = Inr cfg" "moderate env"
  shows "\<exists>adapters registry. providerAdapters x cfg (cfg_PaymentProviders cfg) = Inr adapters \<and>
     NewProviderRegistry adapters = Inr registry \<and>
     guardedRegistry cfg x registry"
proof -
  have problems: "providerProblems lib cfg = []"
    using loaded_validated [OF assms(1)] by (simp add: validate_def apiProblems_def)
  then have names: "\<forall>p \<in> set (cfg_PaymentProviders cfg). p = ''signed_json'' \<and> 16 \<le> length (cfg_SignedJSONWebhookSecret cfg)"
    by (auto simp: providerProblems_def not_less)
  have "distinct (cfg_PaymentProviders cfg)" and secret: "TrimSpace (cfg_SignedJSONWebhookSecret cfg) = cfg_SignedJSONWebhookSecret cfg"
    using loaded_plain [OF assms(1)] by (simp_all add: plain_settings_def)
  with names consider "cfg_PaymentProviders cfg = []" | "cfg_PaymentProviders cfg = [''signed_json'']"
    using distinct_singleton by metis
  then show ?thesis
  proof cases
    case 2
    with problems have np: "cfg_PaymentProviderEnvironment cfg \<noteq> ''production''"
      by (simp add: providerProblems_def containsString_def)
    note env = loaded_ranges(13) [OF assms(1)]
    from 2 names secret have "TrimSpace (cfg_SignedJSONWebhookSecret cfg) \<noteq> []" by auto
    from signed_json_starts [OF env np this loaded_durations(13) [OF assms]] obtain sj where
      sj: "NewSignedJSONForEnvironment (cfg_SignedJSONWebhookSecret cfg) (cfg_SignedJSONTimestampTolerance cfg)
        (cfg_PaymentProviderEnvironment cfg) True = Inr sj" and f: "sj_secret sj = cfg_SignedJSONWebhookSecret cfg"
        "sj_tolerance sj = cfg_SignedJSONTimestampTolerance cfg" "sj_enabled sj"
        "sj_environment sj = cfg_PaymentProviderEnvironment cfg" by blast
    from env np f names 2 sj show ?thesis
      by (auto simp: guardedRegistry_def NewProviderRegistry_def signedJSONProvider_def provider_name_valid validEnvironment_def)
  qed (simp add: guardedRegistry_def NewProviderRegistry_def)
qed

text \<open>Validation leaves nothing for the fallbacks of the services to change.\<close>

lemma configured_sizes:
  assumes "load lib env processAPI = Inr cfg"
  shows "servicePageSize (cfg_OrderPageSize cfg) = cfg_OrderPageSize cfg"
    "servicePageSize (cfg_BankAccountPageSize cfg) = cfg_BankAccountPageSize cfg"
    "servicePageSize (cfg_PaymentReviewPageSize cfg) = cfg_PaymentReviewPageSize cfg"
    "servicePageSize (cfg_DeliveryReviewPageSize cfg) = cfg_DeliveryReviewPageSize cfg"
    "servicePageSize (cfg_PaymentProviderReviewPageSize cfg) = cfg_PaymentProviderReviewPageSize cfg"
    "WithDeliveryMaxAttempts (cfg_DeliveryMaxAttempts cfg) = cfg_DeliveryMaxAttempts cfg"
    "WithPaymentEnvironment (cfg_PaymentProviderEnvironment cfg) = cfg_PaymentProviderEnvironment cfg"
proof -
  have p: "0 < cfg_OrderPageSize cfg" "0 < cfg_BankAccountPageSize cfg" "0 < cfg_PaymentReviewPageSize cfg"
    "0 < cfg_DeliveryReviewPageSize cfg" "0 < cfg_PaymentProviderReviewPageSize cfg"
    using loaded_positive [OF assms] unfolding positive_settings_def by blast+
  have "\<not> cfg_OrderPageSize cfg > 20" "\<not> cfg_BankAccountPageSize cfg > 20" "\<not> cfg_PaymentReviewPageSize cfg > 20"
    "\<not> cfg_DeliveryReviewPageSize cfg > 20" "\<not> cfg_PaymentProviderReviewPageSize cfg > 20"
    using loaded_validated [OF assms]
    unfolding validate_def apiProblems_def sharedProblems_def append_is_Nil_conv problem_Nil if_True simp_thms by blast+
  with p show "servicePageSize (cfg_OrderPageSize cfg) = cfg_OrderPageSize cfg"
    "servicePageSize (cfg_BankAccountPageSize cfg) = cfg_BankAccountPageSize cfg"
    "servicePageSize (cfg_PaymentReviewPageSize cfg) = cfg_PaymentReviewPageSize cfg"
    "servicePageSize (cfg_DeliveryReviewPageSize cfg) = cfg_DeliveryReviewPageSize cfg"
    "servicePageSize (cfg_PaymentProviderReviewPageSize cfg) = cfg_PaymentProviderReviewPageSize cfg"
    by (simp_all add: servicePageSize_def MaxPageSize_def)
  show "WithDeliveryMaxAttempts (cfg_DeliveryMaxAttempts cfg) = cfg_DeliveryMaxAttempts cfg"
    using loaded_ranges(3) [OF assms] by (simp add: WithDeliveryMaxAttempts_def)
  show "WithPaymentEnvironment (cfg_PaymentProviderEnvironment cfg) = cfg_PaymentProviderEnvironment cfg"
    using loaded_ranges(13) [OF assms] by (auto simp: WithPaymentEnvironment_def validPaymentEnvironment_def validEnvironment_def)
qed

lemma generators_start:
  assumes "load lib env processAPI = Inr cfg"
  shows "\<exists>g. NewGenerator (lb_url_Parse lib) (cfg_VietQRBaseURL cfg) (cfg_VietQRTemplate cfg) = Inr g"
    "\<exists>g. NewPaymentReferenceGenerator (lb_unicode lib) (cfg_PaymentReferencePrefix cfg) (cfg_PaymentReferenceRandomBytes cfg) = Inr g"
proof -
  from loaded_validated [OF assms] obtain u where
    "lb_url_Parse lib (cfg_VietQRBaseURL cfg) = Some u" "url_Scheme u = ''https''" "url_Host u \<noteq> []"
    "validVietQRTemplate (cfg_VietQRTemplate cfg)"
    by (auto simp: validate_def apiProblems_def split: option.splits)
  moreover have "TrimSpace (cfg_VietQRBaseURL cfg) = cfg_VietQRBaseURL cfg"
    using loaded_plain [OF assms] by (simp add: plain_settings_def)
  ultimately show "\<exists>g. NewGenerator (lb_url_Parse lib) (cfg_VietQRBaseURL cfg) (cfg_VietQRTemplate cfg) = Inr g"
    by (simp add: NewGenerator_def template_safe)
  show "\<exists>g. NewPaymentReferenceGenerator (lb_unicode lib) (cfg_PaymentReferencePrefix cfg) (cfg_PaymentReferenceRandomBytes cfg) = Inr g"
    using loaded_ranges(11) [OF assms] prefix_safe [OF loaded_ranges(12) [OF assms]]
    by (simp add: NewPaymentReferenceGenerator_def Let_def)
qed

text \<open>
  The services work with the configured values, each with its own: the router, the orders, the top-ups, the import, the
  two webhooks and the server.
\<close>

definition honoursSettings :: "Config \<Rightarrow> Api \<Rightarrow> bool" where
  "honoursSettings cfg a \<longleftrightarrow>
     rt_orders (api_Router a) = \<lparr>oc_expiry = cfg_OrderExpiry cfg, oc_maxQuantity = cfg_OrderMaxQuantity cfg,
       oc_pageSize = cfg_OrderPageSize cfg, oc_paymentEnvironment = cfg_PaymentProviderEnvironment cfg\<rparr> \<and>
     rt_topupMin (api_Router a) = cfg_WalletTopupMinAmount cfg \<and>
     rt_topupMax (api_Router a) = cfg_WalletTopupMaxAmount cfg \<and>
     rt_topupExpiry (api_Router a) = cfg_WalletTopupExpiry cfg \<and>
     rt_importLimits (api_Router a) = \<lparr>MaxItems = cfg_InventoryImportMaxItems cfg,
       MaxItemBytes = cfg_InventoryImportMaxItemBytes cfg, MaxTotalBytes = cfg_InventoryImportMaxTotalBytes cfg\<rparr> \<and>
     rt_staleAfter (api_Router a) = cfg_TelegramUpdateStaleAfter cfg \<and>
     rt_sessionTTL (api_Router a) = cfg_AdminSessionTTL cfg \<and>
     rt_paymentEnvironment (api_Router a) = cfg_PaymentProviderEnvironment cfg \<and>
     rt_bankPageSize (api_Router a) = cfg_BankAccountPageSize cfg \<and>
     rt_reviewPageSize (api_Router a) = cfg_PaymentReviewPageSize cfg \<and>
     rt_deliveryPageSize (api_Router a) = cfg_DeliveryReviewPageSize cfg \<and>
     rt_providerPageSize (api_Router a) = cfg_PaymentProviderReviewPageSize cfg \<and>
     rt_deliveryMaxAttempts (api_Router a) = cfg_DeliveryMaxAttempts cfg \<and>
     rt_processingLease (api_Router a) = cfg_DeliveryProcessingLease cfg \<and>
     rt_supportContact (api_Router a) = cfg_SupportContact cfg \<and>
     api_webhookSecret a = cfg_TelegramWebhookSecret cfg \<and>
     api_webhookBodyLimit a = cfg_TelegramWebhookBodyLimit cfg \<and> api_webhookTimeout a = cfg_TelegramWebhookTimeout cfg \<and>
     api_paymentBodyLimit a = cfg_PaymentWebhookBodyLimit cfg \<and> api_paymentTimeout a = cfg_PaymentEventRunTimeout cfg \<and>
     api_eventMaxAttempts a = cfg_PaymentEventMaxAttempts cfg \<and>
     api_HTTPAddr a = cfg_HTTPAddr cfg \<and> api_PrometheusEnabled a = cfg_PrometheusEnabled cfg"

text \<open>Stock and bank accounts are encrypted under the configured keys, references and QR codes made from the configured parts.\<close>

definition honoursKeys :: "go_lib \<Rightarrow> primitives \<Rightarrow> api_world \<Rightarrow> Config \<Rightarrow> Api \<Rightarrow> bool" where
  "honoursKeys lib prims x cfg a \<longleftrightarrow>
     (\<exists>ic. inventory_New prims (cfg_InventoryEncryptionKey cfg) (cfg_InventoryEncryptionKeyVersion cfg) = Inr ic \<and>
        (\<forall>product payload. rt_protectInventory (api_Router a) product payload =
           inventory_Protect prims None (aw_inventoryNonce x product payload) ic product payload)) \<and>
     (\<exists>bc q. bank_New prims (cfg_BankAccountEncryptionKey cfg) (cfg_BankAccountEncryptionVersion cfg) = Inr bc \<and>
        NewGenerator (lb_url_Parse lib) (cfg_VietQRBaseURL cfg) (cfg_VietQRTemplate cfg) = Inr q \<and>
        (\<forall>bin number. rt_protectBank (api_Router a) bin number =
           bank_Protect prims False (aw_bankNonce x bin number) bc bin number) \<and>
        rt_orderInstruction (api_Router a) = OrderService_instruction (bankDecrypt prims bc)
          (Generator_Generate (aw_pathJoin x) (aw_urlString x) q None) \<and>
        rt_topupInstruction (api_Router a) = topup_instruction (bankDecrypt prims bc)
          (Generator_Generate (aw_pathJoin x) (aw_urlString x) q None)) \<and>
     (\<exists>g. NewPaymentReferenceGenerator (lb_unicode lib) (cfg_PaymentReferencePrefix cfg)
          (cfg_PaymentReferenceRandomBytes cfg) = Inr g \<and>
        (\<forall>n. rt_references (api_Router a) n = Generate (lb_unicode lib) (aw_referenceBytes x n) g) \<and>
        rt_topupReference (api_Router a) = Generate (lb_unicode lib) (aw_topupBytes x) g)"

definition honours :: "go_lib \<Rightarrow> primitives \<Rightarrow> api_world \<Rightarrow> Config \<Rightarrow> Api \<Rightarrow> bool" where
  "honours lib prims x cfg a \<longleftrightarrow>
     honoursSettings cfg a \<and> honoursKeys lib prims x cfg a \<and> guardedRegistry cfg x (api_registry a) \<and>
     0 < rt_topupMin (api_Router a) \<and> rt_topupMin (api_Router a) \<le> rt_topupMax (api_Router a) \<and>
     16 \<le> length (api_webhookSecret a)"

lemma api_guards:
  assumes "load lib env processAPI = Inr cfg"
  shows "0 < cfg_WalletTopupMinAmount cfg" "cfg_WalletTopupMinAmount cfg \<le> cfg_WalletTopupMaxAmount cfg"
    "16 \<le> length (cfg_TelegramWebhookSecret cfg)"
    "length (cfg_InventoryEncryptionKey cfg) = 32" "0 < cfg_InventoryEncryptionKeyVersion cfg"
    "length (cfg_BankAccountEncryptionKey cfg) = 32" "0 < cfg_BankAccountEncryptionVersion cfg"
proof -
  show "0 < cfg_WalletTopupMinAmount cfg" using loaded_positive [OF assms] by (simp add: positive_settings_def)
  show "cfg_WalletTopupMinAmount cfg \<le> cfg_WalletTopupMaxAmount cfg"
    "length (cfg_InventoryEncryptionKey cfg) = 32" "0 < cfg_InventoryEncryptionKeyVersion cfg"
    "length (cfg_BankAccountEncryptionKey cfg) = 32" "0 < cfg_BankAccountEncryptionVersion cfg"
    using loaded_validated [OF assms] by (simp_all add: validate_def apiProblems_def)
  show "16 \<le> length (cfg_TelegramWebhookSecret cfg)"
    using loaded_validated [OF assms] by (auto simp: validate_def webhookProblems_def requiredProblems_def)
qed

lemma services_start:
  assumes "load lib env processAPI = Inr cfg" "moderate env"
    and hkdf: "\<forall>m info. length m = 32 \<longrightarrow> (\<exists>k. hkdf_Key prims m info 32 = Some k)"
  shows "\<exists>a. api_services lib prims x base None cfg = Inr a \<and> honours lib prims x cfg a"
proof -
  note g = api_guards [OF assms(1)]
  from cipher_starts(1) [OF g(4,5) hkdf]
  obtain ic where ic: "inventory_New prims (cfg_InventoryEncryptionKey cfg) (cfg_InventoryEncryptionKeyVersion cfg) = Inr ic" ..
  from cipher_starts(2) [OF g(6,7) hkdf]
  obtain bc where bc: "bank_New prims (cfg_BankAccountEncryptionKey cfg) (cfg_BankAccountEncryptionVersion cfg) = Inr bc" ..
  from generators_start(1) [OF assms(1)]
  obtain q where q: "NewGenerator (lb_url_Parse lib) (cfg_VietQRBaseURL cfg) (cfg_VietQRTemplate cfg) = Inr q" ..
  from generators_start(2) [OF assms(1)] obtain rg where
    rg: "NewPaymentReferenceGenerator (lb_unicode lib) (cfg_PaymentReferencePrefix cfg) (cfg_PaymentReferenceRandomBytes cfg) = Inr rg" ..
  from registry_starts [OF assms(1,2), of x] obtain ads reg where
    ads: "providerAdapters x cfg (cfg_PaymentProviders cfg) = Inr ads" "NewProviderRegistry ads = Inr reg"
    and "guardedRegistry cfg x reg" by blast
  then show ?thesis
    by (simp add: api_services_def ic bc q rg ads honours_def honoursSettings_def honoursKeys_def api_router_def
        configured_sizes [OF assms(1)] g(1-3) WithProcessingLease_def loaded_durations(1) [OF assms(1,2)])
qed


section \<open>A configuration of the API\<close>

definition api_env :: "string \<Rightarrow> string" where
  "api_env name =
     (case map_of [(''DATABASE_URL'', ''postgres://db''), (''TELEGRAM_BOT_TOKEN'', ''token''),
        (''TELEGRAM_WEBHOOK_SECRET'', ''0123456789abcdef''), (''TELEGRAM_WEBHOOK_URL'', ''https://shop.example/tg''),
        (''INVENTORY_ENCRYPTION_KEY'', ''AAAAAAAAAAAAAAAAAAAAAAAAAAAAAAAAAAAAAAAAAAA=''),
        (''BANK_ACCOUNT_ENCRYPTION_KEY'', ''AAAAAAAAAAAAAAAAAAAAAAAAAAAAAAAAAAAAAAAAAAA=''),
        (''ADMIN_TELEGRAM_IDS'', ''42, 7''), (''PAYMENT_PROVIDERS'', ''signed_json''),
        (''SIGNED_JSON_WEBHOOK_SECRET'', ''fedcba9876543210''), (''SUPPORT_CONTACT'', ''Ask us'')] name of
        None \<Rightarrow> [] | Some value \<Rightarrow> value)"

definition api_config :: Config where
  "api_config = (defaultConfig demo_lib api_env)\<lparr>cfg_InventoryEncryptionKey := replicate 32 (CHR 0x00),
     cfg_BankAccountEncryptionKey := replicate 32 (CHR 0x00), cfg_AdminTelegramIDs := [42, 7],
     cfg_PaymentProviders := [''signed_json''], cfg_SignedJSONWebhookSecret := ''fedcba9876543210''\<rparr>"

lemma api_parses:
  "parseAdminIDs demo_lib ''42, 7'' = Inr [42, 7]" "parsePaymentProviders demo_lib ''signed_json'' = Inr [''signed_json'']"
  "parseEncryptionKey [] = Inr []" "TrimSpace ''signed_json'' = ''signed_json''"
  "TrimSpace ''fedcba9876543210'' = ''fedcba9876543210''" "TrimSpace ''0123456789abcdef'' = ''0123456789abcdef''"
  "TrimSpace ''https://shop.example/tg'' = ''https://shop.example/tg''" "validVietQRTemplate ''compact2''"
  by code_simp+

lemma demo_urls:
  "lb_url_Parse demo_lib t = Some \<lparr>url_Scheme = ''https'', url_Host = ''img.vietqr.io'', url_Path = ''/image/'', url_Query = []\<rparr>"
  "lb_url_ParseRequestURI demo_lib t = Some \<lparr>url_Scheme = ''https'', url_Host = ''shop.example'', url_Path = ''/tg'', url_Query = []\<rparr>"
  by (simp_all add: demo_lib_def)

lemma api_settings_loaded: "settingsOf demo_lib api_env processAPI = ([], api_config)"
  unfolding settingsOf_def commonSettings_def apiSettings_def
  by (simp add: assign_def setting_def api_env_def defaultConfig_def api_config_def providerList_def envOrDefault_def
      blank_parses blank_durations demo_parses api_parses)

lemma api_values:
  "api_env ''DATABASE_URL'' = ''postgres://db''" "api_env ''TELEGRAM_BOT_TOKEN'' = ''token''"
  "api_env ''TELEGRAM_WEBHOOK_SECRET'' = ''0123456789abcdef''" "api_env ''TELEGRAM_WEBHOOK_URL'' = ''https://shop.example/tg''"
  "envOrDefault api_env ''APP_ENV'' d = d" "envOrDefault api_env ''HTTP_ADDR'' d = d"
  "envOrDefault api_env ''SUPPORT_CONTACT'' d = ''Ask us''"
  by (simp_all add: api_env_def envOrDefault_def demo_texts)

lemma api_validated: "validate demo_lib api_config processAPI = []"
  unfolding validate_def requiredProblems_def webhookProblems_def apiProblems_def providerProblems_def sharedProblems_def
  by (simp add: api_config_def default_settings api_values containsString_def demo_urls demo_texts demo_parses api_parses
      goSeconds_def goMinutes_def del: runeCount.simps)

lemma api_loaded: "LoadAPI demo_lib api_env = Inr api_config"
  by (simp add: LoadAPI_def load_def api_settings_loaded api_validated)

lemma api_moderate: "moderate api_env"
  by code_simp


end
