(* ===== verification/Spec2Isabelle.thy ===== *)
theory Spec2Isabelle
  imports Refusals Evolution Router_Buttons Api_Process
begin

text \<open>
  A verification development for the Telegram shop bot: a Go program that sells digital goods
  (keys, accounts) over Telegram. Customers place orders and pay by bank transfer or from a
  wallet; a worker takes paid orders from a queue in PostgreSQL, decrypts the reserved stock and sends it
  by Telegram message; administrators resolve what cannot be decided automatically.

  \<^bold>\<open>How the program is modelled.\<close> The state is the database: the record \<open>db\<close> of
  theory \<open>Database\<close> has one list of rows per table (the row types follow
  \<open>internal/postgres/generated/models.go\<close>), the identity sequences and the clock. A function of
  the program that talks to the database is a value of type \<open>'a dbtx\<close>, a state-passing function that
  returns an error or a result (theory \<open>Prelude\<close>: \<open>bindE\<close>, \<open>throwE\<close>, \<open>attempt\<close>, and
  \<open>WithinTransaction\<close>, which undoes the tables on an error as \<open>internal/postgres/transaction.go\<close> does). SQL
  statements check the CHECK and UNIQUE constraints of \<open>migrations/\<close>; \<open>FOR UPDATE SKIP LOCKED\<close> is a
  predicate \<open>skip\<close> on ids, an argument of every query that uses it, so that a statement holds whatever
  other transactions have locked. Integers are \<open>int\<close> with the bounds of \<open>int64\<close> and the
  wrap-around written out (\<open>wrap64\<close>, \<open>go_div\<close>) where the program computes; times and durations are
  integers. Strings are byte lists.

  \<^bold>\<open>Theories and sources.\<close>
  \<^item> \<open>Money\<close>, \<open>Domain_Status\<close>: \<open>internal/domain/\<close>, the arithmetic of amounts and the state machines.
  \<^item> \<open>Database\<close>, \<open>Sql_Orders\<close>, \<open>Sql_Inventory\<close>, \<open>Sql_Wallet\<close>, \<open>Sql_Payments\<close>, \<open>Sql_Delivery\<close>:
    rows, constraints and the queries of \<open>internal/postgres/generated/\<close>, one definition per query, with the query's name.
  \<^item> \<open>Admin_Access\<close>: authorization and session guards of \<open>admin_store.go\<close>.
  \<^item> \<open>Inventory_Store\<close>, \<open>Wallet_Store\<close>, \<open>Payment_Acceptance\<close>, \<open>Order_Service\<close>, \<open>Delivery_Store\<close>,
    \<open>Delivery_Service\<close>, \<open>Reconciliation\<close>: the transactions of \<open>internal/postgres/*_store.go\<close> with the services of
    \<open>internal/app/\<close> that call them.
  \<^item> \<open>Go_Text\<close>: what the program uses of Go's text functions (UTF-8, escaping, splitting, reading integers).
  \<^item> \<open>Telegram_Parser\<close>: \<open>internal/telegram/parser.go\<close>, commands and the callback data of buttons.
  \<^item> \<open>Payment_Reference\<close>: \<open>payment_reference.go\<close> and \<open>payment_reference_extractor.go\<close>, references made and found in
    transfer texts.
  \<^item> \<open>Sql_Catalog\<close>, \<open>Sql_Providers\<close>: the queries of the back office.
  \<^item> \<open>Desk\<close>: update receipts, users, administrators and their sessions (\<open>update_service.go\<close>, \<open>user_service.go\<close>,
    \<open>admin_service.go\<close>, \<open>app_store.go\<close>, \<open>admin_store.go\<close>). \<open>Catalog_Admin\<close>: categories and products.
    \<open>Stock_Admin\<close>: bank accounts, the import of stock and its listings.
  \<^item> \<open>Payment_Events\<close>: ingestion of provider events and the worker that accepts or reviews them.
    \<open>Payment_Providers\<close>: the registry, the signed JSON webhook and its HTTP handler. \<open>Provider_Reconciliation\<close>: leased
    checkpoints, polling, and the administration of account mappings.
  \<^item> \<open>Review_Desk\<close>: the listings and manual decisions of \<open>delivery_admin_service.go\<close> and \<open>payment_admin_service.go\<close>.
    \<open>Ciphers\<close>: \<open>inventorycrypto\<close> and \<open>bankcrypto\<close> over given primitives. \<open>Telegram_Client\<close>: the delivery call, the
    errors of the other calls and the webhook of updates.
  \<^item> \<open>Payment_Instruction\<close>: \<open>vietqr/generator.go\<close> and the instructions of orders and top-ups. \<open>Telegram_View\<close>:
    \<open>view.go\<close>, the screens. \<open>Router_Base\<close>, \<open>Router_Callbacks\<close>, \<open>Telegram_Router\<close>: \<open>router.go\<close>, its plans and the payload of
    conversations, one definition per case of the switch over buttons, then commands, conversations and \<open>Process\<close>.
  \<^item> \<open>Config_Values\<close>, \<open>Configuration\<close>: \<open>internal/config/config.go\<close>, the parsers of environment variables, the settings and
    their validation. \<open>Worker_Process\<close>: \<open>internal/worker/runner.go\<close> and the wiring of \<open>cmd/worker/main.go\<close>. \<open>Api_Process\<close>: the
    wiring of \<open>cmd/api/main.go\<close> up to its HTTP server.

  \<^bold>\<open>The system.\<close> \<open>Statements\<close> has the database's single statements as an inductive relation \<open>stmt\<close> and the
  schema as an invariant of them; \<open>Progress\<close> shows that every transaction is a sequence of
  statements. \<open>Shop_System\<close> has \<open>shop_step\<close>, one rule per entry point and per step of the environment, with
  \<open>reachable\<close> states, and the locales \<open>store_invariant\<close> and \<open>store_relation\<close> that lift a fact about
  single statements to every run; \<open>Evolution\<close> interprets them. Transactions are atomic steps, which is the
  isolation the program asks of PostgreSQL (row locks and guarded updates); the delivery worker is cut at its
  transactions, so that other entry points run in between.

  \<^bold>\<open>The specification.\<close> \<open>Shop_Spec\<close> is an abstract shop: for each order a case file (status, trail,
  price, quantity, job, stock, money), for each wallet a balance and a ledger sum, for each top-up its status and
  money, with a step relation \<open>spec_step\<close> and an invariant \<open>shop_ok\<close>. \<open>Shop_View\<close> is the abstraction
  function; \<open>Triples\<close> a small Hoare logic for \<open>dbtx\<close>; \<open>Shop_Queries\<close>, \<open>Stock_Queries\<close>, \<open>Queue_Queries\<close>
  the functional refinement of single queries; \<open>Settlement\<close>, \<open>Wallet_Refinement\<close>, \<open>Order_Refinement\<close>,
  \<open>Delivery_Refinement\<close> that of the transactions; \<open>Shop_Refinement\<close> the simulation (locale \<open>simulation\<close>). This theory
  and \<open>Contracts\<close> read the program's guarantees off it, \<open>Refusals\<close> what each error of a refused order says. \<open>Sample_Run\<close> and \<open>Sample_Outcomes\<close> evaluate concrete runs inside
  the logic, for the witnesses.

  \<^bold>\<open>The back office.\<close> \<open>Back_Office\<close> has the transition system \<open>office_step\<close>, one rule per entry point of the desk,
  the administration, the webhook and the reconciliation, and shows each of them to be a run of the environment's steps
  of \<open>shop_step\<close>, so that all of the above holds while they run. \<open>Inbox\<close> has the guarantees of the inbox: events
  are stored once, webhooks are authentic, the event worker moves money only for matched transfers, updates do
  not get stuck.

  \<^bold>\<open>The front end.\<close> \<open>Front_End\<close> shows that processing an update is a run of \<open>shop_step\<close> and that the effect of an update
  and the completion of its receipt are committed together. \<open>Router_Guarantees\<close> reads off that an update takes effect at
  most once, is answered only where it came from, and that the buttons of the administration fail for everybody else;
  \<open>Router_Buttons\<close> that the parser understands every button of the screens that fits Telegram's limit, except those of the payment
  providers (\<open>v1:a:q...\<close>), which it rejects.

  \<^bold>\<open>The processes.\<close> \<open>Configuration\<close> shows what an accepted configuration is like (positive numbers, trimmed text,
  durations that did not wrap around) by an invariant that the defaults have and every assignment keeps, and what is
  refused. \<open>Worker_Process\<close> shows that the worker, through any sequence of ticks, is a run of \<open>shop_step\<close> that reports
  every pass, and that an accepted configuration starts it; \<open>Api_Process\<close> the same for the services of the API.

  \<^bold>\<open>Bounds.\<close> There is no fuel: loops are structural recursions (the eight attempts of
  \<open>createLoop\<close> are the program's own bound \<open>paymentReferenceAttempts\<close>) or functions with a termination proof.

  \<^bold>\<open>Not modelled.\<close> Foreign keys, \<open>updated_at\<close> columns and commit failures; logging, metrics and timeouts;
  the HTTP server apart from its two webhooks, the connection pool, signals and shutdown, which are input and
  output; the panics that the worker's passes recover from; the floating-point jitter of the
  retry delay, the primitives of \<open>crypto/*\<close>, \<open>encoding/json\<close> readers, time formats and Unicode tables, which are
  arguments of the definitions that use them.
\<close>

section \<open>The system refines the shop\<close>

text \<open>
  C1. Refinement. Whatever entry point runs, with whatever arguments and whatever its outcome, its
  effect on the orders, the stock, the money and the delivery queue is a run of the abstract shop:
  the transactions implement the specification steps and do nothing else.
\<close>

theorem system_refines_shop:
  assumes "reachable s" "shop_step s s'"
  shows "spec_step\<^sup>*\<^sup>* (view s) (view s') \<and> shop_ok (view s')"
  using shop_step_refines [OF assms(2) reachable_schema [OF assms(1)] reachable_ok [OF assms(1)]]
    reachable_ok [OF reachable_step [OF assms]] by simp

lemma d_delivery_step: "shop_step d_sending d_delivered"
  unfolding d_delivered_def by (rule sh_success [OF prod.collapse [symmetric]])

theorem system_refines_shop_witness:
  "reachable d_sending \<and> shop_step d_sending d_delivered \<and> spec_step\<^sup>*\<^sup>* (view d_sending) (view d_delivered) \<and>
   map ord_status (orders d_sending) = [OrderStatusDelivering] \<and>
   map ord_status (orders d_delivered) = [OrderStatusDelivered]"
  using system_refines_shop [OF d_sending_reachable d_delivery_step] d_sending_reachable d_delivery_step
    d_delivered_rows(1)
  by (simp add: d_sending_eval)

section \<open>Orders, money and stock\<close>

text \<open>
  C2. An order that is delivered was paid in full, once, and its customer got exactly the quantity
  ordered: one allocation of the total, as many sold items as the order lists, nothing still
  reserved, and a completed delivery job.
\<close>

theorem delivered_means_paid_and_served:
  assumes "reachable s" "x \<in> set (orders s)" "ord_status x = OrderStatusDelivered"
  shows "allocationsOf ''order'' (ord_id x) (payment_allocations s) = [ord_total_vnd x] \<and>
    countRows (soldTo (ord_id x)) (inventory_items s) = sum_list (map oit_quantity (itemsOf s (ord_id x))) \<and>
    \<not> (\<exists>i \<in> set (inventory_items s). reservedFor (ord_id x) i) \<and>
    (\<exists>j \<in> set (deliveryJobs s). job_delivery_order_id j = Some (ord_id x) \<and> job_status j = DeliveryJobCompleted)"
  using delivered_rows [OF assms] by blast

theorem delivered_means_paid_and_served_witness:
  "\<exists>x \<in> set (orders d_delivered). ord_status x = OrderStatusDelivered \<and>
     allocationsOf ''order'' (ord_id x) (payment_allocations d_delivered) = [50000] \<and>
     countRows (soldTo (ord_id x)) (inventory_items d_delivered) = 1"
proof -
  obtain x where x: "orders d_delivered = [x]" "ord_status x = OrderStatusDelivered" "ord_total_vnd x = 50000"
      "map oit_quantity (itemsOf d_delivered (ord_id x)) = [1]"
    by (simp add: d_delivered_eval itemsOf_def)
  then show ?thesis
    using delivered_means_paid_and_served [OF d_delivered_reachable, of x] by simp
qed

text \<open>
  C3. The delivery reconciliation report finds nothing wrong: in every reachable state the seven
  counters of inconsistencies between orders, jobs and stock are zero, whatever the cut-off for stale jobs.
\<close>

theorem delivery_reconciliation_consistent:
  assumes "reachable s" "ReconciliationService_RunDelivery cutoff s = (Inr r, s')"
  shows "s' = s \<and> DeliveringWithoutJob r = 0 \<and> ActiveJobWrongOrderState r = 0 \<and>
    CompletedJobOrderNotDelivered r = 0 \<and> DeliveredInventoryMismatch r = 0 \<and>
    SoldWithoutCompletedJob r = 0 \<and> DeliveredOrderReservedInventory r = 0 \<and> MultipleActiveJobs r = 0"
proof -
  have r: "s' = s" "(Inr r, s) = CountDeliveryReconciliationAnomalies cutoff s"
    using assms(2) by (auto simp: ReconciliationService_RunDelivery_def CountDeliveryReconciliationAnomalies_def askE_def
        split: if_splits)
  show ?thesis
    using delivery_counts_zero [OF assms(1), of cutoff] r by simp
qed

theorem delivery_reconciliation_consistent_witness:
  "\<exists>r. ReconciliationService_RunDelivery 1400 d_delivered = (Inr r, d_delivered) \<and> DeliveryReconciliation_Clean r"
proof -
  obtain r where r: "ReconciliationService_RunDelivery 1400 d_delivered = (Inr r, d_delivered)"
    "StaleProcessing r = 0" "AmbiguousWithoutReview r = 0" "SuccessEvidenceNotCompleted r = 0"
    by (simp add: ReconciliationService_RunDelivery_def CountDeliveryReconciliationAnomalies_def askE_def countRows_def
        deliveryJobs_def d_delivered_eval)
  then show ?thesis
    using delivery_reconciliation_consistent [OF d_delivered_reachable, of 1400]
    by (auto simp: DeliveryReconciliation_Clean_def)
qed

text \<open>
  C4. Money is conserved: in every reachable state each wallet's balance is the sum of its ledger
  entries, non-negative and within 64 bits, and the financial reconciliation counts neither a wallet
  whose balance disagrees with its ledger nor an order holding the wrong number of items.
\<close>

theorem wallet_balance_is_ledger_sum:
  assumes "reachable s" "ReconciliationService_Run s = (Inr r, s')"
  shows "s' = s \<and> WalletBalanceMismatches r = 0 \<and> ReservationCountMismatches r = 0 \<and>
    (\<forall>w \<in> set (wallet_accounts s). wal_balance_vnd w =
       sum_list (map led_amount_vnd (filter (\<lambda>l. led_account_id l = wal_id w) (wallet_ledger s))) \<and>
       0 \<le> wal_balance_vnd w \<and> wal_balance_vnd w \<le> MaxInt64)"
proof -
  note run = assms(2) [unfolded ReconciliationService_Run_def GetFinancialReconciliation_def askE_def prod.inject sum.inject]
  note r = run [THEN conjunct1, symmetric]
  have balances: "wal_balance_vnd w = sum_list (map led_amount_vnd (filter (\<lambda>l. led_account_id l = wal_id w) (wallet_ledger s))) \<and>
      0 \<le> wal_balance_vnd w \<and> wal_balance_vnd w \<le> MaxInt64" if "w \<in> set (wallet_accounts s)" for w
    using wallet_rows [OF assms(1) that] by (simp add: ledgerOf_def is_int64_def)
  moreover have "WalletBalanceMismatches r = 0"
    unfolding r FinancialReconciliation.simps countRows_0 using balances by blast
  moreover have "ReservationCountMismatches r = 0"
    unfolding r FinancialReconciliation.simps countRows_0 by (fastforce dest: resting_status [OF assms(1)])
  ultimately show ?thesis using run by blast
qed

theorem wallet_balance_is_ledger_sum_witness:
  "\<exists>r. ReconciliationService_Run w_settled = (Inr r, w_settled) \<and> FinancialReconciliation_Clean r \<and>
     map wal_balance_vnd (wallet_accounts w_settled) = [80000 - 50000]"
proof -
  obtain r where r: "ReconciliationService_Run w_settled = (Inr r, w_settled)"
      "CompletedEventsWithoutPayment r = 0" "ConfirmedPaymentsWithoutOutcome r = 0" "ReviewCasesWithoutReason r = 0"
    by (simp add: ReconciliationService_Run_def GetFinancialReconciliation_def askE_def countRows_def w_settled_eval)
  then show ?thesis
    using wallet_balance_is_ledger_sum [OF w_settled_reachable r(1)] w_settled_rows(2)
    by (auto simp: FinancialReconciliation_Clean_def)
qed

text \<open>
  C5. Stock is exclusive: an item that is reserved for or sold to an order is not in the active
  list of any other order, and no item is in the active lists of two orders.
\<close>

theorem stock_is_exclusive:
  assumes "reachable s" "m \<in> set (order_inventory s)" "map_status m = ''active''"
  shows "(\<forall>i \<in> set (inventory_items s). \<forall>k. inv_id i = map_inventory_item_id m \<and> (reservedFor k i \<or> soldTo k i)
      \<longrightarrow> k = map_order_id m) \<and>
    (\<forall>n \<in> set (order_inventory s). map_status n = ''active'' \<and>
      map_inventory_item_id n = map_inventory_item_id m \<longrightarrow> map_order_id n = map_order_id m)"
proof -
  have own: "k = l" if "j \<in> file_items (fileOf s k)" "j \<in> file_items (fileOf s l)" for j k l
    using shop_exclusive [OF reachable_ok [OF assms(1)]] that by (auto simp: exclusive_def view_def)
  have items: "mappedTo k n \<Longrightarrow> n \<in> set (order_inventory s) \<Longrightarrow> map_inventory_item_id n \<in> file_items (fileOf s k)"
    "reservedFor k i \<or> soldTo k i \<Longrightarrow> i \<in> set (inventory_items s) \<Longrightarrow> inv_id i \<in> file_items (fileOf s k)" for k n i
    by (auto simp: file_items_def fileOf_def Let_def)
  have m: "map_inventory_item_id m \<in> file_items (fileOf s (map_order_id m))"
    using items(1) assms(2,3) by (simp add: mappedTo_def)
  show ?thesis
  proof (intro conjI ballI allI impI)
    show "k = map_order_id m" if "i \<in> set (inventory_items s)"
      "inv_id i = map_inventory_item_id m \<and> (reservedFor k i \<or> soldTo k i)" for i k
      using own [OF _ m] items(2) [of k i] that by auto
    show "map_order_id n = map_order_id m" if "n \<in> set (order_inventory s)"
      "map_status n = ''active'' \<and> map_inventory_item_id n = map_inventory_item_id m" for n
      using own [OF _ m] items(1) [of "map_order_id n" n] that by (auto simp: mappedTo_def)
  qed
qed

theorem stock_is_exclusive_witness:
  "\<exists>m \<in> set (order_inventory d_delivered). \<exists>i \<in> set (inventory_items d_delivered).
     map_inventory_item_id m = inv_id i \<and> soldTo 1 i \<and> map_order_id m = 1"
proof -
  obtain m i where "order_inventory d_delivered = [m]" "inventory_items d_delivered = [i]"
      "map_status m = ''active''" "map_inventory_item_id m = inv_id i" "soldTo 1 i"
    by (simp add: d_delivered_eval soldTo_def)
  then show ?thesis
    using stock_is_exclusive [OF d_delivered_reachable, of m] by simp
qed

text \<open>
  C6. The audit trail is complete: for every order the recorded history starts at pending
  payment, each entry continues from the one before along a legal transition, and the last entry is the order's
  present status. No status change goes unrecorded.
\<close>

theorem history_replays_to_status:
  assumes "reachable s" "x \<in> set (orders s)"
  shows "replays None (trailOf (ord_id x) (order_history s)) (Some (ord_status x))"
  using order_file [OF assms] file_rows(4) [OF assms] by (simp add: file_ok_def)

theorem history_replays_to_status_witness:
  "trailOf 1 (order_history d_delivered) =
     [(None, OrderStatusPendingPayment), (Some OrderStatusPendingPayment, OrderStatusPaid),
      (Some OrderStatusPaid, OrderStatusReserving), (Some OrderStatusReserving, OrderStatusDelivering),
      (Some OrderStatusDelivering, OrderStatusDelivered)] \<and>
   replays None (trailOf 1 (order_history d_delivered)) (Some OrderStatusDelivered)"
proof -
  obtain x where "orders d_delivered = [x]" "ord_status x = OrderStatusDelivered" "ord_id x = 1"
    by (simp add: d_delivered_eval)
  then show ?thesis
    using history_replays_to_status [OF d_delivered_reachable, of x] by (simp add: d_delivered_eval trailOf_def)
qed

text \<open>
  C7. An order is charged exactly once and only when it is served: money is allocated to it, one
  allocation of its total, precisely while it is being delivered, failed to be delivered, or was
  delivered; all its stock is set aside at the same time.
\<close>

theorem charged_once:
  assumes "reachable s" "x \<in> set (orders s)"
  shows "allocationsOf ''order'' (ord_id x) (payment_allocations s) =
     (if ord_status x \<in> {OrderStatusDelivering, OrderStatusDeliveryFailed, OrderStatusDelivered}
      then [ord_total_vnd x] else []) \<and>
   countRows (\<lambda>i. reservedFor (ord_id x) i \<or> soldTo (ord_id x) i) (inventory_items s) =
     (if ord_status x \<in> {OrderStatusDelivering, OrderStatusDeliveryFailed, OrderStatusDelivered}
      then sum_list (map oit_quantity (itemsOf s (ord_id x))) else 0)"
proof -
  have split: "countRows (\<lambda>i. reservedFor (ord_id x) i \<or> soldTo (ord_id x) i) rows =
      countRows (reservedFor (ord_id x)) rows + countRows (soldTo (ord_id x)) rows" for rows
    by (induction rows) (auto simp: countRows_def reservedFor_def soldTo_def)
  show ?thesis
    unfolding split
    using order_file [OF assms] resting_status [OF assms] file_rows(1-3) [OF assms] file_rows(5,6) [OF assms, symmetric]
    by (auto simp: file_defs)
qed

theorem charged_once_witness:
  "\<exists>x y. orders d_paid = [x] \<and> orders d_ordered = [y] \<and>
     allocationsOf ''order'' (ord_id x) (payment_allocations d_paid) = [50000] \<and>
     allocationsOf ''order'' (ord_id y) (payment_allocations d_ordered) = []"
proof -
  obtain x where "orders d_paid = [x]" "ord_status x = OrderStatusDelivering" "ord_total_vnd x = 50000"
    by (simp add: d_paid_eval)
  moreover obtain y where "orders d_ordered = [y]" "ord_status y = OrderStatusPendingPayment"
    by (simp add: d_ordered_eval)
  ultimately show ?thesis
    using charged_once [OF d_paid_reachable, of x] charged_once [OF d_ordered_reachable, of y] by simp
qed

text \<open>
  Between transactions an order rests in one of seven statuses only: \<open>paid\<close> and \<open>reserving\<close> exist
  only inside the transaction that settles the payment, and the schema's other statuses are never
  entered.
\<close>

theorem resting_statuses:
  assumes "reachable s" "x \<in> set (orders s)"
  shows "ord_status x \<in> {OrderStatusPendingPayment, OrderStatusCancelled, OrderStatusExpired,
    OrderStatusOutOfStock, OrderStatusDelivering, OrderStatusDeliveryFailed, OrderStatusDelivered}"
  by (rule resting_status [OF assms])

theorem resting_statuses_witness:
  "\<exists>x. orders d_paid = [x] \<and> ord_status x \<noteq> OrderStatusPaid \<and> ord_status x \<noteq> OrderStatusReserving"
proof -
  obtain x where "orders d_paid = [x]" by (simp add: d_paid_eval)
  then show ?thesis using resting_statuses [OF d_paid_reachable, of x] by auto
qed

text \<open>
  A wallet top-up is credited by exactly one payment of exactly its amount, and one that is
  not credited has received nothing.
\<close>

theorem topup_credited_once:
  assumes "reachable s" "t \<in> set (wallet_topups s)"
  shows "allocationsOf ''wallet_topup'' (top_id t) (payment_allocations s) =
    (if top_status t = ''credited'' then [top_amount_vnd t] else [])"
  using shop_topup [OF reachable_ok [OF assms(1)], of "top_id t"] topup_found [OF reachable_schema [OF assms(1)] assms(2)]
  by (simp add: view_def topupOf_def topup_ok_def split: if_splits)

theorem topup_credited_once_witness:
  "\<exists>t. wallet_topups w_credited = [t] \<and> top_status t = ''credited'' \<and>
     allocationsOf ''wallet_topup'' (top_id t) (payment_allocations w_credited) = [80000]"
proof -
  obtain t where "wallet_topups w_credited = [t]" "top_status t = ''credited''" "top_amount_vnd t = 80000"
    by (simp add: w_credited_eval)
  then show ?thesis using topup_credited_once [OF w_credited_reachable, of t] by simp
qed

section \<open>Histories of runs\<close>

lemma d_run: "shop_step\<^sup>*\<^sup>* d_ordered d_delivered"
proof -
  have "shop_step\<^sup>*\<^sup>* d_sending d_delivered" using d_delivery_step by blast
  moreover have "shop_step d_claimed d_sending"
    unfolding d_sending_def by (rule sh_begin [OF prod.collapse [symmetric]])
  moreover have "shop_step d_paid d_claimed"
    unfolding d_claimed_def by (rule sh_jobs [OF prod.collapse [symmetric]])
  moreover have "shop_step d_ordered d_paid"
    unfolding d_paid_def accept_at_def by (rule sh_accept [OF prod.collapse [symmetric]])
  ultimately show ?thesis by (meson converse_rtranclp_into_rtranclp)
qed

text \<open>
  C8. An order never vanishes, keeps its customer, price, payment reference, idempotency key,
  deadline, bank snapshot and environment, and moves only along the legal transitions; its version never
  goes back.
\<close>

theorem orders_only_move_forward:
  assumes "reachable s" "shop_step\<^sup>*\<^sup>* s s'" "x \<in> set (orders s)"
  shows "\<exists>y \<in> set (orders s'). same_order x y \<and> CanTransitionOrder\<^sup>*\<^sup>* (ord_status x) (ord_status y) \<and>
    ord_version x \<le> ord_version y"
  using order_life.steps_related [OF assms(2) reachable_schema [OF assms(1)]] assms(3)
  by (auto simp: orders_evolve_def follow_def later_order_def)

theorem orders_only_move_forward_witness:
  "\<exists>x. orders d_ordered = [x] \<and> ord_status x = OrderStatusPendingPayment \<and>
     (\<exists>y \<in> set (orders d_delivered). same_order x y \<and> CanTransitionOrder\<^sup>*\<^sup>* (ord_status x) OrderStatusDelivered)"
proof -
  obtain x y where "orders d_ordered = [x]" "ord_status x = OrderStatusPendingPayment"
      "orders d_delivered = [y]" "ord_status y = OrderStatusDelivered"
    by (simp add: d_ordered_eval d_delivered_eval)
  then show ?thesis
    using orders_only_move_forward [OF d_ordered_reachable d_run, of x] by auto
qed

text \<open>
  C9. A sale is final, and what was sold cannot be tampered with: an item that is sold stays sold to the same order in
  every later state; and no step changes the encrypted payload, the key version or the fingerprint of any item.
\<close>

theorem sold_is_final:
  assumes "reachable s" "shop_step\<^sup>*\<^sup>* s s'" "i \<in> set (inventory_items s)"
  shows "\<exists>j \<in> set (inventory_items s'). same_stock i j \<and>
    (inv_status i = InventoryStatusSold \<longrightarrow>
       inv_status j = InventoryStatusSold \<and> inv_sold_order_id j = inv_sold_order_id i)"
  using stock_life.steps_related [OF assms(2) reachable_schema [OF assms(1)]] assms(3)
  by (auto simp: stock_evolves_def follow_def later_stock_def)

theorem sold_is_final_witness:
  "\<exists>i. inventory_items d_ordered = [i] \<and> (\<exists>j \<in> set (inventory_items d_delivered). same_stock i j \<and>
     inv_status i = InventoryStatusAvailable \<and> inv_status j = InventoryStatusSold)"
proof -
  obtain i j where "inventory_items d_ordered = [i]" "inventory_items d_delivered = [j]"
      "inv_status i = InventoryStatusAvailable" "inv_status j = InventoryStatusSold"
    by (simp add: d_ordered_eval d_delivered_eval)
  then show ?thesis using sold_is_final [OF d_ordered_reachable d_run, of i] by auto
qed

text \<open>
  C10. The books are append-only: order histories and items, payments, allocations, wallet ledger
  entries, delivery attempts and audit entries are never changed or removed by any run.
\<close>

theorem books_are_append_only:
  assumes "reachable s" "shop_step\<^sup>*\<^sup>* s s'"
  shows "(\<exists>h. order_history s' = order_history s @ h) \<and> (\<exists>i. order_items s' = order_items s @ i) \<and>
    (\<exists>p. payments s' = payments s @ p) \<and> (\<exists>a. payment_allocations s' = payment_allocations s @ a) \<and>
    (\<exists>l. wallet_ledger s' = wallet_ledger s @ l) \<and> (\<exists>d. delivery_attempts s' = delivery_attempts s @ d) \<and>
    (\<exists>g. audit_logs s' = audit_logs s @ g)"
  using record_life.steps_related [OF assms(2) reachable_schema [OF assms(1)]]
  by (simp add: records_grow_def grows_def)

theorem books_are_append_only_witness:
  "\<exists>h. order_history d_delivered = order_history d_ordered @ h \<and> length h = 4"
proof -
  have "length (order_history d_delivered) = 5" "length (order_history d_ordered) = 1"
    by (simp_all add: d_ordered_eval d_delivered_eval)
  then show ?thesis
    using books_are_append_only [OF d_ordered_reachable d_run] by auto
qed

text \<open>
  C11. Queue jobs are never lost: a job keeps its order, recipient and deduplication key, moves only along the
  delivery machine (with the manual retry of a waiting job), counts its attempts up, and once completed
  stays completed: it is never sent again.
\<close>

theorem jobs_only_move_forward:
  assumes "reachable s" "shop_step\<^sup>*\<^sup>* s s'" "i \<in> set (outbox_events s)"
  shows "\<exists>j \<in> set (outbox_events s'). same_job i j \<and> queue_move\<^sup>*\<^sup>* (job_status i) (job_status j) \<and>
    job_attempts i \<le> job_attempts j \<and>
    (job_status i = DeliveryJobCompleted \<longrightarrow> job_status j = DeliveryJobCompleted)"
  using job_life.steps_related [OF assms(2) reachable_schema [OF assms(1)]] assms(3)
  unfolding jobs_evolve_def follow_def later_job_def using completed_stays by metis

theorem jobs_only_move_forward_witness:
  "\<exists>i. outbox_events d_paid = [i] \<and> job_attempts i = 0 \<and>
     (\<exists>j \<in> set (outbox_events d_delivered). same_job i j \<and> job_attempts j = 1 \<and> queue_move\<^sup>*\<^sup>* (job_status i) (job_status j))"
proof -
  have run: "shop_step\<^sup>*\<^sup>* d_paid d_delivered"
    using d_delivery_step sh_begin [OF prod.collapse [symmetric]] sh_jobs [OF prod.collapse [symmetric]]
    unfolding d_sending_def d_claimed_def by (meson converse_rtranclp_into_rtranclp rtranclp.rtrancl_refl)
  obtain i j where "outbox_events d_paid = [i]" "job_attempts i = 0" "outbox_events d_delivered = [j]" "job_attempts j = 1"
    by (simp add: d_paid_eval d_delivered_eval)
  then show ?thesis using jobs_only_move_forward [OF d_paid_reachable run, of i] by auto
qed

end
